(* ===== verification/Prelude.thy ===== *)
theory Prelude
  imports
    Complex_Main
    "HOL-Library.Char_ord"
    "HOL-Library.List_Lexorder"
    "HOL-Library.Product_Lexorder"
begin

text \<open>
  The vocabulary every component shares: the Python string operations the sources use, the
  result type for functions that raise, and the list lemmas behind deterministic ordering.

  A Python \<open>str\<close> is modelled as a \<open>string\<close> whose characters are the code points
  U+0000 to U+00FF. On these the operations are exact: \<open>ord\<close>, the white space that
  \<open>str.strip\<close> removes, \<open>str.casefold\<close> (U+00DF folds to two letters), and the UTF-8
  length (one byte below U+0080, two bytes above). The one exception is U+00B5, whose case folding
  U+03BC lies outside the range; it is kept as itself, which identifies and separates the same
  strings, since nothing else in the range folds to it.
\<close>

named_theorems py_simps \<open>unfolding of the Python string operations\<close>
named_theorems valid_defs \<open>validators of the data models\<close>
named_theorems result_simps \<open>constructors of result values\<close>

section \<open>Results of functions that raise\<close>

text \<open>
  A function that may raise returns \<open>'e + 'a\<close>: \<open>Inl\<close> the error, \<open>Inr\<close> the value.
  \<open>bindE\<close> is the sequencing of statements: the first error ends the function.
\<close>

definition bindE :: "'e + 'a \<Rightarrow> ('a \<Rightarrow> 'e + 'b) \<Rightarrow> 'e + 'b" where
  "bindE m f = (case m of Inl e \<Rightarrow> Inl e | Inr x \<Rightarrow> f x)"

lemma bindE_simps [simp]:
  "bindE (Inl e) f = Inl e"
  "bindE (Inr x) f = f x"
  by (simp_all add: bindE_def)

lemma bindE_eq_Inr: "bindE m f = Inr y \<longleftrightarrow> (\<exists>x. m = Inr x \<and> f x = Inr y)"
  by (cases m) auto

lemma bindE_eq_Inl: "bindE m f = Inl e \<longleftrightarrow> m = Inl e \<or> (\<exists>x. m = Inr x \<and> f x = Inl e)"
  by (cases m) auto

lemma bindE_cong [fundef_cong]:
  "m = m' \<Longrightarrow> (\<And>x. m' = Inr x \<Longrightarrow> f x = g x) \<Longrightarrow> bindE m f = bindE m' g"
  by (cases m') auto

definition guardE :: "'e \<Rightarrow> bool \<Rightarrow> 'e + unit" where
  "guardE e b = (if b then Inr () else Inl e)"

lemma guardE_eq [simp]:
  "guardE e b = Inr u \<longleftrightarrow> b"
  "guardE e b = Inl e' \<longleftrightarrow> \<not> b \<and> e' = e"
  by (auto simp: guardE_def)

section \<open>Python strings\<close>

definition code :: "char \<Rightarrow> nat" where
  "code c = of_char c"

definition newline :: char where "newline = CHR 0x0A"
definition carriage_return :: char where "carriage_return = CHR 0x0D"
definition backslash :: char where "backslash = CHR 0x5C"
definition nul :: char where "nul = CHR 0x00"

text \<open>\<open>value.startswith(prefix)\<close>, \<open>value.endswith(suffix)\<close>\<close>

fun startswith :: "string \<Rightarrow> string \<Rightarrow> bool" where
  "startswith s [] = True"
| "startswith [] (p # ps) = False"
| "startswith (c # cs) (p # ps) = (c = p \<and> startswith cs ps)"

definition endswith :: "string \<Rightarrow> string \<Rightarrow> bool" where
  "endswith s t = startswith (rev s) (rev t)"

lemma startswith_append [simp]: "startswith (p @ s) p"
  by (induction p) auto

lemma startswith_iff: "startswith s p \<longleftrightarrow> (\<exists>r. s = p @ r)"
  by (induction s p rule: startswith.induct) auto

lemma startswith_drop: "startswith s p \<Longrightarrow> p @ drop (length p) s = s"
  by (auto simp: startswith_iff)

lemma endswith_iff: "endswith s t \<longleftrightarrow> (\<exists>r. s = r @ t)"
  unfolding endswith_def startswith_iff
  by (metis rev_append rev_rev_ident)

text \<open>\<open>needle in haystack\<close>\<close>

fun contains :: "string \<Rightarrow> string \<Rightarrow> bool" where
  "contains [] p = (p = [])"
| "contains (c # cs) p = (startswith (c # cs) p \<or> contains cs p)"

lemma contains_Cons_iff:
  "(\<exists>u v. c # cs = u @ p @ v) \<longleftrightarrow> startswith (c # cs) p \<or> (\<exists>u v. cs = u @ p @ v)"
proof
  assume "\<exists>u v. c # cs = u @ p @ v"
  then obtain u v where uv: "c # cs = u @ p @ v" by blast
  show "startswith (c # cs) p \<or> (\<exists>u v. cs = u @ p @ v)"
  proof (cases u)
    case Nil
    with uv show ?thesis by (simp only: append_Nil startswith_iff) blast
  next
    case (Cons a u')
    with uv show ?thesis by auto
  qed
next
  assume "startswith (c # cs) p \<or> (\<exists>u v. cs = u @ p @ v)"
  then show "\<exists>u v. c # cs = u @ p @ v"
    unfolding startswith_iff by (metis append_Cons append_Nil)
qed

lemma contains_iff: "contains s p \<longleftrightarrow> (\<exists>u v. s = u @ p @ v)"
proof (induction s)
  case (Cons c cs)
  then show ?case by (simp only: contains.simps contains_Cons_iff)
qed auto

lemma contains_length: "contains s p \<Longrightarrow> length p \<le> length s"
  by (auto simp: contains_iff)

text \<open>\<open>value.split(sep)\<close> for a separator of one character, and \<open>sep.join(parts)\<close>\<close>

fun split_on :: "char \<Rightarrow> string \<Rightarrow> string list" where
  "split_on c [] = [[]]"
| "split_on c (x # xs) =
     (if x = c then [] # split_on c xs
      else (case split_on c xs of [] \<Rightarrow> [[x]] | p # ps \<Rightarrow> (x # p) # ps))"

fun join_with :: "char \<Rightarrow> string list \<Rightarrow> string" where
  "join_with c [] = []"
| "join_with c [p] = p"
| "join_with c (p # q # ps) = p @ c # join_with c (q # ps)"

lemma split_on_nonempty [simp]: "split_on c s \<noteq> []"
  by (cases s) (auto split: list.splits)

lemma join_with_Cons: "ps \<noteq> [] \<Longrightarrow> join_with c (p # ps) = p @ c # join_with c ps"
  by (cases ps) simp_all

lemma join_with_Cons_Cons: "join_with c ((x # p) # ps) = x # join_with c (p # ps)"
  by (cases ps) simp_all

lemma join_split [simp]: "join_with c (split_on c s) = s"
proof (induction s)
  case (Cons x xs)
  obtain p ps where "split_on c xs = p # ps" by (cases "split_on c xs") simp_all
  with Cons show ?case by (simp add: join_with_Cons_Cons)
qed simp

lemma split_on_no_sep: "p \<in> set (split_on c s) \<Longrightarrow> c \<notin> set p"
  by (induction s arbitrary: p) (auto split: if_splits list.splits)

lemma split_on_single: "c \<notin> set s \<Longrightarrow> split_on c s = [s]"
  by (induction s) auto

lemma split_on_append: "c \<notin> set p \<Longrightarrow> split_on c (p @ c # s) = p # split_on c s"
  by (induction p) auto

lemma split_join: "ps \<noteq> [] \<Longrightarrow> \<forall>p \<in> set ps. c \<notin> set p \<Longrightarrow> split_on c (join_with c ps) = ps"
  by (induction c ps rule: join_with.induct) (auto simp: split_on_single split_on_append)

text \<open>\<open>value.replace(old, new)\<close> for a non-empty \<open>old\<close>: left to right, no overlaps\<close>

function py_replace :: "string \<Rightarrow> string \<Rightarrow> string \<Rightarrow> string" where
  "py_replace old new [] = []"
| "py_replace old new (c # cs) =
     (if old \<noteq> [] \<and> startswith (c # cs) old
      then new @ py_replace old new (drop (length old) (c # cs))
      else c # py_replace old new cs)"
  by pat_completeness auto
termination by (relation "measure (\<lambda>(old, new, s). length s)") (auto simp: neq_Nil_conv)

text \<open>\<open>str.isspace\<close> on one character, \<open>str.strip\<close>, \<open>str.lstrip\<close>\<close>

definition is_space :: "char \<Rightarrow> bool" where
  "is_space c = (let n = code c in
     (9 \<le> n \<and> n \<le> 13) \<or> (28 \<le> n \<and> n \<le> 32) \<or> n = 133 \<or> n = 160)"

definition lstrip :: "string \<Rightarrow> string" where
  "lstrip s = dropWhile is_space s"

definition strip :: "string \<Rightarrow> string" where
  "strip s = rev (dropWhile is_space (rev (lstrip s)))"

text \<open>\<open>str.casefold\<close>\<close>

definition fold_char :: "char \<Rightarrow> string" where
  "fold_char c = (let n = code c in
     if (65 \<le> n \<and> n \<le> 90) \<or> (192 \<le> n \<and> n \<le> 222 \<and> n \<noteq> 215) then [char_of (n + 32)]
     else if n = 223 then ''ss''
     else [c])"

definition casefold :: "string \<Rightarrow> string" where
  "casefold s = concat (map fold_char s)"

text \<open>\<open>len(value.encode("utf-8"))\<close>\<close>

definition utf8_char_len :: "char \<Rightarrow> nat" where
  "utf8_char_len c = (if code c < 128 then 1 else 2)"

definition utf8_len :: "string \<Rightarrow> nat" where
  "utf8_len s = sum_list (map utf8_char_len s)"

lemma utf8_len_append [simp]: "utf8_len (s @ t) = utf8_len s + utf8_len t"
  by (simp add: utf8_len_def)

lemma utf8_len_Nil [simp]: "utf8_len [] = 0"
  by (simp add: utf8_len_def)

lemma utf8_len_Cons [simp]: "utf8_len (c # s) = utf8_char_len c + utf8_len s"
  by (simp add: utf8_len_def)

lemma utf8_char_len_pos [simp]: "0 < utf8_char_len c"
  by (simp add: utf8_char_len_def)

lemma length_le_utf8_len: "length s \<le> utf8_len s"
proof (induction s)
  case (Cons c s)
  have "1 \<le> utf8_char_len c" by (simp add: utf8_char_len_def)
  with Cons show ?case by (simp del: utf8_char_len_pos)
qed simp

text \<open>
  A non-blank string of the data models: trimmed, and not empty.  The trimming is that of the
  validation library, which removes the Unicode white space (\<open>str.strip\<close> also removes
  U+001C to U+001F).
\<close>

definition is_white :: "char \<Rightarrow> bool" where
  "is_white c = (let n = code c in (9 \<le> n \<and> n \<le> 13) \<or> n = 32 \<or> n = 133 \<or> n = 160)"

definition trim :: "string \<Rightarrow> string" where
  "trim s = rev (dropWhile is_white (rev (dropWhile is_white s)))"

definition non_blank :: "string \<Rightarrow> bool" where
  [valid_defs]: "non_blank s \<longleftrightarrow> s \<noteq> [] \<and> trim s = s"

section \<open>Decimal numbers\<close>

definition is_digit :: "char \<Rightarrow> bool" where
  "is_digit c = (48 \<le> code c \<and> code c \<le> 57)"

definition digit_value :: "char \<Rightarrow> nat" where
  "digit_value c = code c - 48"

text \<open>\<open>int(value)\<close> on a string of ASCII digits\<close>

fun int_of_digits_acc :: "nat \<Rightarrow> string \<Rightarrow> nat" where
  "int_of_digits_acc n [] = n"
| "int_of_digits_acc n (c # cs) = int_of_digits_acc (10 * n + digit_value c) cs"

definition int_of_digits :: "string \<Rightarrow> nat" where
  "int_of_digits s = int_of_digits_acc 0 s"

lemma int_of_digits_acc_append:
  "int_of_digits_acc n (s @ t) = int_of_digits_acc (int_of_digits_acc n s) t"
  by (induction n s rule: int_of_digits_acc.induct) auto

text \<open>\<open>str(value)\<close> of a non-negative integer\<close>

function decimal :: "nat \<Rightarrow> string" where
  "decimal n = (if n < 10 then [char_of (48 + n)] else decimal (n div 10) @ [char_of (48 + n mod 10)])"
  by pat_completeness auto
termination by (relation "measure id") auto

declare decimal.simps [simp del]

lemma code_digit: "n < 10 \<Longrightarrow> code (char_of (48 + n)) = 48 + n"
  by (simp add: code_def)

lemma decimal_digits: "list_all is_digit (decimal n)"
proof (induction n rule: decimal.induct)
  case (1 n)
  have d: "is_digit (char_of (48 + m))" if "m < 10" for m :: nat
    using that by (simp add: is_digit_def code_digit)
  from 1 d [of n] d [of "n mod 10"] show ?case by (subst decimal.simps) auto
qed

lemma decimal_nonempty [simp]: "decimal n \<noteq> []"
  by (subst decimal.simps) simp

lemma int_of_digits_decimal [simp]: "int_of_digits (decimal n) = n"
proof (induction n rule: decimal.induct)
  case (1 n)
  show ?case
  proof (cases "n < 10")
    case True
    then show ?thesis by (subst decimal.simps) (simp add: int_of_digits_def digit_value_def code_digit)
  next
    case False
    with 1 show ?thesis
      by (subst decimal.simps)
         (simp add: int_of_digits_def int_of_digits_acc_append digit_value_def code_digit)
  qed
qed

lemma decimal_head: "0 < n \<Longrightarrow> hd (decimal n) \<noteq> CHR ''0''"
proof (induction n rule: decimal.induct)
  case (1 n)
  show ?case
  proof (cases "n < 10")
    case True
    then have "code (char_of (48 + n)) = 48 + n" by (rule code_digit)
    moreover have "code (CHR ''0'') = 48" by (simp add: code_def)
    ultimately have "char_of (48 + n) \<noteq> CHR ''0''" using 1(2) by (metis add_cancel_right_right neq0_conv)
    with True show ?thesis by (subst decimal.simps) simp
  next
    case False
    with 1 have "hd (decimal (n div 10)) \<noteq> CHR ''0''" by simp
    with False show ?thesis by (subst decimal.simps) simp
  qed
qed

lemma decimal_zero: "decimal 0 = ''0''"
  by code_simp

section \<open>Floats\<close>

text \<open>A Python \<open>float\<close>: the finite ones by value, and the three others.\<close>

datatype pyfloat = Finite rat | PosInfinity | NegInfinity | NotANumber

fun finite_at_least :: "rat \<Rightarrow> pyfloat \<Rightarrow> bool" where
  "finite_at_least q (Finite x) = (q \<le> x)"
| "finite_at_least q _ = False"

fun finite_at_most :: "rat \<Rightarrow> pyfloat \<Rightarrow> bool" where
  "finite_at_most q (Finite x) = (x \<le> q)"
| "finite_at_most q _ = False"

text \<open>An optional component is absent or valid.\<close>

definition opt_valid :: "('a \<Rightarrow> bool) \<Rightarrow> 'a option \<Rightarrow> bool" where
  [valid_defs]: "opt_valid P x = (case x of None \<Rightarrow> True | Some y \<Rightarrow> P y)"

lemma opt_valid_simps [simp]: "opt_valid P None" "opt_valid P (Some x) \<longleftrightarrow> P x"
  by (simp_all add: opt_valid_def)

text \<open>A lower-case hexadecimal string of a given length (the digests and identifiers).\<close>

definition is_lower_hex :: "char \<Rightarrow> bool" where
  "is_lower_hex c = (is_digit c \<or> (97 \<le> code c \<and> code c \<le> 102))"

definition hex_string :: "nat \<Rightarrow> string \<Rightarrow> bool" where
  "hex_string n s = (length s = n \<and> list_all is_lower_hex s)"

section \<open>Ordering\<close>

text \<open>\<open>sorted(values, key=f)\<close> is stable: it is \<open>sort_key\<close>.\<close>

lemma distinct_keys_dedup: "distinct (map f xs) \<Longrightarrow> x \<in> set xs \<Longrightarrow> y \<in> set xs \<Longrightarrow> f x = f y \<Longrightarrow> x = y"
  by (auto simp: distinct_map inj_on_def)

lemma list_all_snoc [simp]: "list_all P (xs @ [x]) \<longleftrightarrow> list_all P xs \<and> P x"
  by auto

end
