(* ===== verification/Paths.thy ===== *)
theory Paths
  imports Prelude
begin

text \<open>
  Path values: the parts of \<open>PurePosixPath\<close> and \<open>PureWindowsPath\<close> the sources use on
  relative paths, the repository-path gate \<open>normalize_repository_paths\<close> of
  \<open>app/agent/patches.py\<close>, and the prefix tests every path policy is built from.
  A \<open>PurePosixPath\<close> is represented by its \<open>as_posix()\<close> text.
\<close>

section \<open>PurePosixPath and PureWindowsPath\<close>

definition slash :: char where "slash = CHR ''/''"

text \<open>\<open>PurePosixPath(s).parts\<close> without the root, and the root\<close>

definition posix_parts :: "string \<Rightarrow> string list" where
  "posix_parts s = filter (\<lambda>p. p \<noteq> [] \<and> p \<noteq> ''.'') (split_on slash s)"

definition posix_root :: "string \<Rightarrow> string" where
  "posix_root s = (let n = length (takeWhile (\<lambda>c. c = slash) s) in
     if n = 0 then [] else if n = 2 then [slash, slash] else [slash])"

definition is_absolute :: "string \<Rightarrow> bool" where
  "is_absolute s = (posix_root s \<noteq> [])"

definition as_posix :: "string \<Rightarrow> string" where
  "as_posix s =
     (if posix_root s = [] \<and> posix_parts s = [] then ''.''
      else posix_root s @ join_with slash (posix_parts s))"

definition path_name :: "string \<Rightarrow> string" where
  "path_name s = (if posix_parts s = [] then [] else last (posix_parts s))"

text \<open>\<open>os.path.splitext\<close> of the name: the suffix starts at the last dot that a non-dot precedes\<close>

definition path_suffix :: "string \<Rightarrow> string" where
  "path_suffix s =
     (let n = path_name s; tail = takeWhile (\<lambda>c. c \<noteq> CHR ''.'') (rev n);
          before = drop (Suc (length tail)) (rev n)
      in if length tail = length n \<or> list_all (\<lambda>c. c = CHR ''.'') before then []
         else CHR ''.'' # rev tail)"

definition path_stem :: "string \<Rightarrow> string" where
  "path_stem s = (let n = path_name s in take (length n - length (path_suffix s)) n)"

text \<open>\<open>PureWindowsPath(s).drive or PureWindowsPath(s).root\<close>: a leading separator, or a colon in
  second place\<close>

definition windows_drive_or_root :: "string \<Rightarrow> bool" where
  "windows_drive_or_root s =
     (case s of [] \<Rightarrow> False
      | c # cs \<Rightarrow> c = slash \<or> c = backslash \<or> (case cs of [] \<Rightarrow> False | d # _ \<Rightarrow> d = CHR '':''))"

section \<open>Repository paths\<close>

text \<open>The errors of \<open>UnifiedDiffError\<close>, one constructor per message.\<close>

datatype diff_error =
    MisplacedNoNewline
  | RepeatedNoNewline
  | PathRequired
  | PathNotNormalized
  | CaseFoldAlias
  | UnsupportedPrefix
  | NullPair
  | HeadersDisagree
  | DuplicateIdentity
  | HeadersNotPaired
  | UnsupportedHeader
  | BinaryHunkContent
  | BinaryMarkerMissing
  | CoordinateTooLarge
  | ContainsNul
  | MalformedHunkContent
  | CountsDisagree
  | FileWithoutHunk
  | MalformedHunk
  | InvalidZeroStart
  | ContentOutsideHunk
  | NoFilePairAndHunk

definition is_control :: "char \<Rightarrow> bool" where
  "is_control c = (code c < 32 \<or> (127 \<le> code c \<and> code c \<le> 159))"

text \<open>The condition under which one value is rejected, in the order of the source.\<close>

definition path_rejected :: "string \<Rightarrow> bool" where
  "path_rejected value =
     (value = []
      \<or> nul \<in> set value
      \<or> backslash \<in> set value
      \<or> value \<noteq> strip value
      \<or> list_ex is_control value
      \<or> windows_drive_or_root value
      \<or> is_absolute value
      \<or> list_ex (\<lambda>part. part \<in> {[], ''.'', ''..''}) (split_on slash value)
      \<or> as_posix value \<noteq> value)"

fun normalize_loop :: "string list \<Rightarrow> string list \<Rightarrow> string list \<Rightarrow> diff_error + string list" where
  "normalize_loop normalized identities [] = Inr normalized"
| "normalize_loop normalized identities (value # values) =
     (if path_rejected value then Inl PathNotNormalized
      else if casefold value \<in> set identities then Inl CaseFoldAlias
      else normalize_loop (normalized @ [value]) (casefold value # identities) values)"

definition normalize_repository_paths :: "string list \<Rightarrow> diff_error + string list" where
  "normalize_repository_paths paths =
     (if paths = [] then Inl PathRequired else normalize_loop [] [] paths)"

text \<open>The declarative reading: accepted values are returned unchanged, and are pairwise distinct
  under case folding.\<close>

lemma normalize_loop_Inr:
  "normalize_loop acc ids ps = Inr qs \<longleftrightarrow>
     qs = acc @ ps \<and> (\<forall>p \<in> set ps. \<not> path_rejected p) \<and> distinct (map casefold ps) \<and>
     set (map casefold ps) \<inter> set ids = {}"
  by (induction acc ids ps rule: normalize_loop.induct) auto

lemma normalize_Inr:
  "normalize_repository_paths ps = Inr qs \<longleftrightarrow>
     ps \<noteq> [] \<and> qs = ps \<and> (\<forall>p \<in> set ps. \<not> path_rejected p) \<and> distinct (map casefold ps)"
  by (auto simp: normalize_repository_paths_def normalize_loop_Inr)

lemma normalize_single: "normalize_repository_paths [p] = Inr qs \<longleftrightarrow> qs = [p] \<and> \<not> path_rejected p"
  by (auto simp: normalize_Inr)

lemma not_rejected_parts:
  "\<not> path_rejected p \<Longrightarrow> posix_parts p = split_on slash p"
  by (auto simp: path_rejected_def posix_parts_def list_ex_iff intro!: filter_True)

lemma not_rejected_no_newline: "\<not> path_rejected p \<Longrightarrow> newline \<notin> set p"
  by (auto simp: path_rejected_def list_ex_iff is_control_def code_def newline_def)

section \<open>Prefix tests\<close>

text \<open>\<open>path_parts[:len(prefix)] == prefix\<close>, on case-folded parts\<close>

definition has_parts_prefix :: "string list \<Rightarrow> string list \<Rightarrow> bool" where
  "has_parts_prefix parts expected = (take (length expected) parts = expected)"

lemma has_parts_prefix_iff: "has_parts_prefix parts expected \<longleftrightarrow> (\<exists>rest. parts = expected @ rest)"
  by (auto simp: has_parts_prefix_def) (metis append_take_drop_id)

definition folded_parts :: "string \<Rightarrow> string list" where
  "folded_parts path = map casefold (posix_parts path)"

text \<open>\<open>path.relative_to(other)\<close> succeeds; the overlap tests that the modules repeat\<close>

definition is_relative_to :: "string \<Rightarrow> string \<Rightarrow> bool" where
  "is_relative_to path other = (posix_root path = posix_root other \<and>
     has_parts_prefix (posix_parts path) (posix_parts other))"

definition overlaps :: "string \<Rightarrow> string \<Rightarrow> bool" where
  "overlaps left right = (is_relative_to left right \<or> is_relative_to right left)"

definition same_or_ancestor :: "string \<Rightarrow> string \<Rightarrow> bool" where
  "same_or_ancestor candidate protected = is_relative_to protected candidate"

text \<open>\<open>root.joinpath(*parts)\<close>\<close>

definition join_path :: "string \<Rightarrow> string list \<Rightarrow> string" where
  "join_path r parts = posix_root r @ join_with slash (posix_parts r @ parts)"

section \<open>Properties\<close>

text \<open>\<open>normalize_repository_paths\<close> accepts a list exactly when it is not empty, no entry is
  rejected (empty, absolute, with a drive, a backslash, a control character, outer white space, a dot
  segment, or not in normal form) and no two entries are equal under case folding; it then returns
  the list unchanged.\<close>

theorem normalize_repository_paths_iff:
  "normalize_repository_paths ps = Inr qs \<longleftrightarrow>
     ps \<noteq> [] \<and> qs = ps \<and> list_all (\<lambda>p. \<not> path_rejected p) ps \<and> distinct (map casefold ps)"
  by (simp add: normalize_Inr list_all_iff)

end
