(* ===== verification/Patches.thy ===== *)
theory Patches
  imports Paths
begin

text \<open>
  The unified-diff reader of \<open>app/agent/patches.py\<close>: the parsed data, the hunk-header
  grammar, the line machine of \<open>parse_unified_diff\<close>, and \<open>parse_binary_diff_paths\<close>.
  The loop of the source runs over an index into the list of lines; here it runs over the lines
  that remain.  The file and hunk under construction are mutable objects there; here they are the
  component \<open>ps_current\<close> and the last hunk of it.
\<close>

section \<open>Parsed diffs\<close>

datatype diff_line_kind = CONTEXT | ADDED | REMOVED

record diff_line =
  dl_kind :: diff_line_kind
  dl_content :: string
  dl_old_line :: "nat option"
  dl_new_line :: "nat option"

record diff_hunk =
  dh_old_start :: nat
  dh_old_count :: nat
  dh_new_start :: nat
  dh_new_count :: nat
  dh_lines :: "diff_line list"

record diff_file =
  df_path :: string
  df_old_path :: "string option"
  df_new_path :: "string option"
  df_lines :: "diff_line list"
  df_hunks :: "diff_hunk list"
  df_old_no_final_newline :: bool
  df_new_no_final_newline :: bool
  df_old_no_final_newline_line :: "nat option"
  df_new_no_final_newline_line :: "nat option"

definition is_added :: "diff_file \<Rightarrow> bool" where
  "is_added f = (df_old_path f = None)"

definition is_deleted :: "diff_file \<Rightarrow> bool" where
  "is_deleted f = (df_new_path f = None)"

record unified_diff =
  ud_normalized_text :: string
  ud_files :: "diff_file list"
  ud_has_ignored_content :: bool

definition changed_paths :: "unified_diff \<Rightarrow> string list" where
  "changed_paths d = map df_path (ud_files d)"

definition changed_line_count :: "unified_diff \<Rightarrow> nat" where
  "changed_line_count d =
     sum_list (map (\<lambda>f. length (filter (\<lambda>l. dl_kind l \<in> {ADDED, REMOVED}) (df_lines f))) (ud_files d))"

section \<open>The hunk-header grammar\<close>

text \<open>
  \<open>@@ -START[,COUNT] +START[,COUNT] @@[ text]\<close>, where a start is \<open>0\<close> or has no leading
  zero.  A digit run is always followed by a character that is no digit, so the greedy reading is
  the only one the regular expression has.
\<close>

definition start_number :: "string \<Rightarrow> (string \<times> string) option" where
  "start_number s = (let d = takeWhile is_digit s in
     if d = [] \<or> (hd d = CHR ''0'' \<and> d \<noteq> ''0'') then None else Some (d, dropWhile is_digit s))"

definition count_suffix :: "string \<Rightarrow> (string option \<times> string) option" where
  "count_suffix s =
     (case s of
        [] \<Rightarrow> Some (None, s)
      | c # r \<Rightarrow>
          if c = CHR '','' then
            (let d = takeWhile is_digit r in
             if d = [] then None else Some (Some d, dropWhile is_digit r))
          else Some (None, s))"

definition expect :: "string \<Rightarrow> string \<Rightarrow> string option" where
  "expect lit s = (if startswith s lit then Some (drop (length lit) s) else None)"

definition header_end :: "string \<Rightarrow> bool" where
  "header_end s = (s = [] \<or> (startswith s '' '' \<and> newline \<notin> set s))"

record hunk_match =
  hm_old_start :: string
  hm_old_count :: "string option"
  hm_new_start :: string
  hm_new_count :: "string option"

definition hunk_header :: "string \<Rightarrow> hunk_match option" where
  "hunk_header line =
     Option.bind (expect ''@@ -'' line) (\<lambda>s1.
     Option.bind (start_number s1) (\<lambda>(old_start, s2).
     Option.bind (count_suffix s2) (\<lambda>(old_count, s3).
     Option.bind (expect '' +'' s3) (\<lambda>s4.
     Option.bind (start_number s4) (\<lambda>(new_start, s5).
     Option.bind (count_suffix s5) (\<lambda>(new_count, s6).
     Option.bind (expect '' @@'' s6) (\<lambda>s7.
       if header_end s7
       then Some \<lparr>hm_old_start = old_start, hm_old_count = old_count,
                  hm_new_start = new_start, hm_new_count = new_count\<rparr>
       else None)))))))"

definition max_hunk_number_digits :: nat where "max_hunk_number_digits = 18"

definition parse_hunk_number :: "string \<Rightarrow> diff_error + nat" where
  "parse_hunk_number value =
     (if length value > max_hunk_number_digits then Inl CoordinateTooLarge
      else Inr (int_of_digits value))"

definition parse_hunk_count :: "string option \<Rightarrow> diff_error + nat" where
  "parse_hunk_count value = (case value of None \<Rightarrow> Inr 1 | Some v \<Rightarrow> parse_hunk_number v)"

section \<open>File headers\<close>

definition dev_null :: string where "dev_null = ''/dev/null''"

definition diff_header_path :: "string \<Rightarrow> string \<Rightarrow> diff_error + string option" where
  "diff_header_path value prefix =
     (if value = dev_null then Inr None
      else if \<not> startswith value prefix then Inl UnsupportedPrefix
      else bindE (normalize_repository_paths [drop (length prefix) value]) (\<lambda>ps. Inr (Some (hd ps))))"

definition changed_path_from_headers ::
  "string \<Rightarrow> string \<Rightarrow> diff_error + (string \<times> string option \<times> string option)" where
  "changed_path_from_headers old_value new_value =
     bindE (diff_header_path old_value ''a/'') (\<lambda>old_path.
     bindE (diff_header_path new_value ''b/'') (\<lambda>new_path.
       if old_path = None \<and> new_path = None then Inl NullPair
       else if old_path \<noteq> None \<and> new_path \<noteq> None \<and> old_path \<noteq> new_path then Inl HeadersDisagree
       else Inr (the (if old_path \<noteq> None then old_path else new_path), old_path, new_path)))"

definition add_unique_identity :: "string \<Rightarrow> string list \<Rightarrow> diff_error + string list" where
  "add_unique_identity path identities =
     (if casefold path \<in> set identities then Inl DuplicateIdentity
      else Inr (casefold path # identities))"

section \<open>The line machine\<close>

record file_builder = diff_file +
  fb_has_hunk :: bool

definition new_builder :: "string \<Rightarrow> string option \<Rightarrow> string option \<Rightarrow> file_builder" where
  "new_builder path old_path new_path =
     \<lparr>df_path = path, df_old_path = old_path, df_new_path = new_path, df_lines = [], df_hunks = [],
      df_old_no_final_newline = False, df_new_no_final_newline = False,
      df_old_no_final_newline_line = None, df_new_no_final_newline_line = None,
      fb_has_hunk = False\<rparr>"

record parse_state =
  ps_files :: "file_builder list"
  ps_identities :: "string list"
  ps_current :: "file_builder option"
  ps_old_remaining :: "int option"
  ps_new_remaining :: "int option"
  ps_old_line :: nat
  ps_new_line :: nat
  ps_ignored :: bool

definition initial_parse_state :: parse_state where
  "initial_parse_state =
     \<lparr>ps_files = [], ps_identities = [], ps_current = None, ps_old_remaining = None,
      ps_new_remaining = None, ps_old_line = 0, ps_new_line = 0, ps_ignored = False\<rparr>"

definition no_newline_marker :: string where
  "no_newline_marker = backslash # '' No newline at end of file''"

definition record_no_newline_marker :: "file_builder option \<Rightarrow> diff_error + file_builder" where
  "record_no_newline_marker current =
     (case current of
        None \<Rightarrow> Inl MisplacedNoNewline
      | Some b \<Rightarrow>
          if df_lines b = [] then Inl MisplacedNoNewline
          else
            (let l = last (df_lines b);
                 mark_old = (dl_kind l \<in> {CONTEXT, REMOVED});
                 mark_new = (dl_kind l \<in> {CONTEXT, ADDED})
             in if (mark_old \<and> df_old_no_final_newline b) \<or> (mark_new \<and> df_new_no_final_newline b)
                then Inl RepeatedNoNewline
                else
                  (let b1 = (if mark_old
                             then b\<lparr>df_old_no_final_newline := True,
                                    df_old_no_final_newline_line := dl_old_line l\<rparr> else b)
                   in Inr (if mark_new
                           then b1\<lparr>df_new_no_final_newline := True,
                                   df_new_no_final_newline_line := dl_new_line l\<rparr> else b1))))"

definition append_to_last_hunk :: "diff_line \<Rightarrow> diff_hunk list \<Rightarrow> diff_hunk list" where
  "append_to_last_hunk l hs = butlast hs @ [(last hs)\<lparr>dh_lines := dh_lines (last hs) @ [l]\<rparr>]"

definition push_line ::
  "parse_state \<Rightarrow> file_builder \<Rightarrow> diff_line \<Rightarrow> int \<Rightarrow> int \<Rightarrow> nat \<Rightarrow> nat \<Rightarrow> diff_error + parse_state" where
  "push_line st b l old_remaining new_remaining old_line new_line =
     (if old_remaining < 0 \<or> new_remaining < 0 then Inl CountsDisagree
      else Inr (st\<lparr>ps_current := Some (b\<lparr>df_lines := df_lines b @ [l],
                                          df_hunks := append_to_last_hunk l (df_hunks b)\<rparr>),
                   ps_old_remaining := Some old_remaining, ps_new_remaining := Some new_remaining,
                   ps_old_line := old_line, ps_new_line := new_line\<rparr>))"

text \<open>A line while a hunk is open (the block that ends with the count check).\<close>

definition in_hunk_line :: "parse_state \<Rightarrow> int \<Rightarrow> int \<Rightarrow> string \<Rightarrow> diff_error + parse_state" where
  "in_hunk_line st o_rem n_rem line =
     (case ps_current st of
        None \<Rightarrow> Inl MalformedHunkContent
      | Some b \<Rightarrow>
          if df_hunks b = [] then Inl MalformedHunkContent
          else if startswith line '' '' then
            push_line st b \<lparr>dl_kind = CONTEXT, dl_content = drop 1 line,
                            dl_old_line = Some (ps_old_line st), dl_new_line = Some (ps_new_line st)\<rparr>
              (o_rem - 1) (n_rem - 1) (ps_old_line st + 1) (ps_new_line st + 1)
          else if startswith line ''-'' then
            push_line st b \<lparr>dl_kind = REMOVED, dl_content = drop 1 line,
                            dl_old_line = Some (ps_old_line st), dl_new_line = None\<rparr>
              (o_rem - 1) n_rem (ps_old_line st + 1) (ps_new_line st)
          else if startswith line ''+'' then
            push_line st b \<lparr>dl_kind = ADDED, dl_content = drop 1 line,
                            dl_old_line = None, dl_new_line = Some (ps_new_line st)\<rparr>
              o_rem (n_rem - 1) (ps_old_line st) (ps_new_line st + 1)
          else Inl MalformedHunkContent)"

definition open_hunk :: "parse_state \<Rightarrow> string \<Rightarrow> diff_error + parse_state" where
  "open_hunk st line =
     (case (ps_current st, hunk_header line) of
        (Some b, Some m) \<Rightarrow>
          bindE (parse_hunk_count (hm_old_count m)) (\<lambda>old_count.
          bindE (parse_hunk_count (hm_new_count m)) (\<lambda>new_count.
          bindE (parse_hunk_number (hm_old_start m)) (\<lambda>old_start.
          bindE (parse_hunk_number (hm_new_start m)) (\<lambda>new_start.
            if (old_count > 0 \<and> old_start = 0) \<or> (new_count > 0 \<and> new_start = 0)
            then Inl InvalidZeroStart
            else Inr (st\<lparr>ps_current := Some (b\<lparr>fb_has_hunk := True,
                             df_hunks := df_hunks b @
                               [\<lparr>dh_old_start = old_start, dh_old_count = old_count,
                                 dh_new_start = new_start, dh_new_count = new_count,
                                 dh_lines = []\<rparr>]\<rparr>),
                         ps_old_remaining := Some (int old_count),
                         ps_new_remaining := Some (int new_count),
                         ps_old_line := old_start, ps_new_line := new_start\<rparr>)))))
      | _ \<Rightarrow> Inl MalformedHunk)"

text \<open>The builders collected so far: the source appends the current one when it opens it.\<close>

definition all_builders :: "parse_state \<Rightarrow> file_builder list" where
  "all_builders st = ps_files st @ (case ps_current st of None \<Rightarrow> [] | Some b \<Rightarrow> [b])"

definition open_file :: "parse_state \<Rightarrow> string \<Rightarrow> string list \<Rightarrow> diff_error + parse_state" where
  "open_file st line rest =
     (if (case ps_current st of None \<Rightarrow> False | Some b \<Rightarrow> \<not> fb_has_hunk b) then Inl FileWithoutHunk
      else if rest = [] \<or> \<not> startswith (hd rest) ''+++ '' then Inl HeadersNotPaired
      else bindE (changed_path_from_headers (drop 4 line) (drop 4 (hd rest))) (\<lambda>(path, old_path, new_path).
           bindE (add_unique_identity path (ps_identities st)) (\<lambda>ids.
             Inr (st\<lparr>ps_files := all_builders st, ps_identities := ids,
                     ps_current := Some (new_builder path old_path new_path)\<rparr>))))"

text \<open>A line while no hunk is open; the result holds the lines that remain (a file header takes two).\<close>

definition out_line ::
  "parse_state \<Rightarrow> string \<Rightarrow> string list \<Rightarrow> diff_error + (parse_state \<times> string list)" where
  "out_line st line rest =
     (if startswith line ''--- '' then bindE (open_file st line rest) (\<lambda>st'. Inr (st', tl rest))
      else if startswith line ''+++ '' \<or> startswith line ''---'' \<or> startswith line ''+++''
        then Inl UnsupportedHeader
      else if startswith line ''@@'' then bindE (open_hunk st line) (\<lambda>st'. Inr (st', rest))
      else if startswith line '' '' \<or> startswith line ''-'' \<or> startswith line ''+''
              \<or> line = no_newline_marker
        then Inl ContentOutsideHunk
      else if line \<noteq> [] then Inr (st\<lparr>ps_ignored := True\<rparr>, rest)
      else Inr (st, rest))"

definition mark_line :: "parse_state \<Rightarrow> diff_error + parse_state" where
  "mark_line st = bindE (record_no_newline_marker (ps_current st)) (\<lambda>b. Inr (st\<lparr>ps_current := Some b\<rparr>))"

definition close_hunk :: "parse_state \<Rightarrow> parse_state" where
  "close_hunk st = st\<lparr>ps_old_remaining := None, ps_new_remaining := None\<rparr>"

lemma out_line_shrinks: "out_line st line rest = Inr (st', rest') \<Longrightarrow> length rest' \<le> length rest"
  by (auto simp: out_line_def bindE_eq_Inr split: if_splits)

text \<open>
  The loop.  A completed hunk is closed without consuming the line (unless the line is the
  no-newline marker), so the measure counts the lines twice and adds one while a hunk is open.
\<close>

function parse_loop :: "parse_state \<Rightarrow> string list \<Rightarrow> diff_error + parse_state" where
  "parse_loop st [] = Inr st"
| "parse_loop st (line # rest) =
     (case (ps_old_remaining st, ps_new_remaining st) of
        (Some o_rem, Some n_rem) \<Rightarrow>
          if o_rem = 0 \<and> n_rem = 0 then
            (if line = no_newline_marker
             then bindE (mark_line (close_hunk st)) (\<lambda>st'. parse_loop st' rest)
             else parse_loop (close_hunk st) (line # rest))
          else if line = no_newline_marker then bindE (mark_line st) (\<lambda>st'. parse_loop st' rest)
          else bindE (in_hunk_line st o_rem n_rem line) (\<lambda>st'. parse_loop st' rest)
      | _ \<Rightarrow> bindE (out_line st line rest) (\<lambda>(st', rest'). parse_loop st' rest'))"
  by pat_completeness auto
termination
  by (relation "measure (\<lambda>(st, ls). 2 * length ls +
        (if ps_old_remaining st = None \<or> ps_new_remaining st = None then 0 else 1))")
     (auto simp: close_hunk_def dest!: out_line_shrinks sym [of "Some 0"])

declare parse_loop.simps(2) [simp del]

definition normalize_newlines :: "string \<Rightarrow> string" where
  "normalize_newlines s = py_replace [carriage_return] [newline]
     (py_replace [carriage_return, newline] [newline] s)"

definition finish_parse :: "string \<Rightarrow> parse_state \<Rightarrow> diff_error + unified_diff" where
  "finish_parse normalized st =
     (let st1 = (if ps_old_remaining st = Some 0 \<and> ps_new_remaining st = Some 0
                 then close_hunk st else st) in
      if ps_old_remaining st1 \<noteq> None \<or> ps_new_remaining st1 \<noteq> None then Inl CountsDisagree
      else if (case ps_current st1 of None \<Rightarrow> True | Some b \<Rightarrow> \<not> fb_has_hunk b)
        then Inl NoFilePairAndHunk
      else Inr \<lparr>ud_normalized_text = normalized,
                ud_files = map diff_file.truncate (all_builders st1),
                ud_has_ignored_content = ps_ignored st1\<rparr>)"

definition parse_unified_diff :: "string \<Rightarrow> diff_error + unified_diff" where
  "parse_unified_diff text =
     (if nul \<in> set text then Inl ContainsNul
      else let normalized = normalize_newlines text in
        bindE (parse_loop initial_parse_state (split_on newline normalized)) (finish_parse normalized))"

section \<open>Header-only binary diffs\<close>

text \<open>\<open>GIT binary patch\<close>, or \<open>Binary files X differ\<close> with a non-empty X\<close>

definition binary_marker_line :: "string \<Rightarrow> bool" where
  "binary_marker_line line =
     (line = ''GIT binary patch'' \<or>
      (startswith line ''Binary files '' \<and> endswith line '' differ'' \<and>
       length line > length ''Binary files '' + length '' differ'' \<and>
       carriage_return \<notin> set line \<and> newline \<notin> set line))"

fun binary_loop ::
  "string list \<Rightarrow> string list \<Rightarrow> bool \<Rightarrow> string list \<Rightarrow> diff_error + (string list \<times> bool)" where
  "binary_loop paths ids found [] = Inr (paths, found)"
| "binary_loop paths ids found (line # rest) =
     (if startswith line ''--- '' then
        (case rest of
           [] \<Rightarrow> Inl HeadersNotPaired
         | next # rest' \<Rightarrow>
             if \<not> startswith next ''+++ '' then Inl HeadersNotPaired
             else bindE (changed_path_from_headers (drop 4 line) (drop 4 next)) (\<lambda>(path, _, _).
                  bindE (add_unique_identity path ids) (\<lambda>ids'.
                    binary_loop (paths @ [path]) ids' found rest')))
      else if binary_marker_line line then binary_loop paths ids True rest
      else if startswith line ''+++ '' \<or> startswith line ''---'' \<or> startswith line ''+++''
        then Inl UnsupportedHeader
      else if startswith line ''@@'' \<or> startswith line '' '' \<or> startswith line ''-'' \<or> startswith line ''+''
        then Inl BinaryHunkContent
      else binary_loop paths ids found rest)"

definition parse_binary_diff_paths :: "string \<Rightarrow> diff_error + string list" where
  "parse_binary_diff_paths text =
     bindE (binary_loop [] [] False (split_on newline (normalize_newlines text))) (\<lambda>(paths, found).
       if \<not> found \<or> paths = [] then Inl BinaryMarkerMissing else Inr paths)"

end
