(* ===== verification/Patch_Facts.thy ===== *)
theory Patch_Facts
  imports Patches
begin

text \<open>
  What \<open>parse_unified_diff\<close> guarantees about the diff it returns: an abstract well-formedness
  of files and hunks, and the invariant of the line machine that establishes it.
\<close>

section \<open>Well-formed hunks and files\<close>

text \<open>The lines of a hunk on the old side and on the new side.\<close>

definition old_side :: "diff_line list \<Rightarrow> diff_line list" where
  "old_side ls = filter (\<lambda>l. dl_kind l \<noteq> ADDED) ls"

definition new_side :: "diff_line list \<Rightarrow> diff_line list" where
  "new_side ls = filter (\<lambda>l. dl_kind l \<noteq> REMOVED) ls"

text \<open>Each line carries the numbers of the sides it is on, counted from the start of its hunk.\<close>

fun numbered :: "nat \<Rightarrow> nat \<Rightarrow> diff_line list \<Rightarrow> bool" where
  "numbered i j [] = True"
| "numbered i j (l # ls) =
     (case dl_kind l of
        CONTEXT \<Rightarrow> dl_old_line l = Some i \<and> dl_new_line l = Some j \<and> numbered (i + 1) (j + 1) ls
      | REMOVED \<Rightarrow> dl_old_line l = Some i \<and> dl_new_line l = None \<and> numbered (i + 1) j ls
      | ADDED \<Rightarrow> dl_old_line l = None \<and> dl_new_line l = Some j \<and> numbered i (j + 1) ls)"

definition hunk_open :: "diff_hunk \<Rightarrow> bool" where
  "hunk_open h \<longleftrightarrow>
     numbered (dh_old_start h) (dh_new_start h) (dh_lines h) \<and>
     length (old_side (dh_lines h)) \<le> dh_old_count h \<and>
     length (new_side (dh_lines h)) \<le> dh_new_count h \<and>
     (dh_old_count h > 0 \<longrightarrow> dh_old_start h > 0) \<and>
     (dh_new_count h > 0 \<longrightarrow> dh_new_start h > 0)"

definition hunk_ok :: "diff_hunk \<Rightarrow> bool" where
  "hunk_ok h \<longleftrightarrow> hunk_open h \<and>
     length (old_side (dh_lines h)) = dh_old_count h \<and>
     length (new_side (dh_lines h)) = dh_new_count h"

definition headers_ok :: "('a) diff_file_scheme \<Rightarrow> bool" where
  "headers_ok f \<longleftrightarrow> \<not> path_rejected (df_path f) \<and>
     (df_old_path f, df_new_path f) \<in>
       {(Some (df_path f), Some (df_path f)), (Some (df_path f), None), (None, Some (df_path f))}"

definition marker_ok :: "('a) diff_file_scheme \<Rightarrow> bool" where
  "marker_ok f \<longleftrightarrow>
     (df_old_no_final_newline f \<longleftrightarrow> df_old_no_final_newline_line f \<noteq> None) \<and>
     (df_new_no_final_newline f \<longleftrightarrow> df_new_no_final_newline_line f \<noteq> None)"

definition file_ok :: "diff_file \<Rightarrow> bool" where
  "file_ok f \<longleftrightarrow> headers_ok f \<and> marker_ok f \<and> df_hunks f \<noteq> [] \<and>
     list_all hunk_ok (df_hunks f) \<and> df_lines f = concat (map dh_lines (df_hunks f))"

definition diff_ok :: "unified_diff \<Rightarrow> bool" where
  "diff_ok d \<longleftrightarrow> ud_files d \<noteq> [] \<and> list_all file_ok (ud_files d) \<and>
     distinct (map casefold (changed_paths d))"

section \<open>Small facts\<close>

lemma old_side_simps [simp]:
  "old_side [] = []" "old_side (xs @ ys) = old_side xs @ old_side ys"
  "old_side (l # ls) = (if dl_kind l = ADDED then old_side ls else l # old_side ls)"
  by (auto simp: old_side_def)

lemma new_side_simps [simp]:
  "new_side [] = []" "new_side (xs @ ys) = new_side xs @ new_side ys"
  "new_side (l # ls) = (if dl_kind l = REMOVED then new_side ls else l # new_side ls)"
  by (auto simp: new_side_def)

lemma numbered_append:
  "numbered i j (xs @ ys) \<longleftrightarrow>
     numbered i j xs \<and> numbered (i + length (old_side xs)) (j + length (new_side xs)) ys"
  by (induction i j xs rule: numbered.induct) (auto split: diff_line_kind.splits)

lemma append_to_last_hunk_concat:
  "hs \<noteq> [] \<Longrightarrow> concat (map dh_lines (append_to_last_hunk l hs)) = concat (map dh_lines hs) @ [l]"
  by (cases hs rule: rev_cases) (auto simp: append_to_last_hunk_def)

lemma diff_file_truncate_simps [simp]:
  "df_path (diff_file.truncate b) = df_path b"
  "df_old_path (diff_file.truncate b) = df_old_path b"
  "df_new_path (diff_file.truncate b) = df_new_path b"
  "df_lines (diff_file.truncate b) = df_lines b"
  "df_hunks (diff_file.truncate b) = df_hunks b"
  "df_old_no_final_newline (diff_file.truncate b) = df_old_no_final_newline b"
  "df_new_no_final_newline (diff_file.truncate b) = df_new_no_final_newline b"
  "df_old_no_final_newline_line (diff_file.truncate b) = df_old_no_final_newline_line b"
  "df_new_no_final_newline_line (diff_file.truncate b) = df_new_no_final_newline_line b"
  by (simp_all add: diff_file.truncate_def)

lemma diff_header_path_Inr:
  "diff_header_path v pre = Inr p \<longleftrightarrow>
     (v = dev_null \<and> p = None) \<or>
     (v \<noteq> dev_null \<and> startswith v pre \<and> \<not> path_rejected (drop (length pre) v) \<and>
      p = Some (drop (length pre) v))"
  by (auto simp: diff_header_path_def bindE_eq_Inr normalize_single)

lemma changed_path_from_headers_Inr:
  assumes "changed_path_from_headers v w = Inr (p, old, new)"
  shows "\<not> path_rejected p \<and> (old, new) \<in> {(Some p, Some p), (Some p, None), (None, Some p)}"
  using assms
  by (auto simp: changed_path_from_headers_def bindE_eq_Inr diff_header_path_Inr split: if_splits)

section \<open>The invariant of the line machine\<close>

text \<open>A builder none of whose hunks is open, and one whose last hunk is.\<close>

definition builder_base :: "file_builder \<Rightarrow> bool" where
  "builder_base b \<longleftrightarrow> headers_ok b \<and> marker_ok b \<and> fb_has_hunk b = (df_hunks b \<noteq> []) \<and>
     df_lines b = concat (map dh_lines (df_hunks b)) \<and> list_all hunk_open (df_hunks b)"

definition builder_closed :: "file_builder \<Rightarrow> bool" where
  "builder_closed b \<longleftrightarrow> builder_base b \<and> list_all hunk_ok (df_hunks b)"

definition builder_open :: "parse_state \<Rightarrow> int \<Rightarrow> int \<Rightarrow> file_builder \<Rightarrow> bool" where
  "builder_open st o_rem n_rem b \<longleftrightarrow> builder_base b \<and> df_hunks b \<noteq> [] \<and>
     list_all hunk_ok (butlast (df_hunks b)) \<and>
     (let h = last (df_hunks b) in
        0 \<le> o_rem \<and> 0 \<le> n_rem \<and>
        int (length (old_side (dh_lines h))) + o_rem = int (dh_old_count h) \<and>
        int (length (new_side (dh_lines h))) + n_rem = int (dh_new_count h) \<and>
        ps_old_line st = dh_old_start h + length (old_side (dh_lines h)) \<and>
        ps_new_line st = dh_new_start h + length (new_side (dh_lines h)))"

definition parse_inv :: "parse_state \<Rightarrow> bool" where
  "parse_inv st \<longleftrightarrow>
     list_all (\<lambda>b. builder_closed b \<and> fb_has_hunk b) (ps_files st) \<and>
     set (ps_identities st) = set (map (casefold \<circ> df_path) (all_builders st)) \<and>
     distinct (map (casefold \<circ> df_path) (all_builders st)) \<and>
     (case (ps_old_remaining st, ps_new_remaining st) of
        (Some o_rem, Some n_rem) \<Rightarrow>
          (case ps_current st of None \<Rightarrow> False | Some b \<Rightarrow> builder_open st o_rem n_rem b)
      | (None, None) \<Rightarrow> (case ps_current st of None \<Rightarrow> True | Some b \<Rightarrow> builder_closed b)
      | _ \<Rightarrow> False)"

lemma parse_inv_initial: "parse_inv initial_parse_state"
  by (simp add: parse_inv_def initial_parse_state_def all_builders_def)

lemma builder_open_closes: "builder_open st 0 0 b \<Longrightarrow> builder_closed b"
  by (cases "df_hunks b" rule: rev_cases)
     (auto simp: builder_open_def builder_closed_def builder_base_def hunk_ok_def Let_def)

lemma close_hunk_inv:
  assumes "parse_inv st" "ps_old_remaining st = Some 0" "ps_new_remaining st = Some 0"
  shows "parse_inv (close_hunk st)"
  using assms
  by (auto simp: parse_inv_def close_hunk_def all_builders_def builder_open_closes
        split: option.splits)

lemma record_marker_fields:
  assumes "record_no_newline_marker (Some b) = Inr b'"
  shows "df_path b' = df_path b" "df_old_path b' = df_old_path b" "df_new_path b' = df_new_path b"
    "df_lines b' = df_lines b" "df_hunks b' = df_hunks b" "fb_has_hunk b' = fb_has_hunk b"
  using assms by (auto simp: record_no_newline_marker_def Let_def split: if_splits)

text \<open>In a numbered hunk a line on a side carries its number on that side.\<close>

lemma numbered_last:
  assumes "numbered i j ls" "ls \<noteq> []"
  shows "dl_kind (last ls) \<noteq> ADDED \<Longrightarrow> dl_old_line (last ls) \<noteq> None"
    and "dl_kind (last ls) \<noteq> REMOVED \<Longrightarrow> dl_new_line (last ls) \<noteq> None"
  using assms
  by (cases ls rule: rev_cases; auto simp: numbered_append split: diff_line_kind.splits)+

lemma hunk_open_mem:
  assumes "list_all hunk_open hs" "concat (map dh_lines hs) \<noteq> []"
  obtains i j ls where "numbered i j ls" "ls \<noteq> []" "last (concat (map dh_lines hs)) = last ls"
  using assms
proof (induction hs rule: rev_induct)
  case (snoc h hs)
  show ?case
  proof (cases "dh_lines h = []")
    case True
    with snoc show ?thesis by simp
  next
    case False
    with snoc.prems show ?thesis
      by (intro snoc.prems(1) [of "dh_old_start h" "dh_new_start h" "dh_lines h"])
         (auto simp: hunk_open_def)
  qed
qed simp

lemma record_marker_base:
  assumes "builder_base b" "record_no_newline_marker (Some b) = Inr b'"
  shows "builder_base b'"
proof -
  note f = record_marker_fields [OF assms(2)]
  from assms(2) have ne: "df_lines b \<noteq> []"
    by (auto simp: record_no_newline_marker_def split: if_splits)
  from assms(1) ne obtain i j ls where ls: "numbered i j ls" "ls \<noteq> []"
      "last (df_lines b) = last ls"
    by (auto simp: builder_base_def elim!: hunk_open_mem)
  have "marker_ok b'"
    using assms ls(3) numbered_last [OF ls(1,2)]
    by (cases "dl_kind (last ls)")
       (auto simp: record_no_newline_marker_def marker_ok_def builder_base_def Let_def split: if_splits)
  with assms(1) f show ?thesis by (auto simp: builder_base_def headers_ok_def)
qed

lemma mark_line_inv:
  assumes "parse_inv st" "mark_line st = Inr st'"
  shows "parse_inv st'"
proof -
  from assms(2) obtain b b' where b: "ps_current st = Some b"
      "record_no_newline_marker (Some b) = Inr b'" "st' = st\<lparr>ps_current := Some b'\<rparr>"
    by (cases "ps_current st") (auto simp: mark_line_def bindE_eq_Inr record_no_newline_marker_def)
  note f = record_marker_fields [OF b(2)]
  have base: "builder_base b \<Longrightarrow> builder_base b'" using record_marker_base [OF _ b(2)] .
  from assms(1) b f base show ?thesis
    by (auto simp: parse_inv_def all_builders_def builder_closed_def builder_open_def Let_def
          split: option.splits)
qed

lemma append_to_last_hunk_last:
  "hs \<noteq> [] \<Longrightarrow> append_to_last_hunk l hs \<noteq> [] \<and> butlast (append_to_last_hunk l hs) = butlast hs \<and>
     last (append_to_last_hunk l hs) = (last hs)\<lparr>dh_lines := dh_lines (last hs) @ [l]\<rparr>"
  by (simp add: append_to_last_hunk_def)

text \<open>Appending a line that continues the numbering keeps the open hunk open.\<close>

lemma push_line_open:
  assumes "builder_open st o_rem n_rem b"
    and push: "push_line st b l o' n' i' j' = Inr st'"
    and kind: "(dl_kind l = CONTEXT \<and> dl_old_line l = Some (ps_old_line st) \<and>
          dl_new_line l = Some (ps_new_line st) \<and> o' = o_rem - 1 \<and> n' = n_rem - 1 \<and>
          i' = ps_old_line st + 1 \<and> j' = ps_new_line st + 1) \<or>
        (dl_kind l = REMOVED \<and> dl_old_line l = Some (ps_old_line st) \<and> dl_new_line l = None \<and>
          o' = o_rem - 1 \<and> n' = n_rem \<and> i' = ps_old_line st + 1 \<and> j' = ps_new_line st) \<or>
        (dl_kind l = ADDED \<and> dl_old_line l = None \<and> dl_new_line l = Some (ps_new_line st) \<and>
          o' = o_rem \<and> n' = n_rem - 1 \<and> i' = ps_old_line st \<and> j' = ps_new_line st + 1)"
  shows "\<exists>b'. ps_current st' = Some b' \<and> builder_open st' o' n' b' \<and> df_path b' = df_path b \<and>
    ps_old_remaining st' = Some o' \<and> ps_new_remaining st' = Some n' \<and>
    ps_files st' = ps_files st \<and> ps_identities st' = ps_identities st"
proof -
  let ?b = "b\<lparr>df_lines := df_lines b @ [l], df_hunks := append_to_last_hunk l (df_hunks b)\<rparr>"
  from push have st': "0 \<le> o'" "0 \<le> n'" "ps_current st' = Some ?b" "ps_old_remaining st' = Some o'"
      "ps_new_remaining st' = Some n'" "ps_files st' = ps_files st"
      "ps_identities st' = ps_identities st" "ps_old_line st' = i'" "ps_new_line st' = j'"
    by (auto simp: push_line_def split: if_splits)
  from assms(1) obtain hs h where hs: "df_hunks b = hs @ [h]"
    by (cases "df_hunks b" rule: rev_cases) (auto simp: builder_open_def)
  note defs = builder_open_def builder_base_def hunk_open_def numbered_append
    append_to_last_hunk_def headers_ok_def marker_ok_def Let_def
  from kind have "builder_open st' o' n' ?b"
  proof (elim disjE conjE, goal_cases)
    case 1
    with assms(1) st' hs show ?case by (simp add: defs)
  next
    case 2
    with assms(1) st' hs show ?case by (simp add: defs)
  next
    case 3
    with assms(1) st' hs show ?case by (simp add: defs)
  qed
  with st' show ?thesis by auto
qed

lemma in_hunk_line_inv:
  assumes inv: "parse_inv st" and rem: "ps_old_remaining st = Some o_rem" "ps_new_remaining st = Some n_rem"
    and step: "in_hunk_line st o_rem n_rem line = Inr st'"
  shows "parse_inv st'"
proof -
  from inv rem obtain b where b: "ps_current st = Some b" "builder_open st o_rem n_rem b"
    by (auto simp: parse_inv_def split: option.splits)
  from step b obtain l o' n' i' j' where "push_line st b l o' n' i' j' = Inr st'"
      "(dl_kind l = CONTEXT \<and> dl_old_line l = Some (ps_old_line st) \<and>
          dl_new_line l = Some (ps_new_line st) \<and> o' = o_rem - 1 \<and> n' = n_rem - 1 \<and>
          i' = ps_old_line st + 1 \<and> j' = ps_new_line st + 1) \<or>
        (dl_kind l = REMOVED \<and> dl_old_line l = Some (ps_old_line st) \<and> dl_new_line l = None \<and>
          o' = o_rem - 1 \<and> n' = n_rem \<and> i' = ps_old_line st + 1 \<and> j' = ps_new_line st) \<or>
        (dl_kind l = ADDED \<and> dl_old_line l = None \<and> dl_new_line l = Some (ps_new_line st) \<and>
          o' = o_rem \<and> n' = n_rem - 1 \<and> i' = ps_old_line st \<and> j' = ps_new_line st + 1)"
    by (auto simp: in_hunk_line_def split: if_splits)
  from push_line_open [OF b(2) this] obtain b' where b': "ps_current st' = Some b'"
      "builder_open st' o' n' b'" "df_path b' = df_path b" "ps_old_remaining st' = Some o'"
      "ps_new_remaining st' = Some n'" "ps_files st' = ps_files st"
      "ps_identities st' = ps_identities st" by blast
  from inv rem b b' show ?thesis by (auto simp: parse_inv_def all_builders_def)
qed

lemma open_hunk_inv:
  assumes inv: "parse_inv st" and rem: "ps_old_remaining st = None \<or> ps_new_remaining st = None"
    and step: "open_hunk st line = Inr st'"
  shows "parse_inv st'"
proof -
  from inv rem step obtain b where b: "ps_current st = Some b" "builder_closed b"
    by (auto simp: parse_inv_def open_hunk_def split: option.splits)
  from step b(1) obtain oc nc os ns where h: "\<not> ((0 < oc \<and> os = 0) \<or> (0 < nc \<and> ns = (0::nat)))"
    "st' = st\<lparr>ps_current := Some (b\<lparr>fb_has_hunk := True,
               df_hunks := df_hunks b @ [\<lparr>dh_old_start = os, dh_old_count = oc,
                 dh_new_start = ns, dh_new_count = nc, dh_lines = []\<rparr>]\<rparr>),
            ps_old_remaining := Some (int oc), ps_new_remaining := Some (int nc),
            ps_old_line := os, ps_new_line := ns\<rparr>"
    by (auto simp: open_hunk_def bindE_eq_Inr split: option.splits if_splits)
  from inv b h show ?thesis
    by (auto simp: parse_inv_def all_builders_def builder_open_def builder_closed_def builder_base_def
          hunk_open_def headers_ok_def marker_ok_def split: option.splits)
qed

lemma open_file_inv:
  assumes inv: "parse_inv st" and rem: "ps_old_remaining st = None \<or> ps_new_remaining st = None"
    and step: "open_file st line rest = Inr st'"
  shows "parse_inv st'"
proof -
  from step obtain p old new ids where s: "changed_path_from_headers (drop 4 line) (drop 4 (hd rest)) = Inr (p, old, new)"
      "add_unique_identity p (ps_identities st) = Inr ids"
      "st' = st\<lparr>ps_files := all_builders st, ps_identities := ids,
                ps_current := Some (new_builder p old new)\<rparr>"
      "\<forall>b. ps_current st = Some b \<longrightarrow> fb_has_hunk b"
    by (auto simp: open_file_def bindE_eq_Inr split: if_splits option.splits)
  from inv rem have none: "ps_old_remaining st = None" "ps_new_remaining st = None"
    by (auto simp: parse_inv_def split: option.splits)
  have "builder_closed (new_builder p old new)"
    using changed_path_from_headers_Inr [OF s(1)]
    by (auto simp: builder_closed_def builder_base_def new_builder_def headers_ok_def marker_ok_def)
  with inv none s(2-4) show ?thesis
    by (auto simp: parse_inv_def all_builders_def add_unique_identity_def new_builder_def
          split: option.splits if_splits)
qed

lemma out_line_cases:
  assumes "out_line st line rest = Inr (st', rest')"
  shows "open_file st line rest = Inr st' \<or> open_hunk st line = Inr st' \<or>
    st' = st\<lparr>ps_ignored := True\<rparr> \<or> st' = st"
proof -
  have "(if h then bindE f (\<lambda>x. Inr (x, tl rest)) else if u then Inl a
         else if k then bindE g (\<lambda>x. Inr (x, rest)) else if v then Inl b
         else if w then Inr (st\<lparr>ps_ignored := True\<rparr>, rest) else Inr (st, rest)) = Inr (st', rest') \<Longrightarrow>
      f = Inr st' \<or> g = Inr st' \<or> st' = st\<lparr>ps_ignored := True\<rparr> \<or> st' = st"
    for h u k v w :: bool and f g :: "diff_error + parse_state" and a b
    by (cases h; cases u; cases k; cases v; cases w; cases f; cases g) simp_all
  from this [OF assms [unfolded out_line_def]] show ?thesis .
qed

lemma ignored_inv: "parse_inv st \<Longrightarrow> parse_inv (st\<lparr>ps_ignored := b\<rparr>)"
  by (simp add: parse_inv_def all_builders_def builder_open_def split: option.split_asm option.split)

lemma out_line_inv:
  assumes "parse_inv st" "ps_old_remaining st = None \<or> ps_new_remaining st = None"
    and step: "out_line st line rest = Inr (st', rest')"
  shows "parse_inv st'"
  using out_line_cases [OF step] assms(1,2) open_file_inv open_hunk_inv ignored_inv by blast

section \<open>Invariants of the loop\<close>

text \<open>
  What an invariant of the line machine owes: each of its four steps keeps it.  The lines read may
  be known to have a property \<open>L\<close>.
\<close>

lemma out_line_rest: "out_line st line rest = Inr (st', rest') \<Longrightarrow> rest' = rest \<or> rest' = tl rest"
proof -
  assume a: "out_line st line rest = Inr (st', rest')"
  have "(if h then bindE f (\<lambda>x. Inr (x, tl rest)) else if u then Inl a
         else if k then bindE g (\<lambda>x. Inr (x, rest)) else if v then Inl b
         else if w then Inr (st\<lparr>ps_ignored := True\<rparr>, rest) else Inr (st, rest)) = Inr (st', rest') \<Longrightarrow>
      rest' = rest \<or> rest' = tl rest"
    for h u k v w :: bool and f g :: "diff_error + parse_state" and a b
    by (cases h; cases u; cases k; cases v; cases w; cases f; cases g) simp_all
  from this [OF a [unfolded out_line_def]] show ?thesis .
qed

locale line_machine =
  fixes I :: "parse_state \<Rightarrow> bool" and L :: "string \<Rightarrow> bool"
  assumes out_step: "I st \<Longrightarrow> L line \<Longrightarrow> ps_old_remaining st = None \<or> ps_new_remaining st = None \<Longrightarrow>
      out_line st line rest = Inr (st', rest') \<Longrightarrow> I st'"
    and mark_step: "I st \<Longrightarrow> mark_line st = Inr st' \<Longrightarrow> I st'"
    and close_step: "I st \<Longrightarrow> ps_old_remaining st = Some 0 \<Longrightarrow> ps_new_remaining st = Some 0 \<Longrightarrow>
      I (close_hunk st)"
    and hunk_step: "I st \<Longrightarrow> L line \<Longrightarrow> ps_old_remaining st = Some o_rem \<Longrightarrow>
      ps_new_remaining st = Some n_rem \<Longrightarrow> in_hunk_line st o_rem n_rem line = Inr st' \<Longrightarrow> I st'"
begin

lemma loop_keeps: "I st \<Longrightarrow> list_all L lines \<Longrightarrow> parse_loop st lines = Inr st' \<Longrightarrow> I st'"
proof (induction st lines rule: parse_loop.induct)
  case (1 st)
  then show ?case by simp
next
  case (2 st line rest)
  note eq = "2.prems"(3) [unfolded parse_loop.simps(2) [of st]]
  from "2.prems"(2) have L: "L line" "list_all L rest" by simp_all
  show ?case
  proof (cases "ps_old_remaining st = None \<or> ps_new_remaining st = None")
    case True
    with eq have "bindE (out_line st line rest) (\<lambda>(st', rest'). parse_loop st' rest') = Inr st'"
      by (cases "ps_old_remaining st"; cases "ps_new_remaining st") simp_all
    then obtain st1 rest1 where s: "out_line st line rest = Inr (st1, rest1)" "parse_loop st1 rest1 = Inr st'"
      by (auto simp: bindE_eq_Inr)
    note inv = out_step [OF "2.prems"(1) L(1) True s(1)]
    have L1: "list_all L rest1" using out_line_rest [OF s(1)] L(2) by (cases rest) auto
    show ?thesis
    proof (cases "ps_old_remaining st")
      case None
      from "2.IH"(1) [OF refl None s(1) refl inv L1 s(2)] show ?thesis .
    next
      case (Some n)
      with True have "ps_new_remaining st = None" by simp
      from "2.IH"(2) [OF refl Some this s(1) refl inv L1 s(2)] show ?thesis .
    qed
  next
    case False
    then obtain o_rem n_rem where r: "ps_old_remaining st = Some o_rem" "ps_new_remaining st = Some n_rem"
      by auto
    show ?thesis
    proof (cases "o_rem = 0 \<and> n_rem = 0")
      case True
      with r have closed: "I (close_hunk st)" using close_step "2.prems"(1) by simp
      show ?thesis
      proof (cases "line = no_newline_marker")
        case marker: True
        with True r eq obtain st1 where s: "mark_line (close_hunk st) = Inr st1" "parse_loop st1 rest = Inr st'"
          by (auto simp: bindE_eq_Inr)
        from "2.IH"(3) [OF _ r(1) r(2) True marker s(1) mark_step [OF closed s(1)] L(2) s(2)]
        show ?thesis by (simp add: r)
      next
        case marker: False
        with True r eq have "parse_loop (close_hunk st) (line # rest) = Inr st'" by simp
        from "2.IH"(4) [OF _ r(1) r(2) True marker closed "2.prems"(2) this] show ?thesis by (simp add: r)
      qed
    next
      case False
      show ?thesis
      proof (cases "line = no_newline_marker")
        case marker: True
        with False r eq obtain st1 where s: "mark_line st = Inr st1" "parse_loop st1 rest = Inr st'"
          by (auto simp: bindE_eq_Inr)
        from "2.IH"(5) [OF _ r(1) r(2) False marker s(1) mark_step [OF "2.prems"(1) s(1)] L(2) s(2)]
        show ?thesis by (simp add: r)
      next
        case marker: False
        with False r eq obtain st1 where s: "in_hunk_line st o_rem n_rem line = Inr st1"
            "parse_loop st1 rest = Inr st'"
          by (auto simp: bindE_eq_Inr)
        from "2.IH"(6) [OF _ r(1) r(2) False marker s(1) hunk_step [OF "2.prems"(1) L(1) r s(1)] L(2) s(2)]
        show ?thesis by (simp add: r)
      qed
    qed
  qed
qed

end

interpretation wf: line_machine parse_inv "\<lambda>_. True"
  by unfold_locales (blast intro: out_line_inv mark_line_inv close_hunk_inv in_hunk_line_inv)+

text \<open>Line contents: the lines come from a split at line ends of a text without carriage returns.\<close>

definition clean_text :: "string \<Rightarrow> bool" where
  "clean_text s \<longleftrightarrow> newline \<notin> set s \<and> carriage_return \<notin> set s"

definition clean_file :: "('a) diff_file_scheme \<Rightarrow> bool" where
  "clean_file f \<longleftrightarrow> (\<forall>h \<in> set (df_hunks f). \<forall>l \<in> set (dh_lines h). clean_text (dl_content l))"

definition clean_state :: "parse_state \<Rightarrow> bool" where
  "clean_state st \<longleftrightarrow> list_all clean_file (all_builders st)"

lemma clean_drop: "clean_text s \<Longrightarrow> clean_text (drop n s)"
  by (auto simp: clean_text_def dest: in_set_dropD)

lemma push_line_clean:
  assumes "clean_state st" "ps_current st = Some b" "df_hunks b \<noteq> []" "clean_text (dl_content l)"
    and "push_line st b l o' n' i' j' = Inr st'"
  shows "clean_state st'"
proof -
  from assms(3) obtain hs h where hs: "df_hunks b = hs @ [h]" by (cases "df_hunks b" rule: rev_cases) auto
  from assms(5) show ?thesis
    using assms(1,2,4) hs
    by (auto simp: push_line_def clean_state_def all_builders_def clean_file_def append_to_last_hunk_def
        split: if_splits)
qed

lemma in_hunk_line_clean:
  assumes "clean_state st" "clean_text line" "in_hunk_line st o_rem n_rem line = Inr st'"
  shows "clean_state st'"
proof -
  from assms(3) obtain b where b: "ps_current st = Some b" "df_hunks b \<noteq> []"
    by (cases "ps_current st") (auto simp: in_hunk_line_def split: if_split_asm)
  from assms(3) b show ?thesis
    by (auto simp: in_hunk_line_def clean_drop [OF assms(2)] split: if_split_asm
        elim!: push_line_clean [OF assms(1) b, rotated])
qed

lemma mark_line_clean: "clean_state st \<Longrightarrow> mark_line st = Inr st' \<Longrightarrow> clean_state st'"
  by (cases "ps_current st")
     (auto simp: mark_line_def bindE_eq_Inr record_no_newline_marker_def clean_state_def
        all_builders_def clean_file_def Let_def split: if_split_asm)

lemma out_line_clean:
  assumes "clean_state st" and step: "out_line st line rest = Inr (st', rest')"
  shows "clean_state st'"
  using out_line_cases [OF step]
proof (elim disjE)
  assume "open_file st line rest = Inr st'"
  with assms(1) show ?thesis
    by (auto simp: open_file_def bindE_eq_Inr clean_state_def all_builders_def clean_file_def
        new_builder_def split: if_split_asm option.splits)
next
  assume "open_hunk st line = Inr st'"
  with assms(1) show ?thesis
    by (auto simp: open_hunk_def bindE_eq_Inr clean_state_def all_builders_def clean_file_def
        split: if_split_asm option.splits)
qed (use assms(1) in \<open>simp_all add: clean_state_def all_builders_def\<close>)

interpretation cl: line_machine clean_state clean_text
  by unfold_locales
     (blast intro: out_line_clean mark_line_clean in_hunk_line_clean,
      blast intro: mark_line_clean, simp add: clean_state_def all_builders_def close_hunk_def,
      blast intro: in_hunk_line_clean)

lemma parse_ok:
  assumes "parse_unified_diff text = Inr d"
  shows "diff_ok d"
proof -
  from assms obtain st where st: "parse_loop initial_parse_state
        (split_on newline (normalize_newlines text)) = Inr st"
      "finish_parse (normalize_newlines text) st = Inr d"
    by (auto simp: parse_unified_diff_def Let_def bindE_eq_Inr split: if_splits)
  define st1 where "st1 = (if ps_old_remaining st = Some 0 \<and> ps_new_remaining st = Some 0
                           then close_hunk st else st)"
  have "parse_inv st" using wf.loop_keeps [OF parse_inv_initial _ st(1)] by (simp add: list_all_iff)
  then have inv: "parse_inv st1" by (auto simp: st1_def close_hunk_inv)
  from st(2) obtain b where b: "ps_current st1 = Some b" "fb_has_hunk b"
      "ps_old_remaining st1 = None" "ps_new_remaining st1 = None"
      "ud_files d = map diff_file.truncate (all_builders st1)"
    by (auto simp: finish_parse_def Let_def st1_def [symmetric] split: if_splits option.splits)
  have "builder_closed c \<Longrightarrow> fb_has_hunk c \<Longrightarrow> file_ok (diff_file.truncate c)" for c
    by (auto simp: builder_closed_def builder_base_def file_ok_def headers_ok_def marker_ok_def)
  with inv b show ?thesis
    by (auto simp: diff_ok_def parse_inv_def all_builders_def changed_paths_def comp_def
          list_all_iff split: option.splits)
qed

lemma py_replace_char_gone: "c \<noteq> d \<Longrightarrow> c \<notin> set (py_replace [c] [d] s)"
  by (induction "[c]" "[d]" s rule: py_replace.induct) auto

lemma normalize_newlines_no_cr: "carriage_return \<notin> set (normalize_newlines s)"
  unfolding normalize_newlines_def
  by (rule py_replace_char_gone) (simp add: carriage_return_def newline_def)

lemma split_on_subset: "p \<in> set (split_on c s) \<Longrightarrow> set p \<subseteq> set s"
proof (induction s arbitrary: p)
  case (Cons x xs)
  then show ?case
    by (cases "split_on c xs") (fastforce split: if_split_asm)+
qed simp

lemma parse_clean:
  assumes "parse_unified_diff text = Inr d"
  shows "list_all clean_file (ud_files d)"
proof -
  from assms obtain st where st: "parse_loop initial_parse_state
        (split_on newline (normalize_newlines text)) = Inr st"
      "finish_parse (normalize_newlines text) st = Inr d"
    by (auto simp: parse_unified_diff_def Let_def bindE_eq_Inr split: if_splits)
  have lines: "list_all clean_text (split_on newline (normalize_newlines text))"
    using split_on_no_sep split_on_subset normalize_newlines_no_cr
    by (fastforce simp: list_all_iff clean_text_def)
  have "clean_state st"
    using cl.loop_keeps [OF _ lines st(1)]
    by (simp add: clean_state_def all_builders_def initial_parse_state_def)
  moreover have "ud_files d = map diff_file.truncate (all_builders st)"
    using st(2) by (auto simp: finish_parse_def Let_def close_hunk_def all_builders_def split: if_split_asm)
  ultimately show ?thesis by (auto simp: clean_state_def list_all_iff clean_file_def)
qed

section \<open>Properties\<close>

text \<open>C22: Whatever text \<open>parse_unified_diff\<close> accepts, the diff it returns is well formed: every
  path passes the repository-path gate and no two paths are equal under case folding, the header pair
  is a modification, an addition or a deletion of that path, every file has a hunk, every hunk has
  exactly the announced number of old and new lines, numbered consecutively from its starts, a
  no-newline flag comes with its line number, and no line content holds a line end.\<close>

theorem parsed_diff_well_formed:
  assumes "parse_unified_diff text' = Inr d"
  shows "diff_ok d \<and> list_all clean_file (ud_files d)"
  using parse_ok [OF assms] parse_clean [OF assms] by blast

definition sample_lines :: "string list" where
  "sample_lines = [''--- a/app/x.py'', ''+++ b/app/x.py'', ''@@ -1,2 +1,2 @@'', '' keep'', ''-old'', ''+new'']"

definition sample_text :: string where
  "sample_text = join_with newline sample_lines"

definition sample_file :: diff_file where
  "sample_file = (let ls =
       [\<lparr>dl_kind = CONTEXT, dl_content = ''keep'', dl_old_line = Some 1, dl_new_line = Some 1\<rparr>,
        \<lparr>dl_kind = REMOVED, dl_content = ''old'', dl_old_line = Some 2, dl_new_line = None\<rparr>,
        \<lparr>dl_kind = ADDED, dl_content = ''new'', dl_old_line = None, dl_new_line = Some 2\<rparr>]
     in \<lparr>df_path = ''app/x.py'', df_old_path = Some ''app/x.py'', df_new_path = Some ''app/x.py'',
         df_lines = ls,
         df_hunks = [\<lparr>dh_old_start = 1, dh_old_count = 2, dh_new_start = 1, dh_new_count = 2, dh_lines = ls\<rparr>],
         df_old_no_final_newline = False, df_new_no_final_newline = False,
         df_old_no_final_newline_line = None, df_new_no_final_newline_line = None\<rparr>)"

definition sample_diff :: unified_diff where
  "sample_diff = \<lparr>ud_normalized_text = sample_text, ud_files = [sample_file], ud_has_ignored_content = False\<rparr>"

lemma sample_parses: "parse_unified_diff sample_text = Inr sample_diff"
  by code_simp

theorem parsed_diff_well_formed_witness: "diff_ok sample_diff \<and> list_all clean_file (ud_files sample_diff)"
  by (rule parsed_diff_well_formed [OF sample_parses])

end
