(* ===== verification/Bytes.thy ===== *)
theory Bytes
  imports Prelude "HOL-Library.Word"
begin

text \<open>
  Byte strings: the UTF-8 codec on the code points of the model (U+0000 to U+00FF), and the
  eight-byte big-endian lengths \<open>_length\<close> that frame the repository fingerprint.  A byte is
  an \<open>8 word\<close>.  A byte string that is well-formed UTF-8 for a code point above U+00FF has no
  value in the model; the decoder gives \<open>None\<close> there, as it does for malformed input.
\<close>

type_synonym bytes = "8 word list"

section \<open>The UTF-8 codec\<close>

definition utf8_encode_char :: "char \<Rightarrow> bytes" where
  "utf8_encode_char c = (let n = code c in
     if n < 128 then [word_of_nat n]
     else [word_of_nat (192 + n div 64), word_of_nat (128 + n mod 64)])"

definition utf8_encode :: "string \<Rightarrow> bytes" where
  "utf8_encode s = concat (map utf8_encode_char s)"

fun utf8_decode :: "bytes \<Rightarrow> string option" where
  "utf8_decode [] = Some []"
| "utf8_decode (b # bs) =
     (if unat b < 128 then map_option (Cons (char_of (unat b))) (utf8_decode bs)
      else if unat b = 194 \<or> unat b = 195 then
        (case bs of
           [] \<Rightarrow> None
         | c # cs \<Rightarrow>
             if 128 \<le> unat c \<and> unat c < 192
             then map_option (Cons (char_of ((unat b - 192) * 64 + (unat c - 128)))) (utf8_decode cs)
             else None)
      else None)"

lemma code_less [simp]: "code c < 256"
  by (cases c) (auto simp: code_def of_char_def split: if_splits)

lemma char_of_code [simp]: "char_of (code c) = c"
  by (simp add: code_def)

lemma code_char_of: "n < 256 \<Longrightarrow> code (char_of n) = n"
  by (simp add: code_def)

lemma unat_byte: "n < 256 \<Longrightarrow> unat (word_of_nat n :: 8 word) = n"
  by (simp add: unat_of_nat take_bit_nat_eq_self)

lemma utf8_encode_simps [simp]:
  "utf8_encode [] = []"
  "utf8_encode (c # s) = utf8_encode_char c @ utf8_encode s"
  "utf8_encode (s @ t) = utf8_encode s @ utf8_encode t"
  by (simp_all add: utf8_encode_def)

lemma utf8_decode_pair:
  assumes "192 + p < 256" "p = 2 \<or> p = 3" "q < 64"
  shows "utf8_decode (word_of_nat (192 + p) # word_of_nat (128 + q) # bs) =
    map_option (Cons (char_of (64 * p + q))) (utf8_decode bs)"
proof -
  have "unat (word_of_nat (192 + p) :: 8 word) = 192 + p" "unat (word_of_nat (128 + q) :: 8 word) = 128 + q"
    using assms by (auto simp del: of_nat_add intro!: unat_byte)
  with assms show ?thesis by (auto simp del: of_nat_add simp: mult.commute)
qed

lemma utf8_decode_encode_char:
  "utf8_decode (utf8_encode_char c @ bs) = map_option (Cons c) (utf8_decode bs)"
proof (cases "code c < 128")
  case True
  then show ?thesis by (simp add: utf8_encode_char_def unat_byte)
next
  case False
  have lt: "code c < 256" by simp
  have "code c div 64 = 2 \<or> code c div 64 = 3" using False lt by linarith
  moreover have "64 * (code c div 64) + code c mod 64 = code c" by simp
  ultimately show ?thesis using False utf8_decode_pair [of "code c div 64" "code c mod 64" bs]
    by (auto simp: utf8_encode_char_def Let_def simp del: of_nat_add)
qed

lemma utf8_decode_encode [simp]: "utf8_decode (utf8_encode s) = Some s"
  by (induction s) (simp_all add: utf8_decode_encode_char)

lemma byte_of_unat: "word_of_nat (unat (b :: 8 word)) = b"
  by simp

lemma utf8_encode_decode: "utf8_decode bs = Some s \<Longrightarrow> utf8_encode s = bs"
proof (induction bs arbitrary: s rule: utf8_decode.induct)
  case (2 b bs)
  show ?case
  proof (cases "unat b < 128")
    case True
    with "2.prems" obtain r where "utf8_decode bs = Some r" "s = char_of (unat b) # r" by auto
    with 2 True show ?thesis
      by (auto simp: utf8_encode_char_def code_char_of Let_def)
  next
    case False
    with "2.prems" have lead: "unat b = 194 \<or> unat b = 195" by (auto split: if_splits)
    with False "2.prems" obtain c cs where c: "bs = c # cs" "128 \<le> unat c" "unat c < 192"
      by (auto split: list.splits if_splits)
    with False "2.prems" lead obtain r where r: "utf8_decode cs = Some r"
        "s = char_of ((unat b - 192) * 64 + (unat c - 128)) # r"
      by (auto split: if_splits)
    let ?n = "(unat b - 192) * 64 + (unat c - 128)"
    have n: "?n mod 64 = unat c - 128" "?n < 256" "\<not> ?n < 128" "?n div 64 = unat b - 192"
    proof -
      have "unat c mod 64 = (unat c - 128 + 2 * 64) mod 64" using c by simp
      also have "\<dots> = unat c - 128" using c by (simp only: mod_mult_self1 mod_less)
      finally show "?n mod 64 = unat c - 128" "?n < 256" "\<not> ?n < 128" "?n div 64 = unat b - 192"
        using lead c by auto
    qed
    have "192 + ?n div 64 = unat b" "128 + ?n mod 64 = unat c" using n lead c by auto
    then have "utf8_encode_char (char_of ?n) = [b, c]"
      using n(2,3) by (simp add: utf8_encode_char_def code_char_of Let_def del: of_nat_add)
    moreover have "utf8_encode r = cs" using "2.IH"(2) [OF False lead c(1)] c r by simp
    ultimately show ?thesis using c r by simp
  qed
qed simp

lemma utf8_encode_length: "length (utf8_encode s) = utf8_len s"
  by (induction s) (simp_all add: utf8_encode_char_def utf8_char_len_def Let_def)

lemma utf8_encode_inj: "utf8_encode s = utf8_encode t \<longleftrightarrow> s = t"
  by (metis option.inject utf8_decode_encode)

lemma utf8_encode_eq_Nil [simp]: "utf8_encode s = [] \<longleftrightarrow> s = []"
  by (metis utf8_encode_inj utf8_encode_simps(1))

section \<open>Eight-byte lengths\<close>

text \<open>\<open>value.to_bytes(n, "big")\<close>\<close>

fun to_bytes_big :: "nat \<Rightarrow> nat \<Rightarrow> bytes" where
  "to_bytes_big 0 v = []"
| "to_bytes_big (Suc n) v = to_bytes_big n (v div 256) @ [word_of_nat (v mod 256)]"

fun from_bytes_big :: "bytes \<Rightarrow> nat" where
  "from_bytes_big [] = 0"
| "from_bytes_big (b # bs) = unat b * 256 ^ length bs + from_bytes_big bs"

lemma length_to_bytes_big [simp]: "length (to_bytes_big n v) = n"
  by (induction n arbitrary: v) auto

lemma from_bytes_big_snoc: "from_bytes_big (bs @ [b]) = 256 * from_bytes_big bs + unat b"
  by (induction bs) (auto simp: algebra_simps)

lemma from_to_bytes_big: "v < 256 ^ n \<Longrightarrow> from_bytes_big (to_bytes_big n v) = v"
proof (induction n arbitrary: v)
  case (Suc n)
  then have "v div 256 < 256 ^ n" by (simp add: less_mult_imp_div_less mult.commute)
  with Suc.IH show ?case by (simp add: from_bytes_big_snoc unat_byte)
qed simp

lemma to_bytes_big_inj:
  "v < 256 ^ n \<Longrightarrow> w < 256 ^ n \<Longrightarrow> to_bytes_big n v = to_bytes_big n w \<longleftrightarrow> v = w"
  by (metis from_to_bytes_big)

end
