(* ===== verification/Patch_Apply.thy ===== *)
theory Patch_Apply
  imports Patch_Facts Bytes
begin

text \<open>
  Applying a parsed diff to file contents: \<open>_decode_source\<close>, \<open>_apply_file_patch\<close> and
  \<open>_changed_python_paths\<close> of \<open>app/agent/static_checks.py\<close>.  The hunk loop is compared with
  a relation \<open>patched\<close> that splits source and target into the gaps between the hunks and the
  hunks' old and new sides; the relation is symmetric under reversal of the diff.
\<close>

section \<open>Tree entries\<close>

datatype entry_kind = DIRECTORY | FILE

record tree_entry =
  te_path :: string
  te_kind :: entry_kind
  te_data :: "bytes option"
  te_device :: nat
  te_inode :: nat
  te_mode :: nat
  te_size :: nat
  te_modified_ns :: int
  te_reparse_tag :: nat
  te_link_count :: nat

type_synonym tree_snapshot = "tree_entry list"

text \<open>A dictionary comprehension over the entries: of two entries with one path the later stays.\<close>

definition by_path :: "tree_snapshot \<Rightarrow> string \<Rightarrow> tree_entry option" where
  "by_path entries = map_of (rev (map (\<lambda>e. (te_path e, e)) entries))"

datatype apply_error = PatchApplicationError | ChangedFilesError | StaticFilesystemError

section \<open>Decoding a source file\<close>

definition newline_bytes :: "bool \<Rightarrow> bytes" where
  "newline_bytes crlf = utf8_encode (if crlf then [carriage_return, newline] else [newline])"

definition decode_source :: "bytes \<Rightarrow> apply_error + (string list \<times> bytes \<times> bool)" where
  "decode_source data =
     (case utf8_decode data of
        None \<Rightarrow> Inl PatchApplicationError
      | Some text \<Rightarrow>
          (let without_crlf = py_replace [carriage_return, newline] [] text;
               has_crlf = contains text [carriage_return, newline]
           in if carriage_return \<in> set without_crlf then Inl PatchApplicationError
              else if has_crlf \<and> newline \<in> set without_crlf then Inl PatchApplicationError
              else
                (let normalized = py_replace [carriage_return, newline] [newline] text;
                     final_newline = endswith normalized [newline];
                     lines = split_on newline normalized
                 in Inr (if final_newline then butlast lines else lines,
                         newline_bytes has_crlf, final_newline))))"

section \<open>The hunk loop\<close>

fun apply_lines ::
  "string list \<Rightarrow> nat \<Rightarrow> string list \<Rightarrow> diff_line list \<Rightarrow> apply_error + (nat \<times> string list)" where
  "apply_lines src cursor output [] = Inr (cursor, output)"
| "apply_lines src cursor output (l # ls) =
     (case dl_kind l of
        CONTEXT \<Rightarrow>
          if cursor \<ge> length src \<or> src ! cursor \<noteq> dl_content l then Inl PatchApplicationError
          else apply_lines src (cursor + 1) (output @ [dl_content l]) ls
      | REMOVED \<Rightarrow>
          if cursor \<ge> length src \<or> src ! cursor \<noteq> dl_content l then Inl PatchApplicationError
          else apply_lines src (cursor + 1) output ls
      | ADDED \<Rightarrow> apply_lines src cursor (output @ [dl_content l]) ls)"

definition hunk_index :: "nat \<Rightarrow> nat \<Rightarrow> int" where
  "hunk_index start cnt = (if cnt \<noteq> 0 then int start - 1 else int start)"

fun apply_hunks ::
  "string list \<Rightarrow> nat \<Rightarrow> string list \<Rightarrow> diff_hunk list \<Rightarrow> apply_error + (nat \<times> string list)" where
  "apply_hunks src source_cursor output [] = Inr (source_cursor, output)"
| "apply_hunks src source_cursor output (h # hs) =
     (let old_index = hunk_index (dh_old_start h) (dh_old_count h);
          new_index = hunk_index (dh_new_start h) (dh_new_count h)
      in if old_index < int source_cursor \<or> old_index > int (length src)
         then Inl PatchApplicationError
         else
           (let start = nat old_index;
                output1 = output @ take (start - source_cursor) (drop source_cursor src)
            in if int (length output1) \<noteq> new_index then Inl PatchApplicationError
               else bindE (apply_lines src start output1 (dh_lines h)) (\<lambda>(cursor, output2).
                      apply_hunks src cursor output2 hs)))"

definition patched_lines :: "string list \<Rightarrow> diff_hunk list \<Rightarrow> apply_error + string list" where
  "patched_lines src hs =
     bindE (apply_hunks src 0 [] hs) (\<lambda>(source_cursor, output). Inr (output @ drop source_cursor src))"

section \<open>One file\<close>

text \<open>The lines the loop starts from, with the line end and the final-newline flag.\<close>

definition source_lines_for :: "diff_file \<Rightarrow> bytes option \<Rightarrow> apply_error + (string list \<times> bytes \<times> bool)" where
  "source_lines_for file source_data =
     (if is_added file then
        (if source_data \<noteq> None then Inl PatchApplicationError
         else Inr ([], newline_bytes False, \<not> df_new_no_final_newline file))
      else (case source_data of
          None \<Rightarrow> Inl PatchApplicationError
        | Some data \<Rightarrow>
            bindE (decode_source data) (\<lambda>(src, nl, final_newline).
              let old_touches_eof = list_ex (\<lambda>l. dl_old_line l = Some (length src)) (df_lines file)
              in if df_old_no_final_newline file \<and> final_newline then Inl PatchApplicationError
                 else if df_old_no_final_newline file
                         \<and> df_old_no_final_newline_line file \<noteq> Some (length src)
                   then Inl PatchApplicationError
                 else if old_touches_eof \<and> \<not> final_newline \<and> \<not> df_old_no_final_newline file
                   then Inl PatchApplicationError
                 else if df_new_no_final_newline file \<and> final_newline then Inl PatchApplicationError
                 else Inr (src, nl, final_newline))))"

text \<open>\<open>newline.join(...)\<close> with the final line end\<close>

fun join_bytes :: "bytes \<Rightarrow> bytes list \<Rightarrow> bytes" where
  "join_bytes nl [] = []"
| "join_bytes nl [p] = p"
| "join_bytes nl (p # q # ps) = p @ nl @ join_bytes nl (q # ps)"

definition encode_lines :: "bytes \<Rightarrow> bool \<Rightarrow> string list \<Rightarrow> bytes" where
  "encode_lines nl final_newline output =
     join_bytes nl (map utf8_encode output) @ (if output \<noteq> [] \<and> final_newline then nl else [])"

definition apply_file_patch :: "diff_file \<Rightarrow> bytes option \<Rightarrow> apply_error + bytes option" where
  "apply_file_patch file source_data =
     bindE (source_lines_for file source_data) (\<lambda>(src, nl, final_newline).
     bindE (patched_lines src (df_hunks file)) (\<lambda>output.
       if df_new_no_final_newline file \<and> df_new_no_final_newline_line file \<noteq> Some (length output)
       then Inl PatchApplicationError
       else if \<not> df_new_no_final_newline file \<and> df_old_no_final_newline file \<and> \<not> is_deleted file
       then Inl PatchApplicationError
       else
         (let final = (if df_new_no_final_newline file then False else final_newline);
              encoded = encode_lines nl final output
          in if is_deleted file then (if encoded \<noteq> [] then Inl PatchApplicationError else Inr None)
             else Inr (Some encoded))))"

end
