(* ===== verification/Patch_Apply_Facts.thy ===== *)
theory Patch_Apply_Facts
  imports Patch_Apply
begin

text \<open>
  What a successful application means: the hunks cut source and target into common gaps and
  replaced sides (\<open>patched\<close>); decoding and encoding a file are inverse; the reversed diff
  restores the source.
\<close>

section \<open>The relation between source and target\<close>

definition old_text :: "diff_hunk \<Rightarrow> string list" where
  "old_text h = map dl_content (old_side (dh_lines h))"

definition new_text :: "diff_hunk \<Rightarrow> string list" where
  "new_text h = map dl_content (new_side (dh_lines h))"

text \<open>\<open>patched i j hs s d\<close>: after \<open>i\<close> source lines and \<open>j\<close> target lines, the hunks
  \<open>hs\<close> take the rest \<open>s\<close> of the source to the rest \<open>d\<close> of the target.\<close>

inductive patched :: "nat \<Rightarrow> nat \<Rightarrow> diff_hunk list \<Rightarrow> string list \<Rightarrow> string list \<Rightarrow> bool" where
  patched_done: "patched i j [] t t"
| patched_hunk:
    "hunk_index (dh_old_start h) (dh_old_count h) = int (i + length gap) \<Longrightarrow>
     hunk_index (dh_new_start h) (dh_new_count h) = int (j + length gap) \<Longrightarrow>
     patched (i + length gap + length (old_text h)) (j + length gap + length (new_text h)) hs s d \<Longrightarrow>
     patched i j (h # hs) (gap @ old_text h @ s) (gap @ new_text h @ d)"

inductive_cases patched_NilE: "patched i j [] s d"
inductive_cases patched_ConsE: "patched i j (h # hs) s d"

lemma patched_Nil [simp]: "patched i j [] s d \<longleftrightarrow> s = d"
  by (auto elim: patched_NilE intro: patched_done)

lemma apply_lines_iff:
  "apply_lines src c out ls = Inr (c', out') \<longleftrightarrow>
     (\<exists>rest. drop c src = map dl_content (old_side ls) @ rest) \<and>
     c' = c + length (old_side ls) \<and> out' = out @ map dl_content (new_side ls)"
proof (induction src c out ls rule: apply_lines.induct)
  case (1 src c out)
  then show ?case by auto
next
  case (2 src c out l ls)
  have step: "(\<exists>rest. drop c src = x # xs @ rest) \<longleftrightarrow>
      c < length src \<and> src ! c = x \<and> (\<exists>rest. drop (Suc c) src = xs @ rest)" for x xs
    by (cases "c < length src") (auto simp: Cons_nth_drop_Suc [symmetric])
  show ?case
    using 2 by (cases "dl_kind l") (auto simp: step)
qed

lemma apply_hunks_iff:
  "i \<le> length src \<Longrightarrow>
   bindE (apply_hunks src i out hs) (\<lambda>(c, o'). Inr (o' @ drop c src)) = Inr dst \<longleftrightarrow>
     (\<exists>d. dst = out @ d \<and> patched i (length out) hs (drop i src) d)"
proof (induction hs arbitrary: i out)
  case Nil
  then show ?case by auto
next
  case (Cons h hs)
  let ?oi = "hunk_index (dh_old_start h) (dh_old_count h)"
  let ?ni = "hunk_index (dh_new_start h) (dh_new_count h)"
  show ?case (is "?L \<longleftrightarrow> ?R")
  proof
    assume ?L
    then obtain start gap c out2 where s: "?oi = int start" "i \<le> start" "start \<le> length src"
        "gap = take (start - i) (drop i src)" "int (length (out @ gap)) = ?ni"
        "apply_lines src start (out @ gap) (dh_lines h) = Inr (c, out2)"
        "bindE (apply_hunks src c out2 hs) (\<lambda>(c, o'). Inr (o' @ drop c src)) = Inr dst"
      by (auto simp: Let_def bindE_eq_Inr split: if_split_asm prod.splits
          dest!: meta_spec [of _ "nat ?oi"])
    from s(2,3,4) have gap: "length gap = start - i" "drop i src = gap @ drop start src"
      by (auto simp: min_def) (metis append_take_drop_id drop_drop le_add_diff_inverse2)
    from s(6) obtain rest where l: "drop start src = old_text h @ rest" "c = start + length (old_text h)"
        "out2 = (out @ gap) @ new_text h"
      by (auto simp: apply_lines_iff old_text_def new_text_def)
    have rest: "rest = drop c src" by (metis l(1,2) add.commute append_eq_conv_conj drop_drop)
    have "c \<le> length src" using arg_cong [OF l(1), of length] l(2) s(3) by simp
    from Cons.IH [OF this, of out2] s(7) obtain d where
        d: "dst = out2 @ d" "patched c (length out2) hs rest d"
      using rest by auto
    have "patched i (length out) (h # hs) (gap @ old_text h @ rest) (gap @ new_text h @ d)"
      by (rule patched_hunk) (use s gap l d in \<open>auto simp: add_ac\<close>)
    with gap l d show ?R by auto
  next
    assume ?R
    then obtain d where d: "dst = out @ d" "patched i (length out) (h # hs) (drop i src) d" by blast
    from d(2) obtain gap s d' where p: "drop i src = gap @ old_text h @ s" "d = gap @ new_text h @ d'"
        "?oi = int (i + length gap)" "?ni = int (length out + length gap)"
        "patched (i + length gap + length (old_text h)) (length out + length gap + length (new_text h)) hs s d'"
      by (auto elim: patched_ConsE)
    let ?start = "i + length gap"
    have len: "?start + length (old_text h) \<le> length src"
      using Cons.prems arg_cong [OF p(1), of length] by simp
    have tk: "take (length gap) (drop i src) = gap" using p(1) by simp
    have dr: "drop ?start src = old_text h @ s"
      by (metis p(1) add.commute append_eq_conv_conj drop_drop)
    have al: "apply_lines src ?start (out @ gap) (dh_lines h) =
        Inr (?start + length (old_text h), out @ gap @ new_text h)"
      using dr by (auto simp: apply_lines_iff old_text_def new_text_def)
    have s: "drop (?start + length (old_text h)) src = s"
      by (metis dr add.commute append_eq_conv_conj drop_drop)
    have "bindE (apply_hunks src (?start + length (old_text h)) (out @ gap @ new_text h) hs)
        (\<lambda>(c, o'). Inr (o' @ drop c src)) = Inr dst"
      using Cons.IH [OF len, of "out @ gap @ new_text h"] p(2,5) d(1) s by (auto simp: add_ac)
    moreover have "apply_hunks src i out (h # hs) =
        apply_hunks src (?start + length (old_text h)) (out @ gap @ new_text h) hs"
      using p(3,4) tk al len by (simp add: Let_def nat_int_add)
    ultimately show ?L by simp
  qed
qed

lemma patched_lines_iff: "patched_lines src hs = Inr dst \<longleftrightarrow> patched 0 0 hs src dst"
  using apply_hunks_iff [of 0 src "[]" hs dst] by (simp add: patched_lines_def)

section \<open>Reversal\<close>

definition reverse_line :: "diff_line \<Rightarrow> diff_line" where
  "reverse_line l = \<lparr>dl_kind = (case dl_kind l of CONTEXT \<Rightarrow> CONTEXT | ADDED \<Rightarrow> REMOVED | REMOVED \<Rightarrow> ADDED),
     dl_content = dl_content l, dl_old_line = dl_new_line l, dl_new_line = dl_old_line l\<rparr>"

definition reverse_hunk :: "diff_hunk \<Rightarrow> diff_hunk" where
  "reverse_hunk h = \<lparr>dh_old_start = dh_new_start h, dh_old_count = dh_new_count h,
     dh_new_start = dh_old_start h, dh_new_count = dh_old_count h,
     dh_lines = map reverse_line (dh_lines h)\<rparr>"

definition reverse_file :: "diff_file \<Rightarrow> diff_file" where
  "reverse_file f = f\<lparr>df_old_path := df_new_path f, df_new_path := df_old_path f,
     df_lines := map reverse_line (df_lines f), df_hunks := map reverse_hunk (df_hunks f),
     df_old_no_final_newline := df_new_no_final_newline f,
     df_new_no_final_newline := df_old_no_final_newline f,
     df_old_no_final_newline_line := df_new_no_final_newline_line f,
     df_new_no_final_newline_line := df_old_no_final_newline_line f\<rparr>"

lemma sides_reverse_line:
  "map dl_content (old_side (map reverse_line ls)) = map dl_content (new_side ls)"
  "map dl_content (new_side (map reverse_line ls)) = map dl_content (old_side ls)"
  by (induction ls) (auto simp: reverse_line_def split: diff_line_kind.splits)

lemma reverse_hunk_simps [simp]:
  "old_text (reverse_hunk h) = new_text h" "new_text (reverse_hunk h) = old_text h"
  "dh_old_start (reverse_hunk h) = dh_new_start h" "dh_old_count (reverse_hunk h) = dh_new_count h"
  "dh_new_start (reverse_hunk h) = dh_old_start h" "dh_new_count (reverse_hunk h) = dh_old_count h"
  by (simp_all add: reverse_hunk_def old_text_def new_text_def sides_reverse_line)

lemma patched_reverse: "patched i j hs s d \<Longrightarrow> patched j i (map reverse_hunk hs) d s"
proof (induction rule: patched.induct)
  case (patched_hunk h i gap j hs s d)
  then have "patched j i (reverse_hunk h # map reverse_hunk hs)
      (gap @ old_text (reverse_hunk h) @ d) (gap @ new_text (reverse_hunk h) @ s)"
    by (intro patched.patched_hunk) simp_all
  then show ?case by simp
qed simp

lemma patched_lines_reverse:
  "patched_lines src hs = Inr dst \<longleftrightarrow> patched_lines dst (map reverse_hunk hs) = Inr src"
proof -
  have "map reverse_hunk (map reverse_hunk hs) = hs"
  proof -
    have "reverse_line (reverse_line l) = l" for l
      by (cases "dl_kind l") (simp_all add: reverse_line_def)
    then have "reverse_hunk (reverse_hunk h) = h" for h
      by (simp add: reverse_hunk_def comp_def)
    then show ?thesis by (simp add: comp_def)
  qed
  then show ?thesis by (metis patched_lines_iff patched_reverse)
qed

lemma patched_target_lines:
  "patched i j hs s d \<Longrightarrow> set d \<subseteq> set s \<union> (\<Union>h \<in> set hs. set (new_text h))"
  by (induction rule: patched.induct) auto

section \<open>Decoding and encoding a file\<close>

definition expand :: "string \<Rightarrow> string \<Rightarrow> string" where
  "expand nl s = concat (map (\<lambda>c. if c = newline then nl else [c]) s)"

lemma expand_simps [simp]:
  "expand nl [] = []" "expand nl (s @ t) = expand nl s @ expand nl t"
  "expand nl (c # s) = (if c = newline then nl @ expand nl s else c # expand nl s)"
  by (auto simp: expand_def)

lemma expand_id [simp]: "expand [newline] s = s"
  by (induction s) auto

lemma expand_none: "newline \<notin> set s \<Longrightarrow> expand nl s = s"
  by (induction s) auto

lemma join_bytes_expand:
  "\<forall>p \<in> set ps. newline \<notin> set p \<Longrightarrow>
   join_bytes (utf8_encode nl) (map utf8_encode ps) = utf8_encode (expand nl (join_with newline ps))"
  by (induction newline ps rule: join_with.induct) (auto simp: expand_none)

lemma split_on_middle: "split_on c (s @ c # t) = split_on c s @ split_on c t"
proof (induction s)
  case (Cons x s)
  then show ?case by (cases "split_on c s") auto
qed simp

lemma py_replace_absent: "old \<noteq> [] \<Longrightarrow> \<not> contains s old \<Longrightarrow> py_replace old new s = s"
  by (induction old new s rule: py_replace.induct) auto

lemma newline_neq [simp]: "newline \<noteq> carriage_return" "carriage_return \<noteq> newline"
  by (simp_all add: newline_def carriage_return_def)

lemma expand_replace:
  assumes "carriage_return \<notin> set (py_replace [carriage_return, newline] [] s)"
    "newline \<notin> set (py_replace [carriage_return, newline] [] s)"
  shows "expand [carriage_return, newline] (py_replace [carriage_return, newline] [newline] s) = s"
  using assms
proof (induction "[carriage_return, newline]" "[] :: string" s rule: py_replace.induct)
  case (2 c cs)
  show ?case
  proof (cases "startswith (c # cs) [carriage_return, newline]")
    case True
    then obtain r where r: "c = carriage_return" "cs = newline # r" by (auto simp: startswith_iff)
    with 2(1) 2(3,4) show ?thesis by simp
  next
    case False
    with 2(2-4) show ?thesis by auto
  qed
qed simp

lemma replace_no_cr:
  assumes "carriage_return \<notin> set (py_replace [carriage_return, newline] [] s)"
  shows "carriage_return \<notin> set (py_replace [carriage_return, newline] [newline] s)"
  using assms
proof (induction "[carriage_return, newline]" "[] :: string" s rule: py_replace.induct)
  case (2 c cs)
  show ?case
  proof (cases "startswith (c # cs) [carriage_return, newline]")
    case True
    then obtain r where r: "c = carriage_return" "cs = newline # r" by (auto simp: startswith_iff)
    with 2(1) 2(3) show ?thesis by simp
  next
    case False
    with 2(2-3) show ?thesis by auto
  qed
qed simp

text \<open>What \<open>decode_source\<close> returns: the text is the lines, separated and ended by one kind of
  line end, and no line has a line end inside.\<close>

definition line_end :: "bool \<Rightarrow> string" where
  "line_end crlf = (if crlf then [carriage_return, newline] else [newline])"

lemma newline_bytes_line_end: "newline_bytes crlf = utf8_encode (line_end crlf)"
  by (simp add: newline_bytes_def line_end_def)

lemma decode_source_cases:
  assumes "decode_source data = Inr (ls, nl, fin)"
  obtains crlf t where "utf8_decode data = Some (expand (line_end crlf) t)" "carriage_return \<notin> set t"
    "nl = newline_bytes crlf" "fin = endswith t [newline]"
    "ls = (if fin then butlast (split_on newline t) else split_on newline t)"
proof -
  from assms obtain str where str: "utf8_decode data = Some str"
    by (auto simp: decode_source_def split: option.splits)
  let ?crlf = "contains str [carriage_return, newline]"
  let ?t = "py_replace [carriage_return, newline] [newline] str"
  from assms str have a: "carriage_return \<notin> set (py_replace [carriage_return, newline] [] str)"
      "?crlf \<Longrightarrow> newline \<notin> set (py_replace [carriage_return, newline] [] str)"
      "nl = newline_bytes ?crlf" "fin = endswith ?t [newline]"
      "ls = (if fin then butlast (split_on newline ?t) else split_on newline ?t)"
    by (auto simp: decode_source_def Let_def split: if_split_asm)
  have "expand (line_end ?crlf) ?t = str"
    using expand_replace [of str] a(1,2) py_replace_absent [of "[carriage_return, newline]" str "[newline]"]
    by (cases ?crlf) (simp_all add: line_end_def)
  with str a replace_no_cr [OF a(1)] show ?thesis by (intro that) auto
qed

lemma encode_lines_expand:
  assumes "\<forall>p \<in> set ls. newline \<notin> set p"
  shows "encode_lines (newline_bytes crlf) fin ls =
    utf8_encode (expand (line_end crlf) (join_with newline ls @ (if ls \<noteq> [] \<and> fin then [newline] else [])))"
  using join_bytes_expand [OF assms, of "line_end crlf"]
  by (simp add: encode_lines_def newline_bytes_line_end)

lemma encode_decode_source:
  assumes "decode_source data = Inr (ls, nl, fin)"
  shows "encode_lines nl fin ls = data"
proof -
  from assms obtain crlf t where d: "utf8_decode data = Some (expand (line_end crlf) t)"
      "nl = newline_bytes crlf" "fin = endswith t [newline]"
      "ls = (if fin then butlast (split_on newline t) else split_on newline t)"
    by (rule decode_source_cases)
  have no: "\<forall>p \<in> set ls. newline \<notin> set p"
    using d(4) split_on_no_sep by (auto dest: in_set_butlastD split: if_split_asm)
  have "join_with newline ls @ (if ls \<noteq> [] \<and> fin then [newline] else []) = t"
  proof (cases fin)
    case True
    with d(3) obtain u where "t = u @ [newline]" by (auto simp: endswith_iff)
    with True d(4) split_on_middle [of newline u "[]"] show ?thesis by (simp add: butlast_append)
  next
    case False
    with d(4) show ?thesis by simp
  qed
  with encode_lines_expand [OF no, of crlf fin] d(1,2) show ?thesis
    by (simp add: utf8_encode_decode)
qed

lemma expand_replace_empty:
  "carriage_return \<notin> set t \<Longrightarrow>
   py_replace [carriage_return, newline] [] (expand [carriage_return, newline] t) =
     filter (\<lambda>c. c \<noteq> newline) t"
  by (induction t) auto

lemma expand_replace_back:
  "carriage_return \<notin> set t \<Longrightarrow>
   py_replace [carriage_return, newline] [newline] (expand [carriage_return, newline] t) = t"
  by (induction t) auto

lemma contains_crlf_expand:
  "carriage_return \<notin> set t \<Longrightarrow>
   contains (expand [carriage_return, newline] t) [carriage_return, newline] \<longleftrightarrow> newline \<in> set t"
  by (induction t) auto

lemma contains_crlf_member: "contains s [carriage_return, newline] \<Longrightarrow> carriage_return \<in> set s"
  by (auto simp: contains_iff)

lemma join_with_set: "set (join_with c ls) \<subseteq> insert c (\<Union>p \<in> set ls. set p)"
  by (induction c ls rule: join_with.induct) auto

lemma decode_encode_source:
  assumes clean: "list_all clean_text ls" and ne: "ls \<noteq> []"
  shows "decode_source (encode_lines (newline_bytes crlf) True ls) = Inr (ls, newline_bytes crlf, True)"
proof -
  let ?t = "join_with newline ls @ [newline]"
  have nl: "\<forall>p \<in> set ls. newline \<notin> set p" using clean by (auto simp: list_all_iff clean_text_def)
  have cr: "carriage_return \<notin> set ?t"
    using clean join_with_set [of newline ls] by (fastforce simp: list_all_iff clean_text_def)
  have enc: "utf8_decode (encode_lines (newline_bytes crlf) True ls) = Some (expand (line_end crlf) ?t)"
    using encode_lines_expand [OF nl, of crlf True] ne
    by (simp del: expand_simps(2) utf8_encode_simps)
  have lines: "butlast (split_on newline ?t) = ls"
    using split_join [OF ne nl] by (simp add: split_on_middle butlast_append)
  have e: "endswith ?t [newline]" by (simp add: endswith_iff)
  show ?thesis
  proof (cases crlf)
    case True
    with enc lines e cr expand_replace_empty [OF cr] expand_replace_back [OF cr] contains_crlf_expand [OF cr]
    show ?thesis by (simp add: decode_source_def line_end_def Let_def del: expand_simps(2))
  next
    case False
    have "\<not> contains ?t [carriage_return, newline]" using contains_crlf_member cr by blast
    with False enc lines e cr show ?thesis
      by (simp add: decode_source_def line_end_def Let_def py_replace_absent del: expand_simps(2))
  qed
qed

section \<open>Patching file contents\<close>

lemma apply_file_patch_Some:
  assumes "apply_file_patch f (Some data) = Inr r"
  obtains src nl fin dst where "\<not> is_added f" "decode_source data = Inr (src, nl, fin)"
    "patched 0 0 (df_hunks f) src dst"
    "df_new_no_final_newline f \<Longrightarrow> \<not> fin \<and> df_new_no_final_newline_line f = Some (length dst)"
    "r = (if is_deleted f then None else Some (encode_lines nl fin dst))"
    "is_deleted f \<Longrightarrow> encode_lines nl fin dst = []"
proof -
  from assms obtain src nl fin dst where s: "\<not> is_added f" "decode_source data = Inr (src, nl, fin)"
      "patched_lines src (df_hunks f) = Inr dst" "\<not> (df_new_no_final_newline f \<and> fin)"
      "\<not> (df_new_no_final_newline f \<and> df_new_no_final_newline_line f \<noteq> Some (length dst))"
      "(if is_deleted f then (if encode_lines nl (if df_new_no_final_newline f then False else fin) dst \<noteq> []
          then Inl PatchApplicationError else Inr None)
        else Inr (Some (encode_lines nl (if df_new_no_final_newline f then False else fin) dst))) = Inr r"
    by (auto simp: apply_file_patch_def source_lines_for_def bindE_eq_Inr Let_def split: if_split_asm)
  have fin: "(if df_new_no_final_newline f then False else fin) = fin" using s(4) by auto
  from s fin show ?thesis
    by (intro that) (auto simp: patched_lines_iff split: if_split_asm)
qed

lemma apply_file_patch_None:
  assumes "apply_file_patch f None = Inr r"
  obtains dst where "is_added f" "patched 0 0 (df_hunks f) [] dst"
    "df_new_no_final_newline f \<Longrightarrow> df_new_no_final_newline_line f = Some (length dst)"
    "r = (if is_deleted f then None
          else Some (encode_lines (newline_bytes False) (\<not> df_new_no_final_newline f) dst))"
proof -
  from assms obtain dst where s: "is_added f" "patched_lines [] (df_hunks f) = Inr dst"
      "\<not> (df_new_no_final_newline f \<and> df_new_no_final_newline_line f \<noteq> Some (length dst))"
      "(if is_deleted f then (if encode_lines (newline_bytes False)
            (if df_new_no_final_newline f then False else True) dst \<noteq> []
          then Inl PatchApplicationError else Inr None)
        else Inr (Some (encode_lines (newline_bytes False)
            (if df_new_no_final_newline f then False else True) dst))) = Inr r"
    by (auto simp: apply_file_patch_def source_lines_for_def bindE_eq_Inr Let_def split: if_split_asm)
  have fin: "(if df_new_no_final_newline f then False else True) = (\<not> df_new_no_final_newline f)" by simp
  from s fin show ?thesis
    by (intro that) (auto simp: patched_lines_iff split: if_split_asm)
qed

lemma clean_file_new_text:
  "clean_file f \<Longrightarrow> h \<in> set (df_hunks f) \<Longrightarrow> x \<in> set (new_text h) \<Longrightarrow> clean_text x"
  by (auto simp: clean_file_def new_text_def new_side_def)

lemma decode_source_clean:
  assumes "decode_source data = Inr (ls, nl, fin)"
  shows "list_all clean_text ls"
  using assms
proof (rule decode_source_cases)
  fix crlf t
  assume a: "carriage_return \<notin> set t"
    "ls = (if fin then butlast (split_on newline t) else split_on newline t)"
  have "x \<in> set (split_on newline t) \<Longrightarrow> clean_text x" for x
    using a(1) split_on_no_sep [of x newline t] split_on_subset [of x newline t] by (auto simp: clean_text_def)
  with a(2) show ?thesis by (auto simp: list_all_iff dest: in_set_butlastD)
qed

definition modifies :: "diff_file \<Rightarrow> bool" where
  "modifies f \<longleftrightarrow> \<not> is_added f \<and> \<not> is_deleted f \<and>
     \<not> df_old_no_final_newline f \<and> \<not> df_new_no_final_newline f"

lemma reverse_restores:
  assumes m: "modifies f" "clean_file f"
    and dec: "decode_source data = Inr (src, nl, True)"
    and app: "apply_file_patch f (Some data) = Inr (Some out)" and ne: "out \<noteq> []"
  shows "apply_file_patch (reverse_file f) (Some out) = Inr (Some data)"
proof -
  from app dec m(1) obtain dst where p: "patched 0 0 (df_hunks f) src dst" "out = encode_lines nl True dst"
    by (auto elim!: apply_file_patch_Some simp: modifies_def)
  have dst_ne: "dst \<noteq> []" using ne p(2) by (auto simp: encode_lines_def)
  have "list_all clean_text dst"
    using decode_source_clean [OF dec] patched_target_lines [OF p(1)] clean_file_new_text [OF m(2)]
    by (fastforce simp: list_all_iff)
  moreover from dec obtain crlf where nl: "nl = newline_bytes crlf" by (rule decode_source_cases)
  ultimately have out: "decode_source out = Inr (dst, nl, True)"
    using decode_encode_source dst_ne p(2) by simp
  have "patched_lines dst (map reverse_hunk (df_hunks f)) = Inr src"
    using patched_reverse [OF p(1)] by (simp add: patched_lines_iff)
  with m(1) out encode_decode_source [OF dec] show ?thesis
    by (simp add: apply_file_patch_def source_lines_for_def reverse_file_def modifies_def
        is_added_def is_deleted_def)
qed

section \<open>Properties\<close>

text \<open>C23: The hunk loop of \<open>_apply_file_patch\<close> succeeds exactly when source and target split
  into common gaps and the old and new sides of the hunks, each at the line its header announces on
  both sides, and then returns that target.\<close>

theorem hunk_loop_iff_patched: "patched_lines src hs = Inr dst \<longleftrightarrow> patched 0 0 hs src dst"
  by (rule patched_lines_iff)

text \<open>C33: When a diff without no-newline markers modifies a newline-terminated file and leaves some bytes of it, applying the
  reversed diff to the result gives back the original bytes, whichever of the two line ends the file uses.  (From an empty
  result the line end cannot be told, so a file with CRLF that was emptied is not restored.)\<close>

theorem reversed_patch_restores_bytes:
  assumes "modifies f" "clean_file f" "decode_source data = Inr (src, nl, True)"
    and "apply_file_patch f (Some data) = Inr (Some out)" "out \<noteq> []"
  shows "apply_file_patch (reverse_file f) (Some out) = Inr (Some data)"
  by (rule reverse_restores [OF assms])

definition sample_source :: bytes where
  "sample_source = utf8_encode (''keep'' @ [carriage_return, newline] @ ''old'' @ [carriage_return, newline])"

definition sample_target :: bytes where
  "sample_target = utf8_encode (''keep'' @ [carriage_return, newline] @ ''new'' @ [carriage_return, newline])"

lemma sample_decodes:
  "decode_source sample_source = Inr ([''keep'', ''old''], newline_bytes True, True)"
  by code_simp

lemma sample_applies: "apply_file_patch sample_file (Some sample_source) = Inr (Some sample_target)"
  by code_simp

lemma sample_conditions: "modifies sample_file" "clean_file sample_file" "sample_target \<noteq> []"
  by code_simp+

theorem reversed_patch_restores_bytes_witness:
  "apply_file_patch (reverse_file sample_file) (Some sample_target) = Inr (Some sample_source)"
  by (rule reversed_patch_restores_bytes [OF sample_conditions(1,2) sample_decodes sample_applies sample_conditions(3)])

text \<open>Joining the lines that \<open>_decode_source\<close> returns with its line end, and ending the
  last one when the flag says so, gives exactly the bytes that were decoded.\<close>

theorem decoded_source_reencodes:
  assumes "decode_source data = Inr (ls, nl, final)"
  shows "encode_lines nl final ls = data"
  by (rule encode_decode_source [OF assms])

theorem decoded_source_reencodes_witness:
  "encode_lines (newline_bytes True) True [''keep'', ''old''] = sample_source"
  by (rule decoded_source_reencodes [OF sample_decodes])

text \<open>A file the patch deletes must be emptied by it: when \<open>_apply_file_patch\<close> returns
  \<open>None\<close> for an existing file, the file was to be deleted and its hunks turn the decoded lines
  into a text of no bytes.\<close>

theorem deletion_removes_whole_text:
  assumes "apply_file_patch f (Some data) = Inr None"
  shows "is_deleted f \<and> (\<exists>src nl final dst. decode_source data = Inr (src, nl, final) \<and>
    patched 0 0 (df_hunks f) src dst \<and> encode_lines nl final dst = [])"
  using assms by (auto elim!: apply_file_patch_Some split: if_split_asm)

definition sample_deletion :: diff_file where
  "sample_deletion = (let l = \<lparr>dl_kind = REMOVED, dl_content = ''x'', dl_old_line = Some 1, dl_new_line = None\<rparr>
     in \<lparr>df_path = ''a.py'', df_old_path = Some ''a.py'', df_new_path = None, df_lines = [l],
         df_hunks = [\<lparr>dh_old_start = 1, dh_old_count = 1, dh_new_start = 0, dh_new_count = 0, dh_lines = [l]\<rparr>],
         df_old_no_final_newline = False, df_new_no_final_newline = False,
         df_old_no_final_newline_line = None, df_new_no_final_newline_line = None\<rparr>)"

lemma sample_deletes: "apply_file_patch sample_deletion (Some (utf8_encode (''x'' @ [newline]))) = Inr None"
  by code_simp

theorem deletion_removes_whole_text_witness: "is_deleted sample_deletion"
  using deletion_removes_whole_text [OF sample_deletes] by blast

end
