(* ===== verification/Schemas.thy ===== *)
theory Schemas
  imports Paths
begin

text \<open>
  The data models of \<open>app/agent/schemas.py\<close> and \<open>app/sandbox/results.py\<close>: enumerations,
  records with the fields of the classes, and for each class the conjunction of its field
  constraints and of its model validator as a predicate \<open>valid_...\<close>.  Constructing or strictly
  revalidating an instance succeeds exactly when the predicate holds.  The element types are carried
  by the HOL types; a \<open>Path\<close> is its text.
\<close>

section \<open>Enumerations\<close>

datatype test_status = TS_passed | TS_failed | TS_timed_out | TS_error

datatype repair_status =
    RS_pending | RS_baseline_complete | RS_analysis_complete | RS_plan_complete
  | RS_patch_proposed | RS_verified | RS_failed

datatype failure_category =
    FC_syntax_failure | FC_import_or_dependency_failure | FC_assertion_failure
  | FC_incorrect_exception_behaviour | FC_type_related_failure | FC_timeout
  | FC_test_environment_failure | FC_unsupported_or_ambiguous

fun failure_category_value :: "failure_category \<Rightarrow> string" where
  "failure_category_value FC_syntax_failure = ''syntax_failure''"
| "failure_category_value FC_import_or_dependency_failure = ''import_or_dependency_failure''"
| "failure_category_value FC_assertion_failure = ''assertion_failure''"
| "failure_category_value FC_incorrect_exception_behaviour = ''incorrect_exception_behaviour''"
| "failure_category_value FC_type_related_failure = ''type_related_failure''"
| "failure_category_value FC_timeout = ''timeout''"
| "failure_category_value FC_test_environment_failure = ''test_environment_failure''"
| "failure_category_value FC_unsupported_or_ambiguous = ''unsupported_or_ambiguous''"

datatype evaluation_status = ES_passed | ES_failed

datatype model_operation = REPAIR_PLANNING | PATCH_GENERATION

datatype model_diagnostic_stage = MDS_CONFIGURATION | MDS_PLANNING | MDS_PATCH_GENERATION | MDS_STATE_UPDATE

datatype model_diagnostic_code =
    MISSING_CONFIGURATION | INVALID_CONFIGURATION | UNSUPPORTED_PROMPT_VERSION
  | INVALID_INPUT_STATE | PROVIDER_EXCEPTION | OVERSIZED_RESPONSE
  | MALFORMED_STRUCTURED_OUTPUT | UNSUITABLE_AUTONOMOUS_REPAIR | INVALID_PATCH_ENVELOPE

datatype revision_kind = SNAPSHOT

datatype baseline_outcome =
    REPRODUCED_FAILURE | NOT_REPRODUCIBLE | BASELINE_INFRASTRUCTURE

datatype baseline_diagnostic_code =
    BASELINE_NOT_REPRODUCIBLE | INVALID_VISIBLE_TEST | SANDBOX_TIMED_OUT | SANDBOX_MEMORY_LIMIT
  | SANDBOX_VALIDATION_FAILED | SANDBOX_EXECUTION_FAILED | SANDBOX_CLEANUP_FAILED
  | MALFORMED_SANDBOX_RESULT

datatype sandbox_completion = NORMAL | TIMED_OUT | MEMORY_LIMIT

section \<open>Sandbox results\<close>

record sandbox_limits =
  sl_cpu_count :: pyfloat
  sl_memory_bytes :: int
  sl_pids_limit :: int
  sl_timeout_seconds :: pyfloat
  sl_stdout_bytes :: int
  sl_stderr_bytes :: int

definition truncation_marker :: string where
  "truncation_marker = newline # ''[tracefix output truncated]'' @ [newline]"

fun positive_finite :: "pyfloat \<Rightarrow> bool" where
  "positive_finite (Finite x) = (0 < x)"
| "positive_finite _ = False"

definition valid_sandbox_limits :: "sandbox_limits \<Rightarrow> bool" where
  [valid_defs]: "valid_sandbox_limits l \<longleftrightarrow>
     positive_finite (sl_cpu_count l) \<and> 0 < sl_memory_bytes l \<and> 0 < sl_pids_limit l \<and>
     positive_finite (sl_timeout_seconds l) \<and> 0 < sl_stdout_bytes l \<and> 0 < sl_stderr_bytes l \<and>
     int (length truncation_marker) \<le> sl_stdout_bytes l \<and>
     int (length truncation_marker) \<le> sl_stderr_bytes l"

record sandbox_result =
  sr_exit_code :: "int option"
  sr_completion :: sandbox_completion
  sr_stdout :: string
  sr_stderr :: string
  sr_stdout_truncated :: bool
  sr_stderr_truncated :: bool
  sr_duration_seconds :: pyfloat

definition valid_sandbox_result :: "sandbox_result \<Rightarrow> bool" where
  [valid_defs]: "valid_sandbox_result r \<longleftrightarrow>
     finite_at_least 0 (sr_duration_seconds r) \<and>
     \<not> (sr_completion r = NORMAL \<and> sr_exit_code r = None) \<and>
     \<not> (sr_completion r = TIMED_OUT \<and> sr_exit_code r \<noteq> None) \<and>
     endswith (sr_stdout r) truncation_marker = sr_stdout_truncated r \<and>
     endswith (sr_stderr r) truncation_marker = sr_stderr_truncated r"

section \<open>Preparation and baseline\<close>

record repository_fingerprint =
  rf_algorithm :: string
  rf_version :: int
  rf_digest :: string

definition valid_fingerprint :: "repository_fingerprint \<Rightarrow> bool" where
  [valid_defs]: "valid_fingerprint f \<longleftrightarrow>
     rf_algorithm f = ''sha256'' \<and> rf_version f = 1 \<and> hex_string 64 (rf_digest f)"

definition fingerprint_identifier :: "repository_fingerprint \<Rightarrow> string" where
  "fingerprint_identifier f =
     ''tracefix-repository-'' @ rf_algorithm f @ ''-v'' @ decimal (nat (rf_version f)) @ '':'' @ rf_digest f"

record repository_preparation =
  rp_case_id :: string
  rp_requested_revision :: string
  rp_revision_kind :: revision_kind
  rp_prepared_repository :: string
  rp_fingerprint :: repository_fingerprint

definition valid_preparation :: "repository_preparation \<Rightarrow> bool" where
  [valid_defs]: "valid_preparation p \<longleftrightarrow>
     non_blank (rp_case_id p) \<and> non_blank (rp_requested_revision p) \<and> valid_fingerprint (rp_fingerprint p)"

record baseline_evidence =
  be_completion :: sandbox_completion
  be_exit_code :: "int option"
  be_stdout :: string
  be_stderr :: string
  be_stdout_truncated :: bool
  be_stderr_truncated :: bool
  be_duration_seconds :: pyfloat

definition valid_baseline_evidence :: "baseline_evidence \<Rightarrow> bool" where
  [valid_defs]: "valid_baseline_evidence e \<longleftrightarrow> finite_at_least 0 (be_duration_seconds e)"

record baseline_result =
  br_preparation :: repository_preparation
  br_outcome :: baseline_outcome
  br_evidence :: "baseline_evidence option"
  br_diagnostic_code :: "baseline_diagnostic_code option"
  br_message :: "string option"

text \<open>\<open>BaselineResult.validate_outcome\<close>: the chain of the source, each branch negated\<close>

definition baseline_outcome_ok :: "baseline_result \<Rightarrow> bool" where
  "baseline_outcome_ok r =
     (let ev = br_evidence r; dc = br_diagnostic_code r; msg = br_message r in
      case br_outcome r of
        REPRODUCED_FAILURE \<Rightarrow>
          (case ev of None \<Rightarrow> False
           | Some e \<Rightarrow> be_completion e = NORMAL \<and> be_exit_code e \<noteq> None \<and> be_exit_code e \<noteq> Some 0)
          \<and> dc = None \<and> msg = None
      | NOT_REPRODUCIBLE \<Rightarrow>
          (case ev of None \<Rightarrow> False | Some e \<Rightarrow> be_completion e = NORMAL \<and> be_exit_code e = Some 0)
          \<and> dc = Some BASELINE_NOT_REPRODUCIBLE \<and> msg \<noteq> None
      | BASELINE_INFRASTRUCTURE \<Rightarrow>
          if dc = None \<or> dc = Some BASELINE_NOT_REPRODUCIBLE \<or> msg = None then False
          else if dc = Some SANDBOX_TIMED_OUT then
            (case ev of None \<Rightarrow> False | Some e \<Rightarrow> be_completion e = TIMED_OUT \<and> be_exit_code e = None)
          else if dc = Some SANDBOX_MEMORY_LIMIT then
            (case ev of None \<Rightarrow> False | Some e \<Rightarrow> be_completion e = MEMORY_LIMIT)
          else ev = None)"

definition valid_baseline_result :: "baseline_result \<Rightarrow> bool" where
  [valid_defs]: "valid_baseline_result r \<longleftrightarrow>
     valid_preparation (br_preparation r) \<and> opt_valid valid_baseline_evidence (br_evidence r) \<and>
     opt_valid non_blank (br_message r) \<and> baseline_outcome_ok r"

record test_result =
  tr_status :: test_status
  tr_exit_code :: int
  tr_stdout :: string
  tr_stderr :: string
  tr_duration_seconds :: pyfloat

definition valid_test_result :: "test_result \<Rightarrow> bool" where
  [valid_defs]: "valid_test_result r \<longleftrightarrow> finite_at_least 0 (tr_duration_seconds r)"

record failure_analysis =
  fa_category :: failure_category
  fa_summary :: string

definition valid_failure_analysis :: "failure_analysis \<Rightarrow> bool" where
  [valid_defs]: "valid_failure_analysis a \<longleftrightarrow> non_blank (fa_summary a)"

section \<open>Context packages\<close>

datatype context_item_kind =
    ISSUE | CLASSIFICATION | PROTECTED_PATH_POLICY | FAILURE_TRACE | VISIBLE_TEST
  | SOURCE | DEFINITION | IMPORT | TYPE_DEFINITION | REPOSITORY_INSTRUCTION

fun item_kind_value :: "context_item_kind \<Rightarrow> string" where
  "item_kind_value ISSUE = ''issue''"
| "item_kind_value CLASSIFICATION = ''classification''"
| "item_kind_value PROTECTED_PATH_POLICY = ''protected_path_policy''"
| "item_kind_value FAILURE_TRACE = ''failure_trace''"
| "item_kind_value VISIBLE_TEST = ''visible_test''"
| "item_kind_value SOURCE = ''source''"
| "item_kind_value DEFINITION = ''definition''"
| "item_kind_value IMPORT = ''import''"
| "item_kind_value TYPE_DEFINITION = ''type_definition''"
| "item_kind_value REPOSITORY_INSTRUCTION = ''repository_instruction''"

datatype omission_reason =
    BUDGET | AST_PARSE_FAILED | GENERATED | SECRET | UNSAFE_PATH | UNREADABLE | UNRELATED

fun omission_reason_value :: "omission_reason \<Rightarrow> string" where
  "omission_reason_value BUDGET = ''budget''"
| "omission_reason_value AST_PARSE_FAILED = ''ast_parse_failed''"
| "omission_reason_value GENERATED = ''generated''"
| "omission_reason_value SECRET = ''secret''"
| "omission_reason_value UNSAFE_PATH = ''unsafe_path''"
| "omission_reason_value UNREADABLE = ''unreadable''"
| "omission_reason_value UNRELATED = ''unrelated''"

text \<open>\<open>_validate_context_path\<close> on the \<open>as_posix\<close> text of the path\<close>

definition context_path_ok :: "string \<Rightarrow> bool" where
  "context_path_ok p = (\<not> (is_absolute p \<or> windows_drive_or_root p \<or> p = [] \<or> p = ''.''
     \<or> backslash \<in> set p \<or> nul \<in> set p \<or> list_ex (\<lambda>part. part \<in> {[], ''.'', ''..''}) (posix_parts p)))"

record context_item =
  ci_path :: string
  ci_kind :: context_item_kind
  ci_content :: string
  ci_priority :: nat
  ci_source_line :: nat
  ci_truncated :: bool
  ci_original_utf8_bytes :: nat

definition valid_context_item :: "context_item \<Rightarrow> bool" where
  [valid_defs]: "valid_context_item i \<longleftrightarrow>
     ci_priority i \<le> 6 \<and> context_path_ok (ci_path i) \<and>
     utf8_len (ci_content i) \<le> ci_original_utf8_bytes i \<and>
     ci_truncated i = (ci_original_utf8_bytes i > utf8_len (ci_content i))"

definition bool_digit :: "bool \<Rightarrow> string" where
  "bool_digit b = (if b then ''1'' else ''0'')"

definition item_text :: "context_item \<Rightarrow> string" where
  "item_text i =
     ''['' @ item_kind_value (ci_kind i) @ ''|'' @ ci_path i @ ''|p='' @ decimal (ci_priority i) @
     ''|l='' @ decimal (ci_source_line i) @ ''|t='' @ bool_digit (ci_truncated i) @
     ''|b='' @ decimal (ci_original_utf8_bytes i) @ '']'' @ [newline] @ ci_content i @ [newline]"

record context_omission =
  co_path :: string
  co_kind :: context_item_kind
  co_reason :: omission_reason

definition valid_context_omission :: "context_omission \<Rightarrow> bool" where
  [valid_defs]: "valid_context_omission o' \<longleftrightarrow> context_path_ok (co_path o')"

definition default_protected_paths :: "string list" where
  "default_protected_paths = sort_key casefold
     [''.github/workflows'', ''authentication'', ''authorization'', ''deployment'', ''docker'',
      ''infra'', ''migrations'', ''security'', ''secrets'', ''terraform'', ''Pipfile.lock'',
      ''poetry.lock'', ''uv.lock'']"

record protected_path_policy =
  pp_protected_paths :: "string list"
  pp_exceptions :: "string list"

definition valid_protected_path_policy :: "protected_path_policy \<Rightarrow> bool" where
  [valid_defs]: "valid_protected_path_policy p \<longleftrightarrow>
     pp_protected_paths p \<noteq> [] \<and> pp_exceptions p = [] \<and>
     list_all context_path_ok (pp_protected_paths p) \<and>
     distinct (map casefold (pp_protected_paths p)) \<and>
     pp_protected_paths p = sort_key casefold (pp_protected_paths p)"

record context_package =
  cp_case_id :: string
  cp_failure_analysis :: failure_analysis
  cp_protected_path_policy :: protected_path_policy
  cp_items :: "context_item list"
  cp_omissions :: "context_omission list"
  cp_limit_utf8_bytes :: nat
  cp_actual_utf8_bytes :: nat
  cp_safe_material_omitted :: bool

definition omission_text :: "context_omission \<Rightarrow> string" where
  "omission_text o' = ''[omission|'' @ co_path o' @ ''|'' @ item_kind_value (co_kind o') @ ''|'' @
     omission_reason_value (co_reason o') @ '']'' @ [newline]"

definition render_downstream ::
  "string \<Rightarrow> context_item list \<Rightarrow> context_omission list \<Rightarrow> nat \<Rightarrow> bool \<Rightarrow> string" where
  "render_downstream case_id items omissions limit omitted =
     ''[context|'' @ case_id @ ''|limit='' @ decimal limit @ ''|omitted='' @ bool_digit omitted @ '']'' @
     [newline] @ concat (map item_text items) @ concat (map omission_text omissions)"

definition downstream_utf8_size ::
  "string \<Rightarrow> context_item list \<Rightarrow> context_omission list \<Rightarrow> nat \<Rightarrow> bool \<Rightarrow> nat" where
  "downstream_utf8_size case_id items omissions limit omitted =
     utf8_len (render_downstream case_id items omissions limit omitted)"

definition downstream_text :: "context_package \<Rightarrow> string" where
  "downstream_text p = render_downstream (cp_case_id p) (cp_items p) (cp_omissions p)
     (cp_limit_utf8_bytes p) (cp_safe_material_omitted p)"

definition item_order :: "context_item \<Rightarrow> nat \<times> string \<times> nat \<times> string" where
  "item_order i = (ci_priority i, casefold (ci_path i), ci_source_line i, item_kind_value (ci_kind i))"

definition item_key :: "context_item \<Rightarrow> string \<times> string \<times> nat" where
  "item_key i = (casefold (ci_path i), item_kind_value (ci_kind i), ci_source_line i)"

definition omission_key :: "context_omission \<Rightarrow> string \<times> string \<times> string" where
  "omission_key o' = (casefold (co_path o'), item_kind_value (co_kind o'), omission_reason_value (co_reason o'))"

definition classification_content :: "failure_analysis \<Rightarrow> string" where
  "classification_content a = failure_category_value (fa_category a) @ [newline] @ fa_summary a"

definition policy_content :: "protected_path_policy \<Rightarrow> string" where
  "policy_content p = join_with newline (pp_protected_paths p)"

definition context_accounting_ok :: "context_package \<Rightarrow> bool" where
  "context_accounting_ok p \<longleftrightarrow>
     utf8_len (downstream_text p) = cp_actual_utf8_bytes p \<and>
     utf8_len (downstream_text p) \<le> cp_limit_utf8_bytes p \<and>
     sorted (map item_order (cp_items p)) \<and>
     cp_safe_material_omitted p =
       (list_ex ci_truncated (cp_items p) \<or> list_ex (\<lambda>x. co_reason x = BUDGET) (cp_omissions p)) \<and>
     distinct (map item_key (cp_items p)) \<and>
     sorted (map omission_key (cp_omissions p)) \<and>
     distinct (map omission_key (cp_omissions p)) \<and>
     list_ex (\<lambda>i. ci_kind i = ISSUE) (cp_items p) \<and>
     list_ex (\<lambda>i. ci_kind i = CLASSIFICATION \<and>
         ci_content i = classification_content (cp_failure_analysis p)) (cp_items p) \<and>
     list_ex (\<lambda>i. ci_kind i = PROTECTED_PATH_POLICY \<and>
         ci_content i = policy_content (cp_protected_path_policy p)) (cp_items p)"

definition valid_context_package :: "context_package \<Rightarrow> bool" where
  [valid_defs]: "valid_context_package p \<longleftrightarrow>
     non_blank (cp_case_id p) \<and> valid_failure_analysis (cp_failure_analysis p) \<and>
     valid_protected_path_policy (cp_protected_path_policy p) \<and>
     list_all valid_context_item (cp_items p) \<and> list_all valid_context_omission (cp_omissions p) \<and>
     0 < cp_limit_utf8_bytes p \<and> context_accounting_ok p"

section \<open>Model requests and responses\<close>

record model_configuration =
  mc_provider :: string
  mc_model_name :: string
  mc_temperature :: pyfloat
  mc_max_output_tokens :: int
  mc_prompt_version :: string

definition valid_temperature :: "pyfloat \<Rightarrow> bool" where
  [valid_defs]: "valid_temperature t \<longleftrightarrow> finite_at_least 0 t \<and> finite_at_most 2 t"

definition valid_model_configuration :: "model_configuration \<Rightarrow> bool" where
  [valid_defs]: "valid_model_configuration c \<longleftrightarrow>
     non_blank (mc_provider c) \<and> non_blank (mc_model_name c) \<and> valid_temperature (mc_temperature c) \<and>
     1 \<le> mc_max_output_tokens c \<and> mc_max_output_tokens c \<le> 32768 \<and> non_blank (mc_prompt_version c)"

text \<open>\<open>^[a-z0-9][a-z0-9_-]{0,127}$\<close> with at most 128 characters\<close>

definition is_lower_alnum :: "char \<Rightarrow> bool" where
  "is_lower_alnum c = (is_digit c \<or> (97 \<le> code c \<and> code c \<le> 122))"

definition provider_case_id :: "string \<Rightarrow> bool" where
  "provider_case_id s = (s \<noteq> [] \<and> length s \<le> 128 \<and> is_lower_alnum (hd s) \<and>
     list_all (\<lambda>c. is_lower_alnum c \<or> c = CHR ''_'' \<or> c = CHR ''-'') (tl s))"

record model_provider_request =
  mr_case_id :: string
  mr_operation :: model_operation
  mr_model_name :: string
  mr_temperature :: pyfloat
  mr_max_output_tokens :: int
  mr_prompt_version :: string
  mr_attempt_number :: int
  mr_rendered_prompt :: string

definition valid_provider_request :: "model_provider_request \<Rightarrow> bool" where
  [valid_defs]: "valid_provider_request r \<longleftrightarrow>
     provider_case_id (mr_case_id r) \<and> non_blank (mr_model_name r) \<and>
     valid_temperature (mr_temperature r) \<and>
     1 \<le> mr_max_output_tokens r \<and> mr_max_output_tokens r \<le> 32768 \<and>
     non_blank (mr_prompt_version r) \<and> mr_attempt_number r = 1 \<and> non_blank (mr_rendered_prompt r)"

record model_call_usage =
  mu_latency_seconds :: pyfloat
  mu_input_tokens :: int
  mu_output_tokens :: int

definition token_count_ok :: "int \<Rightarrow> bool" where
  "token_count_ok n \<longleftrightarrow> 0 \<le> n \<and> n \<le> 2 ^ 63 - 1"

definition valid_usage :: "model_call_usage \<Rightarrow> bool" where
  [valid_defs]: "valid_usage u \<longleftrightarrow> finite_at_least 0 (mu_latency_seconds u) \<and>
     token_count_ok (mu_input_tokens u) \<and> token_count_ok (mu_output_tokens u)"

record model_provider_response =
  mp_raw_json :: string
  mp_usage :: "model_call_usage option"

definition valid_provider_response :: "model_provider_response \<Rightarrow> bool" where
  [valid_defs]: "valid_provider_response r \<longleftrightarrow> opt_valid valid_usage (mp_usage r)"

record model_diagnostic =
  md_stage :: model_diagnostic_stage
  md_code :: model_diagnostic_code
  md_message :: string

definition valid_model_diagnostic :: "model_diagnostic \<Rightarrow> bool" where
  [valid_defs]: "valid_model_diagnostic d \<longleftrightarrow> non_blank (md_message d)"

record repair_plan =
  pl_suspected_root_cause :: string
  pl_files_expected_to_change :: "string list"
  pl_intended_behavioural_correction :: string
  pl_risks :: "string list"
  pl_validation_strategy :: string
  pl_autonomous_repair_suitable :: bool

definition valid_repair_plan :: "repair_plan \<Rightarrow> bool" where
  [valid_defs]: "valid_repair_plan p \<longleftrightarrow>
     non_blank (pl_suspected_root_cause p) \<and> list_all non_blank (pl_files_expected_to_change p) \<and>
     non_blank (pl_intended_behavioural_correction p) \<and> list_all non_blank (pl_risks p) \<and>
     non_blank (pl_validation_strategy p)"

record patch_proposal =
  pr_summary :: string
  pr_root_cause :: string
  pr_files_changed :: "string list"
  pr_unified_diff :: string
  pr_expected_effect :: string
  pr_risks :: "string list"
  pr_confidence :: pyfloat

definition valid_patch_proposal :: "patch_proposal \<Rightarrow> bool" where
  [valid_defs]: "valid_patch_proposal p \<longleftrightarrow>
     non_blank (pr_summary p) \<and> non_blank (pr_root_cause p) \<and> list_all non_blank (pr_files_changed p) \<and>
     non_blank (pr_unified_diff p) \<and> non_blank (pr_expected_effect p) \<and>
     list_all non_blank (pr_risks p) \<and>
     finite_at_least 0 (pr_confidence p) \<and> finite_at_most 1 (pr_confidence p)"

record evaluation_result =
  er_status :: evaluation_status
  er_summary :: string

definition valid_evaluation_result :: "evaluation_result \<Rightarrow> bool" where
  [valid_defs]: "valid_evaluation_result r \<longleftrightarrow> non_blank (er_summary r)"

section \<open>The case state\<close>

text \<open>A \<open>datetime\<close>: its instant, and its offset from UTC (\<open>None\<close> for a naive one).\<close>

record datetime =
  dt_instant :: int
  dt_offset :: "int option"

record repair_case_state =
  cs_case_id :: string
  cs_status :: repair_status
  cs_attempt_number :: int
  cs_max_attempts :: int
  cs_baseline_result :: "(test_result + baseline_result) option"
  cs_failure_analysis :: "failure_analysis option"
  cs_repair_plan :: "repair_plan option"
  cs_candidate_patch :: "patch_proposal option"
  cs_verification_results :: "test_result list"
  cs_evaluation_results :: "evaluation_result list"
  cs_model_provider :: "string option"
  cs_model_name :: "string option"
  cs_prompt_version :: "string option"
  cs_created_at :: datetime
  cs_updated_at :: datetime

definition valid_case_state :: "repair_case_state \<Rightarrow> bool" where
  [valid_defs]: "valid_case_state s \<longleftrightarrow>
     non_blank (cs_case_id s) \<and> 0 \<le> cs_attempt_number s \<and> cs_attempt_number s \<le> 1 \<and>
     cs_max_attempts s = 1 \<and>
     opt_valid (\<lambda>r. case r of Inl t \<Rightarrow> valid_test_result t | Inr b \<Rightarrow> valid_baseline_result b)
       (cs_baseline_result s) \<and>
     opt_valid valid_failure_analysis (cs_failure_analysis s) \<and>
     opt_valid valid_repair_plan (cs_repair_plan s) \<and>
     opt_valid valid_patch_proposal (cs_candidate_patch s) \<and>
     list_all valid_test_result (cs_verification_results s) \<and>
     list_all valid_evaluation_result (cs_evaluation_results s) \<and>
     opt_valid non_blank (cs_model_provider s) \<and> opt_valid non_blank (cs_model_name s) \<and>
     opt_valid non_blank (cs_prompt_version s) \<and>
     dt_offset (cs_created_at s) \<noteq> None \<and> dt_offset (cs_updated_at s) \<noteq> None"

end
