(* ===== verification/Policy_Model.thy ===== *)
theory Policy_Model
  imports Schemas Patch_Facts
begin

text \<open>
  The data of \<open>app/agent/policy.py\<close>: violation codes and their constant messages, the policy,
  the result with its validator, the input diagnostics, and the path rules.
\<close>

section \<open>Violations\<close>

datatype violation_code =
    PROTECTED_PATH_MODIFIED | TOO_MANY_FILES | LINE_CHANGE_LIMIT_EXCEEDED | BINARY_CONTENT
  | SECRET_DETECTED | TEST_DISABLED | ASSERTION_REMOVED | CI_OR_SECURITY_CONFIG_MODIFIED
  | UNRESTRICTED_SUBPROCESS_INTRODUCED | UNAPPROVED_DEPENDENCY_ADDED | HIDDEN_TEST_MODIFIED
  | BENCHMARK_METADATA_MODIFIED | REFERENCE_PATCH_MODIFIED

fun violation_message :: "violation_code \<Rightarrow> string" where
  "violation_message PROTECTED_PATH_MODIFIED = ''protected path modification is not allowed''"
| "violation_message TOO_MANY_FILES = ''patch changes too many files''"
| "violation_message LINE_CHANGE_LIMIT_EXCEEDED = ''patch exceeds the changed-line limit''"
| "violation_message BINARY_CONTENT = ''binary patch content is not allowed''"
| "violation_message SECRET_DETECTED = ''credential or private-key material is not allowed''"
| "violation_message TEST_DISABLED = ''test deletion or disabling is not allowed''"
| "violation_message ASSERTION_REMOVED = ''assertion removal is not allowed''"
| "violation_message CI_OR_SECURITY_CONFIG_MODIFIED =
     ''CI or security configuration modification is not allowed''"
| "violation_message UNRESTRICTED_SUBPROCESS_INTRODUCED =
     ''direct process or shell execution is not allowed''"
| "violation_message UNAPPROVED_DEPENDENCY_ADDED = ''dependency addition is not allowlisted''"
| "violation_message HIDDEN_TEST_MODIFIED = ''hidden-test material modification is not allowed''"
| "violation_message BENCHMARK_METADATA_MODIFIED = ''benchmark metadata modification is not allowed''"
| "violation_message REFERENCE_PATCH_MODIFIED = ''reference patch modification is not allowed''"

text \<open>\<open>_RULE_ORDER\<close>: the position in the enumeration, from one\<close>

fun rule_order :: "violation_code \<Rightarrow> nat" where
  "rule_order PROTECTED_PATH_MODIFIED = 1"
| "rule_order TOO_MANY_FILES = 2"
| "rule_order LINE_CHANGE_LIMIT_EXCEEDED = 3"
| "rule_order BINARY_CONTENT = 4"
| "rule_order SECRET_DETECTED = 5"
| "rule_order TEST_DISABLED = 6"
| "rule_order ASSERTION_REMOVED = 7"
| "rule_order CI_OR_SECURITY_CONFIG_MODIFIED = 8"
| "rule_order UNRESTRICTED_SUBPROCESS_INTRODUCED = 9"
| "rule_order UNAPPROVED_DEPENDENCY_ADDED = 10"
| "rule_order HIDDEN_TEST_MODIFIED = 11"
| "rule_order BENCHMARK_METADATA_MODIFIED = 12"
| "rule_order REFERENCE_PATCH_MODIFIED = 13"

lemma rule_order_inj [simp]: "rule_order c = rule_order d \<longleftrightarrow> c = d"
  by (cases c; cases d) simp_all

text \<open>\<open>_validate_relative_path\<close> on the \<open>as_posix\<close> text\<close>

definition policy_path_ok :: "string \<Rightarrow> bool" where
  "policy_path_ok p = (\<not> (p = [] \<or> p = ''.'' \<or> is_absolute p \<or> windows_drive_or_root p
     \<or> backslash \<in> set p \<or> p \<noteq> strip p \<or> list_ex is_control p
     \<or> list_ex (\<lambda>part. part \<in> {[], ''.'', ''..''}) (posix_parts p)))"

record policy_violation =
  pv_code :: violation_code
  pv_message :: string
  pv_path :: "string option"
  pv_line :: "nat option"

definition valid_policy_violation :: "policy_violation \<Rightarrow> bool" where
  [valid_defs]: "valid_policy_violation v \<longleftrightarrow>
     opt_valid (\<lambda>n. 1 \<le> n) (pv_line v) \<and> pv_message v = violation_message (pv_code v) \<and>
     opt_valid policy_path_ok (pv_path v) \<and> \<not> (pv_line v \<noteq> None \<and> pv_path v = None)"

definition violation_sort_key :: "policy_violation \<Rightarrow> nat \<times> string \<times> string \<times> nat \<times> string" where
  "violation_sort_key v =
     (let path = (case pv_path v of None \<Rightarrow> [] | Some p \<Rightarrow> p) in
      (rule_order (pv_code v), casefold path, path,
       (case pv_line v of None \<Rightarrow> 0 | Some n \<Rightarrow> n), pv_message v))"

record policy_result =
  pr_approved :: bool
  pr_violations :: "policy_violation list"

definition valid_policy_result :: "policy_result \<Rightarrow> bool" where
  [valid_defs]: "valid_policy_result r \<longleftrightarrow>
     list_all valid_policy_violation (pr_violations r) \<and>
     pr_approved r = (pr_violations r = []) \<and>
     pr_violations r = sort_key violation_sort_key (pr_violations r) \<and>
     distinct (map violation_sort_key (pr_violations r))"

definition make_violation :: "violation_code \<Rightarrow> string option \<Rightarrow> nat option \<Rightarrow> policy_violation" where
  "make_violation c p l = \<lparr>pv_code = c, pv_message = violation_message c, pv_path = p, pv_line = l\<rparr>"

section \<open>The policy\<close>

definition is_ascii_alnum :: "char \<Rightarrow> bool" where
  "is_ascii_alnum c = (is_digit c \<or> (65 \<le> code c \<and> code c \<le> 90) \<or> (97 \<le> code c \<and> code c \<le> 122))"

definition is_package_separator :: "char \<Rightarrow> bool" where
  "is_package_separator c = (c = CHR ''-'' \<or> c = CHR ''_'' \<or> c = CHR ''.'')"

text \<open>\<open>[A-Za-z0-9](?:[A-Za-z0-9._-]*[A-Za-z0-9])?\<close>\<close>

definition package_name_ok :: "string \<Rightarrow> bool" where
  "package_name_ok s = (s \<noteq> [] \<and> is_ascii_alnum (hd s) \<and> is_ascii_alnum (last s) \<and>
     list_all (\<lambda>c. is_ascii_alnum c \<or> is_package_separator c) s)"

text \<open>\<open>re.sub(r"[-_.]+", "-", value)\<close>\<close>

fun collapse_separators :: "bool \<Rightarrow> string \<Rightarrow> string" where
  "collapse_separators inside [] = []"
| "collapse_separators inside (c # cs) =
     (if is_package_separator c
      then (if inside then collapse_separators True cs else CHR ''-'' # collapse_separators True cs)
      else c # collapse_separators False cs)"

definition normalized_package_name :: "string \<Rightarrow> string option" where
  "normalized_package_name s =
     (if package_name_ok s then Some (casefold (collapse_separators False s)) else None)"

record patch_policy =
  po_protected_path_policy :: protected_path_policy
  po_forbidden_changed_files :: "string list"
  po_max_changed_files :: nat
  po_max_changed_lines :: nat
  po_dependency_allowlist :: "string list"

definition valid_patch_policy :: "patch_policy \<Rightarrow> bool" where
  [valid_defs]: "valid_patch_policy p \<longleftrightarrow>
     valid_protected_path_policy (po_protected_path_policy p) \<and>
     po_max_changed_files p = 3 \<and> po_max_changed_lines p = 200 \<and>
     list_all policy_path_ok (po_forbidden_changed_files p) \<and>
     po_forbidden_changed_files p = sort_key casefold (po_forbidden_changed_files p) \<and>
     distinct (map casefold (po_forbidden_changed_files p)) \<and>
     map normalized_package_name (po_dependency_allowlist p) = map Some (po_dependency_allowlist p) \<and>
     sorted (po_dependency_allowlist p) \<and> distinct (po_dependency_allowlist p) \<and>
     pp_protected_paths (po_protected_path_policy p) = default_protected_paths"

datatype policy_input_code =
    INVALID_PROPOSAL | INVALID_POLICY | INVALID_PATH | INVALID_DIFF | INCONSISTENT_PATHS

fun policy_input_message :: "policy_input_code \<Rightarrow> string" where
  "policy_input_message INVALID_PROPOSAL = ''patch proposal input is invalid''"
| "policy_input_message INVALID_POLICY = ''patch policy input is invalid''"
| "policy_input_message INVALID_PATH = ''patch path input is invalid''"
| "policy_input_message INVALID_DIFF = ''patch diff input is invalid''"
| "policy_input_message INCONSISTENT_PATHS = ''patch paths are inconsistent''"

section \<open>Path rules\<close>

definition path_is_equal_or_below :: "string \<Rightarrow> string \<Rightarrow> bool" where
  "path_is_equal_or_below path protected =
     (take (length (folded_parts protected)) (folded_parts path) = folded_parts protected)"

definition has_prefix :: "string \<Rightarrow> string list \<Rightarrow> bool" where
  "has_prefix path parts =
     (let expected = map casefold parts in take (length expected) (folded_parts path) = expected)"

definition is_ci_or_security_path :: "string \<Rightarrow> bool" where
  "is_ci_or_security_path path =
     (let parts = folded_parts path; name = casefold (path_name path) in
      list_ex (has_prefix path)
        [[''.github'', ''workflows''], [''.github'', ''actions''], [''.circleci''], [''docker''],
         [''security'']] \<or>
      name \<in> {''.gitlab-ci.yml'', ''azure-pipelines.yml'', ''jenkinsfile'', ''dockerfile'',
        ''.bandit'', ''bandit.yml'', ''bandit.yaml'', ''bandit.toml'', ''security.md''} \<or>
      name \<in> {''seccomp.json'', ''seccomp.yml'', ''seccomp.yaml'', ''seccomp.profile''} \<or>
      startswith name ''seccomp-'' \<or> startswith name ''seccomp.'' \<or> ''security'' \<in> set parts)"

definition is_hidden_test_path :: "string \<Rightarrow> bool" where
  "is_hidden_test_path path =
     (let parts = map (\<lambda>p. py_replace ''-'' ''_'' (casefold p)) (posix_parts path) in
      list_ex (\<lambda>p. p \<in> {''evaluator'', ''hidden_tests'', ''hiddentests''}) parts \<or>
      list_ex (\<lambda>(l, r). l = ''hidden'' \<and> r = ''tests'') (zip parts (tl parts)))"

definition is_benchmark_metadata_path :: "string \<Rightarrow> bool" where
  "is_benchmark_metadata_path path =
     (let parts = folded_parts path in
      if ''benchmarks'' \<notin> set parts then False
      else if casefold (path_name path) = ''manifest.json'' then True
      else ''repository'' \<notin> set (tl (dropWhile (\<lambda>p. p \<noteq> ''benchmarks'') parts)))"

definition is_reference_patch_path :: "string \<Rightarrow> bool" where
  "is_reference_patch_path path =
     (casefold (path_name path) = ''reference.patch'' \<or>
      (''evaluator'' \<in> set (folded_parts path) \<and>
       startswith (py_replace ''-'' ''_'' (casefold (path_stem path))) ''reference_patch'' \<and>
       casefold (path_suffix path) \<in> {''.patch'', ''.diff''}))"

definition is_test_path :: "string \<Rightarrow> bool" where
  "is_test_path path =
     (let name = casefold (path_name path) in
      ''tests'' \<in> set (folded_parts path) \<or>
      (startswith name ''test_'' \<and> endswith name ''.py'') \<or> endswith name ''_test.py'')"

definition is_dependency_path :: "string \<Rightarrow> bool" where
  "is_dependency_path path =
     (let name = casefold (path_name path) in
      name \<in> {''pyproject.toml'', ''setup.py'', ''setup.cfg'', ''pipfile'', ''pipfile.lock'',
        ''poetry.lock'', ''uv.lock''} \<or>
      (startswith name ''requirements'' \<and> endswith name ''.txt''))"

section \<open>Collecting violations\<close>

definition safe_violation ::
  "violation_code \<Rightarrow> string \<Rightarrow> string set \<Rightarrow> nat option \<Rightarrow> policy_violation" where
  "safe_violation c path secret_paths line =
     (if path \<in> secret_paths then make_violation c None None else make_violation c (Some path) line)"

definition path_violations :: "string list \<Rightarrow> patch_policy \<Rightarrow> string set \<Rightarrow> policy_violation list" where
  "path_violations paths policy secret_paths =
     (let protected = pp_protected_paths (po_protected_path_policy policy) @ po_forbidden_changed_files policy
      in concat (map (\<lambda>path.
        (if list_ex (path_is_equal_or_below path) protected
         then [safe_violation PROTECTED_PATH_MODIFIED path secret_paths None] else []) @
        (if is_ci_or_security_path path
         then [safe_violation CI_OR_SECURITY_CONFIG_MODIFIED path secret_paths None] else []) @
        (if is_hidden_test_path path
         then [safe_violation HIDDEN_TEST_MODIFIED path secret_paths None] else []) @
        (if is_benchmark_metadata_path path
         then [safe_violation BENCHMARK_METADATA_MODIFIED path secret_paths None] else []) @
        (if is_reference_patch_path path
         then [safe_violation REFERENCE_PATCH_MODIFIED path secret_paths None] else [])) paths))"

definition line_violation ::
  "violation_code \<Rightarrow> diff_file \<Rightarrow> diff_line \<Rightarrow> string set \<Rightarrow> policy_violation" where
  "line_violation c file line secret_paths =
     safe_violation c (df_path file) secret_paths
       (if dl_kind line = ADDED then dl_new_line line else dl_old_line line)"

text \<open>A dictionary keyed by the four components keeps the first position of each key, and equal
  keys are equal violations: it is duplicate removal that keeps the first occurrences.\<close>

definition dict_values :: "policy_violation list \<Rightarrow> policy_violation list" where
  "dict_values vs = rev (remdups (rev vs))"

definition policy_result_of :: "policy_violation list \<Rightarrow> policy_result" where
  "policy_result_of violations =
     (let ordered = sort_key violation_sort_key (dict_values violations) in
      \<lparr>pr_approved = (ordered = []), pr_violations = ordered\<rparr>)"

section \<open>The result is valid\<close>

lemma violation_sort_key_inj:
  assumes "valid_policy_violation v" "valid_policy_violation w"
    "violation_sort_key v = violation_sort_key w"
  shows "v = w"
  using assms
  by (cases v; cases w)
     (auto simp: valid_policy_violation_def violation_sort_key_def Let_def policy_path_ok_def
        split: option.splits)

lemma policy_result_of_valid:
  assumes "list_all valid_policy_violation vs"
  shows "valid_policy_result (policy_result_of vs)"
proof -
  let ?d = "dict_values vs"
  have set: "set ?d = set vs" and dist: "distinct ?d" by (simp_all add: dict_values_def)
  have "inj_on violation_sort_key (set ?d)"
    using assms violation_sort_key_inj by (auto simp: inj_on_def set list_all_iff)
  then have "distinct (map violation_sort_key ?d)" using dist by (simp add: distinct_map)
  then have "distinct (map violation_sort_key (sort_key violation_sort_key ?d))"
    by (metis distinct_map distinct_sort set_sort)
  moreover have "list_all valid_policy_violation (sort_key violation_sort_key ?d)"
    using assms set by (simp add: list_all_iff)
  moreover have "sort_key violation_sort_key (sort_key violation_sort_key ?d) =
      sort_key violation_sort_key ?d"
    by (simp add: sort_key_id_if_sorted)
  ultimately show ?thesis
    by (simp add: valid_policy_result_def policy_result_of_def Let_def)
qed

lemma policy_result_of_simps:
  "pr_approved (policy_result_of vs) \<longleftrightarrow> vs = []"
  "set (pr_violations (policy_result_of vs)) = set vs"
proof -
  have s: "set (sort_key violation_sort_key (dict_values vs)) = set vs" by (simp add: dict_values_def)
  then show "set (pr_violations (policy_result_of vs)) = set vs"
    by (simp add: policy_result_of_def Let_def)
  from s show "pr_approved (policy_result_of vs) \<longleftrightarrow> vs = []"
    by (simp add: policy_result_of_def Let_def flip: set_empty)
qed

lemma not_rejected_policy_path: "\<not> path_rejected p \<Longrightarrow> policy_path_ok p"
  by (auto simp: policy_path_ok_def path_rejected_def posix_parts_def list_ex_iff slash_def)

lemma safe_violation_valid:
  "\<not> path_rejected p \<Longrightarrow> opt_valid (\<lambda>n. 1 \<le> n) l \<Longrightarrow> valid_policy_violation (safe_violation c p sp l)"
  by (auto simp: safe_violation_def make_violation_def valid_policy_violation_def not_rejected_policy_path)

lemma path_violations_valid:
  "\<forall>p \<in> set paths. \<not> path_rejected p \<Longrightarrow>
   list_all valid_policy_violation (path_violations paths policy sp)"
  by (auto simp: path_violations_def Let_def list_all_iff intro!: safe_violation_valid)

section \<open>Properties\<close>

text \<open>From any violations that are valid on their own, \<open>_result\<close> builds a result that the
  model accepts: ordered by the sort key, without duplicates, approved exactly when there is no
  violation, and holding the same violations.\<close>

theorem policy_result_always_valid:
  assumes "list_all valid_policy_violation vs"
  shows "valid_policy_result (policy_result_of vs) \<and>
    (pr_approved (policy_result_of vs) \<longleftrightarrow> vs = []) \<and> set (pr_violations (policy_result_of vs)) = set vs"
  using policy_result_of_valid [OF assms] policy_result_of_simps by blast

definition sample_violations :: "policy_violation list" where
  "sample_violations = [make_violation SECRET_DETECTED None None, make_violation TOO_MANY_FILES None None,
     make_violation SECRET_DETECTED None None]"

theorem policy_result_always_valid_witness: "valid_policy_result (policy_result_of sample_violations)"
proof -
  have "list_all valid_policy_violation sample_violations"
    by (simp add: sample_violations_def make_violation_def valid_policy_violation_def)
  from policy_result_always_valid [OF this] show ?thesis by blast
qed

end
