(* ===== verification/Static_Model.thy ===== *)
theory Static_Model
  imports Policy_Model
begin

text \<open>
  The data of the static gate: the container protocol of \<open>app/sandbox/static_runner.py\<close> (tools,
  findings, results and their validators) and the results of \<open>app/agent/static_checks.py\<close>
  with the helper functions that build them.
\<close>

section \<open>Findings with a sort key\<close>

text \<open>
  Both modules order findings by a key and reject duplicates.  \<open>keyed_list\<close> is that contract: the
  list is sorted by the key and has no duplicates.
\<close>

definition keyed_list :: "('a \<Rightarrow> 'k::linorder) \<Rightarrow> 'a list \<Rightarrow> bool" where
  "keyed_list f xs \<longleftrightarrow> length xs \<le> 1000 \<and> xs = sort_key f xs \<and> distinct xs"

text \<open>\<open>^[A-Za-z0-9][A-Za-z0-9_.-]{0,63}$\<close>\<close>

definition rule_code_ok :: "string \<Rightarrow> bool" where
  "rule_code_ok s = (s \<noteq> [] \<and> length s \<le> 64 \<and> is_ascii_alnum (hd s) \<and>
     list_all (\<lambda>c. is_ascii_alnum c \<or> is_package_separator c) s)"

definition position_ok :: "nat option \<Rightarrow> bool" where
  "position_ok p = opt_valid (\<lambda>n. 1 \<le> n \<and> n \<le> 10000000) p"

section \<open>The container protocol\<close>

datatype tool_check = TOOL_PYTHON_COMPILE | TOOL_AST_PARSE | TOOL_RUFF | TOOL_MYPY | TOOL_BANDIT

definition all_tools :: "tool_check list" where
  "all_tools = [TOOL_PYTHON_COMPILE, TOOL_AST_PARSE, TOOL_RUFF, TOOL_MYPY, TOOL_BANDIT]"

datatype tool_status = TOOL_PASSED | TOOL_FAILED | TOOL_NOT_APPLICABLE | TOOL_INFRASTRUCTURE_ERROR

datatype tool_error_code =
    EXECUTABLE_MISSING | VERSION_MISMATCH | INVOCATION_FAILED | OUTPUT_INVALID | OUTPUT_LIMIT
  | SOURCE_READ_FAILED

text \<open>\<open>_validate_path\<close>\<close>

definition tool_path_ok :: "bool \<Rightarrow> string \<Rightarrow> bool" where
  "tool_path_ok require_python value = (\<not>
     (value = [] \<or> utf8_len value > 1024 \<or> value \<noteq> strip value \<or> backslash \<in> set value
      \<or> windows_drive_or_root value \<or> is_absolute value \<or> as_posix value \<noteq> value
      \<or> startswith value ''-'' \<or> startswith value ''@''
      \<or> list_ex (\<lambda>part. part \<in> {[], ''.'', ''..''}) (split_on slash value)
      \<or> list_ex is_control value
      \<or> (require_python \<and> casefold (path_suffix value) \<notin> {''.py'', ''.pyi''})))"

record tool_finding =
  tf_path :: string
  tf_line :: "nat option"
  tf_column :: "nat option"
  tf_rule_code :: string

definition valid_tool_finding :: "tool_finding \<Rightarrow> bool" where
  [valid_defs]: "valid_tool_finding f \<longleftrightarrow>
     tf_path f \<noteq> [] \<and> length (tf_path f) \<le> 1024 \<and> position_ok (tf_line f) \<and> position_ok (tf_column f) \<and>
     tool_path_ok True (tf_path f) \<and> \<not> (tf_column f \<noteq> None \<and> tf_line f = None) \<and>
     rule_code_ok (tf_rule_code f)"

definition or_zero :: "nat option \<Rightarrow> nat" where
  "or_zero x = (case x of None \<Rightarrow> 0 | Some n \<Rightarrow> n)"

definition tool_finding_key :: "tool_finding \<Rightarrow> string \<times> string \<times> nat \<times> nat \<times> string" where
  "tool_finding_key f =
     (casefold (tf_path f), tf_path f, or_zero (tf_line f), or_zero (tf_column f), tf_rule_code f)"

record tool_result =
  to_check :: tool_check
  to_status :: tool_status
  to_findings :: "tool_finding list"
  to_error_code :: "tool_error_code option"

definition valid_tool_result :: "tool_result \<Rightarrow> bool" where
  [valid_defs]: "valid_tool_result r \<longleftrightarrow>
     list_all valid_tool_finding (to_findings r) \<and> keyed_list tool_finding_key (to_findings r) \<and>
     (case to_status r of
        TOOL_FAILED \<Rightarrow> to_findings r \<noteq> [] \<and> to_error_code r = None
      | TOOL_INFRASTRUCTURE_ERROR \<Rightarrow> to_findings r = [] \<and> to_error_code r \<noteq> None
      | _ \<Rightarrow> to_findings r = [] \<and> to_error_code r = None)"

type_synonym container_result = "tool_result list"

definition valid_container_result :: "container_result \<Rightarrow> bool" where
  [valid_defs]: "valid_container_result rs \<longleftrightarrow>
     list_all valid_tool_result rs \<and> map to_check rs = all_tools \<and>
     \<not> (TOOL_NOT_APPLICABLE \<in> set (map to_status rs) \<and> set (map to_status rs) \<noteq> {TOOL_NOT_APPLICABLE})"

section \<open>Static checks\<close>

datatype static_check = PATCH_APPLY | CHANGED_FILES | PYTHON_COMPILE | AST_PARSE | RUFF | MYPY | BANDIT

definition all_checks :: "static_check list" where
  "all_checks = [PATCH_APPLY, CHANGED_FILES, PYTHON_COMPILE, AST_PARSE, RUFF, MYPY, BANDIT]"

datatype check_status = PASSED | FAILED | NOT_APPLICABLE | NOT_RUN | INFRASTRUCTURE_ERROR

datatype static_outcome = STATIC_PASSED | STATIC_CANDIDATE_FAILED | STATIC_INFRASTRUCTURE

datatype static_code =
    INVALID_INPUT | PREPARATION_INVALID | WORKSPACE_INVALID | FILESYSTEM_FAILED
  | STATIC_RUNNER_FAILED | INTEGRITY_FAILED | CLEANUP_FAILED | PREREQUISITE_FAILED

fun static_message :: "static_code \<Rightarrow> string" where
  "static_message INVALID_INPUT = ''static validation input is invalid''"
| "static_message PREPARATION_INVALID = ''prepared repository validation failed''"
| "static_message WORKSPACE_INVALID = ''candidate workspace validation failed''"
| "static_message FILESYSTEM_FAILED = ''candidate filesystem operation failed''"
| "static_message STATIC_RUNNER_FAILED = ''static container execution failed''"
| "static_message INTEGRITY_FAILED = ''repository integrity verification failed''"
| "static_message CLEANUP_FAILED = ''candidate cleanup failed''"
| "static_message PREREQUISITE_FAILED = ''a required earlier static check did not pass''"

fun finding_message :: "static_check \<Rightarrow> string" where
  "finding_message PATCH_APPLY = ''exact patch application failed''"
| "finding_message CHANGED_FILES = ''changed-file validation failed''"
| "finding_message PYTHON_COMPILE = ''python compilation failed''"
| "finding_message AST_PARSE = ''python AST parsing failed''"
| "finding_message RUFF = ''ruff reported a finding''"
| "finding_message MYPY = ''mypy reported a finding''"
| "finding_message BANDIT = ''bandit reported a finding''"

definition static_path_ok :: "string \<Rightarrow> bool" where
  "static_path_ok value = (\<not> path_rejected value \<and> utf8_len value \<le> 1024)"

record static_diagnostic =
  sd_code :: static_code
  sd_message :: string

definition valid_static_diagnostic :: "static_diagnostic \<Rightarrow> bool" where
  [valid_defs]: "valid_static_diagnostic d \<longleftrightarrow>
     sd_message d \<noteq> [] \<and> length (sd_message d) \<le> 128 \<and> sd_message d = static_message (sd_code d)"

record static_finding =
  sf_check :: static_check
  sf_path :: "string option"
  sf_line :: "nat option"
  sf_column :: "nat option"
  sf_rule_code :: string
  sf_message :: string

definition valid_static_finding :: "static_finding \<Rightarrow> bool" where
  [valid_defs]: "valid_static_finding f \<longleftrightarrow>
     opt_valid (\<lambda>p. p \<noteq> [] \<and> length p \<le> 1024 \<and> static_path_ok p) (sf_path f) \<and>
     position_ok (sf_line f) \<and> position_ok (sf_column f) \<and>
     \<not> (sf_line f \<noteq> None \<and> sf_path f = None) \<and> \<not> (sf_column f \<noteq> None \<and> sf_line f = None) \<and>
     rule_code_ok (sf_rule_code f) \<and> sf_message f = finding_message (sf_check f)"

definition finding_key :: "static_finding \<Rightarrow> string \<times> string \<times> nat \<times> nat \<times> string" where
  "finding_key f =
     (let path = (case sf_path f of None \<Rightarrow> [] | Some p \<Rightarrow> p) in
      (casefold path, path, or_zero (sf_line f), or_zero (sf_column f), sf_rule_code f))"

record check_result =
  cr_check :: static_check
  cr_status :: check_status
  cr_findings :: "static_finding list"
  cr_diagnostic :: "static_diagnostic option"

definition valid_check_result :: "check_result \<Rightarrow> bool" where
  [valid_defs]: "valid_check_result r \<longleftrightarrow>
     list_all valid_static_finding (cr_findings r) \<and> opt_valid valid_static_diagnostic (cr_diagnostic r) \<and>
     list_all (\<lambda>f. sf_check f = cr_check r) (cr_findings r) \<and> keyed_list finding_key (cr_findings r) \<and>
     (case cr_status r of
        FAILED \<Rightarrow> cr_findings r \<noteq> [] \<and> cr_diagnostic r = None
      | NOT_RUN \<Rightarrow> cr_findings r = [] \<and> cr_diagnostic r \<noteq> None
      | INFRASTRUCTURE_ERROR \<Rightarrow> cr_findings r = [] \<and> cr_diagnostic r \<noteq> None
      | _ \<Rightarrow> cr_findings r = [] \<and> cr_diagnostic r = None)"

record validated_candidate =
  vc_repository :: string
  vc_fingerprint :: repository_fingerprint

definition valid_candidate :: "validated_candidate \<Rightarrow> bool" where
  [valid_defs]: "valid_candidate c \<longleftrightarrow> valid_fingerprint (vc_fingerprint c) \<and> is_absolute (vc_repository c)"

record static_request =
  sq_preparation :: repository_preparation
  sq_proposal :: patch_proposal
  sq_policy_result :: policy_result
  sq_candidate_workspace_root :: string

definition valid_static_request :: "static_request \<Rightarrow> bool" where
  [valid_defs]: "valid_static_request r \<longleftrightarrow> valid_preparation (sq_preparation r) \<and>
     valid_patch_proposal (sq_proposal r) \<and> valid_policy_result (sq_policy_result r)"

record static_result =
  st_outcome :: static_outcome
  st_checks :: "check_result list"
  st_candidate :: "validated_candidate option"
  st_diagnostic :: "static_diagnostic option"

definition static_outcome_ok :: "static_result \<Rightarrow> bool" where
  "static_outcome_ok r =
     (let statuses = map cr_status (st_checks r); language = set (drop 2 statuses) in
      map cr_check (st_checks r) = all_checks \<and>
      NOT_APPLICABLE \<notin> set (take 2 statuses) \<and>
      \<not> (NOT_APPLICABLE \<in> language \<and> language \<noteq> {NOT_APPLICABLE}) \<and>
      (case st_outcome r of
         STATIC_PASSED \<Rightarrow>
           st_candidate r \<noteq> None \<and> st_diagnostic r = None \<and>
           set statuses \<subseteq> {PASSED, NOT_APPLICABLE} \<and>
           (language = {PASSED} \<or> language = {NOT_APPLICABLE})
       | STATIC_CANDIDATE_FAILED \<Rightarrow>
           st_candidate r = None \<and> st_diagnostic r = None \<and>
           FAILED \<in> set statuses \<and> INFRASTRUCTURE_ERROR \<notin> set statuses
       | STATIC_INFRASTRUCTURE \<Rightarrow>
           st_candidate r = None \<and> st_diagnostic r \<noteq> None \<and> INFRASTRUCTURE_ERROR \<in> set statuses))"

definition valid_static_result :: "static_result \<Rightarrow> bool" where
  [valid_defs]: "valid_static_result r \<longleftrightarrow>
     list_all valid_check_result (st_checks r) \<and> opt_valid valid_candidate (st_candidate r) \<and>
     opt_valid valid_static_diagnostic (st_diagnostic r) \<and> static_outcome_ok r"

section \<open>Building results\<close>

definition diagnostic_of :: "static_code \<Rightarrow> static_diagnostic" where
  "diagnostic_of c = \<lparr>sd_code = c, sd_message = static_message c\<rparr>"

definition check_passed :: "static_check \<Rightarrow> check_result" where
  "check_passed c = \<lparr>cr_check = c, cr_status = PASSED, cr_findings = [], cr_diagnostic = None\<rparr>"

definition check_not_applicable :: "static_check \<Rightarrow> check_result" where
  "check_not_applicable c =
     \<lparr>cr_check = c, cr_status = NOT_APPLICABLE, cr_findings = [], cr_diagnostic = None\<rparr>"

definition check_not_run :: "static_check \<Rightarrow> check_result" where
  "check_not_run c = \<lparr>cr_check = c, cr_status = NOT_RUN, cr_findings = [],
     cr_diagnostic = Some (diagnostic_of PREREQUISITE_FAILED)\<rparr>"

definition check_infrastructure :: "static_check \<Rightarrow> static_code \<Rightarrow> check_result" where
  "check_infrastructure c k = \<lparr>cr_check = c, cr_status = INFRASTRUCTURE_ERROR, cr_findings = [],
     cr_diagnostic = Some (diagnostic_of k)\<rparr>"

definition check_failed :: "static_check \<Rightarrow> string \<Rightarrow> check_result" where
  "check_failed c rule_code = \<lparr>cr_check = c, cr_status = FAILED,
     cr_findings = [\<lparr>sf_check = c, sf_path = None, sf_line = None, sf_column = None,
       sf_rule_code = rule_code, sf_message = finding_message c\<rparr>],
     cr_diagnostic = None\<rparr>"

definition blank_checks :: "check_result list" where
  "blank_checks = map check_not_run all_checks"

text \<open>\<open>next((index for ... if P item), default)\<close>\<close>

fun first_index :: "('a \<Rightarrow> bool) \<Rightarrow> 'a list \<Rightarrow> nat option" where
  "first_index P [] = None"
| "first_index P (x # xs) = (if P x then Some 0 else map_option Suc (first_index P xs))"

definition first_index_or_zero :: "('a \<Rightarrow> bool) \<Rightarrow> 'a list \<Rightarrow> nat" where
  "first_index_or_zero P xs = (case first_index P xs of None \<Rightarrow> 0 | Some i \<Rightarrow> i)"

text \<open>The list of checks is mutated in place: the new list is returned with the result.\<close>

definition mark_infrastructure :: "check_result list \<Rightarrow> static_code \<Rightarrow> check_result list" where
  "mark_infrastructure checks k =
     (if list_ex (\<lambda>c. cr_status c = INFRASTRUCTURE_ERROR) checks then checks
      else (let i = first_index_or_zero (\<lambda>c. cr_status c = NOT_RUN) checks in
            checks[i := check_infrastructure (cr_check (checks ! i)) k]))"

definition infrastructure_result :: "check_result list \<Rightarrow> static_code \<Rightarrow> static_result" where
  "infrastructure_result checks k = \<lparr>st_outcome = STATIC_INFRASTRUCTURE,
     st_checks = mark_infrastructure checks k, st_candidate = None,
     st_diagnostic = Some (diagnostic_of k)\<rparr>"

definition candidate_failed_result :: "check_result list \<Rightarrow> static_result" where
  "candidate_failed_result checks = \<lparr>st_outcome = STATIC_CANDIDATE_FAILED, st_checks = checks,
     st_candidate = None, st_diagnostic = None\<rparr>"

fun tool_to_check :: "tool_check \<Rightarrow> static_check" where
  "tool_to_check TOOL_PYTHON_COMPILE = PYTHON_COMPILE"
| "tool_to_check TOOL_AST_PARSE = AST_PARSE"
| "tool_to_check TOOL_RUFF = RUFF"
| "tool_to_check TOOL_MYPY = MYPY"
| "tool_to_check TOOL_BANDIT = BANDIT"

definition map_finding :: "static_check \<Rightarrow> tool_finding \<Rightarrow> static_finding" where
  "map_finding c f = \<lparr>sf_check = c, sf_path = Some (tf_path f), sf_line = tf_line f,
     sf_column = tf_column f, sf_rule_code = tf_rule_code f, sf_message = finding_message c\<rparr>"

definition map_tool_result :: "tool_result \<Rightarrow> check_result" where
  "map_tool_result r =
     (let c = tool_to_check (to_check r) in
      case to_status r of
        TOOL_PASSED \<Rightarrow> check_passed c
      | TOOL_NOT_APPLICABLE \<Rightarrow> check_not_applicable c
      | TOOL_INFRASTRUCTURE_ERROR \<Rightarrow> check_infrastructure c STATIC_RUNNER_FAILED
      | TOOL_FAILED \<Rightarrow> \<lparr>cr_check = c, cr_status = FAILED,
          cr_findings = map (map_finding c) (to_findings r), cr_diagnostic = None\<rparr>)"

text \<open>\<open>_revalidate_container_result\<close>: \<open>None\<close> stands for \<open>StaticRunnerError\<close>\<close>

definition revalidate_container_result :: "container_result \<Rightarrow> bool \<Rightarrow> container_result option" where
  "revalidate_container_result rs python_paths_present =
     (let statuses = set (map to_status rs) in
      if \<not> valid_container_result rs then None
      else if python_paths_present \<and> TOOL_NOT_APPLICABLE \<in> statuses then None
      else if \<not> python_paths_present \<and> statuses \<noteq> {TOOL_NOT_APPLICABLE} then None
      else Some rs)"

text \<open>\<open>_revalidate_request\<close>\<close>

definition revalidate_static_request :: "static_request \<Rightarrow> static_request option" where
  "revalidate_static_request r =
     (if valid_static_request r \<and> pr_approved (sq_policy_result r) \<and>
         pr_violations (sq_policy_result r) = [] then Some r else None)"

section \<open>The results that are built are valid\<close>

lemma first_index_SomeD: "first_index P xs = Some i \<Longrightarrow> i < length xs \<and> P (xs ! i)"
  by (induction xs arbitrary: i) (auto split: if_splits)

lemma first_index_or_zero_less: "xs \<noteq> [] \<Longrightarrow> first_index_or_zero P xs < length xs"
  by (auto simp: first_index_or_zero_def dest: first_index_SomeD split: option.splits)

lemma diagnostic_of_valid [simp]: "valid_static_diagnostic (diagnostic_of c)"
  by (cases c) (simp_all add: valid_static_diagnostic_def diagnostic_of_def)

lemma keyed_list_small [simp]: "keyed_list f []" "keyed_list f [x]"
  by (simp_all add: keyed_list_def)

lemma checks_valid [simp]:
  "valid_check_result (check_passed c)" "valid_check_result (check_not_applicable c)"
  "valid_check_result (check_not_run c)" "valid_check_result (check_infrastructure c k)"
  "rule_code_ok rc \<Longrightarrow> valid_check_result (check_failed c rc)"
  by (simp_all add: valid_check_result_def check_passed_def check_not_applicable_def
      check_not_run_def check_infrastructure_def check_failed_def valid_static_finding_def
      position_ok_def)

lemma check_fields [simp]:
  "cr_check (check_passed c) = c" "cr_status (check_passed c) = PASSED"
  "cr_check (check_not_applicable c) = c" "cr_status (check_not_applicable c) = NOT_APPLICABLE"
  "cr_check (check_not_run c) = c" "cr_status (check_not_run c) = NOT_RUN"
  "cr_check (check_infrastructure c k) = c"
  "cr_status (check_infrastructure c k) = INFRASTRUCTURE_ERROR"
  "cr_check (check_failed c rc) = c" "cr_status (check_failed c rc) = FAILED"
  by (simp_all add: check_passed_def check_not_applicable_def check_not_run_def
      check_infrastructure_def check_failed_def)

lemma tool_path_static: "tool_path_ok b p \<Longrightarrow> static_path_ok p"
proof -
  assume "tool_path_ok b p"
  moreover have "nul \<in> set p \<Longrightarrow> list_ex is_control p"
    by (auto simp: list_ex_iff is_control_def nul_def code_def intro!: bexI [of _ nul])
  ultimately show ?thesis by (auto simp: tool_path_ok_def static_path_ok_def path_rejected_def)
qed

lemma finding_key_map [simp]: "finding_key (map_finding c f) = tool_finding_key f"
  by (simp add: finding_key_def tool_finding_key_def map_finding_def Let_def)

lemma sort_key_map: "map g (sort_key (\<lambda>x. f (g x)) xs) = sort_key f (map g xs)"
proof (induction xs)
  case (Cons x xs)
  have "map g (insort_key (\<lambda>x. f (g x)) x ys) = insort_key f (g x) (map g ys)" for ys
    by (induction ys) auto
  with Cons show ?case by simp
qed simp

lemma keyed_list_map_finding:
  assumes "keyed_list tool_finding_key fs"
  shows "keyed_list finding_key (map (map_finding c) fs)"
proof -
  have "sort_key finding_key (map (map_finding c) fs) = map (map_finding c) fs"
    using assms by (simp add: keyed_list_def flip: sort_key_map)
  moreover have "inj_on (map_finding c) (set fs)"
    by (auto simp: inj_on_def map_finding_def intro: tool_finding.equality)
  ultimately show ?thesis using assms by (simp add: keyed_list_def distinct_map)
qed

lemma map_tool_result_valid:
  assumes "valid_tool_result r"
  shows "valid_check_result (map_tool_result r)"
proof (cases "to_status r = TOOL_FAILED")
  case True
  have "valid_static_finding (map_finding c f)" if "valid_tool_finding f" for c f
    using that tool_path_static [of True "tf_path f"]
    by (auto simp: valid_static_finding_def map_finding_def valid_tool_finding_def)
  with True assms keyed_list_map_finding [of "to_findings r"] show ?thesis
    by (auto simp: map_tool_result_def valid_check_result_def valid_tool_result_def Let_def list_all_iff
        map_finding_def [of _ "_ :: tool_finding"])
next
  case False
  then show ?thesis by (cases "to_status r") (simp_all add: map_tool_result_def)
qed

lemma map_tool_result_fields:
  "cr_check (map_tool_result r) = tool_to_check (to_check r)"
  "cr_status (map_tool_result r) = (case to_status r of TOOL_PASSED \<Rightarrow> PASSED | TOOL_FAILED \<Rightarrow> FAILED
     | TOOL_NOT_APPLICABLE \<Rightarrow> NOT_APPLICABLE | TOOL_INFRASTRUCTURE_ERROR \<Rightarrow> INFRASTRUCTURE_ERROR)"
  by (auto simp: map_tool_result_def Let_def split: tool_status.splits)

end
