(* ===== verification/Effects.thy ===== *)
theory Effects
  imports Main
begin

text \<open>
  Functions that change a state and may raise: \<open>'s \<Rightarrow> ('e + 'a) \<times> 's\<close>.  The state survives a raise,
  as the variables and the outside world do in the source.  Phases of a method that may return early
  yield \<open>Inl\<close> the returned value or \<open>Inr\<close> what the next phase needs.
\<close>

type_synonym ('s, 'e, 'a) act = "'s \<Rightarrow> ('e + 'a) \<times> 's"

definition ret :: "'a \<Rightarrow> ('s, 'e, 'a) act" where
  "ret x = (\<lambda>s. (Inr x, s))"

definition raise :: "'e \<Rightarrow> ('s, 'e, 'a) act" where
  "raise e = (\<lambda>s. (Inl e, s))"

definition andthen :: "('s, 'e, 'a) act \<Rightarrow> ('a \<Rightarrow> ('s, 'e, 'b) act) \<Rightarrow> ('s, 'e, 'b) act" where
  "andthen m f = (\<lambda>s. case m s of (Inl e, s') \<Rightarrow> (Inl e, s') | (Inr x, s') \<Rightarrow> f x s')"

text \<open>\<open>try: m except: h\<close>\<close>

definition catch :: "('s, 'e, 'a) act \<Rightarrow> ('e \<Rightarrow> ('s, 'e, 'a) act) \<Rightarrow> ('s, 'e, 'a) act" where
  "catch m h = (\<lambda>s. case m s of (Inl e, s') \<Rightarrow> h e s' | (Inr x, s') \<Rightarrow> (Inr x, s'))"

definition ensure :: "'e \<Rightarrow> bool \<Rightarrow> ('s, 'e, unit) act" where
  "ensure e b = (if b then ret () else raise e)"

definition modify :: "('s \<Rightarrow> 's) \<Rightarrow> ('s, 'e, unit) act" where
  "modify f = (\<lambda>s. (Inr (), f s))"

definition gets :: "('s \<Rightarrow> 'a) \<Rightarrow> ('s, 'e, 'a) act" where
  "gets f = (\<lambda>s. (Inr (f s), s))"

text \<open>The next phase, unless this one has returned.\<close>

definition phase :: "('s, 'e, 'r + 'a) act \<Rightarrow> ('a \<Rightarrow> ('s, 'e, 'r + 'b) act) \<Rightarrow> ('s, 'e, 'r + 'b) act" where
  "phase m f = andthen m (\<lambda>r. case r of Inl v \<Rightarrow> ret (Inl v) | Inr x \<Rightarrow> f x)"

section \<open>Partial-correctness triples\<close>

text \<open>
  \<open>triple P m Q E\<close>: from a state with \<open>P\<close>, a return has \<open>Q\<close> of value and state, a raise has
  \<open>E\<close> of error and state.  The functions are total, so the triple says what every run does.
\<close>

definition triple ::
  "('s \<Rightarrow> bool) \<Rightarrow> ('s, 'e, 'a) act \<Rightarrow> ('a \<Rightarrow> 's \<Rightarrow> bool) \<Rightarrow> ('e \<Rightarrow> 's \<Rightarrow> bool) \<Rightarrow> bool" where
  "triple P m Q E \<longleftrightarrow> (\<forall>s. P s \<longrightarrow> (case m s of (Inl e, s') \<Rightarrow> E e s' | (Inr x, s') \<Rightarrow> Q x s'))"

named_theorems triple_intro \<open>rules for triples, applied backwards\<close>

lemma tripleI: "(\<And>s. P s \<Longrightarrow> (case m s of (Inl e, s') \<Rightarrow> E e s' | (Inr x, s') \<Rightarrow> Q x s')) \<Longrightarrow> triple P m Q E"
  by (auto simp: triple_def)

lemma triple_ret [triple_intro]: "(\<And>s. P s \<Longrightarrow> Q x s) \<Longrightarrow> triple P (ret x) Q E"
  by (simp add: triple_def ret_def)

lemma triple_raise [triple_intro]: "(\<And>s. P s \<Longrightarrow> E e s) \<Longrightarrow> triple P (raise e) Q E"
  by (simp add: triple_def raise_def)

lemma triple_andthen [triple_intro]:
  "triple P m R E \<Longrightarrow> (\<And>x. triple (R x) (f x) Q E) \<Longrightarrow> triple P (andthen m f) Q E"
  by (fastforce simp: triple_def andthen_def split: sum.splits prod.splits)

lemma triple_catch [triple_intro]:
  "triple P m Q R \<Longrightarrow> (\<And>e. triple (R e) (h e) Q E) \<Longrightarrow> triple P (catch m h) Q E"
  by (fastforce simp: triple_def catch_def split: sum.splits prod.splits)

lemma triple_ensure [triple_intro]:
  "(\<And>s. P s \<Longrightarrow> b \<Longrightarrow> Q () s) \<Longrightarrow> (\<And>s. P s \<Longrightarrow> \<not> b \<Longrightarrow> E e s) \<Longrightarrow> triple P (ensure e b) Q E"
  by (auto simp: triple_def ensure_def ret_def raise_def)

lemma triple_modify [triple_intro]: "(\<And>s. P s \<Longrightarrow> Q () (f s)) \<Longrightarrow> triple P (modify f) Q E"
  by (simp add: triple_def modify_def)

lemma triple_gets [triple_intro]: "(\<And>s. P s \<Longrightarrow> Q (f s) s) \<Longrightarrow> triple P (gets f) Q E"
  by (simp add: triple_def gets_def)

lemma triple_if [triple_intro]:
  "(b \<Longrightarrow> triple P m Q E) \<Longrightarrow> (\<not> b \<Longrightarrow> triple P n Q E) \<Longrightarrow> triple P (if b then m else n) Q E"
  by simp

lemma triple_weaken:
  "triple P m Q E \<Longrightarrow> (\<And>s. P' s \<Longrightarrow> P s) \<Longrightarrow> (\<And>x s. Q x s \<Longrightarrow> Q' x s) \<Longrightarrow> (\<And>e s. E e s \<Longrightarrow> E' e s) \<Longrightarrow>
   triple P' m Q' E'"
  by (fastforce simp: triple_def split: sum.splits prod.splits)

lemma triple_phase [triple_intro]:
  assumes "triple P m (\<lambda>r s. case r of Inl v \<Rightarrow> Q (Inl v) s | Inr x \<Rightarrow> R x s) E"
    and "\<And>x. triple (R x) (f x) Q E"
  shows "triple P (phase m f) Q E"
  unfolding phase_def
  by (rule triple_andthen [OF assms(1)])
     (use assms(2) in \<open>auto simp: triple_def ret_def split: sum.splits\<close>)

lemma triple_option [triple_intro]:
  "(x = None \<Longrightarrow> triple P m Q E) \<Longrightarrow> (\<And>y. x = Some y \<Longrightarrow> triple P (n y) Q E) \<Longrightarrow>
   triple P (case x of None \<Rightarrow> m | Some y \<Rightarrow> n y) Q E"
  by (cases x) auto

lemma triple_sum [triple_intro]:
  "(\<And>e. x = Inl e \<Longrightarrow> triple P (m e) Q E) \<Longrightarrow> (\<And>y. x = Inr y \<Longrightarrow> triple P (n y) Q E) \<Longrightarrow>
   triple P (case x of Inl e \<Rightarrow> m e | Inr y \<Rightarrow> n y) Q E"
  by (cases x) auto

lemma triple_prod [triple_intro]:
  "(\<And>a b. x = (a, b) \<Longrightarrow> triple P (m a b) Q E) \<Longrightarrow> triple P (case x of (a, b) \<Rightarrow> m a b) Q E"
  by (cases x) auto

lemma triple_assume: "(b \<Longrightarrow> triple P m Q E) \<Longrightarrow> triple (\<lambda>s. b \<and> P s) m Q E"
  by (auto simp: triple_def)

lemma triple_useR: "triple P m Q E \<Longrightarrow> P s \<Longrightarrow> m s = (Inr x, s') \<Longrightarrow> Q x s'"
  by (fastforce simp: triple_def)

lemma triple_useL: "triple P m Q E \<Longrightarrow> P s \<Longrightarrow> m s = (Inl e, s') \<Longrightarrow> E e s'"
  by (fastforce simp: triple_def)

end
