(* ===== verification/Static_Service.thy ===== *)
theory Static_Service
  imports Static_Model Patch_Apply_Facts Effects
begin

text \<open>
  \<open>StaticValidationService\<close> of \<open>app/agent/static_checks.py\<close>: the fingerprint of a snapshot,
  the root checks, the patch on the tree, the changed-files gate, and \<open>validate\<close> as a sequence of
  phases.  The filesystem protocol, the fingerprinter, the runner and the identifier factory are
  parameters (\<open>static_env\<close>): functions of an arbitrary world that may raise.  The local variables
  \<open>checks\<close> and \<open>cleanup_target\<close>, which the exception handlers read, are part of the state.
\<close>

section \<open>Raised exceptions and the environment\<close>

text \<open>\<open>RaisedOs\<close> stands for \<open>OSError\<close> and \<open>RuntimeError\<close>, \<open>RaisedInterrupt\<close> for
  \<open>KeyboardInterrupt\<close> and \<open>SystemExit\<close>, \<open>RaisedOther\<close> for every other exception.\<close>

datatype raised =
    RaisedFilesystem | RaisedOs | RaisedRunner | RaisedPatchApplication | RaisedChangedFiles
  | RaisedOther | RaisedInterrupt

fun raised_of :: "apply_error \<Rightarrow> raised" where
  "raised_of PatchApplicationError = RaisedPatchApplication"
| "raised_of ChangedFilesError = RaisedChangedFiles"
| "raised_of StaticFilesystemError = RaisedFilesystem"

record dir_identity =
  di_device :: nat
  di_inode :: nat
  di_mode :: nat
  di_reparse_tag :: nat

record root_facts =
  rx_resolved :: string
  rx_symlink :: bool
  rx_directory :: bool
  rx_reparse_point :: bool

record 'w static_env =
  se_root_facts :: "string \<Rightarrow> 'w \<Rightarrow> root_facts option"
  se_resolve :: "string \<Rightarrow> 'w \<Rightarrow> string"
  se_home :: string
  se_project :: string
  se_path_taken :: "string \<Rightarrow> ('w, raised, bool) act"
  se_snapshot :: "string \<Rightarrow> dir_identity option \<Rightarrow> ('w, raised, tree_snapshot) act"
  se_make_directory :: "string \<Rightarrow> ('w, raised, dir_identity) act"
  se_copy_snapshot :: "tree_snapshot \<Rightarrow> string \<Rightarrow> dir_identity \<Rightarrow> ('w, raised, unit) act"
  se_write_file :: "string \<Rightarrow> dir_identity \<Rightarrow> string \<Rightarrow> bytes \<Rightarrow> bool \<Rightarrow> ('w, raised, unit) act"
  se_delete_file :: "string \<Rightarrow> dir_identity \<Rightarrow> string \<Rightarrow> ('w, raised, unit) act"
  se_publish :: "string \<Rightarrow> string \<Rightarrow> dir_identity \<Rightarrow> ('w, raised, dir_identity) act"
  se_remove_tree :: "string \<Rightarrow> dir_identity \<Rightarrow> ('w, raised, unit) act"
  se_fingerprint :: "string \<Rightarrow> ('w, raised, repository_fingerprint) act"
  se_runner :: "string \<Rightarrow> string list \<Rightarrow> ('w, raised, container_result) act"
  se_identifier :: "('w, raised, string) act"
  se_sha256 :: "bytes \<Rightarrow> string"
  se_set_order :: "string list \<Rightarrow> string list"

section \<open>The fingerprint of a snapshot\<close>

definition fingerprint_header :: bytes where
  "fingerprint_header = utf8_encode (''tracefix-repository-fingerprint'' @ [nul] @ ''v1'' @ [nul])"

text \<open>\<open>_length\<close>: eight bytes, or \<open>StaticFilesystemError\<close>\<close>

definition length_bytes :: "nat \<Rightarrow> bytes option" where
  "length_bytes v = (if v \<ge> 2 ^ 64 then None else Some (to_bytes_big 8 v))"

definition entry_stream :: "tree_entry \<Rightarrow> bytes option" where
  "entry_stream e =
     (let path_bytes = utf8_encode (te_path e) in
      Option.bind (length_bytes (length path_bytes)) (\<lambda>pl.
        let head = utf8_encode (if te_kind e = DIRECTORY then ''D'' else ''F'') @ pl @ path_bytes in
        if te_kind e = FILE then
          (case te_data e of
             None \<Rightarrow> None
           | Some d \<Rightarrow> Option.bind (length_bytes (length d)) (\<lambda>dl. Some (head @ dl @ d)))
        else Some head))"

fun entries_stream :: "tree_snapshot \<Rightarrow> bytes option" where
  "entries_stream [] = Some []"
| "entries_stream (e # es) =
     Option.bind (entry_stream e) (\<lambda>b. Option.bind (entries_stream es) (\<lambda>bs. Some (b @ bs)))"

definition fingerprint_stream :: "tree_snapshot \<Rightarrow> bytes option" where
  "fingerprint_stream es = Option.bind (entries_stream es) (\<lambda>bs. Some (fingerprint_header @ bs))"

definition fingerprint_snapshot :: "(bytes \<Rightarrow> string) \<Rightarrow> tree_snapshot \<Rightarrow> raised + repository_fingerprint" where
  "fingerprint_snapshot sha es =
     (case fingerprint_stream es of
        None \<Rightarrow> Inl RaisedFilesystem
      | Some bs \<Rightarrow>
          (let f = \<lparr>rf_algorithm = ''sha256'', rf_version = 1, rf_digest = sha bs\<rparr> in
           if valid_fingerprint f then Inr f else Inl RaisedOther))"

section \<open>Roots\<close>

definition child_path :: "string \<Rightarrow> string \<Rightarrow> string" where
  "child_path p name = as_posix (p @ [slash] @ name)"

definition credential_locations :: "string \<Rightarrow> string list" where
  "credential_locations home =
     map (child_path home) [''.ssh'', ''.docker'', ''.aws'', ''.config/gcloud'', ''.azure'', ''.netrc'', ''_netrc'']
     @ [''/var/run/docker.sock'', ''/run/docker.sock'']"

definition validate_root :: "'w static_env \<Rightarrow> string \<Rightarrow> string option \<Rightarrow> 'w \<Rightarrow> raised + string" where
  "validate_root env path source w =
     (if \<not> is_absolute path then Inl RaisedFilesystem
      else (case se_root_facts env path w of
          None \<Rightarrow> Inl RaisedFilesystem
        | Some x \<Rightarrow>
            if path \<noteq> rx_resolved x \<or> rx_symlink x \<or> \<not> rx_directory x then Inl RaisedFilesystem
            else if rx_reparse_point x then Inl RaisedFilesystem
            else if overlaps (rx_resolved x) (se_project env)
                 \<or> same_or_ancestor (rx_resolved x) (se_home env)
                 \<or> list_ex (\<lambda>item. overlaps (rx_resolved x) (se_resolve env item w))
                     (credential_locations (se_home env))
                 \<or> (case source of None \<Rightarrow> False | Some s \<Rightarrow> overlaps (rx_resolved x) s)
            then Inl RaisedFilesystem
            else Inr (rx_resolved x)))"

section \<open>The changed-files gate\<close>

definition file_entries :: "tree_snapshot \<Rightarrow> string \<Rightarrow> tree_entry option" where
  "file_entries es p = (case by_path es p of None \<Rightarrow> None | Some e \<Rightarrow> if te_kind e = FILE then Some e else None)"

text \<open>The paths that are a file before or after and whose content differs; each path once.\<close>

definition actual_changes :: "tree_snapshot \<Rightarrow> tree_snapshot \<Rightarrow> string list" where
  "actual_changes pristine candidate =
     filter (\<lambda>p. case (file_entries pristine p, file_entries candidate p) of
         (None, None) \<Rightarrow> False
       | (Some b, Some a) \<Rightarrow> te_data b \<noteq> te_data a
       | _ \<Rightarrow> True)
       (remdups (map te_path pristine @ map te_path candidate))"

definition directories :: "tree_snapshot \<Rightarrow> string set" where
  "directories es = set (filter (\<lambda>p. map_option te_kind (by_path es p) = Some DIRECTORY) (map te_path es))"

definition proper_parents :: "string \<Rightarrow> string list" where
  "proper_parents p =
     (let parts = posix_parts p in map (\<lambda>k. join_with slash (take k parts)) [1..<length parts])"

definition is_python_path :: "string \<Rightarrow> bool" where
  "is_python_path p = (casefold (path_suffix p) \<in> {''.py'', ''.pyi''})"

definition changed_python_paths ::
  "(string list \<Rightarrow> string list) \<Rightarrow> tree_snapshot \<Rightarrow> tree_snapshot \<Rightarrow> string list \<Rightarrow> apply_error + string list" where
  "changed_python_paths set_order pristine candidate expected =
     (let actual = actual_changes pristine candidate;
          identities = map_of (rev (map (\<lambda>p. (casefold p, p)) (set_order actual)));
          before_dirs = directories pristine; after_dirs = directories candidate;
          allowed = set (concat (map proper_parents expected))
      in if set (map casefold actual) \<noteq> set (map casefold expected) then Inl ChangedFilesError
         else if list_ex (\<lambda>p. identities (casefold p) \<noteq> Some p) expected then Inl ChangedFilesError
         else if \<not> before_dirs \<subseteq> after_dirs then Inl ChangedFilesError
         else if \<not> after_dirs - before_dirs \<subseteq> allowed then Inl ChangedFilesError
         else Inr (sort_key (\<lambda>p. (casefold p, p))
                (filter (\<lambda>p. file_entries candidate p \<noteq> None \<and> is_python_path p) expected)))"

section \<open>The state of a run\<close>

record 'w service_state =
  sv_world :: 'w
  sv_checks :: "check_result list"
  sv_cleanup :: "(string \<times> dir_identity) option"

type_synonym ('w, 'a) service = "('w service_state, raised, 'a) act"

definition on_world :: "('w, raised, 'a) act \<Rightarrow> ('w, 'a) service" where
  "on_world m = (\<lambda>s. case m (sv_world s) of (r, w) \<Rightarrow> (r, s\<lparr>sv_world := w\<rparr>))"

definition from_world :: "('w \<Rightarrow> raised + 'a) \<Rightarrow> ('w, 'a) service" where
  "from_world f = (\<lambda>s. (f (sv_world s), s))"

definition set_check :: "nat \<Rightarrow> check_result \<Rightarrow> ('w, unit) service" where
  "set_check i c = modify (\<lambda>s. s\<lparr>sv_checks := (sv_checks s)[i := c]\<rparr>)"

definition set_cleanup :: "(string \<times> dir_identity) option \<Rightarrow> ('w, unit) service" where
  "set_cleanup t = modify (\<lambda>s. s\<lparr>sv_cleanup := t\<rparr>)"

text \<open>Constructing a model instance: a \<open>ValidationError\<close> when it is invalid.\<close>

definition construct :: "('a \<Rightarrow> bool) \<Rightarrow> 'a \<Rightarrow> ('w, 'a) service" where
  "construct P x = (if P x then ret x else raise RaisedOther)"

definition infrastructure :: "static_code \<Rightarrow> ('w, static_result) service" where
  "infrastructure k = andthen (gets sv_checks) (\<lambda>cs.
     andthen (modify (\<lambda>s. s\<lparr>sv_checks := mark_infrastructure cs k\<rparr>)) (\<lambda>_.
     construct valid_static_result (infrastructure_result cs k)))"

definition candidate_failed :: "('w, static_result) service" where
  "candidate_failed = andthen (gets sv_checks) (\<lambda>cs.
     construct valid_static_result (candidate_failed_result cs))"

text \<open>\<open>_cleanup_or_result\<close>\<close>

definition cleanup_or_result :: "'w static_env \<Rightarrow> static_result \<Rightarrow> ('w, static_result) service" where
  "cleanup_or_result env res = andthen (gets sv_cleanup) (\<lambda>target.
     case target of
       None \<Rightarrow> ret res
     | Some (p, i) \<Rightarrow>
         catch (andthen (on_world (se_remove_tree env p i)) (\<lambda>_. ret res))
           (\<lambda>e. if e = RaisedInterrupt then raise e
                else andthen (gets sv_checks) (\<lambda>cs.
                  let j = first_index_or_zero (\<lambda>c. cr_status c \<in> {NOT_RUN, PASSED}) cs in
                  andthen (set_check j (check_infrastructure (cr_check (cs ! j)) CLEANUP_FAILED))
                    (\<lambda>_. infrastructure CLEANUP_FAILED))))"

definition return_infrastructure :: "'w static_env \<Rightarrow> static_code \<Rightarrow> ('w, static_result + 'a) service" where
  "return_infrastructure env k = andthen (infrastructure k) (\<lambda>res.
     andthen (cleanup_or_result env res) (\<lambda>r. ret (Inl r)))"

definition return_candidate_failed :: "'w static_env \<Rightarrow> ('w, static_result + 'a) service" where
  "return_candidate_failed env = andthen candidate_failed (\<lambda>res.
     andthen (cleanup_or_result env res) (\<lambda>r. ret (Inl r)))"

section \<open>The phases of validate\<close>

definition validate_inputs :: "static_request \<Rightarrow> (static_request \<times> string list \<times> unified_diff) option" where
  "validate_inputs request =
     (case revalidate_static_request request of
        None \<Rightarrow> None
      | Some v \<Rightarrow>
          (case (normalize_repository_paths (pr_files_changed (sq_proposal v)),
                 parse_unified_diff (pr_unified_diff (sq_proposal v))) of
             (Inr paths, Inr parsed) \<Rightarrow>
               if ud_has_ignored_content parsed \<or> set paths \<noteq> set (changed_paths parsed) then None
               else Some (v, paths, parsed)
           | _ \<Rightarrow> None))"

text \<open>\<open>fingerprint(source) != preparation.fingerprint\<close> raises\<close>

definition same_fingerprint :: "'w static_env \<Rightarrow> string \<Rightarrow> static_request \<Rightarrow> ('w, unit) service" where
  "same_fingerprint env source v = andthen (on_world (se_fingerprint env source)) (\<lambda>f.
     ensure RaisedFilesystem (f = rp_fingerprint (sq_preparation v)))"

definition same_snapshot ::
  "'w static_env \<Rightarrow> string \<Rightarrow> dir_identity option \<Rightarrow> tree_snapshot \<Rightarrow> ('w, unit) service" where
  "same_snapshot env dir identity expected = andthen (on_world (se_snapshot env dir identity)) (\<lambda>t.
     ensure RaisedFilesystem (t = expected))"

definition preparation_phase ::
  "'w static_env \<Rightarrow> static_request \<Rightarrow> ('w, static_result + (string \<times> tree_snapshot)) service" where
  "preparation_phase env v = catch
     (andthen (from_world (validate_root env (rp_prepared_repository (sq_preparation v)) None)) (\<lambda>source.
      andthen (on_world (se_snapshot env source None)) (\<lambda>pristine.
      andthen (from_world (\<lambda>_. fingerprint_snapshot (se_sha256 env) pristine)) (\<lambda>f.
      andthen (ensure RaisedFilesystem (f = rp_fingerprint (sq_preparation v))) (\<lambda>_.
      andthen (same_fingerprint env source v) (\<lambda>_.
        ret (Inr (source, pristine))))))))
     (\<lambda>e. if e \<in> {RaisedOs, RaisedFilesystem}
          then andthen (infrastructure PREPARATION_INVALID) (\<lambda>res. ret (Inl res)) else raise e)"

text \<open>\<open>path.exists() or path.is_symlink()\<close> raises\<close>

definition path_free :: "'w static_env \<Rightarrow> string \<Rightarrow> ('w, unit) service" where
  "path_free env p = andthen (on_world (se_path_taken env p)) (\<lambda>taken. ensure RaisedFilesystem (\<not> taken))"

definition workspace_phase ::
  "'w static_env \<Rightarrow> static_request \<Rightarrow> string \<Rightarrow> tree_snapshot \<Rightarrow>
   ('w, static_result + (string \<times> dir_identity \<times> string)) service" where
  "workspace_phase env v source pristine = catch
     (andthen (from_world (validate_root env (sq_candidate_workspace_root v) (Some source))) (\<lambda>workspace.
      andthen (on_world (se_identifier env)) (\<lambda>identifier.
      andthen (ensure RaisedFilesystem (hex_string 32 identifier)) (\<lambda>_.
      let staging = child_path workspace (''.tracefix-static-'' @ identifier @ ''.staging'');
          published = child_path workspace (''tracefix-candidate-'' @ identifier) in
      andthen (path_free env staging) (\<lambda>_.
      andthen (path_free env published) (\<lambda>_.
      andthen (on_world (se_make_directory env staging)) (\<lambda>identity.
      andthen (set_cleanup (Some (staging, identity))) (\<lambda>_.
      andthen (on_world (se_copy_snapshot env pristine staging identity)) (\<lambda>_.
      andthen (same_snapshot env source None pristine) (\<lambda>_.
      andthen (same_fingerprint env source v) (\<lambda>_.
        ret (Inr (staging, identity, published)))))))))))))
     (\<lambda>e. if e \<in> {RaisedOs, RaisedFilesystem} then return_infrastructure env WORKSPACE_INVALID else raise e)"

text \<open>\<open>_apply_patch\<close>: the contents come from the pristine snapshot, file by file\<close>

fun apply_patch ::
  "'w static_env \<Rightarrow> string \<Rightarrow> dir_identity \<Rightarrow> tree_snapshot \<Rightarrow> diff_file list \<Rightarrow> ('w, unit) service" where
  "apply_patch env staging identity pristine [] = ret ()"
| "apply_patch env staging identity pristine (f # fs) =
     (let existing = by_path pristine (df_path f) in
      andthen (ensure RaisedPatchApplication (case existing of None \<Rightarrow> True | Some e \<Rightarrow> te_kind e = FILE)) (\<lambda>_.
      andthen (from_world (\<lambda>_. map_sum raised_of id (apply_file_patch f (Option.bind existing te_data)))) (\<lambda>r.
      andthen (case r of
          None \<Rightarrow> on_world (se_delete_file env staging identity (df_path f))
        | Some data \<Rightarrow> on_world (se_write_file env staging identity (df_path f) data (existing = None)))
        (\<lambda>_. apply_patch env staging identity pristine fs))))"

definition apply_phase ::
  "'w static_env \<Rightarrow> string \<Rightarrow> dir_identity \<Rightarrow> tree_snapshot \<Rightarrow> unified_diff \<Rightarrow>
   ('w, static_result + unit) service" where
  "apply_phase env staging identity pristine parsed = catch
     (andthen (apply_patch env staging identity pristine (ud_files parsed)) (\<lambda>_.
      andthen (set_check 0 (check_passed PATCH_APPLY)) (\<lambda>_. ret (Inr ()))))
     (\<lambda>e. if e = RaisedPatchApplication then
            andthen (set_check 0 (check_failed PATCH_APPLY ''PATCH_CONFLICT'')) (\<lambda>_. return_candidate_failed env)
          else if e = RaisedFilesystem then
            andthen (set_check 0 (check_infrastructure PATCH_APPLY FILESYSTEM_FAILED)) (\<lambda>_.
              return_infrastructure env FILESYSTEM_FAILED)
          else raise e)"

definition changed_phase ::
  "'w static_env \<Rightarrow> string \<Rightarrow> dir_identity \<Rightarrow> tree_snapshot \<Rightarrow> string list \<Rightarrow>
   ('w, static_result + (tree_snapshot \<times> string list)) service" where
  "changed_phase env staging identity pristine proposal_paths = catch
     (andthen (on_world (se_snapshot env staging (Some identity))) (\<lambda>before.
      andthen (from_world (\<lambda>_. map_sum raised_of id
          (changed_python_paths (se_set_order env) pristine before proposal_paths))) (\<lambda>python_paths.
      andthen (set_check 1 (check_passed CHANGED_FILES)) (\<lambda>_. ret (Inr (before, python_paths))))))
     (\<lambda>e. if e = RaisedChangedFiles then
            andthen (set_check 1 (check_failed CHANGED_FILES ''CHANGED_FILES'')) (\<lambda>_. return_candidate_failed env)
          else if e = RaisedFilesystem then
            andthen (set_check 1 (check_infrastructure CHANGED_FILES FILESYSTEM_FAILED)) (\<lambda>_.
              return_infrastructure env FILESYSTEM_FAILED)
          else raise e)"

text \<open>\<open>for index in range(2, 7): checks[index] = f(checks[index])\<close>\<close>

definition map_language_checks :: "(check_result \<Rightarrow> check_result) \<Rightarrow> ('w, unit) service" where
  "map_language_checks f = modify (\<lambda>s. s\<lparr>sv_checks := take 2 (sv_checks s) @ map f (drop 2 (sv_checks s))\<rparr>)"

text \<open>\<open>for index, tool_result in enumerate(results, start=2): checks[index] = ...\<close>\<close>

definition store_tool_results :: "container_result \<Rightarrow> ('w, unit) service" where
  "store_tool_results rs = modify (\<lambda>s. s\<lparr>sv_checks := take 2 (sv_checks s) @ map map_tool_result rs
     @ drop (2 + length rs) (sv_checks s)\<rparr>)"

definition runner_phase ::
  "'w static_env \<Rightarrow> string \<Rightarrow> string list \<Rightarrow> ('w, static_result + unit) service" where
  "runner_phase env staging python_paths =
     (if python_paths = [] then
        andthen (map_language_checks (\<lambda>c. check_not_applicable (cr_check c))) (\<lambda>_. ret (Inr ()))
      else catch
        (andthen (on_world (se_runner env staging python_paths)) (\<lambda>rs.
         andthen (from_world (\<lambda>_. case revalidate_container_result rs True of
             None \<Rightarrow> Inl RaisedRunner | Some v \<Rightarrow> Inr v)) (\<lambda>v.
         andthen (store_tool_results v) (\<lambda>_. ret (Inr ())))))
        (\<lambda>e. if e = RaisedRunner then
               andthen (map_language_checks (\<lambda>c. check_infrastructure (cr_check c) STATIC_RUNNER_FAILED)) (\<lambda>_.
                 return_infrastructure env STATIC_RUNNER_FAILED)
             else raise e))"

definition integrity_phase ::
  "'w static_env \<Rightarrow> static_request \<Rightarrow> string \<Rightarrow> tree_snapshot \<Rightarrow> string \<Rightarrow> dir_identity \<Rightarrow> tree_snapshot \<Rightarrow>
   ('w, static_result + unit) service" where
  "integrity_phase env v source pristine staging identity before = catch
     (andthen (same_snapshot env staging (Some identity) before) (\<lambda>_.
      andthen (same_snapshot env source None pristine) (\<lambda>_.
      andthen (same_fingerprint env source v) (\<lambda>_. ret (Inr ())))))
     (\<lambda>e. if e = RaisedFilesystem then
            andthen (set_check 1 (check_infrastructure CHANGED_FILES INTEGRITY_FAILED)) (\<lambda>_.
              return_infrastructure env INTEGRITY_FAILED)
          else raise e)"

definition decide_phase :: "'w static_env \<Rightarrow> ('w, static_result + unit) service" where
  "decide_phase env = andthen (gets sv_checks) (\<lambda>cs.
     if list_ex (\<lambda>c. cr_status c = INFRASTRUCTURE_ERROR) cs
       then return_infrastructure env STATIC_RUNNER_FAILED
     else if list_ex (\<lambda>c. cr_status c = FAILED) cs then return_candidate_failed env
     else ret (Inr ()))"

definition publish_phase ::
  "'w static_env \<Rightarrow> static_request \<Rightarrow> string \<Rightarrow> tree_snapshot \<Rightarrow> string \<Rightarrow> dir_identity \<Rightarrow> string \<Rightarrow>
   tree_snapshot \<Rightarrow> ('w, static_result + repository_fingerprint) service" where
  "publish_phase env v source pristine staging identity published before = catch
     (andthen (on_world (se_publish env staging published identity)) (\<lambda>published_identity.
      andthen (set_cleanup (Some (published, published_identity))) (\<lambda>_.
      andthen (on_world (se_snapshot env published (Some published_identity))) (\<lambda>snap.
      andthen (ensure RaisedFilesystem (snap = before)) (\<lambda>_.
      andthen (from_world (\<lambda>_. fingerprint_snapshot (se_sha256 env) snap)) (\<lambda>f.
      andthen (same_snapshot env source None pristine) (\<lambda>_.
      andthen (same_fingerprint env source v) (\<lambda>_. ret (Inr f)))))))))
     (\<lambda>e. if e = RaisedFilesystem then return_infrastructure env INTEGRITY_FAILED else raise e)"

definition passed_result :: "string \<Rightarrow> repository_fingerprint \<Rightarrow> ('w, static_result + static_result) service" where
  "passed_result published f =
     andthen (set_cleanup None) (\<lambda>_. andthen (gets sv_checks) (\<lambda>cs.
     andthen (construct valid_candidate \<lparr>vc_repository = published, vc_fingerprint = f\<rparr>) (\<lambda>c.
     andthen (construct valid_static_result
       \<lparr>st_outcome = STATIC_PASSED, st_checks = cs, st_candidate = Some c, st_diagnostic = None\<rparr>)
       (\<lambda>r. ret (Inl r)))))"

definition validate_body :: "'w static_env \<Rightarrow> static_request \<Rightarrow> ('w, static_result + static_result) service" where
  "validate_body env request =
     (case validate_inputs request of
        None \<Rightarrow> andthen (infrastructure INVALID_INPUT) (\<lambda>res. ret (Inl res))
      | Some (v, paths, parsed) \<Rightarrow>
          phase (preparation_phase env v) (\<lambda>(source, pristine).
          phase (workspace_phase env v source pristine) (\<lambda>(staging, identity, published).
          phase (apply_phase env staging identity pristine parsed) (\<lambda>_.
          phase (changed_phase env staging identity pristine paths) (\<lambda>(before, python_paths).
          phase (runner_phase env staging python_paths) (\<lambda>_.
          phase (integrity_phase env v source pristine staging identity before) (\<lambda>_.
          phase (decide_phase env) (\<lambda>_.
          phase (publish_phase env v source pristine staging identity published before) (\<lambda>f.
            passed_result published f)))))))))"

text \<open>The outer handlers; the body always returns early.\<close>

definition validate :: "'w static_env \<Rightarrow> static_request \<Rightarrow> ('w, static_result) service" where
  "validate env request = catch
     (andthen (validate_body env request) (\<lambda>r. case r of Inl res \<Rightarrow> ret res | Inr res \<Rightarrow> ret res))
     (\<lambda>e. if e = RaisedInterrupt then
            andthen (gets sv_cleanup) (\<lambda>target. case target of
                None \<Rightarrow> raise RaisedInterrupt
              | Some (p, i) \<Rightarrow> catch (andthen (on_world (se_remove_tree env p i)) (\<lambda>_. raise RaisedInterrupt))
                  (\<lambda>_. raise RaisedInterrupt))
          else andthen (infrastructure FILESYSTEM_FAILED) (cleanup_or_result env))"

definition initial_service_state :: "'w \<Rightarrow> 'w service_state" where
  "initial_service_state w = \<lparr>sv_world = w, sv_checks = blank_checks, sv_cleanup = None\<rparr>"

definition run_validate :: "'w static_env \<Rightarrow> static_request \<Rightarrow> 'w \<Rightarrow> (raised + static_result) \<times> 'w service_state" where
  "run_validate env request w = validate env request (initial_service_state w)"

end
