(* ===== verification/Fingerprint_Facts.thy ===== *)
theory Fingerprint_Facts
  imports Static_Service
begin

text \<open>
  The byte string that is hashed into a repository fingerprint determines the paths, kinds and file
  contents of the snapshot: the length prefixes make the framing uniquely readable.
\<close>

definition entry_content :: "tree_entry \<Rightarrow> string \<times> entry_kind \<times> bytes option" where
  "entry_content e = (te_path e, te_kind e, if te_kind e = FILE then te_data e else None)"

lemma length_bytes_frame:
  assumes "length_bytes (length xs) = Some p" "length_bytes (length ys) = Some q"
    and "p @ xs @ u = q @ ys @ v"
  shows "xs = ys \<and> u = v"
proof -
  from assms(1,2) have pq: "p = to_bytes_big 8 (length xs)" "q = to_bytes_big 8 (length ys)"
      "length xs < 2 ^ 64" "length ys < 2 ^ 64"
    by (auto simp: length_bytes_def split: if_split_asm)
  then have "p = q" "xs @ u = ys @ v" using assms(3) by auto
  then have "length xs = length ys"
    using pq to_bytes_big_inj [of "length xs" 8 "length ys"] by simp
  with \<open>xs @ u = ys @ v\<close> show ?thesis by simp
qed

lemma utf8_tag: "utf8_encode_char (CHR ''D'') = [0x44]" "utf8_encode_char (CHR ''F'') = [0x46]"
  by (simp_all add: utf8_encode_char_def code_def)

lemma entry_stream_read:
  assumes "entry_stream e = Some b" "entry_stream f = Some c" "b @ u = c @ v"
  shows "entry_content e = entry_content f \<and> u = v"
proof -
  let ?pe = "utf8_encode (te_path e)" and ?pf = "utf8_encode (te_path f)"
  from assms(1) obtain pl r where e: "length_bytes (length ?pe) = Some pl"
      "b = (if te_kind e = DIRECTORY then [0x44] else [0x46]) @ pl @ ?pe @ r"
      "if te_kind e = FILE then \<exists>d dl. te_data e = Some d \<and> length_bytes (length d) = Some dl \<and> r = dl @ d
       else r = []"
    by (cases "te_kind e") (auto simp: entry_stream_def Let_def utf8_tag bind_eq_Some_conv split: option.splits)
  from assms(2) obtain ql s where f: "length_bytes (length ?pf) = Some ql"
      "c = (if te_kind f = DIRECTORY then [0x44] else [0x46]) @ ql @ ?pf @ s"
      "if te_kind f = FILE then \<exists>d dl. te_data f = Some d \<and> length_bytes (length d) = Some dl \<and> s = dl @ d
       else s = []"
    by (cases "te_kind f") (auto simp: entry_stream_def Let_def utf8_tag bind_eq_Some_conv split: option.splits)
  have kind: "te_kind e = te_kind f" and rest: "pl @ ?pe @ (r @ u) = ql @ ?pf @ (s @ v)"
    using assms(3) e(2) f(2) by (cases "te_kind e"; cases "te_kind f"; simp)+
  from length_bytes_frame [OF e(1) f(1) rest] have path: "te_path e = te_path f" "r @ u = s @ v"
    by (simp_all add: utf8_encode_inj)
  show ?thesis
  proof (cases "te_kind e")
    case FILE
    with e(3) f(3) kind obtain d dl d' dl' where d: "te_data e = Some d" "length_bytes (length d) = Some dl"
        "r = dl @ d" "te_data f = Some d'" "length_bytes (length d') = Some dl'" "s = dl' @ d'"
      by auto
    with path(2) length_bytes_frame [OF d(2) d(5), of u v] have "d = d' \<and> u = v" by simp
    with d path kind show ?thesis by (simp add: entry_content_def)
  next
    case DIRECTORY
    with e(3) f(3) kind path show ?thesis by (simp add: entry_content_def)
  qed
qed

lemma entry_stream_nonempty: "entry_stream e = Some b \<Longrightarrow> b \<noteq> []"
  by (auto simp: entry_stream_def Let_def utf8_tag bind_eq_Some_conv split: if_split_asm option.splits)

lemma entries_stream_inj:
  "entries_stream es = Some b \<Longrightarrow> entries_stream fs = Some b \<Longrightarrow> map entry_content es = map entry_content fs"
proof (induction es arbitrary: fs b)
  case Nil
  then show ?case by (cases fs) (auto simp: bind_eq_Some_conv dest: entry_stream_nonempty)
next
  case (Cons e es)
  from Cons.prems(1) obtain be bes where e: "entry_stream e = Some be" "entries_stream es = Some bes"
      "b = be @ bes" by (auto simp: bind_eq_Some_conv)
  show ?case
  proof (cases fs)
    case Nil
    with Cons.prems(2) e entry_stream_nonempty [OF e(1)] show ?thesis by simp
  next
    case (Cons f fs')
    with Cons.prems(2) obtain bf bfs where f: "entry_stream f = Some bf" "entries_stream fs' = Some bfs"
        "b = bf @ bfs" by (auto simp: bind_eq_Some_conv)
    from entry_stream_read [OF e(1) f(1), of bes bfs] e(3) f(3)
    have "entry_content e = entry_content f" "bes = bfs" by auto
    with Cons.IH [OF e(2), of fs'] f(2) Cons show ?thesis by simp
  qed
qed

lemma entry_stream_cong: "entry_content e = entry_content f \<Longrightarrow> entry_stream e = entry_stream f"
  by (auto simp: entry_content_def entry_stream_def Let_def split: if_split_asm)

lemma entries_stream_cong:
  "map entry_content es = map entry_content fs \<Longrightarrow> entries_stream es = entries_stream fs"
proof (induction es arbitrary: fs)
  case (Cons e es)
  then obtain f fs' where "fs = f # fs'" by (cases fs) auto
  with Cons entry_stream_cong [of e f] show ?case by simp
qed simp

lemma fingerprint_stream_iff:
  assumes "fingerprint_stream es = Some b"
  shows "fingerprint_stream fs = Some b \<longleftrightarrow> map entry_content es = map entry_content fs"
  using assms entries_stream_inj [of es _ fs] entries_stream_cong [of es fs]
  by (auto simp: fingerprint_stream_def bind_eq_Some_conv)

section \<open>Properties\<close>

text \<open>C36: Two snapshots are hashed from the same byte string exactly when they list the same paths,
  kinds and file contents in the same order, so a fingerprint collision needs a collision of SHA-256.\<close>

theorem fingerprint_framing_injective:
  assumes "fingerprint_stream es = Some b"
  shows "fingerprint_stream fs = Some b \<longleftrightarrow> map entry_content es = map entry_content fs"
  by (rule fingerprint_stream_iff [OF assms])

definition sample_entry :: tree_entry where
  "sample_entry = \<lparr>te_path = ''a'', te_kind = DIRECTORY, te_data = None, te_device = 0, te_inode = 0,
     te_mode = 0, te_size = 0, te_modified_ns = 0, te_reparse_tag = 0, te_link_count = 1\<rparr>"

theorem fingerprint_framing_injective_witness:
  "\<exists>b. fingerprint_stream [sample_entry] = Some b \<and>
     fingerprint_stream [sample_entry\<lparr>te_inode := 7\<rparr>] = Some b"
proof -
  have "fingerprint_stream [sample_entry] \<noteq> None"
    by (simp add: fingerprint_stream_def entry_stream_def sample_entry_def length_bytes_def Let_def
        utf8_encode_char_def code_def)
  then obtain b where b: "fingerprint_stream [sample_entry] = Some b" by auto
  have "map entry_content [sample_entry] = map entry_content [sample_entry\<lparr>te_inode := 7\<rparr>]" by code_simp
  with fingerprint_framing_injective [OF b] b show ?thesis by blast
qed

end
