(* ===== verification/Static_Service_Facts.thy ===== *)
theory Static_Service_Facts
  imports Static_Service
begin

text \<open>
  What \<open>validate\<close> guarantees for every environment: its result satisfies the model validator
  whatever the boundaries return or raise.
\<close>

section \<open>The list of checks\<close>

definition language_ok :: "check_status set \<Rightarrow> bool" where
  "language_ok L \<longleftrightarrow> (NOT_APPLICABLE \<in> L \<longrightarrow> L = {NOT_APPLICABLE})"

definition checks_inv :: "check_result list \<Rightarrow> bool" where
  "checks_inv cs \<longleftrightarrow> map cr_check cs = all_checks \<and> list_all valid_check_result cs \<and>
     NOT_APPLICABLE \<notin> set (take 2 (map cr_status cs)) \<and> language_ok (set (drop 2 (map cr_status cs)))"

lemma checks_inv_length: "checks_inv cs \<Longrightarrow> length cs = 7"
  by (auto simp: checks_inv_def all_checks_def dest: arg_cong [where f = length])

lemma language_ok_update:
  assumes "language_ok (set xs)" "xs ! i \<noteq> NOT_APPLICABLE" "x \<noteq> NOT_APPLICABLE"
  shows "language_ok (set (xs[i := x]))"
proof (cases "i < length xs")
  case True
  from nth_mem [OF True] assms(1,2) have "NOT_APPLICABLE \<notin> set xs" unfolding language_ok_def by blast
  then have "NOT_APPLICABLE \<notin> set (xs[i := x])"
    using assms(3) set_update_subset_insert [of xs i x] by blast
  then show ?thesis by (simp add: language_ok_def)
qed (use assms in \<open>simp add: list_update_beyond linorder_not_less\<close>)

lemma checks_inv_update:
  assumes "checks_inv cs" "i < 7" "2 \<le> i \<Longrightarrow> cr_status (cs ! i) \<noteq> NOT_APPLICABLE"
    and c: "cr_status c \<noteq> NOT_APPLICABLE" "cr_check c = cr_check (cs ! i)" "valid_check_result c"
  shows "checks_inv (cs[i := c])"
proof -
  note len = checks_inv_length [OF assms(1)]
  have "map cr_check (cs[i := c]) = all_checks"
    using assms(1,2) c(2) len by (simp add: checks_inv_def map_update) (metis list_update_id nth_map)
  moreover have "list_all valid_check_result (cs[i := c])"
    using assms(1) c(3) set_update_subset_insert [of cs i c] by (auto simp: checks_inv_def list_all_iff)
  moreover have "NOT_APPLICABLE \<notin> set (take 2 (map cr_status (cs[i := c])))"
    using assms(1) c(1) set_update_subset_insert [of "take 2 (map cr_status cs)" i "cr_status c"]
    by (auto simp: checks_inv_def map_update take_update_swap)
  moreover have "language_ok (set (drop 2 (map cr_status (cs[i := c]))))"
  proof (cases "i < 2")
    case True
    with assms(1) show ?thesis by (simp add: checks_inv_def map_update)
  next
    case False
    then obtain k where "i = k + 2" by (metis le_add_diff_inverse2 linorder_not_less)
    with assms(2) len have "drop 2 (map cr_status cs) ! (i - 2) = cr_status (cs ! i)" by simp
    with False assms(1,3) c(1) show ?thesis
      by (auto simp: checks_inv_def map_update drop_update_swap intro!: language_ok_update)
  qed
  ultimately show ?thesis by (simp add: checks_inv_def)
qed

lemma first_index_or_zero_cases:
  "first_index_or_zero P xs = 0 \<or> (first_index_or_zero P xs < length xs \<and> P (xs ! first_index_or_zero P xs))"
  by (auto simp: first_index_or_zero_def dest: first_index_SomeD split: option.splits)

lemma checks_inv_update_first:
  assumes "checks_inv cs" "\<And>c. P c \<Longrightarrow> cr_status c \<noteq> NOT_APPLICABLE"
  shows "checks_inv (cs[first_index_or_zero P cs :=
    check_infrastructure (cr_check (cs ! first_index_or_zero P cs)) k])"
  using first_index_or_zero_cases [of P cs] assms checks_inv_length [OF assms(1)]
  by (intro checks_inv_update) auto

lemma mark_infrastructure_inv:
  "checks_inv cs \<Longrightarrow> checks_inv (mark_infrastructure cs k)"
  by (auto simp: mark_infrastructure_def Let_def intro!: checks_inv_update_first)

lemma mark_infrastructure_marks:
  assumes "checks_inv cs"
  shows "INFRASTRUCTURE_ERROR \<in> set (map cr_status (mark_infrastructure cs k))"
proof (cases "list_ex (\<lambda>c. cr_status c = INFRASTRUCTURE_ERROR) cs")
  case True
  then show ?thesis by (auto simp: mark_infrastructure_def list_ex_iff image_iff eq_commute)
next
  case False
  let ?i = "first_index_or_zero (\<lambda>c. cr_status c = NOT_RUN) cs"
  have "?i < length cs"
    using checks_inv_length [OF assms] by (intro first_index_or_zero_less) auto
  then have "check_infrastructure (cr_check (cs ! ?i)) k \<in> set (mark_infrastructure cs k)"
    using False by (auto simp: mark_infrastructure_def Let_def intro: set_update_memI)
  then show ?thesis by (metis check_fields(8) image_eqI list.set_map)
qed

lemma infrastructure_result_valid:
  "checks_inv cs \<Longrightarrow> valid_static_result (infrastructure_result cs k)"
  using mark_infrastructure_inv [of cs k] mark_infrastructure_marks [of cs k]
  by (simp add: valid_static_result_def infrastructure_result_def static_outcome_ok_def Let_def
      checks_inv_def language_ok_def)

lemma candidate_failed_result_valid:
  "checks_inv cs \<Longrightarrow> FAILED \<in> set (map cr_status cs) \<Longrightarrow> INFRASTRUCTURE_ERROR \<notin> set (map cr_status cs) \<Longrightarrow>
   valid_static_result (candidate_failed_result cs)"
  by (simp add: valid_static_result_def candidate_failed_result_def static_outcome_ok_def Let_def
      checks_inv_def language_ok_def)

section \<open>Triples over the checks\<close>

definition at_checks :: "check_result list \<Rightarrow> 'w service_state \<Rightarrow> bool" where
  "at_checks X s \<longleftrightarrow> sv_checks s = X"

definition returns_valid :: "static_result + 'a \<Rightarrow> 'w service_state \<Rightarrow> bool" where
  "returns_valid r s \<longleftrightarrow> (case r of Inl v \<Rightarrow> valid_static_result v | Inr _ \<Rightarrow> False)"

definition interrupted :: "raised \<Rightarrow> 'w service_state \<Rightarrow> bool" where
  "interrupted e s \<longleftrightarrow> e = RaisedInterrupt"

definition recoverable :: "raised \<Rightarrow> 'w service_state \<Rightarrow> bool" where
  "recoverable e s \<longleftrightarrow> e = RaisedInterrupt \<or> checks_inv (sv_checks s)"

lemmas outcome_defs = returns_valid_def interrupted_def recoverable_def at_checks_def

lemma at_world [triple_intro]:
  "triple (at_checks X) (on_world m) (\<lambda>_. at_checks X) (\<lambda>_. at_checks X)"
  by (auto simp: triple_def on_world_def at_checks_def split: prod.splits sum.splits)

lemma at_from_world [triple_intro]:
  "triple (at_checks X) (from_world f) (\<lambda>_. at_checks X) (\<lambda>_. at_checks X)"
  by (auto simp: triple_def from_world_def at_checks_def split: sum.splits)

lemma at_ensure [triple_intro]:
  "triple (at_checks X) (ensure e b) (\<lambda>_. at_checks X) (\<lambda>_. at_checks X)"
  by (intro triple_ensure) auto

lemma at_set_check [triple_intro]:
  "triple (at_checks X) (set_check i c) (\<lambda>_. at_checks (X[i := c])) E"
  by (auto simp: triple_def set_check_def modify_def at_checks_def)

lemma at_set_cleanup [triple_intro]:
  "triple (at_checks X) (set_cleanup t) (\<lambda>_. at_checks X) E"
  by (auto simp: triple_def set_cleanup_def modify_def at_checks_def)

lemma triple_known:
  "(\<And>X. G X \<Longrightarrow> triple (at_checks X) m Q E) \<Longrightarrow> triple (\<lambda>s. G (sv_checks s)) m Q E"
  by (auto simp: triple_def at_checks_def)

lemma infrastructure_triple:
  "checks_inv X \<Longrightarrow>
   triple (at_checks X) (infrastructure k) (\<lambda>r s. valid_static_result r \<and> checks_inv (sv_checks s)) E"
  using infrastructure_result_valid [of X k] mark_infrastructure_inv [of X k]
  by (simp add: triple_def infrastructure_def andthen_def gets_def modify_def construct_def ret_def at_checks_def)

lemma cleanup_triple:
  assumes "valid_static_result res"
  shows "triple (\<lambda>s. checks_inv (sv_checks s)) (cleanup_or_result env res) (\<lambda>r s. valid_static_result r) interrupted"
proof (rule triple_known)
  fix X assume X: "checks_inv X"
  let ?j = "first_index_or_zero (\<lambda>c. cr_status c \<in> {NOT_RUN, PASSED}) X"
  have upd: "checks_inv (X[?j := check_infrastructure (cr_check (X ! ?j)) CLEANUP_FAILED])"
    using X by (rule checks_inv_update_first) auto
  have h: "triple (at_checks X) (andthen (gets sv_checks) (\<lambda>cs.
      let j = first_index_or_zero (\<lambda>c. cr_status c \<in> {NOT_RUN, PASSED}) cs in
      andthen (set_check j (check_infrastructure (cr_check (cs ! j)) CLEANUP_FAILED))
        (\<lambda>_. infrastructure CLEANUP_FAILED))) (\<lambda>r s. valid_static_result r) interrupted"
  proof (rule triple_andthen [where R = "\<lambda>cs s. cs = X \<and> at_checks X s"])
    show "triple (\<lambda>s. cs = X \<and> at_checks X s) (let j = first_index_or_zero (\<lambda>c. cr_status c \<in> {NOT_RUN, PASSED}) cs in
      andthen (set_check j (check_infrastructure (cr_check (cs ! j)) CLEANUP_FAILED))
        (\<lambda>_. infrastructure CLEANUP_FAILED)) (\<lambda>r s. valid_static_result r) interrupted" for cs
    proof (cases "cs = X")
      case True
      show ?thesis unfolding True Let_def simp_thms
        by (rule triple_andthen [OF at_set_check])
           (rule triple_weaken [OF infrastructure_triple [OF upd]], auto)
    qed (simp add: triple_def)
  qed (simp add: triple_def gets_def at_checks_def)
  have "triple (at_checks X) (case target of None \<Rightarrow> ret res
      | Some (p, i) \<Rightarrow> catch (andthen (on_world (se_remove_tree env p i)) (\<lambda>_. ret res))
          (\<lambda>e. if e = RaisedInterrupt then raise e
                else andthen (gets sv_checks) (\<lambda>cs.
                  let j = first_index_or_zero (\<lambda>c. cr_status c \<in> {NOT_RUN, PASSED}) cs in
                  andthen (set_check j (check_infrastructure (cr_check (cs ! j)) CLEANUP_FAILED))
                    (\<lambda>_. infrastructure CLEANUP_FAILED))))
      (\<lambda>r s. valid_static_result r) interrupted" for target
  proof (cases target)
    case None
    with assms show ?thesis by (auto intro: triple_ret)
  next
    case (Some t)
    obtain p i where t: "target = Some (p, i)" using Some by (cases t) simp
    have a: "triple (at_checks X) (andthen (on_world (se_remove_tree env p i)) (\<lambda>_. ret res))
        (\<lambda>r s. valid_static_result r) (\<lambda>_. at_checks X)"
      using assms by (intro triple_andthen [where R = "\<lambda>_. at_checks X"] at_world triple_ret)
    show ?thesis unfolding t option.case prod.case
      by (rule triple_catch [OF a]) (intro triple_if h triple_raise, simp add: interrupted_def)
  qed
  then show "triple (at_checks X) (cleanup_or_result env res) (\<lambda>r s. valid_static_result r) interrupted"
    unfolding cleanup_or_result_def
    by (intro triple_andthen [where R = "\<lambda>_. at_checks X"] triple_gets)
qed

lemma return_infrastructure_triple [triple_intro]:
  assumes "checks_inv X"
  shows "triple (at_checks X) (return_infrastructure env k) returns_valid interrupted"
  unfolding return_infrastructure_def
proof (rule triple_andthen [OF infrastructure_triple [OF assms]])
  fix r
  show "triple (\<lambda>s. valid_static_result r \<and> checks_inv (sv_checks s))
      (andthen (cleanup_or_result env r) (\<lambda>r. ret (Inl r))) returns_valid interrupted"
  proof (cases "valid_static_result r")
    case True
    show ?thesis
      by (rule triple_andthen [OF triple_weaken [OF cleanup_triple [OF True, of env],
              where Q' = "\<lambda>r s. valid_static_result r"]])
         (auto simp: returns_valid_def intro!: triple_ret)
  qed (simp add: triple_def)
qed

lemma return_candidate_failed_triple [triple_intro]:
  assumes "checks_inv X" "FAILED \<in> set (map cr_status X)" "INFRASTRUCTURE_ERROR \<notin> set (map cr_status X)"
  shows "triple (at_checks X) (return_candidate_failed env) returns_valid interrupted"
  unfolding return_candidate_failed_def
proof (rule triple_andthen [where R = "\<lambda>r s. valid_static_result r \<and> checks_inv (sv_checks s)"])
  show "triple (at_checks X) candidate_failed (\<lambda>r s. valid_static_result r \<and> checks_inv (sv_checks s)) interrupted"
    using candidate_failed_result_valid [OF assms] assms(1)
    by (simp add: triple_def candidate_failed_def andthen_def gets_def construct_def ret_def at_checks_def)
next
  fix r
  show "triple (\<lambda>s. valid_static_result r \<and> checks_inv (sv_checks s))
      (andthen (cleanup_or_result env r) (\<lambda>r. ret (Inl r))) returns_valid interrupted"
  proof (cases "valid_static_result r")
    case True
    show ?thesis
      by (rule triple_andthen [OF triple_weaken [OF cleanup_triple [OF True, of env],
              where Q' = "\<lambda>r s. valid_static_result r"]])
         (auto simp: returns_valid_def intro!: triple_ret)
  qed (simp add: triple_def)
qed

section \<open>The phases\<close>

definition phase_post :: "(check_result list \<Rightarrow> bool) \<Rightarrow> static_result + 'a \<Rightarrow> 'w service_state \<Rightarrow> bool" where
  "phase_post G r s \<longleftrightarrow> (case r of Inl v \<Rightarrow> valid_static_result v | Inr _ \<Rightarrow> G (sv_checks s))"

lemma phase_seq:
  assumes "triple (at_checks X) m (phase_post G) E"
    and "\<And>x Y. G Y \<Longrightarrow> triple (at_checks Y) (f x) returns_valid E"
  shows "triple (at_checks X) (phase m f) returns_valid E"
proof (rule triple_phase [where R = "\<lambda>_ s. G (sv_checks s)"])
  show "triple (at_checks X) m (\<lambda>r s. case r of Inl v \<Rightarrow> returns_valid (Inl v) s | Inr x \<Rightarrow> G (sv_checks s)) E"
    by (rule triple_weaken [OF assms(1)]) (auto simp: phase_post_def returns_valid_def split: sum.splits)
qed (use assms(2) triple_known in blast)

lemma phase_seq_known:
  "triple (at_checks X) m (phase_post (\<lambda>Y. Y = Z)) E \<Longrightarrow>
   (\<And>x. triple (at_checks Z) (f x) returns_valid E) \<Longrightarrow>
   triple (at_checks X) (phase m f) returns_valid E"
  by (erule phase_seq) simp

lemma post_returns: "triple P m returns_valid E \<Longrightarrow> triple P m (phase_post G) E"
  by (erule triple_weaken) (auto simp: phase_post_def returns_valid_def split: sum.splits)

lemma interrupted_recoverable: "triple P m Q interrupted \<Longrightarrow> triple P m Q recoverable"
  by (erule triple_weaken) (auto simp: outcome_defs)

lemmas returned = post_returns [OF interrupted_recoverable]

lemma post_continue: "G X \<Longrightarrow> triple (at_checks X) (ret (Inr x)) (phase_post G) E"
  by (rule triple_ret) (simp add: phase_post_def at_checks_def)

lemma raise_recoverable: "checks_inv X \<Longrightarrow> triple (at_checks X) (raise e) Q recoverable"
  by (rule triple_raise) (simp add: recoverable_def at_checks_def)

lemma at_seq:
  "triple (at_checks X) m (\<lambda>_. at_checks X) E \<Longrightarrow> (\<And>x. triple (at_checks X) (f x) Q E) \<Longrightarrow>
   triple (at_checks X) (andthen m f) Q E"
  by (rule triple_andthen)

lemmas at_steps = at_seq at_world at_from_world at_ensure at_set_cleanup

lemma same_fingerprint_at: "triple (at_checks X) (same_fingerprint env src v) (\<lambda>_. at_checks X) (\<lambda>_. at_checks X)"
  unfolding same_fingerprint_def by (intro at_steps)

lemma same_snapshot_at: "triple (at_checks X) (same_snapshot env d i t) (\<lambda>_. at_checks X) (\<lambda>_. at_checks X)"
  unfolding same_snapshot_def by (intro at_steps)

lemma path_free_at: "triple (at_checks X) (path_free env p) (\<lambda>_. at_checks X) (\<lambda>_. at_checks X)"
  unfolding path_free_def by (intro at_steps)

lemmas phase_steps = at_steps same_fingerprint_at same_snapshot_at path_free_at

abbreviation (input) known :: "check_result list \<Rightarrow> check_result list \<Rightarrow> bool" where
  "known X Y \<equiv> Y = X"

definition checks_applied :: "check_result list" where
  "checks_applied = blank_checks[0 := check_passed PATCH_APPLY]"

definition checks_changed :: "check_result list" where
  "checks_changed = checks_applied[1 := check_passed CHANGED_FILES]"

lemmas check_list_defs = checks_changed_def checks_applied_def blank_checks_def all_checks_def

lemma checks_inv_stages [simp]:
  "checks_inv blank_checks" "checks_inv checks_applied" "checks_inv checks_changed"
  "checks_inv (blank_checks[0 := check_infrastructure PATCH_APPLY k])"
  "checks_inv (blank_checks[0 := check_failed PATCH_APPLY ''PATCH_CONFLICT''])"
  "checks_inv (checks_applied[1 := check_infrastructure CHANGED_FILES k])"
  "checks_inv (checks_applied[1 := check_failed CHANGED_FILES ''CHANGED_FILES''])"
  by (simp_all add: check_list_defs checks_inv_def language_ok_def rule_code_ok_def
      is_ascii_alnum_def is_package_separator_def code_def is_digit_def)

lemma preparation_triple:
  "triple (at_checks blank_checks) (preparation_phase env v) (phase_post (known blank_checks)) recoverable"
  unfolding preparation_phase_def
proof (rule triple_catch [where R = "\<lambda>_. at_checks blank_checks"])
  show "triple (at_checks blank_checks) (if e \<in> {RaisedOs, RaisedFilesystem}
      then andthen (infrastructure PREPARATION_INVALID) (\<lambda>res. ret (Inl res)) else raise e)
      (phase_post (known blank_checks)) recoverable" for e
    by (intro triple_if raise_recoverable triple_andthen [OF infrastructure_triple] triple_ret)
       (simp_all add: phase_post_def)
qed (intro phase_steps post_continue refl)

lemma workspace_triple:
  "triple (at_checks blank_checks) (workspace_phase env v source pristine) (phase_post (known blank_checks)) recoverable"
  unfolding workspace_phase_def
proof (rule triple_catch [where R = "\<lambda>_. at_checks blank_checks"])
  show "triple (at_checks blank_checks) (if e \<in> {RaisedOs, RaisedFilesystem}
      then return_infrastructure env WORKSPACE_INVALID else raise e)
      (phase_post (known blank_checks)) recoverable" for e
    by (intro triple_if raise_recoverable returned return_infrastructure_triple) simp_all
qed (unfold Let_def, intro phase_steps post_continue refl)

lemma apply_patch_at:
  "triple (at_checks X) (apply_patch env staging i pristine fs) (\<lambda>_. at_checks X) (\<lambda>_. at_checks X)"
proof (induction fs)
  case (Cons f fs)
  then show ?case unfolding apply_patch.simps Let_def
    by (intro phase_steps triple_option)
qed (simp add: triple_def ret_def)

lemma apply_triple:
  "triple (at_checks blank_checks) (apply_phase env staging i pristine parsed)
     (phase_post (known checks_applied)) recoverable"
  unfolding apply_phase_def
proof (rule triple_catch [where R = "\<lambda>_. at_checks blank_checks"])
  show "triple (at_checks blank_checks) (andthen (apply_patch env staging i pristine (ud_files parsed)) (\<lambda>_.
      andthen (set_check 0 (check_passed PATCH_APPLY)) (\<lambda>_. ret (Inr ()))))
      (phase_post (known checks_applied)) (\<lambda>_. at_checks blank_checks)"
    by (intro triple_andthen [OF apply_patch_at] triple_andthen [OF at_set_check] post_continue)
       (simp add: checks_applied_def)
  show "triple (at_checks blank_checks)
      (if e = RaisedPatchApplication then
            andthen (set_check 0 (check_failed PATCH_APPLY ''PATCH_CONFLICT'')) (\<lambda>_. return_candidate_failed env)
          else if e = RaisedFilesystem then
            andthen (set_check 0 (check_infrastructure PATCH_APPLY FILESYSTEM_FAILED)) (\<lambda>_.
              return_infrastructure env FILESYSTEM_FAILED)
          else raise e) (phase_post (known checks_applied)) recoverable" for e
    by (intro triple_if raise_recoverable triple_andthen [OF at_set_check] returned
        return_infrastructure_triple return_candidate_failed_triple checks_inv_stages)
       (auto simp: check_list_defs)
qed

lemma changed_triple:
  "triple (at_checks checks_applied) (changed_phase env staging i pristine paths)
     (phase_post (known checks_changed)) recoverable"
  unfolding changed_phase_def
proof (rule triple_catch [where R = "\<lambda>_. at_checks checks_applied"])
  show "triple (at_checks checks_applied) (andthen (on_world (se_snapshot env staging (Some i))) (\<lambda>before.
      andthen (from_world (\<lambda>_. map_sum raised_of id
          (changed_python_paths (se_set_order env) pristine before paths))) (\<lambda>python_paths.
      andthen (set_check 1 (check_passed CHANGED_FILES)) (\<lambda>_. ret (Inr (before, python_paths))))))
      (phase_post (known checks_changed)) (\<lambda>_. at_checks checks_applied)"
    by (intro triple_andthen [OF at_world] triple_andthen [OF at_from_world]
        triple_andthen [OF at_set_check] post_continue)
       (simp add: checks_changed_def)
  show "triple (at_checks checks_applied)
      (if e = RaisedChangedFiles then
            andthen (set_check 1 (check_failed CHANGED_FILES ''CHANGED_FILES'')) (\<lambda>_. return_candidate_failed env)
          else if e = RaisedFilesystem then
            andthen (set_check 1 (check_infrastructure CHANGED_FILES FILESYSTEM_FAILED)) (\<lambda>_.
              return_infrastructure env FILESYSTEM_FAILED)
          else raise e) (phase_post (known checks_changed)) recoverable" for e
    by (intro triple_if raise_recoverable triple_andthen [OF at_set_check] returned
        return_infrastructure_triple return_candidate_failed_triple checks_inv_stages)
       (auto simp: check_list_defs)
qed

text \<open>After the tools have run no check is left unrun; after the decision all of them passed or are
  not applicable.\<close>

definition checks_run :: "check_result list \<Rightarrow> bool" where
  "checks_run Y \<longleftrightarrow> checks_inv Y \<and> take 2 Y = take 2 checks_changed \<and> NOT_RUN \<notin> set (map cr_status Y)"

definition checks_pass :: "check_result list \<Rightarrow> bool" where
  "checks_pass Y \<longleftrightarrow> checks_inv Y \<and> set (map cr_status Y) \<subseteq> {PASSED, NOT_APPLICABLE}"

lemma checks_run_inv: "checks_run Y \<Longrightarrow> checks_inv Y"
  by (simp add: checks_run_def)

lemma at_map_language:
  "triple (at_checks X) (map_language_checks f) (\<lambda>_. at_checks (take 2 X @ map f (drop 2 X))) E"
  by (auto simp: triple_def map_language_checks_def modify_def at_checks_def)

lemma at_store_tools:
  "triple (at_checks X) (store_tool_results rs)
     (\<lambda>_. at_checks (take 2 X @ map map_tool_result rs @ drop (2 + length rs) X)) E"
  by (auto simp: triple_def store_tool_results_def modify_def at_checks_def)

lemma checks_run_not_applicable:
  "checks_run (take 2 checks_changed @ map (\<lambda>c. check_not_applicable (cr_check c)) (drop 2 checks_changed))"
  by (simp add: check_list_defs checks_run_def checks_inv_def language_ok_def)

lemma checks_inv_runner_failed:
  "checks_inv (take 2 checks_changed @ map (\<lambda>c. check_infrastructure (cr_check c) k) (drop 2 checks_changed))"
  by (simp add: check_list_defs checks_inv_def language_ok_def)

lemma checks_run_tools:
  assumes "revalidate_container_result rs True = Some v"
  shows "checks_run (take 2 checks_changed @ map map_tool_result v @ drop (2 + length v) checks_changed)"
proof -
  from assms have v: "v = rs" "valid_container_result rs" "TOOL_NOT_APPLICABLE \<notin> set (map to_status rs)"
    by (auto simp: revalidate_container_result_def Let_def split: if_split_asm)
  then have checks: "map to_check rs = all_tools" by (simp add: valid_container_result_def)
  then have len: "length rs = 5" by (auto simp: all_tools_def dest: arg_cong [where f = length])
  have "map cr_check (map map_tool_result rs) = map tool_to_check (map to_check rs)"
    by (simp add: map_tool_result_fields(1) comp_def)
  then have c: "map cr_check (map map_tool_result rs) = drop 2 all_checks"
    by (simp only: checks) (simp add: all_tools_def all_checks_def)
  have st: "\<forall>r \<in> set rs. cr_status (map_tool_result r) \<noteq> NOT_APPLICABLE \<and>
      cr_status (map_tool_result r) \<noteq> NOT_RUN"
  proof
    fix r assume "r \<in> set rs"
    with v(3) have "to_status r \<noteq> TOOL_NOT_APPLICABLE" by force
    then show "cr_status (map_tool_result r) \<noteq> NOT_APPLICABLE \<and> cr_status (map_tool_result r) \<noteq> NOT_RUN"
      by (cases "to_status r") (simp_all add: map_tool_result_fields(2))
  qed
  have ok: "list_all valid_check_result (map map_tool_result rs)"
    using v(2) map_tool_result_valid by (auto simp: valid_container_result_def list_all_iff)
  have two: "take 2 checks_changed = [check_passed PATCH_APPLY, check_passed CHANGED_FILES]"
      "drop (2 + length rs) checks_changed = []" "length checks_changed = 7"
    by (simp_all add: check_list_defs len)
  define L where "L = map map_tool_result rs"
  have L: "map cr_check L = drop 2 all_checks" "list_all valid_check_result L"
      "\<forall>x \<in> set L. cr_status x \<noteq> NOT_APPLICABLE \<and> cr_status x \<noteq> NOT_RUN"
    using c ok st by (auto simp: L_def)
  have "checks_run ([check_passed PATCH_APPLY, check_passed CHANGED_FILES] @ L)"
    using L two(1) by (auto simp: checks_run_def checks_inv_def all_checks_def language_ok_def)
  then show ?thesis unfolding v(1) two L_def by simp
qed

lemma runner_triple:
  "triple (at_checks checks_changed) (runner_phase env staging paths) (phase_post checks_run) recoverable"
proof -
  let ?c = "checks_changed"
  have body: "triple (at_checks ?c) (andthen (on_world (se_runner env staging paths)) (\<lambda>rs.
         andthen (from_world (\<lambda>_. case revalidate_container_result rs True of
             None \<Rightarrow> Inl RaisedRunner | Some v \<Rightarrow> Inr v)) (\<lambda>v.
         andthen (store_tool_results v) (\<lambda>_. ret (Inr ()))))) (phase_post checks_run) (\<lambda>_. at_checks ?c)"
  proof (rule at_seq [OF at_world])
    fix rs
    show "triple (at_checks ?c) (andthen (from_world (\<lambda>_. case revalidate_container_result rs True of
             None \<Rightarrow> Inl RaisedRunner | Some v \<Rightarrow> Inr v)) (\<lambda>v.
         andthen (store_tool_results v) (\<lambda>_. ret (Inr ())))) (phase_post checks_run) (\<lambda>_. at_checks ?c)"
    proof (cases "revalidate_container_result rs True")
      case None
      then show ?thesis by (simp add: triple_def andthen_def from_world_def)
    next
      case (Some v)
      show ?thesis
        by (rule triple_andthen [where R = "\<lambda>u s. u = v \<and> at_checks ?c s"])
           (use Some in \<open>simp add: triple_def from_world_def\<close>,
            use checks_run_tools [OF Some] in \<open>simp add: triple_def andthen_def store_tool_results_def
              modify_def ret_def at_checks_def phase_post_def\<close>)
    qed
  qed
  show ?thesis
    unfolding runner_phase_def
  proof (intro triple_if triple_catch [OF body])
    show "triple (at_checks ?c) (andthen (map_language_checks (\<lambda>c. check_not_applicable (cr_check c)))
        (\<lambda>_. ret (Inr ()))) (phase_post checks_run) recoverable"
      by (rule triple_andthen [OF at_map_language]) (intro post_continue checks_run_not_applicable)
    show "triple (at_checks ?c) (andthen (map_language_checks (\<lambda>c. check_infrastructure (cr_check c) STATIC_RUNNER_FAILED))
        (\<lambda>_. return_infrastructure env STATIC_RUNNER_FAILED)) (phase_post checks_run) recoverable"
      by (rule triple_andthen [OF at_map_language])
         (intro returned return_infrastructure_triple checks_inv_runner_failed)
  qed (intro raise_recoverable, simp)
qed

lemma checks_inv_integrity:
  assumes "checks_run Y"
  shows "checks_inv (Y[1 := check_infrastructure CHANGED_FILES k])"
proof -
  from assms have inv: "checks_inv Y" by (rule checks_run_inv)
  then have "map cr_check Y ! 1 = CHANGED_FILES" by (simp add: checks_inv_def all_checks_def)
  then have "cr_check (Y ! 1) = CHANGED_FILES" using checks_inv_length [OF inv] by simp
  with inv show ?thesis by (intro checks_inv_update) auto
qed

lemma integrity_triple:
  assumes "checks_run Y"
  shows "triple (at_checks Y) (integrity_phase env v source pristine staging i before)
     (phase_post checks_run) recoverable"
  unfolding integrity_phase_def
proof (rule triple_catch [where R = "\<lambda>_. at_checks Y"])
  show "triple (at_checks Y) (if e = RaisedFilesystem then
            andthen (set_check 1 (check_infrastructure CHANGED_FILES INTEGRITY_FAILED)) (\<lambda>_.
              return_infrastructure env INTEGRITY_FAILED)
          else raise e) (phase_post checks_run) recoverable" for e
    by (intro triple_if raise_recoverable triple_andthen [OF at_set_check] returned
        return_infrastructure_triple checks_inv_integrity checks_run_inv assms)
qed (intro phase_steps post_continue assms)

lemma decide_triple:
  assumes "checks_run Y"
  shows "triple (at_checks Y) (decide_phase env) (phase_post checks_pass) recoverable"
  unfolding decide_phase_def
proof (rule triple_andthen [where R = "\<lambda>cs s. cs = Y \<and> at_checks Y s"])
  have "triple (at_checks Y) (if list_ex (\<lambda>c. cr_status c = INFRASTRUCTURE_ERROR) Y
       then return_infrastructure env STATIC_RUNNER_FAILED
     else if list_ex (\<lambda>c. cr_status c = FAILED) Y then return_candidate_failed env
     else ret (Inr ())) (phase_post checks_pass) recoverable"
  proof (rule triple_if)
    show "triple (at_checks Y) (return_infrastructure env STATIC_RUNNER_FAILED) (phase_post checks_pass) recoverable"
      by (intro returned return_infrastructure_triple checks_run_inv assms)
  next
    assume i: "\<not> list_ex (\<lambda>c. cr_status c = INFRASTRUCTURE_ERROR) Y"
    show "triple (at_checks Y) (if list_ex (\<lambda>c. cr_status c = FAILED) Y then return_candidate_failed env
        else ret (Inr ())) (phase_post checks_pass) recoverable"
    proof (rule triple_if)
      assume "list_ex (\<lambda>c. cr_status c = FAILED) Y"
      with i assms show "triple (at_checks Y) (return_candidate_failed env) (phase_post checks_pass) recoverable"
        by (intro returned return_candidate_failed_triple checks_run_inv) (force simp: list_ex_iff)+
    next
      assume f: "\<not> list_ex (\<lambda>c. cr_status c = FAILED) Y"
      have "cr_status c \<in> {PASSED, NOT_APPLICABLE}" if "c \<in> set Y" for c
        using that i f assms by (cases "cr_status c") (force simp: list_ex_iff checks_run_def)+
      then have "checks_pass Y" using assms by (auto simp: checks_pass_def checks_run_def)
      then show "triple (at_checks Y) (ret (Inr ())) (phase_post checks_pass) recoverable"
        by (rule post_continue)
    qed
  qed
  then show "triple (\<lambda>s. cs = Y \<and> at_checks Y s) (if list_ex (\<lambda>c. cr_status c = INFRASTRUCTURE_ERROR) cs
       then return_infrastructure env STATIC_RUNNER_FAILED
     else if list_ex (\<lambda>c. cr_status c = FAILED) cs then return_candidate_failed env
     else ret (Inr ())) (phase_post checks_pass) recoverable" for cs
    by (intro triple_assume) (hypsubst, assumption)
qed (simp add: triple_def gets_def at_checks_def)

lemma publish_triple:
  assumes "checks_pass Y"
  shows "triple (at_checks Y) (publish_phase env v source pristine staging i published before)
     (phase_post checks_pass) recoverable"
  unfolding publish_phase_def
proof (rule triple_catch [where R = "\<lambda>_. at_checks Y"])
  show "triple (at_checks Y) (if e = RaisedFilesystem then return_infrastructure env INTEGRITY_FAILED
      else raise e) (phase_post checks_pass) recoverable" for e
    using assms by (intro triple_if raise_recoverable returned return_infrastructure_triple)
      (simp_all add: checks_pass_def)
qed (intro phase_steps post_continue assms)

lemma passed_result_valid:
  assumes "checks_pass Y" "valid_candidate c"
  shows "valid_static_result \<lparr>st_outcome = STATIC_PASSED, st_checks = Y, st_candidate = Some c,
    st_diagnostic = None\<rparr>"
proof -
  from assms(1) have inv: "checks_inv Y" and st: "set (map cr_status Y) \<subseteq> {PASSED, NOT_APPLICABLE}"
    by (simp_all add: checks_pass_def)
  let ?L = "set (drop 2 (map cr_status Y))"
  have "length (drop 2 (map cr_status Y)) = 5" using checks_inv_length [OF inv] by simp
  then have ne: "?L \<noteq> {}" by auto
  have sub: "?L \<subseteq> {PASSED, NOT_APPLICABLE}" using st set_drop_subset [of 2 "map cr_status Y"] by blast
  have "?L = {PASSED} \<or> ?L = {NOT_APPLICABLE}"
  proof (cases "NOT_APPLICABLE \<in> ?L")
    case True
    with inv show ?thesis by (simp add: checks_inv_def language_ok_def)
  next
    case False
    with sub have "?L \<subseteq> {PASSED}" by blast
    with ne show ?thesis by (metis subset_singletonD)
  qed
  with inv st assms(2) show ?thesis
    by (auto simp: valid_static_result_def static_outcome_ok_def Let_def checks_inv_def language_ok_def)
qed

lemma passed_triple:
  assumes "checks_pass Y"
  shows "triple (at_checks Y) (passed_result published f) returns_valid recoverable"
  using assms passed_result_valid [OF assms]
  by (auto simp: triple_def passed_result_def andthen_def set_cleanup_def modify_def gets_def
      construct_def ret_def raise_def at_checks_def outcome_defs checks_pass_def)

section \<open>The whole method\<close>

lemma validate_body_triple: "triple (at_checks blank_checks) (validate_body env request) returns_valid recoverable"
proof (cases "validate_inputs request")
  case None
  show ?thesis unfolding validate_body_def None option.case
    by (rule triple_andthen [OF infrastructure_triple]) (auto simp: returns_valid_def intro!: triple_ret)
next
  case (Some r)
  obtain v paths parsed where r: "r = (v, paths, parsed)" by (cases r)
  show ?thesis unfolding validate_body_def Some r option.case prod.case
    by (intro phase_seq_known [OF preparation_triple] triple_prod phase_seq_known [OF workspace_triple]
        phase_seq_known [OF apply_triple] phase_seq_known [OF changed_triple] phase_seq [OF runner_triple]
        phase_seq [OF integrity_triple] phase_seq [OF decide_triple] phase_seq [OF publish_triple]
        passed_triple)
qed

lemma validate_triple:
  "triple (at_checks blank_checks) (validate env request) (\<lambda>r s. valid_static_result r) interrupted"
  unfolding validate_def
proof (rule triple_catch [where R = recoverable])
  show "triple (at_checks blank_checks) (andthen (validate_body env request)
      (\<lambda>r. case r of Inl res \<Rightarrow> ret res | Inr res \<Rightarrow> ret res)) (\<lambda>r s. valid_static_result r) recoverable"
    by (rule triple_andthen [OF validate_body_triple])
       (auto simp: returns_valid_def triple_def ret_def split: sum.splits)
next
  fix e
  show "triple (recoverable e) (if e = RaisedInterrupt then
            andthen (gets sv_cleanup) (\<lambda>target. case target of
                None \<Rightarrow> raise RaisedInterrupt
              | Some (p, i) \<Rightarrow> catch (andthen (on_world (se_remove_tree env p i)) (\<lambda>_. raise RaisedInterrupt))
                  (\<lambda>_. raise RaisedInterrupt))
          else andthen (infrastructure FILESYSTEM_FAILED) (cleanup_or_result env))
      (\<lambda>r s. valid_static_result r) interrupted"
  proof (intro triple_if)
    show "triple (recoverable e) (andthen (gets sv_cleanup) (\<lambda>target. case target of
                None \<Rightarrow> raise RaisedInterrupt
              | Some (p, i) \<Rightarrow> catch (andthen (on_world (se_remove_tree env p i)) (\<lambda>_. raise RaisedInterrupt))
                  (\<lambda>_. raise RaisedInterrupt))) (\<lambda>r s. valid_static_result r) interrupted"
      by (auto simp: triple_def andthen_def gets_def raise_def catch_def on_world_def interrupted_def
          split: option.splits prod.splits sum.splits)
  next
    assume "e \<noteq> RaisedInterrupt"
    then have pre: "recoverable e = (\<lambda>s. checks_inv (sv_checks s))" by (auto simp: recoverable_def)
    show "triple (recoverable e) (andthen (infrastructure FILESYSTEM_FAILED) (cleanup_or_result env))
        (\<lambda>r s. valid_static_result r) interrupted"
      unfolding pre
    proof (rule triple_known, rule triple_andthen [OF infrastructure_triple])
      show "triple (\<lambda>s. valid_static_result r \<and> checks_inv (sv_checks s)) (cleanup_or_result env r)
          (\<lambda>r s. valid_static_result r) interrupted" for r
        by (cases "valid_static_result r")
           (rule triple_weaken [OF cleanup_triple], auto simp: triple_def)
    qed
  qed
qed

section \<open>Properties\<close>

text \<open>Mapping a tool result that passed its own validator never fails: the check result it
  becomes satisfies the validator of the static gate (paths, rule codes, order, no duplicates), for
  the matching check and with the matching status.\<close>

theorem tool_results_map_to_valid_checks:
  assumes "valid_tool_result r"
  shows "valid_check_result (map_tool_result r) \<and> cr_check (map_tool_result r) = tool_to_check (to_check r)"
  using map_tool_result_valid [OF assms] map_tool_result_fields(1) by blast

definition sample_tool_result :: tool_result where
  "sample_tool_result = \<lparr>to_check = TOOL_RUFF, to_status = TOOL_FAILED,
     to_findings = [\<lparr>tf_path = ''a.py'', tf_line = Some 3, tf_column = None, tf_rule_code = ''E501''\<rparr>],
     to_error_code = None\<rparr>"

lemma sample_tool_result_valid: "valid_tool_result sample_tool_result"
proof -
  have "tool_path_ok True ''a.py''" by code_simp
  moreover have "rule_code_ok ''E501''" by code_simp
  ultimately show ?thesis
    by (simp add: valid_tool_result_def sample_tool_result_def valid_tool_finding_def position_ok_def)
qed

theorem tool_results_map_to_valid_checks_witness: "valid_check_result (map_tool_result sample_tool_result)"
  using tool_results_map_to_valid_checks [OF sample_tool_result_valid] by blast

text \<open>C21: Whatever the request is and whatever the filesystem, the fingerprinter, the runner and the
  identifier factory return or raise, \<open>validate\<close> returns a result that satisfies its model (the
  seven checks in order, statuses and diagnostics consistent with the outcome); only an interrupt
  leaves the method as an exception.\<close>

theorem static_validation_total:
  "case run_validate env request w of
     (Inl e, s) \<Rightarrow> e = RaisedInterrupt
   | (Inr res, s) \<Rightarrow> valid_static_result res"
  using validate_triple [of env request, unfolded triple_def, rule_format, of "initial_service_state w"]
  by (simp add: run_validate_def initial_service_state_def at_checks_def interrupted_def
      split: prod.splits sum.splits)

section \<open>A sample case and proposal\<close>

definition sample_digest :: string where
  "sample_digest = replicate 64 (CHR ''a'')"

definition sample_preparation :: repository_preparation where
  "sample_preparation = \<lparr>rp_case_id = ''case'', rp_requested_revision = ''r'', rp_revision_kind = SNAPSHOT,
     rp_prepared_repository = ''/src'',
     rp_fingerprint = \<lparr>rf_algorithm = ''sha256'', rf_version = 1, rf_digest = sample_digest\<rparr>\<rparr>"

definition sample_proposal :: patch_proposal where
  "sample_proposal = \<lparr>pr_summary = ''s'', pr_root_cause = ''c'', pr_files_changed = [''app/x.py''],
     pr_unified_diff = sample_text, pr_expected_effect = ''e'', pr_risks = [], pr_confidence = Finite 1\<rparr>"

end
