(* ===== verification/Verification.thy ===== *)
theory Verification
  imports Static_Service
begin

text \<open>
  \<open>app/agent/verification.py\<close> and the evidence models of \<open>app/sandbox/verification_runner.py\<close>:
  stage results with their validator, the short-circuit topology of a complete result, and
  \<open>VerificationService.verify\<close>.  The case loader, the candidate filesystem, the fingerprinter, the
  bundle filesystem, the sandbox and the identifier factory are parameters (\<open>verify_env\<close>); what they
  return need not be valid and is revalidated as the code does.
\<close>

section \<open>Enumerations and diagnostics\<close>

datatype verification_stage = TARGETED | VISIBLE_SUITE | HIDDEN_SUITE

definition all_stages :: "verification_stage list" where
  "all_stages = [TARGETED, VISIBLE_SUITE, HIDDEN_SUITE]"

datatype stage_status = STAGE_PASSED | STAGE_FAILED | STAGE_NOT_RUN | STAGE_INFRASTRUCTURE_ERROR

datatype verification_outcome =
    VERIFICATION_PASSED | VERIFICATION_CANDIDATE_FAILED | VERIFICATION_INFRASTRUCTURE

datatype verification_code =
    VC_INVALID_INPUT | VC_STATIC_PREREQUISITE_FAILED | VC_CASE_LOAD_FAILED | VC_CASE_MISMATCH
  | VC_CANDIDATE_INVALID | VC_WORKSPACE_INVALID | VC_VISIBLE_TEST_INVALID | VC_EVALUATOR_INVALID
  | VC_BUNDLE_FAILED | VC_CLEANUP_FAILED | VC_INTEGRITY_FAILED | VC_SANDBOX_VALIDATION_FAILED
  | VC_SANDBOX_EXECUTION_FAILED | VC_SANDBOX_CLEANUP_FAILED | VC_SANDBOX_TIMED_OUT
  | VC_SANDBOX_MEMORY_LIMIT | VC_MALFORMED_SANDBOX_RESULT | VC_PREREQUISITE_FAILED

fun verification_message :: "verification_code \<Rightarrow> string" where
  "verification_message VC_INVALID_INPUT = ''verification input is invalid''"
| "verification_message VC_STATIC_PREREQUISITE_FAILED = ''passing static validation is required''"
| "verification_message VC_CASE_LOAD_FAILED = ''trusted benchmark case could not be loaded''"
| "verification_message VC_CASE_MISMATCH = ''trusted benchmark case identity does not match''"
| "verification_message VC_CANDIDATE_INVALID = ''candidate repository validation failed''"
| "verification_message VC_WORKSPACE_INVALID = ''verification workspace validation failed''"
| "verification_message VC_VISIBLE_TEST_INVALID = ''declared visible tests are invalid''"
| "verification_message VC_EVALUATOR_INVALID = ''trusted evaluator input is invalid''"
| "verification_message VC_BUNDLE_FAILED = ''hidden test bundle creation failed''"
| "verification_message VC_CLEANUP_FAILED = ''hidden test bundle cleanup failed''"
| "verification_message VC_INTEGRITY_FAILED = ''candidate integrity verification failed''"
| "verification_message VC_SANDBOX_VALIDATION_FAILED = ''sandbox validation failed''"
| "verification_message VC_SANDBOX_EXECUTION_FAILED = ''sandbox execution failed''"
| "verification_message VC_SANDBOX_CLEANUP_FAILED = ''sandbox cleanup failed''"
| "verification_message VC_SANDBOX_TIMED_OUT = ''sandbox execution exceeded its deadline''"
| "verification_message VC_SANDBOX_MEMORY_LIMIT = ''sandbox execution exceeded its memory limit''"
| "verification_message VC_MALFORMED_SANDBOX_RESULT = ''sandbox returned malformed execution evidence''"
| "verification_message VC_PREREQUISITE_FAILED = ''a required earlier verification stage did not pass''"

record verification_diagnostic =
  vd_code :: verification_code
  vd_message :: string

definition valid_verification_diagnostic :: "verification_diagnostic \<Rightarrow> bool" where
  [valid_defs]: "valid_verification_diagnostic d \<longleftrightarrow>
     vd_message d \<noteq> [] \<and> length (vd_message d) \<le> 128 \<and> vd_message d = verification_message (vd_code d)"

section \<open>Evidence and stage results\<close>

definition exit_code_ok :: "int option \<Rightarrow> bool" where
  "exit_code_ok x = opt_valid (\<lambda>n. 0 \<le> n \<and> n \<le> 2 ^ 31 - 1) x"

record sandbox_evidence =
  ve_completion :: sandbox_completion
  ve_exit_code :: "int option"
  ve_stdout_truncated :: bool
  ve_stderr_truncated :: bool
  ve_duration_seconds :: pyfloat

definition valid_evidence :: "sandbox_evidence \<Rightarrow> bool" where
  [valid_defs]: "valid_evidence e \<longleftrightarrow>
     exit_code_ok (ve_exit_code e) \<and> finite_at_least 0 (ve_duration_seconds e) \<and>
     \<not> (ve_completion e = NORMAL \<and> ve_exit_code e = None) \<and>
     \<not> (ve_completion e = TIMED_OUT \<and> ve_exit_code e \<noteq> None)"

record hidden_bundle =
  hb_workspace_root :: string
  hb_root :: string
  hb_test_files :: "string list"

definition valid_bundle :: "hidden_bundle \<Rightarrow> bool" where
  [valid_defs]: "valid_bundle b \<longleftrightarrow> is_absolute (hb_workspace_root b) \<and> is_absolute (hb_root b) \<and>
     hb_test_files b \<noteq> [] \<and> length (hb_test_files b) \<le> 1000 \<and>
     list_all (\<lambda>f. f \<noteq> [] \<and> utf8_len f \<le> 128) (hb_test_files b)"

record stage_result =
  sg_stage :: verification_stage
  sg_status :: stage_status
  sg_completion :: "sandbox_completion option"
  sg_exit_code :: "int option"
  sg_stdout_truncated :: "bool option"
  sg_stderr_truncated :: "bool option"
  sg_duration_seconds :: "pyfloat option"
  sg_diagnostic :: "verification_diagnostic option"

definition has_evidence :: "stage_result \<Rightarrow> bool" where
  "has_evidence r \<longleftrightarrow> sg_completion r \<noteq> None \<or> sg_exit_code r \<noteq> None \<or> sg_stdout_truncated r \<noteq> None \<or>
     sg_stderr_truncated r \<noteq> None \<or> sg_duration_seconds r \<noteq> None"

definition complete_evidence :: "stage_result \<Rightarrow> bool" where
  "complete_evidence r \<longleftrightarrow> sg_completion r \<noteq> None \<and> sg_stdout_truncated r \<noteq> None \<and>
     sg_stderr_truncated r \<noteq> None \<and> sg_duration_seconds r \<noteq> None"

text \<open>\<open>VerificationStageResult.validate_status\<close>\<close>

definition stage_status_ok :: "stage_result \<Rightarrow> bool" where
  "stage_status_ok r \<longleftrightarrow>
     \<not> (has_evidence r \<and> \<not> complete_evidence r) \<and>
     \<not> (sg_completion r = Some NORMAL \<and> sg_exit_code r = None) \<and>
     \<not> (sg_completion r = Some TIMED_OUT \<and> sg_exit_code r \<noteq> None) \<and>
     (case sg_status r of
        STAGE_PASSED \<Rightarrow>
          sg_completion r = Some NORMAL \<and> sg_exit_code r = Some 0 \<and> sg_diagnostic r = None
      | STAGE_FAILED \<Rightarrow>
          sg_completion r = Some NORMAL \<and> sg_exit_code r \<noteq> None \<and> sg_exit_code r \<noteq> Some 0 \<and>
          sg_diagnostic r = None
      | STAGE_NOT_RUN \<Rightarrow>
          \<not> has_evidence r \<and> map_option vd_code (sg_diagnostic r) = Some VC_PREREQUISITE_FAILED
      | STAGE_INFRASTRUCTURE_ERROR \<Rightarrow>
          (case sg_diagnostic r of
             None \<Rightarrow> False
           | Some d \<Rightarrow>
               if vd_code d = VC_PREREQUISITE_FAILED then False
               else if vd_code d = VC_SANDBOX_TIMED_OUT
                 then \<not> (has_evidence r \<and> sg_completion r \<noteq> Some TIMED_OUT)
               else if vd_code d = VC_SANDBOX_MEMORY_LIMIT
                 then \<not> (has_evidence r \<and> sg_completion r \<noteq> Some MEMORY_LIMIT)
               else sg_completion r \<notin> {Some TIMED_OUT, Some MEMORY_LIMIT}))"

definition valid_stage_result :: "stage_result \<Rightarrow> bool" where
  [valid_defs]: "valid_stage_result r \<longleftrightarrow>
     exit_code_ok (sg_exit_code r) \<and> opt_valid (finite_at_least 0) (sg_duration_seconds r) \<and>
     opt_valid valid_verification_diagnostic (sg_diagnostic r) \<and> stage_status_ok r"

section \<open>Complete results\<close>

record verification_result =
  vr_stages :: "stage_result list"
  vr_outcome :: verification_outcome

definition indices :: "'a \<Rightarrow> 'a list \<Rightarrow> nat list" where
  "indices x xs = filter (\<lambda>i. xs ! i = x) [0..<length xs]"

text \<open>\<open>CandidateVerificationResult.validate_topology\<close>: the derived outcome, or \<open>None\<close> for the
  \<open>ValueError\<close>\<close>

definition derive_outcome :: "stage_result list \<Rightarrow> verification_outcome option" where
  "derive_outcome stages =
     (let statuses = map sg_status stages in
      if map sg_stage stages \<noteq> all_stages then None
      else if statuses = replicate 3 STAGE_PASSED then Some VERIFICATION_PASSED
      else
        (let infrastructure = indices STAGE_INFRASTRUCTURE_ERROR statuses;
             failures = indices STAGE_FAILED statuses;
             blocking = (if infrastructure \<noteq> [] then infrastructure else failures)
         in case blocking of
              [blocked] \<Rightarrow>
                if list_ex (\<lambda>s. s \<noteq> STAGE_PASSED) (take blocked statuses) \<or>
                   list_ex (\<lambda>s. s \<noteq> STAGE_NOT_RUN) (drop (blocked + 1) statuses)
                then None
                else Some (if infrastructure \<noteq> [] then VERIFICATION_INFRASTRUCTURE
                           else VERIFICATION_CANDIDATE_FAILED)
            | _ \<Rightarrow> None))"

definition valid_verification_result :: "verification_result \<Rightarrow> bool" where
  [valid_defs]: "valid_verification_result r \<longleftrightarrow>
     list_all valid_stage_result (vr_stages r) \<and> derive_outcome (vr_stages r) = Some (vr_outcome r)"

section \<open>Requests and inspections\<close>

record verification_request =
  vq_case_id :: string
  vq_static_result :: static_result
  vq_workspace_root :: string

text \<open>\<open>^[a-z0-9][a-z0-9_-]*$\<close>\<close>

definition case_id_ok :: "string \<Rightarrow> bool" where
  "case_id_ok s = (s \<noteq> [] \<and> is_lower_alnum (hd s) \<and>
     list_all (\<lambda>c. is_lower_alnum c \<or> c = CHR ''_'' \<or> c = CHR ''-'') (tl s))"

definition valid_verification_request :: "verification_request \<Rightarrow> bool" where
  [valid_defs]: "valid_verification_request q \<longleftrightarrow>
     case_id_ok (vq_case_id q) \<and> length (vq_case_id q) \<le> 128 \<and> valid_static_result (vq_static_result q)"

record inspection =
  in_repository :: string
  in_identity :: string

definition valid_inspection :: "inspection \<Rightarrow> bool" where
  [valid_defs]: "valid_inspection i \<longleftrightarrow> hex_string 64 (in_identity i) \<and> is_absolute (in_repository i)"

section \<open>The environment\<close>

datatype runner_code =
    RC_INVALID_INPUT | RC_DAEMON_SECURITY | RC_DOCKER_FAILED | RC_TIMED_OUT | RC_MEMORY_LIMIT
  | RC_MALFORMED_RESULT | RC_CLEANUP_FAILED

text \<open>\<open>VRunner\<close>: exactly \<open>VerificationRunnerError\<close>; \<open>VRunnerSubclass\<close>: another subclass of it;
  \<open>VValue\<close>: \<open>AttributeError\<close>, \<open>TypeError\<close>, \<open>ValueError\<close> and \<open>ValidationError\<close>.\<close>

datatype vraised =
    VRunner runner_code | VRunnerValidation | VRunnerSubclass | VBundleCleanup | VEvaluatorInput
  | VFilesystem | VValue | VOther | VInterrupt

record ('w, 'c) verify_env =
  vf_load :: "string \<Rightarrow> ('w, vraised, 'c) act"
  vf_case_valid :: "'c \<Rightarrow> bool"
  vf_case_id :: "'c \<Rightarrow> string"
  vf_visible_tests :: "'c \<Rightarrow> string list"
  vf_validate_workspace :: "string \<Rightarrow> string \<Rightarrow> 'c \<Rightarrow> ('w, vraised, string) act"
  vf_validate_visible :: "string \<Rightarrow> string list \<Rightarrow> ('w, vraised, string list) act"
  vf_inspect :: "string \<Rightarrow> ('w, vraised, inspection) act"
  vf_fingerprint :: "string \<Rightarrow> ('w, vraised, repository_fingerprint) act"
  vf_targeted :: "string \<Rightarrow> string list \<Rightarrow> ('w, vraised, sandbox_evidence) act"
  vf_visible :: "string \<Rightarrow> ('w, vraised, sandbox_evidence) act"
  vf_hidden :: "string \<Rightarrow> hidden_bundle \<Rightarrow> ('w, vraised, sandbox_evidence) act"
  vf_identifier :: "('w, vraised, string) act"
  vf_create_bundle :: "string \<Rightarrow> 'c \<Rightarrow> string \<Rightarrow> ('w, vraised, hidden_bundle) act"
  vf_remove_bundle :: "hidden_bundle \<Rightarrow> ('w, vraised, unit) act"

section \<open>Building results\<close>

definition verification_diagnostic_of :: "verification_code \<Rightarrow> verification_diagnostic" where
  "verification_diagnostic_of c = \<lparr>vd_code = c, vd_message = verification_message c\<rparr>"

definition stage_without_evidence ::
  "verification_stage \<Rightarrow> stage_status \<Rightarrow> verification_code \<Rightarrow> stage_result" where
  "stage_without_evidence g s c = \<lparr>sg_stage = g, sg_status = s, sg_completion = None,
     sg_exit_code = None, sg_stdout_truncated = None, sg_stderr_truncated = None,
     sg_duration_seconds = None, sg_diagnostic = Some (verification_diagnostic_of c)\<rparr>"

definition stage_not_run :: "verification_stage \<Rightarrow> stage_result" where
  "stage_not_run g = stage_without_evidence g STAGE_NOT_RUN VC_PREREQUISITE_FAILED"

definition blank_stages :: "stage_result list" where
  "blank_stages = map stage_not_run all_stages"

definition stage_with_evidence ::
  "verification_stage \<Rightarrow> stage_status \<Rightarrow> verification_code option \<Rightarrow> sandbox_evidence \<Rightarrow> stage_result" where
  "stage_with_evidence g s c e = \<lparr>sg_stage = g, sg_status = s, sg_completion = Some (ve_completion e),
     sg_exit_code = ve_exit_code e, sg_stdout_truncated = Some (ve_stdout_truncated e),
     sg_stderr_truncated = Some (ve_stderr_truncated e),
     sg_duration_seconds = Some (ve_duration_seconds e),
     sg_diagnostic = map_option verification_diagnostic_of c\<rparr>"

text \<open>Constructing a model instance raises \<open>ValidationError\<close> when it is invalid.\<close>

definition checked :: "('a \<Rightarrow> bool) \<Rightarrow> 'a \<Rightarrow> vraised + 'a" where
  "checked P x = (if P x then Inr x else Inl VValue)"

definition result_of_stages :: "stage_result list \<Rightarrow> vraised + verification_result" where
  "result_of_stages stages =
     (case derive_outcome stages of
        None \<Rightarrow> Inl VValue
      | Some out \<Rightarrow> checked valid_verification_result \<lparr>vr_stages = stages, vr_outcome = out\<rparr>)"

text \<open>\<open>_infrastructure_result\<close>\<close>

definition verification_infrastructure ::
  "stage_result list \<Rightarrow> nat \<Rightarrow> verification_code \<Rightarrow> sandbox_evidence option \<Rightarrow> vraised + verification_result" where
  "verification_infrastructure stages index vcode evidence =
     (let g = all_stages ! index in
      bindE (checked valid_stage_result
         (case evidence of
            None \<Rightarrow> stage_without_evidence g STAGE_INFRASTRUCTURE_ERROR vcode
          | Some e \<Rightarrow> stage_with_evidence g STAGE_INFRASTRUCTURE_ERROR (Some vcode) e)) (\<lambda>r.
      result_of_stages (take index stages @ [r] @ map stage_not_run (drop (index + 1) all_stages))))"

definition stage_from_evidence :: "verification_stage \<Rightarrow> sandbox_evidence \<Rightarrow> vraised + stage_result" where
  "stage_from_evidence g e = checked valid_stage_result
     (case ve_completion e of
        TIMED_OUT \<Rightarrow> stage_with_evidence g STAGE_INFRASTRUCTURE_ERROR (Some VC_SANDBOX_TIMED_OUT) e
      | MEMORY_LIMIT \<Rightarrow> stage_with_evidence g STAGE_INFRASTRUCTURE_ERROR (Some VC_SANDBOX_MEMORY_LIMIT) e
      | NORMAL \<Rightarrow>
          if ve_exit_code e = Some 0 then stage_with_evidence g STAGE_PASSED None e
          else stage_with_evidence g STAGE_FAILED None e)"

fun runner_diagnostic :: "runner_code \<Rightarrow> verification_code" where
  "runner_diagnostic RC_INVALID_INPUT = VC_SANDBOX_VALIDATION_FAILED"
| "runner_diagnostic RC_DAEMON_SECURITY = VC_SANDBOX_VALIDATION_FAILED"
| "runner_diagnostic RC_DOCKER_FAILED = VC_SANDBOX_EXECUTION_FAILED"
| "runner_diagnostic RC_TIMED_OUT = VC_SANDBOX_TIMED_OUT"
| "runner_diagnostic RC_MEMORY_LIMIT = VC_SANDBOX_MEMORY_LIMIT"
| "runner_diagnostic RC_MALFORMED_RESULT = VC_MALFORMED_SANDBOX_RESULT"
| "runner_diagnostic RC_CLEANUP_FAILED = VC_SANDBOX_CLEANUP_FAILED"

section \<open>Revalidation\<close>

datatype request_error = StaticPrerequisite | InvalidRequest

definition revalidate_verification_request :: "verification_request \<Rightarrow> request_error + verification_request" where
  "revalidate_verification_request q =
     (let static = vq_static_result q in
      if \<not> case_id_ok (vq_case_id q) then Inl InvalidRequest
      else if \<not> valid_static_result static then Inl StaticPrerequisite
      else if st_outcome static \<noteq> STATIC_PASSED \<or> st_candidate static = None \<or> st_diagnostic static \<noteq> None
           \<or> map cr_check (st_checks static) \<noteq> all_checks then Inl StaticPrerequisite
      else if \<not> valid_verification_request q then Inl InvalidRequest
      else Inr q)"

text \<open>\<open>except Exception\<close>: every exception but an interrupt is handled\<close>

definition catch_exception :: "('w, vraised, 'a) act \<Rightarrow> ('w, vraised, 'a) act \<Rightarrow> ('w, vraised, 'a) act" where
  "catch_exception m h = catch m (\<lambda>e. if e = VInterrupt then raise VInterrupt else h)"

definition ensure_valid :: "('a \<Rightarrow> bool) \<Rightarrow> ('w, vraised, 'a) act \<Rightarrow> ('w, vraised, 'a) act" where
  "ensure_valid P m = andthen m (\<lambda>x. if P x then ret x else raise VValue)"

definition candidate_state :: "('w, 'c) verify_env \<Rightarrow> validated_candidate \<Rightarrow> ('w, vraised, inspection) act" where
  "candidate_state env c =
     andthen (ensure_valid valid_inspection (vf_inspect env (vc_repository c))) (\<lambda>first.
     andthen (ensure_valid valid_fingerprint (vf_fingerprint env (vc_repository c))) (\<lambda>f.
     andthen (ensure_valid valid_inspection (vf_inspect env (vc_repository c))) (\<lambda>second.
       if first \<noteq> second \<or> in_repository first \<noteq> vc_repository c \<or> f \<noteq> vc_fingerprint c
       then raise VFilesystem else ret first)))"

definition integrity_matches ::
  "('w, 'c) verify_env \<Rightarrow> validated_candidate \<Rightarrow> inspection \<Rightarrow> ('w, vraised, bool) act" where
  "integrity_matches env c expected =
     catch_exception (andthen (candidate_state env c) (\<lambda>i. ret (i = expected))) (ret False)"

text \<open>\<open>_execute_stage\<close>\<close>

definition execute_stage ::
  "('w, vraised, sandbox_evidence) act \<Rightarrow>
   ('w, vraised, sandbox_evidence option \<times> verification_code option) act" where
  "execute_stage operation = catch
     (andthen (ensure_valid valid_evidence operation) (\<lambda>e. ret (Some e, None)))
     (\<lambda>e. case e of
        VInterrupt \<Rightarrow> raise VInterrupt
      | VRunnerValidation \<Rightarrow> ret (None, Some VC_SANDBOX_VALIDATION_FAILED)
      | VRunnerSubclass \<Rightarrow> ret (None, Some VC_SANDBOX_EXECUTION_FAILED)
      | VRunner c \<Rightarrow> ret (None, Some (runner_diagnostic c))
      | VValue \<Rightarrow> ret (None, Some VC_MALFORMED_SANDBOX_RESULT)
      | _ \<Rightarrow> ret (None, Some VC_SANDBOX_EXECUTION_FAILED))"

section \<open>The method verify\<close>

text \<open>A phase returns the result, or what the next phase needs.\<close>

type_synonym ('w, 'a) verify_phase = "('w, vraised, verification_result + 'a) act"

definition give :: "vraised + verification_result \<Rightarrow> ('w, 'a) verify_phase" where
  "give r = (case r of Inl e \<Rightarrow> raise e | Inr v \<Rightarrow> ret (Inl v))"

definition fail_at :: "stage_result list \<Rightarrow> nat \<Rightarrow> verification_code \<Rightarrow> sandbox_evidence option \<Rightarrow> ('w, 'a) verify_phase" where
  "fail_at stages index vcode evidence = give (verification_infrastructure stages index vcode evidence)"

definition attempt :: "('w, vraised, 'a) act \<Rightarrow> verification_code \<Rightarrow> ('w, 'a) verify_phase" where
  "attempt m vcode = catch_exception (andthen m (\<lambda>x. ret (Inr x))) (fail_at blank_stages 0 vcode None)"

definition prepare_verification ::
  "('w, 'c) verify_env \<Rightarrow> verification_request \<Rightarrow>
   ('w, validated_candidate \<times> 'c \<times> string \<times> string list \<times> inspection) verify_phase" where
  "prepare_verification env q =
     (case revalidate_verification_request q of
        Inl StaticPrerequisite \<Rightarrow> fail_at blank_stages 0 VC_STATIC_PREREQUISITE_FAILED None
      | Inl InvalidRequest \<Rightarrow> fail_at blank_stages 0 VC_INVALID_INPUT None
      | Inr v \<Rightarrow>
          (case st_candidate (vq_static_result v) of
             None \<Rightarrow> fail_at blank_stages 0 VC_STATIC_PREREQUISITE_FAILED None
           | Some c \<Rightarrow>
               phase (attempt (ensure_valid (vf_case_valid env) (vf_load env (vq_case_id v))) VC_CASE_LOAD_FAILED)
                 (\<lambda>case'.
               if vf_case_id env case' \<noteq> vq_case_id v then fail_at blank_stages 0 VC_CASE_MISMATCH None
               else phase (attempt (vf_validate_workspace env (vq_workspace_root v) (vc_repository c) case')
                     VC_WORKSPACE_INVALID) (\<lambda>workspace.
                 phase (attempt (vf_validate_visible env (vc_repository c) (vf_visible_tests env case'))
                     VC_VISIBLE_TEST_INVALID) (\<lambda>visible.
                 phase (attempt (candidate_state env c) VC_CANDIDATE_INVALID) (\<lambda>i.
                   ret (Inr (c, case', workspace, visible, i))))))))"

definition visible_decision ::
  "stage_result list \<Rightarrow> nat \<Rightarrow> sandbox_evidence option \<Rightarrow> verification_code option \<Rightarrow> bool \<Rightarrow>
   ('w, stage_result list) verify_phase" where
  "visible_decision stages index evidence error_code ok =
     (if \<not> ok then fail_at stages index VC_INTEGRITY_FAILED evidence
      else (case error_code of
          Some vcode \<Rightarrow> fail_at stages index vcode evidence
        | None \<Rightarrow>
            (case evidence of
               None \<Rightarrow> fail_at stages index VC_MALFORMED_SANDBOX_RESULT None
             | Some e \<Rightarrow>
                 (case stage_from_evidence (all_stages ! index) e of
                    Inl x \<Rightarrow> raise x
                  | Inr r \<Rightarrow>
                      if sg_status r \<in> {STAGE_INFRASTRUCTURE_ERROR, STAGE_FAILED}
                      then give (result_of_stages (stages[index := r]))
                      else ret (Inr (stages[index := r]))))))"

definition visible_stage ::
  "('w, 'c) verify_env \<Rightarrow> validated_candidate \<Rightarrow> inspection \<Rightarrow> stage_result list \<Rightarrow> nat \<Rightarrow>
   ('w, vraised, sandbox_evidence) act \<Rightarrow> ('w, stage_result list) verify_phase" where
  "visible_stage env c i stages index operation =
     andthen (execute_stage operation) (\<lambda>p.
     andthen (integrity_matches env c i) (\<lambda>ok. visible_decision stages index (fst p) (snd p) ok))"

definition create_bundle ::
  "('w, 'c) verify_env \<Rightarrow> validated_candidate \<Rightarrow> inspection \<Rightarrow> stage_result list \<Rightarrow> string \<Rightarrow> 'c \<Rightarrow>
   ('w, hidden_bundle) verify_phase" where
  "create_bundle env c i stages workspace case' = catch
     (andthen (vf_identifier env) (\<lambda>identifier.
      if \<not> hex_string 32 identifier then raise VFilesystem
      else andthen (ensure_valid valid_bundle (vf_create_bundle env workspace case' identifier)) (\<lambda>b. ret (Inr b))))
     (\<lambda>e. if e = VInterrupt then raise VInterrupt
          else andthen (integrity_matches env c i) (\<lambda>ok.
            fail_at stages 2
              (if e = VBundleCleanup then VC_CLEANUP_FAILED
               else if \<not> ok then VC_INTEGRITY_FAILED
               else if e = VEvaluatorInput then VC_EVALUATOR_INVALID else VC_BUNDLE_FAILED) None))"

text \<open>The \<open>try\<close>/\<open>finally\<close> around the hidden run: its evidence and error vcode, and whether the removal
  of the bundle failed.  An interrupt removes the bundle and propagates.\<close>

definition hidden_run ::
  "('w, 'c) verify_env \<Rightarrow> validated_candidate \<Rightarrow> inspection \<Rightarrow> hidden_bundle \<Rightarrow>
   ('w, vraised, (sandbox_evidence option \<times> verification_code option) \<times> bool) act" where
  "hidden_run env c i b = andthen
     (catch
       (andthen (integrity_matches env c i) (\<lambda>ok.
          if \<not> ok then ret (None, Some VC_INTEGRITY_FAILED)
          else execute_stage (vf_hidden env (vc_repository c) b)))
       (\<lambda>e. catch_exception (andthen (vf_remove_bundle env b) (\<lambda>_. raise e)) (raise e)))
     (\<lambda>r. andthen (catch_exception (andthen (vf_remove_bundle env b) (\<lambda>_. ret False)) (ret True))
       (\<lambda>cleanup_failed. ret (r, cleanup_failed)))"

definition hidden_decision ::
  "stage_result list \<Rightarrow> sandbox_evidence option \<Rightarrow> verification_code option \<Rightarrow> bool \<Rightarrow> bool \<Rightarrow>
   ('w, verification_result) verify_phase" where
  "hidden_decision stages evidence error_code cleanup_failed ok =
     (if cleanup_failed then fail_at stages 2 VC_CLEANUP_FAILED evidence
      else if \<not> ok then fail_at stages 2 VC_INTEGRITY_FAILED evidence
      else (case error_code of
          Some vcode \<Rightarrow> fail_at stages 2 vcode evidence
        | None \<Rightarrow>
            (case evidence of
               None \<Rightarrow> fail_at stages 2 VC_MALFORMED_SANDBOX_RESULT None
             | Some e \<Rightarrow>
                 (case stage_from_evidence HIDDEN_SUITE e of
                    Inl x \<Rightarrow> raise x
                  | Inr r \<Rightarrow> give (result_of_stages (stages[2 := r]))))))"

definition hidden_stage ::
  "('w, 'c) verify_env \<Rightarrow> validated_candidate \<Rightarrow> inspection \<Rightarrow> stage_result list \<Rightarrow> hidden_bundle \<Rightarrow>
   ('w, verification_result) verify_phase" where
  "hidden_stage env c i stages b =
     andthen (hidden_run env c i b) (\<lambda>r.
     andthen (integrity_matches env c i) (\<lambda>ok.
       hidden_decision stages (fst (fst r)) (snd (fst r)) (snd r) ok))"

definition verify_body ::
  "('w, 'c) verify_env \<Rightarrow> verification_request \<Rightarrow> ('w, verification_result) verify_phase" where
  "verify_body env q =
     phase (prepare_verification env q) (\<lambda>(c, case', workspace, visible, i).
     phase (visible_stage env c i blank_stages 0 (vf_targeted env (vc_repository c) visible)) (\<lambda>stages1.
     phase (visible_stage env c i stages1 1 (vf_visible env (vc_repository c))) (\<lambda>stages2.
     phase (create_bundle env c i stages2 workspace case') (\<lambda>b.
       hidden_stage env c i stages2 b))))"

definition verify :: "('w, 'c) verify_env \<Rightarrow> verification_request \<Rightarrow> ('w, vraised, verification_result) act" where
  "verify env q = andthen (verify_body env q) (\<lambda>r. case r of Inl v \<Rightarrow> ret v | Inr v \<Rightarrow> ret v)"

end
