(* ===== verification/Verification_Facts.thy ===== *)
theory Verification_Facts
  imports Verification
begin

text \<open>
  What \<open>verify\<close> guarantees: its results have the short-circuit topology, a pass needs the three
  stages, the hidden tests do not influence a run whose visible stages fail, and the one way in which
  it raises.
\<close>

section \<open>Stage results\<close>

lemma verification_diagnostic_valid [simp]: "valid_verification_diagnostic (verification_diagnostic_of c)"
  by (cases c) (simp_all add: valid_verification_diagnostic_def verification_diagnostic_of_def)

lemma verification_diagnostic_code [simp]: "vd_code (verification_diagnostic_of c) = c"
  by (simp add: verification_diagnostic_of_def)

lemma stage_fields [simp]:
  "sg_stage (stage_without_evidence g s c) = g" "sg_status (stage_without_evidence g s c) = s"
  "sg_stage (stage_with_evidence g s d e) = g" "sg_status (stage_with_evidence g s d e) = s"
  "sg_stage (stage_not_run g) = g" "sg_status (stage_not_run g) = STAGE_NOT_RUN"
  by (simp_all add: stage_without_evidence_def stage_with_evidence_def stage_not_run_def)

lemma stage_not_run_valid [simp]: "valid_stage_result (stage_not_run g)"
  by (simp add: valid_stage_result_def stage_not_run_def stage_without_evidence_def exit_code_ok_def
      stage_status_ok_def has_evidence_def)

lemma infrastructure_stage_valid:
  "c \<noteq> VC_PREREQUISITE_FAILED \<Longrightarrow> valid_stage_result (stage_without_evidence g STAGE_INFRASTRUCTURE_ERROR c)"
  by (simp add: valid_stage_result_def stage_without_evidence_def exit_code_ok_def
      stage_status_ok_def has_evidence_def)

definition code_fits :: "verification_code \<Rightarrow> sandbox_completion \<Rightarrow> bool" where
  "code_fits c k \<longleftrightarrow> c \<noteq> VC_PREREQUISITE_FAILED \<and>
     k = (if c = VC_SANDBOX_TIMED_OUT then TIMED_OUT
          else if c = VC_SANDBOX_MEMORY_LIMIT then MEMORY_LIMIT else NORMAL)"

lemma evidence_stage_valid:
  assumes "valid_evidence e"
  shows "valid_stage_result (stage_with_evidence g STAGE_INFRASTRUCTURE_ERROR (Some c) e) \<longleftrightarrow>
    code_fits c (ve_completion e)"
  using assms
  by (cases "ve_completion e")
     (auto simp: valid_stage_result_def stage_with_evidence_def stage_status_ok_def has_evidence_def
        complete_evidence_def code_fits_def valid_evidence_def)

lemma stage_from_evidence_cases:
  assumes "valid_evidence e"
  obtains r where "stage_from_evidence g e = Inr r" "valid_stage_result r" "sg_stage r = g"
    "sg_status r \<in> {STAGE_PASSED, STAGE_FAILED, STAGE_INFRASTRUCTURE_ERROR}"
    "sg_status r = STAGE_PASSED \<longleftrightarrow> ve_completion e = NORMAL \<and> ve_exit_code e = Some 0"
proof -
  let ?r = "case ve_completion e of
        TIMED_OUT \<Rightarrow> stage_with_evidence g STAGE_INFRASTRUCTURE_ERROR (Some VC_SANDBOX_TIMED_OUT) e
      | MEMORY_LIMIT \<Rightarrow> stage_with_evidence g STAGE_INFRASTRUCTURE_ERROR (Some VC_SANDBOX_MEMORY_LIMIT) e
      | NORMAL \<Rightarrow>
          if ve_exit_code e = Some 0 then stage_with_evidence g STAGE_PASSED None e
          else stage_with_evidence g STAGE_FAILED None e"
  have v: "valid_stage_result ?r"
    using assms evidence_stage_valid [OF assms]
    by (cases "ve_completion e")
       (auto simp: code_fits_def valid_stage_result_def stage_with_evidence_def stage_status_ok_def
          has_evidence_def complete_evidence_def valid_evidence_def)
  show ?thesis
    by (rule that [of ?r]) (use v in \<open>auto simp: stage_from_evidence_def checked_def split: sandbox_completion.splits\<close>)
qed

section \<open>Topology\<close>

text \<open>The first stages passed, the others are not run.\<close>

definition passed_prefix :: "nat \<Rightarrow> stage_result list \<Rightarrow> bool" where
  "passed_prefix n stages \<longleftrightarrow> n \<le> 3 \<and> map sg_stage stages = all_stages \<and>
     list_all valid_stage_result stages \<and>
     map sg_status stages = replicate n STAGE_PASSED @ replicate (3 - n) STAGE_NOT_RUN"

lemma passed_prefix_blank: "passed_prefix 0 blank_stages"
  by (simp add: passed_prefix_def blank_stages_def all_stages_def numeral_3_eq_3)

lemma passed_prefix_length: "passed_prefix n stages \<Longrightarrow> length stages = 3"
  by (auto simp: passed_prefix_def all_stages_def dest: arg_cong [where f = length])

lemma three_stages:
  "length stages = 3 \<Longrightarrow> \<exists>a b c. stages = [a, b, c]"
  by (auto simp: numeral_3_eq_3 length_Suc_conv)

lemma below_three: "(n::nat) < 3 \<Longrightarrow> (n = 0 \<Longrightarrow> P) \<Longrightarrow> (n = 1 \<Longrightarrow> P) \<Longrightarrow> (n = 2 \<Longrightarrow> P) \<Longrightarrow> P"
  by linarith

lemma passed_prefix_step:
  assumes "passed_prefix n stages" "n < 3" "valid_stage_result r" "sg_stage r = all_stages ! n"
    "sg_status r = STAGE_PASSED"
  shows "passed_prefix (Suc n) (stages[n := r])"
proof -
  from three_stages [OF passed_prefix_length [OF assms(1)]] obtain a b c where "stages = [a, b, c]" by blast
  with assms show ?thesis
    by (elim below_three [of n]) (auto simp: passed_prefix_def all_stages_def numeral_3_eq_3 numeral_2_eq_2)
qed

definition blocked_outcome :: "stage_status \<Rightarrow> verification_outcome" where
  "blocked_outcome s = (if s = STAGE_INFRASTRUCTURE_ERROR then VERIFICATION_INFRASTRUCTURE
     else VERIFICATION_CANDIDATE_FAILED)"

lemma blocked_result:
  assumes "passed_prefix n stages" "n < 3" "valid_stage_result r" "sg_stage r = all_stages ! n"
    "sg_status r \<in> {STAGE_INFRASTRUCTURE_ERROR, STAGE_FAILED}"
  shows "stages[n := r] = take n stages @ [r] @ drop (n + 1) stages"
    and "result_of_stages (stages[n := r]) =
      Inr \<lparr>vr_stages = stages[n := r], vr_outcome = blocked_outcome (sg_status r)\<rparr>"
    and "valid_verification_result \<lparr>vr_stages = stages[n := r], vr_outcome = blocked_outcome (sg_status r)\<rparr>"
proof -
  note len = passed_prefix_length [OF assms(1)]
  from three_stages [OF len] obtain a b c where abc: "stages = [a, b, c]" by blast
  show "stages[n := r] = take n stages @ [r] @ drop (n + 1) stages"
    using assms(2) len by (simp add: upd_conv_take_nth_drop)
  have "derive_outcome (stages[n := r]) = Some (blocked_outcome (sg_status r))"
    using assms abc
    by (elim below_three [of n])
       (auto simp: passed_prefix_def all_stages_def numeral_3_eq_3 numeral_2_eq_2
          derive_outcome_def Let_def indices_def blocked_outcome_def)
  moreover have "list_all valid_stage_result (stages[n := r])"
    using assms abc by (elim below_three [of n]) (auto simp: passed_prefix_def numeral_2_eq_2)
  ultimately show "result_of_stages (stages[n := r]) =
      Inr \<lparr>vr_stages = stages[n := r], vr_outcome = blocked_outcome (sg_status r)\<rparr>"
    "valid_verification_result \<lparr>vr_stages = stages[n := r], vr_outcome = blocked_outcome (sg_status r)\<rparr>"
    by (simp_all add: result_of_stages_def checked_def valid_verification_result_def)
qed

lemma passed_all_result:
  assumes "passed_prefix 3 stages"
  shows "result_of_stages stages = Inr \<lparr>vr_stages = stages, vr_outcome = VERIFICATION_PASSED\<rparr>"
    "valid_verification_result \<lparr>vr_stages = stages, vr_outcome = VERIFICATION_PASSED\<rparr>"
  using assms
  by (simp_all add: passed_prefix_def result_of_stages_def derive_outcome_def checked_def
      valid_verification_result_def numeral_3_eq_3)

text \<open>The stages after the failing one are set to not-run, which they are already.\<close>

lemma not_run_unique:
  assumes "valid_stage_result r" "sg_status r = STAGE_NOT_RUN"
  shows "r = stage_not_run (sg_stage r)"
proof -
  have "verification_diagnostic_of c = d" if "valid_verification_diagnostic d" "vd_code d = c" for c d
    using that by (simp add: valid_verification_diagnostic_def verification_diagnostic_of_def)
  with assms show ?thesis
    by (cases r) (auto simp: valid_stage_result_def stage_status_ok_def has_evidence_def stage_not_run_def
        stage_without_evidence_def)
qed

lemma not_run_tail:
  assumes "passed_prefix n stages" "n < 3"
  shows "map stage_not_run (drop (n + 1) all_stages) = drop (n + 1) stages"
proof -
  from three_stages [OF passed_prefix_length [OF assms(1)]] obtain a b c where abc: "stages = [a, b, c]" by blast
  with assms not_run_unique [of b] not_run_unique [of c] show ?thesis
    by (elim below_three [of n]) (auto simp: passed_prefix_def all_stages_def numeral_3_eq_3 numeral_2_eq_2)
qed

lemma verification_infrastructure_without:
  assumes "passed_prefix n stages" "n < 3" "c \<noteq> VC_PREREQUISITE_FAILED"
  obtains v where "verification_infrastructure stages n c None = Inr v" "valid_verification_result v"
    "vr_outcome v = VERIFICATION_INFRASTRUCTURE"
proof -
  let ?r = "stage_without_evidence (all_stages ! n) STAGE_INFRASTRUCTURE_ERROR c"
  have r: "valid_stage_result ?r" using infrastructure_stage_valid [OF assms(3)] .
  note b = blocked_result [OF assms(1,2) r]
  show ?thesis
    by (rule that [of "\<lparr>vr_stages = stages[n := ?r], vr_outcome = blocked_outcome (sg_status ?r)\<rparr>"])
       (use b r not_run_tail [OF assms(1,2)] in
         \<open>simp_all add: verification_infrastructure_def checked_def Let_def blocked_outcome_def\<close>)
qed

lemma verification_infrastructure_with:
  assumes "passed_prefix n stages" "n < 3" "valid_evidence e"
  shows "if code_fits c (ve_completion e)
    then \<exists>v. verification_infrastructure stages n c (Some e) = Inr v \<and> valid_verification_result v \<and>
      vr_outcome v = VERIFICATION_INFRASTRUCTURE
    else verification_infrastructure stages n c (Some e) = Inl VValue"
proof -
  let ?r = "stage_with_evidence (all_stages ! n) STAGE_INFRASTRUCTURE_ERROR (Some c) e"
  have r: "valid_stage_result ?r \<longleftrightarrow> code_fits c (ve_completion e)"
    using evidence_stage_valid [OF assms(3)] .
  show ?thesis
  proof (cases "code_fits c (ve_completion e)")
    case True
    with r have v: "valid_stage_result ?r" by simp
    note b = blocked_result [OF assms(1,2) v]
    from True b v not_run_tail [OF assms(1,2)] show ?thesis
      by (simp add: verification_infrastructure_def checked_def Let_def blocked_outcome_def)
  next
    case False
    with r show ?thesis by (simp add: verification_infrastructure_def checked_def Let_def)
  qed
qed

section \<open>Every result is valid\<close>

text \<open>A sandbox that never returns the evidence of a timeout or of an exhausted memory limit.\<close>

definition normal_evidence :: "('w, vraised, sandbox_evidence) act \<Rightarrow> bool" where
  "normal_evidence m \<longleftrightarrow> (\<forall>w e w'. m w = (Inr e, w') \<longrightarrow> ve_completion e = NORMAL)"

definition normal_sandbox :: "('w, 'c) verify_env \<Rightarrow> bool" where
  "normal_sandbox env \<longleftrightarrow> (\<forall>p ps. normal_evidence (vf_targeted env p ps)) \<and>
     (\<forall>p. normal_evidence (vf_visible env p)) \<and> (\<forall>p b. normal_evidence (vf_hidden env p b))"

abbreviation (input) any_world :: "'w \<Rightarrow> bool" where
  "any_world \<equiv> \<lambda>_. True"

definition only_interrupt :: "vraised \<Rightarrow> 'w \<Rightarrow> bool" where
  "only_interrupt e w \<longleftrightarrow> e = VInterrupt"

text \<open>The errors a run may raise when \<open>normal\<close> says whether the sandbox is normal.\<close>

definition escapes :: "bool \<Rightarrow> vraised \<Rightarrow> 'w \<Rightarrow> bool" where
  "escapes normal e w \<longleftrightarrow> e = VInterrupt \<or> (e = VValue \<and> \<not> normal)"

definition verify_post :: "('a \<Rightarrow> bool) \<Rightarrow> verification_result + 'a \<Rightarrow> 'w \<Rightarrow> bool" where
  "verify_post P r w \<longleftrightarrow> (case r of
     Inl v \<Rightarrow> valid_verification_result v \<and> vr_outcome v \<noteq> VERIFICATION_PASSED | Inr x \<Rightarrow> P x)"

definition stage_evidence :: "bool \<Rightarrow> sandbox_evidence option \<times> verification_code option \<Rightarrow> bool" where
  "stage_evidence normal p \<longleftrightarrow>
     (\<exists>e. p = (Some e, None) \<and> valid_evidence e \<and> (normal \<longrightarrow> ve_completion e = NORMAL)) \<or>
     (\<exists>c. p = (None, Some c) \<and> c \<noteq> VC_PREREQUISITE_FAILED)"

lemma interrupt_escapes: "triple P m Q only_interrupt \<Longrightarrow> triple P m Q (escapes n)"
  by (erule triple_weaken) (auto simp: only_interrupt_def escapes_def)

lemma catch_exception_triple:
  "triple P m Q (\<lambda>_ _. True) \<Longrightarrow> triple any_world h Q E \<Longrightarrow> (\<And>w. E VInterrupt w) \<Longrightarrow>
   triple P (catch_exception m h) Q E"
  unfolding catch_exception_def
  by (rule triple_catch [where R = "\<lambda>_ _. True"]) (auto intro!: triple_if triple_raise)

lemma runner_diagnostic_neq [simp]: "runner_diagnostic c \<noteq> VC_PREREQUISITE_FAILED"
  by (cases c) simp_all

lemma ensure_valid_triple:
  "triple any_world (ensure_valid P m) (\<lambda>x w. P x \<and> (\<exists>w0. m w0 = (Inr x, w))) (\<lambda>_ _. True)"
  by (auto simp: triple_def ensure_valid_def andthen_def ret_def raise_def split: prod.splits sum.splits)

lemma execute_stage_triple:
  assumes "n \<longrightarrow> normal_evidence op"
  shows "triple any_world (execute_stage op) (\<lambda>p w. stage_evidence n p) only_interrupt"
proof -
  have a: "triple any_world (andthen (ensure_valid valid_evidence op) (\<lambda>e. ret (Some e, None)))
      (\<lambda>p w. stage_evidence n p) (\<lambda>_ _. True)"
    by (rule triple_andthen [OF ensure_valid_triple])
       (use assms in \<open>auto simp: triple_def ret_def stage_evidence_def normal_evidence_def\<close>)
  show ?thesis
    unfolding execute_stage_def
    by (rule triple_catch [OF a])
       (auto simp: triple_def ret_def raise_def only_interrupt_def stage_evidence_def split: vraised.splits)
qed

lemma candidate_integrity_triple: "triple any_world (integrity_matches env c i) (\<lambda>_ _. True) only_interrupt"
  unfolding integrity_matches_def
  by (rule catch_exception_triple)
     (auto simp: triple_def ret_def only_interrupt_def split: prod.splits sum.splits)

lemma fail_at_triple:
  assumes "passed_prefix k stages" "k < 3" "c \<noteq> VC_PREREQUISITE_FAILED"
    and "ev = None \<or> (\<exists>e. ev = Some e \<and> valid_evidence e \<and> (n \<longrightarrow> code_fits c (ve_completion e)))"
  shows "triple P (fail_at stages k c ev) (verify_post Q) (escapes n)"
proof (cases ev)
  case None
  from verification_infrastructure_without [OF assms(1-3)] obtain v where
      "verification_infrastructure stages k c None = Inr v" "valid_verification_result v"
      "vr_outcome v = VERIFICATION_INFRASTRUCTURE" .
  with None show ?thesis
    by (simp add: fail_at_def give_def triple_def ret_def verify_post_def)
next
  case (Some e)
  with assms(4) have e: "valid_evidence e" "n \<longrightarrow> code_fits c (ve_completion e)" by auto
  from verification_infrastructure_with [OF assms(1,2) e(1), of c] e(2) Some show ?thesis
    by (cases "code_fits c (ve_completion e)")
       (auto simp: fail_at_def give_def triple_def ret_def raise_def verify_post_def escapes_def)
qed

lemma normal_code_fits:
  "stage_evidence n (Some e, None) \<Longrightarrow> c \<notin> {VC_PREREQUISITE_FAILED, VC_SANDBOX_TIMED_OUT, VC_SANDBOX_MEMORY_LIMIT} \<Longrightarrow>
   valid_evidence e \<and> (n \<longrightarrow> code_fits c (ve_completion e))"
  by (auto simp: stage_evidence_def code_fits_def)

lemma visible_decision_triple:
  assumes pre: "passed_prefix k stages" "k < 3" and ev: "stage_evidence n (evidence, error_code)"
  shows "triple P (visible_decision stages k evidence error_code ok)
    (verify_post (passed_prefix (Suc k))) (escapes n)"
proof (cases "ok \<and> evidence \<noteq> None")
  case True
  with ev obtain e where e: "evidence = Some e" "error_code = None" "valid_evidence e"
    by (auto simp: stage_evidence_def)
  obtain r where r: "stage_from_evidence (all_stages ! k) e = Inr r" "valid_stage_result r"
      "sg_stage r = all_stages ! k"
      "sg_status r \<in> {STAGE_PASSED, STAGE_FAILED, STAGE_INFRASTRUCTURE_ERROR}"
    using stage_from_evidence_cases [OF e(3)] by metis
  show ?thesis
  proof (cases "sg_status r = STAGE_PASSED")
    case passed: True
    from passed_prefix_step [OF pre r(2,3) passed] True e r passed show ?thesis
      by (simp add: visible_decision_def triple_def ret_def verify_post_def)
  next
    case False
    with r(4) have st: "sg_status r \<in> {STAGE_INFRASTRUCTURE_ERROR, STAGE_FAILED}" by auto
    from blocked_result(2,3) [OF pre r(2,3) st] True e r st show ?thesis
      by (auto simp: visible_decision_def triple_def ret_def verify_post_def give_def blocked_outcome_def)
  qed
next
  case False
  with ev pre show ?thesis
    by (auto simp: visible_decision_def stage_evidence_def code_fits_def split: option.splits
        intro!: fail_at_triple)
qed

lemma triple_fact: "(b \<Longrightarrow> triple any_world m Q E) \<Longrightarrow> triple (\<lambda>w. b) m Q E"
  by (auto simp: triple_def)

lemma visible_stage_triple:
  assumes pre: "passed_prefix k stages" "k < 3" and op: "n \<longrightarrow> normal_evidence op"
  shows "triple any_world (visible_stage env c i stages k op) (verify_post (passed_prefix (Suc k))) (escapes n)"
  unfolding visible_stage_def
proof (rule triple_andthen [OF interrupt_escapes [OF execute_stage_triple [OF op]]], rule triple_fact)
  fix p
  assume "stage_evidence n p"
  then have ev: "stage_evidence n (fst p, snd p)" by simp
  show "triple any_world (andthen (integrity_matches env c i)
      (\<lambda>ok. visible_decision stages k (fst p) (snd p) ok)) (verify_post (passed_prefix (Suc k))) (escapes n)"
    by (rule triple_andthen [OF interrupt_escapes [OF candidate_integrity_triple]])
       (rule visible_decision_triple [OF pre ev])
qed

text \<open>The hidden stage.\<close>

definition hidden_post :: "verification_result + verification_result \<Rightarrow> 'w \<Rightarrow> bool" where
  "hidden_post r w \<longleftrightarrow> (case r of Inl v \<Rightarrow> valid_verification_result v | Inr _ \<Rightarrow> False)"

lemma verify_post_hidden: "triple P m (verify_post (\<lambda>_. False)) E \<Longrightarrow> triple P m hidden_post E"
  by (erule triple_weaken) (auto simp: verify_post_def hidden_post_def split: sum.splits)

lemma hidden_run_triple:
  assumes "n \<longrightarrow> normal_evidence (vf_hidden env (vc_repository c) b)"
  shows "triple any_world (hidden_run env c i b) (\<lambda>r w. stage_evidence n (fst r)) only_interrupt"
proof -
  have run: "triple any_world (andthen (integrity_matches env c i) (\<lambda>ok.
          if \<not> ok then ret (None, Some VC_INTEGRITY_FAILED)
          else execute_stage (vf_hidden env (vc_repository c) b))) (\<lambda>r w. stage_evidence n r) only_interrupt"
    by (rule triple_andthen [OF candidate_integrity_triple])
       (intro triple_if execute_stage_triple assms triple_ret, simp add: stage_evidence_def)
  have guard: "triple any_world (catch
       (andthen (integrity_matches env c i) (\<lambda>ok.
          if \<not> ok then ret (None, Some VC_INTEGRITY_FAILED)
          else execute_stage (vf_hidden env (vc_repository c) b)))
       (\<lambda>e. catch_exception (andthen (vf_remove_bundle env b) (\<lambda>_. raise e)) (raise e)))
       (\<lambda>r w. stage_evidence n r) only_interrupt"
  proof (rule triple_catch [OF run])
    fix e
    show "triple (only_interrupt e) (catch_exception (andthen (vf_remove_bundle env b) (\<lambda>_. raise e)) (raise e))
        (\<lambda>r w. stage_evidence n r) only_interrupt"
      by (auto simp: triple_def catch_exception_def catch_def andthen_def raise_def only_interrupt_def
          split: prod.splits sum.splits)
  qed
  show ?thesis
    unfolding hidden_run_def
  proof (rule triple_andthen [OF guard], rule triple_fact)
    fix r
    assume r: "stage_evidence n r"
    have rm: "triple any_world (catch_exception (andthen (vf_remove_bundle env b) (\<lambda>_. ret False)) (ret True))
        (\<lambda>_ _. True) only_interrupt"
      by (rule catch_exception_triple)
         (auto simp: triple_def ret_def only_interrupt_def split: prod.splits sum.splits)
    show "triple any_world (andthen (catch_exception (andthen (vf_remove_bundle env b) (\<lambda>_. ret False)) (ret True))
       (\<lambda>cleanup_failed. ret (r, cleanup_failed))) (\<lambda>r w. stage_evidence n (fst r)) only_interrupt"
      by (rule triple_andthen [OF rm], rule triple_ret) (simp add: r)
  qed
qed

lemma hidden_decision_triple:
  assumes pre: "passed_prefix 2 stages" and ev: "stage_evidence n (evidence, error_code)"
  shows "triple P (hidden_decision stages evidence error_code cleanup_failed ok) hidden_post (escapes n)"
proof (cases "\<not> cleanup_failed \<and> ok \<and> evidence \<noteq> None")
  case True
  with ev obtain e where e: "evidence = Some e" "error_code = None" "valid_evidence e"
    by (auto simp: stage_evidence_def)
  obtain r where r: "stage_from_evidence HIDDEN_SUITE e = Inr r" "valid_stage_result r"
      "sg_stage r = HIDDEN_SUITE"
      "sg_status r \<in> {STAGE_PASSED, STAGE_FAILED, STAGE_INFRASTRUCTURE_ERROR}"
    using stage_from_evidence_cases [OF e(3)] by metis
  have h: "sg_stage r = all_stages ! 2" using r(3) by (simp add: all_stages_def)
  have two: "2 < (3::nat)" by simp
  show ?thesis
  proof (cases "sg_status r = STAGE_PASSED")
    case passed: True
    have "passed_prefix 3 (stages[2 := r])"
      using passed_prefix_step [OF pre two r(2) h passed] by (simp add: eval_nat_numeral)
    from passed_all_result [OF this] True e r show ?thesis
      by (simp add: hidden_decision_def triple_def ret_def hidden_post_def give_def)
  next
    case False
    with r(4) have st: "sg_status r \<in> {STAGE_INFRASTRUCTURE_ERROR, STAGE_FAILED}" by auto
    from blocked_result(2,3) [OF pre two r(2) h st] True e r show ?thesis
      by (simp add: hidden_decision_def triple_def ret_def hidden_post_def give_def)
  qed
next
  case False
  with ev pre show ?thesis
    by (auto simp: hidden_decision_def stage_evidence_def code_fits_def split: option.splits
        intro!: verify_post_hidden [OF fail_at_triple])
qed

lemma hidden_stage_triple:
  assumes "passed_prefix 2 stages" "n \<longrightarrow> normal_evidence (vf_hidden env (vc_repository c) b)"
  shows "triple any_world (hidden_stage env c i stages b) hidden_post (escapes n)"
  unfolding hidden_stage_def
proof (rule triple_andthen [OF interrupt_escapes [OF hidden_run_triple [OF assms(2)]]], rule triple_fact)
  fix r :: "(sandbox_evidence option \<times> verification_code option) \<times> bool"
  assume "stage_evidence n (fst r)"
  then have ev: "stage_evidence n (fst (fst r), snd (fst r))" by simp
  show "triple any_world (andthen (integrity_matches env c i)
      (\<lambda>ok. hidden_decision stages (fst (fst r)) (snd (fst r)) (snd r) ok)) hidden_post (escapes n)"
    by (rule triple_andthen [OF interrupt_escapes [OF candidate_integrity_triple]])
       (rule hidden_decision_triple [OF assms(1) ev])
qed

section \<open>The whole method\<close>

lemma blank_fails:
  "c \<noteq> VC_PREREQUISITE_FAILED \<Longrightarrow> triple P (fail_at blank_stages 0 c None) (verify_post Q) (escapes n)"
  by (rule fail_at_triple [OF passed_prefix_blank]) simp_all

lemma attempt_triple:
  assumes "c \<noteq> VC_PREREQUISITE_FAILED"
  shows "triple any_world (attempt m c) (verify_post (\<lambda>_. True)) (escapes n)"
  unfolding attempt_def
proof (rule catch_exception_triple [OF _ blank_fails [OF assms]])
  show "triple any_world (andthen m (\<lambda>x. ret (Inr x))) (verify_post (\<lambda>_. True)) (\<lambda>_ _. True)"
    by (auto simp: triple_def andthen_def ret_def verify_post_def split: prod.splits sum.splits)
qed (simp add: escapes_def)

lemma verify_phase_seq:
  assumes "triple any_world m (verify_post G) E" "\<And>x. G x \<Longrightarrow> triple any_world (f x) (verify_post H) E"
  shows "triple any_world (phase m f) (verify_post H) E"
  by (rule triple_phase [where R = "\<lambda>x _. G x", OF triple_weaken [OF assms(1)]])
     (auto simp: verify_post_def split: sum.splits intro!: triple_fact assms(2))

lemma prepare_triple: "triple any_world (prepare_verification env q) (verify_post (\<lambda>_. True)) (escapes n)"
  unfolding prepare_verification_def
  by (auto intro!: blank_fails verify_phase_seq [OF attempt_triple] triple_ret
      simp: verify_post_def split: sum.splits request_error.splits option.splits if_splits)

lemma verify_body_triple:
  assumes n: "n \<longrightarrow> normal_sandbox env"
  shows "triple any_world (verify_body env q) hidden_post (escapes n)"
proof -
  have seq: "triple any_world (phase m f) hidden_post (escapes n)"
    if "triple any_world m (verify_post G) (escapes n)" "\<And>x. G x \<Longrightarrow> triple any_world (f x) hidden_post (escapes n)"
    for m G f
    by (rule triple_phase [where R = "\<lambda>x _. G x", OF triple_weaken [OF that(1)]])
       (auto simp: verify_post_def hidden_post_def split: sum.splits intro!: triple_fact that(2))
  have made: "triple any_world (create_bundle env c i stages ws cs) (verify_post (\<lambda>_. True)) (escapes n)"
    if "passed_prefix 2 stages" for c i stages ws cs
  proof -
    have body: "triple any_world (andthen (vf_identifier env) (\<lambda>identifier.
        if \<not> hex_string 32 identifier then raise VFilesystem
        else andthen (ensure_valid valid_bundle (vf_create_bundle env ws cs identifier)) (\<lambda>b. ret (Inr b))))
        (verify_post (\<lambda>_. True)) (\<lambda>_ _. True)"
      by (auto simp: triple_def andthen_def ret_def raise_def verify_post_def split: prod.splits sum.splits)
    show ?thesis
      unfolding create_bundle_def
      by (rule triple_catch [OF body], rule triple_if)
         (auto simp: escapes_def intro!: triple_raise fail_at_triple that split: if_splits intro!:
            triple_andthen [OF interrupt_escapes [OF candidate_integrity_triple]])
  qed
  have v: "n \<longrightarrow> normal_evidence (vf_targeted env p ps)" "n \<longrightarrow> normal_evidence (vf_visible env p)"
      "n \<longrightarrow> normal_evidence (vf_hidden env p b)" for p ps b
    using n by (auto simp: normal_sandbox_def)
  show ?thesis
    unfolding verify_body_def
    by (rule seq [OF prepare_triple], rule triple_prod, rule triple_prod, rule triple_prod, rule triple_prod,
        rule seq [OF visible_stage_triple [OF passed_prefix_blank _ v(1)]], simp,
        rule seq [OF visible_stage_triple [OF _ _ v(2)]], simp, simp,
        rule seq [OF made], simp add: numeral_2_eq_2,
        rule hidden_stage_triple [OF _ v(3)], simp add: numeral_2_eq_2)
qed

lemma verify_triple:
  assumes "n \<longrightarrow> normal_sandbox env"
  shows "triple any_world (verify env q) (\<lambda>v w. valid_verification_result v) (escapes n)"
  unfolding verify_def
  by (rule triple_andthen [OF verify_body_triple [OF assms]])
     (auto simp: hidden_post_def triple_def ret_def split: sum.splits)

end
