(* ===== verification/Verification_Claims.thy ===== *)
theory Verification_Claims
  imports Verification_Facts Static_Service_Facts
begin

text \<open>
  The properties of \<open>verify\<close>: totality, the raise on timed-out evidence, isolation of the hidden
  tests, what a pass certifies, and the short circuit of the three stages.
\<close>

section \<open>What a hidden-stage result looks like\<close>

text \<open>A result whose hidden stage ran (or could not run): its third stage is not marked as not run.\<close>

definition hidden_reached :: "verification_result + 'a \<Rightarrow> 'w \<Rightarrow> bool" where
  "hidden_reached r w \<longleftrightarrow> (case r of
     Inl v \<Rightarrow> sg_status (vr_stages v ! 2) \<noteq> STAGE_NOT_RUN | Inr _ \<Rightarrow> True)"

definition hidden_done :: "verification_result + 'a \<Rightarrow> 'w \<Rightarrow> bool" where
  "hidden_done r w \<longleftrightarrow> (case r of
     Inl v \<Rightarrow> sg_status (vr_stages v ! 2) \<noteq> STAGE_NOT_RUN | Inr _ \<Rightarrow> False)"

definition unconstrained :: "vraised \<Rightarrow> 'w \<Rightarrow> bool" where
  "unconstrained e w \<longleftrightarrow> True"

lemma infrastructure_reached:
  assumes "length stages = 3" "verification_infrastructure stages 2 c e = Inr v"
  shows "sg_status (vr_stages v ! 2) = STAGE_INFRASTRUCTURE_ERROR"
  using assms
  by (auto simp: verification_infrastructure_def checked_def result_of_stages_def Let_def nth_append
      split: if_splits option.splits)

lemma stage_from_evidence_ran: "stage_from_evidence g e = Inr r \<Longrightarrow> sg_status r \<noteq> STAGE_NOT_RUN"
  by (auto simp: stage_from_evidence_def checked_def split: if_splits sandbox_completion.splits)

lemma result_of_stages_fields: "result_of_stages s = Inr v \<Longrightarrow> vr_stages v = s"
  by (auto simp: result_of_stages_def checked_def split: option.splits if_splits)

lemma fail_at_reached:
  "length stages = 3 \<Longrightarrow> triple any_world (fail_at stages 2 c e) hidden_done unconstrained"
  using infrastructure_reached [of stages c e]
  by (auto simp: triple_def fail_at_def give_def ret_def raise_def hidden_done_def unconstrained_def
      split: sum.splits)

lemma any_triple: "triple P m (\<lambda>_ _. True) unconstrained"
  by (auto simp: triple_def unconstrained_def split: prod.splits sum.splits)

lemma hidden_decision_reached:
  assumes "length stages = 3"
  shows "triple any_world (hidden_decision stages evidence error_code cleanup_failed ok) hidden_done unconstrained"
  unfolding hidden_decision_def
  by (intro triple_if triple_option triple_sum triple_raise fail_at_reached assms)
     (use assms in \<open>auto simp: triple_def give_def ret_def raise_def unconstrained_def hidden_done_def
        dest!: result_of_stages_fields stage_from_evidence_ran split: sum.splits\<close>)

lemma hidden_stage_reached:
  assumes "length stages = 3"
  shows "triple any_world (hidden_stage env c i stages b) hidden_done unconstrained"
  unfolding hidden_stage_def
  by (rule triple_andthen [OF any_triple], rule triple_andthen [OF any_triple])
     (rule hidden_decision_reached [OF assms])

lemma done_reached: "triple P m hidden_done E \<Longrightarrow> triple P m hidden_reached E"
  by (erule triple_weaken) (auto simp: hidden_done_def hidden_reached_def split: sum.splits)

lemma create_bundle_reached:
  assumes "length stages = 3"
  shows "triple any_world (create_bundle env c i stages ws cs) hidden_reached unconstrained"
proof -
  have body: "triple any_world (andthen (vf_identifier env) (\<lambda>identifier.
      if \<not> hex_string 32 identifier then raise VFilesystem
      else andthen (ensure_valid valid_bundle (vf_create_bundle env ws cs identifier)) (\<lambda>b. ret (Inr b))))
      hidden_reached (\<lambda>_ _. True)"
    by (auto simp: triple_def andthen_def ret_def raise_def hidden_reached_def split: prod.splits sum.splits)
  show ?thesis
    unfolding create_bundle_def
    by (rule triple_catch [OF body], rule triple_if)
       (auto simp: unconstrained_def intro!: triple_raise triple_andthen [OF any_triple] done_reached [OF fail_at_reached] assms)
qed

lemma visible_stage_length:
  assumes "length stages = 3" "visible_stage env c i stages k m w = (Inr (Inr s), w')"
  shows "length s = 3"
  using assms
  by (auto simp: visible_stage_def visible_decision_def andthen_def fail_at_def give_def ret_def raise_def
      split: prod.splits sum.splits if_splits option.splits)


section \<open>The visible part and the hidden part\<close>

lemma phase_assoc: "phase (phase m f) g = phase m (\<lambda>x. phase (f x) g)"
  by (rule ext) (simp add: phase_def andthen_def ret_def split: prod.splits sum.splits)

lemma phase_ret [simp]: "phase (ret (Inr x)) g = g x"
  by (rule ext) (simp add: phase_def andthen_def ret_def)

lemma phase_returns: "m w = (Inr (Inl v), w') \<Longrightarrow> phase m f w = (Inr (Inl v), w')"
  by (simp add: phase_def andthen_def ret_def)

lemma phase_continues: "m w = (Inr (Inr x), w') \<Longrightarrow> phase m f w = f x w'"
  by (simp add: phase_def andthen_def)

definition visible_part where
  "visible_part env q = phase (prepare_verification env q) (\<lambda>(c, case', workspace, visible, i).
     phase (visible_stage env c i blank_stages 0 (vf_targeted env (vc_repository c) visible)) (\<lambda>stages1.
     phase (visible_stage env c i stages1 1 (vf_visible env (vc_repository c))) (\<lambda>stages2.
       ret (Inr (c, case', workspace, i, stages2)))))"

definition hidden_part where
  "hidden_part env = (\<lambda>(c, case', workspace, i, stages2).
     phase (create_bundle env c i stages2 workspace case') (\<lambda>b. hidden_stage env c i stages2 b))"

lemma verify_body_parts: "verify_body env q = phase (visible_part env q) (hidden_part env)"
  by (simp add: verify_body_def visible_part_def hidden_part_def phase_assoc split_def)

lemma verify_parts:
  "verify env q w = (case visible_part env q w of
     (Inl e, w1) \<Rightarrow> (Inl e, w1)
   | (Inr (Inl v), w1) \<Rightarrow> (Inr v, w1)
   | (Inr (Inr x), w1) \<Rightarrow> (case hidden_part env x w1 of
        (Inl e, w2) \<Rightarrow> (Inl e, w2) | (Inr (Inl v), w2) \<Rightarrow> (Inr v, w2) | (Inr (Inr v), w2) \<Rightarrow> (Inr v, w2)))"
  by (auto simp: verify_def verify_body_parts phase_def andthen_def ret_def split: prod.splits sum.splits)

definition with_hidden_tests where
  "with_hidden_tests env idf cb hd' rb =
     env\<lparr>vf_identifier := idf, vf_create_bundle := cb, vf_hidden := hd', vf_remove_bundle := rb\<rparr>"

lemma fields_without_hidden [simp]:
  "candidate_state (with_hidden_tests env idf cb hd' rb) = candidate_state env"
  "vf_load (with_hidden_tests env idf cb hd' rb) = vf_load env"
  "vf_case_valid (with_hidden_tests env idf cb hd' rb) = vf_case_valid env"
  "vf_case_id (with_hidden_tests env idf cb hd' rb) = vf_case_id env"
  "vf_visible_tests (with_hidden_tests env idf cb hd' rb) = vf_visible_tests env"
  "vf_validate_workspace (with_hidden_tests env idf cb hd' rb) = vf_validate_workspace env"
  "vf_validate_visible (with_hidden_tests env idf cb hd' rb) = vf_validate_visible env"
  "vf_targeted (with_hidden_tests env idf cb hd' rb) = vf_targeted env"
  "vf_visible (with_hidden_tests env idf cb hd' rb) = vf_visible env"
  by (simp_all add: with_hidden_tests_def fun_eq_iff candidate_state_def)

lemma steps_without_hidden [simp]:
  "prepare_verification (with_hidden_tests env idf cb hd' rb) = prepare_verification env"
  "visible_stage (with_hidden_tests env idf cb hd' rb) = visible_stage env"
  unfolding fun_eq_iff prepare_verification_def visible_stage_def integrity_matches_def fields_without_hidden
  by simp_all

lemma visible_part_ignores_hidden: "visible_part (with_hidden_tests env idf cb hd' rb) q = visible_part env q"
  by (simp add: visible_part_def)

lemma visible_part_stages:
  assumes "visible_part env q w = (Inr (Inr (c, case', ws, i, stages)), w')"
  shows "length stages = 3"
proof -
  have blank: "length blank_stages = 3" by (simp add: blank_stages_def all_stages_def)
  show ?thesis
    using assms
    by (auto simp: visible_part_def phase_def andthen_def ret_def split: prod.splits sum.splits
        dest!: visible_stage_length [OF blank] intro: visible_stage_length)
qed

lemma hidden_part_reached:
  assumes "length stages = 3" "hidden_part env (c, case', ws, i, stages) w = (r, w')"
  shows "case r of Inl _ \<Rightarrow> True | Inr x \<Rightarrow> hidden_done x w'"
proof -
  have "triple any_world (hidden_part env (c, case', ws, i, stages)) hidden_done unconstrained"
    unfolding hidden_part_def prod.case
    by (rule triple_phase [where R = "\<lambda>_. any_world", OF triple_weaken [OF create_bundle_reached [OF assms(1)]]
          hidden_stage_reached [OF assms(1)]])
       (auto simp: hidden_reached_def hidden_done_def unconstrained_def split: sum.splits)
  from triple_useR [OF this TrueI] assms(2) show ?thesis by (auto split: sum.splits)
qed

lemma derive_passed:
  assumes "derive_outcome s = Some VERIFICATION_PASSED"
  shows "map sg_stage s = all_stages \<and> list_all (\<lambda>r. sg_status r = STAGE_PASSED) s"
proof -
  have st: "map sg_stage s = all_stages" "map sg_status s = replicate 3 STAGE_PASSED"
    using assms unfolding derive_outcome_def Let_def by (auto split: if_splits list.splits)
  from st(2) have "set (map sg_status s) \<subseteq> {STAGE_PASSED}" by simp
  with st(1) show ?thesis by (auto simp: list_all_iff)
qed

section \<open>Properties\<close>

text \<open>C28: When the stages before it do not pass (the hidden stage of the result is marked as not
  run), the hidden tests have no influence: any other behaviour of the identifier factory, of the
  bundle filesystem and of the hidden run gives the same result in the same final state.\<close>

theorem hidden_tests_isolated:
  assumes "verify env q w = (Inr v, w')" "sg_status (vr_stages v ! 2) = STAGE_NOT_RUN"
  shows "verify (with_hidden_tests env idf cb hd' rb) q w = (Inr v, w')"
proof -
  obtain r w1 where r: "visible_part env q w = (r, w1)" by fastforce
  show ?thesis
  proof (cases r)
    case (Inr x)
    show ?thesis
    proof (cases x)
      case (Inl y)
      with assms(1) r Inr show ?thesis by (simp add: verify_parts visible_part_ignores_hidden)
    next
      case b: (Inr y)
      obtain c case' ws i stages where y: "y = (c, case', ws, i, stages)" by (cases y)
      obtain u w2 where u: "hidden_part env y w1 = (u, w2)" by fastforce
      from r Inr b y have "visible_part env q w = (Inr (Inr (c, case', ws, i, stages)), w1)" by simp
      from hidden_part_reached [OF visible_part_stages [OF this] u [unfolded y]]
      have "case u of Inl _ \<Rightarrow> True | Inr x \<Rightarrow> hidden_done x w2" .
      with assms r Inr b u have False
        by (auto simp: verify_parts hidden_done_def split: sum.splits)
      then show ?thesis ..
    qed
  qed (use assms(1) r in \<open>simp add: verify_parts\<close>)
qed

text \<open>C25: Whatever its boundaries do, \<open>verify\<close> returns a result that satisfies its validator (stage
  order, statuses consistent with the evidence, one blocking stage, derived outcome).  Only an
  interrupt leaves it as an exception when the sandbox never reports a timeout or an exhausted memory
  limit as evidence; otherwise a \<open>ValidationError\<close> may.\<close>

theorem verification_total:
  "case verify env q w of
     (Inr v, w') \<Rightarrow> valid_verification_result v
   | (Inl e, w') \<Rightarrow> e \<in> (if normal_sandbox env then {VInterrupt} else {VInterrupt, VValue})"
  using triple_useL [OF verify_triple [of "normal_sandbox env" env q] TrueI, of w]
    triple_useR [OF verify_triple [of "normal_sandbox env" env q] TrueI, of w]
  by (auto simp: escapes_def split: prod.splits sum.splits)

text \<open>A passed verification has the three stages in order, each with a normal completion and the
  exit code 0.\<close>

theorem pass_certifies_three_stages:
  assumes "verify env q w = (Inr v, w')" "vr_outcome v = VERIFICATION_PASSED"
  shows "map sg_stage (vr_stages v) = all_stages \<and>
    list_all (\<lambda>r. sg_status r = STAGE_PASSED \<and> sg_completion r = Some NORMAL \<and> sg_exit_code r = Some 0) (vr_stages v)"
proof -
  from triple_useR [OF verify_triple [of False env q] TrueI assms(1)]
  have v: "derive_outcome (vr_stages v) = Some VERIFICATION_PASSED" "list_all valid_stage_result (vr_stages v)"
    using assms(2) by (simp_all add: valid_verification_result_def)
  from derive_passed [OF v(1)] have st: "map sg_stage (vr_stages v) = all_stages"
      "list_all (\<lambda>r. sg_status r = STAGE_PASSED) (vr_stages v)" by blast+
  with v(2) show ?thesis
    by (auto simp: list_all_iff valid_stage_result_def stage_status_ok_def)
qed

text \<open>C39: When the sandbox returns the evidence of a timeout or of an exhausted memory limit and the
  candidate was changed during a visible stage, or the removal of the hidden bundle failed, the
  failure result is inconsistent with the evidence it carries and its construction raises
  \<open>ValidationError\<close>.\<close>

theorem interrupted_evidence_raises:
  assumes "valid_evidence e" "ve_completion e \<in> {TIMED_OUT, MEMORY_LIMIT}"
  shows "visible_decision stages index (Some e) None False w = (Inl VValue, w) \<and>
    hidden_decision stages (Some e) None True ok w = (Inl VValue, w)"
proof -
  have "verification_infrastructure s i c (Some e) = Inl VValue" if "c \<in> {VC_INTEGRITY_FAILED, VC_CLEANUP_FAILED}" for s i c
    using evidence_stage_valid [OF assms(1)] assms(2) that
    by (auto simp: verification_infrastructure_def checked_def code_fits_def Let_def bindE_def)
  then show ?thesis
    by (simp add: visible_decision_def hidden_decision_def fail_at_def give_def raise_def)
qed

section \<open>A concrete environment\<close>

text \<open>The state counts the sandbox runs; when \<open>tampered\<close> the runs change the identity of the candidate.\<close>

definition sample_evidence :: "sandbox_completion \<Rightarrow> int option \<Rightarrow> sandbox_evidence" where
  "sample_evidence k x = \<lparr>ve_completion = k, ve_exit_code = x, ve_stdout_truncated = False,
     ve_stderr_truncated = False, ve_duration_seconds = Finite 1\<rparr>"

definition sample_bundle :: hidden_bundle where
  "sample_bundle = \<lparr>hb_workspace_root = ''/v'', hb_root = ''/v/b'', hb_test_files = [''tests/h.py'']\<rparr>"

definition sample_verify_env :: "bool \<Rightarrow> sandbox_evidence \<Rightarrow> sandbox_evidence \<Rightarrow> sandbox_evidence \<Rightarrow> (nat, string) verify_env" where
  "sample_verify_env tampered e0 e1 e2 = \<lparr>
     vf_load = ret, vf_case_valid = (\<lambda>_. True), vf_case_id = (\<lambda>x. x), vf_visible_tests = (\<lambda>_. [''tests/t.py'']),
     vf_validate_workspace = (\<lambda>w r c. ret w), vf_validate_visible = (\<lambda>r ps. ret ps),
     vf_inspect = (\<lambda>p n. (Inr \<lparr>in_repository = p,
        in_identity = replicate 64 (if tampered \<and> 0 < n then CHR ''b'' else CHR ''a'')\<rparr>, n)),
     vf_fingerprint = (\<lambda>p. ret (rp_fingerprint sample_preparation)),
     vf_targeted = (\<lambda>p ps n. (Inr e0, n + 1)), vf_visible = (\<lambda>p n. (Inr e1, n + 1)),
     vf_hidden = (\<lambda>p b n. (Inr e2, n + 1)),
     vf_identifier = ret (replicate 32 (CHR ''0'')), vf_create_bundle = (\<lambda>w c i. ret sample_bundle),
     vf_remove_bundle = (\<lambda>b. ret ())\<rparr>"

definition sample_verify_request :: verification_request where
  "sample_verify_request = \<lparr>vq_case_id = ''case'', vq_static_result = \<lparr>st_outcome = STATIC_PASSED,
     st_checks = map check_passed all_checks,
     st_candidate = Some \<lparr>vc_repository = ''/c'', vc_fingerprint = rp_fingerprint sample_preparation\<rparr>,
     st_diagnostic = None\<rparr>, vq_workspace_root = ''/v''\<rparr>"


section \<open>The short circuit\<close>

text \<open>An operation that returns \<open>x\<close> from every state.\<close>

definition yields :: "('w, 'e, 'a) act \<Rightarrow> 'a \<Rightarrow> bool" where
  "yields m x \<longleftrightarrow> (\<forall>w. fst (m w) = Inr x)"

lemma yieldsI: "(\<And>w. fst (m w) = Inr x) \<Longrightarrow> yields m x"
  by (simp add: yields_def)

lemma yields_ret: "yields (ret x) x"
  by (simp add: yields_def ret_def)

lemma yieldsE:
  assumes "yields m x"
  obtains w' where "m w = (Inr x, w')"
  using assms that unfolding yields_def by (metis prod.collapse)

lemma yields_andthen:
  assumes "yields m x" "yields (f x) y"
  shows "yields (andthen m f) y"
proof (rule yieldsI)
  fix w
  obtain w' where "m w = (Inr x, w')" using assms(1) by (rule yieldsE)
  with assms(2) show "fst (andthen m f w) = Inr y" by (simp add: andthen_def yields_def)
qed

lemma yields_catch: "yields m x \<Longrightarrow> yields (catch m h) x"
proof (rule yieldsI)
  fix w
  assume "yields m x"
  then obtain w' where "m w = (Inr x, w')" by (rule yieldsE)
  then show "fst (catch m h w) = Inr x" by (simp add: catch_def)
qed

lemma yields_phase: "yields m (Inr x) \<Longrightarrow> yields (f x) y \<Longrightarrow> yields (phase m f) y"
  unfolding phase_def by (rule yields_andthen, assumption, simp)

lemma yields_phase_stop: "yields m (Inl v) \<Longrightarrow> yields (phase m f) (Inl v)"
  unfolding phase_def by (rule yields_andthen, assumption, simp add: yields_ret)

lemma yields_ensure: "yields m x \<Longrightarrow> P x \<Longrightarrow> yields (ensure_valid P m) x"
  unfolding ensure_valid_def by (rule yields_andthen, assumption, simp add: yields_ret)

lemma yields_attempt: "yields m x \<Longrightarrow> yields (attempt m c) (Inr x)"
  unfolding attempt_def catch_exception_def by (intro yields_catch yields_andthen [where x = x] yields_ret)

lemma yields_integrity: "yields (candidate_state env c) i \<Longrightarrow> yields (integrity_matches env c i) True"
  unfolding integrity_matches_def catch_exception_def
  by (intro yields_catch yields_andthen [where x = i]) (simp_all add: yields_ret)

lemma yields_execute: "yields m e \<Longrightarrow> valid_evidence e \<Longrightarrow> yields (execute_stage m) (Some e, None)"
  unfolding execute_stage_def by (intro yields_catch yields_andthen [where x = e] yields_ensure yields_ret)

text \<open>The specification: the stages up to the first failing one, and nothing after it.\<close>

fun short_circuit :: "bool list \<Rightarrow> stage_status list" where
  "short_circuit [] = []"
| "short_circuit (True # xs) = STAGE_PASSED # short_circuit xs"
| "short_circuit (False # xs) = STAGE_FAILED # map (\<lambda>_. STAGE_NOT_RUN) xs"

definition test_run :: "sandbox_evidence \<Rightarrow> bool" where
  "test_run e \<longleftrightarrow> valid_evidence e \<and> ve_completion e = NORMAL"

definition tests_passed :: "sandbox_evidence \<Rightarrow> bool" where
  "tests_passed e \<longleftrightarrow> ve_exit_code e = Some 0"

text \<open>Every boundary answers, the candidate never changes, and the three runs end with evidence.\<close>

definition undisturbed where
  "undisturbed env q c case' ws visible i b e0 e1 e2 \<longleftrightarrow>
     revalidate_verification_request q = Inr q \<and> st_candidate (vq_static_result q) = Some c \<and>
     yields (vf_load env (vq_case_id q)) case' \<and> vf_case_valid env case' \<and> vf_case_id env case' = vq_case_id q \<and>
     yields (vf_validate_workspace env (vq_workspace_root q) (vc_repository c) case') ws \<and>
     yields (vf_validate_visible env (vc_repository c) (vf_visible_tests env case')) visible \<and>
     yields (candidate_state env c) i \<and>
     yields (vf_targeted env (vc_repository c) visible) e0 \<and> yields (vf_visible env (vc_repository c)) e1 \<and>
     (\<exists>n. yields (vf_identifier env) n \<and> hex_string 32 n \<and> yields (vf_create_bundle env ws case' n) b) \<and>
     valid_bundle b \<and> yields (vf_hidden env (vc_repository c) b) e2 \<and> yields (vf_remove_bundle env b) ()"

lemma yields_prepare:
  assumes "undisturbed env q c case' ws visible i b e0 e1 e2"
  shows "yields (prepare_verification env q) (Inr (c, case', ws, visible, i))"
  using assms unfolding prepare_verification_def undisturbed_def
  by (auto intro!: yields_ret yields_ensure
      yields_phase [OF yields_attempt, of _ case'] yields_phase [OF yields_attempt, of _ ws]
      yields_phase [OF yields_attempt, of _ visible] yields_phase [OF yields_attempt, of _ i])


definition passed_stage :: "nat \<Rightarrow> sandbox_evidence \<Rightarrow> stage_result" where
  "passed_stage k e = stage_with_evidence (all_stages ! k) STAGE_PASSED None e"

definition failed_stage :: "nat \<Rightarrow> sandbox_evidence \<Rightarrow> stage_result" where
  "failed_stage k e = stage_with_evidence (all_stages ! k) STAGE_FAILED None e"

lemma test_run_stage:
  assumes "test_run e"
  shows "stage_from_evidence (all_stages ! k) e = Inr (if tests_passed e then passed_stage k e else failed_stage k e)"
  using assms
  by (auto simp: test_run_def stage_from_evidence_def tests_passed_def passed_stage_def failed_stage_def checked_def
      valid_stage_result_def stage_with_evidence_def stage_status_ok_def has_evidence_def complete_evidence_def
      valid_evidence_def)

lemma test_run_stage_valid:
  assumes "test_run e"
  shows "tests_passed e \<Longrightarrow> valid_stage_result (passed_stage k e)"
    "\<not> tests_passed e \<Longrightarrow> valid_stage_result (failed_stage k e)"
  using test_run_stage [OF assms, of k] by (auto simp: stage_from_evidence_def checked_def split: if_splits)

lemma visible_stage_passes:
  assumes "yields m e" "test_run e" "tests_passed e" "yields (candidate_state env c) i"
  shows "yields (visible_stage env c i stages k m) (Inr (stages[k := passed_stage k e]))"
  unfolding visible_stage_def
  by (intro yields_andthen [OF yields_execute [OF assms(1)]] yields_andthen [OF yields_integrity [OF assms(4)]])
     (use assms test_run_stage [OF assms(2), of k] in
      \<open>simp_all add: test_run_def visible_decision_def yields_ret passed_stage_def\<close>)


lemma stage_kinds [simp]:
  "sg_stage (passed_stage k e) = all_stages ! k" "sg_status (passed_stage k e) = STAGE_PASSED"
  "sg_stage (failed_stage k e) = all_stages ! k" "sg_status (failed_stage k e) = STAGE_FAILED"
  by (simp_all add: passed_stage_def failed_stage_def)

definition failure_at :: "stage_result list \<Rightarrow> nat \<Rightarrow> sandbox_evidence \<Rightarrow> verification_result" where
  "failure_at stages k e = \<lparr>vr_stages = stages[k := failed_stage k e], vr_outcome = VERIFICATION_CANDIDATE_FAILED\<rparr>"

lemma failure_result:
  assumes "passed_prefix k stages" "k < 3" "test_run e" "\<not> tests_passed e"
  shows "result_of_stages (stages[k := failed_stage k e]) = Inr (failure_at stages k e)"
  using blocked_result(2) [OF assms(1,2) test_run_stage_valid(2) [OF assms(3,4)]]
  by (simp add: failure_at_def blocked_outcome_def)

lemma prefix_extends:
  assumes "passed_prefix k stages" "k < 3" "test_run e" "tests_passed e"
  shows "passed_prefix (Suc k) (stages[k := passed_stage k e])"
  using passed_prefix_step [OF assms(1,2) test_run_stage_valid(1) [OF assms(3,4)]] by simp

lemma visible_stage_fails:
  assumes "yields m e" "test_run e" "\<not> tests_passed e" "yields (candidate_state env c) i" "passed_prefix k stages" "k < 3"
  shows "yields (visible_stage env c i stages k m) (Inl (failure_at stages k e))"
  unfolding visible_stage_def
  by (intro yields_andthen [OF yields_execute [OF assms(1)]] yields_andthen [OF yields_integrity [OF assms(4)]])
     (use assms test_run_stage [OF assms(2), of k] failure_result [OF assms(5,6,2,3)] in
      \<open>simp_all add: test_run_def visible_decision_def yields_ret give_def\<close>)

lemma yields_hidden_run:
  assumes "yields (vf_hidden env (vc_repository c) b) e" "test_run e" "yields (candidate_state env c) i"
    "yields (vf_remove_bundle env b) ()"
  shows "yields (hidden_run env c i b) ((Some e, None), False)"
  unfolding hidden_run_def catch_exception_def
  by (rule yields_andthen [where x = "(Some e, None)"], rule yields_catch,
      rule yields_andthen [OF yields_integrity [OF assms(3)]])
     (use assms in \<open>auto simp: test_run_def intro!: yields_execute yields_andthen [where x = False] yields_catch
        yields_andthen [OF assms(4)] yields_ret\<close>)

definition pass_of :: "stage_result list \<Rightarrow> sandbox_evidence \<Rightarrow> verification_result" where
  "pass_of stages e = \<lparr>vr_stages = stages[2 := passed_stage 2 e], vr_outcome = VERIFICATION_PASSED\<rparr>"

lemma yields_hidden_stage:
  assumes "yields (vf_hidden env (vc_repository c) b) e" "test_run e" "yields (candidate_state env c) i"
    "yields (vf_remove_bundle env b) ()" and pre: "passed_prefix 2 stages"
  shows "yields (hidden_stage env c i stages b)
    (Inl (if tests_passed e then pass_of stages e else failure_at stages 2 e))"
  unfolding hidden_stage_def
proof (rule yields_andthen [OF yields_hidden_run [OF assms(1-4)]], rule yields_andthen [OF yields_integrity [OF assms(3)]])
  have h: "all_stages ! 2 = HIDDEN_SUITE" by (simp add: all_stages_def)
  have s: "stage_from_evidence HIDDEN_SUITE e = Inr (if tests_passed e then passed_stage 2 e else failed_stage 2 e)"
    using test_run_stage [OF assms(2), of 2] by (simp add: h)
  have "tests_passed e \<Longrightarrow> passed_prefix 3 (stages[2 := passed_stage 2 e])"
    using prefix_extends [OF pre _ assms(2)] by (simp add: eval_nat_numeral)
  then have p: "tests_passed e \<Longrightarrow> result_of_stages (stages[2 := passed_stage 2 e]) = Inr (pass_of stages e)"
    using passed_all_result(1) by (auto simp: pass_of_def)
  have f: "\<not> tests_passed e \<Longrightarrow> result_of_stages (stages[2 := failed_stage 2 e]) = Inr (failure_at stages 2 e)"
    using failure_result [OF pre _ assms(2)] by simp
  from s p f show "yields (hidden_decision stages (fst (fst ((Some e, None), False))) (snd (fst ((Some e, None), False)))
      (snd ((Some e, None), False)) True) (Inl (if tests_passed e then pass_of stages e else failure_at stages 2 e))"
    by (simp add: hidden_decision_def give_def yields_ret)
qed

lemma yields_create_bundle:
  assumes "yields (vf_identifier env) n" "hex_string 32 n" "yields (vf_create_bundle env ws case' n) b" "valid_bundle b"
  shows "yields (create_bundle env c i stages ws case') (Inr b)"
  unfolding create_bundle_def
  by (intro yields_catch yields_andthen [OF assms(1)])
     (use assms in \<open>auto intro!: yields_andthen [where x = b] yields_ensure yields_ret\<close>)



lemma yields_verify:
  assumes u: "undisturbed env q c case' ws visible i b e0 e1 e2" and t: "test_run e0" "test_run e1" "test_run e2"
  obtains v where "yields (verify env q) v"
    "map sg_status (vr_stages v) = short_circuit (map tests_passed [e0, e1, e2])"
proof -
  let ?s1 = "blank_stages[0 := passed_stage 0 e0]"
  let ?s2 = "?s1[1 := passed_stage 1 e1]"
  have c: "yields (candidate_state env c) i" using u by (simp add: undisturbed_def)
  have v0: "yields (vf_targeted env (vc_repository c) visible) e0"
    and v1: "yields (vf_visible env (vc_repository c)) e1"
    and v2: "yields (vf_hidden env (vc_repository c) b) e2"
    and rb: "yields (vf_remove_bundle env b) ()"
    and mk: "yields (create_bundle env c i stages ws case') (Inr b)" for stages
    using u by (auto simp: undisturbed_def intro: yields_create_bundle)
  let ?r = "if \<not> tests_passed e0 then failure_at blank_stages 0 e0
    else if \<not> tests_passed e1 then failure_at ?s1 1 e1
    else if \<not> tests_passed e2 then failure_at ?s2 2 e2 else pass_of ?s2 e2"
  have p1: "tests_passed e0 \<Longrightarrow> passed_prefix 1 ?s1"
    using prefix_extends [OF passed_prefix_blank _ t(1)] by simp
  have p2: "tests_passed e0 \<Longrightarrow> tests_passed e1 \<Longrightarrow> passed_prefix 2 ?s2"
    using prefix_extends [OF p1 _ t(2)] by (simp add: eval_nat_numeral)
  note first = visible_stage_fails [OF v0 t(1) _ c passed_prefix_blank] visible_stage_passes [OF v0 t(1) _ c, of blank_stages 0]
  note second = visible_stage_fails [OF v1 t(2) _ c p1] visible_stage_passes [OF v1 t(2) _ c, of ?s1 1]
  have "yields (verify_body env q) (Inl ?r)"
    unfolding verify_body_def
  proof (rule yields_phase [OF yields_prepare [OF u]], unfold prod.case, cases "tests_passed e0")
    case False
    with first(1) show "yields (phase (visible_stage env c i blank_stages 0 (vf_targeted env (vc_repository c) visible))
      (\<lambda>stages1. phase (visible_stage env c i stages1 1 (vf_visible env (vc_repository c)))
        (\<lambda>stages2. phase (create_bundle env c i stages2 ws case') (hidden_stage env c i stages2)))) (Inl ?r)"
      by (auto intro: yields_phase_stop)
  next
    case True
    have "yields (phase (visible_stage env c i ?s1 1 (vf_visible env (vc_repository c)))
        (\<lambda>stages2. phase (create_bundle env c i stages2 ws case') (hidden_stage env c i stages2))) (Inl ?r)"
    proof (cases "tests_passed e1")
      case passed: True
      with True have r: "?r = (if tests_passed e2 then pass_of ?s2 e2 else failure_at ?s2 2 e2)" by simp
      show ?thesis
        unfolding r
        by (rule yields_phase [OF second(2) [OF passed]], rule yields_phase [OF mk])
           (rule yields_hidden_stage [OF v2 t(3) c rb p2 [OF True passed]])
    next
      case failed: False
      with True have "?r = failure_at ?s1 1 e1" by simp
      with second(1) [OF failed True] show ?thesis by (simp add: yields_phase_stop)
    qed
    then show "yields (phase (visible_stage env c i blank_stages 0 (vf_targeted env (vc_repository c) visible))
      (\<lambda>stages1. phase (visible_stage env c i stages1 1 (vf_visible env (vc_repository c)))
        (\<lambda>stages2. phase (create_bundle env c i stages2 ws case') (hidden_stage env c i stages2)))) (Inl ?r)"
      by (rule yields_phase [OF first(2) [OF True]])
  qed
  then have "yields (verify env q) ?r"
    unfolding verify_def by (rule yields_andthen) (simp add: yields_ret)
  moreover have "map sg_status (vr_stages ?r) = short_circuit (map tests_passed [e0, e1, e2])"
    by (simp add: failure_at_def pass_of_def blank_stages_def all_stages_def numeral_2_eq_2)
  ultimately show ?thesis by (rule that)
qed


text \<open>C24: In an undisturbed run (every boundary answers, the candidate keeps its identity, the three
  test runs complete) the statuses are those of the short-circuit specification over the exit codes:
  passes up to the first failing stage, and nothing run after it.\<close>

theorem verification_short_circuits:
  assumes "undisturbed env q c case' ws visible i b e0 e1 e2" "test_run e0" "test_run e1" "test_run e2"
  shows "\<exists>v w'. verify env q w = (Inr v, w') \<and>
    map sg_status (vr_stages v) = short_circuit (map tests_passed [e0, e1, e2])"
  by (rule yields_verify [OF assms]) (metis yieldsE)

section \<open>Witnesses\<close>

lemma sample_requests: "revalidate_verification_request sample_verify_request = Inr sample_verify_request"
  by code_simp

definition sample_inspection :: inspection where
  "sample_inspection = \<lparr>in_repository = ''/c'', in_identity = replicate 64 (CHR ''a'')\<rparr>"

definition sample_candidate :: validated_candidate where
  "sample_candidate = \<lparr>vc_repository = ''/c'', vc_fingerprint = rp_fingerprint sample_preparation\<rparr>"

lemma sample_state:
  "yields (candidate_state (sample_verify_env False e0 e1 e2) sample_candidate) sample_inspection"
proof (rule yieldsI)
  have "valid_fingerprint (rp_fingerprint sample_preparation)" "valid_inspection sample_inspection" by code_simp+
  then show "fst (candidate_state (sample_verify_env False e0 e1 e2) sample_candidate w) = Inr sample_inspection" for w
    by (simp add: candidate_state_def sample_verify_env_def ensure_valid_def andthen_def ret_def
        sample_candidate_def sample_inspection_def)
qed

lemma sample_undisturbed:
  "undisturbed (sample_verify_env False e0 e1 e2) sample_verify_request sample_candidate ''case'' ''/v''
     [''tests/t.py''] sample_inspection sample_bundle e0 e1 e2"
proof -
  have b: "valid_bundle sample_bundle" "hex_string 32 (replicate 32 (CHR ''0''))" by code_simp+
  have f: "yields (\<lambda>n. (Inr x, Suc n)) x" for x :: sandbox_evidence by (simp add: yields_def)
  from b show ?thesis
    unfolding undisturbed_def
    by (intro conjI sample_requests sample_state)
       (auto simp: sample_verify_env_def sample_verify_request_def sample_candidate_def f intro!: yields_ret)
qed

lemma sample_test_run: "test_run (sample_evidence NORMAL (Some x))" if "0 \<le> x" "x < 256"
  using that by (simp add: test_run_def sample_evidence_def valid_evidence_def exit_code_ok_def)

theorem verification_short_circuits_witness:
  "\<exists>v w'. verify (sample_verify_env False (sample_evidence NORMAL (Some 0)) (sample_evidence NORMAL (Some 1))
      (sample_evidence NORMAL (Some 0))) sample_verify_request 0 = (Inr v, w') \<and>
    map sg_status (vr_stages v) = [STAGE_PASSED, STAGE_FAILED, STAGE_NOT_RUN]"
  using verification_short_circuits [OF sample_undisturbed sample_test_run sample_test_run sample_test_run, of 0 1 0]
  by (simp add: tests_passed_def sample_evidence_def)



lemma sample_failing_run:
  obtains v w' where "verify (sample_verify_env False (sample_evidence NORMAL (Some 1)) (sample_evidence NORMAL (Some 0))
      (sample_evidence NORMAL (Some 0))) sample_verify_request 0 = (Inr v, w')"
    "sg_status (vr_stages v ! 2) = STAGE_NOT_RUN"
proof -
  obtain v where y: "yields (verify (sample_verify_env False (sample_evidence NORMAL (Some 1)) (sample_evidence NORMAL (Some 0))
      (sample_evidence NORMAL (Some 0))) sample_verify_request) v"
    and s: "map sg_status (vr_stages v) = [STAGE_FAILED, STAGE_NOT_RUN, STAGE_NOT_RUN]"
    using yields_verify [OF sample_undisturbed sample_test_run sample_test_run sample_test_run, of 1 0 0]
    by (auto simp: tests_passed_def sample_evidence_def)
  from s have "sg_status (vr_stages v ! 2) = STAGE_NOT_RUN"
    by (auto simp: map_eq_Cons_conv numeral_2_eq_2)
  with yieldsE [OF y] that show ?thesis by metis
qed

theorem hidden_tests_isolated_witness:
  "\<exists>v w'. verify (with_hidden_tests (sample_verify_env False (sample_evidence NORMAL (Some 1))
      (sample_evidence NORMAL (Some 0)) (sample_evidence NORMAL (Some 0)))
      (raise VInterrupt) (\<lambda>w c i. raise VOther) (\<lambda>p b. raise VOther) (\<lambda>b. raise VOther)) sample_verify_request 0 = (Inr v, w')"
  by (rule sample_failing_run) (drule (1) hidden_tests_isolated, blast)

lemma sample_passing_run:
  obtains v w' where "verify (sample_verify_env False (sample_evidence NORMAL (Some 0)) (sample_evidence NORMAL (Some 0))
      (sample_evidence NORMAL (Some 0))) sample_verify_request 0 = (Inr v, w')" "vr_outcome v = VERIFICATION_PASSED"
proof -
  have "map_prod (map_sum id vr_outcome) id (verify (sample_verify_env False (sample_evidence NORMAL (Some 0))
      (sample_evidence NORMAL (Some 0)) (sample_evidence NORMAL (Some 0))) sample_verify_request 0)
    = (Inr VERIFICATION_PASSED, 3)" by code_simp
  then show ?thesis using that
    by (cases "verify (sample_verify_env False (sample_evidence NORMAL (Some 0)) (sample_evidence NORMAL (Some 0))
        (sample_evidence NORMAL (Some 0))) sample_verify_request 0" rule: prod.exhaust)
      (metis map_prod_simp prod.inject map_sum.simps sum.exhaust sum.inject(2) sum.distinct(1))
qed

theorem pass_certifies_three_stages_witness:
  "\<exists>v w'. verify (sample_verify_env False (sample_evidence NORMAL (Some 0)) (sample_evidence NORMAL (Some 0))
      (sample_evidence NORMAL (Some 0))) sample_verify_request 0 = (Inr v, w') \<and> map sg_stage (vr_stages v) = all_stages"
  by (rule sample_passing_run) (frule (1) pass_certifies_three_stages, blast)

theorem interrupted_evidence_raises_witness:
  "visible_decision blank_stages 0 (Some (sample_evidence TIMED_OUT None)) None False (0::nat) =
     (Inl VValue, 0)"
  using interrupted_evidence_raises [of "sample_evidence TIMED_OUT None" blank_stages 0 "0::nat" True]
  by (simp add: sample_evidence_def valid_evidence_def exit_code_ok_def)

text \<open>A complete run of \<open>verify\<close> on a valid request that ends with a \<open>ValidationError\<close> instead of
  an infrastructure result: the targeted run times out and changes the candidate.\<close>

theorem verify_raises_validation_error:
  "verify (sample_verify_env True (sample_evidence TIMED_OUT None) (sample_evidence NORMAL (Some 0))
     (sample_evidence NORMAL (Some 0))) sample_verify_request 0 = (Inl VValue, 1)"
  by code_simp

end
