(* ===== verification/Floats.thy ===== *)
theory Floats
  imports Prelude "HOL-Library.Log_Nat"
begin

text \<open>
  The binary64 rounding of a rational and \<open>math.fsum\<close>, which returns the exact sum rounded once.
\<close>

section \<open>Rounding to binary64\<close>

definition pow2 :: "int \<Rightarrow> rat" where
  "pow2 e = (if 0 \<le> e then 2 ^ nat e else 1 / 2 ^ nat (- e))"

text \<open>The \<open>e\<close> with \<open>2\<^sup>e \<le> q < 2\<^sup>e\<^sup>+\<^sup>1\<close>, for a positive \<open>q\<close>\<close>

definition bit_exponent :: "rat \<Rightarrow> int" where
  "bit_exponent q =
     (let (n, d) = quotient_of q; e = int (floorlog 2 (nat n)) - int (floorlog 2 (nat d)) in
      if pow2 e \<le> q then e else e - 1)"

definition round_half_even :: "rat \<Rightarrow> int" where
  "round_half_even q =
     (let f = \<lfloor>q\<rfloor>; r = q - of_int f in
      if r < 1 / 2 then f else if 1 / 2 < r then f + 1 else if even f then f else f + 1)"

text \<open>\<open>None\<close>: the overflow threshold is reached.\<close>

definition round_double :: "rat \<Rightarrow> rat option" where
  "round_double q =
     (if q = 0 then Some 0
      else (let s = max (bit_exponent \<bar>q\<bar> - 52) (- 1074);
                v = of_int (round_half_even (q / pow2 s)) * pow2 s in
            if pow2 1024 \<le> \<bar>v\<bar> then None else Some v))"

lemma pow2_pos [simp]: "0 < pow2 e"
  by (simp add: pow2_def)

lemma round_half_even_error: "\<bar>of_int (round_half_even q) - q\<bar> \<le> 1 / 2"
proof -
  have "of_int \<lfloor>q\<rfloor> \<le> q" "q < of_int \<lfloor>q\<rfloor> + 1" by linarith+
  then show ?thesis by (simp add: round_half_even_def Let_def)
qed

lemma round_half_even_integer [simp]: "round_half_even (of_int k) = k"
  by (simp add: round_half_even_def)

lemma round_half_even_nonneg: "0 \<le> q \<Longrightarrow> 0 \<le> round_half_even q"
  by (simp add: round_half_even_def Let_def)

lemma round_double_nonneg: "0 \<le> q \<Longrightarrow> round_double q = Some v \<Longrightarrow> 0 \<le> v"
  by (auto simp: round_double_def Let_def round_half_even_nonneg less_imp_le split: if_splits)

section \<open>The float sum\<close>

fun float_value :: "pyfloat \<Rightarrow> rat" where
  "float_value (Finite q) = q"
| "float_value _ = 0"

text \<open>\<open>math.fsum\<close>; \<open>None\<close> is the \<open>OverflowError\<close>, or the \<open>ValueError\<close> for opposite infinities.\<close>

definition fsum :: "pyfloat list \<Rightarrow> pyfloat option" where
  "fsum xs =
     (if PosInfinity \<in> set xs \<and> NegInfinity \<in> set xs then None
      else if NotANumber \<in> set xs then Some NotANumber
      else if PosInfinity \<in> set xs then Some PosInfinity
      else if NegInfinity \<in> set xs then Some NegInfinity
      else map_option Finite (round_double (sum_list (map float_value xs))))"

lemma fsum_nonneg:
  assumes "\<And>x. x \<in> set xs \<Longrightarrow> finite_at_least 0 x" "fsum xs = Some s"
  shows "finite_at_least 0 s"
proof -
  have x: "\<exists>q. x = Finite q \<and> 0 \<le> q" if "x \<in> set xs" for x
    using assms(1) [OF that] by (cases x) auto
  have "0 \<le> sum_list (map float_value xs)" by (rule sum_list_nonneg) (auto dest: x)
  with assms(2) x show ?thesis
    by (fastforce simp: fsum_def dest: round_double_nonneg split: if_splits)
qed

section \<open>Differences and comparisons\<close>

text \<open>\<open>x - y\<close>; infinities and NaN propagate.\<close>

fun float_sub :: "pyfloat \<Rightarrow> pyfloat \<Rightarrow> pyfloat" where
  "float_sub (Finite a) (Finite b) =
     (case round_double (a - b) of
        Some v \<Rightarrow> Finite v
      | None \<Rightarrow> if 0 < a - b then PosInfinity else NegInfinity)"
| "float_sub PosInfinity y = (if y = PosInfinity \<or> y = NotANumber then NotANumber else PosInfinity)"
| "float_sub NegInfinity y = (if y = NegInfinity \<or> y = NotANumber then NotANumber else NegInfinity)"
| "float_sub NotANumber y = NotANumber"
| "float_sub (Finite a) PosInfinity = NegInfinity"
| "float_sub (Finite a) NegInfinity = PosInfinity"
| "float_sub (Finite a) NotANumber = NotANumber"

fun float_negative :: "pyfloat \<Rightarrow> bool" where
  "float_negative (Finite q) = (q < 0)"
| "float_negative NegInfinity = True"
| "float_negative _ = False"

fun float_non_positive :: "pyfloat \<Rightarrow> bool" where
  "float_non_positive (Finite q) = (q \<le> 0)"
| "float_non_positive NegInfinity = True"
| "float_non_positive _ = False"

section \<open>Formatting\<close>

definition pow10 :: "int \<Rightarrow> rat" where
  "pow10 e = (if 0 \<le> e then 10 ^ nat e else 1 / 10 ^ nat (- e))"

text \<open>The \<open>e\<close> with \<open>10\<^sup>e \<le> q < 10\<^sup>e\<^sup>+\<^sup>1\<close>, for a positive \<open>q\<close>\<close>

definition ten_exponent :: "rat \<Rightarrow> int" where
  "ten_exponent q =
     (let (n, d) = quotient_of q; e = int (floorlog 10 (nat n)) - int (floorlog 10 (nat d)) in
      if pow10 e \<le> q then e else e - 1)"

definition drop_zeros :: "string \<Rightarrow> string" where
  "drop_zeros s = rev (dropWhile (\<lambda>c. c = CHR ''0'') (rev s))"

text \<open>\<open>format(q, ".15g")\<close> of a positive \<open>q\<close>: fifteen significant digits, rounded half to even\<close>

definition general15_digits :: "rat \<Rightarrow> nat \<times> int" where
  "general15_digits q =
     (let e = ten_exponent q; m = nat (round_half_even (q / pow10 (e - 14))) in
      if m = 10 ^ 15 then (10 ^ 14, e + 1) else (m, e))"

definition with_fraction :: "string \<Rightarrow> string \<Rightarrow> string" where
  "with_fraction whole fraction = (if fraction = [] then whole else whole @ ''.'' @ fraction)"

definition two_digits :: "nat \<Rightarrow> string" where
  "two_digits n = (if n < 10 then CHR ''0'' # decimal n else decimal n)"

definition format_general15 :: "rat \<Rightarrow> string" where
  "format_general15 q =
     (let (m, e) = general15_digits q; digits = decimal m in
      if - 4 \<le> e \<and> e < 0
      then with_fraction ''0'' (replicate (nat (- e - 1)) (CHR ''0'') @ drop_zeros digits)
      else if 0 \<le> e \<and> e < 15
      then with_fraction (take (nat e + 1) digits) (drop_zeros (drop (nat e + 1) digits))
      else with_fraction (take 1 digits) (drop_zeros (drop 1 digits)) @ ''e'' @
        (if e < 0 then ''-'' else ''+'') @ two_digits (nat \<bar>e\<bar>))"

end
