(* ===== verification/Evaluation.thy ===== *)
theory Evaluation
  imports Verification Patches Floats
begin

text \<open>
  \<open>app/evaluation/deterministic/candidate.py\<close>: the deterministic evaluation of a verified candidate
  (functional status, changed files, line counts, sandbox time, model usage).
\<close>

section \<open>Models\<close>

text \<open>A \<open>Decimal\<close> is kept by value, in the type of the Python floats (finite, infinite or not a
  number).\<close>

type_synonym pydecimal = pyfloat

definition usd_decimal_ok :: "pydecimal \<Rightarrow> bool" where
  "usd_decimal_ok x = finite_at_least 0 x"

definition line_count_ok :: "int \<Rightarrow> bool" where
  "line_count_ok n \<longleftrightarrow> 0 \<le> n \<and> n \<le> 2 ^ 63 - 1"

datatype functional_status = FS_PASSED | FS_FAILED | FS_NOT_EVALUATED

record candidate_usage =
  cu_model_latency_seconds :: "pyfloat option"
  cu_input_tokens :: "int option"
  cu_output_tokens :: "int option"
  cu_estimated_cost_usd :: "pydecimal option"
  cu_estimated_cost_currency :: string

definition valid_candidate_usage :: "candidate_usage \<Rightarrow> bool" where
  [valid_defs]: "valid_candidate_usage u \<longleftrightarrow>
     opt_valid (finite_at_least 0) (cu_model_latency_seconds u) \<and> opt_valid token_count_ok (cu_input_tokens u) \<and>
     opt_valid token_count_ok (cu_output_tokens u) \<and> opt_valid usd_decimal_ok (cu_estimated_cost_usd u) \<and>
     cu_estimated_cost_currency u = ''USD''"

record evaluation_request =
  eq_case_id :: string
  eq_proposal :: patch_proposal
  eq_verification :: verification_result
  eq_model_usage :: "candidate_usage option"

definition valid_evaluation_request :: "evaluation_request \<Rightarrow> bool" where
  [valid_defs]: "valid_evaluation_request q \<longleftrightarrow>
     case_id_ok (eq_case_id q) \<and> length (eq_case_id q) \<le> 128 \<and> valid_patch_proposal (eq_proposal q) \<and>
     valid_verification_result (eq_verification q) \<and> opt_valid valid_candidate_usage (eq_model_usage q)"

record candidate_evaluation =
  ce_case_id :: string
  ce_functional_status :: functional_status
  ce_files_changed :: "string list"
  ce_lines_added :: int
  ce_lines_removed :: int
  ce_sandbox_duration_seconds :: pyfloat
  ce_model_latency_seconds :: "pyfloat option"
  ce_input_tokens :: "int option"
  ce_output_tokens :: "int option"
  ce_estimated_cost_usd :: "pydecimal option"
  ce_estimated_cost_currency :: string

text \<open>\<open>sorted(paths, key=lambda item: (item.casefold(), item))\<close>\<close>

definition order_paths :: "string list \<Rightarrow> string list" where
  "order_paths = sort_key (\<lambda>p. (casefold p, p))"

definition evaluation_files_ok :: "string list \<Rightarrow> bool" where
  "evaluation_files_ok value =
     (case normalize_repository_paths value of Inl _ \<Rightarrow> False | Inr normalized \<Rightarrow> value = order_paths normalized)"

definition valid_candidate_evaluation :: "candidate_evaluation \<Rightarrow> bool" where
  [valid_defs]: "valid_candidate_evaluation e \<longleftrightarrow>
     case_id_ok (ce_case_id e) \<and> length (ce_case_id e) \<le> 128 \<and> evaluation_files_ok (ce_files_changed e) \<and>
     line_count_ok (ce_lines_added e) \<and> line_count_ok (ce_lines_removed e) \<and>
     finite_at_least 0 (ce_sandbox_duration_seconds e) \<and>
     opt_valid (finite_at_least 0) (ce_model_latency_seconds e) \<and> opt_valid token_count_ok (ce_input_tokens e) \<and>
     opt_valid token_count_ok (ce_output_tokens e) \<and> opt_valid usd_decimal_ok (ce_estimated_cost_usd e) \<and>
     ce_estimated_cost_currency e = ''USD''"

section \<open>Evaluating\<close>

text \<open>\<open>EvaluationInputError\<close>, and the \<open>ValidationError\<close> of an invalid result.\<close>

datatype evaluation_error = EvaluationInput | EvaluationInvalid

definition strict_evaluation_request :: "evaluation_request \<Rightarrow> evaluation_error + evaluation_request" where
  "strict_evaluation_request q = (if valid_evaluation_request q then Inr q else Inl EvaluationInput)"

definition count_lines :: "diff_line_kind \<Rightarrow> unified_diff \<Rightarrow> int" where
  "count_lines k d = int (sum_list (map (\<lambda>f. length (filter (\<lambda>l. dl_kind l = k) (df_lines f))) (ud_files d)))"

text \<open>The first \<open>try\<close>: the ordered paths and the two line counts\<close>

definition evaluate_proposal :: "patch_proposal \<Rightarrow> diff_error option + (string list \<times> int \<times> int)" where
  "evaluate_proposal p =
     bindE (map_sum Some id (normalize_repository_paths (pr_files_changed p))) (\<lambda>proposal_paths.
     bindE (map_sum Some id (parse_unified_diff (pr_unified_diff p))) (\<lambda>parsed.
     if ud_has_ignored_content parsed then Inl None
     else bindE (map_sum Some id (normalize_repository_paths (changed_paths parsed))) (\<lambda>parsed_paths.
       if length proposal_paths \<noteq> length parsed_paths \<or> set proposal_paths \<noteq> set parsed_paths then Inl None
       else if count_lines ADDED parsed > 2 ^ 63 - 1 \<or> count_lines REMOVED parsed > 2 ^ 63 - 1 then Inl None
       else Inr (order_paths parsed_paths, count_lines ADDED parsed, count_lines REMOVED parsed))))"

fun functional_status_of :: "verification_outcome \<Rightarrow> functional_status" where
  "functional_status_of VERIFICATION_PASSED = FS_PASSED"
| "functional_status_of VERIFICATION_CANDIDATE_FAILED = FS_FAILED"
| "functional_status_of VERIFICATION_INFRASTRUCTURE = FS_NOT_EVALUATED"

definition stage_durations :: "verification_result \<Rightarrow> pyfloat list" where
  "stage_durations v = List.map_filter sg_duration_seconds (vr_stages v)"

definition evaluate_candidate :: "evaluation_request \<Rightarrow> evaluation_error + candidate_evaluation" where
  "evaluate_candidate request =
     bindE (strict_evaluation_request request) (\<lambda>q.
     case evaluate_proposal (eq_proposal q) of
       Inl _ \<Rightarrow> Inl EvaluationInput
     | Inr (paths, added, removed) \<Rightarrow>
         (case fsum (stage_durations (eq_verification q)) of
            None \<Rightarrow> Inl EvaluationInput
          | Some duration \<Rightarrow>
              if \<not> finite_at_least 0 duration then Inl EvaluationInput
              else (let usage = eq_model_usage q;
                        result = \<lparr>ce_case_id = eq_case_id q,
                          ce_functional_status = functional_status_of (vr_outcome (eq_verification q)),
                          ce_files_changed = paths, ce_lines_added = added, ce_lines_removed = removed,
                          ce_sandbox_duration_seconds = duration,
                          ce_model_latency_seconds = Option.bind usage cu_model_latency_seconds,
                          ce_input_tokens = Option.bind usage cu_input_tokens,
                          ce_output_tokens = Option.bind usage cu_output_tokens,
                          ce_estimated_cost_usd = Option.bind usage cu_estimated_cost_usd,
                          ce_estimated_cost_currency = ''USD''\<rparr>
                    in if valid_candidate_evaluation result then Inr result else Inl EvaluationInvalid)))"


section \<open>Facts\<close>

lemma order_paths_set [simp]: "set (order_paths ps) = set ps"
  by (simp add: order_paths_def)

lemma order_paths_idem [simp]: "order_paths (order_paths ps) = order_paths ps"
  by (simp add: order_paths_def sort_key_id_if_sorted)

lemma order_paths_accepted:
  assumes "normalize_repository_paths ps = Inr qs"
  shows "normalize_repository_paths (order_paths qs) = Inr (order_paths qs)"
proof -
  have "distinct (map casefold (order_paths qs)) \<longleftrightarrow> distinct (map casefold qs)"
    by (simp add: order_paths_def distinct_map)
  then show ?thesis using assms
    by (auto simp: normalize_Inr) (metis order_paths_set set_empty)
qed

lemma order_paths_ok:
  "ps \<noteq> [] \<Longrightarrow> \<forall>p \<in> set ps. \<not> path_rejected p \<Longrightarrow> distinct (map casefold ps) \<Longrightarrow> evaluation_files_ok (order_paths ps)"
  by (simp add: evaluation_files_ok_def order_paths_accepted [of ps ps] normalize_Inr [of ps])

lemma count_lines_sum: "count_lines ADDED d + count_lines REMOVED d = int (changed_line_count d)"
proof -
  have split: "length (filter (\<lambda>l. dl_kind l = ADDED \<or> dl_kind l = REMOVED) ls) =
      length (filter (\<lambda>l. dl_kind l = ADDED) ls) + length (filter (\<lambda>l. dl_kind l = REMOVED) ls)" for ls
    by (induction ls) auto
  show ?thesis by (simp add: count_lines_def changed_line_count_def sum_list_addf split flip: of_nat_add)
qed

lemma count_lines_nonneg [simp]: "0 \<le> count_lines k d"
  by (simp add: count_lines_def)

lemma map_sum_Inr [simp]: "map_sum f id x = Inr y \<longleftrightarrow> x = Inr y"
  by (cases x) simp_all

lemma evaluate_proposal_Inr:
  assumes "evaluate_proposal p = Inr (paths, added, removed)"
  obtains d where "parse_unified_diff (pr_unified_diff p) = Inr d" "\<not> ud_has_ignored_content d"
    "added = count_lines ADDED d" "removed = count_lines REMOVED d" "paths = order_paths (changed_paths d)"
    "set (pr_files_changed p) = set (changed_paths d)" "evaluation_files_ok paths"
    "line_count_ok added" "line_count_ok removed"
  using assms
  by (auto simp: evaluate_proposal_def bindE_def normalize_Inr line_count_ok_def
      split: sum.splits if_splits intro: order_paths_ok)

lemma stage_durations_nonneg:
  "valid_verification_result v \<Longrightarrow> x \<in> set (stage_durations v) \<Longrightarrow> finite_at_least 0 x"
  by (auto simp: stage_durations_def valid_verification_result_def list_all_iff valid_stage_result_def
      List.map_filter_def opt_valid_def split: option.splits)

lemma bind_valid: "opt_valid P u \<Longrightarrow> (\<And>x. P x \<Longrightarrow> opt_valid Q (f x)) \<Longrightarrow> opt_valid Q (Option.bind u f)"
  by (cases u) auto

lemma evaluate_candidate_Inr:
  assumes "evaluate_candidate q = Inr r"
  obtains paths added removed duration where
    "valid_evaluation_request q" "evaluate_proposal (eq_proposal q) = Inr (paths, added, removed)"
    "fsum (stage_durations (eq_verification q)) = Some duration"
    "ce_files_changed r = paths" "ce_lines_added r = added" "ce_lines_removed r = removed"
    "ce_sandbox_duration_seconds r = duration"
    "ce_functional_status r = functional_status_of (vr_outcome (eq_verification q))"
    "valid_candidate_evaluation r"
  using assms
  by (auto simp: evaluate_candidate_def strict_evaluation_request_def bindE_def Let_def
      split: sum.splits if_splits prod.splits option.splits)

lemma evaluate_candidate_no_invalid: "evaluate_candidate q \<noteq> Inl EvaluationInvalid"
proof
  assume a: "evaluate_candidate q = Inl EvaluationInvalid"
  then obtain paths added removed duration where
    v: "valid_evaluation_request q" and p: "evaluate_proposal (eq_proposal q) = Inr (paths, added, removed)"
    and d: "finite_at_least 0 duration"
    and r: "\<not> valid_candidate_evaluation \<lparr>ce_case_id = eq_case_id q,
        ce_functional_status = functional_status_of (vr_outcome (eq_verification q)),
        ce_files_changed = paths, ce_lines_added = added, ce_lines_removed = removed,
        ce_sandbox_duration_seconds = duration,
        ce_model_latency_seconds = Option.bind (eq_model_usage q) cu_model_latency_seconds,
        ce_input_tokens = Option.bind (eq_model_usage q) cu_input_tokens,
        ce_output_tokens = Option.bind (eq_model_usage q) cu_output_tokens,
        ce_estimated_cost_usd = Option.bind (eq_model_usage q) cu_estimated_cost_usd,
        ce_estimated_cost_currency = ''USD''\<rparr>"
    by (auto simp: evaluate_candidate_def strict_evaluation_request_def bindE_def Let_def
        split: sum.splits if_splits prod.splits option.splits)
  have "opt_valid valid_candidate_usage (eq_model_usage q)" using v by (simp add: valid_evaluation_request_def)
  then have u: "opt_valid (finite_at_least 0) (Option.bind (eq_model_usage q) cu_model_latency_seconds)"
      "opt_valid token_count_ok (Option.bind (eq_model_usage q) cu_input_tokens)"
      "opt_valid token_count_ok (Option.bind (eq_model_usage q) cu_output_tokens)"
      "opt_valid usd_decimal_ok (Option.bind (eq_model_usage q) cu_estimated_cost_usd)"
    by (auto simp: valid_candidate_usage_def intro: bind_valid)
  from p v d r show False
    by (elim evaluate_proposal_Inr) (simp add: valid_candidate_evaluation_def valid_evaluation_request_def u)
qed

end
