(* ===== verification/Evaluation_Claims.thy ===== *)
theory Evaluation_Claims
  imports Evaluation Verification_Claims
begin

text \<open>The properties of \<open>evaluate_candidate\<close>, with a concrete evaluation.\<close>

section \<open>Properties\<close>

text \<open>The evaluation never fails on the result it has built: it raises only the input error, and
  what it returns satisfies the validator of the result.\<close>

theorem candidate_evaluation_total:
  "case evaluate_candidate q of Inl e \<Rightarrow> e = EvaluationInput | Inr r \<Rightarrow> valid_candidate_evaluation r"
  using evaluate_candidate_no_invalid [of q]
  by (cases "evaluate_candidate q") (auto elim: evaluate_candidate_Inr intro: evaluation_error.exhaust)

text \<open>An evaluation reports the diff: the added and removed lines are the changed lines of the
  parsed proposal, the files are those the proposal declares and the diff changes, and the status is
  passed only for a passed verification.\<close>

theorem candidate_evaluation_reports_diff:
  assumes "evaluate_candidate q = Inr r"
  shows "\<exists>d. parse_unified_diff (pr_unified_diff (eq_proposal q)) = Inr d \<and>
    ce_lines_added r + ce_lines_removed r = int (changed_line_count d) \<and>
    ce_files_changed r = order_paths (changed_paths d) \<and>
    set (ce_files_changed r) = set (pr_files_changed (eq_proposal q)) \<and>
    (ce_functional_status r = FS_PASSED \<longleftrightarrow> vr_outcome (eq_verification q) = VERIFICATION_PASSED)"
proof -
  obtain paths added removed where
    p: "evaluate_proposal (eq_proposal q) = Inr (paths, added, removed)" "ce_files_changed r = paths"
      "ce_lines_added r = added" "ce_lines_removed r = removed"
    and s: "ce_functional_status r = functional_status_of (vr_outcome (eq_verification q))"
    using assms by (rule evaluate_candidate_Inr)
  have "ce_functional_status r = FS_PASSED \<longleftrightarrow> vr_outcome (eq_verification q) = VERIFICATION_PASSED"
    using s by (cases "vr_outcome (eq_verification q)") simp_all
  with p show ?thesis by (elim evaluate_proposal_Inr) (simp add: count_lines_sum)
qed

section \<open>A concrete evaluation\<close>

definition sample_stages :: "stage_result list" where
  "sample_stages = map (\<lambda>g. stage_with_evidence g STAGE_PASSED None (sample_evidence NORMAL (Some 0))) all_stages"

definition sample_verification :: verification_result where
  "sample_verification = \<lparr>vr_stages = sample_stages, vr_outcome = VERIFICATION_PASSED\<rparr>"

definition sample_evaluation_request :: evaluation_request where
  "sample_evaluation_request = \<lparr>eq_case_id = ''case'', eq_proposal = sample_proposal,
     eq_verification = sample_verification, eq_model_usage = None\<rparr>"

lemma sample_evaluates:
  "map_sum id ce_sandbox_duration_seconds (evaluate_candidate sample_evaluation_request) = Inr (Finite 3)"
  by code_simp

theorem candidate_evaluation_reports_diff_witness:
  "\<exists>r d. evaluate_candidate sample_evaluation_request = Inr r \<and>
     parse_unified_diff (pr_unified_diff sample_proposal) = Inr d \<and>
     ce_lines_added r + ce_lines_removed r = int (changed_line_count d)"
proof (cases "evaluate_candidate sample_evaluation_request")
  case (Inr r)
  from candidate_evaluation_reports_diff [OF this] Inr show ?thesis
    by (auto simp: sample_evaluation_request_def)
qed (use sample_evaluates in simp)

end
