(* ===== verification/Routing.thy ===== *)
theory Routing
  imports Evaluation Static_Model Policy_Model
begin

text \<open>
  \<open>app/agent/routing.py\<close>: the terminal outcomes with their exit codes, summaries and diagnostics, the
  evidence of a run with its consistency rules, and \<open>route_terminal\<close>.
\<close>

section \<open>Outcomes\<close>

datatype terminal_outcome =
    SUCCESS | CANDIDATE_FAILURE | POLICY_VIOLATION | STATIC_CHECK_FAILURE
  | RUN_NOT_REPRODUCIBLE | INFRASTRUCTURE_FAILURE | MALFORMED_MODEL_OUTPUT

datatype terminal_code =
    TC_CANDIDATE_FAILURE | TC_POLICY_VIOLATION | TC_STATIC_CHECK_FAILURE
  | TC_NOT_REPRODUCIBLE | TC_INFRASTRUCTURE_FAILURE | TC_MALFORMED_MODEL_OUTPUT

fun exit_code_of :: "terminal_outcome \<Rightarrow> int" where
  "exit_code_of SUCCESS = 0"
| "exit_code_of CANDIDATE_FAILURE = 1"
| "exit_code_of POLICY_VIOLATION = 3"
| "exit_code_of STATIC_CHECK_FAILURE = 4"
| "exit_code_of RUN_NOT_REPRODUCIBLE = 5"
| "exit_code_of INFRASTRUCTURE_FAILURE = 6"
| "exit_code_of MALFORMED_MODEL_OUTPUT = 7"

fun terminal_summary :: "terminal_outcome \<Rightarrow> string" where
  "terminal_summary SUCCESS = ''repair candidate passed all required checks''"
| "terminal_summary CANDIDATE_FAILURE = ''repair candidate did not pass required verification''"
| "terminal_summary POLICY_VIOLATION = ''patch proposal violated the repair policy''"
| "terminal_summary STATIC_CHECK_FAILURE = ''repair candidate failed static validation''"
| "terminal_summary RUN_NOT_REPRODUCIBLE = ''declared baseline failure was not reproducible''"
| "terminal_summary INFRASTRUCTURE_FAILURE = ''repair run encountered an infrastructure failure''"
| "terminal_summary MALFORMED_MODEL_OUTPUT = ''model output was not a valid repair response''"

text \<open>\<open>_OUTCOME_CODES\<close>; success has no entry\<close>

fun terminal_code_of :: "terminal_outcome \<Rightarrow> terminal_code option" where
  "terminal_code_of SUCCESS = None"
| "terminal_code_of CANDIDATE_FAILURE = Some TC_CANDIDATE_FAILURE"
| "terminal_code_of POLICY_VIOLATION = Some TC_POLICY_VIOLATION"
| "terminal_code_of STATIC_CHECK_FAILURE = Some TC_STATIC_CHECK_FAILURE"
| "terminal_code_of RUN_NOT_REPRODUCIBLE = Some TC_NOT_REPRODUCIBLE"
| "terminal_code_of INFRASTRUCTURE_FAILURE = Some TC_INFRASTRUCTURE_FAILURE"
| "terminal_code_of MALFORMED_MODEL_OUTPUT = Some TC_MALFORMED_MODEL_OUTPUT"

text \<open>\<open>TerminalOutcome(self.code.value)\<close>: the two enumerations share their values\<close>

fun outcome_of_code :: "terminal_code \<Rightarrow> terminal_outcome" where
  "outcome_of_code TC_CANDIDATE_FAILURE = CANDIDATE_FAILURE"
| "outcome_of_code TC_POLICY_VIOLATION = POLICY_VIOLATION"
| "outcome_of_code TC_STATIC_CHECK_FAILURE = STATIC_CHECK_FAILURE"
| "outcome_of_code TC_NOT_REPRODUCIBLE = RUN_NOT_REPRODUCIBLE"
| "outcome_of_code TC_INFRASTRUCTURE_FAILURE = INFRASTRUCTURE_FAILURE"
| "outcome_of_code TC_MALFORMED_MODEL_OUTPUT = MALFORMED_MODEL_OUTPUT"

record terminal_diagnostic =
  td_code :: terminal_code
  td_message :: string

definition valid_terminal_diagnostic :: "terminal_diagnostic \<Rightarrow> bool" where
  [valid_defs]: "valid_terminal_diagnostic d \<longleftrightarrow> td_message d = terminal_summary (outcome_of_code (td_code d))"

text \<open>\<open>TerminalDiagnostic.for_outcome\<close>; \<open>None\<close> is the \<open>ValueError\<close>\<close>

definition diagnostic_for_outcome :: "terminal_outcome \<Rightarrow> terminal_diagnostic option" where
  "diagnostic_for_outcome out =
     (if out = SUCCESS then None
      else (case terminal_code_of out of
              None \<Rightarrow> None
            | Some c \<Rightarrow> (let d = \<lparr>td_code = c, td_message = terminal_summary out\<rparr> in
                if valid_terminal_diagnostic d then Some d else None)))"

record terminal_route =
  te_outcome :: terminal_outcome
  te_exit_code :: int
  te_diagnostic :: "terminal_diagnostic option"

definition valid_terminal_route :: "terminal_route \<Rightarrow> bool" where
  [valid_defs]: "valid_terminal_route r \<longleftrightarrow>
     opt_valid valid_terminal_diagnostic (te_diagnostic r) \<and>
     te_exit_code r = exit_code_of (te_outcome r) \<and>
     (if te_outcome r = SUCCESS then te_diagnostic r = None
      else diagnostic_for_outcome (te_outcome r) \<noteq> None \<and>
           te_diagnostic r = diagnostic_for_outcome (te_outcome r))"

text \<open>\<open>TerminalRoute.for_outcome\<close>; \<open>None\<close> when the route cannot be constructed\<close>

definition route_for_outcome :: "terminal_outcome \<Rightarrow> terminal_route option" where
  "route_for_outcome out =
     (let r = \<lparr>te_outcome = out, te_exit_code = exit_code_of out,
               te_diagnostic = (if out = SUCCESS then None else diagnostic_for_outcome out)\<rparr> in
      if valid_terminal_route r then Some r else None)"

section \<open>Evidence\<close>

record routing_evidence =
  rv_baseline :: "baseline_result option"
  rv_policy :: "policy_result option"
  rv_static :: "static_result option"
  rv_verification :: "verification_result option"
  rv_evaluation :: "candidate_evaluation option"
  rv_failure_override :: "terminal_outcome option"

definition empty_evidence :: routing_evidence where
  "empty_evidence = \<lparr>rv_baseline = None, rv_policy = None, rv_static = None, rv_verification = None,
     rv_evaluation = None, rv_failure_override = None\<rparr>"

text \<open>\<open>any(value is not None for value in later)\<close>, and its suffixes\<close>

definition later_evidence :: "routing_evidence \<Rightarrow> bool" where
  "later_evidence e \<longleftrightarrow> rv_policy e \<noteq> None \<or> rv_static e \<noteq> None \<or> rv_verification e \<noteq> None \<or> rv_evaluation e \<noteq> None"

definition candidate_evidence :: "routing_evidence \<Rightarrow> bool" where
  "candidate_evidence e \<longleftrightarrow> rv_static e \<noteq> None \<or> rv_verification e \<noteq> None \<or> rv_evaluation e \<noteq> None"

definition verification_evidence :: "routing_evidence \<Rightarrow> bool" where
  "verification_evidence e \<longleftrightarrow> rv_verification e \<noteq> None \<or> rv_evaluation e \<noteq> None"

text \<open>\<open>RoutingEvidence.validate_override\<close>: the checks in the order of the source\<close>

definition override_ok :: "routing_evidence \<Rightarrow> bool" where
  "override_ok e \<longleftrightarrow>
     rv_failure_override e \<notin> {Some SUCCESS, Some POLICY_VIOLATION, Some STATIC_CHECK_FAILURE, Some RUN_NOT_REPRODUCIBLE} \<and>
     \<not> (rv_baseline e = None \<and> later_evidence e) \<and>
     (case rv_baseline e of None \<Rightarrow> True | Some b \<Rightarrow> \<not> (br_outcome b \<noteq> REPRODUCED_FAILURE \<and> later_evidence e)) \<and>
     \<not> (rv_policy e = None \<and> candidate_evidence e) \<and>
     (case rv_policy e of None \<Rightarrow> True | Some p \<Rightarrow> \<not> (\<not> pr_approved p \<and> candidate_evidence e)) \<and>
     \<not> (rv_static e = None \<and> verification_evidence e) \<and>
     (case rv_static e of None \<Rightarrow> True | Some s \<Rightarrow> \<not> (st_outcome s \<noteq> STATIC_PASSED \<and> verification_evidence e)) \<and>
     \<not> (rv_verification e = None \<and> rv_evaluation e \<noteq> None) \<and>
     \<not> (rv_failure_override e \<in> {Some CANDIDATE_FAILURE, Some MALFORMED_MODEL_OUTPUT} \<and> later_evidence e)"

definition valid_routing_evidence :: "routing_evidence \<Rightarrow> bool" where
  [valid_defs]: "valid_routing_evidence e \<longleftrightarrow>
     opt_valid valid_baseline_result (rv_baseline e) \<and> opt_valid valid_policy_result (rv_policy e) \<and>
     opt_valid valid_static_result (rv_static e) \<and> opt_valid valid_verification_result (rv_verification e) \<and>
     opt_valid valid_candidate_evaluation (rv_evaluation e) \<and> override_ok e"

definition strict_evidence :: "routing_evidence \<Rightarrow> routing_evidence option" where
  "strict_evidence e = (if valid_routing_evidence e then Some e else None)"

section \<open>Routing\<close>

definition route_candidate :: "verification_result \<Rightarrow> candidate_evaluation \<Rightarrow> terminal_outcome" where
  "route_candidate v ev =
     (case vr_outcome v of
        VERIFICATION_PASSED \<Rightarrow>
          if ce_functional_status ev = FS_PASSED then SUCCESS else INFRASTRUCTURE_FAILURE
      | VERIFICATION_CANDIDATE_FAILED \<Rightarrow>
          if ce_functional_status ev = FS_FAILED then CANDIDATE_FAILURE else INFRASTRUCTURE_FAILURE
      | VERIFICATION_INFRASTRUCTURE \<Rightarrow> INFRASTRUCTURE_FAILURE)"

definition route_static :: "routing_evidence \<Rightarrow> terminal_outcome" where
  "route_static e =
     (case rv_static e of
        None \<Rightarrow> INFRASTRUCTURE_FAILURE
      | Some s \<Rightarrow>
          (case st_outcome s of
             STATIC_CANDIDATE_FAILED \<Rightarrow> STATIC_CHECK_FAILURE
           | STATIC_INFRASTRUCTURE \<Rightarrow> INFRASTRUCTURE_FAILURE
           | STATIC_PASSED \<Rightarrow>
               (case (rv_verification e, rv_evaluation e) of
                  (Some v, Some ev) \<Rightarrow> route_candidate v ev
                | _ \<Rightarrow> INFRASTRUCTURE_FAILURE)))"

definition route_outcome :: "routing_evidence \<Rightarrow> terminal_outcome" where
  "route_outcome evidence =
     (case strict_evidence evidence of
        None \<Rightarrow> INFRASTRUCTURE_FAILURE
      | Some e \<Rightarrow>
          (case rv_failure_override e of
             Some out \<Rightarrow> out
           | None \<Rightarrow>
               (case rv_baseline e of
                  None \<Rightarrow> INFRASTRUCTURE_FAILURE
                | Some b \<Rightarrow>
                    (case br_outcome b of
                       NOT_REPRODUCIBLE \<Rightarrow> RUN_NOT_REPRODUCIBLE
                     | BASELINE_INFRASTRUCTURE \<Rightarrow> INFRASTRUCTURE_FAILURE
                     | REPRODUCED_FAILURE \<Rightarrow>
                         (case rv_policy e of
                            None \<Rightarrow> INFRASTRUCTURE_FAILURE
                          | Some p \<Rightarrow> if \<not> pr_approved p then POLICY_VIOLATION else route_static e)))))"

definition route_terminal :: "routing_evidence \<Rightarrow> terminal_route option" where
  "route_terminal evidence = route_for_outcome (route_outcome evidence)"

section \<open>Routes are always constructed\<close>

lemma route_for_outcome_Some:
  "\<exists>r. route_for_outcome out = Some r \<and> te_outcome r = out \<and> te_exit_code r = exit_code_of out \<and> valid_terminal_route r"
  by (cases out) (simp_all add: route_for_outcome_def valid_terminal_route_def diagnostic_for_outcome_def
      valid_terminal_diagnostic_def Let_def)

lemma exit_code_inj: "exit_code_of a = exit_code_of b \<longleftrightarrow> a = b"
  by (cases a; cases b) simp_all

end
