(* ===== verification/Routing_Claims.thy ===== *)
theory Routing_Claims
  imports Routing Evaluation_Claims
begin

text \<open>
  The properties of \<open>route_terminal\<close>: routes exist and carry the exit code of their outcome, and each
  outcome is reported exactly for the evidence that means it.
\<close>

lemma route_static_success:
  "route_static e = SUCCESS \<longleftrightarrow> (\<exists>s v ev. rv_static e = Some s \<and> st_outcome s = STATIC_PASSED \<and>
     rv_verification e = Some v \<and> vr_outcome v = VERIFICATION_PASSED \<and>
     rv_evaluation e = Some ev \<and> ce_functional_status ev = FS_PASSED)"
  by (auto simp: route_static_def route_candidate_def split: option.splits static_outcome.splits
      verification_outcome.splits)

lemma route_static_other:
  "route_static e \<noteq> POLICY_VIOLATION" "route_static e \<noteq> RUN_NOT_REPRODUCIBLE" "route_static e \<noteq> MALFORMED_MODEL_OUTPUT"
  "route_static e = STATIC_CHECK_FAILURE \<longleftrightarrow> (\<exists>s. rv_static e = Some s \<and> st_outcome s = STATIC_CANDIDATE_FAILED)"
  "route_static e = CANDIDATE_FAILURE \<longleftrightarrow> (\<exists>s v ev. rv_static e = Some s \<and> st_outcome s = STATIC_PASSED \<and>
     rv_verification e = Some v \<and> vr_outcome v = VERIFICATION_CANDIDATE_FAILED \<and>
     rv_evaluation e = Some ev \<and> ce_functional_status ev = FS_FAILED)"
  by (auto simp: route_static_def route_candidate_def split: option.splits static_outcome.splits
      verification_outcome.splits)

lemmas route_splits = option.splits baseline_outcome.splits if_splits

lemma route_success:
  "route_outcome e = SUCCESS \<longleftrightarrow> valid_routing_evidence e \<and> rv_failure_override e = None \<and>
     (\<exists>b p. rv_baseline e = Some b \<and> br_outcome b = REPRODUCED_FAILURE \<and> rv_policy e = Some p \<and> pr_approved p) \<and>
     route_static e = SUCCESS"
  by (auto simp: route_outcome_def strict_evidence_def valid_routing_evidence_def override_ok_def split: route_splits)

text \<open>What the validators of the evidence say about a success\<close>

lemma baseline_reproduced:
  "valid_baseline_result b \<Longrightarrow> br_outcome b = REPRODUCED_FAILURE \<Longrightarrow>
   \<exists>e. br_evidence b = Some e \<and> be_completion e = NORMAL \<and> be_exit_code e \<notin> {None, Some 0}"
  by (auto simp: valid_baseline_result_def baseline_outcome_ok_def Let_def split: option.splits)

lemma static_passed_checks:
  "valid_static_result s \<Longrightarrow> st_outcome s = STATIC_PASSED \<Longrightarrow>
   map cr_check (st_checks s) = all_checks \<and> set (map cr_status (st_checks s)) \<subseteq> {PASSED, NOT_APPLICABLE}"
  by (auto simp: valid_static_result_def static_outcome_ok_def Let_def)

lemma verification_passed_stages:
  assumes "valid_verification_result v" "vr_outcome v = VERIFICATION_PASSED"
  shows "map sg_stage (vr_stages v) = all_stages \<and> list_all (\<lambda>r. sg_exit_code r = Some 0) (vr_stages v)"
proof -
  from assms have "derive_outcome (vr_stages v) = Some VERIFICATION_PASSED"
    by (simp add: valid_verification_result_def)
  from derive_passed [OF this] assms(1) show ?thesis
    by (auto simp: valid_verification_result_def list_all_iff valid_stage_result_def stage_status_ok_def)
qed

section \<open>Properties\<close>

text \<open>Every run, whatever its evidence, gets a valid route with the outcome of the decision
  procedure; the exit code is 0 exactly for a success, and outcomes with the same exit code are
  equal.\<close>

theorem every_run_is_routed:
  "\<exists>r. route_terminal e = Some r \<and> valid_terminal_route r \<and> te_outcome r = route_outcome e \<and>
     (te_exit_code r = 0 \<longleftrightarrow> te_outcome r = SUCCESS) \<and>
     (te_exit_code r = exit_code_of out \<longleftrightarrow> te_outcome r = out)"
proof -
  obtain r where "route_terminal e = Some r" "te_outcome r = route_outcome e"
      "te_exit_code r = exit_code_of (te_outcome r)" "valid_terminal_route r"
    using route_for_outcome_Some [of "route_outcome e"] by (auto simp: route_terminal_def)
  then show ?thesis using exit_code_inj [of _ SUCCESS] exit_code_inj by (metis exit_code_of.simps(1))
qed

text \<open>C11: A success means: the baseline run failed with a normal completion, the policy found no
  violation, the seven static checks passed or did not apply, the targeted, visible and hidden stages
  ended with exit code 0, and the evaluation passed.\<close>

theorem success_needs_all_evidence:
  assumes "route_terminal e = Some r" "te_exit_code r = 0"
  shows "\<exists>b bev p s v ev.
    rv_baseline e = Some b \<and> br_evidence b = Some bev \<and> be_completion bev = NORMAL \<and> be_exit_code bev \<notin> {None, Some 0} \<and>
    rv_policy e = Some p \<and> pr_violations p = [] \<and>
    rv_static e = Some s \<and> map cr_check (st_checks s) = all_checks \<and>
    set (map cr_status (st_checks s)) \<subseteq> {PASSED, NOT_APPLICABLE} \<and>
    rv_verification e = Some v \<and> map sg_stage (vr_stages v) = all_stages \<and>
    list_all (\<lambda>g. sg_exit_code g = Some 0) (vr_stages v) \<and>
    rv_evaluation e = Some ev \<and> ce_functional_status ev = FS_PASSED"
proof -
  have "route_outcome e = SUCCESS"
    using route_for_outcome_Some [of "route_outcome e"] assms exit_code_inj [of "route_outcome e" SUCCESS]
    by (auto simp: route_terminal_def)
  then obtain b p s v ev where e: "valid_routing_evidence e"
    "rv_baseline e = Some b" "br_outcome b = REPRODUCED_FAILURE" "rv_policy e = Some p" "pr_approved p"
    "rv_static e = Some s" "st_outcome s = STATIC_PASSED" "rv_verification e = Some v"
    "vr_outcome v = VERIFICATION_PASSED" "rv_evaluation e = Some ev" "ce_functional_status ev = FS_PASSED"
    unfolding route_success route_static_success by blast
  then have "valid_baseline_result b" "valid_policy_result p" "valid_static_result s" "valid_verification_result v"
    by (simp_all add: valid_routing_evidence_def)
  with e baseline_reproduced [of b] static_passed_checks [of s] verification_passed_stages [of v] show ?thesis
    by (auto simp: valid_policy_result_def)
qed

text \<open>Without an override, valid evidence that ends the run early is reported as what it is: a
  baseline that does not fail, a rejected policy, failed static checks, failed tests.\<close>

theorem failures_are_blamed_on_their_stage:
  "(route_outcome e = RUN_NOT_REPRODUCIBLE \<longleftrightarrow> valid_routing_evidence e \<and> rv_failure_override e = None \<and>
      (\<exists>b. rv_baseline e = Some b \<and> br_outcome b = NOT_REPRODUCIBLE)) \<and>
   (route_outcome e = POLICY_VIOLATION \<longleftrightarrow> valid_routing_evidence e \<and> rv_failure_override e = None \<and>
      (\<exists>p. rv_policy e = Some p \<and> pr_violations p \<noteq> [])) \<and>
   (route_outcome e = STATIC_CHECK_FAILURE \<longleftrightarrow> valid_routing_evidence e \<and> rv_failure_override e = None \<and>
      (\<exists>s. rv_static e = Some s \<and> st_outcome s = STATIC_CANDIDATE_FAILED)) \<and>
   (route_outcome e = MALFORMED_MODEL_OUTPUT \<longleftrightarrow> valid_routing_evidence e \<and>
      rv_failure_override e = Some MALFORMED_MODEL_OUTPUT)"
proof (cases "valid_routing_evidence e")
  case False
  then show ?thesis by (simp add: route_outcome_def strict_evidence_def)
next
  case True
  then have o: "override_ok e" and p: "\<And>p. rv_policy e = Some p \<Longrightarrow> pr_approved p \<longleftrightarrow> pr_violations p = []"
    by (auto simp: valid_routing_evidence_def valid_policy_result_def)
  show ?thesis
  proof (cases "rv_failure_override e")
    case (Some out)
    with True o show ?thesis by (auto simp: route_outcome_def strict_evidence_def override_ok_def)
  next
    case None
    with True o p show ?thesis
      by (auto simp: route_outcome_def strict_evidence_def override_ok_def later_evidence_def candidate_evidence_def
          route_static_other split: route_splits)
  qed
qed


section \<open>A successful run\<close>

definition sample_baseline :: baseline_result where
  "sample_baseline = \<lparr>br_preparation = sample_preparation, br_outcome = REPRODUCED_FAILURE,
     br_evidence = Some \<lparr>be_completion = NORMAL, be_exit_code = Some 1, be_stdout = [], be_stderr = [],
       be_stdout_truncated = False, be_stderr_truncated = False, be_duration_seconds = Finite 1\<rparr>,
     br_diagnostic_code = None, br_message = None\<rparr>"

definition sample_evaluation :: candidate_evaluation where
  "sample_evaluation = \<lparr>ce_case_id = ''case'', ce_functional_status = FS_PASSED, ce_files_changed = [''app/x.py''],
     ce_lines_added = 1, ce_lines_removed = 1, ce_sandbox_duration_seconds = Finite 3,
     ce_model_latency_seconds = None, ce_input_tokens = None, ce_output_tokens = None,
     ce_estimated_cost_usd = None, ce_estimated_cost_currency = ''USD''\<rparr>"

definition sample_routing_evidence :: routing_evidence where
  "sample_routing_evidence = \<lparr>rv_baseline = Some sample_baseline,
     rv_policy = Some \<lparr>pr_approved = True, pr_violations = []\<rparr>,
     rv_static = Some (vq_static_result sample_verify_request), rv_verification = Some sample_verification,
     rv_evaluation = Some sample_evaluation, rv_failure_override = None\<rparr>"

lemma sample_success: "map_option te_exit_code (route_terminal sample_routing_evidence) = Some 0"
  by code_simp

theorem success_needs_all_evidence_witness:
  "\<exists>v. rv_verification sample_routing_evidence = Some v \<and> list_all (\<lambda>g. sg_exit_code g = Some 0) (vr_stages v)"
proof -
  from sample_success obtain r where "route_terminal sample_routing_evidence = Some r" "te_exit_code r = 0" by auto
  from success_needs_all_evidence [OF this] show ?thesis by blast
qed

end
