(* ===== verification/Regex.thy ===== *)
theory Regex
  imports Prelude
begin

text \<open>
  The part of Python's \<open>re\<close> that the sources use, as a backtracking matcher.  A pattern maps a
  position to the list of the positions after it, in the order in which Python tries them; the first
  one is the match.  A position keeps the character before it (for \<open>\b\<close> and the look-behinds), the rest
  of the text, and the groups matched so far.
\<close>

section \<open>Patterns\<close>

datatype regex =
    Empty
  | Class "char \<Rightarrow> bool"
  | Seq regex regex
  | Alt regex regex
  | Rep "char \<Rightarrow> bool" nat "nat option"
  | Lazy "char \<Rightarrow> bool"
  | Star regex
  | Group nat regex
  | Backref nat
  | NotAfter "char \<Rightarrow> bool"
  | NotBefore "char \<Rightarrow> bool"
  | WordBoundary
  | LineStart
  | LineEnd
  | TextStart
  | TextEnd

record position =
  px_prev :: "char option"
  px_rest :: string
  px_groups :: "(nat \<times> string) list"

definition advance :: "nat \<Rightarrow> position \<Rightarrow> position" where
  "advance n p = (if n = 0 then p
     else p\<lparr>px_prev := Some (px_rest p ! (n - 1)), px_rest := drop n (px_rest p)\<rparr>)"

text \<open>\<open>\w\<close> for code points below 256: the characters with \<open>str.isalnum\<close>, and the underscore\<close>

definition is_word_char :: "char \<Rightarrow> bool" where
  "is_word_char c = (let n = code c in
     (48 \<le> n \<and> n \<le> 57) \<or> (65 \<le> n \<and> n \<le> 90) \<or> (97 \<le> n \<and> n \<le> 122) \<or> n = 95 \<or>
     n \<in> {170, 178, 179, 181, 185, 186, 188, 189, 190} \<or> (192 \<le> n \<and> n \<noteq> 215 \<and> n \<noteq> 247))"

definition at_word_boundary :: "position \<Rightarrow> bool" where
  "at_word_boundary p =
     ((case px_prev p of None \<Rightarrow> False | Some c \<Rightarrow> is_word_char c) \<noteq>
      (case px_rest p of [] \<Rightarrow> False | c # _ \<Rightarrow> is_word_char c))"

definition guarded :: "bool \<Rightarrow> position \<Rightarrow> position list" where
  "guarded b p = (if b then [p] else [])"

text \<open>The greedy repetition of a class tries the longest run first.\<close>

definition run_length :: "(char \<Rightarrow> bool) \<Rightarrow> nat option \<Rightarrow> string \<Rightarrow> nat" where
  "run_length P bound s =
     (let n = length (takeWhile P s) in case bound of None \<Rightarrow> n | Some b \<Rightarrow> min n b)"

text \<open>The greedy repetition of a group which consumes text: the number bounds the repetitions, and the
  length of the rest is enough.\<close>

fun star_matches :: "nat \<Rightarrow> (position \<Rightarrow> position list) \<Rightarrow> position \<Rightarrow> position list" where
  "star_matches 0 f p = [p]"
| "star_matches (Suc n) f p = concat (map (star_matches n f) (f p)) @ [p]"

fun matches :: "regex \<Rightarrow> position \<Rightarrow> position list" where
  "matches Empty p = [p]"
| "matches (Class P) p =
     (case px_rest p of [] \<Rightarrow> [] | c # _ \<Rightarrow> guarded (P c) (advance 1 p))"
| "matches (Seq r s) p = concat (map (matches s) (matches r p))"
| "matches (Alt r s) p = matches r p @ matches s p"
| "matches (Rep P lo bound) p =
     map (\<lambda>n. advance n p) (rev [lo ..< Suc (run_length P bound (px_rest p))])"
| "matches (Lazy P) p = map (\<lambda>n. advance n p) [0 ..< Suc (run_length P None (px_rest p))]"
| "matches (Star r) p = star_matches (length (px_rest p)) (\<lambda>q. matches r q) p"
| "matches (Group i r) p =
     map (\<lambda>q. q\<lparr>px_groups := (i, take (length (px_rest p) - length (px_rest q)) (px_rest p)) # px_groups q\<rparr>)
       (matches r p)"
| "matches (Backref i) p =
     (case map_of (px_groups p) i of
        None \<Rightarrow> []
      | Some g \<Rightarrow> guarded (startswith (px_rest p) g) (advance (length g) p))"
| "matches (NotAfter P) p = guarded (case px_prev p of None \<Rightarrow> True | Some c \<Rightarrow> \<not> P c) p"
| "matches (NotBefore P) p = guarded (case px_rest p of [] \<Rightarrow> True | c # _ \<Rightarrow> \<not> P c) p"
| "matches WordBoundary p = guarded (at_word_boundary p) p"
| "matches LineStart p = guarded (px_prev p = None \<or> px_prev p = Some newline) p"
| "matches LineEnd p = guarded (px_rest p = [] \<or> hd (px_rest p) = newline) p"
| "matches TextStart p = guarded (px_prev p = None) p"
| "matches TextEnd p = guarded (px_rest p = [] \<or> px_rest p = [newline]) p"

section \<open>Searching\<close>

definition start_at :: "char option \<Rightarrow> string \<Rightarrow> position" where
  "start_at c s = \<lparr>px_prev = c, px_rest = s, px_groups = []\<rparr>"

text \<open>\<open>pattern.match(value)\<close>: the position after the match\<close>

definition re_match :: "regex \<Rightarrow> string \<Rightarrow> position option" where
  "re_match r s = (case matches r (start_at None s) of [] \<Rightarrow> None | p # _ \<Rightarrow> Some p)"

definition re_fullmatch :: "regex \<Rightarrow> string \<Rightarrow> bool" where
  "re_fullmatch r s = list_ex (\<lambda>p. px_rest p = []) (matches r (start_at None s))"

fun search_from :: "regex \<Rightarrow> char option \<Rightarrow> string \<Rightarrow> bool" where
  "search_from r c [] = (matches r (start_at c []) \<noteq> [])"
| "search_from r c (x # xs) = (matches r (start_at c (x # xs)) \<noteq> [] \<or> search_from r (Some x) xs)"

definition re_search :: "regex \<Rightarrow> string \<Rightarrow> bool" where
  "re_search r s = search_from r None s"

text \<open>
  \<open>pattern.finditer(value)\<close>: the positions after the successive matches, which do not overlap; the
  number counts the characters of the last match still to be passed over.  The patterns used here
  match no empty text, so the empty-match rules of \<open>finditer\<close> are not needed.
\<close>

fun find_from :: "regex \<Rightarrow> nat \<Rightarrow> char option \<Rightarrow> string \<Rightarrow> position list" where
  "find_from r skip c [] = []"
| "find_from r (Suc skip) c (x # xs) = find_from r skip (Some x) xs"
| "find_from r 0 c (x # xs) =
     (case matches r (start_at c (x # xs)) of
        [] \<Rightarrow> find_from r 0 (Some x) xs
      | p # _ \<Rightarrow> p # find_from r (length xs - length (px_rest p)) (Some x) xs)"

definition re_finditer :: "regex \<Rightarrow> string \<Rightarrow> position list" where
  "re_finditer r s = find_from r 0 None s"

text \<open>\<open>pattern.sub(replacement, value)\<close>, the replacement computed from the match; \<open>skip\<close> as above\<close>

fun sub_from :: "regex \<Rightarrow> (position \<Rightarrow> string) \<Rightarrow> nat \<Rightarrow> char option \<Rightarrow> string \<Rightarrow> string" where
  "sub_from r repl skip c [] = []"
| "sub_from r repl (Suc skip) c (x # xs) = sub_from r repl skip (Some x) xs"
| "sub_from r repl 0 c (x # xs) =
     (case matches r (start_at c (x # xs)) of
        [] \<Rightarrow> x # sub_from r repl 0 (Some x) xs
      | p # _ \<Rightarrow> repl p @ sub_from r repl (length xs - length (px_rest p)) (Some x) xs)"

definition re_sub :: "regex \<Rightarrow> (position \<Rightarrow> string) \<Rightarrow> string \<Rightarrow> string" where
  "re_sub r repl s = sub_from r repl 0 None s"

definition group_of :: "nat \<Rightarrow> position \<Rightarrow> string" where
  "group_of i p = (case map_of (px_groups p) i of None \<Rightarrow> [] | Some g \<Rightarrow> g)"

section \<open>Building patterns\<close>

definition lit :: "string \<Rightarrow> regex" where
  "lit s = foldr (\<lambda>c r. Seq (Class (\<lambda>x. x = c)) r) s Empty"

definition ascii_upper :: "char \<Rightarrow> char" where
  "ascii_upper c = (if 97 \<le> code c \<and> code c \<le> 122 then char_of (code c - 32) else c)"

text \<open>With \<open>re.IGNORECASE\<close> a letter matches both cases; below 256 this concerns the ASCII letters of
  the patterns only.\<close>

definition lit_ci :: "string \<Rightarrow> regex" where
  "lit_ci s = foldr (\<lambda>c r. Seq (Class (\<lambda>x. ascii_upper x = ascii_upper c)) r) s Empty"

definition seqs :: "regex list \<Rightarrow> regex" where
  "seqs rs = foldr Seq rs Empty"

fun alts :: "regex list \<Rightarrow> regex" where
  "alts [] = Class (\<lambda>_. False)"
| "alts [r] = r"
| "alts (r # rs) = Alt r (alts rs)"

definition optional :: "regex \<Rightarrow> regex" where
  "optional r = Alt r Empty"

definition one_of :: "string \<Rightarrow> regex" where
  "one_of cs = Class (\<lambda>c. c \<in> set cs)"

definition none_of :: "string \<Rightarrow> char \<Rightarrow> bool" where
  "none_of cs c \<longleftrightarrow> c \<notin> set cs"

definition one_or_more :: "(char \<Rightarrow> bool) \<Rightarrow> regex" where
  "one_or_more P = Rep P 1 None"

definition any_number :: "(char \<Rightarrow> bool) \<Rightarrow> regex" where
  "any_number P = Rep P 0 None"

section \<open>Matches are prefixes\<close>

lemma advance_rest: "px_rest (advance n p) = drop n (px_rest p)"
  by (simp add: advance_def)

text \<open>Every position a pattern leads to lies at or after the start: a match consumes a prefix.\<close>

lemma star_matches_suffix:
  assumes "\<And>p q. q \<in> set (f p) \<Longrightarrow> \<exists>u. px_rest p = u @ px_rest q"
  shows "q \<in> set (star_matches n f p) \<Longrightarrow> \<exists>u. px_rest p = u @ px_rest q"
proof (induction n arbitrary: p)
  case (Suc n)
  from Suc.prems consider "q = p" | m where "m \<in> set (f p)" "q \<in> set (star_matches n f m)" by auto
  then show ?case
  proof cases
    case 2
    with assms Suc.IH obtain u v where "px_rest p = u @ px_rest m" "px_rest m = v @ px_rest q" by meson
    then show ?thesis by (metis append_assoc)
  qed simp
qed simp

lemma matches_suffix: "q \<in> set (matches r p) \<Longrightarrow> \<exists>u. px_rest p = u @ px_rest q"
proof (induction r arbitrary: p q)
  case (Seq r s)
  then obtain m where "m \<in> set (matches r p)" "q \<in> set (matches s m)" by auto
  with Seq.IH obtain u v where "px_rest p = u @ px_rest m" "px_rest m = v @ px_rest q" by meson
  then show ?case by (metis append_assoc)
next
  case (Rep P lo bound)
  then show ?case by (auto simp: advance_rest; metis append_take_drop_id)
next
  case (Lazy P)
  then show ?case by (auto simp: advance_rest; metis append_take_drop_id)
next
  case (Star r)
  then show ?case
    using star_matches_suffix [of "\<lambda>q. matches r q"] by (metis matches.simps(7))
next
  case (Backref i)
  then show ?case
    by (auto simp: guarded_def advance_rest split: option.splits if_splits) (metis append_take_drop_id)
next
  case (Class P)
  then show ?case
    by (auto simp: guarded_def advance_rest split: list.splits if_splits) (metis append_take_drop_id)
qed (auto simp: guarded_def split: if_splits option.splits list.splits)


section \<open>Reading patterns declaratively\<close>

lemma advance_advance [simp]: "m + n \<le> length (px_rest p) \<Longrightarrow> advance n (advance m p) = advance (m + n) p"
  by (auto simp: advance_def add.commute nth_drop)

lemma advance_zero [simp]: "advance 0 p = p"
  by (simp add: advance_def)

lemma matches_lit: "matches (lit s) p = guarded (startswith (px_rest p) s) (advance (length s) p)"
proof (induction s arbitrary: p)
  case Nil
  then show ?case by (simp add: lit_def guarded_def)
next
  case (Cons c s)
  have l: "lit (c # s) = Seq (Class (\<lambda>x. x = c)) (lit s)" by (simp add: lit_def)
  show ?case
  proof (cases "px_rest p")
    case Nil
    then show ?thesis by (simp add: l guarded_def)
  next
    case r: (Cons x xs)
    have "startswith xs s \<Longrightarrow> 1 + length s \<le> length (px_rest p)"
      using r by (auto simp: startswith_iff)
    with r show ?thesis by (auto simp: l guarded_def Cons.IH advance_rest)
  qed
qed

lemma long_run: "n \<le> length (takeWhile P s) \<longleftrightarrow> n \<le> length s \<and> list_all P (take n s)"
proof (induction s arbitrary: n)
  case (Cons c s)
  then show ?case by (cases n) auto
qed simp

lemma matches_exactly:
  "matches (Rep P n (Some n)) p =
     guarded (n \<le> length (px_rest p) \<and> list_all P (take n (px_rest p))) (advance n p)"
  using long_run [of n P "px_rest p"] by (auto simp: run_length_def guarded_def Let_def min_def)

lemma search_from_iff:
  "search_from r c s \<longleftrightarrow>
     (\<exists>u v. s = u @ v \<and> matches r (start_at (if u = [] then c else Some (last u)) v) \<noteq> [])"
proof (induction s arbitrary: c)
  case (Cons x xs)
  let ?found = "\<lambda>c s u v. s = u @ v \<and> matches r (start_at (if u = [] then c else Some (last u)) v) \<noteq> []"
  show ?case
  proof
    assume "search_from r c (x # xs)"
    then consider "matches r (start_at c (x # xs)) \<noteq> []" | "search_from r (Some x) xs" by auto
    then show "\<exists>u v. ?found c (x # xs) u v"
    proof cases
      case 1
      then have "?found c (x # xs) [] (x # xs)" by simp
      then show ?thesis by blast
    next
      case 2
      then obtain u v where "?found (Some x) xs u v" using Cons.IH by blast
      then have "?found c (x # xs) (x # u) v" by (cases "u = []") simp_all
      then show ?thesis by blast
    qed
  next
    assume "\<exists>u v. ?found c (x # xs) u v"
    then obtain u v where f: "?found c (x # xs) u v" by blast
    show "search_from r c (x # xs)"
    proof (cases u)
      case Nil
      with f have "matches r (start_at c (x # xs)) \<noteq> []" by auto
      then show ?thesis by simp
    next
      case u: (Cons y u')
      with f have "?found (Some x) xs u' v" by (cases "u' = []") simp_all
      then have "search_from r (Some x) xs" using Cons.IH by blast
      then show ?thesis by simp
    qed
  qed
qed simp

lemma re_search_iff:
  "re_search r s \<longleftrightarrow> (\<exists>u v. s = u @ v \<and> matches r (start_at (if u = [] then None else Some (last u)) v) \<noteq> [])"
  by (simp add: re_search_def search_from_iff)

end
