(* ===== verification/Policy_Content.thy ===== *)
theory Policy_Content
  imports Policy_Model Patches Regex
begin

text \<open>
  The content rules of \<open>app/agent/policy.py\<close> and \<open>validate_patch_policy\<close>: secrets, disabled tests,
  removed assertions, subprocesses and dependencies.  CPython's tokenizer and parser are a parameter
  (\<open>python_front_end\<close>): what they return for a line is arbitrary, the inspection of it is modelled.
\<close>

section \<open>Secrets\<close>

definition is_quote :: "char \<Rightarrow> bool" where
  "is_quote c \<longleftrightarrow> c = CHR ''\"'' \<or> c = CHR 0x27"

definition is_identifier_char :: "char \<Rightarrow> bool" where
  "is_identifier_char c \<longleftrightarrow> is_ascii_alnum c \<or> c = CHR ''_''"

definition is_upper_alnum :: "char \<Rightarrow> bool" where
  "is_upper_alnum c \<longleftrightarrow> is_digit c \<or> (65 \<le> code c \<and> code c \<le> 90)"

definition private_key_pattern :: regex where
  "private_key_pattern = seqs [lit_ci ''-----BEGIN '',
     optional (alts [lit_ci ''RSA '', lit_ci ''DSA '', lit_ci ''EC '', lit_ci ''OPENSSH '']),
     lit_ci ''PRIVATE KEY-----'']"

definition aws_key_pattern :: regex where
  "aws_key_pattern = seqs [WordBoundary, alts [lit ''AKIA'', lit ''ASIA''],
     Rep is_upper_alnum 16 (Some 16), WordBoundary]"

definition github_token_pattern :: regex where
  "github_token_pattern = seqs [WordBoundary,
     Alt (seqs [lit ''gh'', one_of ''pousr'', lit ''_'', Rep is_ascii_alnum 36 (Some 255)])
         (seqs [lit ''github_pat_'', Rep is_identifier_char 60 (Some 255)]),
     WordBoundary]"

text \<open>Group 1 is \<open>key_quote\<close>, group 2 is \<open>value\<close>.\<close>

definition assigned_secret_pattern :: regex where
  "assigned_secret_pattern = seqs [NotAfter is_identifier_char,
     Group 1 (Rep is_quote 0 (Some 1)),
     alts [seqs [lit_ci ''api'', optional (one_of ''_-''), lit_ci ''key''],
           seqs [lit_ci ''access'', optional (one_of ''_-''), lit_ci ''token''],
           seqs [lit_ci ''client'', optional (one_of ''_-''), lit_ci ''secret''],
           lit_ci ''password'',
           seqs [lit_ci ''private'', optional (one_of ''_-''), lit_ci ''key'']],
     Backref 1, NotBefore is_identifier_char, any_number is_space, one_of '':='', any_number is_space,
     optional (Seq (lit ''('') (any_number is_space)),
     Group 2 (Alt
       (seqs [Class is_quote,
          one_or_more (\<lambda>c. \<not> is_quote c \<and> c \<noteq> carriage_return \<and> c \<noteq> newline), Class is_quote])
       (one_or_more (\<lambda>c. \<not> is_space c \<and> none_of '',;#)'' c)))]"

definition placeholder_pattern :: regex where
  "placeholder_pattern = seqs [TextStart, Rep is_quote 0 (Some 1),
     alts [lit_ci ''placeholder'', lit_ci ''changeme'', lit_ci ''change_me'', lit_ci ''example'',
       lit_ci ''dummy'', lit_ci ''test'', lit_ci ''redacted'', lit_ci ''none'', lit_ci ''null'',
       one_or_more (\<lambda>c. ascii_upper c = CHR ''X''),
       seqs [lit_ci ''your'', one_of ''_-'', any_number (\<lambda>c. c \<noteq> newline)],
       seqs [lit ''<'', one_or_more (none_of ''>''), lit ''>''],
       seqs [lit ''${'', one_or_more (none_of ''}''), lit ''}'']],
     Rep is_quote 0 (Some 1), TextEnd]"

text \<open>\<open>value.strip(chars)\<close>\<close>

definition strip_of :: "(char \<Rightarrow> bool) \<Rightarrow> string \<Rightarrow> string" where
  "strip_of P s = rev (dropWhile P (rev (dropWhile P s)))"

definition assigned_secret :: "position \<Rightarrow> bool" where
  "assigned_secret m \<longleftrightarrow> 8 \<le> length (strip_of is_quote (group_of 2 m)) \<and>
     \<not> re_fullmatch placeholder_pattern (group_of 2 m)"

definition contains_secret :: "string \<Rightarrow> bool" where
  "contains_secret value \<longleftrightarrow>
     re_search private_key_pattern value \<or> re_search aws_key_pattern value \<or>
     re_search github_token_pattern value \<or>
     list_ex assigned_secret (re_finditer assigned_secret_pattern value)"

definition proposal_strings :: "patch_proposal \<Rightarrow> string list" where
  "proposal_strings p = [pr_summary p, pr_root_cause p] @ pr_files_changed p @
     [pr_unified_diff p, pr_expected_effect p] @ pr_risks p"

definition contains_non_text_control :: "string \<Rightarrow> bool" where
  "contains_non_text_control = list_ex (\<lambda>c.
     (code c < 32 \<and> c \<noteq> CHR 0x09 \<and> c \<noteq> newline \<and> c \<noteq> carriage_return) \<or> code c = 127 \<or>
     (128 \<le> code c \<and> code c \<le> 159))"

definition binary_marker_pattern :: regex where
  "binary_marker_pattern = seqs [LineStart,
     Alt (lit ''GIT binary patch'')
       (seqs [lit ''Binary files '', one_or_more (\<lambda>c. c \<noteq> carriage_return \<and> c \<noteq> newline), lit '' differ'']),
     LineEnd]"

section \<open>Tokens and trees of a Python line\<close>

datatype token_type = TOK_SIGNIFICANT | TOK_IGNORED

record py_token =
  tk_type :: token_type
  tk_string :: string

text \<open>How the token generator ends: at the end of the text, with an \<open>IndentationError\<close> or
  \<open>TokenError\<close>, or with a \<open>MemoryError\<close> or \<open>RecursionError\<close>.\<close>

datatype token_end = TokensDone | TokensRejected | TokensExhausted

text \<open>The node classes that the inspection distinguishes; any other node keeps its children only.\<close>

datatype py_node =
    Name string
  | Attribute py_node string
  | Call py_node "py_node list" "(string option \<times> py_node) list"
  | ConstantTrue
  | Assign "py_node list" py_node
  | AnnAssign py_node py_node "py_node option"
  | AssertNode "py_node list"
  | WithNode "(py_node \<times> py_node option) list" "py_node list"
  | ImportNode "string list"
  | ImportFrom "string option" "string list"
  | OtherNode "py_node list"

datatype py_parse = Parsed py_node | ParseRejected | ParseExhausted

record python_front_end =
  fe_tokens :: "string \<Rightarrow> py_token list \<times> token_end"
  fe_parse :: "string \<Rightarrow> py_parse"

text \<open>\<open>_PolicyInspectionError\<close>\<close>

datatype inspection_error = PolicyInspectionError

fun token_values_loop :: "nat \<Rightarrow> string list \<Rightarrow> py_token list \<Rightarrow> token_end \<Rightarrow> inspection_error + string list" where
  "token_values_loop count values [] fin = (if fin = TokensExhausted then Inl PolicyInspectionError else Inr values)"
| "token_values_loop count values (t # ts) fin =
     (if Suc count > 4096 then Inl PolicyInspectionError
      else token_values_loop (Suc count)
        (if tk_type t \<noteq> TOK_IGNORED \<and> \<not> (tk_string t \<noteq> [] \<and> list_all is_space (tk_string t))
         then values @ [tk_string t] else values) ts fin)"

definition python_token_values :: "python_front_end \<Rightarrow> string \<Rightarrow> inspection_error + string list" where
  "python_token_values fe content = token_values_loop 0 [] (fst (fe_tokens fe content)) (snd (fe_tokens fe content))"

definition tokens_at :: "string list \<Rightarrow> nat \<Rightarrow> string list \<Rightarrow> bool" where
  "tokens_at values i expected \<longleftrightarrow> take (length expected) (drop i values) = expected"

definition rooted_at :: "string list \<Rightarrow> nat \<Rightarrow> bool" where
  "rooted_at values i \<longleftrightarrow> i = 0 \<or> values ! (i - 1) \<noteq> ''.''"

definition has_token_sequence :: "string list \<Rightarrow> string list \<Rightarrow> bool" where
  "has_token_sequence values expected =
     list_ex (\<lambda>i. tokens_at values i expected) [0 ..< Suc (length values) - length expected]"

definition has_rooted_token_sequence :: "string list \<Rightarrow> string list \<Rightarrow> bool" where
  "has_rooted_token_sequence values expected =
     list_ex (\<lambda>i. tokens_at values i expected \<and> rooted_at values i) [0 ..< Suc (length values) - length expected]"

text \<open>\<open>values[i:i+2] == (owner, ".")\<close>, rooted, and the third token starts with the prefix\<close>

definition has_member_prefix :: "string list \<Rightarrow> string \<Rightarrow> string \<Rightarrow> bool" where
  "has_member_prefix values owner prefix =
     list_ex (\<lambda>i. tokens_at values i [owner, ''.''] \<and> rooted_at values i \<and> startswith (values ! (i + 2)) prefix)
       [0 ..< length values - 2]"

fun attribute_chain :: "py_node \<Rightarrow> string list" where
  "attribute_chain (Attribute n a) = attribute_chain n @ [a]"
| "attribute_chain (Name x) = [x]"
| "attribute_chain _ = []"

text \<open>\<open>ast.walk\<close>: a node and everything below it (the order is not used)\<close>

fun walk :: "py_node \<Rightarrow> py_node list" where
  "walk (Name x) = [Name x]"
| "walk (Attribute n a) = Attribute n a # walk n"
| "walk (Call f args ks) = Call f args ks # walk f @ concat (map walk args) @ concat (map (\<lambda>k. walk (snd k)) ks)"
| "walk ConstantTrue = [ConstantTrue]"
| "walk (Assign ts v) = Assign ts v # concat (map walk ts) @ walk v"
| "walk (AnnAssign t a v) = AnnAssign t a v # walk t @ walk a @ (case v of None \<Rightarrow> [] | Some x \<Rightarrow> walk x)"
| "walk (AssertNode ns) = AssertNode ns # concat (map walk ns)"
| "walk (WithNode items body) = WithNode items body #
     concat (map (\<lambda>i. walk (fst i) @ (case snd i of None \<Rightarrow> [] | Some x \<Rightarrow> walk x)) items) @ concat (map walk body)"
| "walk (ImportNode ns) = [ImportNode ns]"
| "walk (ImportFrom m ns) = [ImportFrom m ns]"
| "walk (OtherNode ns) = OtherNode ns # concat (map walk ns)"


section \<open>Test changes and subprocesses\<close>

definition parsed_python_line :: "python_front_end \<Rightarrow> string \<Rightarrow> bool \<Rightarrow> bool \<Rightarrow> inspection_error + py_node option" where
  "parsed_python_line fe content decorator suite =
     (let stripped = lstrip content in
      if stripped = [] \<or> startswith stripped ''#'' then Inr None
      else (let source = (if decorator
                then stripped @ [newline] @ ''def _tracefix_policy_target():'' @ [newline] @ ''    pass''
                else if suite then stripped @ [newline] @ ''    pass'' else stripped) in
            case fe_parse fe source of
              Parsed n \<Rightarrow> Inr (Some n) | ParseRejected \<Rightarrow> Inr None | ParseExhausted \<Rightarrow> Inl PolicyInspectionError))"

definition test_definition_pattern :: regex where
  "test_definition_pattern = seqs [TextStart, any_number is_space,
     optional (Seq (lit ''async'') (one_or_more is_space)), lit ''def'', one_or_more is_space, lit ''test_'',
     any_number is_identifier_char, any_number is_space, lit ''('']"

definition skip_names :: "string list" where
  "skip_names = [''skip'', ''skipif'', ''xfail'']"

definition is_skip_mark :: "string list \<Rightarrow> bool" where
  "is_skip_mark chain \<longleftrightarrow> chain \<in> set (map (\<lambda>s. [''pytest'', ''mark'', s]) skip_names)"

definition disables_test :: "py_node \<Rightarrow> bool" where
  "disables_test node =
     (case node of
        Attribute _ _ \<Rightarrow> is_skip_mark (attribute_chain node)
      | Call f _ _ \<Rightarrow>
          (let chain = attribute_chain f in
           chain = [''pytest'', ''skip''] \<or> is_skip_mark chain \<or>
           (length chain = 2 \<and> chain ! 0 = ''unittest'' \<and> startswith (chain ! 1) ''skip''))
      | Assign ts v \<Rightarrow> Name ''pytestmark'' \<in> set ts \<and> list_ex (\<lambda>c. is_skip_mark (attribute_chain c)) (walk v)
      | AnnAssign t _ v \<Rightarrow> t = Name ''pytestmark'' \<and>
          (case v of None \<Rightarrow> False | Some x \<Rightarrow> list_ex (\<lambda>c. is_skip_mark (attribute_chain c)) (walk x))
      | _ \<Rightarrow> False)"

definition test_disable_tokens :: "string list \<Rightarrow> bool" where
  "test_disable_tokens tokens \<longleftrightarrow>
     list_ex (\<lambda>name. has_rooted_token_sequence tokens [''pytest'', ''.'', ''mark'', ''.'', name]) skip_names \<or>
     has_rooted_token_sequence tokens [''pytest'', ''.'', ''skip''] \<or>
     has_member_prefix tokens ''unittest'' ''skip''"

text \<open>The tokens first; the tree is only looked at when they say nothing.\<close>

definition inspect ::
  "(string list \<Rightarrow> bool) \<Rightarrow> (py_node \<Rightarrow> bool) \<Rightarrow> python_front_end \<Rightarrow> string \<Rightarrow> bool \<Rightarrow> bool \<Rightarrow> inspection_error + bool" where
  "inspect on_tokens on_node fe content decorator suite =
     bindE (python_token_values fe content) (\<lambda>tokens.
     if on_tokens tokens then Inr True
     else bindE (parsed_python_line fe content decorator suite) (\<lambda>tree.
       Inr (case tree of None \<Rightarrow> False | Some n \<Rightarrow> list_ex on_node (walk n))))"

definition introduces_test_disable :: "python_front_end \<Rightarrow> string \<Rightarrow> inspection_error + bool" where
  "introduces_test_disable fe content =
     inspect test_disable_tokens disables_test fe content (startswith (lstrip content) ''@'') False"

definition unittest_assertions :: "string list" where
  "unittest_assertions = [''assertAlmostEqual'', ''assertCountEqual'', ''assertDictEqual'', ''assertEndsWith'',
     ''assertEqual'', ''assertFalse'', ''assertGreater'', ''assertGreaterEqual'', ''assertHasAttr'', ''assertIn'',
     ''assertIs'', ''assertIsInstance'', ''assertIsNone'', ''assertIsNot'', ''assertIsNotNone'', ''assertIsSubclass'',
     ''assertLess'', ''assertLessEqual'', ''assertListEqual'', ''assertLogs'', ''assertMultiLineEqual'', ''assertNoLogs'',
     ''assertNotAlmostEqual'', ''assertNotEndsWith'', ''assertNotEqual'', ''assertNotHasAttr'', ''assertNotIn'',
     ''assertNotIsInstance'', ''assertNotIsSubclass'', ''assertNotRegex'', ''assertNotStartsWith'', ''assertRaises'',
     ''assertRaisesRegex'', ''assertRegex'', ''assertSequenceEqual'', ''assertSetEqual'', ''assertStartsWith'',
     ''assertTrue'', ''assertTupleEqual'', ''assertWarns'', ''assertWarnsRegex'']"

definition assertion_tokens :: "string list \<Rightarrow> bool" where
  "assertion_tokens tokens \<longleftrightarrow>
     (tokens \<noteq> [] \<and> hd tokens = ''assert'') \<or>
     list_ex (\<lambda>owner. list_ex (\<lambda>a. has_rooted_token_sequence tokens [owner, ''.'', a]) unittest_assertions)
       [''self'', ''cls''] \<or>
     list_ex (\<lambda>a. has_rooted_token_sequence tokens [''unittest'', ''.'', ''TestCase'', ''.'', a]) unittest_assertions \<or>
     list_ex (\<lambda>c. has_rooted_token_sequence tokens [''pytest'', ''.'', c]) [''raises'', ''warns'']"

definition is_assertion :: "py_node \<Rightarrow> bool" where
  "is_assertion node =
     (case node of
        AssertNode _ \<Rightarrow> True
      | WithNode items _ \<Rightarrow> list_ex (\<lambda>i. case fst i of
            Call f _ _ \<Rightarrow> attribute_chain f \<in> {[''pytest'', ''raises''], [''pytest'', ''warns'']}
          | _ \<Rightarrow> False) items
      | Call f _ _ \<Rightarrow>
          (let chain = attribute_chain f in
           (length chain = 2 \<and> chain ! 0 \<in> {''self'', ''cls''} \<and> chain ! 1 \<in> set unittest_assertions) \<or>
           (length chain = 3 \<and> take 2 chain = [''unittest'', ''TestCase''] \<and> chain ! 2 \<in> set unittest_assertions))
      | _ \<Rightarrow> False)"

definition removes_assertion :: "python_front_end \<Rightarrow> string \<Rightarrow> inspection_error + bool" where
  "removes_assertion fe content =
     (let stripped = lstrip content in
      inspect assertion_tokens is_assertion fe content False (startswith stripped ''with '' \<and> endswith stripped '':''))"

definition os_name :: "string \<Rightarrow> bool" where
  "os_name value \<longleftrightarrow> value \<in> {''system'', ''popen''} \<or> startswith value ''spawn''"

definition subprocess_tokens :: "string list \<Rightarrow> bool" where
  "subprocess_tokens tokens \<longleftrightarrow>
     take 2 tokens = [''import'', ''subprocess''] \<or> take 3 tokens = [''from'', ''subprocess'', ''import''] \<or>
     (take 3 tokens = [''from'', ''os'', ''import''] \<and> list_ex os_name (drop 3 tokens)) \<or>
     has_rooted_token_sequence tokens [''subprocess'', ''.''] \<or>
     list_ex (\<lambda>name. has_rooted_token_sequence tokens [''os'', ''.'', name]) [''system'', ''popen''] \<or>
     has_member_prefix tokens ''os'' ''spawn'' \<or>
     has_token_sequence tokens [''shell'', ''='', ''True'']"

definition starts_subprocess :: "py_node \<Rightarrow> bool" where
  "starts_subprocess node =
     (case node of
        ImportNode ns \<Rightarrow> ''subprocess'' \<in> set ns
      | ImportFrom m ns \<Rightarrow> m = Some ''subprocess'' \<or> (m = Some ''os'' \<and> list_ex os_name ns)
      | Call f _ ks \<Rightarrow>
          (let chain = attribute_chain f in
           (chain \<noteq> [] \<and> hd chain = ''subprocess'') \<or>
           (length chain = 2 \<and> chain ! 0 = ''os'' \<and> os_name (chain ! 1)) \<or>
           list_ex (\<lambda>k. fst k = Some ''shell'' \<and> snd k = ConstantTrue) ks)
      | _ \<Rightarrow> False)"

definition introduces_subprocess :: "python_front_end \<Rightarrow> string \<Rightarrow> inspection_error + bool" where
  "introduces_subprocess fe content = inspect subprocess_tokens starts_subprocess fe content False False"

section \<open>Dependencies\<close>

definition requirement_name_pattern :: regex where
  "requirement_name_pattern = seqs [TextStart, Group 1 (Seq (Class is_ascii_alnum)
     (optional (Seq (any_number (\<lambda>c. is_ascii_alnum c \<or> is_package_separator c)) (Class is_ascii_alnum))))]"

definition dependency_keys :: "string list" where
  "dependency_keys = [''dependencies'', ''dependency'', ''requires'', ''install_requires'', ''extras_require'']"

definition non_dependency_keys :: "string list" where
  "non_dependency_keys = [''name'', ''version'', ''description'', ''python'', ''requires-python'', ''readme'',
     ''license'', ''authors'', ''classifiers'', ''build-backend'']"

definition inline_dependency_table_pattern :: regex where
  "inline_dependency_table_pattern = seqs [Alt TextStart (Seq (one_of ''{,'') (any_number is_space)),
     alts [lit_ci ''git'', lit_ci ''url'', lit_ci ''path'', lit_ci ''version''], any_number is_space, lit ''='']"

definition rstrip_of :: "char \<Rightarrow> string \<Rightarrow> string" where
  "rstrip_of c s = rev (dropWhile (\<lambda>x. x = c) (rev s))"

definition requirement_name :: "string \<Rightarrow> string option" where
  "requirement_name value =
     (let stripped = rstrip_of CHR '','' (strip (strip_of is_quote (strip value))) in
      case re_match requirement_name_pattern stripped of
        None \<Rightarrow> None
      | Some m \<Rightarrow>
          if px_rest m \<noteq> [] \<and> hd (px_rest m) \<notin> set ''[=!~><@; '' then None
          else normalized_package_name (group_of 1 m))"

text \<open>Group 1 is \<open>key\<close>, group 2 is \<open>value\<close>.\<close>

definition assignment_pattern :: regex where
  "assignment_pattern = seqs [TextStart, Rep is_quote 0 (Some 1),
     Group 1 (one_or_more (\<lambda>c. is_ascii_alnum c \<or> c \<in> set ''_.-'')), Rep is_quote 0 (Some 1),
     any_number is_space, lit ''='', any_number is_space, Group 2 (one_or_more (\<lambda>c. c \<noteq> newline)), TextEnd]"

definition quoted_pattern :: regex where
  "quoted_pattern = seqs [Class is_quote, Group 1 (one_or_more (\<lambda>c. \<not> is_quote c)), Class is_quote]"

definition version_pattern :: regex where
  "version_pattern = one_or_more (\<lambda>c. is_digit c \<or> c \<in> set ''~^<>=!.*+,-'')"

definition package_or_none :: "string option \<Rightarrow> string list option" where
  "package_or_none p = Some (case p of None \<Rightarrow> [] | Some n \<Rightarrow> [n])"

text \<open>The rules for a line that assigns; the last option says that no rule applied.\<close>

definition assignment_dependencies ::
  "string \<Rightarrow> string list \<Rightarrow> position \<Rightarrow> string list option option" where
  "assignment_dependencies name quoted m =
     (let key = group_of 1 m; folded_key = casefold key in
      if name \<in> {''poetry.lock'', ''uv.lock''} \<and> folded_key = ''name'' \<and> quoted \<noteq> []
      then Some (package_or_none (requirement_name (hd quoted)))
      else if folded_key \<in> set non_dependency_keys \<or> startswith folded_key ''_'' then Some None
      else if folded_key \<in> set dependency_keys then Some (Some (List.map_filter requirement_name quoted))
      else if name \<in> {''pipfile'', ''pipfile.lock'', ''poetry.lock'', ''uv.lock''}
      then Some (package_or_none (normalized_package_name key))
      else if name = ''pyproject.toml'' \<and> re_search inline_dependency_table_pattern (group_of 2 m)
      then Some (package_or_none (normalized_package_name key))
      else if quoted \<noteq> [] \<and> re_fullmatch version_pattern (last quoted)
      then Some (package_or_none (normalized_package_name key))
      else None)"

definition dependency_names :: "string \<Rightarrow> string \<Rightarrow> string list option" where
  "dependency_names content path =
     (let stripped = strip content; name = casefold (path_name path);
          without_comment = strip (takeWhile (\<lambda>c. c \<noteq> CHR ''#'') stripped) in
      if stripped = [] \<or> startswith stripped ''#'' then None
      else if without_comment = [] then None
      else if startswith name ''requirements'' \<and> endswith name ''.txt'' then
        (if list_ex (startswith without_comment) [''-'', ''git+'', ''http://'', ''https://''] then Some []
         else package_or_none (requirement_name without_comment))
      else if startswith without_comment ''['' \<and> endswith without_comment '']'' then None
      else if without_comment \<in> {''['', '']'', ''{'', ''}'', ''},'', ''],''} then None
      else
        (let quoted = map (group_of 1) (re_finditer quoted_pattern without_comment);
             assigned = (case re_match assignment_pattern without_comment of
                None \<Rightarrow> None | Some m \<Rightarrow> assignment_dependencies name quoted m);
             packages = List.map_filter requirement_name quoted in
         case assigned of
           Some result \<Rightarrow> result
         | None \<Rightarrow>
             if packages \<noteq> [] then Some packages
             else if name \<in> {''setup.cfg'', ''pyproject.toml'', ''setup.py''} \<and>
                     list_ex (contains (casefold without_comment)) dependency_keys then Some []
             else if name = ''setup.cfg'' \<and> requirement_name without_comment \<noteq> None
             then Some [the (requirement_name without_comment)]
             else None))"

section \<open>Collecting violations\<close>

definition flag :: "bool \<Rightarrow> policy_violation \<Rightarrow> policy_violation list" where
  "flag b v = (if b then [v] else [])"

definition unapproved_dependency :: "patch_policy \<Rightarrow> string \<Rightarrow> string \<Rightarrow> bool" where
  "unapproved_dependency policy content path \<longleftrightarrow>
     (case dependency_names content path of
        None \<Rightarrow> False
      | Some names \<Rightarrow> names = [] \<or> list_ex (\<lambda>n. n \<notin> set (po_dependency_allowlist policy)) names)"

definition line_violations ::
  "python_front_end \<Rightarrow> patch_policy \<Rightarrow> string set \<Rightarrow> diff_file \<Rightarrow> diff_line \<Rightarrow> inspection_error + policy_violation list" where
  "line_violations fe policy secret_paths file line =
     (let content = dl_content line; violation = (\<lambda>c. line_violation c file line secret_paths) in
      case dl_kind line of
        REMOVED \<Rightarrow>
          bindE (removes_assertion fe content) (\<lambda>removes.
          Inr (flag (re_match test_definition_pattern content \<noteq> None) (violation TEST_DISABLED) @
               flag removes (violation ASSERTION_REMOVED)))
      | ADDED \<Rightarrow>
          bindE (introduces_test_disable fe content) (\<lambda>disables.
          bindE (introduces_subprocess fe content) (\<lambda>subprocess.
          Inr (flag disables (violation TEST_DISABLED) @
               flag subprocess (violation UNRESTRICTED_SUBPROCESS_INTRODUCED) @
               flag (is_dependency_path (df_path file) \<and> unapproved_dependency policy content (df_path file))
                 (violation UNAPPROVED_DEPENDENCY_ADDED))))
      | CONTEXT \<Rightarrow> Inr [])"

fun collect :: "('a \<Rightarrow> 'e + 'b list) \<Rightarrow> 'a list \<Rightarrow> 'e + 'b list" where
  "collect f [] = Inr []"
| "collect f (x # xs) = bindE (f x) (\<lambda>ys. bindE (collect f xs) (\<lambda>zs. Inr (ys @ zs)))"

definition file_violations ::
  "python_front_end \<Rightarrow> patch_policy \<Rightarrow> string set \<Rightarrow> diff_file \<Rightarrow> inspection_error + policy_violation list" where
  "file_violations fe policy secret_paths file =
     bindE (collect (line_violations fe policy secret_paths file) (df_lines file)) (\<lambda>vs.
     Inr (flag (is_deleted file \<and> is_test_path (df_path file))
            (safe_violation TEST_DISABLED (df_path file) secret_paths None) @ vs))"

definition content_violations ::
  "python_front_end \<Rightarrow> patch_policy \<Rightarrow> string set \<Rightarrow> unified_diff \<Rightarrow> inspection_error + policy_violation list" where
  "content_violations fe policy secret_paths parsed = collect (file_violations fe policy secret_paths) (ud_files parsed)"

section \<open>Validating a proposal\<close>

definition proposal_violations :: "patch_proposal \<Rightarrow> patch_policy \<Rightarrow> string list \<Rightarrow> string set \<Rightarrow> policy_violation list" where
  "proposal_violations proposal policy paths secret_paths =
     path_violations paths policy secret_paths @
     flag (length paths > po_max_changed_files policy) (make_violation TOO_MANY_FILES None None) @
     flag (list_ex contains_secret (proposal_strings proposal)) (make_violation SECRET_DETECTED None None) @
     flag (contains_non_text_control (pr_unified_diff proposal) \<or>
           re_search binary_marker_pattern (pr_unified_diff proposal)) (make_violation BINARY_CONTENT None None)"

definition validate_patch_policy ::
  "python_front_end \<Rightarrow> patch_proposal \<Rightarrow> patch_policy \<Rightarrow> policy_input_code + policy_result" where
  "validate_patch_policy fe proposal policy =
     (case normalize_repository_paths (pr_files_changed proposal) of
        Inl _ \<Rightarrow> Inl INVALID_PATH
      | Inr paths \<Rightarrow>
          if \<not> valid_patch_proposal proposal then Inl INVALID_PROPOSAL
          else if \<not> valid_patch_policy policy then Inl INVALID_POLICY
          else
            (let secret_paths = set (filter contains_secret paths);
                 violations = proposal_violations proposal policy paths secret_paths in
             case parse_unified_diff (py_replace [nul] '' '' (pr_unified_diff proposal)) of
               Inl _ \<Rightarrow>
                 if \<not> re_search binary_marker_pattern (pr_unified_diff proposal) then Inl INVALID_DIFF
                 else (case parse_binary_diff_paths (pr_unified_diff proposal) of
                     Inl _ \<Rightarrow> Inl INVALID_DIFF
                   | Inr binary_paths \<Rightarrow>
                       if set paths \<noteq> set binary_paths then Inl INCONSISTENT_PATHS
                       else Inr (policy_result_of violations))
             | Inr parsed \<Rightarrow>
                 if set paths \<noteq> set (changed_paths parsed) then Inl INCONSISTENT_PATHS
                 else
                   (case content_violations fe policy secret_paths parsed of
                      Inl _ \<Rightarrow> Inl INVALID_DIFF
                    | Inr vs \<Rightarrow> Inr (policy_result_of (violations @
                        flag (changed_line_count parsed > po_max_changed_lines policy)
                          (make_violation LINE_CHANGE_LIMIT_EXCEEDED None None) @ vs)))))"

end
