(* ===== verification/Classification.thy ===== *)
theory Classification
  imports Schemas Regex
begin

text \<open>
  \<open>app/agent/classification.py\<close>: the signals that classify a reproduced failure, the redaction of
  host paths and secrets from its evidence, and \<open>classify_failure\<close>.
\<close>

section \<open>Signals\<close>

datatype classification_error = BASELINE_NOT_REPRODUCED | MALFORMED_BASELINE

definition word_ci :: "string \<Rightarrow> regex" where
  "word_ci s = seqs [WordBoundary, lit_ci s, WordBoundary]"

definition evidence_quote :: string where
  "evidence_quote = [CHR ''\"'', CHR 0x27]"

definition failure_signals :: "(failure_category \<times> regex list) list" where
  "failure_signals =
    [(FC_syntax_failure,
        [seqs [WordBoundary, alts [lit_ci ''SyntaxError'', lit_ci ''IndentationError'', lit_ci ''TabError''],
           WordBoundary]]),
     (FC_import_or_dependency_failure,
        [seqs [WordBoundary, alts [lit_ci ''ModuleNotFoundError'', lit_ci ''ImportError''], WordBoundary],
         Alt (lit_ci ''no module named'') (lit_ci ''could not import'')]),
     (FC_incorrect_exception_behaviour,
        [word_ci ''DID NOT RAISE'', word_ci ''raised unexpected exception'', word_ci ''does not raise'']),
     (FC_type_related_failure, [word_ci ''TypeError'', word_ci ''type mismatch'']),
     (FC_timeout,
        [seqs [WordBoundary, lit_ci ''Timeout'', optional (lit_ci ''Error''), WordBoundary],
         word_ci ''timed out'']),
     (FC_test_environment_failure,
        [seqs [lit_ci ''fixture '', one_of evidence_quote, one_or_more (none_of evidence_quote),
           one_of evidence_quote, lit_ci '' not found''],
         Seq (Alt (lit_ci ''pytest'') (lit_ci ''test'')) (lit_ci '' configuration error''),
         Seq (lit_ci ''error '') (Alt (lit_ci ''at setup'') (lit_ci ''in setup''))]),
     (FC_assertion_failure,
        [seqs [Alt TextStart (lit [newline]), lit_ci ''E'', one_or_more is_space,
           Alt (Seq (lit_ci ''assert'') WordBoundary) (Seq (lit_ci ''AssertionError'') WordBoundary)],
         word_ci ''AssertionError''])]"

section \<open>Redaction\<close>

definition is_path_separator :: "char \<Rightarrow> bool" where
  "is_path_separator c \<longleftrightarrow> c = backslash \<or> c = CHR ''/''"

definition is_evidence_quote :: "char \<Rightarrow> bool" where
  "is_evidence_quote c \<longleftrightarrow> c \<in> set evidence_quote"

definition is_ascii_letter :: "char \<Rightarrow> bool" where
  "is_ascii_letter c \<longleftrightarrow> (65 \<le> code c \<and> code c \<le> 90) \<or> (97 \<le> code c \<and> code c \<le> 122)"

text \<open>\<open>[a-z]:[\\/]\<close> and \<open>\\\\(?:[?.][\\/]|[^\\/\s]+[\\/])\<close>\<close>

definition drive_pattern :: regex where
  "drive_pattern = seqs [Class is_ascii_letter, lit '':'', Class is_path_separator]"

definition unc_pattern :: regex where
  "unc_pattern = Seq (lit [backslash, backslash])
     (Alt (Seq (one_of ''?.'') (Class is_path_separator))
          (Seq (one_or_more (\<lambda>c. \<not> is_path_separator c \<and> \<not> is_space c)) (Class is_path_separator)))"

definition quoted_path :: "char \<Rightarrow> regex" where
  "quoted_path q = seqs [lit [q], alts [drive_pattern, unc_pattern, lit ''/''],
     one_or_more (none_of [q, carriage_return, newline]), lit [q]]"

definition host_path_patterns :: "regex list" where
  "host_path_patterns =
    [Alt (quoted_path (CHR ''\"'')) (quoted_path (CHR 0x27)),
     Seq (Alt drive_pattern unc_pattern) (any_number (\<lambda>c. \<not> is_space c \<and> \<not> is_evidence_quote c)),
     seqs [NotAfter (\<lambda>c. is_word_char c \<or> c = CHR ''.''), lit ''/'',
       Star (Seq (one_or_more (\<lambda>c. c \<noteq> CHR ''/'' \<and> \<not> is_space c \<and> \<not> is_evidence_quote c)) (lit ''/'')),
       Class (\<lambda>c. c \<noteq> CHR ''/'' \<and> \<not> is_space c \<and> \<not> is_evidence_quote c),
       any_number (\<lambda>c. \<not> is_space c \<and> \<not> is_evidence_quote c)]]"

definition denied_path_pattern :: regex where
  "denied_path_pattern =
     (let opening = Alt LineStart
            (Class (\<lambda>c. is_path_separator c \<or> is_space c \<or> is_evidence_quote c \<or> c = CHR ''('')) in
      Alt (seqs [opening, Alt (lit_ci ''evaluator'') (lit_ci ''hidden_tests''),
             Alt (Class is_path_separator) LineEnd])
          (seqs [opening, lit_ci ''reference.patch'',
             Alt LineEnd (Class (\<lambda>c. is_space c \<or> c = CHR '':'' \<or> is_evidence_quote c \<or> c = CHR '')''))]))"

definition is_upper_or_blank :: "char \<Rightarrow> bool" where
  "is_upper_or_blank c \<longleftrightarrow> (65 \<le> code c \<and> code c \<le> 90) \<or> c = CHR '' ''"

definition key_block_pattern :: regex where
  "key_block_pattern =
     (let kind = optional (Seq (one_or_more is_upper_or_blank) (lit '' '')) in
      seqs [lit ''-----BEGIN '', kind, lit ''PRIVATE KEY-----'', Lazy (\<lambda>_. True),
            lit ''-----END '', kind, lit ''PRIVATE KEY-----''])"

definition secret_assignment_pattern :: regex where
  "secret_assignment_pattern = seqs [LineStart,
     Group 1 (seqs [any_number is_space,
       alts [seqs [lit_ci ''api'', optional (one_of ''_-''), lit_ci ''key''],
             seqs [lit_ci ''access'', optional (one_of ''_-''), lit_ci ''token''],
             seqs [lit_ci ''client'', optional (one_of ''_-''), lit_ci ''secret''],
             lit_ci ''password''],
       any_number is_space, lit ''='', any_number is_space]),
     alts [seqs [lit [CHR ''\"''], any_number (none_of [CHR ''\"'', carriage_return, newline]), lit [CHR ''\"'']],
           seqs [lit [CHR 0x27], any_number (none_of [CHR 0x27, carriage_return, newline]), lit [CHR 0x27]],
           one_or_more (none_of [carriage_return, newline, CHR ''#''])]]"

definition access_key_pattern :: regex where
  "access_key_pattern = seqs [WordBoundary, lit ''AKIA'',
     Rep (\<lambda>c. is_digit c \<or> (65 \<le> code c \<and> code c \<le> 90)) 16 (Some 16), WordBoundary]"

text \<open>\<open>re.escape(variant)\<close> under \<open>re.IGNORECASE\<close>: characters equal up to their lower case\<close>

definition lower_char :: "char \<Rightarrow> char" where
  "lower_char c = (let n = code c in
     if (65 \<le> n \<and> n \<le> 90) \<or> (192 \<le> n \<and> n \<le> 222 \<and> n \<noteq> 215) then char_of (n + 32) else c)"

definition literal_ci :: "string \<Rightarrow> regex" where
  "literal_ci s = seqs (map (\<lambda>c. Class (\<lambda>x. lower_char x = lower_char c)) s)"

text \<open>The set of the variants, without duplicates; their lengths agree, so the sort keeps the order in
  which the set is iterated, which is the parameter \<open>set_order\<close>.\<close>

definition root_variants :: "(string list \<Rightarrow> string list) \<Rightarrow> string \<Rightarrow> string list" where
  "root_variants set_order r =
     set_order (remdups [r, map (\<lambda>c. if c = backslash then CHR ''/'' else c) r,
       map (\<lambda>c. if c = CHR ''/'' then backslash else c) r])"

definition redact_host_paths :: "(string list \<Rightarrow> string list) \<Rightarrow> string \<Rightarrow> string \<Rightarrow> string" where
  "redact_host_paths set_order value repository_root =
     (let without_root = (if repository_root = [] then value
            else foldl (\<lambda>text variant. re_sub (literal_ci variant) (\<lambda>_. ''<repository>'') text) value
                   (root_variants set_order repository_root))
      in foldl (\<lambda>text pattern. re_sub pattern (\<lambda>_. ''<host-path>'') text) without_root host_path_patterns)"

definition redact_untrusted_evidence :: "(string list \<Rightarrow> string list) \<Rightarrow> string \<Rightarrow> string \<Rightarrow> string" where
  "redact_untrusted_evidence set_order value repository_root =
     (let paths = redact_host_paths set_order value repository_root;
          keys = re_sub key_block_pattern (\<lambda>_. ''<redacted-secret>'') paths;
          assignments = re_sub secret_assignment_pattern (\<lambda>m. group_of 1 m @ ''<redacted-secret>'') keys
      in re_sub access_key_pattern (\<lambda>_. ''<redacted-secret>'') assignments)"

definition contains_denied_evidence_path :: "string \<Rightarrow> bool" where
  "contains_denied_evidence_path value = re_search denied_path_pattern value"

section \<open>The summary\<close>

definition is_line_break :: "char \<Rightarrow> bool" where
  "is_line_break c \<longleftrightarrow> code c \<in> {10, 11, 12, 13, 28, 29, 30, 133}"

text \<open>\<open>value.splitlines()\<close>; the first argument is the current line, reversed\<close>

fun split_lines :: "string \<Rightarrow> string \<Rightarrow> string list" where
  "split_lines current [] = (if current = [] then [] else [rev current])"
| "split_lines current (c # cs) =
     (if is_line_break c
      then rev current # (case cs of
             [] \<Rightarrow> []
           | d # ds \<Rightarrow> if c = carriage_return \<and> d = newline then split_lines [] ds else split_lines [] cs)
      else split_lines (c # current) cs)"

text \<open>\<open>value.encode("utf-8")[:limit].decode("utf-8", errors="ignore")\<close>: the longest prefix that fits\<close>

fun utf8_prefix :: "nat \<Rightarrow> string \<Rightarrow> string" where
  "utf8_prefix limit [] = []"
| "utf8_prefix limit (c # cs) =
     (if utf8_char_len c \<le> limit then c # utf8_prefix (limit - utf8_char_len c) cs else [])"

definition empty_evidence_text :: string where
  "empty_evidence_text = '': baseline evidence was empty or not safely recognized''"

definition failure_summary ::
  "(string list \<Rightarrow> string list) \<Rightarrow> failure_category \<Rightarrow> string \<Rightarrow> string \<Rightarrow> string" where
  "failure_summary set_order category evidence repository_root =
     (case filter (\<lambda>l. l \<noteq> [])
             (map strip (split_lines [] (redact_untrusted_evidence set_order evidence repository_root))) of
        [] \<Rightarrow> failure_category_value category @ empty_evidence_text
      | cleaned # _ \<Rightarrow> failure_category_value category @ '': '' @ utf8_prefix 240 cleaned)"

section \<open>Classifying\<close>

text \<open>\<open>FailureAnalysis(category, summary)\<close>: the field strips its value.\<close>

definition make_analysis :: "failure_category \<Rightarrow> string \<Rightarrow> failure_analysis" where
  "make_analysis category summary = \<lparr>fa_category = category, fa_summary = trim summary\<rparr>"

definition matched_categories :: "string \<Rightarrow> failure_category list" where
  "matched_categories combined =
     map fst (filter (\<lambda>(_, patterns). list_ex (\<lambda>p. re_search p combined) patterns) failure_signals)"

definition combined_evidence :: "baseline_evidence \<Rightarrow> string" where
  "combined_evidence e = be_stdout e @ newline # be_stderr e"

text \<open>The checks of the first \<open>try\<close>; \<open>terminal\<close> is a constant property of the result.\<close>

definition classifiable :: "baseline_result \<Rightarrow> classification_error + baseline_evidence" where
  "classifiable baseline =
     (if br_outcome baseline \<noteq> REPRODUCED_FAILURE then Inl BASELINE_NOT_REPRODUCED
      else (case br_evidence baseline of
          None \<Rightarrow> Inl MALFORMED_BASELINE
        | Some e \<Rightarrow>
            if be_exit_code e = None \<or> \<not> valid_baseline_evidence e \<or> \<not> valid_preparation (br_preparation baseline) \<or>
               be_completion e \<noteq> NORMAL \<or> be_exit_code e = Some 0 \<or>
               br_diagnostic_code baseline \<noteq> None \<or> br_message baseline \<noteq> None
            then Inl MALFORMED_BASELINE else Inr e))"

definition classify_evidence ::
  "(string list \<Rightarrow> string list) \<Rightarrow> string \<Rightarrow> baseline_evidence \<Rightarrow> failure_analysis" where
  "classify_evidence set_order repository_root e =
     (let combined = combined_evidence e; denied = contains_denied_evidence_path combined in
      if be_stdout_truncated e \<or> be_stderr_truncated e \<or> denied
      then make_analysis FC_unsupported_or_ambiguous
             (failure_summary set_order FC_unsupported_or_ambiguous (if denied then [] else combined)
                repository_root)
      else (let category = (case matched_categories combined of
                              [c] \<Rightarrow> c | _ \<Rightarrow> FC_unsupported_or_ambiguous) in
            make_analysis category (failure_summary set_order category combined repository_root)))"

definition classify_failure ::
  "(string list \<Rightarrow> string list) \<Rightarrow> baseline_result \<Rightarrow> classification_error + failure_analysis" where
  "classify_failure set_order baseline =
     bindE (classifiable baseline) (\<lambda>e.
     Inr (classify_evidence set_order (rp_prepared_repository (br_preparation baseline)) e))"

end
