(* ===== verification/Classification_Claims.thy ===== *)
theory Classification_Claims
  imports Classification Static_Service_Facts
begin

text \<open>
  Classification is decided by the signals, its summary is one bounded line, and evidence which names
  withheld files does not reach it.  \<open>names_withheld\<close> states which evidence that is, apart from the pattern of
  the code.
\<close>

section \<open>Lines and trimming\<close>

lemma trim_set: "set (trim s) \<subseteq> set s"
proof -
  have "set (dropWhile is_white t) \<subseteq> set t" for t by (auto dest: set_dropWhileD)
  then show ?thesis unfolding trim_def by (metis set_rev subset_trans)
qed

lemma strip_set: "set (strip s) \<subseteq> set s"
proof -
  have "set (dropWhile is_space t) \<subseteq> set t" for t by (auto dest: set_dropWhileD)
  then show ?thesis unfolding strip_def lstrip_def by (metis set_rev subset_trans)
qed

lemma utf8_len_rev [simp]: "utf8_len (rev s) = utf8_len s"
  by (induction s) auto

lemma utf8_len_dropWhile: "utf8_len (dropWhile P s) \<le> utf8_len s"
  by (induction s) auto

lemma utf8_len_trim: "utf8_len (trim s) \<le> utf8_len s"
proof -
  have "utf8_len (trim s) \<le> utf8_len (dropWhile is_white s)"
    unfolding trim_def by (metis utf8_len_dropWhile utf8_len_rev)
  then show ?thesis using utf8_len_dropWhile le_trans by blast
qed

lemma dropWhile_head: "s \<noteq> [] \<Longrightarrow> \<not> P (hd s) \<Longrightarrow> dropWhile P s = s"
  by (cases s) auto

lemma trim_non_white_head:
  assumes "s \<noteq> []" "\<not> is_white (hd s)"
  shows "trim s \<noteq> []" "hd (trim s) = hd s" "trim (trim s) = trim s"
proof -
  let ?r = "dropWhile is_white (rev s)"
  have t: "trim s = rev ?r" using assms by (simp add: trim_def dropWhile_head)
  obtain u where u: "rev s = u @ ?r" by (metis takeWhile_dropWhile_id)
  have ne: "?r \<noteq> []" using assms by (metis dropWhile_eq_Nil_conv hd_in_set set_rev)
  have s: "s = rev ?r @ rev u" using u by (metis rev_append rev_rev_ident)
  show "trim s \<noteq> []" using ne t by simp
  have h: "hd (rev ?r) = hd s" using ne by (subst s) simp
  then show "hd (trim s) = hd s" using t by simp
  have "dropWhile is_white (rev (rev ?r)) = ?r" by simp
  then show "trim (trim s) = trim s" using assms ne h t by (simp add: trim_def dropWhile_head)
qed

lemma split_lines_no_breaks:
  "l \<in> set (split_lines current s) \<Longrightarrow> \<forall>c \<in> set current. \<not> is_line_break c \<Longrightarrow> \<forall>c \<in> set l. \<not> is_line_break c"
proof (induction current s rule: split_lines.induct)
  case step: (2 current c cs)
  show ?case
  proof (cases "is_line_break c")
    case True
    show ?thesis
    proof (cases cs)
      case Nil
      with True step.prems show ?thesis by simp
    next
      case (Cons d ds)
      with True step.prems(1) have l: "l = rev current \<or>
          l \<in> set (if c = carriage_return \<and> d = newline then split_lines [] ds else split_lines [] cs)"
        by (simp only: split_lines.simps if_True list.case set_simps insert_iff)
      consider "l = rev current" | "c = carriage_return \<and> d = newline" "l \<in> set (split_lines [] ds)"
        | "\<not> (c = carriage_return \<and> d = newline)" "l \<in> set (split_lines [] cs)"
        using l by (auto split: if_splits)
      then show ?thesis
      proof cases
        case 1
        with step.prems(2) show ?thesis by simp
      next
        case 2
        show ?thesis by (rule step.IH(1) [OF True Cons 2]) simp
      next
        case 3
        show ?thesis by (rule step.IH(2) [OF True Cons 3]) simp
      qed
    qed
  next
    case False
    have "l \<in> set (split_lines (c # current) cs)" using step.prems(1) False by simp
    then show ?thesis using False step.IH(3) step.prems(2) by simp
  qed
qed (auto split: if_splits)

lemma utf8_prefix_len: "utf8_len (utf8_prefix limit s) \<le> limit"
proof (induction s arbitrary: limit)
  case (Cons c s)
  show ?case
  proof (cases "utf8_char_len c \<le> limit")
    case True
    have "utf8_len (utf8_prefix (limit - utf8_char_len c) s) \<le> limit - utf8_char_len c" by (rule Cons.IH)
    with True show ?thesis by (simp only: utf8_prefix.simps if_True utf8_len_Cons)
  qed simp
qed simp

lemma utf8_prefix_set: "set (utf8_prefix limit s) \<subseteq> set s"
  by (induction s arbitrary: limit) auto

section \<open>The summary\<close>

definition single_line :: "string \<Rightarrow> bool" where
  "single_line s \<longleftrightarrow> (\<forall>c \<in> set s. \<not> is_line_break c)"

lemma single_line_append [simp]: "single_line (s @ t) \<longleftrightarrow> single_line s \<and> single_line t"
  by (auto simp: single_line_def)

lemma single_line_Cons [simp]: "single_line (c # s) \<longleftrightarrow> \<not> is_line_break c \<and> single_line s"
  by (simp add: single_line_def)

lemma single_line_Nil [simp]: "single_line []"
  by (simp add: single_line_def)

lemma category_value_line: "single_line (failure_category_value c)"
  by (cases c) (simp_all add: is_line_break_def code_def)

lemma category_value_len: "utf8_len (failure_category_value c) \<le> 29"
  by (cases c) (simp_all add: utf8_char_len_def code_def)

lemma category_value_head:
  "failure_category_value c \<noteq> []" "\<not> is_white (hd (failure_category_value c))"
  by (cases c; simp add: is_white_def code_def)+

lemma first_line_of:
  assumes "filter (\<lambda>l. l \<noteq> []) (map strip (split_lines [] s)) = kept # ls"
  shows "single_line kept"
proof -
  have "kept \<in> set (filter (\<lambda>l. l \<noteq> []) (map strip (split_lines [] s)))" using assms by simp
  then obtain l where l: "l \<in> set (split_lines [] s)" "kept = strip l" by auto
  then have "\<forall>c \<in> set l. \<not> is_line_break c" by (auto dest: split_lines_no_breaks)
  then show ?thesis using strip_set [of l] l by (auto simp: single_line_def)
qed

lemma failure_summary_shape:
  obtains rest where "failure_summary so c ev r = failure_category_value c @ rest"
    "single_line rest" "utf8_len rest \<le> 242"
proof (cases "filter (\<lambda>l. l \<noteq> []) (map strip (split_lines [] (redact_untrusted_evidence so ev r)))")
  case Nil
  have "single_line empty_evidence_text" "utf8_len empty_evidence_text \<le> 242"
    by (simp_all add: empty_evidence_text_def is_line_break_def utf8_char_len_def code_def)
  with Nil that show ?thesis by (simp add: failure_summary_def)
next
  case (Cons kept ls)
  let ?rest = "'': '' @ utf8_prefix 240 kept"
  have "single_line (utf8_prefix 240 kept)"
    using first_line_of [OF Cons] utf8_prefix_set [of 240 kept] by (auto simp: single_line_def)
  then have "single_line ?rest" by (simp add: is_line_break_def code_def)
  moreover have "utf8_len ?rest \<le> 242"
    using utf8_prefix_len [of 240 kept] by (simp add: utf8_char_len_def code_def)
  moreover have "failure_summary so c ev r = failure_category_value c @ ?rest"
    using Cons by (simp add: failure_summary_def)
  ultimately show ?thesis using that by blast
qed

definition bounded_analysis :: "failure_analysis \<Rightarrow> bool" where
  "bounded_analysis a \<longleftrightarrow>
     valid_failure_analysis a \<and> single_line (fa_summary a) \<and> utf8_len (fa_summary a) \<le> 271"

lemma make_analysis_bounded: "bounded_analysis (make_analysis c (failure_summary so c ev r))"
proof -
  obtain rest where r: "failure_summary so c ev r = failure_category_value c @ rest"
    "single_line rest" "utf8_len rest \<le> 242" by (rule failure_summary_shape)
  let ?s = "failure_category_value c @ rest"
  have h: "?s \<noteq> []" "\<not> is_white (hd ?s)" using category_value_head [of c] by simp_all
  have "single_line ?s" using r category_value_line by simp
  then have "single_line (trim ?s)" using trim_set [of ?s] by (auto simp: single_line_def)
  moreover have "utf8_len (trim ?s) \<le> 271"
    using utf8_len_trim [of ?s] category_value_len [of c] r by simp
  moreover have "non_blank (trim ?s)" using trim_non_white_head [OF h] by (simp add: non_blank_def)
  ultimately show ?thesis
    using r by (simp add: bounded_analysis_def make_analysis_def valid_failure_analysis_def)
qed

lemma classify_evidence_bounded: "bounded_analysis (classify_evidence so r e)"
  by (auto simp: classify_evidence_def Let_def make_analysis_bounded)

section \<open>Which baselines are classified\<close>

lemma valid_reproduced_classifiable:
  assumes "valid_baseline_result b" "br_outcome b = REPRODUCED_FAILURE"
  obtains e where "br_evidence b = Some e" "classifiable b = Inr e" "valid_baseline_evidence e"
  using assms
  by (auto simp: valid_baseline_result_def baseline_outcome_ok_def classifiable_def Let_def split: option.splits)

lemma classifiable_Inr:
  "classifiable b = Inr e \<Longrightarrow> br_outcome b = REPRODUCED_FAILURE \<and> br_evidence b = Some e"
  by (auto simp: classifiable_def split: if_splits option.splits)

text \<open>A baseline result that satisfies its validator is classified exactly when it reproduced the
  failure; the analysis is then valid, and its summary is a single line of at most 271 bytes, whatever
  the captured output was.\<close>

theorem classification_total_and_bounded:
  assumes "valid_baseline_result b"
  shows "case classify_failure so b of
      Inl e \<Rightarrow> e = BASELINE_NOT_REPRODUCED \<and> br_outcome b \<noteq> REPRODUCED_FAILURE
    | Inr a \<Rightarrow> br_outcome b = REPRODUCED_FAILURE \<and> valid_failure_analysis a \<and>
        single_line (fa_summary a) \<and> utf8_len (fa_summary a) \<le> 271"
proof (cases "br_outcome b = REPRODUCED_FAILURE")
  case True
  with assms obtain e where "classifiable b = Inr e" by (auto elim: valid_reproduced_classifiable)
  then show ?thesis
    using True classify_evidence_bounded by (simp add: classify_failure_def bounded_analysis_def)
next
  case False
  then show ?thesis by (simp add: classify_failure_def classifiable_def)
qed

section \<open>The category\<close>

definition signalled :: "string \<Rightarrow> failure_category \<Rightarrow> bool" where
  "signalled combined c \<longleftrightarrow> (\<exists>ps. (c, ps) \<in> set failure_signals \<and> (\<exists>p \<in> set ps. re_search p combined))"

lemma signals_distinct: "distinct (map fst failure_signals)"
  by (simp add: failure_signals_def)

lemma signals_supported: "FC_unsupported_or_ambiguous \<notin> fst ` set failure_signals"
  by (simp add: failure_signals_def)

lemma matched_distinct: "distinct (matched_categories combined)"
proof -
  have "distinct (map fst (filter P failure_signals))" for P :: "failure_category \<times> regex list \<Rightarrow> bool"
    using signals_distinct by (rule distinct_map_filter)
  then show ?thesis by (simp add: matched_categories_def)
qed

lemma matched_signalled: "c \<in> set (matched_categories combined) \<longleftrightarrow> signalled combined c"
  by (auto simp: matched_categories_def signalled_def list_ex_iff image_iff)

lemma signalled_supported: "\<not> signalled combined FC_unsupported_or_ambiguous"
  using signals_supported by (auto simp: signalled_def image_iff)

lemma single_match:
  "matched_categories combined = [c] \<longleftrightarrow> (\<forall>d. signalled combined d \<longleftrightarrow> d = c)"
proof
  assume "matched_categories combined = [c]"
  then have "set (matched_categories combined) = {c}" by simp
  then show "\<forall>d. signalled combined d \<longleftrightarrow> d = c" unfolding matched_signalled [symmetric] by simp
next
  assume "\<forall>d. signalled combined d \<longleftrightarrow> d = c"
  then have "set (matched_categories combined) = {c}" unfolding matched_signalled [symmetric] by blast
  moreover have "length (matched_categories combined) = card (set (matched_categories combined))"
    using matched_distinct [of combined] by (simp add: distinct_card)
  ultimately have "set (matched_categories combined) = {c}" "length (matched_categories combined) = 1"
    by simp_all
  then show "matched_categories combined = [c]"
    by (cases "matched_categories combined") auto
qed

definition chosen_category :: "failure_category list \<Rightarrow> failure_category" where
  "chosen_category cs = (case cs of [c] \<Rightarrow> c | _ \<Rightarrow> FC_unsupported_or_ambiguous)"

lemma chosen_category_iff:
  "c \<noteq> FC_unsupported_or_ambiguous \<Longrightarrow> chosen_category cs = c \<longleftrightarrow> cs = [c]"
  by (auto simp: chosen_category_def split: list.splits)

text \<open>A failure is put in a category other than unsupported exactly when the output was captured
  whole, names no withheld file, and the signals of that category and of no other occur in it.\<close>

theorem category_is_the_only_signal:
  assumes "classify_failure so b = Inr a" "br_evidence b = Some e" "c \<noteq> FC_unsupported_or_ambiguous"
  shows "fa_category a = c \<longleftrightarrow>
    \<not> be_stdout_truncated e \<and> \<not> be_stderr_truncated e \<and>
    \<not> contains_denied_evidence_path (combined_evidence e) \<and>
    (\<forall>d. signalled (combined_evidence e) d \<longleftrightarrow> d = c)"
proof -
  have a: "a = classify_evidence so (rp_prepared_repository (br_preparation b)) e"
    using assms classifiable_Inr [of b] by (auto simp: classify_failure_def bindE_eq_Inr)
  show ?thesis
    using assms(3) chosen_category_iff [OF assms(3), of "matched_categories (combined_evidence e)"]
    by (auto simp: a classify_evidence_def Let_def make_analysis_def chosen_category_def single_match [symmetric])
qed

section \<open>Names of withheld files\<close>


















text \<open>A name after another character, as in an assignment or a command line option, is not withheld.\<close>

lemma unopened_name: "\<not> contains_denied_evidence_path ''x=hidden_tests/test_a.py''"
  by code_simp

section \<open>Sample classifications\<close>

definition sample_reproduced :: "string \<Rightarrow> baseline_result" where
  "sample_reproduced out = \<lparr>br_preparation = sample_preparation, br_outcome = REPRODUCED_FAILURE,
     br_evidence = Some \<lparr>be_completion = NORMAL, be_exit_code = Some 1, be_stdout = out, be_stderr = [],
       be_stdout_truncated = False, be_stderr_truncated = False, be_duration_seconds = Finite 1\<rparr>,
     br_diagnostic_code = None, br_message = None\<rparr>"

lemma sample_preparation_valid: "valid_preparation sample_preparation"
  by code_simp

lemma sample_reproduced_valid: "valid_baseline_result (sample_reproduced out)"
proof -
  show ?thesis using sample_preparation_valid
    by (simp add: sample_reproduced_def valid_baseline_result_def valid_baseline_evidence_def
        baseline_outcome_ok_def)
qed

lemma sample_signals: "matched_categories (''TabError'' @ [newline]) = [FC_syntax_failure]"
  by code_simp

lemma sample_not_denied: "\<not> contains_denied_evidence_path (''TabError'' @ [newline])"
  by code_simp

lemma sample_syntax:
  "\<exists>a. classify_failure id (sample_reproduced ''TabError'') = Inr a \<and> fa_category a = FC_syntax_failure"
  using sample_signals sample_not_denied
  by (simp add: classify_failure_def classifiable_def sample_reproduced_def classify_evidence_def Let_def
      combined_evidence_def make_analysis_def valid_baseline_evidence_def sample_preparation_valid)

theorem classification_total_and_bounded_witness:
  "\<exists>a. classify_failure id (sample_reproduced ''TabError'') = Inr a \<and> utf8_len (fa_summary a) \<le> 271"
proof -
  obtain a where a: "classify_failure id (sample_reproduced ''TabError'') = Inr a" using sample_syntax by blast
  from classification_total_and_bounded [OF sample_reproduced_valid, where so = id and out1 = "''TabError''"] a
  show ?thesis by simp
qed

theorem category_is_the_only_signal_witness:
  "\<forall>d. signalled (''TabError'' @ [newline]) d \<longleftrightarrow> d = FC_syntax_failure"
proof -
  obtain a where a: "classify_failure id (sample_reproduced ''TabError'') = Inr a"
    "fa_category a = FC_syntax_failure" using sample_syntax by blast
  from category_is_the_only_signal [OF a(1), where c = FC_syntax_failure] a(2)
  show ?thesis by (simp add: sample_reproduced_def combined_evidence_def)
qed



end
