(* ===== verification/Json.thy ===== *)
theory Json
  imports Prelude
begin

text \<open>
  JSON values as the strict validation of the data models reads them.  The parser of the text is the
  validation library's and a parameter where it is used; reading the fields of a class from a value
  (types, required fields, no extra fields, stripped strings) is modelled here.
\<close>

datatype json =
    JNull | JBool bool | JInteger int | JFloat pyfloat | JString string
  | JArray "json list" | JObject "(string \<times> json) list"

section \<open>Sequences of options and of results\<close>

fun map_option_list :: "('a \<Rightarrow> 'b option) \<Rightarrow> 'a list \<Rightarrow> 'b list option" where
  "map_option_list f [] = Some []"
| "map_option_list f (x # xs) =
     (case f x of None \<Rightarrow> None | Some y \<Rightarrow> map_option ((#) y) (map_option_list f xs))"

fun mapE :: "('a \<Rightarrow> 'e + 'b) \<Rightarrow> 'a list \<Rightarrow> 'e + 'b list" where
  "mapE f [] = Inr []"
| "mapE f (x # xs) = bindE (f x) (\<lambda>y. bindE (mapE f xs) (\<lambda>ys. Inr (y # ys)))"

lemma map_option_list_Some: "map_option_list f xs = Some ys \<longleftrightarrow> list_all2 (\<lambda>x y. f x = Some y) xs ys"
  by (induction xs arbitrary: ys) (auto simp: list_all2_Cons1 split: option.splits)

lemma mapE_Inr: "mapE f xs = Inr ys \<longleftrightarrow> list_all2 (\<lambda>x y. f x = Inr y) xs ys"
  by (induction xs arbitrary: ys) (auto simp: bindE_eq_Inr list_all2_Cons1)

lemma mapE_set:
  "mapE f xs = Inr ys \<Longrightarrow> y \<in> set ys \<Longrightarrow> \<exists>x \<in> set xs. f x = Inr y"
  by (induction xs arbitrary: ys) (auto simp: bindE_eq_Inr)

lemma mapE_all: "mapE f xs = Inr ys \<Longrightarrow> x \<in> set xs \<Longrightarrow> \<exists>y \<in> set ys. f x = Inr y"
  by (induction xs arbitrary: ys) (auto simp: bindE_eq_Inr)

section \<open>Reading fields\<close>

text \<open>The object of a class with the given fields: a repeated key keeps its last value, and
  \<open>extra="forbid"\<close> rejects every other key.\<close>

fun object_fields :: "string list \<Rightarrow> json \<Rightarrow> (string \<Rightarrow> json option) option" where
  "object_fields names (JObject kvs) =
     (if set (map fst kvs) \<subseteq> set names then Some (map_of (rev kvs)) else None)"
| "object_fields names _ = None"

fun json_text :: "json \<Rightarrow> string option" where
  "json_text (JString s) = Some s"
| "json_text _ = None"

fun json_bool :: "json \<Rightarrow> bool option" where
  "json_bool (JBool b) = Some b"
| "json_bool _ = None"

fun json_float :: "json \<Rightarrow> pyfloat option" where
  "json_float (JFloat x) = Some x"
| "json_float _ = None"

fun json_list :: "(json \<Rightarrow> 'a option) \<Rightarrow> json \<Rightarrow> 'a list option" where
  "json_list f (JArray js) = map_option_list f js"
| "json_list f _ = None"

definition strip_non_blank :: "string \<Rightarrow> string option" where
  "strip_non_blank s = (if trim s = [] then None else Some (trim s))"

definition json_non_blank :: "json \<Rightarrow> string option" where
  "json_non_blank j = Option.bind (json_text j) strip_non_blank"

definition field :: "(string \<Rightarrow> json option) \<Rightarrow> string \<Rightarrow> (json \<Rightarrow> 'a option) \<Rightarrow> ('a \<Rightarrow> 'b option) \<Rightarrow> 'b option" where
  "field fs name read k = Option.bind (Option.bind (fs name) read) k"

lemma field_Some: "field fs name read k = Some y \<longleftrightarrow> (\<exists>j x. fs name = Some j \<and> read j = Some x \<and> k x = Some y)"
  by (auto simp: field_def bind_eq_Some_conv)

section \<open>Stripping\<close>

lemma dropWhile_rev_snoc:
  "dropWhile P xs = [] \<or> (\<exists>x ys. dropWhile P xs = x # ys \<and> \<not> P x)"
  by (induction xs) auto

lemma trim_trim [simp]: "trim (trim s) = trim s"
proof -
  define a where "a = dropWhile is_white s"
  define b where "b = dropWhile is_white (rev a)"
  have t: "trim s = rev b" by (simp add: trim_def a_def b_def)
  have bb: "dropWhile is_white b = b" by (simp add: b_def)
  show ?thesis
  proof (cases b rule: rev_cases)
    case Nil
    then have "trim s = []" by (simp add: t)
    then show ?thesis by (simp add: trim_def [of "[]"])
  next
    case (snoc ys y)
    have "a \<noteq> []" using snoc b_def by auto
    then obtain c a' where c: "a = c # a'" "\<not> is_white c"
      using dropWhile_rev_snoc [of is_white s] by (auto simp: a_def)
    obtain u where u: "rev a = u @ b" unfolding b_def by (metis takeWhile_dropWhile_id)
    then have "a = rev b @ rev u" by (metis rev_append rev_rev_ident)
    then have "y = c" using c snoc by simp
    then have "dropWhile is_white (rev b) = rev b" using c snoc by simp
    then have "trim (rev b) = rev b" using bb by (simp add: trim_def)
    then show ?thesis by (simp only: t)
  qed
qed

lemma strip_non_blank_Some: "strip_non_blank s = Some t \<Longrightarrow> non_blank t"
  by (auto simp: strip_non_blank_def non_blank_def split: if_splits)

lemma json_non_blank_Some: "json_non_blank j = Some t \<Longrightarrow> non_blank t"
  by (auto simp: json_non_blank_def bind_eq_Some_conv strip_non_blank_Some)

lemma json_list_Some:
  assumes "json_list f j = Some ys" "\<And>j y. f j = Some y \<Longrightarrow> P y"
  shows "list_all P ys"
proof -
  from assms(1) obtain js where "list_all2 (\<lambda>j y. f j = Some y) js ys"
    by (cases j) (auto simp: map_option_list_Some)
  then show ?thesis using assms(2) by (induction js ys rule: list_all2_induct) auto
qed

end
