(* ===== verification/Case_Loader.thy ===== *)
theory Case_Loader
  imports Json Verification Paths
begin

text \<open>
  \<open>benchmarks/loader.py\<close>: manifests, trusted cases, and the two views of a benchmark case: the
  trusted one with the evaluator's material, and the one that is safe to show to a model.  The file
  system and the JSON parser are the parameter \<open>case_files\<close>.
\<close>

section \<open>Models\<close>

datatype bug_category =
    incorrect_conditional | boundary_condition | incorrect_return_value | exception_handling
  | fixture_or_mocking

datatype difficulty = difficulty_easy | difficulty_medium

datatype risk_level = risk_low | risk_medium

definition bug_category_of :: "string \<Rightarrow> bug_category option" where
  "bug_category_of s = map_of
     [(''incorrect_conditional'', incorrect_conditional), (''boundary_condition'', boundary_condition),
      (''incorrect_return_value'', incorrect_return_value), (''exception_handling'', exception_handling),
      (''fixture_or_mocking'', fixture_or_mocking)] s"

definition difficulty_of :: "string \<Rightarrow> difficulty option" where
  "difficulty_of s = map_of [(''easy'', difficulty_easy), (''medium'', difficulty_medium)] s"

definition risk_level_of :: "string \<Rightarrow> risk_level option" where
  "risk_level_of s = map_of [(''low'', risk_low), (''medium'', risk_medium)] s"

record manifest =
  mf_case_id :: string
  mf_repository_path :: string
  mf_base_revision :: string
  mf_failing_revision :: string
  mf_visible_tests :: "string list"
  mf_hidden_tests :: "string list"
  mf_issue_description :: string
  mf_expected_behavior :: string
  mf_reference_patch :: string
  mf_expected_changed_files :: "string list"
  mf_forbidden_changed_files :: "string list"
  mf_bug_category :: bug_category
  mf_difficulty :: difficulty
  mf_risk_level :: risk_level

definition valid_manifest :: "manifest \<Rightarrow> bool" where
  [valid_defs]: "valid_manifest m \<longleftrightarrow>
     case_id_ok (mf_case_id m) \<and> non_blank (mf_repository_path m) \<and> non_blank (mf_base_revision m) \<and>
     non_blank (mf_failing_revision m) \<and> list_all non_blank (mf_visible_tests m) \<and>
     list_all non_blank (mf_hidden_tests m) \<and> non_blank (mf_issue_description m) \<and>
     non_blank (mf_expected_behavior m) \<and> non_blank (mf_reference_patch m) \<and>
     list_all non_blank (mf_expected_changed_files m) \<and> list_all non_blank (mf_forbidden_changed_files m)"

record trusted_case =
  tc_manifest :: manifest
  tc_case_path :: string
  tc_repository_path :: string
  tc_visible_tests :: "string list"
  tc_hidden_tests :: "string list"
  tc_reference_patch :: string

definition valid_trusted_case :: "trusted_case \<Rightarrow> bool" where
  [valid_defs]: "valid_trusted_case c \<longleftrightarrow> valid_manifest (tc_manifest c)"

record model_safe_file =
  mv_path :: string
  mv_content :: string

record model_safe_case =
  ms_case_id :: string
  ms_issue_description :: string
  ms_expected_behavior :: string
  ms_bug_category :: bug_category
  ms_difficulty :: difficulty
  ms_risk_level :: risk_level
  ms_repository_files :: "model_safe_file list"
  ms_visible_tests :: "string list"

text \<open>\<open>Manifest.model_validate_json\<close> on the parsed value\<close>

definition manifest_of_json :: "json \<Rightarrow> manifest option" where
  "manifest_of_json j =
     Option.bind (object_fields [''case_id'', ''repository_path'', ''base_revision'', ''failing_revision'',
       ''visible_tests'', ''hidden_tests'', ''issue_description'', ''expected_behavior'', ''reference_patch'',
       ''expected_changed_files'', ''forbidden_changed_files'', ''bug_category'', ''difficulty'', ''risk_level''] j)
     (\<lambda>fs.
     field fs ''case_id'' json_text (\<lambda>case_id.
     field fs ''repository_path'' json_non_blank (\<lambda>repository_path.
     field fs ''base_revision'' json_non_blank (\<lambda>base_revision.
     field fs ''failing_revision'' json_non_blank (\<lambda>failing_revision.
     field fs ''visible_tests'' (json_list json_non_blank) (\<lambda>visible_tests.
     field fs ''hidden_tests'' (json_list json_non_blank) (\<lambda>hidden_tests.
     field fs ''issue_description'' json_non_blank (\<lambda>issue_description.
     field fs ''expected_behavior'' json_non_blank (\<lambda>expected_behavior.
     field fs ''reference_patch'' json_non_blank (\<lambda>reference_patch.
     field fs ''expected_changed_files'' (json_list json_non_blank) (\<lambda>expected_changed_files.
     field fs ''forbidden_changed_files'' (json_list json_non_blank) (\<lambda>forbidden_changed_files.
     field fs ''bug_category'' (\<lambda>j. Option.bind (json_text j) bug_category_of) (\<lambda>bug_category.
     field fs ''difficulty'' (\<lambda>j. Option.bind (json_text j) difficulty_of) (\<lambda>difficulty.
     field fs ''risk_level'' (\<lambda>j. Option.bind (json_text j) risk_level_of) (\<lambda>risk_level.
     if case_id_ok case_id
     then Some \<lparr>mf_case_id = case_id, mf_repository_path = repository_path, mf_base_revision = base_revision,
       mf_failing_revision = failing_revision, mf_visible_tests = visible_tests,
       mf_hidden_tests = hidden_tests, mf_issue_description = issue_description,
       mf_expected_behavior = expected_behavior, mf_reference_patch = reference_patch,
       mf_expected_changed_files = expected_changed_files,
       mf_forbidden_changed_files = forbidden_changed_files, mf_bug_category = bug_category,
       mf_difficulty = difficulty, mf_risk_level = risk_level\<rparr>
     else None)))))))))))))))"

section \<open>Errors and the file system\<close>

text \<open>\<open>BenchmarkLoadError\<close>: one constructor per message, with the field it names\<close>

datatype load_error =
    InvalidFieldPath string | InvalidOrMissing string | NotAFile string | NotADirectory string
  | InvalidManifest | CaseIdMismatch | RevisionsEqual | InvalidCaseId | CaseDirectoryMissing
  | EvaluatorInsideRepository | RepositoryEscapesRoot | InvalidChangedFilePolicy | ProtectedChangedFile
  | DuplicatePath string | NoPaths string | NotUtf8Text | CorpusMissing | CorpusIncomplete

text \<open>
  \<open>cf_resolve\<close> is the strict \<open>Path.resolve\<close>, \<open>None\<close> when it raises; \<open>cf_absolute\<close> the
  lenient one.  \<open>cf_rglob\<close> lists what \<open>rglob("*")\<close> yields.
\<close>

record case_files =
  cf_resolve :: "string \<Rightarrow> string option"
  cf_absolute :: "string \<Rightarrow> string"
  cf_is_file :: "string \<Rightarrow> bool"
  cf_is_dir :: "string \<Rightarrow> bool"
  cf_exists :: "string \<Rightarrow> bool"
  cf_rglob :: "string \<Rightarrow> string list"
  cf_iterdir :: "string \<Rightarrow> string list option"
  cf_read_text :: "string \<Rightarrow> string option"
  cf_parse_json :: "string \<Rightarrow> json option"
  cf_set_order :: "string list \<Rightarrow> string list"

text \<open>\<open>path.relative_to(root)\<close>, \<open>None\<close> when it raises\<close>

definition path_below :: "string \<Rightarrow> string \<Rightarrow> bool" where
  "path_below path r \<longleftrightarrow> posix_root path = posix_root r \<and> has_parts_prefix (posix_parts path) (posix_parts r)"

definition relative_to :: "string \<Rightarrow> string \<Rightarrow> string option" where
  "relative_to path r =
     (if path_below path r
      then Some (case drop (length (posix_parts r)) (posix_parts path) of [] \<Rightarrow> ''.'' | ps \<Rightarrow> join_with slash ps)
      else None)"

definition relative_path :: "string \<Rightarrow> string \<Rightarrow> load_error + string" where
  "relative_path value fld =
     (if value = [] \<or> backslash \<in> set value \<or> windows_drive_or_root value \<or> startswith value ''/''
      then Inl (InvalidFieldPath fld)
      else if list_ex (\<lambda>part. part \<in> {[], ''.'', ''..''}) (posix_parts value) then Inl (InvalidFieldPath fld)
      else Inr (as_posix value))"

definition contained :: "case_files \<Rightarrow> string \<Rightarrow> string \<Rightarrow> string \<Rightarrow> load_error + string" where
  "contained cf r relative fld =
     (case (cf_resolve cf r, cf_resolve cf (join_path r (posix_parts relative))) of
        (Some resolved_root, Some resolved) \<Rightarrow>
          if path_below resolved resolved_root then Inr resolved else Inl (InvalidOrMissing fld)
      | _ \<Rightarrow> Inl (InvalidOrMissing fld))"

definition file_at :: "case_files \<Rightarrow> string \<Rightarrow> string \<Rightarrow> string \<Rightarrow> load_error + string" where
  "file_at cf r value fld =
     bindE (relative_path value fld) (\<lambda>relative.
     bindE (contained cf r relative fld) (\<lambda>resolved.
     if cf_is_file cf resolved then Inr resolved else Inl (NotAFile fld)))"

definition directory_at :: "case_files \<Rightarrow> string \<Rightarrow> string \<Rightarrow> string \<Rightarrow> load_error + string" where
  "directory_at cf r value fld =
     bindE (relative_path value fld) (\<lambda>relative.
     bindE (contained cf r relative fld) (\<lambda>resolved.
     if cf_is_dir cf resolved then Inr resolved else Inl (NotADirectory fld)))"

section \<open>Validating a manifest\<close>

definition load_manifest :: "case_files \<Rightarrow> string \<Rightarrow> load_error + manifest" where
  "load_manifest cf case_path =
     (case Option.bind (Option.bind (cf_read_text cf (join_path case_path [''manifest.json''])) (cf_parse_json cf))
             manifest_of_json of
        None \<Rightarrow> Inl InvalidManifest
      | Some m \<Rightarrow>
          if mf_case_id m \<noteq> path_name case_path then Inl CaseIdMismatch
          else if mf_base_revision m = mf_failing_revision m then Inl RevisionsEqual
          else Inr m)"

definition find_case_path :: "case_files \<Rightarrow> string \<Rightarrow> string \<Rightarrow> load_error + string" where
  "find_case_path cf case_id benchmark_root =
     (if \<not> case_id_ok case_id then Inl InvalidCaseId
      else (let r = cf_absolute cf benchmark_root in
        case cf_resolve cf (join_path r [case_id]) of
          None \<Rightarrow> Inl CaseDirectoryMissing
        | Some case_path \<Rightarrow>
            if path_below case_path r \<and> cf_is_dir cf case_path then Inr case_path
            else Inl CaseDirectoryMissing))"

definition tests_field :: "bool \<Rightarrow> string" where
  "tests_field hidden = (if hidden then ''hidden_tests'' else ''visible_tests'')"

definition validate_test_path :: "string \<Rightarrow> bool \<Rightarrow> load_error + unit" where
  "validate_test_path path hidden =
     (let expected_prefix = (if hidden then [''evaluator'', ''hidden_tests''] else [''tests'']) in
      if \<not> has_parts_prefix (posix_parts path) expected_prefix \<or> \<not> startswith (path_name path) ''test_''
      then Inl (InvalidFieldPath (tests_field hidden))
      else if path_suffix path \<noteq> ''.py'' then Inl (InvalidFieldPath (tests_field hidden))
      else Inr ())"

definition protected_names :: "string list" where
  "protected_names = [''.git'', ''.github'', ''.gitlab-ci.yml'', ''agents.md'', ''benchmarks'',
     ''dockerfile'', ''manifest.json'', ''evaluator'', ''pyproject.toml'', ''tox.ini'']"

definition protected_change :: "string \<Rightarrow> bool" where
  "protected_change path \<longleftrightarrow> ''tests'' \<in> set (folded_parts path) \<or>
     list_ex (\<lambda>part. part \<in> set protected_names) (folded_parts path)"

definition validate_change_policy :: "manifest \<Rightarrow> load_error + unit" where
  "validate_change_policy m =
     bindE (mapE (\<lambda>item. relative_path item ''expected_changed_files'') (mf_expected_changed_files m)) (\<lambda>expected.
     bindE (mapE (\<lambda>item. relative_path item ''forbidden_changed_files'') (mf_forbidden_changed_files m)) (\<lambda>forbidden.
     if expected = [] \<or> \<not> distinct (map casefold expected) \<or> \<not> distinct (map casefold forbidden) \<or>
        set (map casefold expected) \<inter> set (map casefold forbidden) \<noteq> {}
     then Inl InvalidChangedFilePolicy
     else if list_ex protected_change (expected @ forbidden) then Inl ProtectedChangedFile
     else Inr ()))"

definition validate_tests_field :: "bool \<Rightarrow> string list \<Rightarrow> load_error + unit" where
  "validate_tests_field hidden items =
     bindE (mapE (\<lambda>item. bindE (relative_path item (tests_field hidden)) (\<lambda>relative.
       validate_test_path relative hidden)) items) (\<lambda>_. Inr ())"

definition validate_manifest_paths :: "manifest \<Rightarrow> load_error + unit" where
  "validate_manifest_paths m =
     bindE (relative_path (mf_repository_path m) ''repository_path'') (\<lambda>_.
     bindE (validate_tests_field False (mf_visible_tests m)) (\<lambda>_.
     bindE (validate_tests_field True (mf_hidden_tests m)) (\<lambda>_.
     bindE (relative_path (mf_reference_patch m) ''reference_patch'') (\<lambda>patch.
     if take 1 (posix_parts patch) \<noteq> [''evaluator''] \<or> path_suffix patch \<noteq> ''.patch''
     then Inl (InvalidFieldPath ''reference_patch'')
     else validate_change_policy m))))"

section \<open>Loading\<close>

definition validate_repository :: "case_files \<Rightarrow> string \<Rightarrow> load_error + string list" where
  "validate_repository cf repository =
     (if cf_exists cf (join_path repository [''evaluator'']) then Inl EvaluatorInsideRepository
      else bindE (mapE (\<lambda>candidate. case cf_resolve cf candidate of
                None \<Rightarrow> Inl RepositoryEscapesRoot
              | Some resolved \<Rightarrow> if path_below resolved repository then Inr resolved else Inl RepositoryEscapesRoot)
              (cf_rglob cf repository)) (\<lambda>resolved.
           Inr (sort_key casefold (cf_set_order cf (remdups (filter (cf_is_file cf) resolved))))))"

text \<open>The loop over declared tests: no two equal up to case, each a file below the root.  One of the four
  loops of the source leaves out \<open>_validate_test_path\<close>, which its paths have passed before.\<close>

fun load_tests ::
  "case_files \<Rightarrow> bool \<Rightarrow> string \<Rightarrow> string list \<Rightarrow> string list \<Rightarrow> load_error + string list" where
  "load_tests cf hidden r seen [] = Inr []"
| "load_tests cf hidden r seen (item # items) =
     bindE (relative_path item (tests_field hidden)) (\<lambda>relative.
     bindE (validate_test_path relative hidden) (\<lambda>_.
     if casefold relative \<in> set seen then Inl (DuplicatePath (tests_field hidden))
     else bindE (file_at cf r item (tests_field hidden)) (\<lambda>resolved.
       bindE (load_tests cf hidden r (casefold relative # seen) items) (\<lambda>rest. Inr (resolved # rest)))))"

definition load_declared_tests :: "case_files \<Rightarrow> bool \<Rightarrow> string \<Rightarrow> string list \<Rightarrow> load_error + string list" where
  "load_declared_tests cf hidden r items =
     bindE (load_tests cf hidden r [] items) (\<lambda>tests.
     if tests = [] then Inl (NoPaths (tests_field hidden)) else Inr tests)"

definition load_common ::
  "case_files \<Rightarrow> string \<Rightarrow> string \<Rightarrow> load_error + (string \<times> manifest \<times> string \<times> string list)" where
  "load_common cf case_id benchmark_root =
     bindE (find_case_path cf case_id benchmark_root) (\<lambda>case_path.
     bindE (load_manifest cf case_path) (\<lambda>m.
     bindE (validate_manifest_paths m) (\<lambda>_.
     bindE (directory_at cf case_path (mf_repository_path m) ''repository_path'') (\<lambda>repository.
     bindE (validate_repository cf repository) (\<lambda>_.
     bindE (load_declared_tests cf False repository (mf_visible_tests m)) (\<lambda>visible.
     bindE (load_declared_tests cf True case_path (mf_hidden_tests m)) (\<lambda>_.
     bindE (file_at cf case_path (mf_reference_patch m) ''reference_patch'') (\<lambda>_.
     Inr (case_path, m, repository, visible)))))))))"

definition load_trusted_case :: "case_files \<Rightarrow> string \<Rightarrow> string \<Rightarrow> load_error + trusted_case" where
  "load_trusted_case cf case_id benchmark_root =
     bindE (load_common cf case_id benchmark_root) (\<lambda>(case_path, m, repository, visible).
     bindE (load_declared_tests cf True case_path (mf_hidden_tests m)) (\<lambda>hidden.
     bindE (file_at cf case_path (mf_reference_patch m) ''reference_patch'') (\<lambda>patch.
     Inr \<lparr>tc_manifest = m, tc_case_path = case_path, tc_repository_path = repository,
       tc_visible_tests = visible, tc_hidden_tests = hidden, tc_reference_patch = patch\<rparr>)))"

definition load_safe_file :: "case_files \<Rightarrow> string \<Rightarrow> string \<Rightarrow> load_error + model_safe_file" where
  "load_safe_file cf repository path =
     (case (cf_read_text cf path, relative_to path repository) of
        (Some content, Some relative) \<Rightarrow> Inr \<lparr>mv_path = relative, mv_content = content\<rparr>
      | _ \<Rightarrow> Inl NotUtf8Text)"

definition load_model_safe_case :: "case_files \<Rightarrow> string \<Rightarrow> string \<Rightarrow> load_error + model_safe_case" where
  "load_model_safe_case cf case_id benchmark_root =
     bindE (load_common cf case_id benchmark_root) (\<lambda>(_, m, repository, visible).
     bindE (validate_repository cf repository) (\<lambda>paths.
     bindE (mapE (load_safe_file cf repository) paths) (\<lambda>files.
     Inr \<lparr>ms_case_id = mf_case_id m, ms_issue_description = mf_issue_description m,
       ms_expected_behavior = mf_expected_behavior m, ms_bug_category = mf_bug_category m,
       ms_difficulty = mf_difficulty m, ms_risk_level = mf_risk_level m, ms_repository_files = files,
       ms_visible_tests = List.map_filter (\<lambda>path. relative_to path repository) visible\<rparr>)))"

definition all_bug_categories :: "bug_category list" where
  "all_bug_categories = [incorrect_conditional, boundary_condition, incorrect_return_value,
     exception_handling, fixture_or_mocking]"

definition load_development_cases :: "case_files \<Rightarrow> string \<Rightarrow> load_error + trusted_case list" where
  "load_development_cases cf benchmark_root =
     (let r = cf_absolute cf benchmark_root in
      case cf_iterdir cf r of
        None \<Rightarrow> Inl CorpusMissing
      | Some children \<Rightarrow>
          bindE (mapE (\<lambda>path. load_trusted_case cf (path_name path) r)
             (sort_key posix_parts (filter (cf_is_dir cf) children))) (\<lambda>cases.
          if length cases \<noteq> 5 \<or> \<not> distinct (map (\<lambda>c. casefold (mf_case_id (tc_manifest c))) cases) \<or>
             set (map (\<lambda>c. mf_bug_category (tc_manifest c)) cases) \<noteq> set all_bug_categories
          then Inl CorpusIncomplete else Inr cases))"

end
