(* ===== verification/Case_Loader_Claims.thy ===== *)
theory Case_Loader_Claims
  imports Case_Loader
begin

text \<open>
  What a loaded case guarantees: every declared file lies below its directory, the change policy of
  the manifest is consistent and protects the tests, and the model-safe view is read from the
  repository only.
\<close>

section \<open>Manifests\<close>

lemma manifest_of_json_valid: "manifest_of_json j = Some m \<Longrightarrow> valid_manifest m"
  by (auto simp: manifest_of_json_def bind_eq_Some_conv field_Some valid_manifest_def
      intro: json_non_blank_Some json_list_Some split: if_splits)

lemma load_manifest_Inr:
  "load_manifest cf p = Inr m \<Longrightarrow>
     valid_manifest m \<and> mf_case_id m = path_name p \<and> mf_base_revision m \<noteq> mf_failing_revision m"
  by (auto simp: load_manifest_def bind_eq_Some_conv manifest_of_json_valid split: option.splits if_splits)

text \<open>The change policy: what may change and what must not are apart, and neither names a test or a
  protected file.\<close>

definition apart :: "manifest \<Rightarrow> bool" where
  "apart m \<longleftrightarrow> (let canonical = map (casefold \<circ> as_posix) in
     mf_expected_changed_files m \<noteq> [] \<and>
     distinct (canonical (mf_expected_changed_files m)) \<and> distinct (canonical (mf_forbidden_changed_files m)) \<and>
     casefold ` as_posix ` set (mf_expected_changed_files m) \<inter>
       casefold ` as_posix ` set (mf_forbidden_changed_files m) = {} \<and>
     list_all (\<lambda>p. \<not> protected_change (as_posix p)) (mf_expected_changed_files m @ mf_forbidden_changed_files m))"

lemma relative_path_Inr: "relative_path v f = Inr p \<Longrightarrow> p = as_posix v"
  by (auto simp: relative_path_def split: if_splits)

lemma relative_paths_Inr: "mapE (\<lambda>v. relative_path v f) vs = Inr ps \<Longrightarrow> ps = map as_posix vs"
  by (induction vs arbitrary: ps) (auto simp: bindE_eq_Inr dest: relative_path_Inr)

lemma validate_change_policy_apart:
  assumes "validate_change_policy m = Inr u"
  shows "apart m"
proof -
  let ?e = "map as_posix (mf_expected_changed_files m)" and ?f = "map as_posix (mf_forbidden_changed_files m)"
  from assms have "?e \<noteq> []" "distinct (map casefold ?e)" "distinct (map casefold ?f)"
    "set (map casefold ?e) \<inter> set (map casefold ?f) = {}" "\<not> list_ex protected_change (?e @ ?f)"
    by (auto simp only: validate_change_policy_def bindE_eq_Inr de_Morgan_disj not_not
        dest!: relative_paths_Inr split: if_splits)
  then show ?thesis by (auto simp: apart_def Let_def list_all_iff list_ex_iff image_image)
qed

lemma validate_manifest_paths_apart: "validate_manifest_paths m = Inr u \<Longrightarrow> apart m"
  by (auto simp: validate_manifest_paths_def bindE_eq_Inr validate_change_policy_apart split: if_splits)

section \<open>Containment\<close>

text \<open>A file or directory that lies below what a directory resolves to\<close>

definition inside :: "case_files \<Rightarrow> string \<Rightarrow> string \<Rightarrow> bool" where
  "inside cf r path \<longleftrightarrow> (\<exists>resolved. cf_resolve cf r = Some resolved \<and> path_below path resolved)"

lemma contained_inside: "contained cf r p f = Inr q \<Longrightarrow> inside cf r q"
  by (auto simp: contained_def inside_def split: option.splits if_splits)

lemma file_at_Inr: "file_at cf r v f = Inr q \<Longrightarrow> inside cf r q \<and> cf_is_file cf q"
  by (auto simp: file_at_def bindE_eq_Inr contained_inside split: if_splits)

lemma directory_at_Inr: "directory_at cf r v f = Inr q \<Longrightarrow> inside cf r q \<and> cf_is_dir cf q"
  by (auto simp: directory_at_def bindE_eq_Inr contained_inside split: if_splits)

definition test_name :: "bool \<Rightarrow> string \<Rightarrow> bool" where
  "test_name hidden path \<longleftrightarrow>
     has_parts_prefix (posix_parts path) (if hidden then [''evaluator'', ''hidden_tests''] else [''tests'']) \<and>
     startswith (path_name path) ''test_'' \<and> path_suffix path = ''.py''"

lemma validate_test_path_Inr: "validate_test_path p hidden = Inr u \<longleftrightarrow> test_name hidden p"
  by (auto simp: validate_test_path_def test_name_def Let_def)

lemma load_tests_Inr:
  "load_tests cf hidden r seen items = Inr ps \<Longrightarrow>
     length ps = length items \<and> list_all (\<lambda>p. inside cf r p \<and> cf_is_file cf p) ps \<and>
     list_all (\<lambda>i. test_name hidden (as_posix i)) items \<and>
     distinct (map (\<lambda>i. casefold (as_posix i)) items) \<and>
     set seen \<inter> set (map (\<lambda>i. casefold (as_posix i)) items) = {}"
proof (induction items arbitrary: seen ps)
  case (Cons i items)
  then obtain relative rest resolved where
    "relative = as_posix i" "test_name hidden relative" "casefold relative \<notin> set seen"
    "file_at cf r i (tests_field hidden) = Inr resolved"
    "load_tests cf hidden r (casefold relative # seen) items = Inr rest" "ps = resolved # rest"
    by (auto simp: bindE_eq_Inr validate_test_path_Inr dest: relative_path_Inr split: if_splits)
  with Cons.IH [of "casefold relative # seen" rest] show ?case by (auto simp: file_at_Inr)
qed simp

lemma load_declared_tests_Inr:
  "load_declared_tests cf hidden r items = Inr ps \<Longrightarrow>
     ps \<noteq> [] \<and> list_all (\<lambda>p. inside cf r p \<and> cf_is_file cf p) ps \<and>
     list_all (\<lambda>i. test_name hidden (as_posix i)) items \<and> distinct (map (\<lambda>i. casefold (as_posix i)) items)"
  by (auto simp: load_declared_tests_def bindE_eq_Inr dest: load_tests_Inr split: if_splits)

definition loaded_common ::
  "case_files \<Rightarrow> string \<Rightarrow> string \<Rightarrow> string \<Rightarrow> manifest \<Rightarrow> string \<Rightarrow> string list \<Rightarrow> bool" where
  "loaded_common cf case_id benchmark_root case_path m repository visible \<longleftrightarrow>
     path_below case_path (cf_absolute cf benchmark_root) \<and> cf_is_dir cf case_path \<and>
     valid_manifest m \<and> mf_case_id m = path_name case_path \<and>
     mf_base_revision m \<noteq> mf_failing_revision m \<and> apart m \<and>
     inside cf case_path repository \<and> cf_is_dir cf repository \<and>
     \<not> cf_exists cf (join_path repository [''evaluator'']) \<and>
     visible \<noteq> [] \<and> list_all (\<lambda>p. inside cf repository p \<and> cf_is_file cf p) visible \<and>
     list_all (\<lambda>i. test_name False (as_posix i)) (mf_visible_tests m) \<and>
     list_all (\<lambda>i. test_name True (as_posix i)) (mf_hidden_tests m)"

lemma load_common_Inr:
  assumes "load_common cf case_id benchmark_root = Inr (case_path, m, repository, visible)"
  shows "loaded_common cf case_id benchmark_root case_path m repository visible"
proof -
  from assms obtain u files hidden patch where
    c: "find_case_path cf case_id benchmark_root = Inr case_path" "load_manifest cf case_path = Inr m"
       "validate_manifest_paths m = Inr u"
       "directory_at cf case_path (mf_repository_path m) ''repository_path'' = Inr repository"
       "validate_repository cf repository = Inr files"
       "load_declared_tests cf False repository (mf_visible_tests m) = Inr visible"
       "load_declared_tests cf True case_path (mf_hidden_tests m) = Inr hidden"
    by (auto simp: load_common_def bindE_eq_Inr)
  from c(1) have "path_below case_path (cf_absolute cf benchmark_root)" "cf_is_dir cf case_path"
    by (auto simp: find_case_path_def Let_def split: if_splits option.splits)
  moreover from c(5) have "\<not> cf_exists cf (join_path repository [''evaluator''])"
    by (auto simp: validate_repository_def split: if_splits)
  ultimately show ?thesis
    using load_manifest_Inr [OF c(2)] validate_manifest_paths_apart [OF c(3)] directory_at_Inr [OF c(4)]
      load_declared_tests_Inr [OF c(6)] load_declared_tests_Inr [OF c(7)]
    by (simp add: loaded_common_def)
qed

text \<open>C29: A case that loads is contained: its directory lies below the benchmark root, the repository
  below the case, the visible tests are files of the repository and the hidden tests and the reference
  patch files of the case; the manifest is the one of that directory, its change policy keeps expected
  and forbidden files apart and names no test and no protected file.\<close>

theorem trusted_case_is_contained:
  assumes "load_trusted_case cf case_id benchmark_root = Inr c"
  shows "loaded_common cf case_id benchmark_root (tc_case_path c) (tc_manifest c) (tc_repository_path c)
      (tc_visible_tests c) \<and>
    tc_hidden_tests c \<noteq> [] \<and>
    list_all (\<lambda>p. inside cf (tc_case_path c) p \<and> cf_is_file cf p) (tc_reference_patch c # tc_hidden_tests c)"
  using assms
  by (auto simp: load_trusted_case_def bindE_eq_Inr file_at_Inr
      dest!: load_common_Inr load_declared_tests_Inr)

section \<open>The model-safe view\<close>

lemma load_safe_file_Inr:
  "load_safe_file cf r p = Inr f \<Longrightarrow>
     path_below p r \<and> relative_to p r = Some (mv_path f) \<and> cf_read_text cf p = Some (mv_content f)"
  by (auto simp: load_safe_file_def relative_to_def split: option.splits if_splits)

text \<open>The view for the model is read from the repository only: the repository holds no evaluator
  directory, and the content of every file of the view is that of a path below the repository, under its
  relative name.\<close>

theorem model_safe_case_reads_the_repository:
  assumes "load_model_safe_case cf case_id benchmark_root = Inr s"
  shows "\<exists>case_path m repository visible.
    loaded_common cf case_id benchmark_root case_path m repository visible \<and> ms_case_id s = mf_case_id m \<and>
    list_all (\<lambda>f. \<exists>path. path_below path repository \<and> relative_to path repository = Some (mv_path f) \<and>
      cf_read_text cf path = Some (mv_content f)) (ms_repository_files s)"
proof -
  from assms obtain case_path m repository visible paths files where
    l: "load_common cf case_id benchmark_root = Inr (case_path, m, repository, visible)"
      "mapE (load_safe_file cf repository) paths = Inr files"
      "ms_repository_files s = files" "ms_case_id s = mf_case_id m"
    by (auto simp: load_model_safe_case_def bindE_eq_Inr)
  have "list_all (\<lambda>f. \<exists>path. path_below path repository \<and> relative_to path repository = Some (mv_path f) \<and>
      cf_read_text cf path = Some (mv_content f)) files"
    using mapE_set [OF l(2)] load_safe_file_Inr by (fastforce simp: list_all_iff)
  with l load_common_Inr [OF l(1)] show ?thesis by blast
qed

section \<open>A sample case\<close>

definition sample_manifest_json :: json where
  "sample_manifest_json = JObject
    [(''case_id'', JString ''case-1''), (''repository_path'', JString ''repository''),
     (''base_revision'', JString ''base''), (''failing_revision'', JString ''failing''),
     (''visible_tests'', JArray [JString ''tests/test_app.py'']),
     (''hidden_tests'', JArray [JString ''evaluator/hidden_tests/test_app.py'']),
     (''issue_description'', JString ''issue''), (''expected_behavior'', JString ''behavior''),
     (''reference_patch'', JString ''evaluator/reference.patch''),
     (''expected_changed_files'', JArray [JString ''src/app.py'']),
     (''forbidden_changed_files'', JArray [JString ''src/other.py'']),
     (''bug_category'', JString ''boundary_condition''), (''difficulty'', JString ''easy''),
     (''risk_level'', JString ''low'')]"

definition sample_case_files :: case_files where
  "sample_case_files = \<lparr>cf_resolve = Some, cf_absolute = id, cf_is_file = (\<lambda>_. True), cf_is_dir = (\<lambda>_. True),
     cf_exists = (\<lambda>_. False), cf_rglob = (\<lambda>r. [r @ ''/src/app.py'', r @ ''/tests/test_app.py'']),
     cf_iterdir = (\<lambda>_. None), cf_read_text = (\<lambda>_. Some ''content''),
     cf_parse_json = (\<lambda>_. Some sample_manifest_json), cf_set_order = id\<rparr>"

definition sample_manifest :: manifest where
  "sample_manifest =
    \<lparr>mf_case_id = ''case-1'', mf_repository_path = ''repository'', mf_base_revision = ''base'',
       mf_failing_revision = ''failing'', mf_visible_tests = [''tests/test_app.py''],
       mf_hidden_tests = [''evaluator/hidden_tests/test_app.py''], mf_issue_description = ''issue'',
       mf_expected_behavior = ''behavior'', mf_reference_patch = ''evaluator/reference.patch'',
       mf_expected_changed_files = [''src/app.py''], mf_forbidden_changed_files = [''src/other.py''],
       mf_bug_category = boundary_condition, mf_difficulty = difficulty_easy, mf_risk_level = risk_low\<rparr>"

lemma sample_trusted_case:
  "load_trusted_case sample_case_files ''case-1'' ''/cases'' = Inr
    \<lparr>tc_manifest = sample_manifest,
     tc_case_path = ''/cases/case-1'', tc_repository_path = ''/cases/case-1/repository'',
     tc_visible_tests = [''/cases/case-1/repository/tests/test_app.py''],
     tc_hidden_tests = [''/cases/case-1/evaluator/hidden_tests/test_app.py''],
     tc_reference_patch = ''/cases/case-1/evaluator/reference.patch''\<rparr>"
  by code_simp

theorem trusted_case_is_contained_witness:
  "tc_hidden_tests (projr (load_trusted_case sample_case_files ''case-1'' ''/cases'')) \<noteq> [] \<and>
   \<not> list_ex protected_change (mf_expected_changed_files
      (tc_manifest (projr (load_trusted_case sample_case_files ''case-1'' ''/cases''))))"
proof -
  have "\<not> list_ex protected_change [''src/app.py'']" by code_simp
  with trusted_case_is_contained [OF sample_trusted_case] show ?thesis
    by (simp add: sample_trusted_case sample_manifest_def)
qed

lemma sample_safe_case:
  "case load_model_safe_case sample_case_files ''case-1'' ''/cases'' of
     Inl _ \<Rightarrow> False
   | Inr s \<Rightarrow> map mv_path (ms_repository_files s) = [''src/app.py'', ''tests/test_app.py'']"
  by code_simp

theorem model_safe_case_reads_the_repository_witness:
  "\<exists>s case_path m repository visible. load_model_safe_case sample_case_files ''case-1'' ''/cases'' = Inr s \<and>
     map mv_path (ms_repository_files s) = [''src/app.py'', ''tests/test_app.py''] \<and>
     loaded_common sample_case_files ''case-1'' ''/cases'' case_path m repository visible"
proof -
  obtain s where s: "load_model_safe_case sample_case_files ''case-1'' ''/cases'' = Inr s"
    "map mv_path (ms_repository_files s) = [''src/app.py'', ''tests/test_app.py'']"
    using sample_safe_case by (auto split: sum.splits)
  from model_safe_case_reads_the_repository [OF s(1)] obtain case_path m repository visible where
    "loaded_common sample_case_files ''case-1'' ''/cases'' case_path m repository visible" by (elim exE conjE)
  with s show ?thesis by (intro exI conjI)
qed

end
