(* ===== verification/Baseline.thy ===== *)
theory Baseline
  imports Case_Loader Effects
begin

text \<open>
  \<open>app/agent/baseline.py\<close>: running the declared visible tests in the sandbox and mapping what came
  back, or what was raised, to a baseline result.  The case loader, the path queries and the sandbox are
  the parameter \<open>baseline_env\<close>, functions on a world \<open>'w\<close>.
\<close>

section \<open>Exceptions\<close>

text \<open>The exception classes the handlers tell apart; \<open>Sandbox_Error\<close> is the base class itself,
  \<open>Other_Raise\<close> every class that no handler names.\<close>

datatype baseline_raise =
    Load_Error | Os_Error | Runtime_Error | Value_Error | Attribute_Error | Type_Error
  | Sandbox_Cleanup | Sandbox_Validation | Sandbox_Execution | Sandbox_Error | Other_Raise

record 'w baseline_env =
  bv_loader :: "string \<Rightarrow> ('w, baseline_raise, trusted_case) act"
  bv_resolve :: "string \<Rightarrow> ('w, baseline_raise, string) act"
  bv_is_file :: "string \<Rightarrow> ('w, baseline_raise, bool) act"
  bv_execute :: "string \<Rightarrow> string list \<Rightarrow> ('w, baseline_raise, sandbox_result) act"

section \<open>The visible tests\<close>

fun visible_paths :: "'w baseline_env \<Rightarrow> string \<Rightarrow> string list \<Rightarrow> ('w, baseline_raise, string list) act" where
  "visible_paths env repository [] = ret []"
| "visible_paths env repository (declared # rest) =
     andthen (bv_resolve env (join_path repository (posix_parts declared))) (\<lambda>target.
     andthen (ensure Value_Error (path_below target repository)) (\<lambda>_.
     andthen (bv_is_file env target) (\<lambda>regular.
     andthen (ensure Value_Error regular) (\<lambda>_.
     andthen (visible_paths env repository rest) (\<lambda>paths. ret (as_posix declared # paths))))))"

definition visible_test_paths ::
  "'w baseline_env \<Rightarrow> trusted_case \<Rightarrow> repository_preparation \<Rightarrow> ('w, baseline_raise, string list) act" where
  "visible_test_paths env c preparation =
     andthen (ensure Value_Error (mf_failing_revision (tc_manifest c) = rp_requested_revision preparation)) (\<lambda>_.
     andthen (bv_resolve env (rp_prepared_repository preparation)) (\<lambda>repository.
     visible_paths env repository (mf_visible_tests (tc_manifest c))))"

section \<open>Running\<close>

definition evidence_of :: "sandbox_result \<Rightarrow> baseline_evidence" where
  "evidence_of r = \<lparr>be_completion = sr_completion r, be_exit_code = sr_exit_code r, be_stdout = sr_stdout r,
     be_stderr = sr_stderr r, be_stdout_truncated = sr_stdout_truncated r,
     be_stderr_truncated = sr_stderr_truncated r, be_duration_seconds = sr_duration_seconds r\<rparr>"

definition baseline_diagnostic ::
  "repository_preparation \<Rightarrow> baseline_diagnostic_code \<Rightarrow> string \<Rightarrow> baseline_evidence option \<Rightarrow> baseline_result" where
  "baseline_diagnostic preparation dc message ev =
     \<lparr>br_preparation = preparation, br_outcome = BASELINE_INFRASTRUCTURE, br_evidence = ev,
      br_diagnostic_code = Some dc, br_message = Some message\<rparr>"

text \<open>The handlers of the first \<open>try\<close>, and of the second one in the order of the source; \<open>None\<close>
  lets the exception pass.\<close>

definition invalid_tests_result :: "repository_preparation \<Rightarrow> baseline_raise \<Rightarrow> baseline_result option" where
  "invalid_tests_result preparation e =
     (if e \<in> {Load_Error, Os_Error, Runtime_Error, Value_Error}
      then Some (baseline_diagnostic preparation INVALID_VISIBLE_TEST
             ''declared visible tests are not valid in the prepared repository'' None)
      else None)"

fun sandbox_failure :: "baseline_raise \<Rightarrow> (baseline_diagnostic_code \<times> string) option" where
  "sandbox_failure Sandbox_Cleanup = Some (SANDBOX_CLEANUP_FAILED, ''sandbox cleanup failed'')"
| "sandbox_failure Sandbox_Validation = Some (SANDBOX_VALIDATION_FAILED, ''sandbox validation failed'')"
| "sandbox_failure Sandbox_Execution = Some (SANDBOX_EXECUTION_FAILED, ''sandbox execution failed'')"
| "sandbox_failure Sandbox_Error = Some (SANDBOX_EXECUTION_FAILED, ''sandbox execution failed'')"
| "sandbox_failure Os_Error = Some (SANDBOX_EXECUTION_FAILED, ''sandbox execution failed'')"
| "sandbox_failure Attribute_Error = Some (MALFORMED_SANDBOX_RESULT, ''sandbox returned malformed execution evidence'')"
| "sandbox_failure Type_Error = Some (MALFORMED_SANDBOX_RESULT, ''sandbox returned malformed execution evidence'')"
| "sandbox_failure Value_Error = Some (MALFORMED_SANDBOX_RESULT, ''sandbox returned malformed execution evidence'')"
| "sandbox_failure _ = None"

definition sandbox_failure_result :: "repository_preparation \<Rightarrow> baseline_raise \<Rightarrow> baseline_result option" where
  "sandbox_failure_result preparation e =
     map_option (\<lambda>(dc, message). baseline_diagnostic preparation dc message None) (sandbox_failure e)"

text \<open>\<open>try: ... except ... : return self._diagnostic(...)\<close>\<close>

definition returning ::
  "('w, 'e, 'a) act \<Rightarrow> ('e \<Rightarrow> 'r option) \<Rightarrow> ('w, 'e, 'r + 'a) act" where
  "returning m handler =
     catch (andthen m (\<lambda>x. ret (Inr x)))
       (\<lambda>e. case handler e of None \<Rightarrow> raise e | Some r \<Rightarrow> ret (Inl r))"

definition run_sandbox ::
  "'w baseline_env \<Rightarrow> repository_preparation \<Rightarrow> string list \<Rightarrow> ('w, baseline_raise, sandbox_result) act" where
  "run_sandbox env preparation paths =
     andthen (bv_execute env (rp_prepared_repository preparation) ([''python'', ''-m'', ''pytest''] @ paths)) (\<lambda>raw.
     andthen (ensure Value_Error (valid_sandbox_result raw)) (\<lambda>_.
     andthen (ensure Value_Error (valid_baseline_evidence (evidence_of raw))) (\<lambda>_. ret raw)))"

definition baseline_of_sandbox :: "repository_preparation \<Rightarrow> sandbox_result \<Rightarrow> baseline_result" where
  "baseline_of_sandbox preparation sandbox =
     (if sr_completion sandbox = TIMED_OUT
      then baseline_diagnostic preparation SANDBOX_TIMED_OUT ''baseline execution exceeded its deadline''
             (Some (evidence_of sandbox))
      else if sr_completion sandbox = MEMORY_LIMIT
      then baseline_diagnostic preparation SANDBOX_MEMORY_LIMIT ''baseline execution exceeded its memory limit''
             (Some (evidence_of sandbox))
      else if sr_exit_code sandbox = Some 0
      then \<lparr>br_preparation = preparation, br_outcome = NOT_REPRODUCIBLE, br_evidence = Some (evidence_of sandbox),
            br_diagnostic_code = Some BASELINE_NOT_REPRODUCIBLE,
            br_message = Some ''declared visible failure was not reproducible''\<rparr>
      else \<lparr>br_preparation = preparation, br_outcome = REPRODUCED_FAILURE,
            br_evidence = Some (evidence_of sandbox), br_diagnostic_code = None, br_message = None\<rparr>)"

definition run_baseline_body ::
  "'w baseline_env \<Rightarrow> repository_preparation \<Rightarrow> ('w, baseline_raise, baseline_result + baseline_result) act" where
  "run_baseline_body env preparation =
     phase (returning (andthen (bv_loader env (rp_case_id preparation)) (\<lambda>c. visible_test_paths env c preparation))
              (invalid_tests_result preparation)) (\<lambda>paths.
     phase (returning (run_sandbox env preparation paths) (sandbox_failure_result preparation)) (\<lambda>sandbox.
     ret (Inr (baseline_of_sandbox preparation sandbox))))"

text \<open>\<open>BaselineExecutor.run\<close>: the constructors of the results validate them, and a validator that
  fails raises \<open>ValidationError\<close>, a \<open>ValueError\<close>.\<close>

definition run_baseline ::
  "'w baseline_env \<Rightarrow> repository_preparation \<Rightarrow> ('w, baseline_raise, baseline_result) act" where
  "run_baseline env preparation =
     andthen (run_baseline_body env preparation) (\<lambda>r.
     (let b = (case r of Inl b \<Rightarrow> b | Inr b \<Rightarrow> b) in
      andthen (ensure Value_Error (valid_baseline_result b)) (\<lambda>_. ret b)))"

section \<open>Facts\<close>

lemma baseline_of_sandbox_valid:
  assumes "valid_preparation p" "valid_sandbox_result s"
  shows "valid_baseline_result (baseline_of_sandbox p s)"
  using assms
  by (cases "sr_completion s")
     (auto simp: baseline_of_sandbox_def baseline_diagnostic_def valid_baseline_result_def evidence_of_def
        valid_sandbox_result_def valid_baseline_evidence_def baseline_outcome_ok_def Let_def opt_valid_def
        non_blank_def trim_def is_white_def code_def split: option.splits)

lemma diagnostic_results_valid:
  "valid_preparation p \<Longrightarrow> invalid_tests_result p e = Some b \<Longrightarrow> valid_baseline_result b"
  "valid_preparation p \<Longrightarrow> sandbox_failure_result p e = Some b \<Longrightarrow> valid_baseline_result b"
  by (cases e; simp add: invalid_tests_result_def sandbox_failure_result_def baseline_diagnostic_def
        valid_baseline_result_def baseline_outcome_ok_def non_blank_def trim_def is_white_def code_def;
      auto)+

lemma triple_returning [triple_intro]:
  "triple P m (\<lambda>x. Q (Inr x)) (\<lambda>e s. case h e of None \<Rightarrow> E e s | Some r \<Rightarrow> Q (Inl r) s) \<Longrightarrow>
   triple P (returning m h) Q E"
  by (fastforce simp: triple_def returning_def catch_def andthen_def ret_def raise_def
      split: sum.splits prod.splits option.splits)

lemma triple_any: "triple P m (\<lambda>_ _. True) (\<lambda>_ _. True)"
  by (auto simp: triple_def split: sum.splits prod.splits)

end
