(* ===== verification/Baseline_Claims.thy ===== *)
theory Baseline_Claims
  imports Baseline Case_Loader_Claims Static_Service_Facts
begin

text \<open>
  Every baseline run ends with a valid result for its preparation, and reproduces the failure exactly
  when the sandbox ran the declared tests to a normal, non-zero exit.
\<close>

section \<open>Every result is valid\<close>

lemma handled_tests: "invalid_tests_result p e = None \<Longrightarrow> e \<notin> {Load_Error, Os_Error, Runtime_Error, Value_Error}"
  by (auto simp: invalid_tests_result_def split: if_splits)

lemma handled_sandbox: "sandbox_failure_result p e = None \<Longrightarrow> e \<in> {Load_Error, Runtime_Error, Other_Raise}"
  by (cases e) (simp_all add: sandbox_failure_result_def)

lemma handlers_keep_preparation:
  "invalid_tests_result p e = Some b \<Longrightarrow> br_preparation b = p"
  "sandbox_failure_result p e = Some b \<Longrightarrow> br_preparation b = p"
  by (auto simp: invalid_tests_result_def sandbox_failure_result_def baseline_diagnostic_def split: if_splits)

lemma baseline_of_sandbox_preparation: "br_preparation (baseline_of_sandbox p s) = p"
  by (simp add: baseline_of_sandbox_def baseline_diagnostic_def)

definition result_for :: "repository_preparation \<Rightarrow> baseline_result \<Rightarrow> bool" where
  "result_for p b \<longleftrightarrow> valid_baseline_result b \<and> br_preparation b = p"

lemma run_sandbox_valid: "triple (\<lambda>_. True) (run_sandbox env p paths) (\<lambda>r _. valid_sandbox_result r) (\<lambda>_ _. True)"
  by (auto simp: triple_def run_sandbox_def andthen_def ensure_def ret_def raise_def
      split: sum.splits prod.splits if_splits)

lemma run_baseline_body_triple:
  assumes p: "valid_preparation p"
  shows "triple (\<lambda>_. True) (run_baseline_body env p)
    (\<lambda>r _. result_for p (case r of Inl b \<Rightarrow> b | Inr b \<Rightarrow> b)) (\<lambda>e _. e \<notin> {Value_Error, Os_Error})"
  unfolding run_baseline_body_def
proof (rule triple_phase, rule triple_returning)
  show "triple (\<lambda>_. True) (andthen (bv_loader env (rp_case_id p)) (\<lambda>c. visible_test_paths env c p))
     (\<lambda>x s. case Inr x of Inl v \<Rightarrow> result_for p (case Inl v of Inl b \<Rightarrow> b | Inr b \<Rightarrow> b) | Inr _ \<Rightarrow> True)
     (\<lambda>e s. case invalid_tests_result p e of None \<Rightarrow> e \<notin> {Value_Error, Os_Error}
        | Some r \<Rightarrow> (case Inl r of Inl v \<Rightarrow> result_for p (case Inl v of Inl b \<Rightarrow> b | Inr b \<Rightarrow> b) | Inr _ \<Rightarrow> True))"
    by (rule triple_weaken [OF triple_any])
       (auto simp: result_for_def diagnostic_results_valid [OF p] handlers_keep_preparation
          dest: handled_tests split: option.splits)
next
  fix paths
  show "triple (\<lambda>_. True)
     (phase (returning (run_sandbox env p paths) (sandbox_failure_result p))
       (\<lambda>sandbox. ret (Inr (baseline_of_sandbox p sandbox))))
     (\<lambda>r _. result_for p (case r of Inl b \<Rightarrow> b | Inr b \<Rightarrow> b)) (\<lambda>e _. e \<notin> {Value_Error, Os_Error})"
  proof (rule triple_phase, rule triple_returning)
    show "triple (\<lambda>_. True) (run_sandbox env p paths)
       (\<lambda>x s. case Inr x of Inl v \<Rightarrow> result_for p (case Inl v of Inl b \<Rightarrow> b | Inr b \<Rightarrow> b) | Inr r \<Rightarrow> valid_sandbox_result r)
       (\<lambda>e s. case sandbox_failure_result p e of None \<Rightarrow> e \<notin> {Value_Error, Os_Error}
        | Some r \<Rightarrow> (case Inl r of Inl v \<Rightarrow> result_for p (case Inl v of Inl b \<Rightarrow> b | Inr b \<Rightarrow> b) | Inr r \<Rightarrow> valid_sandbox_result r))"
      by (rule triple_weaken [OF run_sandbox_valid])
         (auto simp: result_for_def diagnostic_results_valid [OF p] handlers_keep_preparation
            dest: handled_sandbox split: option.splits)
  next
    fix sandbox
    show "triple (\<lambda>s. valid_sandbox_result sandbox) (ret (Inr (baseline_of_sandbox p sandbox)))
       (\<lambda>r _. result_for p (case r of Inl b \<Rightarrow> b | Inr b \<Rightarrow> b)) (\<lambda>e _. e \<notin> {Value_Error, Os_Error})"
      by (rule triple_ret) (simp add: result_for_def p baseline_of_sandbox_valid baseline_of_sandbox_preparation)
  qed
qed

lemma run_baseline_triple:
  assumes "valid_preparation p"
  shows "triple (\<lambda>_. True) (run_baseline env p) (\<lambda>b _. result_for p b) (\<lambda>e _. e \<notin> {Value_Error, Os_Error})"
  unfolding run_baseline_def Let_def
  by (rule triple_andthen [OF run_baseline_body_triple [OF assms]])
     (auto simp: triple_def andthen_def ensure_def ret_def raise_def result_for_def split: sum.splits)

text \<open>Whatever the loader, the file system and the sandbox do, a baseline run on a valid preparation
  returns a result that satisfies its validator and carries that preparation, or lets pass an exception
  that is neither an \<open>OSError\<close> nor a \<open>ValueError\<close>.\<close>

theorem baseline_results_are_valid:
  assumes "valid_preparation p" "run_baseline env p w = (r, w')"
  shows "case r of Inl e \<Rightarrow> e \<notin> {Value_Error, Os_Error}
    | Inr b \<Rightarrow> valid_baseline_result b \<and> br_preparation b = p"
  using assms(2) triple_useL [OF run_baseline_triple [OF assms(1), of env], of w]
    triple_useR [OF run_baseline_triple [OF assms(1), of env], of w]
  by (cases r) (auto simp: result_for_def)

section \<open>Reproduction\<close>

lemma failures_do_not_reproduce:
  "invalid_tests_result p e = Some b \<Longrightarrow> br_outcome b = BASELINE_INFRASTRUCTURE"
  "sandbox_failure_result p e = Some b \<Longrightarrow> br_outcome b = BASELINE_INFRASTRUCTURE"
  by (auto simp: invalid_tests_result_def sandbox_failure_result_def baseline_diagnostic_def split: if_splits)

lemma baseline_of_sandbox_reproduced:
  "valid_sandbox_result r \<Longrightarrow> br_outcome (baseline_of_sandbox p r) = REPRODUCED_FAILURE \<longleftrightarrow>
     sr_completion r = NORMAL \<and> sr_exit_code r \<noteq> Some 0"
  by (cases "sr_completion r") (auto simp: baseline_of_sandbox_def baseline_diagnostic_def)

lemma run_sandbox_Inr:
  "run_sandbox env p paths w = (Inr r, w') \<longleftrightarrow>
     bv_execute env (rp_prepared_repository p) ([''python'', ''-m'', ''pytest''] @ paths) w = (Inr r, w') \<and>
     valid_sandbox_result r"
  by (auto simp: run_sandbox_def andthen_def ensure_def ret_def raise_def evidence_of_def
      valid_baseline_evidence_def valid_sandbox_result_def split: sum.splits prod.splits if_splits)

lemma returning_eq:
  "returning m h w = (case m w of
     (Inr x, w') \<Rightarrow> (Inr (Inr x), w')
   | (Inl e, w') \<Rightarrow> (case h e of None \<Rightarrow> (Inl e, w') | Some r \<Rightarrow> (Inr (Inl r), w')))"
  by (auto simp: returning_def catch_def andthen_def ret_def raise_def split: sum.splits prod.splits option.splits)

text \<open>C32: A baseline run reports the failure as reproduced exactly when the case loaded, its visible
  tests are files of the prepared repository at the declared revision, and the sandbox ran pytest on
  exactly these tests to a normal exit with a non-zero code.\<close>

theorem baseline_reproduced_iff:
  assumes "valid_preparation p"
  shows "(\<exists>b. run_baseline env p w = (Inr b, w') \<and> br_outcome b = REPRODUCED_FAILURE) \<longleftrightarrow>
    (\<exists>c w1 paths w2 r. bv_loader env (rp_case_id p) w = (Inr c, w1) \<and>
       visible_test_paths env c p w1 = (Inr paths, w2) \<and>
       bv_execute env (rp_prepared_repository p) ([''python'', ''-m'', ''pytest''] @ paths) w2 = (Inr r, w') \<and>
       valid_sandbox_result r \<and> sr_completion r = NORMAL \<and> sr_exit_code r \<noteq> Some 0)"
proof
  assume "\<exists>b. run_baseline env p w = (Inr b, w') \<and> br_outcome b = REPRODUCED_FAILURE"
  then obtain b where b: "run_baseline env p w = (Inr b, w')" "br_outcome b = REPRODUCED_FAILURE" by blast
  from b(1) obtain x where x: "run_baseline_body env p w = (Inr x, w')" "b = (case x of Inl b \<Rightarrow> b | Inr b \<Rightarrow> b)"
    by (auto simp: run_baseline_def andthen_def ensure_def ret_def raise_def Let_def
        split: sum.splits prod.splits if_splits)
  then obtain c w1 paths w2 r where r: "bv_loader env (rp_case_id p) w = (Inr c, w1)"
      "visible_test_paths env c p w1 = (Inr paths, w2)" "run_sandbox env p paths w2 = (Inr r, w')"
      "b = baseline_of_sandbox p r"
    using b(2) failures_do_not_reproduce
    by (auto simp: run_baseline_body_def phase_def andthen_def ret_def returning_eq
        split: sum.splits prod.splits option.splits)
  with b(2) baseline_of_sandbox_reproduced [of r p] show "\<exists>c w1 paths w2 r. bv_loader env (rp_case_id p) w = (Inr c, w1) \<and>
       visible_test_paths env c p w1 = (Inr paths, w2) \<and>
       bv_execute env (rp_prepared_repository p) ([''python'', ''-m'', ''pytest''] @ paths) w2 = (Inr r, w') \<and>
       valid_sandbox_result r \<and> sr_completion r = NORMAL \<and> sr_exit_code r \<noteq> Some 0"
    by (auto simp: run_sandbox_Inr)
next
  assume "\<exists>c w1 paths w2 r. bv_loader env (rp_case_id p) w = (Inr c, w1) \<and>
       visible_test_paths env c p w1 = (Inr paths, w2) \<and>
       bv_execute env (rp_prepared_repository p) ([''python'', ''-m'', ''pytest''] @ paths) w2 = (Inr r, w') \<and>
       valid_sandbox_result r \<and> sr_completion r = NORMAL \<and> sr_exit_code r \<noteq> Some 0"
  then obtain c w1 paths w2 r where r: "bv_loader env (rp_case_id p) w = (Inr c, w1)"
      "visible_test_paths env c p w1 = (Inr paths, w2)" "run_sandbox env p paths w2 = (Inr r, w')"
      "valid_sandbox_result r" "sr_completion r = NORMAL" "sr_exit_code r \<noteq> Some 0"
    by (auto simp: run_sandbox_Inr)
  then have "run_baseline_body env p w = (Inr (Inr (baseline_of_sandbox p r)), w')"
    by (simp add: run_baseline_body_def phase_def andthen_def ret_def returning_eq)
  then have "run_baseline env p w = (Inr (baseline_of_sandbox p r), w')"
    using baseline_of_sandbox_valid [OF assms r(4)]
    by (simp add: run_baseline_def andthen_def ensure_def ret_def)
  with r baseline_of_sandbox_reproduced show
    "\<exists>b. run_baseline env p w = (Inr b, w') \<and> br_outcome b = REPRODUCED_FAILURE" by blast
qed

section \<open>A sample run\<close>

definition sample_trusted :: trusted_case where
  "sample_trusted = \<lparr>tc_manifest = sample_manifest, tc_case_path = ''/cases/case-1'',
     tc_repository_path = ''/cases/case-1/repository'',
     tc_visible_tests = [''/cases/case-1/repository/tests/test_app.py''],
     tc_hidden_tests = [''/cases/case-1/evaluator/hidden_tests/test_app.py''],
     tc_reference_patch = ''/cases/case-1/evaluator/reference.patch''\<rparr>"

definition sample_baseline_preparation :: repository_preparation where
  "sample_baseline_preparation = sample_preparation\<lparr>rp_requested_revision := ''failing''\<rparr>"

definition sample_failing_run :: sandbox_result where
  "sample_failing_run = \<lparr>sr_exit_code = Some 1, sr_completion = NORMAL, sr_stdout = ''E   assert 1 == 2'',
     sr_stderr = [], sr_stdout_truncated = False, sr_stderr_truncated = False, sr_duration_seconds = Finite 1\<rparr>"

definition sample_baseline_env :: "nat baseline_env" where
  "sample_baseline_env = \<lparr>bv_loader = (\<lambda>_. ret sample_trusted), bv_resolve = ret, bv_is_file = (\<lambda>_. ret True),
     bv_execute = (\<lambda>_ _. ret sample_failing_run)\<rparr>"

lemma sample_baseline_preparation_valid: "valid_preparation sample_baseline_preparation"
  by code_simp

lemma sample_visible_paths:
  "visible_test_paths sample_baseline_env sample_trusted sample_baseline_preparation 0 =
     (Inr [''tests/test_app.py''], 0)"
  by code_simp

theorem baseline_reproduced_iff_witness:
  "\<exists>b. run_baseline sample_baseline_env sample_baseline_preparation 0 = (Inr b, 0) \<and>
     br_outcome b = REPRODUCED_FAILURE"
proof -
  have "valid_sandbox_result sample_failing_run" by code_simp
  then show ?thesis
    unfolding baseline_reproduced_iff [OF sample_baseline_preparation_valid]
    using sample_visible_paths
    by (intro exI [of _ sample_trusted] exI [of _ 0] exI [of _ "[''tests/test_app.py'']"]
          exI [of _ sample_failing_run])
       (simp add: sample_baseline_env_def ret_def sample_failing_run_def)
qed

theorem baseline_results_are_valid_witness:
  "\<exists>b. run_baseline sample_baseline_env sample_baseline_preparation 0 = (Inr b, 0) \<and>
     valid_baseline_result b \<and> br_preparation b = sample_baseline_preparation"
proof -
  have "fst (run_baseline sample_baseline_env sample_baseline_preparation 0) =
      Inr (baseline_of_sandbox sample_baseline_preparation sample_failing_run)"
    "snd (run_baseline sample_baseline_env sample_baseline_preparation 0) = 0"
    by code_simp+
  then have "run_baseline sample_baseline_env sample_baseline_preparation 0 =
      (Inr (baseline_of_sandbox sample_baseline_preparation sample_failing_run), 0)"
    by (simp add: prod_eq_iff)
  from baseline_results_are_valid [OF sample_baseline_preparation_valid this] this show ?thesis by auto
qed

end
