(* ===== verification/Model_Config.thy ===== *)
theory Model_Config
  imports Schemas Floats Effects
begin

text \<open>
  \<open>app/agent/model.py\<close>: the exceptions of the model layer, the provider boundary, and the strict
  reading of the model configuration from the environment.
\<close>

section \<open>Exceptions\<close>

text \<open>\<open>Diagnosed\<close> is \<open>ModelDiagnosticError\<close>, \<open>Ordinary\<close> every other subclass of
  \<open>Exception\<close>, \<open>Interrupted\<close> stands for \<open>KeyboardInterrupt\<close> and \<open>SystemExit\<close>.\<close>

datatype model_raise = Diagnosed model_diagnostic | Ordinary | Interrupted

definition diagnose :: "model_diagnostic_stage \<Rightarrow> model_diagnostic_code \<Rightarrow> string \<Rightarrow> model_raise" where
  "diagnose stage dc message = Diagnosed \<lparr>md_stage = stage, md_code = dc, md_message = message\<rparr>"

type_synonym 'w provider = "model_provider_request \<Rightarrow> ('w, model_raise, model_provider_response) act"

definition supported_prompt_version :: string where
  "supported_prompt_version = ''repair-v1.0''"

section \<open>Reading the environment\<close>

definition required_environment_variables :: "string list" where
  "required_environment_variables =
     [''MODEL_PROVIDER'', ''MODEL_NAME'', ''MODEL_TEMPERATURE'', ''MODEL_MAX_TOKENS'', ''PROMPT_VERSION'']"

definition boolean_like :: "string list" where
  "boolean_like = [''true'', ''false'', ''yes'', ''no'', ''on'', ''off'']"

text \<open>\<open>^[0-9]+(?:\.[0-9]+)?$\<close> and \<open>^[0-9]+$\<close>, matched in full\<close>

definition digits :: "string \<Rightarrow> bool" where
  "digits s \<longleftrightarrow> s \<noteq> [] \<and> list_all is_digit s"

definition decimal_parts :: "string \<Rightarrow> (string \<times> string) option" where
  "decimal_parts s =
     (let whole = takeWhile is_digit s in
      case dropWhile is_digit s of
        [] \<Rightarrow> if digits whole then Some (whole, []) else None
      | c # fraction \<Rightarrow> if digits whole \<and> c = CHR ''.'' \<and> digits fraction then Some (whole, fraction) else None)"

text \<open>\<open>Decimal(value)\<close>, which is exact\<close>

definition decimal_value :: "string \<times> string \<Rightarrow> rat" where
  "decimal_value = (\<lambda>(whole, fraction).
     of_nat (int_of_digits whole) + of_nat (int_of_digits fraction) / 10 ^ length fraction)"

text \<open>\<open>None\<close> is the \<open>ValueError\<close>.\<close>

definition parse_temperature :: "string \<Rightarrow> pyfloat option" where
  "parse_temperature value =
     (if casefold value \<in> set boolean_like then None
      else (case decimal_parts value of
          None \<Rightarrow> None
        | Some parts \<Rightarrow>
            if 0 \<le> decimal_value parts \<and> decimal_value parts \<le> 2
            then map_option Finite (round_double (decimal_value parts)) else None))"

text \<open>\<open>int\<close> refuses more than 4300 digits.\<close>

definition parse_max_output_tokens :: "string \<Rightarrow> int option" where
  "parse_max_output_tokens value =
     (if casefold value \<in> set boolean_like \<or> \<not> digits value then None
      else if 4300 < length value then None
      else if 1 \<le> int_of_digits value \<and> int_of_digits value \<le> 32768 then Some (int (int_of_digits value))
      else None)"

definition configuration_of ::
  "string \<Rightarrow> string \<Rightarrow> pyfloat \<Rightarrow> int \<Rightarrow> string \<Rightarrow> model_configuration option" where
  "configuration_of provider model_name temperature max_output_tokens prompt_version =
     (let c = \<lparr>mc_provider = trim provider, mc_model_name = trim model_name, mc_temperature = temperature,
        mc_max_output_tokens = max_output_tokens, mc_prompt_version = trim prompt_version\<rparr> in
      if valid_model_configuration c then Some c else None)"

definition read_configuration :: "(string \<rightharpoonup> string) \<Rightarrow> model_configuration option" where
  "read_configuration source =
     (case (source ''MODEL_PROVIDER'', source ''MODEL_NAME'', source ''PROMPT_VERSION'',
            Option.bind (source ''MODEL_TEMPERATURE'') parse_temperature,
            Option.bind (source ''MODEL_MAX_TOKENS'') parse_max_output_tokens) of
        (Some provider, Some model_name, Some prompt_version, Some temperature, Some tokens) \<Rightarrow>
          configuration_of provider model_name temperature tokens prompt_version
      | _ \<Rightarrow> None)"

definition load_model_configuration :: "(string \<rightharpoonup> string) \<Rightarrow> model_raise + model_configuration" where
  "load_model_configuration source =
     (if list_ex (\<lambda>name. source name = None) required_environment_variables
      then Inl (diagnose MDS_CONFIGURATION MISSING_CONFIGURATION ''required model configuration is missing'')
      else (case read_configuration source of
          None \<Rightarrow> Inl (diagnose MDS_CONFIGURATION INVALID_CONFIGURATION ''model configuration is invalid'')
        | Some c \<Rightarrow>
            if mc_prompt_version c \<noteq> supported_prompt_version
            then Inl (diagnose MDS_CONFIGURATION UNSUPPORTED_PROMPT_VERSION ''model prompt version is unsupported'')
            else Inr c))"

section \<open>Facts\<close>

lemma configuration_of_valid: "configuration_of p n t k v = Some c \<Longrightarrow> valid_model_configuration c"
  by (auto simp: configuration_of_def Let_def split: if_splits)

lemma read_configuration_valid: "read_configuration source = Some c \<Longrightarrow> valid_model_configuration c"
  by (auto simp: read_configuration_def configuration_of_valid split: option.splits prod.splits)

text \<open>A temperature that parses is the double nearest to its decimal value, in the supported range.\<close>

lemma parse_temperature_Some:
  "parse_temperature s = Some t \<Longrightarrow>
     \<exists>parts v. decimal_parts s = Some parts \<and> round_double (decimal_value parts) = Some v \<and> t = Finite v \<and>
       0 \<le> decimal_value parts \<and> decimal_value parts \<le> 2"
  by (auto simp: parse_temperature_def split: if_splits option.splits)

lemma read_configuration_temperature:
  assumes "read_configuration source = Some c"
  obtains s parts v where "source ''MODEL_TEMPERATURE'' = Some s" "decimal_parts s = Some parts"
    "round_double (decimal_value parts) = Some v" "mc_temperature c = Finite v"
    "mc_prompt_version c = trim (the (source ''PROMPT_VERSION''))"
  using assms
  by (auto simp: read_configuration_def configuration_of_def Let_def bind_eq_Some_conv
      dest!: parse_temperature_Some split: option.splits prod.splits if_splits)

text \<open>The configuration read from any environment is valid, has the supported prompt version, and
  its temperature is the double nearest to the decimal in the environment; otherwise the reading raises
  one of its three configuration diagnostics.\<close>

theorem configuration_is_strict:
  "case load_model_configuration source of
     Inl e \<Rightarrow> \<exists>d. e = Diagnosed d \<and> md_stage d = MDS_CONFIGURATION \<and>
       md_code d \<in> {MISSING_CONFIGURATION, INVALID_CONFIGURATION, UNSUPPORTED_PROMPT_VERSION}
   | Inr c \<Rightarrow> valid_model_configuration c \<and> mc_prompt_version c = supported_prompt_version \<and>
       (\<exists>s parts. source ''MODEL_TEMPERATURE'' = Some s \<and> decimal_parts s = Some parts \<and>
          map_option Finite (round_double (decimal_value parts)) = Some (mc_temperature c))"
proof (cases "load_model_configuration source")
  case (Inl e)
  then show ?thesis by (auto simp: load_model_configuration_def diagnose_def split: if_splits option.splits)
next
  case (Inr c)
  then have c: "read_configuration source = Some c" "mc_prompt_version c = supported_prompt_version"
    by (auto simp: load_model_configuration_def split: if_splits option.splits)
  from c(1) obtain s parts v where "source ''MODEL_TEMPERATURE'' = Some s" "decimal_parts s = Some parts"
    "round_double (decimal_value parts) = Some v" "mc_temperature c = Finite v"
    by (rule read_configuration_temperature)
  with c Inr read_configuration_valid [OF c(1)] show ?thesis by (cases parts) auto
qed

end
