(* ===== verification/Planning_Claims.thy ===== *)
theory Planning_Claims
  imports Planning Patch_Facts
begin

text \<open>
  The delimiters of a prompt never occur in the text they frame and are found after at most as many
  steps as the text has characters; plans and patches that are accepted are consistent, and a patch is
  accepted unchanged when it is validated again.
\<close>

section \<open>Delimiters\<close>

lemma closing_bracket_no_digit: "\<not> is_digit (CHR ''>'')"
  by (simp add: is_digit_def code_def)

lemma digits_before_bracket:
  assumes "list_all is_digit a" "list_all is_digit b" "a @ CHR ''>'' # u = b @ CHR ''>'' # v"
  shows "a = b"
proof -
  have "takeWhile is_digit (x @ CHR ''>'' # y) = x" if "list_all is_digit x" for x y
    using that closing_bracket_no_digit by (induction x) auto
  then show ?thesis using assms by metis
qed

text \<open>Two identifiers that a text starts with are the same.\<close>

lemma identifier_unique:
  assumes "delimiter_identifier label m @ CHR ''>'' # u = delimiter_identifier label n @ CHR ''>'' # v"
  shows "m = n"
proof (cases "m = 0 \<or> n = 0")
  case True
  then show ?thesis using assms by (auto simp: delimiter_identifier_def split: if_splits)
next
  case False
  then have "decimal m @ CHR ''>'' # u = decimal n @ CHR ''>'' # v"
    using assms by (auto simp: delimiter_identifier_def split: if_splits)
  then have "decimal m = decimal n" by (rule digits_before_bracket [OF decimal_digits decimal_digits])
  then show ?thesis by (rule decimal_inj)
qed

definition delimiter_at :: "string \<Rightarrow> string \<Rightarrow> nat \<Rightarrow> nat \<Rightarrow> bool" where
  "delimiter_at label content n i \<longleftrightarrow>
     startswith (drop i content) (opening_delimiter label n) \<or> startswith (drop i content) (closing_delimiter label n)"

lemma delimiter_at_unique:
  assumes "delimiter_at label content m i" "delimiter_at label content n i"
  shows "m = n"
proof -
  let ?t = "drop i content"
  have tag: "x = CHR ''t''" if "delimiter_identifier label k @ u = x # v" for k u v x
    using that by (auto simp: delimiter_identifier_def)
  from assms consider
      u v where "?t = opening_delimiter label m @ u" "?t = opening_delimiter label n @ v"
    | u v where "?t = closing_delimiter label m @ u" "?t = closing_delimiter label n @ v"
    | u v where "?t = opening_delimiter label m @ u" "?t = closing_delimiter label n @ v"
    | u v where "?t = closing_delimiter label m @ u" "?t = opening_delimiter label n @ v"
    by (auto simp: delimiter_at_def startswith_iff)
  then show ?thesis
    by cases (auto simp: opening_delimiter_def closing_delimiter_def dest: tag sym
      dest!: identifier_unique)
qed

lemma taken_at: "suffix_taken label content n \<Longrightarrow> \<exists>i < length content. delimiter_at label content n i"
proof -
  have at: "\<exists>i < length content. startswith (drop i content) d" if "contains content d" "d \<noteq> []" for d
  proof -
    from that obtain u v where "content = u @ d @ v" by (auto simp: contains_iff)
    with that(2) show ?thesis by (intro exI [of _ "length u"]) (simp add: startswith_iff)
  qed
  assume "suffix_taken label content n"
  then show ?thesis
    using at [of "opening_delimiter label n"] at [of "closing_delimiter label n"]
    by (auto simp: suffix_taken_def delimiter_at_def opening_delimiter_def closing_delimiter_def)
qed

lemma taken_bound:
  assumes "\<forall>m < n. suffix_taken label content m"
  shows "n \<le> length content"
proof -
  define pos where "pos m = (SOME i. i < length content \<and> delimiter_at label content m i)" for m
  have at: "pos m < length content \<and> delimiter_at label content m (pos m)" if "m < n" for m
    unfolding pos_def by (rule someI_ex) (use taken_at assms that in blast)
  then have "inj_on pos {..<n}" unfolding inj_on_def by (metis delimiter_at_unique lessThan_iff)
  moreover have "pos ` {..<n} \<subseteq> {..<length content}" using at by auto
  ultimately have "card {..<n} \<le> card {..<length content}" by (metis card_inj_on_le finite_lessThan)
  then show ?thesis by simp
qed

lemma untrusted_delimiters_from_spec:
  "\<exists>n \<ge> suffix. untrusted_delimiters_from label content suffix = (opening_delimiter label n, closing_delimiter label n) \<and>
     \<not> suffix_taken label content n \<and> (\<forall>m. suffix \<le> m \<and> m < n \<longrightarrow> suffix_taken label content m)"
proof (induction label content suffix rule: untrusted_delimiters_from.induct)
  case (1 label content suffix)
  show ?case
  proof (cases "suffix_taken label content suffix")
    case False
    then have "untrusted_delimiters_from label content suffix =
        (opening_delimiter label suffix, closing_delimiter label suffix)"
      by (subst untrusted_delimiters_from.simps) (simp add: suffix_taken_def)
    with False show ?thesis by (intro exI [of _ suffix]) auto
  next
    case True
    then have rec: "untrusted_delimiters_from label content suffix = untrusted_delimiters_from label content (suffix + 1)"
      by (subst untrusted_delimiters_from.simps) (auto simp: suffix_taken_def)
    from True have "\<not> (\<not> contains content (opening_delimiter label suffix) \<and>
        \<not> contains content (closing_delimiter label suffix))" by (auto simp: suffix_taken_def)
    from 1 [OF refl refl this] obtain n where n: "suffix + 1 \<le> n"
      "untrusted_delimiters_from label content (suffix + 1) = (opening_delimiter label n, closing_delimiter label n)"
      "\<not> suffix_taken label content n" "\<forall>m. suffix + 1 \<le> m \<and> m < n \<longrightarrow> suffix_taken label content m"
      by blast
    have "\<forall>m. suffix \<le> m \<and> m < n \<longrightarrow> suffix_taken label content m"
      using n(4) True by (metis Suc_eq_plus1 le_neq_implies_less not_less_eq_eq not_le)
    with n rec show ?thesis by (intro exI [of _ n]) simp
  qed
qed

text \<open>C37: The search for delimiters ends: it returns those of the first suffix that is not taken, neither
  of them occurs in the content, and the suffix is at most the length of the content.\<close>

theorem delimiter_search_ends:
  "\<exists>n. untrusted_delimiters label content = (opening_delimiter label n, closing_delimiter label n) \<and>
     \<not> contains content (opening_delimiter label n) \<and> \<not> contains content (closing_delimiter label n) \<and>
     list_all (suffix_taken label content) [0 ..< n] \<and> n \<le> length content"
proof -
  obtain n where n: "untrusted_delimiters label content = (opening_delimiter label n, closing_delimiter label n)"
    "\<not> suffix_taken label content n" "\<forall>m < n. suffix_taken label content m"
    using untrusted_delimiters_from_spec [of 0 label content] by (auto simp: untrusted_delimiters_def)
  with taken_bound [OF n(3)] show ?thesis
    by (intro exI [of _ n]) (auto simp: suffix_taken_def list_all_iff)
qed

text \<open>A text framed by delimiters that do not occur in it\<close>

definition frames :: "string \<Rightarrow> string \<Rightarrow> bool" where
  "frames part content \<longleftrightarrow> (\<exists>opened closed. part = join_with newline [opened, content, closed] \<and>
     \<not> contains content opened \<and> \<not> contains content closed \<and> startswith opened ''<tracefix_untrusted_'' \<and>
     startswith closed ''</tracefix_untrusted_'')"

lemma delimiters_frame:
  assumes "untrusted_delimiters label content = (a, b)"
  shows "frames (join_with newline [a, content, b]) content"
proof -
  from delimiter_search_ends [of label content] assms have
    "\<exists>n. a = opening_delimiter label n \<and> b = closing_delimiter label n \<and> \<not> contains content a \<and> \<not> contains content b"
    by auto
  moreover have "startswith (opening_delimiter label n) ''<tracefix_untrusted_''"
    "startswith (closing_delimiter label n) ''</tracefix_untrusted_''" for n
    by (simp_all add: opening_delimiter_def closing_delimiter_def delimiter_identifier_def)
  ultimately show ?thesis by (auto simp: frames_def)
qed


lemma join_with_append:
  "ps \<noteq> [] \<Longrightarrow> qs \<noteq> [] \<Longrightarrow> join_with c (ps @ qs) = join_with c ps @ c # join_with c qs"
  by (induction c ps rule: join_with.induct) (auto simp: join_with_Cons)

text \<open>C26: Both prompts end with the untrusted text between delimiters that do not occur in it: the text
  of the context, and in the second one also the serialized plan.  Text in a frame cannot close the frame.\<close>

theorem prompts_frame_untrusted_text:
  "(\<exists>trusted part. planning_prompt mt c = trusted @ newline # part \<and> frames part (downstream_text c)) \<and>
   (\<exists>trusted part1 part2. generation_prompt mt c plan = trusted @ newline # part1 @ newline # part2 \<and>
      frames part1 (downstream_text c) \<and> frames part2 (mt_dump_plan mt plan))"
proof -
  obtain a b where ab: "untrusted_delimiters ''context'' (downstream_text c) = (a, b)" by fastforce
  obtain d e where de: "untrusted_delimiters ''repair_plan'' (mt_dump_plan mt plan) = (d, e)" by fastforce
  let ?c = "join_with newline [a, downstream_text c, b]"
  let ?p = "join_with newline [d, mt_dump_plan mt plan, e]"
  have three: "join_with newline (pre @ [x, u, y, z]) = join_with newline (pre @ [x]) @ newline # join_with newline [u, y, z]"
    for pre x u y z
    using join_with_append [of "pre @ [x]" "[u, y, z]" newline] by simp
  have six: "join_with newline (pre @ [x, u, y, z, u', y', z']) =
      join_with newline (pre @ [x]) @ newline # join_with newline [u, y, z] @ newline # join_with newline [u', y', z']"
    for pre x u y z u' y' z'
    using join_with_append [of "pre @ [x]" "[u, y, z, u', y', z']" newline]
      join_with_append [of "[u, y, z]" "[u', y', z']" newline] by simp
  have "\<exists>trusted. planning_prompt mt c = trusted @ newline # ?c"
    unfolding planning_prompt_def ab Let_def prod.case append_assoc [symmetric] three by blast
  moreover have "\<exists>trusted. generation_prompt mt c plan = trusted @ newline # ?c @ newline # ?p"
    unfolding generation_prompt_def ab de Let_def prod.case append_assoc [symmetric] six by simp
  ultimately show ?thesis using delimiters_frame [OF ab] delimiters_frame [OF de] by blast
qed

section \<open>Plans\<close>

lemma plan_of_json_valid: "plan_of_json j = Some plan \<Longrightarrow> valid_repair_plan plan"
  by (auto simp: plan_of_json_def bind_eq_Some_conv field_Some valid_repair_plan_def
      intro: json_non_blank_Some json_list_Some)

definition accepted_plan :: "repair_plan \<Rightarrow> bool" where
  "accepted_plan plan \<longleftrightarrow> valid_repair_plan plan \<and>
     (\<exists>paths. normalize_repository_paths (pl_files_expected_to_change plan) = Inr paths)"

lemma validated_plan_Inr: "validated_plan plan stage dc = Inr q \<longleftrightarrow> q = plan \<and> accepted_plan plan"
  by (cases "normalize_repository_paths (pl_files_expected_to_change plan)")
     (auto simp: validated_plan_def accepted_plan_def)

lemma parse_plan_Inr: "parse_plan mt raw = Inr plan \<Longrightarrow> accepted_plan plan"
  by (auto simp: parse_plan_def validated_plan_Inr split: option.splits)

definition model_code :: "model_raise \<Rightarrow> model_diagnostic_code option" where
  "model_code e = (case e of Diagnosed d \<Rightarrow> Some (md_code d) | _ \<Rightarrow> None)"

lemma parse_plan_Inl: "parse_plan mt raw = Inl e \<Longrightarrow> model_code e = Some MALFORMED_STRUCTURED_OUTPUT"
  by (auto simp: parse_plan_def validated_plan_def diagnose_def model_code_def split: option.splits if_splits)

lemma trim_keeps_end:
  assumes "s \<noteq> []" "\<not> is_white (hd s)" "\<not> is_white (last s)"
  shows "trim s = s"
proof -
  have "dropWhile is_white (rev s) = rev s"
    using assms by (metis dropWhile_eq_self_iff hd_rev)
  moreover have "dropWhile is_white s = s" using assms by (metis dropWhile_eq_self_iff)
  ultimately show ?thesis by (simp add: trim_def)
qed

lemma prompt_not_blank: "startswith s ''TraceFix'' \<Longrightarrow> non_blank (trim s)"
proof -
  assume "startswith s ''TraceFix''"
  then obtain r where s: "s = CHR ''T'' # r" by (auto simp: startswith_iff)
  have "\<not> is_white (CHR ''T'')" by (simp add: is_white_def code_def)
  then have "dropWhile is_white s = s" "CHR ''T'' \<in> set (rev s)" "\<not> is_white (CHR ''T'')" by (simp_all add: s)
  then have "dropWhile is_white (rev s) \<noteq> []" by (metis dropWhile_eq_Nil_conv)
  then have "trim s \<noteq> []" using \<open>dropWhile is_white s = s\<close> by (simp add: trim_def)
  then show ?thesis by (simp add: non_blank_def)
qed

lemma prompt_starts:
  "startswith (planning_prompt mt c) ''TraceFix''" "startswith (generation_prompt mt c plan) ''TraceFix''"
  by (simp_all add: planning_prompt_def generation_prompt_def common_instructions_def Let_def
      split: prod.splits)

lemma make_request_Inl:
  assumes "make_request cid op cfg s = Inl e" "valid_model_configuration cfg" "startswith s ''TraceFix''"
  shows "e = Ordinary \<and> \<not> provider_case_id cid"
  using assms prompt_not_blank [OF assms(3)]
  by (auto simp: make_request_def Let_def valid_provider_request_def valid_model_configuration_def split: if_splits)

lemma check_response_Inl:
  "check_response r stage = Inl e \<Longrightarrow> model_code e \<in> {Some MALFORMED_STRUCTURED_OUTPUT, Some OVERSIZED_RESPONSE}"
  by (auto simp: check_response_def diagnose_def model_code_def split: if_splits)

lemma provider_json_cases:
  assumes "provider_json provider request stage w = (r, w')"
  shows "case r of
      Inr raw \<Rightarrow> (\<exists>response. provider request w = (Inr response, w') \<and> valid_provider_response response \<and>
        mp_raw_json response = raw \<and> utf8_len raw \<le> 1048576)
    | Inl e \<Rightarrow> (e = Interrupted \<and> provider request w = (Inl Interrupted, w')) \<or>
        model_code e \<in> {Some PROVIDER_EXCEPTION, Some MALFORMED_STRUCTURED_OUTPUT, Some OVERSIZED_RESPONSE}"
  using assms
  by (auto simp: provider_json_def andthen_def catch_def raise_def lift_result_def check_response_def
      diagnose_def model_code_def max_provider_response_utf8_bytes_def
      split: sum.splits prod.splits if_splits)

text \<open>Planning with any provider returns an accepted plan, raises a model diagnostic, lets an interrupt
  of the provider pass, or raises the validation error of the request; the last only for a case identifier
  that the request model refuses, and then the provider is not called.\<close>

theorem planning_outcomes:
  "case plan_repair mt c cfg provider w of
     (Inr plan, w') \<Rightarrow> accepted_plan plan
   | (Inl (Diagnosed d), w') \<Rightarrow> md_code d \<in> {INVALID_CONFIGURATION, UNSUPPORTED_PROMPT_VERSION,
       INVALID_INPUT_STATE, PROVIDER_EXCEPTION, MALFORMED_STRUCTURED_OUTPUT, OVERSIZED_RESPONSE}
   | (Inl Interrupted, w') \<Rightarrow> (\<exists>request. provider request w = (Inl Interrupted, w'))
   | (Inl Ordinary, w') \<Rightarrow> w' = w \<and> \<not> provider_case_id (cp_case_id c)"
proof (cases "valid_model_configuration cfg \<and> mc_prompt_version cfg = supported_prompt_version \<and> valid_context_package c")
  case False
  then show ?thesis
    by (auto simp: plan_repair_def andthen_def lift_result_def validated_configuration_def
        validated_context_def diagnose_def)
next
  case True
  let ?request = "make_request (cp_case_id c) REPAIR_PLANNING cfg (planning_prompt mt c)"
  show ?thesis
  proof (cases ?request)
    case (Inl e)
    with make_request_Inl [OF Inl] True prompt_starts(1) show ?thesis
      by (simp add: plan_repair_def andthen_def lift_result_def validated_configuration_def validated_context_def)
  next
    case (Inr request)
    obtain r w' where r: "provider_json provider request MDS_PLANNING w = (r, w')" by fastforce
    have run: "plan_repair mt c cfg provider w =
        (case r of Inl e \<Rightarrow> (Inl e, w') | Inr raw \<Rightarrow> (parse_plan mt raw, w'))"
      using True Inr r
      by (simp add: plan_repair_def andthen_def lift_result_def validated_configuration_def
          validated_context_def split: sum.splits)
    show ?thesis
    proof (cases r)
      case (Inl e)
      with provider_json_cases [OF r] run show ?thesis
        by (cases e) (auto simp: model_code_def)
    next
      case (Inr raw)
      with run have "plan_repair mt c cfg provider w = (parse_plan mt raw, w')" by simp
      then show ?thesis
        using parse_plan_Inr [of mt raw] parse_plan_Inl [of mt raw]
        by (cases "parse_plan mt raw") (auto simp: model_code_def split: model_raise.splits)
    qed
  qed
qed


section \<open>Normalized diffs\<close>

lemma replace_crlf_snoc:
  "x \<noteq> newline \<Longrightarrow>
     py_replace [carriage_return, newline] [newline] (s @ [x]) = py_replace [carriage_return, newline] [newline] s @ [x]"
proof (induction "[carriage_return, newline]" "[newline]" s rule: py_replace.induct)
  case 1
  then show ?case by simp
next
  case (2 c cs)
  show ?case
  proof (cases "startswith (c # cs) [carriage_return, newline]")
    case True
    then obtain ds where "c = carriage_return" "cs = newline # ds" by (cases cs) auto
    with 2 True show ?thesis by simp
  next
    case False
    have "\<not> startswith ((c # cs) @ [x]) [carriage_return, newline]"
      using False 2(3) by (cases cs) auto
    moreover have "py_replace [carriage_return, newline] [newline] (cs @ [x]) =
        py_replace [carriage_return, newline] [newline] cs @ [x]"
      using False 2 by simp
    ultimately show ?thesis using False by (simp del: startswith.simps)
  qed
qed

lemma replace_cr: "py_replace [carriage_return] [newline] s = map (\<lambda>c. if c = carriage_return then newline else c) s"
  by (induction s) auto

lemma replace_crlf_none: "carriage_return \<notin> set s \<Longrightarrow> py_replace [carriage_return, newline] [newline] s = s"
  by (induction s) auto

lemma replace_crlf_head:
  "s \<noteq> [] \<Longrightarrow> hd s \<noteq> carriage_return \<Longrightarrow>
     \<exists>r. py_replace [carriage_return, newline] [newline] s = hd s # r"
  by (cases s) auto

lemma normalize_newlines_idem: "normalize_newlines (normalize_newlines s) = normalize_newlines s"
proof -
  have n: "carriage_return \<notin> set (normalize_newlines s)"
    unfolding normalize_newlines_def replace_cr by (auto simp: newline_def carriage_return_def)
  then have "map (\<lambda>c. if c = carriage_return then newline else c) (normalize_newlines s) = normalize_newlines s"
    by (intro map_idI) auto
  then show ?thesis
    unfolding normalize_newlines_def [of "normalize_newlines s"] replace_crlf_none [OF n] replace_cr .
qed

lemma white_breaks: "is_white newline" "is_white carriage_return"
  by (simp_all add: is_white_def newline_def carriage_return_def code_def)

lemma trimmed_ends:
  assumes "trim s = s" "s \<noteq> []"
  shows "\<not> is_white (hd s)" "\<not> is_white (last s)"
proof -
  let ?b = "dropWhile is_white (rev (dropWhile is_white s))"
  have s: "s = rev ?b" using assms(1) by (simp add: trim_def)
  then have "?b \<noteq> []" using assms(2) by (metis rev.simps(1))
  then have "\<not> is_white (hd ?b)" by (rule hd_dropWhile)
  moreover have "last s = hd ?b" using s \<open>?b \<noteq> []\<close> by (metis last_rev)
  ultimately show "\<not> is_white (last s)" by simp
  have "length (dropWhile is_white s) = length s"
    using s length_dropWhile_le [of is_white s] length_dropWhile_le [of is_white "rev (dropWhile is_white s)"]
    by (metis le_antisym length_rev)
  then have "dropWhile is_white s = s" by (metis length_append takeWhile_dropWhile_id add_cancel_left_left length_0_conv append_Nil)
  then show "\<not> is_white (hd s)" using assms(2) by (metis hd_dropWhile)
qed

text \<open>The normalized text of a stripped diff is stripped.\<close>

lemma normalize_newlines_trim:
  assumes "trim s = s" "s \<noteq> []"
  shows "trim (normalize_newlines s) = normalize_newlines s" "normalize_newlines s \<noteq> []"
proof -
  note ends = trimmed_ends [OF assms]
  obtain t x where s: "s = t @ [x]" using assms(2) by (cases s rule: rev_cases) auto
  have x: "x \<noteq> newline" "x \<noteq> carriage_return" using ends(2) white_breaks s by auto
  have last: "normalize_newlines s = normalize_newlines t @ [x]"
    using x by (simp add: normalize_newlines_def s replace_crlf_snoc replace_cr)
  have h: "hd s \<noteq> newline" "hd s \<noteq> carriage_return" using ends(1) white_breaks by auto
  obtain r where "py_replace [carriage_return, newline] [newline] s = hd s # r"
    using replace_crlf_head [OF assms(2) h(2)] by blast
  then have "hd (normalize_newlines s) = hd s" using h by (simp add: normalize_newlines_def replace_cr)
  then show "trim (normalize_newlines s) = normalize_newlines s"
    using last ends s by (intro trim_keeps_end) simp_all
  show "normalize_newlines s \<noteq> []" using last by simp
qed

lemma parse_normalized:
  assumes "parse_unified_diff s = Inr d"
  shows "ud_normalized_text d = normalize_newlines s" "parse_unified_diff (normalize_newlines s) = Inr d"
proof -
  show n: "ud_normalized_text d = normalize_newlines s"
    using assms by (auto simp: parse_unified_diff_def Let_def finish_parse_def bindE_eq_Inr split: if_splits)
  have "nul \<notin> set s" using assms by (auto simp: parse_unified_diff_def split: if_splits)
  moreover have "set (normalize_newlines s) \<subseteq> insert newline (set s)"
  proof -
    have "set (py_replace [carriage_return, newline] [newline] s) \<subseteq> insert newline (set s)"
    proof (induction "[carriage_return, newline]" "[newline]" s rule: py_replace.induct)
      case (2 c cs)
      then show ?case by (cases cs) auto
    qed simp
    then show ?thesis by (auto simp: normalize_newlines_def replace_cr)
  qed
  moreover have "nul \<noteq> newline" by (simp add: nul_def newline_def)
  ultimately have "nul \<notin> set (normalize_newlines s)" by auto
  with assms \<open>nul \<notin> set s\<close> show "parse_unified_diff (normalize_newlines s) = Inr d"
    by (simp add: parse_unified_diff_def normalize_newlines_idem)
qed

section \<open>Patches\<close>

lemma proposal_of_json_valid: "proposal_of_json j = Some p \<Longrightarrow> valid_patch_proposal p"
  by (auto simp: proposal_of_json_def bind_eq_Some_conv field_Some valid_patch_proposal_def confidence_ok_def
      intro: json_non_blank_Some json_list_Some split: if_splits)

text \<open>A proposal that belongs to a plan: valid, with a diff that parses, and the same paths in the plan,
  the proposal and the diff\<close>

definition consistent_patch :: "repair_plan \<Rightarrow> patch_proposal \<Rightarrow> bool" where
  "consistent_patch plan p \<longleftrightarrow> valid_patch_proposal p \<and>
     (\<exists>d. parse_unified_diff (pr_unified_diff p) = Inr d \<and> ud_normalized_text d = pr_unified_diff p \<and>
        set (pr_files_changed p) = set (pl_files_expected_to_change plan) \<and>
        set (pr_files_changed p) = set (changed_paths d))"

lemma validated_patch_Inr:
  assumes "validated_patch p plan = Inr q" "valid_patch_proposal p"
  shows "consistent_patch plan q" "validated_patch q plan = Inr q"
proof -
  obtain d where d: "parse_unified_diff (pr_unified_diff p) = Inr d"
    and paths: "normalize_repository_paths (pr_files_changed p) = Inr (pr_files_changed p)"
      "normalize_repository_paths (pl_files_expected_to_change plan) = Inr (pl_files_expected_to_change plan)"
      "set (pr_files_changed p) = set (pl_files_expected_to_change plan)"
      "set (pr_files_changed p) = set (changed_paths d)"
    and q: "q = p\<lparr>pr_unified_diff := trim (ud_normalized_text d)\<rparr>" "valid_patch_proposal q"
    using assms(1)
    by (auto simp: validated_patch_def normalize_Inr Let_def split: sum.splits if_splits)
  have nb: "trim (pr_unified_diff p) = pr_unified_diff p" "pr_unified_diff p \<noteq> []"
    using assms(2) by (auto simp: valid_patch_proposal_def non_blank_def)
  have nt: "ud_normalized_text d = normalize_newlines (pr_unified_diff p)"
    "trim (normalize_newlines (pr_unified_diff p)) = normalize_newlines (pr_unified_diff p)"
    using parse_normalized(1) [OF d] normalize_newlines_trim [OF nb] by simp_all
  have dq: "parse_unified_diff (pr_unified_diff q) = Inr d" "ud_normalized_text d = pr_unified_diff q"
    using parse_normalized [OF d] by (simp_all add: q(1) nt)
  have fq: "pr_files_changed q = pr_files_changed p" by (simp add: q)
  show "consistent_patch plan q" using dq paths fq q(2) by (auto simp: consistent_patch_def)
  have "q\<lparr>pr_unified_diff := trim (ud_normalized_text d)\<rparr> = q" by (simp add: q(1))
  then show "validated_patch q plan = Inr q"
    using dq paths fq q(2) by (simp add: validated_patch_def Let_def)
qed

lemma parse_patch_Inr:
  assumes "parse_patch mt plan raw = Inr q"
  shows "consistent_patch plan q" "validated_patch q plan = Inr q"
proof -
  from assms obtain j p where "proposal_of_json j = Some p" "validated_patch p plan = Inr q"
    by (auto simp: parse_patch_def bind_eq_Some_conv split: option.splits)
  then have "valid_patch_proposal p" "validated_patch p plan = Inr q" by (simp_all add: proposal_of_json_valid)
  then show "consistent_patch plan q" "validated_patch q plan = Inr q"
    using validated_patch_Inr by blast+
qed

lemma generate_patch_Inr:
  assumes "generate_patch mt c plan cfg provider w = (Inr q, w')"
  shows "accepted_plan plan \<and> pl_autonomous_repair_suitable plan \<and> (\<exists>raw. parse_patch mt plan raw = Inr q)"
  using assms
  by (auto simp: generate_patch_def andthen_def lift_result_def ensure_def ret_def raise_def validated_plan_Inr
      split: sum.splits prod.splits if_splits)

text \<open>C27: A generated patch belongs to its plan, which is accepted and suitable: it is valid, its diff
  parses and is in normal form, the plan, the proposal and the diff change the same files, and validating
  it again returns it unchanged.\<close>

theorem generated_patch_is_consistent:
  assumes "generate_patch mt c plan cfg provider w = (Inr q, w')"
  shows "accepted_plan plan \<and> pl_autonomous_repair_suitable plan \<and> consistent_patch plan q \<and>
    validated_patch q plan = Inr q"
  using generate_patch_Inr [OF assms] parse_patch_Inr by blast


section \<open>Samples\<close>

definition sample_analysis :: failure_analysis where
  "sample_analysis = \<lparr>fa_category = FC_syntax_failure, fa_summary = ''syntax_failure: TabError''\<rparr>"

definition sample_protected_paths :: protected_path_policy where
  "sample_protected_paths = \<lparr>pp_protected_paths = [''docker''], pp_exceptions = []\<rparr>"

definition sample_item :: "context_item_kind \<Rightarrow> nat \<Rightarrow> string \<Rightarrow> context_item" where
  "sample_item k priority content = \<lparr>ci_path = ''x.py'', ci_kind = k, ci_content = content, ci_priority = priority,
     ci_source_line = 1, ci_truncated = False, ci_original_utf8_bytes = utf8_len content\<rparr>"

definition sample_items :: "context_item list" where
  "sample_items = [sample_item ISSUE 0 ''issue'', sample_item CLASSIFICATION 1 (classification_content sample_analysis),
     sample_item PROTECTED_PATH_POLICY 2 (policy_content sample_protected_paths)]"

definition sample_context :: context_package where
  "sample_context = \<lparr>cp_case_id = ''case'', cp_failure_analysis = sample_analysis,
     cp_protected_path_policy = sample_protected_paths, cp_items = sample_items, cp_omissions = [],
     cp_limit_utf8_bytes = 999,
     cp_actual_utf8_bytes = downstream_utf8_size ''case'' sample_items [] 999 False,
     cp_safe_material_omitted = False\<rparr>"

lemma sample_context_valid: "valid_context_package sample_context"
  by code_simp

definition sample_configuration :: model_configuration where
  "sample_configuration = \<lparr>mc_provider = ''p'', mc_model_name = ''m'', mc_temperature = Finite 0,
     mc_max_output_tokens = 10, mc_prompt_version = ''repair-v1.0''\<rparr>"

definition sample_plan :: repair_plan where
  "sample_plan = \<lparr>pl_suspected_root_cause = ''c'', pl_files_expected_to_change = [''app/x.py''],
     pl_intended_behavioural_correction = ''b'', pl_risks = [], pl_validation_strategy = ''v'',
     pl_autonomous_repair_suitable = True\<rparr>"

definition proposal_json :: "string \<Rightarrow> json" where
  "proposal_json diff = JObject [(''summary'', JString ''s''), (''root_cause'', JString ''c''),
     (''files_changed'', JArray [JString ''app/x.py'']), (''unified_diff'', JString diff),
     (''expected_effect'', JString ''e''), (''risks'', JArray []), (''confidence'', JFloat (Finite 1))]"

definition proposal_with :: "string \<Rightarrow> patch_proposal" where
  "proposal_with diff = \<lparr>pr_summary = ''s'', pr_root_cause = ''c'', pr_files_changed = [''app/x.py''],
     pr_unified_diff = diff, pr_expected_effect = ''e'', pr_risks = [], pr_confidence = Finite 1\<rparr>"

definition sample_texts :: model_texts where
  "sample_texts = \<lparr>mt_plan_schema = ''{}'', mt_proposal_schema = ''{}'', mt_dump_plan = (\<lambda>_. ''{}''),
     mt_parse_json = (\<lambda>_. Some (proposal_json sample_text))\<rparr>"

definition sample_provider :: "nat provider" where
  "sample_provider = (\<lambda>request. ret \<lparr>mp_raw_json = ''{}'', mp_usage = None\<rparr>)"

lemma sample_generation:
  "generate_patch sample_texts sample_context sample_plan sample_configuration sample_provider 0 =
     (Inr (proposal_with sample_text), 0)"
proof -
  have "valid_model_configuration sample_configuration" by code_simp
  then have c: "validated_configuration sample_configuration = Inr sample_configuration"
    by (simp add: validated_configuration_def sample_configuration_def supported_prompt_version_def)
  have x: "validated_context sample_context MDS_PATCH_GENERATION = Inr sample_context"
    by (simp add: validated_context_def sample_context_valid)
  have p: "validated_plan sample_plan MDS_PATCH_GENERATION INVALID_INPUT_STATE = Inr sample_plan" by code_simp
  obtain request where r: "make_request (cp_case_id sample_context) PATCH_GENERATION sample_configuration
      (generation_prompt sample_texts sample_context sample_plan) = Inr request"
  proof -
    have "provider_case_id (cp_case_id sample_context)" by code_simp
    then show ?thesis
      using that make_request_Inl [OF _ \<open>valid_model_configuration sample_configuration\<close> prompt_starts(2)]
      by (cases "make_request (cp_case_id sample_context) PATCH_GENERATION sample_configuration
        (generation_prompt sample_texts sample_context sample_plan)") auto
  qed
  have j: "provider_json sample_provider request MDS_PATCH_GENERATION 0 = (Inr ''{}'', 0)"
    by (simp add: provider_json_def sample_provider_def andthen_def catch_def ret_def lift_result_def
        check_response_def valid_provider_response_def max_provider_response_utf8_bytes_def utf8_char_len_def code_def)
  have "parse_patch sample_texts sample_plan ''{}'' = Inr (proposal_with sample_text)" by code_simp
  with c x p r j show ?thesis
    by (simp add: generate_patch_def andthen_def lift_result_def ensure_def ret_def sample_plan_def)
qed

theorem generated_patch_is_consistent_witness:
  "consistent_patch sample_plan (proposal_with sample_text)"
  using generated_patch_is_consistent [OF sample_generation] by blast

text \<open>A diff whose last line is an empty line of context\<close>

definition blank_context_text :: string where
  "blank_context_text = join_with newline
     [''--- a/app/x.py'', ''+++ b/app/x.py'', ''@@ -1,3 +1,3 @@'', '' keep'', ''-old'', ''+new'', '' '']"

text \<open>The diff field of a proposal strips its text, so a diff that ends with an empty context line
  parses as the model wrote it, but the proposal that carries it is refused.\<close>

theorem stripped_diff_is_refused:
  "(\<exists>d. parse_unified_diff blank_context_text = Inr d \<and> changed_paths d = [''app/x.py'']) \<and>
   proposal_of_json (proposal_json blank_context_text) = Some (proposal_with (trim blank_context_text)) \<and>
   validated_patch (proposal_with (trim blank_context_text)) sample_plan = Inl envelope_error"
proof -
  have "case parse_unified_diff blank_context_text of Inl _ \<Rightarrow> False | Inr d \<Rightarrow> changed_paths d = [''app/x.py'']"
    by code_simp
  moreover have "proposal_of_json (proposal_json blank_context_text) = Some (proposal_with (trim blank_context_text))"
    by code_simp
  moreover have "validated_patch (proposal_with (trim blank_context_text)) sample_plan = Inl envelope_error"
    by code_simp
  ultimately show ?thesis by (auto split: sum.splits)
qed

end
