(* ===== verification/Case_State.thy ===== *)
theory Case_State
  imports Planning Classification
begin

text \<open>
  The transitions of the case state: \<open>apply_failure_analysis\<close> of \<open>app/agent/context.py\<close>,
  \<open>record_repair_plan\<close> and \<open>record_patch_proposal\<close> of \<open>app/agent/planning.py\<close>, and the
  updates the graph makes itself.  The instant of \<open>datetime.now(UTC)\<close> is the parameter \<open>now\<close>.
\<close>

definition utc_now :: "int \<Rightarrow> datetime" where
  "utc_now t = \<lparr>dt_instant = t, dt_offset = Some 0\<rparr>"

section \<open>Analysis\<close>

definition no_repair_evidence :: "repair_case_state \<Rightarrow> bool" where
  "no_repair_evidence s \<longleftrightarrow> cs_repair_plan s = None \<and> cs_candidate_patch s = None \<and>
     cs_verification_results s = [] \<and> cs_evaluation_results s = []"

definition apply_failure_analysis ::
  "(string list \<Rightarrow> string list) \<Rightarrow> int \<Rightarrow> repair_case_state \<Rightarrow> failure_analysis \<Rightarrow> model_raise + repair_case_state" where
  "apply_failure_analysis set_order now s analysis =
     (case cs_baseline_result s of
        Some (Inr b) \<Rightarrow>
          if cs_status s \<noteq> RS_baseline_complete \<or> br_outcome b \<noteq> REPRODUCED_FAILURE \<or>
             cs_case_id s \<noteq> rp_case_id (br_preparation b) \<or> classify_failure set_order b \<noteq> Inr analysis \<or>
             cs_failure_analysis s \<noteq> None \<or> \<not> no_repair_evidence s
          then Inl Ordinary
          else Inr (s\<lparr>cs_failure_analysis := Some analysis, cs_status := RS_analysis_complete,
                 cs_updated_at := utc_now now\<rparr>)
      | _ \<Rightarrow> Inl Ordinary)"

section \<open>Plan and patch\<close>

definition invalid_state :: model_raise where
  "invalid_state = diagnose MDS_STATE_UPDATE INVALID_INPUT_STATE ''repair state transition is invalid''"

definition validated_state :: "repair_case_state \<Rightarrow> model_raise + repair_case_state" where
  "validated_state s = (if valid_case_state s then Inr s else Inl invalid_state)"

definition state_has_matching_analysis ::
  "(string list \<Rightarrow> string list) \<Rightarrow> repair_case_state \<Rightarrow> context_package \<Rightarrow> bool" where
  "state_has_matching_analysis set_order s c =
     (case (cs_baseline_result s, cs_failure_analysis s) of
        (Some (Inr b), Some analysis) \<Rightarrow>
          br_outcome b = REPRODUCED_FAILURE \<and> rp_case_id (br_preparation b) = cs_case_id s \<and>
          analysis = cp_failure_analysis c \<and> classify_failure set_order b = Inr analysis
      | _ \<Rightarrow> False)"

definition plan_transition_ok ::
  "(string list \<Rightarrow> string list) \<Rightarrow> repair_case_state \<Rightarrow> context_package \<Rightarrow> bool" where
  "plan_transition_ok set_order s c \<longleftrightarrow>
     cs_status s = RS_analysis_complete \<and> cs_case_id s = cp_case_id c \<and> state_has_matching_analysis set_order s c \<and>
     cs_attempt_number s = 0 \<and> cs_max_attempts s = 1 \<and> no_repair_evidence s \<and>
     cs_model_provider s = None \<and> cs_model_name s = None \<and> cs_prompt_version s = None"

definition record_repair_plan ::
  "(string list \<Rightarrow> string list) \<Rightarrow> int \<Rightarrow> repair_case_state \<Rightarrow> context_package \<Rightarrow> repair_plan \<Rightarrow>
     model_configuration \<Rightarrow> model_raise + repair_case_state" where
  "record_repair_plan set_order now s0 c0 plan0 configuration0 =
     bindE (validated_configuration configuration0) (\<lambda>configuration.
     bindE (validated_context c0 MDS_STATE_UPDATE) (\<lambda>c.
     bindE (validated_plan plan0 MDS_STATE_UPDATE INVALID_INPUT_STATE) (\<lambda>plan.
     bindE (validated_state s0) (\<lambda>s.
     if \<not> plan_transition_ok set_order s c then Inl invalid_state
     else Inr (s\<lparr>cs_repair_plan := Some plan, cs_model_provider := Some (mc_provider configuration),
        cs_model_name := Some (mc_model_name configuration),
        cs_prompt_version := Some (mc_prompt_version configuration), cs_attempt_number := 1,
        cs_status := RS_plan_complete, cs_updated_at := utc_now now\<rparr>)))))"

definition patch_transition_ok ::
  "(string list \<Rightarrow> string list) \<Rightarrow> repair_case_state \<Rightarrow> context_package \<Rightarrow> repair_plan \<Rightarrow> model_configuration \<Rightarrow> bool" where
  "patch_transition_ok set_order s c plan configuration \<longleftrightarrow>
     cs_status s = RS_plan_complete \<and> cs_case_id s = cp_case_id c \<and> state_has_matching_analysis set_order s c \<and>
     cs_attempt_number s = 1 \<and> cs_max_attempts s = 1 \<and> cs_repair_plan s = Some plan \<and>
     pl_autonomous_repair_suitable plan \<and> cs_candidate_patch s = None \<and>
     cs_verification_results s = [] \<and> cs_evaluation_results s = [] \<and>
     cs_model_provider s = Some (mc_provider configuration) \<and> cs_model_name s = Some (mc_model_name configuration) \<and>
     cs_prompt_version s = Some (mc_prompt_version configuration)"

definition record_patch_proposal ::
  "(string list \<Rightarrow> string list) \<Rightarrow> int \<Rightarrow> repair_case_state \<Rightarrow> context_package \<Rightarrow> repair_plan \<Rightarrow>
     patch_proposal \<Rightarrow> model_configuration \<Rightarrow> model_raise + repair_case_state" where
  "record_patch_proposal set_order now s0 c0 plan0 proposal configuration0 =
     bindE (validated_configuration configuration0) (\<lambda>configuration.
     bindE (validated_context c0 MDS_STATE_UPDATE) (\<lambda>c.
     bindE (validated_plan plan0 MDS_STATE_UPDATE INVALID_INPUT_STATE) (\<lambda>plan.
     bindE (validated_state s0) (\<lambda>s.
     if \<not> patch_transition_ok set_order s c plan configuration then Inl invalid_state
     else bindE (validated_patch proposal plan) (\<lambda>validated.
       Inr (s\<lparr>cs_candidate_patch := Some validated, cs_status := RS_patch_proposed,
         cs_updated_at := utc_now now\<rparr>))))))"

section \<open>Updates of the graph\<close>

definition new_case_state :: "string \<Rightarrow> datetime \<Rightarrow> repair_case_state" where
  "new_case_state case_id started = \<lparr>cs_case_id = case_id, cs_status = RS_pending, cs_attempt_number = 0,
     cs_max_attempts = 1, cs_baseline_result = None, cs_failure_analysis = None, cs_repair_plan = None,
     cs_candidate_patch = None, cs_verification_results = [], cs_evaluation_results = [],
     cs_model_provider = None, cs_model_name = None, cs_prompt_version = None,
     cs_created_at = started, cs_updated_at = started\<rparr>"

definition record_baseline :: "baseline_result \<Rightarrow> repair_case_state \<Rightarrow> repair_case_state" where
  "record_baseline b s = s\<lparr>cs_baseline_result := Some (Inr b), cs_status := RS_baseline_complete\<rparr>"

definition record_failed_attempt :: "model_configuration option \<Rightarrow> repair_case_state \<Rightarrow> repair_case_state" where
  "record_failed_attempt configuration s =
     (let s1 = s\<lparr>cs_attempt_number := 1\<rparr> in
      case configuration of
        None \<Rightarrow> s1
      | Some c \<Rightarrow> s1\<lparr>cs_model_provider := Some (mc_provider c), cs_model_name := Some (mc_model_name c),
          cs_prompt_version := Some (mc_prompt_version c)\<rparr>)"

section \<open>The life of a case\<close>

text \<open>The steps a case state can take: a baseline is recorded on a pending case, and the timestamp may
  change at any time.\<close>

inductive case_step :: "(string list \<Rightarrow> string list) \<Rightarrow> repair_case_state \<Rightarrow> repair_case_state \<Rightarrow> bool"
  for set_order where
  step_baseline: "cs_status s = RS_pending \<Longrightarrow> case_step set_order s (record_baseline b s)"
| step_analysis: "apply_failure_analysis set_order now s a = Inr s' \<Longrightarrow> case_step set_order s s'"
| step_plan: "record_repair_plan set_order now s c plan cfg = Inr s' \<Longrightarrow> case_step set_order s s'"
| step_patch: "record_patch_proposal set_order now s c plan p cfg = Inr s' \<Longrightarrow> case_step set_order s s'"
| step_attempt: "case_step set_order s (record_failed_attempt cfg s)"
| step_touch: "case_step set_order s (s\<lparr>cs_updated_at := t\<rparr>)"

inductive case_reachable :: "(string list \<Rightarrow> string list) \<Rightarrow> repair_case_state \<Rightarrow> bool"
  for set_order where
  reach_new: "case_reachable set_order (new_case_state case_id started)"
| reach_step: "case_reachable set_order s \<Longrightarrow> case_step set_order s s' \<Longrightarrow> case_reachable set_order s'"

end
