(* ===== verification/Case_State_Claims.thy ===== *)
theory Case_State_Claims
  imports Case_State Planning_Claims Classification_Claims
begin

text \<open>The evidence a case state holds follows from its status: no step skips a stage.\<close>

section \<open>Evidence by status\<close>

definition analysed :: "(string list \<Rightarrow> string list) \<Rightarrow> repair_case_state \<Rightarrow> bool" where
  "analysed so s \<longleftrightarrow> (\<exists>b a. cs_baseline_result s = Some (Inr b) \<and> br_outcome b = REPRODUCED_FAILURE \<and>
     rp_case_id (br_preparation b) = cs_case_id s \<and> cs_failure_analysis s = Some a \<and> classify_failure so b = Inr a)"

definition planned :: "repair_case_state \<Rightarrow> bool" where
  "planned s \<longleftrightarrow> cs_attempt_number s = 1 \<and> (\<exists>plan. cs_repair_plan s = Some plan \<and> accepted_plan plan)"

fun status_evidence :: "(string list \<Rightarrow> string list) \<Rightarrow> repair_status \<Rightarrow> repair_case_state \<Rightarrow> bool" where
  "status_evidence so RS_pending s =
     (cs_baseline_result s = None \<and> cs_failure_analysis s = None \<and> cs_repair_plan s = None \<and> cs_candidate_patch s = None)"
| "status_evidence so RS_baseline_complete s =
     ((\<exists>b. cs_baseline_result s = Some (Inr b)) \<and> cs_failure_analysis s = None \<and> cs_repair_plan s = None \<and>
      cs_candidate_patch s = None)"
| "status_evidence so RS_analysis_complete s = (analysed so s \<and> cs_repair_plan s = None \<and> cs_candidate_patch s = None)"
| "status_evidence so RS_plan_complete s = (analysed so s \<and> planned s \<and> cs_candidate_patch s = None)"
| "status_evidence so RS_patch_proposed s =
     (analysed so s \<and> planned s \<and> (\<exists>plan p. cs_repair_plan s = Some plan \<and> cs_candidate_patch s = Some p \<and>
        pl_autonomous_repair_suitable plan \<and> valid_patch_proposal p \<and>
        set (pr_files_changed p) = set (pl_files_expected_to_change plan)))"
| "status_evidence so RS_verified s = False"
| "status_evidence so RS_failed s = False"

definition case_evidence :: "(string list \<Rightarrow> string list) \<Rightarrow> repair_case_state \<Rightarrow> bool" where
  "case_evidence so s \<longleftrightarrow> status_evidence so (cs_status s) s \<and> cs_max_attempts s = 1 \<and> cs_attempt_number s \<in> {0, 1} \<and>
     cs_verification_results s = [] \<and> cs_evaluation_results s = []"

lemma status_evidence_cong:
  assumes "cs_baseline_result t = cs_baseline_result s" "cs_failure_analysis t = cs_failure_analysis s"
    "cs_repair_plan t = cs_repair_plan s" "cs_candidate_patch t = cs_candidate_patch s"
    "cs_case_id t = cs_case_id s" "cs_attempt_number t = cs_attempt_number s \<or> cs_attempt_number t = 1"
  shows "status_evidence so st s \<Longrightarrow> status_evidence so st t"
  using assms by (cases st) (auto simp: analysed_def planned_def)

section \<open>The steps\<close>

lemma apply_failure_analysis_Inr:
  assumes "apply_failure_analysis so now s a = Inr s'"
  shows "s' = s\<lparr>cs_failure_analysis := Some a, cs_status := RS_analysis_complete, cs_updated_at := utc_now now\<rparr> \<and>
    cs_status s = RS_baseline_complete \<and> analysed so s' \<and> no_repair_evidence s"
  using assms
  by (auto simp: apply_failure_analysis_def analysed_def split: option.splits sum.splits if_splits)

lemma record_repair_plan_Inr:
  assumes "record_repair_plan so now s c plan cfg = Inr s'"
  shows "accepted_plan plan \<and> plan_transition_ok so s c \<and> validated_configuration cfg = Inr cfg \<and>
    s' = s\<lparr>cs_repair_plan := Some plan, cs_model_provider := Some (mc_provider cfg),
        cs_model_name := Some (mc_model_name cfg), cs_prompt_version := Some (mc_prompt_version cfg),
        cs_attempt_number := 1, cs_status := RS_plan_complete, cs_updated_at := utc_now now\<rparr>"
  using assms
  by (auto simp: record_repair_plan_def bindE_eq_Inr validated_plan_Inr validated_context_def
      validated_configuration_def validated_state_def split: if_splits)

lemma record_patch_proposal_Inr:
  assumes "record_patch_proposal so now s c plan p cfg = Inr s'"
  obtains q where "accepted_plan plan" "patch_transition_ok so s c plan cfg" "validated_patch p plan = Inr q"
    "s' = s\<lparr>cs_candidate_patch := Some q, cs_status := RS_patch_proposed, cs_updated_at := utc_now now\<rparr>"
  using assms
  by (auto simp: record_patch_proposal_def bindE_eq_Inr validated_plan_Inr validated_context_def
      validated_configuration_def validated_state_def split: if_splits)

lemma validated_patch_files:
  "validated_patch p plan = Inr q \<Longrightarrow>
     valid_patch_proposal q \<and> set (pr_files_changed q) = set (pl_files_expected_to_change plan)"
  by (auto simp: validated_patch_def normalize_Inr Let_def split: sum.splits if_splits)

lemma matching_analysis_analysed: "state_has_matching_analysis so s c \<Longrightarrow> analysed so s"
  by (auto simp: state_has_matching_analysis_def analysed_def split: option.splits sum.splits)

lemma case_step_evidence: "case_step so s s' \<Longrightarrow> case_evidence so s \<Longrightarrow> case_evidence so s'"
proof (induction rule: case_step.induct)
  case (step_baseline s b)
  then show ?case by (simp add: case_evidence_def record_baseline_def)
next
  case (step_analysis now s a s')
  from apply_failure_analysis_Inr [OF step_analysis(1)] step_analysis(2) show ?case
    by (auto simp: case_evidence_def no_repair_evidence_def)
next
  case (step_plan now s c plan cfg s')
  from record_repair_plan_Inr [OF step_plan(1)] step_plan(2) show ?case
    by (auto simp: case_evidence_def plan_transition_ok_def no_repair_evidence_def analysed_def planned_def
        dest!: matching_analysis_analysed)
next
  case (step_patch now s c plan p cfg s')
  from step_patch(1) obtain q where q: "accepted_plan plan" "patch_transition_ok so s c plan cfg"
    "validated_patch p plan = Inr q"
    "s' = s\<lparr>cs_candidate_patch := Some q, cs_status := RS_patch_proposed, cs_updated_at := utc_now now\<rparr>"
    by (rule record_patch_proposal_Inr)
  have old: "analysed so s" "cs_repair_plan s = Some plan" "pl_autonomous_repair_suitable plan"
    "cs_verification_results s = []" "cs_evaluation_results s = []" "cs_attempt_number s = 1" "cs_max_attempts s = 1"
    using q(2) matching_analysis_analysed by (auto simp: patch_transition_ok_def)
  have "analysed so s'" "planned s'" using old(1,2,6) q(1) by (simp_all add: q(4) analysed_def planned_def)
  moreover have "cs_repair_plan s' = Some plan" "cs_candidate_patch s' = Some q" "cs_status s' = RS_patch_proposed"
    "cs_max_attempts s' = 1" "cs_attempt_number s' = 1" "cs_verification_results s' = []" "cs_evaluation_results s' = []"
    using old by (simp_all add: q(4))
  ultimately show ?case using old(3) validated_patch_files [OF q(3)] by (simp add: case_evidence_def)
next
  case (step_attempt s cfg)
  have "status_evidence so (cs_status s) (record_failed_attempt cfg s)"
    using step_attempt
    by - (rule status_evidence_cong [of _ s],
       auto simp: case_evidence_def record_failed_attempt_def Let_def split: option.splits)
  then show ?case using step_attempt
    by (auto simp: case_evidence_def record_failed_attempt_def Let_def split: option.splits)
next
  case (step_touch s t)
  have "status_evidence so (cs_status s) (s\<lparr>cs_updated_at := t\<rparr>)"
    using step_touch by - (rule status_evidence_cong [of _ s], auto simp: case_evidence_def)
  then show ?case using step_touch by (simp add: case_evidence_def)
qed

text \<open>In every reachable case state the status tells the evidence: an analysis is the classification of
  a reproduced baseline of this case, a plan is accepted and follows an analysis, a patch is valid, changes
  the files of its suitable plan and follows the plan; there is at most one attempt.\<close>

theorem case_status_tells_the_evidence:
  assumes "case_reachable so s"
  shows "case_evidence so s"
  using assms
proof induction
  case (reach_new case_id started)
  show ?case by (simp add: case_evidence_def new_case_state_def)
next
  case (reach_step s s')
  then show ?case by (simp add: case_step_evidence)
qed

theorem case_status_tells_the_evidence_witness:
  "status_evidence id RS_baseline_complete
     (record_baseline (sample_reproduced []) (new_case_state ''case'' (utc_now 0)))"
proof -
  have "case_reachable id (record_baseline (sample_reproduced []) (new_case_state ''case'' (utc_now 0)))"
    by (rule reach_step [OF reach_new step_baseline]) (simp add: new_case_state_def)
  from case_status_tells_the_evidence [OF this] show ?thesis
    by (simp add: case_evidence_def record_baseline_def new_case_state_def)
qed

end
