(* ===== verification/Graph_State.thy ===== *)
theory Graph_State
  imports Case_State Case_Loader Routing Policy_Content Bytes
begin

text \<open>
  The state of a run in \<open>app/agent/graph.py\<close>: \<open>RunWorkspaces\<close>, \<open>OrchestrationState\<close> with
  its invariants, and the functions that replace a state.
\<close>

section \<open>Nodes\<close>

datatype node_name =
    PREPARE_REPOSITORY | RUN_BASELINE | CLASSIFY_FAILURE | SELECT_CONTEXT | PLAN_REPAIR | GENERATE_PATCH
  | VALIDATE_POLICY | RUN_STATIC_CHECKS | VERIFY_IN_SANDBOX | EVALUATE_CANDIDATE | ROUTE_RESULT

definition node_names :: "node_name list" where
  "node_names = [PREPARE_REPOSITORY, RUN_BASELINE, CLASSIFY_FAILURE, SELECT_CONTEXT, PLAN_REPAIR, GENERATE_PATCH,
     VALIDATE_POLICY, RUN_STATIC_CHECKS, VERIFY_IN_SANDBOX, EVALUATE_CANDIDATE, ROUTE_RESULT]"

section \<open>Workspaces\<close>

record run_workspaces =
  rw_root :: string
  rw_preparation :: string
  rw_candidate :: string
  rw_verification :: string
  rw_ownership_token :: string

text \<open>\<open>path.parent\<close>, on the text of a path\<close>

definition path_parent :: "string \<Rightarrow> string" where
  "path_parent p = posix_root p @ join_with slash (butlast (posix_parts p))"

definition valid_run_workspaces :: "run_workspaces \<Rightarrow> bool" where
  [valid_defs]: "valid_run_workspaces w \<longleftrightarrow>
     hex_string 32 (rw_ownership_token w) \<and>
     (let children = [rw_preparation w, rw_candidate w, rw_verification w]; values = rw_root w # children in
      list_all is_absolute values \<and> distinct (map casefold values) \<and>
      list_all (\<lambda>p. path_parent p = rw_root w) children)"

section \<open>The digest of a proposal\<close>

text \<open>\<open>json.dumps\<close> of a string with \<open>ensure_ascii=False\<close>\<close>

definition hex_digit :: "nat \<Rightarrow> char" where
  "hex_digit n = (if n < 10 then char_of (48 + n) else char_of (87 + n))"

definition json_char :: "char \<Rightarrow> string" where
  "json_char c =
     (if c = CHR ''\"'' then [backslash, c]
      else if c = backslash then [backslash, backslash]
      else if c = newline then [backslash, CHR ''n'']
      else if c = carriage_return then [backslash, CHR ''r'']
      else if c = CHR 0x09 then [backslash, CHR ''t'']
      else if c = CHR 0x0C then [backslash, CHR ''f'']
      else if c = CHR 0x08 then [backslash, CHR ''b'']
      else if code c < 32 then [backslash] @ ''u00'' @ [hex_digit (code c div 16), hex_digit (code c mod 16)]
      else [c])"

definition json_quote :: "string \<Rightarrow> string" where
  "json_quote s = CHR ''\"'' # concat (map json_char s) @ [CHR ''\"'']"

definition json_array :: "string list \<Rightarrow> string" where
  "json_array ss = ''['' @ join_with (CHR '','') (map json_quote ss) @ '']''"

text \<open>The keys sorted, the float printed by \<open>repr\<close>, a parameter\<close>

definition proposal_payload :: "(pyfloat \<Rightarrow> string) \<Rightarrow> patch_proposal \<Rightarrow> string" where
  "proposal_payload float_repr p =
     ''{'' @ json_quote ''confidence'' @ '':'' @ float_repr (pr_confidence p) @
     '','' @ json_quote ''expected_effect'' @ '':'' @ json_quote (pr_expected_effect p) @
     '','' @ json_quote ''files_changed'' @ '':'' @ json_array (pr_files_changed p) @
     '','' @ json_quote ''risks'' @ '':'' @ json_array (pr_risks p) @
     '','' @ json_quote ''root_cause'' @ '':'' @ json_quote (pr_root_cause p) @
     '','' @ json_quote ''summary'' @ '':'' @ json_quote (pr_summary p) @
     '','' @ json_quote ''unified_diff'' @ '':'' @ json_quote (pr_unified_diff p) @ ''}''"

record digest_functions =
  dg_sha256 :: "bytes \<Rightarrow> string"
  dg_float_repr :: "pyfloat \<Rightarrow> string"

definition proposal_digest :: "digest_functions \<Rightarrow> patch_proposal \<Rightarrow> string" where
  "proposal_digest dg p = dg_sha256 dg (utf8_encode (proposal_payload (dg_float_repr dg) p))"

section \<open>The state\<close>

record orchestration_state =
  os_run_id :: string
  os_case_id :: string
  os_started_at :: datetime
  os_completed_at :: "datetime option"
  os_attempt_number :: int
  os_max_attempts :: int
  os_requested_revision :: string
  os_trusted_case :: trusted_case
  os_legacy_state :: repair_case_state
  os_workspaces :: run_workspaces
  os_model_configuration :: "model_configuration option"
  os_model_usage :: "candidate_usage option"
  os_preparation :: "repository_preparation option"
  os_baseline :: "baseline_result option"
  os_failure_analysis :: "failure_analysis option"
  os_context :: "context_package option"
  os_repair_plan :: "repair_plan option"
  os_proposal :: "patch_proposal option"
  os_proposal_digest :: "string option"
  os_policy_result :: "policy_result option"
  os_static_result :: "static_result option"
  os_verification_result :: "verification_result option"
  os_evaluation_result :: "candidate_evaluation option"
  os_failure_override :: "terminal_outcome option"
  os_terminal_route :: "terminal_route option"
  os_completed_nodes :: "node_name list"

definition state_evidence :: "orchestration_state \<Rightarrow> routing_evidence" where
  "state_evidence s = \<lparr>rv_baseline = os_baseline s, rv_policy = os_policy_result s, rv_static = os_static_result s,
     rv_verification = os_verification_result s, rv_evaluation = os_evaluation_result s,
     rv_failure_override = os_failure_override s\<rparr>"

text \<open>\<open>route_state\<close>; \<open>None\<close> is the \<open>ValidationError\<close> of contradictory evidence\<close>

definition route_state :: "orchestration_state \<Rightarrow> terminal_route option" where
  "route_state s =
     (if valid_routing_evidence (state_evidence s) then route_terminal (state_evidence s) else None)"

section \<open>The invariants\<close>

definition state_fields_ok :: "orchestration_state \<Rightarrow> bool" where
  "state_fields_ok s \<longleftrightarrow>
     hex_string 32 (os_run_id s) \<and> provider_case_id (os_case_id s) \<and> dt_offset (os_started_at s) \<noteq> None \<and>
     opt_valid (\<lambda>t. dt_offset t \<noteq> None) (os_completed_at s) \<and>
     0 \<le> os_attempt_number s \<and> os_attempt_number s \<le> 1 \<and> os_max_attempts s = 1 \<and> os_requested_revision s \<noteq> [] \<and>
     valid_trusted_case (os_trusted_case s) \<and> valid_case_state (os_legacy_state s) \<and>
     valid_run_workspaces (os_workspaces s) \<and> opt_valid valid_model_configuration (os_model_configuration s) \<and>
     opt_valid valid_candidate_usage (os_model_usage s)"

definition evidence_fields_ok :: "orchestration_state \<Rightarrow> bool" where
  "evidence_fields_ok s \<longleftrightarrow>
     opt_valid valid_preparation (os_preparation s) \<and> opt_valid valid_baseline_result (os_baseline s) \<and>
     opt_valid valid_failure_analysis (os_failure_analysis s) \<and> opt_valid valid_context_package (os_context s) \<and>
     opt_valid valid_repair_plan (os_repair_plan s) \<and> opt_valid valid_patch_proposal (os_proposal s) \<and>
     opt_valid (hex_string 64) (os_proposal_digest s) \<and> opt_valid valid_policy_result (os_policy_result s) \<and>
     opt_valid valid_static_result (os_static_result s) \<and>
     opt_valid valid_verification_result (os_verification_result s) \<and>
     opt_valid valid_candidate_evaluation (os_evaluation_result s) \<and>
     opt_valid valid_terminal_route (os_terminal_route s)"

definition state_times_ok :: "orchestration_state \<Rightarrow> bool" where
  "state_times_ok s \<longleftrightarrow>
     dt_offset (os_started_at s) = Some 0 \<and>
     opt_valid (\<lambda>t. dt_offset t = Some 0 \<and> dt_instant (os_started_at s) \<le> dt_instant t) (os_completed_at s)"

definition state_identity_ok :: "orchestration_state \<Rightarrow> bool" where
  "state_identity_ok s \<longleftrightarrow>
     mf_case_id (tc_manifest (os_trusted_case s)) = os_case_id s \<and>
     mf_failing_revision (tc_manifest (os_trusted_case s)) = os_requested_revision s \<and>
     rw_ownership_token (os_workspaces s) = os_run_id s \<and>
     cs_case_id (os_legacy_state s) = os_case_id s \<and> cs_max_attempts (os_legacy_state s) = 1 \<and>
     cs_attempt_number (os_legacy_state s) = os_attempt_number s"

definition before_route :: "node_name list \<Rightarrow> node_name list" where
  "before_route nodes = (if nodes \<noteq> [] \<and> last nodes = ROUTE_RESULT then butlast nodes else nodes)"

definition completed_nodes_ok :: "node_name list \<Rightarrow> bool" where
  "completed_nodes_ok nodes \<longleftrightarrow>
     before_route nodes = take (length (before_route nodes)) node_names \<and> ROUTE_RESULT \<notin> set (butlast nodes)"

definition evidence_nodes :: "orchestration_state \<Rightarrow> (bool \<times> node_name) list" where
  "evidence_nodes s =
     [(os_preparation s \<noteq> None, PREPARE_REPOSITORY), (os_baseline s \<noteq> None, RUN_BASELINE),
      (os_failure_analysis s \<noteq> None, CLASSIFY_FAILURE), (os_context s \<noteq> None, SELECT_CONTEXT),
      (os_repair_plan s \<noteq> None, PLAN_REPAIR), (os_proposal s \<noteq> None, GENERATE_PATCH),
      (os_policy_result s \<noteq> None, VALIDATE_POLICY), (os_static_result s \<noteq> None, RUN_STATIC_CHECKS),
      (os_verification_result s \<noteq> None, VERIFY_IN_SANDBOX), (os_evaluation_result s \<noteq> None, EVALUATE_CANDIDATE)]"

definition measured :: "candidate_usage \<Rightarrow> bool" where
  "measured u \<longleftrightarrow> cu_model_latency_seconds u \<noteq> None \<and> cu_input_tokens u \<noteq> None \<and> cu_output_tokens u \<noteq> None \<and>
     cu_estimated_cost_usd u \<noteq> None"

definition usage_ok :: "orchestration_state \<Rightarrow> bool" where
  "usage_ok s \<longleftrightarrow> opt_valid (\<lambda>u. PLAN_REPAIR \<in> set (before_route (os_completed_nodes s)) \<and> measured u) (os_model_usage s)"

text \<open>Evidence exists exactly for executed nodes; the last one may lack it when the run has failed there.\<close>

definition node_evidence_ok :: "orchestration_state \<Rightarrow> bool" where
  "node_evidence_ok s \<longleftrightarrow>
     (let done = before_route (os_completed_nodes s) in
      list_all (\<lambda>(present, node). present \<longrightarrow> node \<in> set done) (evidence_nodes s) \<and>
      list_all (\<lambda>(present, node). present \<or> node \<notin> set done \<or>
         (os_failure_override s \<noteq> None \<and> done \<noteq> [] \<and> node = last done)) (evidence_nodes s))"

definition evidence_links_ok :: "orchestration_state \<Rightarrow> bool" where
  "evidence_links_ok s \<longleftrightarrow>
     opt_valid (\<lambda>p. rp_case_id p = os_case_id s) (os_preparation s) \<and>
     opt_valid (\<lambda>b. os_preparation s = Some (br_preparation b) \<and>
        cs_baseline_result (os_legacy_state s) = Some (Inr b)) (os_baseline s) \<and>
     opt_valid (\<lambda>a. os_baseline s \<noteq> None \<and> cs_failure_analysis (os_legacy_state s) = Some a) (os_failure_analysis s) \<and>
     opt_valid (\<lambda>c. os_failure_analysis s = Some (cp_failure_analysis c) \<and> cp_case_id c = os_case_id s) (os_context s) \<and>
     opt_valid (\<lambda>p. cs_repair_plan (os_legacy_state s) = Some p) (os_repair_plan s)"

definition proposal_links_ok :: "digest_functions \<Rightarrow> orchestration_state \<Rightarrow> bool" where
  "proposal_links_ok dg s \<longleftrightarrow>
     (case os_proposal s of
        None \<Rightarrow> os_proposal_digest s = None \<and> os_policy_result s = None
      | Some p \<Rightarrow> cs_candidate_patch (os_legacy_state s) = Some p \<and>
          os_proposal_digest s = Some (proposal_digest dg p)) \<and>
     \<not> (os_static_result s \<noteq> None \<and> os_policy_result s = None) \<and>
     (os_verification_result s = None \<or>
       (case os_static_result s of None \<Rightarrow> False | Some r \<Rightarrow> st_outcome r = STATIC_PASSED))"

definition usage_measurements ::
  "candidate_usage option \<Rightarrow> pyfloat option \<times> int option \<times> int option \<times> pydecimal option" where
  "usage_measurements u = (Option.bind u cu_model_latency_seconds, Option.bind u cu_input_tokens,
     Option.bind u cu_output_tokens, Option.bind u cu_estimated_cost_usd)"

definition evaluation_links_ok :: "orchestration_state \<Rightarrow> bool" where
  "evaluation_links_ok s \<longleftrightarrow>
     opt_valid (\<lambda>e. os_proposal s \<noteq> None \<and> os_verification_result s \<noteq> None \<and> ce_case_id e = os_case_id s \<and>
       (ce_model_latency_seconds e, ce_input_tokens e, ce_output_tokens e, ce_estimated_cost_usd e) =
         usage_measurements (os_model_usage s)) (os_evaluation_result s)"

definition override_links_ok :: "orchestration_state \<Rightarrow> bool" where
  "override_links_ok s \<longleftrightarrow>
     os_failure_override s \<notin> {Some SUCCESS, Some POLICY_VIOLATION, Some STATIC_CHECK_FAILURE, Some RUN_NOT_REPRODUCIBLE} \<and>
     \<not> (os_failure_override s \<in> {Some CANDIDATE_FAILURE, Some MALFORMED_MODEL_OUTPUT} \<and>
        (os_policy_result s \<noteq> None \<or> os_static_result s \<noteq> None \<or> os_verification_result s \<noteq> None \<or>
         os_evaluation_result s \<noteq> None))"

definition terminal_ok :: "orchestration_state \<Rightarrow> bool" where
  "terminal_ok s \<longleftrightarrow>
     (case os_terminal_route s of
        None \<Rightarrow> os_completed_at s = None \<and> ROUTE_RESULT \<notin> set (os_completed_nodes s)
      | Some r \<Rightarrow> os_completed_at s \<noteq> None \<and> os_completed_nodes s \<noteq> [] \<and>
          last (os_completed_nodes s) = ROUTE_RESULT \<and> route_state s = Some r)"

text \<open>\<open>OrchestrationState.validate_invariants\<close>, after the constraints of the fields\<close>

definition valid_orchestration_state :: "digest_functions \<Rightarrow> orchestration_state \<Rightarrow> bool" where
  "valid_orchestration_state dg s \<longleftrightarrow>
     state_fields_ok s \<and> evidence_fields_ok s \<and> state_times_ok s \<and> state_identity_ok s \<and>
     completed_nodes_ok (os_completed_nodes s) \<and> usage_ok s \<and> node_evidence_ok s \<and> evidence_links_ok s \<and>
     proposal_links_ok dg s \<and> evaluation_links_ok s \<and> override_links_ok s \<and> terminal_ok s"

section \<open>Replacing a state\<close>

definition strict_state :: "digest_functions \<Rightarrow> orchestration_state \<Rightarrow> model_raise + orchestration_state" where
  "strict_state dg s = (if valid_orchestration_state dg s then Inr s else Inl Ordinary)"

definition finish ::
  "digest_functions \<Rightarrow> orchestration_state \<Rightarrow> node_name \<Rightarrow> (orchestration_state \<Rightarrow> orchestration_state) \<Rightarrow>
     model_raise + orchestration_state" where
  "finish dg s node updates =
     (if node \<in> set (os_completed_nodes s) \<or> os_terminal_route s \<noteq> None then Inl Ordinary
      else strict_state dg ((updates s)\<lparr>os_completed_nodes := os_completed_nodes s @ [node]\<rparr>))"

definition failure ::
  "digest_functions \<Rightarrow> orchestration_state \<Rightarrow> node_name \<Rightarrow> terminal_outcome \<Rightarrow> model_raise + orchestration_state" where
  "failure dg s node out = finish dg s node (os_failure_override_update (\<lambda>_. Some out))"

definition to_utc :: "datetime \<Rightarrow> model_raise + datetime" where
  "to_utc t = (case dt_offset t of None \<Rightarrow> Inl Ordinary | Some _ \<Rightarrow> Inr (utc_now (dt_instant t)))"

definition new_orchestration_state ::
  "digest_functions \<Rightarrow> string \<Rightarrow> trusted_case \<Rightarrow> run_workspaces \<Rightarrow> datetime \<Rightarrow> model_configuration option \<Rightarrow>
     model_raise + orchestration_state" where
  "new_orchestration_state dg run_id c workspaces started_at configuration =
     (if \<not> valid_trusted_case c then Inl Ordinary
      else bindE (to_utc started_at) (\<lambda>started.
        strict_state dg
         \<lparr>os_run_id = run_id, os_case_id = mf_case_id (tc_manifest c), os_started_at = started,
          os_completed_at = None, os_attempt_number = 0, os_max_attempts = 1,
          os_requested_revision = mf_failing_revision (tc_manifest c), os_trusted_case = c,
          os_legacy_state = new_case_state (mf_case_id (tc_manifest c)) started, os_workspaces = workspaces,
          os_model_configuration = configuration, os_model_usage = None, os_preparation = None,
          os_baseline = None, os_failure_analysis = None, os_context = None, os_repair_plan = None,
          os_proposal = None, os_proposal_digest = None, os_policy_result = None, os_static_result = None,
          os_verification_result = None, os_evaluation_result = None, os_failure_override = None,
          os_terminal_route = None, os_completed_nodes = []\<rparr>))"

text \<open>\<open>replace_with_infrastructure_failure\<close> and \<open>terminalize_infrastructure_failure\<close>\<close>

definition with_infrastructure_failure :: "datetime \<Rightarrow> terminal_route \<Rightarrow> orchestration_state \<Rightarrow> orchestration_state" where
  "with_infrastructure_failure completed route s =
     s\<lparr>os_failure_override := Some INFRASTRUCTURE_FAILURE, os_terminal_route := Some route,
       os_completed_at := Some completed\<rparr>"

definition infrastructure_route :: "model_raise + terminal_route" where
  "infrastructure_route =
     (case route_for_outcome INFRASTRUCTURE_FAILURE of None \<Rightarrow> Inl Ordinary | Some r \<Rightarrow> Inr r)"

definition replace_with_infrastructure_failure ::
  "digest_functions \<Rightarrow> orchestration_state \<Rightarrow> datetime \<Rightarrow> model_raise + orchestration_state" where
  "replace_with_infrastructure_failure dg s0 completed_at =
     bindE (strict_state dg s0) (\<lambda>s.
     if os_terminal_route s = None then Inl Ordinary
     else bindE infrastructure_route (\<lambda>route.
       bindE (to_utc completed_at) (\<lambda>completed.
       strict_state dg (with_infrastructure_failure completed route s))))"

definition terminalize_infrastructure_failure ::
  "digest_functions \<Rightarrow> orchestration_state \<Rightarrow> datetime \<Rightarrow> model_raise + orchestration_state" where
  "terminalize_infrastructure_failure dg s0 completed_at =
     bindE (strict_state dg s0) (\<lambda>s.
     if os_terminal_route s \<noteq> None \<or> ROUTE_RESULT \<in> set (os_completed_nodes s) then Inl Ordinary
     else bindE infrastructure_route (\<lambda>route.
       bindE (to_utc completed_at) (\<lambda>completed.
       strict_state dg ((with_infrastructure_failure completed route s)
         \<lparr>os_completed_nodes := os_completed_nodes s @ [ROUTE_RESULT]\<rparr>))))"

end
