(* ===== verification/Graph.thy ===== *)
theory Graph
  imports Graph_State
begin

text \<open>
  The repair graph of \<open>app/agent/graph.py\<close>: its dependencies, the eleven nodes, the conditional
  edges and the run.  The dependencies are arbitrary functions on a world \<open>'w\<close> which return or raise;
  the executor of the graph library is the function \<open>run_from\<close>: run a node, follow its edge.
\<close>

section \<open>Dependencies\<close>

record 'w graph_env =
  gd_prepare :: "string \<Rightarrow> string \<Rightarrow> string \<Rightarrow> string \<Rightarrow> ('w, model_raise, repository_preparation) act"
  gd_validate_preparation :: "repository_preparation \<Rightarrow> string \<Rightarrow> string \<Rightarrow> ('w, model_raise, unit) act"
  gd_validate_candidate :: "static_result \<Rightarrow> string \<Rightarrow> ('w, model_raise, unit) act"
  gd_baseline :: "repository_preparation \<Rightarrow> ('w, model_raise, baseline_result) act"
  gd_classifier :: "baseline_result \<Rightarrow> ('w, model_raise, failure_analysis) act"
  gd_context :: "baseline_result \<Rightarrow> failure_analysis \<Rightarrow> ('w, model_raise, context_package) act"
  gd_planner :: "context_package \<Rightarrow> model_configuration \<Rightarrow> 'w provider \<Rightarrow> ('w, model_raise, repair_plan) act"
  gd_patch_generator :: "context_package \<Rightarrow> repair_plan \<Rightarrow> model_configuration \<Rightarrow> 'w provider \<Rightarrow>
    ('w, model_raise, patch_proposal) act"
  gd_policy_validator :: "patch_proposal \<Rightarrow> patch_policy \<Rightarrow> ('w, model_raise, policy_result) act"
  gd_static :: "static_request \<Rightarrow> ('w, model_raise, static_result) act"
  gd_verification :: "verification_request \<Rightarrow> ('w, model_raise, verification_result) act"
  gd_evaluator :: "evaluation_request \<Rightarrow> ('w, model_raise, candidate_evaluation) act"
  gd_clock :: "('w, model_raise, datetime) act"
  gd_now :: "('w, model_raise, int) act"
  gd_model_configuration :: "model_configuration option"
  gd_model_provider :: "'w provider option"
  gd_usage_reader :: "('w, model_raise, candidate_usage) act option"
  gd_set_order :: "string list \<Rightarrow> string list"
  gd_front_end :: python_front_end
  gd_digest :: digest_functions

definition utc_clock :: "'w graph_env \<Rightarrow> ('w, model_raise, datetime) act" where
  "utc_clock env = andthen (gd_clock env) (\<lambda>t. lift_result (to_utc t))"

text \<open>\<open>except (KeyboardInterrupt, SystemExit): raise\<close>, then \<open>except Exception\<close>\<close>

definition on_exception ::
  "('w, model_raise, 'a) act \<Rightarrow> (model_raise \<Rightarrow> ('w, model_raise, 'a) act) \<Rightarrow> ('w, model_raise, 'a) act" where
  "on_exception m handler = catch m (\<lambda>e. if e = Interrupted then raise Interrupted else handler e)"

section \<open>Failures\<close>

definition model_failure :: "model_diagnostic \<Rightarrow> terminal_outcome" where
  "model_failure d =
     (if md_code d = UNSUITABLE_AUTONOMOUS_REPAIR then CANDIDATE_FAILURE
      else if md_code d \<in> {OVERSIZED_RESPONSE, MALFORMED_STRUCTURED_OUTPUT, INVALID_PATCH_ENVELOPE}
      then MALFORMED_MODEL_OUTPUT
      else INFRASTRUCTURE_FAILURE)"

fun raise_outcome :: "model_raise \<Rightarrow> terminal_outcome" where
  "raise_outcome (Diagnosed d) = model_failure d"
| "raise_outcome _ = INFRASTRUCTURE_FAILURE"

definition snapshot_usage :: "'w graph_env \<Rightarrow> ('w, model_raise, candidate_usage option) act" where
  "snapshot_usage env =
     (case gd_usage_reader env of
        None \<Rightarrow> ret None
      | Some reader \<Rightarrow> andthen reader (\<lambda>u. andthen (ensure Ordinary (valid_candidate_usage u)) (\<lambda>_. ret (Some u))))"

definition set_usage :: "candidate_usage option \<Rightarrow> orchestration_state \<Rightarrow> orchestration_state" where
  "set_usage usage s = (case usage of None \<Rightarrow> s | Some u \<Rightarrow> s\<lparr>os_model_usage := Some u\<rparr>)"

text \<open>The usage for a failed step: an exception of the reader changes the outcome.\<close>

definition usage_or_outcome ::
  "'w graph_env \<Rightarrow> terminal_outcome \<Rightarrow> ('w, model_raise, candidate_usage option \<times> terminal_outcome) act" where
  "usage_or_outcome env out =
     on_exception (andthen (snapshot_usage env) (\<lambda>u. ret (u, out))) (\<lambda>_. ret (None, INFRASTRUCTURE_FAILURE))"

definition attempt_failure ::
  "'w graph_env \<Rightarrow> orchestration_state \<Rightarrow> terminal_outcome \<Rightarrow> ('w, model_raise, orchestration_state) act" where
  "attempt_failure env s out0 =
     (let legacy0 = record_failed_attempt (gd_model_configuration env) (os_legacy_state s) in
      andthen (on_exception (andthen (utc_clock env) (\<lambda>t. ret (legacy0\<lparr>cs_updated_at := t\<rparr>, out0)))
        (\<lambda>_. ret (legacy0, INFRASTRUCTURE_FAILURE))) (\<lambda>(legacy, out1).
      andthen (usage_or_outcome env out1) (\<lambda>(usage, out).
      lift_result (finish (gd_digest env) s PLAN_REPAIR (\<lambda>x. set_usage usage
        (x\<lparr>os_attempt_number := 1, os_legacy_state := legacy, os_failure_override := Some out\<rparr>))))))"

definition failure_with_usage ::
  "'w graph_env \<Rightarrow> orchestration_state \<Rightarrow> node_name \<Rightarrow> terminal_outcome \<Rightarrow> ('w, model_raise, orchestration_state) act" where
  "failure_with_usage env s node out0 =
     andthen (usage_or_outcome env out0) (\<lambda>(usage, out).
     lift_result (finish (gd_digest env) s node (\<lambda>x. set_usage usage (x\<lparr>os_failure_override := Some out\<rparr>))))"

definition infrastructure ::
  "'w graph_env \<Rightarrow> orchestration_state \<Rightarrow> node_name \<Rightarrow> model_raise \<Rightarrow> ('w, model_raise, orchestration_state) act" where
  "infrastructure env s node e = lift_result (failure (gd_digest env) s node INFRASTRUCTURE_FAILURE)"

section \<open>Nodes\<close>

text \<open>A value of an earlier node; its absence raises a \<open>ValueError\<close>.\<close>

definition need :: "'a option \<Rightarrow> ('w, model_raise, 'a) act" where
  "need x = lift_result (case x of None \<Rightarrow> Inl Ordinary | Some y \<Rightarrow> Inr y)"

definition on_state ::
  "'w graph_env \<Rightarrow> (orchestration_state \<Rightarrow> ('w, model_raise, 'a) act) \<Rightarrow> orchestration_state \<Rightarrow> ('w, model_raise, 'a) act" where
  "on_state env node s = andthen (lift_result (strict_state (gd_digest env) s)) node"

definition done_node ::
  "'w graph_env \<Rightarrow> orchestration_state \<Rightarrow> node_name \<Rightarrow> (orchestration_state \<Rightarrow> orchestration_state) \<Rightarrow>
     ('w, model_raise, orchestration_state) act" where
  "done_node env s node updates = lift_result (finish (gd_digest env) s node updates)"

definition prepare_node :: "'w graph_env \<Rightarrow> orchestration_state \<Rightarrow> ('w, model_raise, orchestration_state) act" where
  "prepare_node env = on_state env (\<lambda>s. on_exception
     (andthen (gd_prepare env (os_case_id s) (os_requested_revision s) (rw_preparation (os_workspaces s)) ''repository'') (\<lambda>p.
      andthen (ensure Ordinary (valid_preparation p)) (\<lambda>_.
      andthen (ensure Ordinary (rp_case_id p = os_case_id s)) (\<lambda>_.
      andthen (gd_validate_preparation env p (rw_preparation (os_workspaces s)) (os_requested_revision s)) (\<lambda>_.
      done_node env s PREPARE_REPOSITORY (\<lambda>x. x\<lparr>os_preparation := Some p\<rparr>))))))
     (infrastructure env s PREPARE_REPOSITORY))"

definition baseline_node :: "'w graph_env \<Rightarrow> orchestration_state \<Rightarrow> ('w, model_raise, orchestration_state) act" where
  "baseline_node env = on_state env (\<lambda>s. on_exception
     (andthen (need (os_preparation s)) (\<lambda>p.
      andthen (gd_baseline env p) (\<lambda>b.
      andthen (ensure Ordinary (valid_baseline_result b)) (\<lambda>_.
      andthen (utc_clock env) (\<lambda>t.
      done_node env s RUN_BASELINE (\<lambda>x. x\<lparr>os_baseline := Some b,
        os_legacy_state := (record_baseline b (os_legacy_state s))\<lparr>cs_updated_at := t\<rparr>\<rparr>))))))
     (infrastructure env s RUN_BASELINE))"

definition classify_node :: "'w graph_env \<Rightarrow> orchestration_state \<Rightarrow> ('w, model_raise, orchestration_state) act" where
  "classify_node env = on_state env (\<lambda>s. on_exception
     (andthen (need (os_baseline s)) (\<lambda>b.
      andthen (gd_classifier env b) (\<lambda>a.
      andthen (ensure Ordinary (valid_failure_analysis a)) (\<lambda>_.
      andthen (gd_now env) (\<lambda>now.
      andthen (lift_result (apply_failure_analysis (gd_set_order env) now (os_legacy_state s) a)) (\<lambda>legacy.
      andthen (utc_clock env) (\<lambda>t.
      done_node env s CLASSIFY_FAILURE (\<lambda>x. x\<lparr>os_failure_analysis := Some a,
        os_legacy_state := legacy\<lparr>cs_updated_at := t\<rparr>\<rparr>))))))))
     (infrastructure env s CLASSIFY_FAILURE))"

definition context_node :: "'w graph_env \<Rightarrow> orchestration_state \<Rightarrow> ('w, model_raise, orchestration_state) act" where
  "context_node env = on_state env (\<lambda>s. on_exception
     (andthen (need (os_baseline s)) (\<lambda>b.
      andthen (need (os_failure_analysis s)) (\<lambda>a.
      andthen (gd_context env b a) (\<lambda>c.
      andthen (ensure Ordinary (valid_context_package c)) (\<lambda>_.
      done_node env s SELECT_CONTEXT (\<lambda>x. x\<lparr>os_context := Some c\<rparr>))))))
     (infrastructure env s SELECT_CONTEXT))"

definition plan_node :: "'w graph_env \<Rightarrow> orchestration_state \<Rightarrow> ('w, model_raise, orchestration_state) act" where
  "plan_node env = on_state env (\<lambda>s. on_exception
     (andthen (need (os_context s)) (\<lambda>c.
      andthen (need (gd_model_configuration env)) (\<lambda>cfg.
      andthen (need (gd_model_provider env)) (\<lambda>provider.
      andthen (ensure Ordinary (os_model_configuration s = Some cfg)) (\<lambda>_.
      andthen (gd_planner env c cfg provider) (\<lambda>plan.
      andthen (ensure Ordinary (valid_repair_plan plan)) (\<lambda>_.
      andthen (gd_now env) (\<lambda>now.
      andthen (lift_result (record_repair_plan (gd_set_order env) now (os_legacy_state s) c plan cfg)) (\<lambda>legacy.
      andthen (utc_clock env) (\<lambda>t.
      andthen (snapshot_usage env) (\<lambda>usage.
      done_node env s PLAN_REPAIR (\<lambda>x. set_usage usage (x\<lparr>os_repair_plan := Some plan,
        os_legacy_state := legacy\<lparr>cs_updated_at := t\<rparr>, os_attempt_number := 1\<rparr>)))))))))))))
     (\<lambda>e. attempt_failure env s (raise_outcome e)))"

definition generate_node :: "'w graph_env \<Rightarrow> orchestration_state \<Rightarrow> ('w, model_raise, orchestration_state) act" where
  "generate_node env = on_state env (\<lambda>s. on_exception
     (andthen (need (os_context s)) (\<lambda>c.
      andthen (need (os_repair_plan s)) (\<lambda>plan.
      andthen (need (gd_model_configuration env)) (\<lambda>cfg.
      andthen (need (gd_model_provider env)) (\<lambda>provider.
      andthen (gd_patch_generator env c plan cfg provider) (\<lambda>p.
      andthen (ensure Ordinary (valid_patch_proposal p)) (\<lambda>_.
      andthen (gd_now env) (\<lambda>now.
      andthen (lift_result (record_patch_proposal (gd_set_order env) now (os_legacy_state s) c plan p cfg)) (\<lambda>legacy.
      andthen (utc_clock env) (\<lambda>t.
      andthen (snapshot_usage env) (\<lambda>usage.
      done_node env s GENERATE_PATCH (\<lambda>x. set_usage usage (x\<lparr>os_proposal := Some p,
        os_proposal_digest := Some (proposal_digest (gd_digest env) p),
        os_legacy_state := legacy\<lparr>cs_updated_at := t\<rparr>\<rparr>)))))))))))))
     (\<lambda>e. failure_with_usage env s GENERATE_PATCH (raise_outcome e)))"

text \<open>The policy of the run: the defaults of \<open>PatchPolicy\<close>, and the forbidden files of the case\<close>

definition run_policy :: "orchestration_state \<Rightarrow> context_package \<Rightarrow> patch_policy" where
  "run_policy s c = \<lparr>po_protected_path_policy = cp_protected_path_policy c,
     po_forbidden_changed_files =
       order_paths (map as_posix (mf_forbidden_changed_files (tc_manifest (os_trusted_case s)))),
     po_max_changed_files = 3, po_max_changed_lines = 200, po_dependency_allowlist = []\<rparr>"

definition policy_node :: "'w graph_env \<Rightarrow> orchestration_state \<Rightarrow> ('w, model_raise, orchestration_state) act" where
  "policy_node env = on_state env (\<lambda>s. on_exception
     (andthen (need (os_proposal s)) (\<lambda>p.
      andthen (need (os_context s)) (\<lambda>c.
      andthen (ensure Ordinary (valid_patch_policy (run_policy s c))) (\<lambda>_.
      andthen (ensure Ordinary (pp_protected_paths (cp_protected_path_policy c) = default_protected_paths)) (\<lambda>_.
      andthen (gd_policy_validator env p (run_policy s c)) (\<lambda>r.
      andthen (ensure Ordinary (valid_policy_result r)) (\<lambda>_.
      andthen (ensure Ordinary (validate_patch_policy (gd_front_end env) p (run_policy s c) = Inr r)) (\<lambda>_.
      done_node env s VALIDATE_POLICY (\<lambda>x. x\<lparr>os_policy_result := Some r\<rparr>)))))))))
     (infrastructure env s VALIDATE_POLICY))"

definition static_node :: "'w graph_env \<Rightarrow> orchestration_state \<Rightarrow> ('w, model_raise, orchestration_state) act" where
  "static_node env = on_state env (\<lambda>s. on_exception
     (andthen (need (os_preparation s)) (\<lambda>prep.
      andthen (need (os_proposal s)) (\<lambda>p.
      andthen (need (os_policy_result s)) (\<lambda>policy.
      andthen (ensure Ordinary (pr_approved policy)) (\<lambda>_.
      (let request = \<lparr>sq_preparation = prep, sq_proposal = p, sq_policy_result = policy,
         sq_candidate_workspace_root = rw_candidate (os_workspaces s)\<rparr> in
      andthen (ensure Ordinary (valid_static_request request)) (\<lambda>_.
      andthen (gd_static env request) (\<lambda>r.
      andthen (ensure Ordinary (valid_static_result r)) (\<lambda>_.
      andthen (gd_validate_candidate env r (rw_candidate (os_workspaces s))) (\<lambda>_.
      done_node env s RUN_STATIC_CHECKS (\<lambda>x. x\<lparr>os_static_result := Some r\<rparr>)))))))))))
     (infrastructure env s RUN_STATIC_CHECKS))"

definition verify_node :: "'w graph_env \<Rightarrow> orchestration_state \<Rightarrow> ('w, model_raise, orchestration_state) act" where
  "verify_node env = on_state env (\<lambda>s. on_exception
     (andthen (need (os_static_result s)) (\<lambda>st.
      andthen (ensure Ordinary (st_outcome st = STATIC_PASSED)) (\<lambda>_.
      (let request = \<lparr>vq_case_id = os_case_id s, vq_static_result = st,
         vq_workspace_root = rw_verification (os_workspaces s)\<rparr> in
      andthen (ensure Ordinary (valid_verification_request request)) (\<lambda>_.
      andthen (gd_verification env request) (\<lambda>r.
      andthen (ensure Ordinary (valid_verification_result r)) (\<lambda>_.
      done_node env s VERIFY_IN_SANDBOX (\<lambda>x. x\<lparr>os_verification_result := Some r\<rparr>))))))))
     (infrastructure env s VERIFY_IN_SANDBOX))"

definition evaluate_node :: "'w graph_env \<Rightarrow> orchestration_state \<Rightarrow> ('w, model_raise, orchestration_state) act" where
  "evaluate_node env = on_state env (\<lambda>s. on_exception
     (andthen (need (os_proposal s)) (\<lambda>p.
      andthen (need (os_verification_result s)) (\<lambda>v.
      (let request = \<lparr>eq_case_id = os_case_id s, eq_proposal = p, eq_verification = v,
         eq_model_usage = os_model_usage s\<rparr> in
      andthen (ensure Ordinary (valid_evaluation_request request)) (\<lambda>_.
      andthen (gd_evaluator env request) (\<lambda>r.
      andthen (ensure Ordinary (valid_candidate_evaluation r)) (\<lambda>_.
      andthen (ensure Ordinary (evaluate_candidate request = Inr r)) (\<lambda>_.
      done_node env s EVALUATE_CANDIDATE (\<lambda>x. x\<lparr>os_evaluation_result := Some r\<rparr>)))))))))
     (infrastructure env s EVALUATE_CANDIDATE))"

definition route_node :: "'w graph_env \<Rightarrow> orchestration_state \<Rightarrow> ('w, model_raise, orchestration_state) act" where
  "route_node env = on_state env (\<lambda>s.
     andthen (need (route_state s)) (\<lambda>route.
     andthen (utc_clock env) (\<lambda>completed.
     done_node env s ROUTE_RESULT (\<lambda>x. x\<lparr>os_terminal_route := Some route, os_completed_at := Some completed\<rparr>))))"

fun run_node :: "'w graph_env \<Rightarrow> node_name \<Rightarrow> orchestration_state \<Rightarrow> ('w, model_raise, orchestration_state) act" where
  "run_node env PREPARE_REPOSITORY = prepare_node env"
| "run_node env RUN_BASELINE = baseline_node env"
| "run_node env CLASSIFY_FAILURE = classify_node env"
| "run_node env SELECT_CONTEXT = context_node env"
| "run_node env PLAN_REPAIR = plan_node env"
| "run_node env GENERATE_PATCH = generate_node env"
| "run_node env VALIDATE_POLICY = policy_node env"
| "run_node env RUN_STATIC_CHECKS = static_node env"
| "run_node env VERIFY_IN_SANDBOX = verify_node env"
| "run_node env EVALUATE_CANDIDATE = evaluate_node env"
| "run_node env ROUTE_RESULT = route_node env"

section \<open>Edges\<close>

definition unless_failed :: "orchestration_state \<Rightarrow> node_name \<Rightarrow> node_name" where
  "unless_failed s node = (if os_failure_override s \<noteq> None then ROUTE_RESULT else node)"

definition after_baseline :: "orchestration_state \<Rightarrow> node_name" where
  "after_baseline s =
     (if os_failure_override s \<noteq> None then ROUTE_RESULT
      else (case os_baseline s of
          None \<Rightarrow> ROUTE_RESULT
        | Some b \<Rightarrow> if br_outcome b \<noteq> REPRODUCED_FAILURE then ROUTE_RESULT else CLASSIFY_FAILURE))"

definition after_policy :: "orchestration_state \<Rightarrow> node_name" where
  "after_policy s =
     (if os_failure_override s \<noteq> None then ROUTE_RESULT
      else (case os_policy_result s of
          None \<Rightarrow> ROUTE_RESULT
        | Some p \<Rightarrow> if \<not> pr_approved p then ROUTE_RESULT else RUN_STATIC_CHECKS))"

definition after_static :: "orchestration_state \<Rightarrow> node_name" where
  "after_static s =
     (if os_failure_override s \<noteq> None then ROUTE_RESULT
      else (case os_static_result s of
          None \<Rightarrow> ROUTE_RESULT
        | Some r \<Rightarrow> if st_outcome r \<noteq> STATIC_PASSED then ROUTE_RESULT else VERIFY_IN_SANDBOX))"

text \<open>The edges of \<open>build_repair_graph\<close>; \<open>None\<close> is the end.  The conditional ones check their
  transport again.\<close>

fun edge :: "node_name \<Rightarrow> orchestration_state \<Rightarrow> node_name option" where
  "edge PREPARE_REPOSITORY s = Some (unless_failed s RUN_BASELINE)"
| "edge RUN_BASELINE s = Some (after_baseline s)"
| "edge CLASSIFY_FAILURE s = Some (unless_failed s SELECT_CONTEXT)"
| "edge SELECT_CONTEXT s = Some (unless_failed s PLAN_REPAIR)"
| "edge PLAN_REPAIR s = Some (unless_failed s GENERATE_PATCH)"
| "edge GENERATE_PATCH s = Some (unless_failed s VALIDATE_POLICY)"
| "edge VALIDATE_POLICY s = Some (after_policy s)"
| "edge RUN_STATIC_CHECKS s = Some (after_static s)"
| "edge VERIFY_IN_SANDBOX s = Some (unless_failed s EVALUATE_CANDIDATE)"
| "edge EVALUATE_CANDIDATE s = Some ROUTE_RESULT"
| "edge ROUTE_RESULT s = None"

definition next_node :: "'w graph_env \<Rightarrow> node_name \<Rightarrow> orchestration_state \<Rightarrow> model_raise + node_name option" where
  "next_node env node s =
     (if node \<in> {EVALUATE_CANDIDATE, ROUTE_RESULT} then Inr (edge node s)
      else bindE (strict_state (gd_digest env) s) (\<lambda>x. Inr (edge node x)))"

text \<open>The nodes left to run: every edge leads to a later node.\<close>

fun node_rank :: "node_name \<Rightarrow> nat" where
  "node_rank PREPARE_REPOSITORY = 10"
| "node_rank RUN_BASELINE = 9"
| "node_rank CLASSIFY_FAILURE = 8"
| "node_rank SELECT_CONTEXT = 7"
| "node_rank PLAN_REPAIR = 6"
| "node_rank GENERATE_PATCH = 5"
| "node_rank VALIDATE_POLICY = 4"
| "node_rank RUN_STATIC_CHECKS = 3"
| "node_rank VERIFY_IN_SANDBOX = 2"
| "node_rank EVALUATE_CANDIDATE = 1"
| "node_rank ROUTE_RESULT = 0"

lemma edge_descends: "edge node s = Some m \<Longrightarrow> node_rank m < node_rank node"
  by (cases node)
     (auto simp: unless_failed_def after_baseline_def after_policy_def after_static_def
        split: option.splits if_splits)

lemma next_node_descends: "next_node env node s = Inr (Some m) \<Longrightarrow> node_rank m < node_rank node"
  by (auto simp: next_node_def bindE_eq_Inr edge_descends split: if_splits)

section \<open>Running\<close>

function run_from :: "'w graph_env \<Rightarrow> node_name \<Rightarrow> orchestration_state \<Rightarrow> ('w, model_raise, orchestration_state) act" where
  "run_from env node s w =
     (case run_node env node s w of
        (Inl e, w') \<Rightarrow> (Inl e, w')
      | (Inr s', w') \<Rightarrow>
          (case next_node env node s' of
             Inl e \<Rightarrow> (Inl e, w')
           | Inr None \<Rightarrow> (Inr s', w')
           | Inr (Some m) \<Rightarrow> run_from env m s' w'))"
  by pat_completeness auto
termination
  by (relation "measure (\<lambda>(env, node, s, w). node_rank node)") (auto dest: next_node_descends)

declare run_from.simps [simp del]

definition invoke_repair_graph ::
  "'w graph_env \<Rightarrow> orchestration_state \<Rightarrow> ('w, model_raise, orchestration_state) act" where
  "invoke_repair_graph env s0 =
     andthen (lift_result (strict_state (gd_digest env) s0)) (\<lambda>s.
     andthen (run_from env PREPARE_REPOSITORY s) (\<lambda>r. lift_result (strict_state (gd_digest env) r)))"

end
