(* ===== verification/Graph_Facts.thy ===== *)
theory Graph_Facts
  imports Graph Policy_Claims Routing_Claims
begin

text \<open>
  The invariant of a run: what holds of the state before each node (\<open>ready\<close>, \<open>routable\<close>), that
  every node establishes it for the next one, and that a failing node can always record its failure.
\<close>

section \<open>What a computation returns\<close>

text \<open>\<open>returns m Q\<close>: every returned value has \<open>Q\<close>; \<open>settles m Q\<close>: and nothing but an
  interrupt is raised.\<close>

definition returns :: "('w, model_raise, 'a) act \<Rightarrow> ('a \<Rightarrow> bool) \<Rightarrow> bool" where
  "returns m Q \<longleftrightarrow> triple (\<lambda>_. True) m (\<lambda>x _. Q x) (\<lambda>_ _. True)"

definition settles :: "('w, model_raise, 'a) act \<Rightarrow> ('a \<Rightarrow> bool) \<Rightarrow> bool" where
  "settles m Q \<longleftrightarrow> triple (\<lambda>_. True) m (\<lambda>x _. Q x) (\<lambda>e _. e = Interrupted)"

lemma triple_pure: "(b \<Longrightarrow> triple (\<lambda>_. True) m Q E) \<Longrightarrow> triple (\<lambda>_. b) m Q E"
  by (auto simp: triple_def)

lemma returns_with: "returns m P \<Longrightarrow> (\<And>x. P x \<Longrightarrow> returns (f x) Q) \<Longrightarrow> returns (andthen m f) Q"
  unfolding returns_def by (rule triple_andthen [where R = "\<lambda>x _. P x"]) (auto intro: triple_pure)

lemma returns_then: "(\<And>x. returns (f x) Q) \<Longrightarrow> returns (andthen m f) Q"
  by (rule returns_with [of m "\<lambda>_. True"]) (auto simp: returns_def triple_def split: sum.splits prod.splits)

lemma returns_from: "(\<And>x w w'. m w = (Inr x, w') \<Longrightarrow> returns (f x) Q) \<Longrightarrow> returns (andthen m f) Q"
  by (fastforce simp: returns_def triple_def andthen_def split: sum.splits prod.splits)

lemma returns_ensure: "(b \<Longrightarrow> returns (f ()) Q) \<Longrightarrow> returns (andthen (ensure e b) f) Q"
  by (auto simp: returns_def triple_def andthen_def ensure_def ret_def raise_def)

lemma returns_lift: "(\<And>x. r = Inr x \<Longrightarrow> returns (f x) Q) \<Longrightarrow> returns (andthen (lift_result r) f) Q"
  by (auto simp: returns_def triple_def andthen_def lift_result_def split: sum.splits)

lemma returns_need: "(\<And>y. x = Some y \<Longrightarrow> returns (f y) Q) \<Longrightarrow> returns (andthen (need x) f) Q"
  unfolding need_def by (rule returns_lift) (auto split: option.splits)

lemma returns_end: "(\<And>x. r = Inr x \<Longrightarrow> Q x) \<Longrightarrow> returns (lift_result r) Q"
  by (auto simp: returns_def triple_def lift_result_def split: sum.splits)

lemmas returns_rules = returns_need returns_ensure returns_lift returns_then returns_end

lemma settles_exception:
  assumes "returns m Q" "\<And>e. e \<noteq> Interrupted \<Longrightarrow> settles (h e) Q"
  shows "settles (on_exception m h) Q"
  unfolding settles_def on_exception_def
proof (rule triple_catch [where R = "\<lambda>_ _. True"])
  show "triple (\<lambda>_. True) m (\<lambda>x _. Q x) (\<lambda>_ _. True)" using assms(1) by (simp add: returns_def)
next
  fix e
  show "triple (\<lambda>_. True) (if e = Interrupted then raise Interrupted else h e) (\<lambda>x _. Q x) (\<lambda>e _. e = Interrupted)"
    using assms(2) [of e] by (auto simp: settles_def intro: triple_raise)
qed

lemma settles_lift: "r = Inr x \<Longrightarrow> Q x \<Longrightarrow> settles (lift_result r) Q"
  by (simp add: settles_def triple_def lift_result_def)

lemma settles_ret: "Q x \<Longrightarrow> settles (ret x) Q"
  by (simp add: settles_def triple_def ret_def)

lemma settles_then: "settles m P \<Longrightarrow> (\<And>x. P x \<Longrightarrow> settles (f x) Q) \<Longrightarrow> settles (andthen m f) Q"
  unfolding settles_def by (rule triple_andthen [where R = "\<lambda>x _. P x"]) (auto intro: triple_pure)

lemma settles_weaken: "settles m P \<Longrightarrow> (\<And>x. P x \<Longrightarrow> Q x) \<Longrightarrow> settles m Q"
  unfolding settles_def by (erule triple_weaken) auto

lemma settles_cases:
  "settles m Q \<Longrightarrow> m w = (r, w') \<Longrightarrow> (\<exists>x. r = Inr x \<and> Q x) \<or> r = Inl Interrupted"
  unfolding settles_def by (cases r) (auto dest: triple_useL triple_useR)

section \<open>Before each node\<close>

definition executed_before :: "node_name \<Rightarrow> node_name list" where
  "executed_before n = take (10 - node_rank n) node_names"

definition reproduced :: "orchestration_state \<Rightarrow> bool" where
  "reproduced s \<longleftrightarrow> (\<exists>b. os_baseline s = Some b \<and> br_outcome b = REPRODUCED_FAILURE)"

definition approved :: "orchestration_state \<Rightarrow> bool" where
  "approved s \<longleftrightarrow> (\<exists>p. os_policy_result s = Some p \<and> pr_approved p)"

definition statically_passed :: "orchestration_state \<Rightarrow> bool" where
  "statically_passed s \<longleftrightarrow> (\<exists>r. os_static_result s = Some r \<and> st_outcome r = STATIC_PASSED)"

text \<open>Every result came from its own dependency, on the evidence of the run: the policy result is the one of
  the policy for the proposal, the static and the verification services returned theirs, and the
  evaluation is the one of the evaluator.\<close>

definition certified_policy :: "'w graph_env \<Rightarrow> orchestration_state \<Rightarrow> bool" where
  "certified_policy env s \<longleftrightarrow>
     (\<forall>r. os_policy_result s = Some r \<longrightarrow>
        (\<exists>p c. os_proposal s = Some p \<and> os_context s = Some c \<and>
           validate_patch_policy (gd_front_end env) p (run_policy s c) = Inr r))"

definition certified_static :: "'w graph_env \<Rightarrow> orchestration_state \<Rightarrow> bool" where
  "certified_static env s \<longleftrightarrow>
     (\<forall>r. os_static_result s = Some r \<longrightarrow>
        (\<exists>prep p a w w'. os_preparation s = Some prep \<and> os_proposal s = Some p \<and> os_policy_result s = Some a \<and>
           gd_static env \<lparr>sq_preparation = prep, sq_proposal = p, sq_policy_result = a,
             sq_candidate_workspace_root = rw_candidate (os_workspaces s)\<rparr> w = (Inr r, w')))"

definition certified_verification :: "'w graph_env \<Rightarrow> orchestration_state \<Rightarrow> bool" where
  "certified_verification env s \<longleftrightarrow>
     (\<forall>v. os_verification_result s = Some v \<longrightarrow>
        (\<exists>r w w'. os_static_result s = Some r \<and>
           gd_verification env \<lparr>vq_case_id = os_case_id s, vq_static_result = r,
             vq_workspace_root = rw_verification (os_workspaces s)\<rparr> w = (Inr v, w')))"

definition certified_evaluation :: "orchestration_state \<Rightarrow> bool" where
  "certified_evaluation s \<longleftrightarrow>
     (\<forall>e. os_evaluation_result s = Some e \<longrightarrow>
        (\<exists>p v. os_proposal s = Some p \<and> os_verification_result s = Some v \<and>
           evaluate_candidate \<lparr>eq_case_id = os_case_id s, eq_proposal = p, eq_verification = v,
             eq_model_usage = os_model_usage s\<rparr> = Inr e))"

definition certified :: "'w graph_env \<Rightarrow> orchestration_state \<Rightarrow> bool" where
  "certified env s \<longleftrightarrow>
     certified_policy env s \<and> certified_static env s \<and> certified_verification env s \<and> certified_evaluation s"

lemmas certified_defs = certified_def certified_policy_def certified_static_def certified_verification_def
  certified_evaluation_def

definition ready :: "'w graph_env \<Rightarrow> node_name \<Rightarrow> orchestration_state \<Rightarrow> bool" where
  "ready env n s \<longleftrightarrow>
     valid_orchestration_state (gd_digest env) s \<and> os_completed_nodes s = executed_before n \<and>
     os_failure_override s = None \<and> os_terminal_route s = None \<and> certified env s \<and>
     (node_rank n \<le> 8 \<longrightarrow> reproduced s) \<and> (node_rank n \<le> 3 \<longrightarrow> approved s) \<and>
     (node_rank n \<le> 2 \<longrightarrow> statically_passed s)"

definition routable :: "'w graph_env \<Rightarrow> orchestration_state \<Rightarrow> bool" where
  "routable env s \<longleftrightarrow>
     valid_orchestration_state (gd_digest env) s \<and> ROUTE_RESULT \<notin> set (os_completed_nodes s) \<and>
     os_terminal_route s = None \<and> certified env s \<and> valid_routing_evidence (state_evidence s)"

definition at_node :: "'w graph_env \<Rightarrow> node_name \<Rightarrow> orchestration_state \<Rightarrow> bool" where
  "at_node env n s \<longleftrightarrow> (if n = ROUTE_RESULT then routable env s else ready env n s)"

text \<open>What a node has done: it is recorded, the result is valid, and only its own evidence is new.\<close>

definition only_own :: "node_name \<Rightarrow> orchestration_state \<Rightarrow> orchestration_state \<Rightarrow> bool" where
  "only_own n s t \<longleftrightarrow>
     os_case_id t = os_case_id s \<and> os_started_at t = os_started_at s \<and> os_trusted_case t = os_trusted_case s \<and>
     os_terminal_route t = os_terminal_route s \<and> os_workspaces t = os_workspaces s \<and>
     (n \<noteq> PREPARE_REPOSITORY \<longrightarrow> os_preparation t = os_preparation s) \<and>
     (n \<noteq> RUN_BASELINE \<longrightarrow> os_baseline t = os_baseline s) \<and>
     (n \<noteq> SELECT_CONTEXT \<longrightarrow> os_context t = os_context s) \<and>
     (n \<noteq> GENERATE_PATCH \<longrightarrow> os_proposal t = os_proposal s) \<and>
     (n \<noteq> VALIDATE_POLICY \<longrightarrow> os_policy_result t = os_policy_result s) \<and>
     (n \<noteq> RUN_STATIC_CHECKS \<longrightarrow> os_static_result t = os_static_result s) \<and>
     (n \<noteq> VERIFY_IN_SANDBOX \<longrightarrow> os_verification_result t = os_verification_result s) \<and>
     (n \<noteq> EVALUATE_CANDIDATE \<longrightarrow> os_evaluation_result t = os_evaluation_result s) \<and>
     (n \<noteq> PLAN_REPAIR \<and> n \<noteq> GENERATE_PATCH \<longrightarrow> os_model_usage t = os_model_usage s)"

definition ran :: "'w graph_env \<Rightarrow> node_name \<Rightarrow> orchestration_state \<Rightarrow> orchestration_state \<Rightarrow> bool" where
  "ran env n s t \<longleftrightarrow>
     valid_orchestration_state (gd_digest env) t \<and> os_completed_nodes t = os_completed_nodes s @ [n] \<and>
     only_own n s t \<and> certified env t"

lemma finish_Inr:
  "finish dg s n upd = Inr t \<Longrightarrow>
     t = (upd s)\<lparr>os_completed_nodes := os_completed_nodes s @ [n]\<rparr> \<and> valid_orchestration_state dg t"
  by (auto simp: finish_def strict_state_def split: if_splits)

lemma strict_Inr: "strict_state dg s = Inr t \<longleftrightarrow> t = s \<and> valid_orchestration_state dg s"
  by (auto simp: strict_state_def)

text \<open>The evidence that exists before a node\<close>

lemma ready_valid: "ready env n s \<Longrightarrow> valid_orchestration_state (gd_digest env) s"
  by (simp add: ready_def)

text \<open>The nodes before a node are those of a higher rank; evidence is there exactly for them.\<close>

lemma executed_before_iff: "m \<in> set (executed_before n) \<longleftrightarrow> node_rank n < node_rank m"
  by (cases n; cases m) (simp_all add: executed_before_def node_names_def)

lemma before_route_id: "ROUTE_RESULT \<notin> set nodes \<Longrightarrow> before_route nodes = nodes"
  unfolding before_route_def by (metis last_in_set)

lemma before_route_executed [simp]: "before_route (executed_before n) = executed_before n"
  by (rule before_route_id) (simp add: executed_before_iff)

lemma node_evidence_ok_iff:
  "node_evidence_ok s \<longleftrightarrow>
     (\<forall>(present, node) \<in> set (evidence_nodes s). present \<longrightarrow> node \<in> set (before_route (os_completed_nodes s))) \<and>
     (\<forall>(present, node) \<in> set (evidence_nodes s). present \<or> node \<notin> set (before_route (os_completed_nodes s)) \<or>
       (os_failure_override s \<noteq> None \<and> before_route (os_completed_nodes s) \<noteq> [] \<and>
        node = last (before_route (os_completed_nodes s))))"
  by (simp add: node_evidence_ok_def Let_def list_all_iff)

lemma absent_evidence:
  assumes "node_evidence_ok s"
  shows "PREPARE_REPOSITORY \<notin> set (before_route (os_completed_nodes s)) \<Longrightarrow> os_preparation s = None"
    "RUN_BASELINE \<notin> set (before_route (os_completed_nodes s)) \<Longrightarrow> os_baseline s = None"
    "CLASSIFY_FAILURE \<notin> set (before_route (os_completed_nodes s)) \<Longrightarrow> os_failure_analysis s = None"
    "SELECT_CONTEXT \<notin> set (before_route (os_completed_nodes s)) \<Longrightarrow> os_context s = None"
    "PLAN_REPAIR \<notin> set (before_route (os_completed_nodes s)) \<Longrightarrow> os_repair_plan s = None"
    "GENERATE_PATCH \<notin> set (before_route (os_completed_nodes s)) \<Longrightarrow> os_proposal s = None"
    "VALIDATE_POLICY \<notin> set (before_route (os_completed_nodes s)) \<Longrightarrow> os_policy_result s = None"
    "RUN_STATIC_CHECKS \<notin> set (before_route (os_completed_nodes s)) \<Longrightarrow> os_static_result s = None"
    "VERIFY_IN_SANDBOX \<notin> set (before_route (os_completed_nodes s)) \<Longrightarrow> os_verification_result s = None"
    "EVALUATE_CANDIDATE \<notin> set (before_route (os_completed_nodes s)) \<Longrightarrow> os_evaluation_result s = None"
  using assms by (auto simp: node_evidence_ok_iff evidence_nodes_def)

lemma ready_absent:
  assumes "ready env n s"
  shows "10 \<le> node_rank n \<Longrightarrow> os_preparation s = None" "9 \<le> node_rank n \<Longrightarrow> os_baseline s = None"
    "8 \<le> node_rank n \<Longrightarrow> os_failure_analysis s = None" "7 \<le> node_rank n \<Longrightarrow> os_context s = None"
    "6 \<le> node_rank n \<Longrightarrow> os_repair_plan s = None" "5 \<le> node_rank n \<Longrightarrow> os_proposal s = None"
    "4 \<le> node_rank n \<Longrightarrow> os_policy_result s = None" "3 \<le> node_rank n \<Longrightarrow> os_static_result s = None"
    "2 \<le> node_rank n \<Longrightarrow> os_verification_result s = None" "1 \<le> node_rank n \<Longrightarrow> os_evaluation_result s = None"
proof -
  have "node_evidence_ok s" "before_route (os_completed_nodes s) = executed_before n"
    using assms by (simp_all add: ready_def valid_orchestration_state_def)
  note a = absent_evidence [OF this(1), unfolded this(2) executed_before_iff]
  show "10 \<le> node_rank n \<Longrightarrow> os_preparation s = None" by (rule a(1)) simp
  show "9 \<le> node_rank n \<Longrightarrow> os_baseline s = None" by (rule a(2)) simp
  show "8 \<le> node_rank n \<Longrightarrow> os_failure_analysis s = None" by (rule a(3)) simp
  show "7 \<le> node_rank n \<Longrightarrow> os_context s = None" by (rule a(4)) simp
  show "6 \<le> node_rank n \<Longrightarrow> os_repair_plan s = None" by (rule a(5)) simp
  show "5 \<le> node_rank n \<Longrightarrow> os_proposal s = None" by (rule a(6)) simp
  show "4 \<le> node_rank n \<Longrightarrow> os_policy_result s = None" by (rule a(7)) simp
  show "3 \<le> node_rank n \<Longrightarrow> os_static_result s = None" by (rule a(8)) simp
  show "2 \<le> node_rank n \<Longrightarrow> os_verification_result s = None" by (rule a(9)) simp
  show "1 \<le> node_rank n \<Longrightarrow> os_evaluation_result s = None" by (rule a(10)) simp
qed

section \<open>Failing is always possible\<close>

lemma executed_before_snoc:
  "n \<noteq> ROUTE_RESULT \<Longrightarrow> completed_nodes_ok (executed_before n @ [n])"
  "n \<noteq> ROUTE_RESULT \<Longrightarrow> before_route (executed_before n @ [n]) = executed_before n @ [n]"
  by (cases n; simp add: completed_nodes_ok_def before_route_def executed_before_def node_names_def)+

text \<open>A state that differs from the current one in the failure, the tries and the usage only\<close>

definition fails_from :: "orchestration_state \<Rightarrow> node_name \<Rightarrow> orchestration_state \<Rightarrow> bool" where
  "fails_from s n t \<longleftrightarrow>
     (\<exists>out legacy tries usage. out \<in> {CANDIDATE_FAILURE, MALFORMED_MODEL_OUTPUT, INFRASTRUCTURE_FAILURE} \<and>
        (out \<noteq> INFRASTRUCTURE_FAILURE \<longrightarrow> 4 \<le> node_rank n) \<and>
        t = s\<lparr>os_failure_override := Some out, os_legacy_state := legacy, os_attempt_number := tries,
              os_model_usage := usage, os_completed_nodes := executed_before n @ [n]\<rparr> \<and>
        valid_case_state legacy \<and> cs_case_id legacy = cs_case_id (os_legacy_state s) \<and>
        cs_attempt_number legacy = tries \<and> tries \<in> {0, 1} \<and>
        cs_baseline_result legacy = cs_baseline_result (os_legacy_state s) \<and>
        cs_failure_analysis legacy = cs_failure_analysis (os_legacy_state s) \<and>
        cs_repair_plan legacy = cs_repair_plan (os_legacy_state s) \<and>
        cs_candidate_patch legacy = cs_candidate_patch (os_legacy_state s) \<and>
        (usage = os_model_usage s \<or> (\<exists>u. usage = Some u \<and> valid_candidate_usage u \<and> measured u \<and>
           n \<in> {PLAN_REPAIR, GENERATE_PATCH})))"


lemma ready_parts:
  assumes "ready env n s"
  shows "state_fields_ok s" "evidence_fields_ok s" "state_times_ok s" "state_identity_ok s" "usage_ok s"
    "node_evidence_ok s" "evidence_links_ok s" "proposal_links_ok (gd_digest env) s" "evaluation_links_ok s"
    "override_links_ok s" "terminal_ok s" "os_completed_nodes s = executed_before n" "os_failure_override s = None"
    "os_terminal_route s = None" "os_completed_at s = None"
  using assms by (auto simp: ready_def valid_orchestration_state_def terminal_ok_def split: option.splits)

lemma evidence_nodes_cong:
  "evidence_nodes (s\<lparr>os_failure_override := a, os_legacy_state := b, os_attempt_number := c, os_model_usage := d,
     os_completed_nodes := e\<rparr>) = evidence_nodes s"
  by (simp add: evidence_nodes_def)

lemma failed_node_evidence:
  assumes "ready env n s" "n \<noteq> ROUTE_RESULT"
  shows "node_evidence_ok (s\<lparr>os_failure_override := Some out, os_legacy_state := legacy, os_attempt_number := tries,
    os_model_usage := usage, os_completed_nodes := executed_before n @ [n]\<rparr>)"
  using ready_parts(6) [OF assms(1)] ready_parts(12,13) [OF assms(1)] executed_before_snoc(2) [OF assms(2)]
  by (auto simp: node_evidence_ok_iff evidence_nodes_cong)

lemma fails_from_valid:
  assumes r: "ready env n s" and n: "n \<noteq> ROUTE_RESULT" and f: "fails_from s n t"
  shows "valid_orchestration_state (gd_digest env) t"
proof -
  note p = ready_parts [OF r]
  from f obtain out legacy tries usage where
    out: "out \<in> {CANDIDATE_FAILURE, MALFORMED_MODEL_OUTPUT, INFRASTRUCTURE_FAILURE}"
      "out \<noteq> INFRASTRUCTURE_FAILURE \<longrightarrow> 4 \<le> node_rank n" and
    t: "t = s\<lparr>os_failure_override := Some out, os_legacy_state := legacy, os_attempt_number := tries,
              os_model_usage := usage, os_completed_nodes := executed_before n @ [n]\<rparr>" and
    l: "valid_case_state legacy" "cs_case_id legacy = cs_case_id (os_legacy_state s)"
      "cs_attempt_number legacy = tries" "tries \<in> {0, 1}"
      "cs_baseline_result legacy = cs_baseline_result (os_legacy_state s)"
      "cs_failure_analysis legacy = cs_failure_analysis (os_legacy_state s)"
      "cs_repair_plan legacy = cs_repair_plan (os_legacy_state s)"
      "cs_candidate_patch legacy = cs_candidate_patch (os_legacy_state s)" and
    u: "usage = os_model_usage s \<or> (\<exists>u. usage = Some u \<and> valid_candidate_usage u \<and> measured u \<and>
           n \<in> {PLAN_REPAIR, GENERATE_PATCH})"
    unfolding fails_from_def by blast
  have us: "opt_valid valid_candidate_usage usage" using u p(1) by (auto simp: state_fields_ok_def)
  have fields: "state_fields_ok t" using p(1) l us by (auto simp: state_fields_ok_def t)
  have ev: "evidence_fields_ok t" using p(2) by (simp add: evidence_fields_ok_def t)
  have times: "state_times_ok t" using p(3) by (simp add: state_times_ok_def t)
  have ident: "state_identity_ok t" using p(4) l(1-3) by (simp add: state_identity_ok_def t valid_case_state_def)
  have nodes: "completed_nodes_ok (os_completed_nodes t)" using executed_before_snoc(1) [OF n] by (simp add: t)
  have usage: "usage_ok t"
    using u p(5,12) executed_before_snoc(2) [OF n]
    by (auto simp: usage_ok_def t executed_before_iff opt_valid_def split: option.splits)
  have node_ev: "node_evidence_ok t" unfolding t by (rule failed_node_evidence [OF r n])
  have links: "evidence_links_ok t" using p(7) l by (simp add: evidence_links_ok_def t)
  have proposal: "proposal_links_ok (gd_digest env) t"
    using p(8) l by (simp add: proposal_links_ok_def t cong: option.case_cong)
  have eval: "evaluation_links_ok t"
    using ready_absent(10) [OF r] n by (cases n) (simp_all add: evaluation_links_ok_def t)
  have over: "override_links_ok t"
    using out ready_absent(7-10) [OF r] by (auto simp: override_links_ok_def t)
  have route: "terminal_ok t"
    using p(14,15) n by (simp add: terminal_ok_def t executed_before_iff)
  show ?thesis unfolding valid_orchestration_state_def
    using fields ev times ident nodes usage node_ev links proposal eval over route by blast
qed

lemma fails_from_only_own: "ready env n s \<Longrightarrow> fails_from s n t \<Longrightarrow> only_own n s t"
  by (auto simp: fails_from_def only_own_def)

lemma fails_from_certified:
  assumes "ready env n s" "n \<noteq> ROUTE_RESULT" "fails_from s n t"
  shows "certified env t"
proof -
  have "os_evaluation_result s = None" using assms(1,2) ready_absent(10) [OF assms(1)] by (cases n) auto
  moreover have "certified env s" using assms(1) by (simp add: ready_def)
  ultimately show ?thesis using assms(3) by (auto simp: fails_from_def certified_defs run_policy_def)
qed

lemma fails_from_ran:
  assumes "ready env n s" "n \<noteq> ROUTE_RESULT" "fails_from s n t"
  shows "ran env n s t"
  using fails_from_valid [OF assms] fails_from_only_own [OF assms(1,3)] fails_from_certified [OF assms]
    ready_parts(12) [OF assms(1)] assms(3)
  by (auto simp: ran_def fails_from_def)

text \<open>So the handlers of the nodes settle.\<close>

lemma finish_fails:
  assumes r: "ready env n s" and n: "n \<noteq> ROUTE_RESULT"
    and t: "(upd s)\<lparr>os_completed_nodes := executed_before n @ [n]\<rparr> = t" "fails_from s n t"
  shows "finish (gd_digest env) s n upd = Inr t"
  using ready_parts(12,14) [OF r] fails_from_valid [OF r n t(2)] t(1)
  by (simp add: finish_def strict_state_def executed_before_iff)

lemma fails_from_plain:
  assumes "ready env n s" "out \<in> {CANDIDATE_FAILURE, MALFORMED_MODEL_OUTPUT, INFRASTRUCTURE_FAILURE}"
    "out \<noteq> INFRASTRUCTURE_FAILURE \<Longrightarrow> 4 \<le> node_rank n"
    "usage = os_model_usage s \<or> (\<exists>u. usage = Some u \<and> valid_candidate_usage u \<and> measured u \<and>
       n \<in> {PLAN_REPAIR, GENERATE_PATCH})"
  shows "fails_from s n (s\<lparr>os_failure_override := Some out, os_model_usage := usage,
    os_completed_nodes := executed_before n @ [n]\<rparr>)"
  unfolding fails_from_def
proof (intro exI conjI)
  show "out \<in> {CANDIDATE_FAILURE, MALFORMED_MODEL_OUTPUT, INFRASTRUCTURE_FAILURE}" by fact
  show "out \<noteq> INFRASTRUCTURE_FAILURE \<longrightarrow> 4 \<le> node_rank n" using assms(3) by blast
  show "s\<lparr>os_failure_override := Some out, os_model_usage := usage, os_completed_nodes := executed_before n @ [n]\<rparr> =
      s\<lparr>os_failure_override := Some out, os_legacy_state := os_legacy_state s,
        os_attempt_number := os_attempt_number s, os_model_usage := usage,
        os_completed_nodes := executed_before n @ [n]\<rparr>" by simp
  show "valid_case_state (os_legacy_state s)" "os_attempt_number s \<in> {0, 1}"
    using ready_parts(1) [OF assms(1)] by (auto simp: state_fields_ok_def)
  show "cs_attempt_number (os_legacy_state s) = os_attempt_number s"
    using ready_parts(4) [OF assms(1)] by (simp add: state_identity_ok_def)
qed (use assms(4) in auto)

lemma infrastructure_settles:
  assumes "ready env n s" "n \<noteq> ROUTE_RESULT"
  shows "settles (infrastructure env s n e) (ran env n s)"
proof -
  let ?t = "s\<lparr>os_failure_override := Some INFRASTRUCTURE_FAILURE, os_completed_nodes := executed_before n @ [n]\<rparr>"
  have f: "fails_from s n ?t"
    using fails_from_plain [OF assms(1), of INFRASTRUCTURE_FAILURE "os_model_usage s"] by simp
  have "failure (gd_digest env) s n INFRASTRUCTURE_FAILURE = Inr ?t"
    unfolding failure_def by (rule finish_fails [OF assms _ f]) simp
  then show ?thesis
    unfolding infrastructure_def by (rule settles_lift) (rule fails_from_ran [OF assms f])
qed


section \<open>Usage and attempts\<close>

text \<open>What the failure paths need of the dependencies: a valid configuration, and a usage reader whose
  valid answers carry all four measurements\<close>

definition complete_usage :: "'w graph_env \<Rightarrow> bool" where
  "complete_usage env \<longleftrightarrow> (case gd_usage_reader env of None \<Rightarrow> True
     | Some reader \<Rightarrow> (\<forall>w u w'. reader w = (Inr u, w') \<longrightarrow> valid_candidate_usage u \<longrightarrow> measured u))"

definition configured :: "'w graph_env \<Rightarrow> bool" where
  "configured env \<longleftrightarrow> opt_valid valid_model_configuration (gd_model_configuration env)"

definition usable :: "candidate_usage option \<Rightarrow> bool" where
  "usable u \<longleftrightarrow> opt_valid (\<lambda>x. valid_candidate_usage x \<and> measured x) u"

lemma snapshot_usage_returns:
  assumes "complete_usage env"
  shows "returns (snapshot_usage env) usable"
proof (cases "gd_usage_reader env")
  case None
  then show ?thesis by (simp add: snapshot_usage_def returns_def triple_def ret_def usable_def)
next
  case (Some reader)
  have "returns reader (\<lambda>u. valid_candidate_usage u \<longrightarrow> measured u)"
    using assms Some by (auto simp: complete_usage_def returns_def triple_def split: sum.splits prod.splits)
  then show ?thesis unfolding snapshot_usage_def Some option.case
    by (rule returns_with, intro returns_ensure)
       (simp add: returns_def triple_def ret_def usable_def)
qed

lemma returns_ret: "Q x \<Longrightarrow> returns (ret x) Q"
  by (simp add: returns_def triple_def ret_def)

lemma usage_or_outcome_settles:
  assumes "complete_usage env"
  shows "settles (usage_or_outcome env out) (\<lambda>(u, out'). usable u \<and> (out' = out \<or> out' = INFRASTRUCTURE_FAILURE))"
  unfolding usage_or_outcome_def
  by (rule settles_exception)
     (auto intro!: returns_with [OF snapshot_usage_returns [OF assms]] returns_ret settles_ret simp: usable_def)

definition failure_outcome :: "terminal_outcome \<Rightarrow> bool" where
  "failure_outcome out \<longleftrightarrow> out \<in> {CANDIDATE_FAILURE, MALFORMED_MODEL_OUTPUT, INFRASTRUCTURE_FAILURE}"

lemma raise_outcome_failure: "failure_outcome (raise_outcome e)"
  by (cases e) (simp_all add: failure_outcome_def model_failure_def)

lemma failure_with_usage_settles:
  assumes r: "ready env GENERATE_PATCH s" and c: "complete_usage env" and o: "failure_outcome out"
  shows "settles (failure_with_usage env s GENERATE_PATCH out) (ran env GENERATE_PATCH s)"
  unfolding failure_with_usage_def
proof (rule settles_then [OF usage_or_outcome_settles [OF c]])
  fix x assume x: "case x of (u, out') \<Rightarrow> usable u \<and> (out' = out \<or> out' = INFRASTRUCTURE_FAILURE)"
  obtain u out' where uo: "x = (u, out')" by fastforce
  let ?usage = "case u of None \<Rightarrow> os_model_usage s | Some v \<Rightarrow> Some v"
  let ?t = "s\<lparr>os_failure_override := Some out', os_model_usage := ?usage,
    os_completed_nodes := executed_before GENERATE_PATCH @ [GENERATE_PATCH]\<rparr>"
  have f: "fails_from s GENERATE_PATCH ?t"
    using x uo o by (intro fails_from_plain [OF r]) (auto simp: failure_outcome_def usable_def split: option.splits)
  have "finish (gd_digest env) s GENERATE_PATCH (\<lambda>x. set_usage u (x\<lparr>os_failure_override := Some out'\<rparr>)) = Inr ?t"
    by (rule finish_fails [OF r _ _ f]) (simp, cases u, simp_all add: set_usage_def)
  then show "settles (case x of (usage, out) \<Rightarrow> lift_result (finish (gd_digest env) s GENERATE_PATCH
      (\<lambda>x. set_usage usage (x\<lparr>os_failure_override := Some out\<rparr>)))) (ran env GENERATE_PATCH s)"
    unfolding uo prod.case by (rule settles_lift) (rule fails_from_ran [OF r _ f], simp)
qed

lemma record_failed_attempt_legacy:
  assumes "configured env" "ready env PLAN_REPAIR s"
  shows "valid_case_state (record_failed_attempt (gd_model_configuration env) (os_legacy_state s))"
    "cs_attempt_number (record_failed_attempt (gd_model_configuration env) (os_legacy_state s)) = 1"
  using assms ready_parts(1) [OF assms(2)]
  by (auto simp: record_failed_attempt_def Let_def configured_def state_fields_ok_def valid_case_state_def
      valid_model_configuration_def split: option.splits)

lemma attempt_failure_settles:
  assumes r: "ready env PLAN_REPAIR s" and c: "complete_usage env" and g: "configured env" and o: "failure_outcome out"
  shows "settles (attempt_failure env s out) (ran env PLAN_REPAIR s)"
proof -
  let ?legacy0 = "record_failed_attempt (gd_model_configuration env) (os_legacy_state s)"
  define goodl where "goodl legacy \<longleftrightarrow> (legacy = ?legacy0 \<or> (\<exists>t. dt_offset t \<noteq> None \<and> legacy = ?legacy0\<lparr>cs_updated_at := t\<rparr>))"
    for legacy
  have legacy: "valid_case_state legacy \<and> cs_case_id legacy = cs_case_id (os_legacy_state s) \<and>
      cs_attempt_number legacy = 1 \<and> cs_baseline_result legacy = cs_baseline_result (os_legacy_state s) \<and>
      cs_failure_analysis legacy = cs_failure_analysis (os_legacy_state s) \<and>
      cs_repair_plan legacy = cs_repair_plan (os_legacy_state s) \<and>
      cs_candidate_patch legacy = cs_candidate_patch (os_legacy_state s)" if "goodl legacy" for legacy
  proof -
    have "cs_case_id ?legacy0 = cs_case_id (os_legacy_state s)"
      "cs_baseline_result ?legacy0 = cs_baseline_result (os_legacy_state s)"
      "cs_failure_analysis ?legacy0 = cs_failure_analysis (os_legacy_state s)"
      "cs_repair_plan ?legacy0 = cs_repair_plan (os_legacy_state s)"
      "cs_candidate_patch ?legacy0 = cs_candidate_patch (os_legacy_state s)"
      by (simp_all add: record_failed_attempt_def Let_def split: option.splits)
    with that record_failed_attempt_legacy [OF g r] show ?thesis
      by (auto simp: goodl_def valid_case_state_def)
  qed
  have first: "settles (on_exception (andthen (utc_clock env) (\<lambda>t. ret (?legacy0\<lparr>cs_updated_at := t\<rparr>, out)))
      (\<lambda>_. ret (?legacy0, INFRASTRUCTURE_FAILURE))) (\<lambda>(l, out'). goodl l \<and> failure_outcome out')"
  proof (rule settles_exception)
    have "returns (utc_clock env) (\<lambda>t. dt_offset t \<noteq> None)"
      unfolding utc_clock_def
      by (intro returns_then returns_end) (auto simp: to_utc_def utc_now_def split: option.splits)
    then show "returns (andthen (utc_clock env) (\<lambda>t. ret (?legacy0\<lparr>cs_updated_at := t\<rparr>, out)))
        (\<lambda>(l, out'). goodl l \<and> failure_outcome out')"
      by (rule returns_with) (auto intro!: returns_ret simp: goodl_def o)
  qed (auto intro!: settles_ret simp: goodl_def failure_outcome_def)
  show ?thesis
    unfolding attempt_failure_def Let_def
  proof (rule settles_then [OF first])
    fix x assume x: "case x of (l, out') \<Rightarrow> goodl l \<and> failure_outcome out'"
    obtain l out1 where lo: "x = (l, out1)" by fastforce
    show "settles (case x of (legacy, out1) \<Rightarrow> andthen (usage_or_outcome env out1) (\<lambda>(usage, out).
        lift_result (finish (gd_digest env) s PLAN_REPAIR (\<lambda>x. set_usage usage (x\<lparr>os_attempt_number := 1,
          os_legacy_state := legacy, os_failure_override := Some out\<rparr>))))) (ran env PLAN_REPAIR s)"
      unfolding lo prod.case
    proof (rule settles_then [OF usage_or_outcome_settles [OF c]])
      fix y assume y: "case y of (u, out') \<Rightarrow> usable u \<and> (out' = out1 \<or> out' = INFRASTRUCTURE_FAILURE)"
      obtain u out2 where uo: "y = (u, out2)" by fastforce
      let ?usage = "case u of None \<Rightarrow> os_model_usage s | Some v \<Rightarrow> Some v"
      let ?t = "s\<lparr>os_failure_override := Some out2, os_legacy_state := l, os_attempt_number := 1,
        os_model_usage := ?usage, os_completed_nodes := executed_before PLAN_REPAIR @ [PLAN_REPAIR]\<rparr>"
      have u': "?usage = os_model_usage s \<or> (\<exists>v. ?usage = Some v \<and> valid_candidate_usage v \<and> measured v \<and>
          PLAN_REPAIR \<in> {PLAN_REPAIR, GENERATE_PATCH})"
        using y uo by (auto simp: usable_def split: option.splits)
      have "goodl l" "failure_outcome out2" using x y lo uo by (auto simp: failure_outcome_def)
      then have f: "fails_from s PLAN_REPAIR ?t"
        using legacy [of l] u' unfolding fails_from_def failure_outcome_def
        by (intro exI [of _ out2] exI [of _ l] exI [of _ 1] exI [of _ ?usage]) simp
      have "finish (gd_digest env) s PLAN_REPAIR (\<lambda>x. set_usage u (x\<lparr>os_attempt_number := 1,
          os_legacy_state := l, os_failure_override := Some out2\<rparr>)) = Inr ?t"
        by (rule finish_fails [OF r _ _ f]) (simp, cases u, simp_all add: set_usage_def)
      then show "settles (case y of (usage, out) \<Rightarrow> lift_result (finish (gd_digest env) s PLAN_REPAIR
          (\<lambda>x. set_usage usage (x\<lparr>os_attempt_number := 1, os_legacy_state := l, os_failure_override := Some out\<rparr>))))
          (ran env PLAN_REPAIR s)"
        unfolding uo prod.case by (rule settles_lift) (rule fails_from_ran [OF r _ f], simp)
    qed
  qed
qed


section \<open>Every node settles\<close>

abbreviation judging_nodes :: "node_name set" where
  "judging_nodes \<equiv> {VALIDATE_POLICY, RUN_STATIC_CHECKS, VERIFY_IN_SANDBOX, EVALUATE_CANDIDATE}"

lemma own_certified:
  assumes "ready env n s" "only_own n s t" "n \<notin> judging_nodes" "n \<noteq> ROUTE_RESULT"
  shows "certified env t"
proof -
  have "5 \<le> node_rank n" using assms(3,4) by (cases n) simp_all
  then have "os_policy_result t = None" "os_static_result t = None" "os_verification_result t = None"
    "os_evaluation_result t = None"
    using assms(2,3) ready_absent(7-10) [OF assms(1)] by (auto simp: only_own_def)
  then show ?thesis by (simp add: certified_defs)
qed

lemma done_ran:
  assumes r: "ready env n s" and n: "n \<noteq> ROUTE_RESULT"
    and f: "finish (gd_digest env) s n upd = Inr t" and o: "only_own n s (upd s)"
    and c: "n \<in> judging_nodes \<Longrightarrow> certified env (upd s)"
  shows "ran env n s t"
proof -
  have t: "t = (upd s)\<lparr>os_completed_nodes := os_completed_nodes s @ [n]\<rparr>"
    and v: "valid_orchestration_state (gd_digest env) t" using finish_Inr [OF f] by blast+
  have o': "only_own n s t" using o by (simp add: t only_own_def)
  have "certified env t"
  proof (cases "n \<in> judging_nodes")
    case True
    with c show ?thesis by (simp add: t certified_defs run_policy_def)
  next
    case False
    with own_certified [OF r o'] n show ?thesis by simp
  qed
  with v o' show ?thesis by (simp add: ran_def t)
qed

lemma returns_done:
  assumes "ready env n s" "n \<noteq> ROUTE_RESULT" "only_own n s (upd s)"
    "n \<in> judging_nodes \<Longrightarrow> certified env (upd s)"
  shows "returns (done_node env s n upd) (ran env n s)"
  unfolding done_node_def using assms by (intro returns_end) (blast intro: done_ran)

lemma settles_on_state:
  "valid_orchestration_state (gd_digest env) s \<Longrightarrow> settles (m s) Q \<Longrightarrow> settles (on_state env m s) Q"
  unfolding on_state_def
  by (rule settles_then [of _ "\<lambda>x. x = s"]) (simp_all add: settles_def triple_def lift_result_def strict_state_def)

lemmas node_rules = returns_need returns_ensure returns_lift returns_done returns_from

lemma own_simps: "only_own n s (set_usage u t) \<longleftrightarrow> only_own n s t" if "n \<in> {PLAN_REPAIR, GENERATE_PATCH}"
  using that by (cases u) (auto simp: only_own_def set_usage_def)

lemma infrastructure_node_settles:
  assumes "ready env n s" "n \<noteq> ROUTE_RESULT" "returns body (ran env n s)"
  shows "settles (on_exception body (infrastructure env s n)) (ran env n s)"
  by (rule settles_exception [OF assms(3)]) (rule infrastructure_settles [OF assms(1,2)])

lemma prepare_settles: "ready env PREPARE_REPOSITORY s \<Longrightarrow> settles (prepare_node env s) (ran env PREPARE_REPOSITORY s)"
  unfolding prepare_node_def
  by (rule settles_on_state, erule ready_valid, rule infrastructure_node_settles, assumption, simp,
      (rule node_rules)+, assumption) (simp_all add: only_own_def)

lemma baseline_settles: "ready env RUN_BASELINE s \<Longrightarrow> settles (baseline_node env s) (ran env RUN_BASELINE s)"
  unfolding baseline_node_def
  by (rule settles_on_state, erule ready_valid, rule infrastructure_node_settles, assumption, simp,
      (rule node_rules)+, assumption) (simp_all add: only_own_def)

lemma classify_settles: "ready env CLASSIFY_FAILURE s \<Longrightarrow> settles (classify_node env s) (ran env CLASSIFY_FAILURE s)"
  unfolding classify_node_def
  by (rule settles_on_state, erule ready_valid, rule infrastructure_node_settles, assumption, simp,
      (rule node_rules)+, assumption) (simp_all add: only_own_def)

lemma context_settles: "ready env SELECT_CONTEXT s \<Longrightarrow> settles (context_node env s) (ran env SELECT_CONTEXT s)"
  unfolding context_node_def
  by (rule settles_on_state, erule ready_valid, rule infrastructure_node_settles, assumption, simp,
      (rule node_rules)+, assumption) (simp_all add: only_own_def)

lemma plan_settles:
  assumes "ready env PLAN_REPAIR s" "complete_usage env" "configured env"
  shows "settles (plan_node env s) (ran env PLAN_REPAIR s)"
  unfolding plan_node_def
proof (rule settles_on_state [OF ready_valid [OF assms(1)]], rule settles_exception)
  show "settles (attempt_failure env s (raise_outcome e)) (ran env PLAN_REPAIR s)" for e
    by (rule attempt_failure_settles [OF assms raise_outcome_failure])
qed ((rule node_rules)+, rule assms(1), simp_all add: own_simps, simp_all add: only_own_def)

lemma generate_settles:
  assumes "ready env GENERATE_PATCH s" "complete_usage env"
  shows "settles (generate_node env s) (ran env GENERATE_PATCH s)"
  unfolding generate_node_def
proof (rule settles_on_state [OF ready_valid [OF assms(1)]], rule settles_exception)
  show "settles (failure_with_usage env s GENERATE_PATCH (raise_outcome e)) (ran env GENERATE_PATCH s)" for e
    by (rule failure_with_usage_settles [OF assms raise_outcome_failure])
qed ((rule node_rules)+, rule assms(1), simp_all add: own_simps, simp_all add: only_own_def)

lemma policy_settles: "ready env VALIDATE_POLICY s \<Longrightarrow> settles (policy_node env s) (ran env VALIDATE_POLICY s)"
  unfolding policy_node_def
  by (rule settles_on_state, erule ready_valid, rule infrastructure_node_settles, assumption, simp,
      (rule node_rules)+, assumption)
     (auto simp: only_own_def certified_defs run_policy_def ready_absent(8-10))

lemma static_certifies:
  assumes "ready env RUN_STATIC_CHECKS s" "os_preparation s = Some prep" "os_proposal s = Some p"
    "os_policy_result s = Some a"
    "gd_static env \<lparr>sq_preparation = prep, sq_proposal = p, sq_policy_result = a,
       sq_candidate_workspace_root = rw_candidate (os_workspaces s)\<rparr> w = (Inr r, w')"
  shows "certified env (s\<lparr>os_static_result := Some r\<rparr>)"
proof -
  have "certified_policy env s" using assms(1) by (simp add: ready_def certified_def)
  then have "certified_policy env (s\<lparr>os_static_result := Some r\<rparr>)"
    by (simp add: certified_policy_def run_policy_def)
  moreover have "certified_static env (s\<lparr>os_static_result := Some r\<rparr>)"
    using assms(2-5) unfolding certified_static_def by auto
  ultimately show ?thesis
    using ready_absent(9,10) [OF assms(1)]
    by (simp add: certified_def certified_verification_def certified_evaluation_def)
qed

lemma static_settles: "ready env RUN_STATIC_CHECKS s \<Longrightarrow> settles (static_node env s) (ran env RUN_STATIC_CHECKS s)"
  unfolding static_node_def Let_def
  by (rule settles_on_state, erule ready_valid, rule infrastructure_node_settles, assumption, simp,
      (rule node_rules)+, assumption, simp, simp add: only_own_def) (rule static_certifies)

lemma verify_certifies:
  assumes "ready env VERIFY_IN_SANDBOX s" "os_static_result s = Some r"
    "gd_verification env \<lparr>vq_case_id = os_case_id s, vq_static_result = r,
       vq_workspace_root = rw_verification (os_workspaces s)\<rparr> w = (Inr v, w')"
  shows "certified env (s\<lparr>os_verification_result := Some v\<rparr>)"
proof -
  have "certified_policy env s" "certified_static env s" using assms(1) by (simp_all add: ready_def certified_def)
  then have "certified_policy env (s\<lparr>os_verification_result := Some v\<rparr>)"
    "certified_static env (s\<lparr>os_verification_result := Some v\<rparr>)"
    by (simp_all add: certified_policy_def certified_static_def run_policy_def)
  moreover have "certified_verification env (s\<lparr>os_verification_result := Some v\<rparr>)"
    using assms(2-3) unfolding certified_verification_def by auto
  ultimately show ?thesis
    using ready_absent(10) [OF assms(1)] by (simp add: certified_def certified_evaluation_def)
qed

lemma verify_settles: "ready env VERIFY_IN_SANDBOX s \<Longrightarrow> settles (verify_node env s) (ran env VERIFY_IN_SANDBOX s)"
  unfolding verify_node_def Let_def
  by (rule settles_on_state, erule ready_valid, rule infrastructure_node_settles, assumption, simp,
      (rule node_rules)+, assumption, simp, simp add: only_own_def) (rule verify_certifies)

lemma evaluate_settles: "ready env EVALUATE_CANDIDATE s \<Longrightarrow> settles (evaluate_node env s) (ran env EVALUATE_CANDIDATE s)"
  unfolding evaluate_node_def Let_def
  by (rule settles_on_state, erule ready_valid, rule infrastructure_node_settles, assumption, simp,
      (rule node_rules)+, assumption)
     (auto simp: only_own_def certified_defs run_policy_def ready_def)

lemma node_settles:
  assumes "ready env n s" "n \<noteq> ROUTE_RESULT" "complete_usage env" "configured env"
  shows "settles (run_node env n s) (ran env n s)"
  using assms
  by (cases n) (simp_all add: prepare_settles baseline_settles classify_settles context_settles plan_settles
      generate_settles policy_settles static_settles verify_settles evaluate_settles)


section \<open>Following the edges\<close>

lemma present_evidence:
  assumes "node_evidence_ok s" "(os_X, x) \<in> set (evidence_nodes s)" "x \<in> set (before_route (os_completed_nodes s))"
    "x \<noteq> last (before_route (os_completed_nodes s))"
  shows os_X
  using assms by (auto simp: node_evidence_ok_iff)

lemma ran_parts:
  assumes "ready env n s" "n \<noteq> ROUTE_RESULT" "ran env n s t"
  shows "before_route (os_completed_nodes t) = executed_before n @ [n]" "node_evidence_ok t" "evidence_fields_ok t"
    "override_links_ok t" "os_terminal_route t = None" "certified env t" "only_own n s t"
    "valid_orchestration_state (gd_digest env) t" "os_completed_nodes t = executed_before n @ [n]"
  using assms ready_parts(12,14) [OF assms(1)] executed_before_snoc(2) [OF assms(2)]
  by (auto simp: ran_def valid_orchestration_state_def only_own_def)

lemma ran_rank:
  assumes "ready env n s" "n \<noteq> ROUTE_RESULT" "ran env n s t"
  shows "os_policy_result t \<noteq> None \<Longrightarrow> node_rank n \<le> 4" "os_static_result t \<noteq> None \<Longrightarrow> node_rank n \<le> 3"
    "os_verification_result t \<noteq> None \<Longrightarrow> node_rank n \<le> 2" "os_evaluation_result t \<noteq> None \<Longrightarrow> node_rank n \<le> 1"
proof -
  have x: "node_rank n \<le> node_rank x" if "x \<in> set (before_route (os_completed_nodes t))" for x
    using that by (auto simp: ran_parts(1) [OF assms] executed_before_iff)
  note a = absent_evidence [OF ran_parts(2) [OF assms]]
  show "os_policy_result t \<noteq> None \<Longrightarrow> node_rank n \<le> 4" using a(7) x [of VALIDATE_POLICY] by (metis node_rank.simps(7))
  show "os_static_result t \<noteq> None \<Longrightarrow> node_rank n \<le> 3" using a(8) x [of RUN_STATIC_CHECKS] by (metis node_rank.simps(8))
  show "os_verification_result t \<noteq> None \<Longrightarrow> node_rank n \<le> 2"
    using a(9) x [of VERIFY_IN_SANDBOX] by (metis node_rank.simps(9))
  show "os_evaluation_result t \<noteq> None \<Longrightarrow> node_rank n \<le> 1"
    using a(10) x [of EVALUATE_CANDIDATE] by (metis node_rank.simps(10))
qed

lemma ran_verified:
  assumes "ready env n s" "n \<noteq> ROUTE_RESULT" "ran env n s t" "node_rank n < 2"
  shows "os_verification_result t \<noteq> None"
  by (rule present_evidence [OF ran_parts(2) [OF assms(1-3)], of _ VERIFY_IN_SANDBOX])
     (use assms(4) in \<open>auto simp: evidence_nodes_def ran_parts(1) [OF assms(1-3)] executed_before_iff\<close>)

lemma ran_keeps:
  assumes "ready env n s" "n \<noteq> ROUTE_RESULT" "ran env n s t"
  shows "node_rank n \<le> 8 \<Longrightarrow> reproduced t" "node_rank n \<le> 3 \<Longrightarrow> approved t" "node_rank n \<le> 2 \<Longrightarrow> statically_passed t"
  using assms ran_parts(7) [OF assms]
  by (cases n; simp add: ready_def only_own_def reproduced_def approved_def statically_passed_def)+

lemma state_evidence_simps [simp]:
  "rv_baseline (state_evidence s) = os_baseline s" "rv_policy (state_evidence s) = os_policy_result s"
  "rv_static (state_evidence s) = os_static_result s" "rv_verification (state_evidence s) = os_verification_result s"
  "rv_evaluation (state_evidence s) = os_evaluation_result s"
  "rv_failure_override (state_evidence s) = os_failure_override s"
  by (simp_all add: state_evidence_def)

lemma ran_evidence_valid:
  assumes "ready env n s" "n \<noteq> ROUTE_RESULT" "ran env n s t"
  shows "valid_routing_evidence (state_evidence t)"
proof -
  note rank = ran_rank [OF assms] and keeps = ran_keeps [OF assms]
  have baseline: "\<exists>b. os_baseline t = Some b \<and> br_outcome b = REPRODUCED_FAILURE"
    if "later_evidence (state_evidence t)"
  proof -
    have "node_rank n \<le> 8" using that rank by (fastforce simp: later_evidence_def state_evidence_def)
    then show ?thesis using keeps(1) by (simp add: reproduced_def)
  qed
  have policy: "\<exists>p. os_policy_result t = Some p \<and> pr_approved p" if "candidate_evidence (state_evidence t)"
  proof -
    have "node_rank n \<le> 3" using that rank by (fastforce simp: candidate_evidence_def state_evidence_def)
    then show ?thesis using keeps(2) by (simp add: approved_def)
  qed
  have static: "\<exists>r. os_static_result t = Some r \<and> st_outcome r = STATIC_PASSED" if "verification_evidence (state_evidence t)"
  proof -
    have "node_rank n \<le> 2" using that rank by (fastforce simp: verification_evidence_def state_evidence_def)
    then show ?thesis using keeps(3) by (simp add: statically_passed_def)
  qed
  have verified: "os_verification_result t \<noteq> None" if "os_evaluation_result t \<noteq> None"
    using rank(4) [OF that] ran_verified [OF assms] by linarith
  have links: "override_links_ok t" by (rule ran_parts(4) [OF assms])
  let ?e = "state_evidence t"
  have "\<not> (rv_baseline ?e = None \<and> later_evidence ?e)" using baseline by auto
  moreover have "case rv_baseline ?e of None \<Rightarrow> True | Some b \<Rightarrow> \<not> (br_outcome b \<noteq> REPRODUCED_FAILURE \<and> later_evidence ?e)"
    using baseline by (auto split: option.splits)
  moreover have "\<not> (rv_policy ?e = None \<and> candidate_evidence ?e)" using policy by auto
  moreover have "case rv_policy ?e of None \<Rightarrow> True | Some p \<Rightarrow> \<not> (\<not> pr_approved p \<and> candidate_evidence ?e)"
    using policy by (auto split: option.splits)
  moreover have "\<not> (rv_static ?e = None \<and> verification_evidence ?e)" using static by auto
  moreover have "case rv_static ?e of None \<Rightarrow> True | Some r \<Rightarrow> \<not> (st_outcome r \<noteq> STATIC_PASSED \<and> verification_evidence ?e)"
    using static by (auto split: option.splits)
  moreover have "\<not> (rv_verification ?e = None \<and> rv_evaluation ?e \<noteq> None)" using verified by auto
  moreover have "\<not> (rv_failure_override ?e \<in> {Some CANDIDATE_FAILURE, Some MALFORMED_MODEL_OUTPUT} \<and> later_evidence ?e)"
    using links by (auto simp: override_links_ok_def later_evidence_def)
  moreover have "rv_failure_override ?e \<notin>
      {Some SUCCESS, Some POLICY_VIOLATION, Some STATIC_CHECK_FAILURE, Some RUN_NOT_REPRODUCIBLE}"
    using links by (simp add: override_links_ok_def)
  ultimately have "override_ok ?e" unfolding override_ok_def by blast
  then show ?thesis
    using ran_parts(3) [OF assms] by (simp add: valid_routing_evidence_def evidence_fields_ok_def)
qed

lemma ran_routable:
  assumes "ready env n s" "n \<noteq> ROUTE_RESULT" "ran env n s t"
  shows "routable env t"
  using ran_parts [OF assms] ran_evidence_valid [OF assms] assms(2)
  by (simp add: routable_def executed_before_iff)

text \<open>The successor of a node, when nothing has gone wrong\<close>

lemma next_node_Inr:
  "valid_orchestration_state (gd_digest env) t \<Longrightarrow> next_node env n t = Inr (edge n t)"
  by (simp add: next_node_def strict_state_def)

lemma executed_before_next:
  "executed_before RUN_BASELINE = executed_before PREPARE_REPOSITORY @ [PREPARE_REPOSITORY]"
  "executed_before CLASSIFY_FAILURE = executed_before RUN_BASELINE @ [RUN_BASELINE]"
  "executed_before SELECT_CONTEXT = executed_before CLASSIFY_FAILURE @ [CLASSIFY_FAILURE]"
  "executed_before PLAN_REPAIR = executed_before SELECT_CONTEXT @ [SELECT_CONTEXT]"
  "executed_before GENERATE_PATCH = executed_before PLAN_REPAIR @ [PLAN_REPAIR]"
  "executed_before VALIDATE_POLICY = executed_before GENERATE_PATCH @ [GENERATE_PATCH]"
  "executed_before RUN_STATIC_CHECKS = executed_before VALIDATE_POLICY @ [VALIDATE_POLICY]"
  "executed_before VERIFY_IN_SANDBOX = executed_before RUN_STATIC_CHECKS @ [RUN_STATIC_CHECKS]"
  "executed_before EVALUATE_CANDIDATE = executed_before VERIFY_IN_SANDBOX @ [VERIFY_IN_SANDBOX]"
  by (simp_all add: executed_before_def node_names_def)

text \<open>An edge that does not lead to the routing leads to the next node, with its condition.\<close>

lemma edge_onward:
  assumes "edge n t = Some m" "m \<noteq> ROUTE_RESULT"
  shows "os_failure_override t = None" "executed_before m = executed_before n @ [n]"
    "m = CLASSIFY_FAILURE \<Longrightarrow> reproduced t" "m = RUN_STATIC_CHECKS \<Longrightarrow> approved t"
    "m = VERIFY_IN_SANDBOX \<Longrightarrow> statically_passed t" "node_rank n = Suc (node_rank m)"
  using assms
  by (cases n; auto simp: unless_failed_def after_baseline_def after_policy_def after_static_def executed_before_next
      reproduced_def approved_def statically_passed_def split: if_splits option.splits)+

lemma ran_next:
  assumes "ready env n s" "n \<noteq> ROUTE_RESULT" "ran env n s t"
  obtains m where "next_node env n t = Inr (Some m)" "at_node env m t"
proof -
  note p = ran_parts [OF assms] and k = ran_keeps [OF assms]
  have nx: "next_node env n t = Inr (edge n t)" using next_node_Inr [OF p(8)] .
  obtain m where m: "edge n t = Some m" using assms(2) by (cases n) simp_all
  have "at_node env m t"
  proof (cases "m = ROUTE_RESULT")
    case True
    with ran_routable [OF assms] show ?thesis by (simp add: at_node_def)
  next
    case False
    note e = edge_onward [OF m False]
    have r: "node_rank m \<le> 8 \<longrightarrow> reproduced t" using k(1) e(3,6) by (cases m) auto
    have a: "node_rank m \<le> 3 \<longrightarrow> approved t" using k(2) e(4,6) by (cases m) auto
    have st: "node_rank m \<le> 2 \<longrightarrow> statically_passed t" using k(3) e(5,6) False by (cases m) auto
    have "ready env m t" using p e r a st by (simp add: ready_def)
    with False show ?thesis by (simp add: at_node_def)
  qed
  with nx m that show ?thesis by simp
qed

end
