(* ===== verification/Graph_Claims.thy ===== *)
theory Graph_Claims
  imports Graph_Facts Case_Loader_Claims
begin

text \<open>
  The properties of a run of the repair graph: it ends in a terminal state, a success is earned, and an
  infrastructure failure can always be recorded.
\<close>

section \<open>The routing node\<close>

text \<open>The state at the end of a run\<close>

definition finished :: "'w graph_env \<Rightarrow> orchestration_state \<Rightarrow> bool" where
  "finished env t \<longleftrightarrow>
     valid_orchestration_state (gd_digest env) t \<and> certified env t \<and> os_terminal_route t \<noteq> None"

text \<open>A clock that answers, with a zone, instants that are not before the start of the run\<close>

definition reliable_clock :: "'w graph_env \<Rightarrow> int \<Rightarrow> bool" where
  "reliable_clock env start \<longleftrightarrow>
     (\<forall>w. case gd_clock env w of
        (Inr t, _) \<Rightarrow> dt_offset t \<noteq> None \<and> start \<le> dt_instant t
      | (Inl e, _) \<Rightarrow> e = Interrupted)"

lemma utc_clock_settles:
  assumes "reliable_clock env start"
  shows "settles (utc_clock env) (\<lambda>t. dt_offset t = Some 0 \<and> start \<le> dt_instant t)"
  unfolding utc_clock_def
proof (rule settles_then)
  show "settles (gd_clock env) (\<lambda>t. dt_offset t \<noteq> None \<and> start \<le> dt_instant t)"
    unfolding settles_def by (rule tripleI) (use assms in \<open>simp add: reliable_clock_def\<close>)
next
  fix t :: datetime assume "dt_offset t \<noteq> None \<and> start \<le> dt_instant t"
  then show "settles (lift_result (to_utc t)) (\<lambda>t. dt_offset t = Some 0 \<and> start \<le> dt_instant t)"
    by (auto simp: to_utc_def utc_now_def intro: settles_lift)
qed

lemma routed:
  assumes "routable env s"
  obtains r where "route_state s = Some r" "valid_terminal_route r"
  using assms route_for_outcome_Some [of "route_outcome (state_evidence s)"]
  by (auto simp: routable_def route_state_def route_terminal_def)

definition routed_state :: "orchestration_state \<Rightarrow> terminal_route \<Rightarrow> datetime \<Rightarrow> orchestration_state" where
  "routed_state s r t = s\<lparr>os_terminal_route := Some r, os_completed_at := Some t,
     os_completed_nodes := os_completed_nodes s @ [ROUTE_RESULT]\<rparr>"

lemma routed_state_certified: "certified env s \<Longrightarrow> certified env (routed_state s r t)"
  by (auto simp: certified_defs routed_state_def run_policy_def)

lemma routed_state_valid:
  assumes "routable env s" "route_state s = Some r" "valid_terminal_route r"
    "dt_offset t = Some 0" "dt_instant (os_started_at s) \<le> dt_instant t"
  shows "valid_orchestration_state (gd_digest env) (routed_state s r t)"
proof -
  have v: "valid_orchestration_state (gd_digest env) s" and n: "ROUTE_RESULT \<notin> set (os_completed_nodes s)"
    using assms(1) by (simp_all add: routable_def)
  have b: "before_route (os_completed_nodes s @ [ROUTE_RESULT]) = os_completed_nodes s"
    by (simp add: before_route_def)
  note p = v [unfolded valid_orchestration_state_def] and before_route_id [OF n, simp]
  let ?t = "routed_state s r t"
  have "state_fields_ok ?t" using p assms(4) by (simp add: state_fields_ok_def routed_state_def)
  moreover have "evidence_fields_ok ?t" using p assms(3) by (simp add: evidence_fields_ok_def routed_state_def)
  moreover have "state_times_ok ?t" using p assms(4,5) by (simp add: state_times_ok_def routed_state_def)
  moreover have "state_identity_ok ?t" using p by (simp add: state_identity_ok_def routed_state_def)
  moreover have "completed_nodes_ok (os_completed_nodes ?t)"
    using p n b by (simp add: completed_nodes_ok_def routed_state_def)
  moreover have "usage_ok ?t" using p b by (simp add: usage_ok_def routed_state_def)
  moreover have "evidence_nodes ?t = evidence_nodes s" by (simp add: evidence_nodes_def routed_state_def)
  then have "node_evidence_ok ?t" using p b by (simp add: node_evidence_ok_def routed_state_def)
  moreover have "evidence_links_ok ?t" using p by (simp add: evidence_links_ok_def routed_state_def)
  moreover have "proposal_links_ok (gd_digest env) ?t"
    using p by (simp add: proposal_links_ok_def routed_state_def cong: option.case_cong)
  moreover have "evaluation_links_ok ?t" using p by (simp add: evaluation_links_ok_def routed_state_def)
  moreover have "override_links_ok ?t" using p by (simp add: override_links_ok_def routed_state_def)
  moreover have "route_state ?t = route_state s"
    by (simp add: route_state_def state_evidence_def routed_state_def)
  then have "route_state ?t = Some r" by (simp add: assms(2))
  then have "terminal_ok ?t" unfolding terminal_ok_def by (simp add: routed_state_def)
  ultimately show ?thesis by (simp add: valid_orchestration_state_def)
qed

lemma routed_state_finished:
  assumes "routable env s" "route_state s = Some r" "valid_terminal_route r"
    "dt_offset t = Some 0" "dt_instant (os_started_at s) \<le> dt_instant t"
  shows "finished env (routed_state s r t)"
proof -
  have "certified env s" using assms(1) by (simp add: routable_def)
  then have "certified env (routed_state s r t)" by (rule routed_state_certified)
  moreover have "os_terminal_route (routed_state s r t) = Some r" by (simp add: routed_state_def)
  ultimately show ?thesis using routed_state_valid [OF assms] by (simp add: finished_def)
qed

lemma route_finish:
  assumes "routable env s"
  shows "finish (gd_digest env) s ROUTE_RESULT (\<lambda>x. x\<lparr>os_terminal_route := Some r, os_completed_at := Some t\<rparr>) =
    strict_state (gd_digest env) (routed_state s r t)"
  using assms by (simp add: finish_def routable_def routed_state_def)

lemma route_returns:
  assumes "routable env s"
  shows "returns (route_node env s) (finished env)"
  unfolding route_node_def on_state_def done_node_def
  by (rule returns_rules)+
     (use assms routed_state_certified in \<open>auto simp: strict_Inr route_finish finished_def routable_def routed_state_def\<close>)

lemma route_settles:
  assumes "routable env s" "reliable_clock env (dt_instant (os_started_at s))"
  shows "settles (route_node env s) (finished env)"
proof -
  obtain r where r: "route_state s = Some r" "valid_terminal_route r" using routed [OF assms(1)] .
  have v: "valid_orchestration_state (gd_digest env) s" using assms(1) by (simp add: routable_def)
  have last: "settles (done_node env s ROUTE_RESULT (\<lambda>x. x\<lparr>os_terminal_route := Some r, os_completed_at := Some t\<rparr>)) (finished env)"
    if "dt_offset t = Some 0 \<and> dt_instant (os_started_at s) \<le> dt_instant t" for t
    unfolding done_node_def route_finish [OF assms(1)]
    by (rule settles_lift [of _ "routed_state s r t"])
       (use that routed_state_valid [OF assms(1) r] routed_state_finished [OF assms(1) r] in
         \<open>simp_all add: strict_state_def\<close>)
  show ?thesis unfolding route_node_def
    by (rule settles_on_state [OF v])
       (simp add: need_def r(1), rule settles_then [of _ "\<lambda>x. x = r"],
        simp add: settles_def triple_def lift_result_def, simp, rule settles_then [OF utc_clock_settles [OF assms(2)]], rule last)
qed

section \<open>From a node to the end\<close>

lemma run_from_eq:
  "run_from env n s = andthen (run_node env n s) (\<lambda>t.
     andthen (lift_result (next_node env n t)) (\<lambda>m. case m of None \<Rightarrow> ret t | Some m' \<Rightarrow> run_from env m' t))"
  by (rule ext, subst run_from.simps)
     (simp add: andthen_def lift_result_def ret_def split: prod.splits sum.splits option.splits)

lemma run_from_route:
  "run_from env ROUTE_RESULT s = andthen (route_node env s) ret"
  by (subst run_from_eq) (simp add: next_node_def lift_result_def ret_def andthen_def fun_eq_iff split: prod.splits sum.splits)

lemma returns_exception: "returns m Q \<Longrightarrow> (\<And>e. returns (h e) Q) \<Longrightarrow> returns (on_exception m h) Q"
  unfolding returns_def on_exception_def
  by (rule triple_catch [where R = "\<lambda>_ _. True"]) (auto intro: triple_raise)

lemma settles_returns: "settles m Q \<Longrightarrow> returns m Q"
  unfolding settles_def returns_def by (erule triple_weaken) auto

lemma returns_on_state:
  assumes "returns (m s) Q" shows "returns (on_state env m s) Q"
  unfolding on_state_def by (rule returns_lift) (use assms in \<open>simp add: strict_Inr\<close>)


lemma attempt_failure_returns:
  assumes "ready env PLAN_REPAIR s"
  shows "returns (attempt_failure env s out) (ran env PLAN_REPAIR s)"
proof -
  have own: "only_own PLAN_REPAIR s (set_usage u (s\<lparr>os_attempt_number := 1, os_legacy_state := l, os_failure_override := Some x\<rparr>))"
    for u l x by (cases u) (simp_all add: set_usage_def only_own_def)
  show ?thesis unfolding attempt_failure_def Let_def case_prod_unfold
    by (intro returns_then, rule returns_end, rule done_ran [OF assms], simp, assumption) (simp_all add: own)
qed

lemma failure_with_usage_returns:
  assumes "ready env GENERATE_PATCH s"
  shows "returns (failure_with_usage env s GENERATE_PATCH out) (ran env GENERATE_PATCH s)"
proof -
  have own: "only_own GENERATE_PATCH s (set_usage u (s\<lparr>os_failure_override := Some x\<rparr>))"
    for u x by (cases u) (simp_all add: set_usage_def only_own_def)
  show ?thesis unfolding failure_with_usage_def case_prod_unfold
    by (intro returns_then, rule returns_end, rule done_ran [OF assms], simp, assumption) (simp_all add: own)
qed

lemma plan_returns:
  assumes "ready env PLAN_REPAIR s"
  shows "returns (plan_node env s) (ran env PLAN_REPAIR s)"
  unfolding plan_node_def
  by (rule returns_on_state, rule returns_exception [OF _ attempt_failure_returns [OF assms]], (rule node_rules)+, rule assms)
     (simp_all add: own_simps, simp_all add: only_own_def)

lemma generate_returns:
  assumes "ready env GENERATE_PATCH s"
  shows "returns (generate_node env s) (ran env GENERATE_PATCH s)"
  unfolding generate_node_def
  by (rule returns_on_state, rule returns_exception [OF _ failure_with_usage_returns [OF assms]], (rule node_rules)+, rule assms)
     (simp_all add: own_simps, simp_all add: only_own_def)

lemma node_returns:
  assumes "ready env n s" "n \<noteq> ROUTE_RESULT"
  shows "returns (run_node env n s) (ran env n s)"
  using assms
  by (cases n) (simp_all add: plan_returns generate_returns settles_returns prepare_settles baseline_settles
      classify_settles context_settles policy_settles static_settles verify_settles evaluate_settles)

lemma at_node_ready: "at_node env n s \<Longrightarrow> n \<noteq> ROUTE_RESULT \<Longrightarrow> ready env n s"
  by (simp add: at_node_def)

text \<open>Whatever the dependencies do, a run that returns has finished.\<close>

lemma run_returns: "at_node env n s \<Longrightarrow> returns (run_from env n s) (finished env)"
proof (induction "node_rank n" arbitrary: n s rule: less_induct)
  case less
  show ?case
  proof (cases "n = ROUTE_RESULT")
    case True
    with less(2) show ?thesis
      by (auto simp: run_from_route at_node_def intro: returns_with [OF route_returns] returns_ret)
  next
    case False
    have r: "ready env n s" by (rule at_node_ready [OF less(2) False])
    show ?thesis unfolding run_from_eq [of env n s]
    proof (rule returns_with [OF node_returns [OF r False]], rule returns_lift)
      fix t m assume "ran env n s t" "next_node env n t = Inr m"
      then obtain m' where m: "m = Some m'" "next_node env n t = Inr (Some m')" "at_node env m' t"
        using ran_next [OF r False] by (metis sum.inject(2))
      have "returns (run_from env m' t) (finished env)"
        by (rule less(1) [OF next_node_descends [OF m(2)] m(3)])
      then show "returns (case m of None \<Rightarrow> ret t | Some m' \<Rightarrow> run_from env m' t) (finished env)" by (simp add: m(1))
    qed
  qed
qed

text \<open>With dependencies whose answers can be recorded, it always returns, unless interrupted.\<close>

lemma run_settles:
  assumes "complete_usage env" "configured env" "reliable_clock env start"
  shows "at_node env n s \<Longrightarrow> dt_instant (os_started_at s) = start \<Longrightarrow> settles (run_from env n s) (finished env)"
proof (induction "node_rank n" arbitrary: n s rule: less_induct)
  case less
  show ?case
  proof (cases "n = ROUTE_RESULT")
    case True
    have "settles (route_node env s) (finished env)"
      by (rule route_settles) (use less(2,3) assms(3) True in \<open>simp_all add: at_node_def\<close>)
    then show ?thesis unfolding True run_from_route by (rule settles_then) (rule settles_ret)
  next
    case False
    have r: "ready env n s" by (rule at_node_ready [OF less(2) False])
    show ?thesis unfolding run_from_eq [of env n s]
    proof (rule settles_then [OF node_settles [OF r False assms(1,2)]])
      fix t assume t: "ran env n s t"
      obtain m where m: "next_node env n t = Inr (Some m)" "at_node env m t" using ran_next [OF r False t] .
      have "dt_instant (os_started_at t) = start" using t less(3) by (simp add: ran_def only_own_def)
      then have "settles (run_from env m t) (finished env)"
        by (rule less(1) [OF next_node_descends [OF m(1)] m(2)])
      then show "settles (andthen (lift_result (next_node env n t)) (\<lambda>m. case m of None \<Rightarrow> ret t | Some m' \<Rightarrow> run_from env m' t))
          (finished env)"
        by (simp add: m(1) andthen_def lift_result_def)
    qed
  qed
qed


section \<open>The start of a run\<close>

lemma new_state_ready:
  assumes "new_orchestration_state (gd_digest env) run_id c workspaces started_at configuration = Inr s"
  shows "ready env PREPARE_REPOSITORY s" "routable env s" "dt_instant (os_started_at s) = dt_instant started_at"
proof -
  have v: "valid_orchestration_state (gd_digest env) s" and
    none: "os_policy_result s = None" "os_static_result s = None" "os_verification_result s = None"
      "os_evaluation_result s = None" "os_failure_override s = None" "os_terminal_route s = None"
      "os_completed_nodes s = []" "os_baseline s = None"
    and t: "dt_instant (os_started_at s) = dt_instant started_at"
    using assms by (auto simp: new_orchestration_state_def bindE_eq_Inr strict_Inr to_utc_def utc_now_def
        split: if_splits option.splits)
  have certified: "certified env s" using none by (simp add: certified_defs)
  have "override_ok (state_evidence s)"
    using none by (simp add: override_ok_def later_evidence_def candidate_evidence_def verification_evidence_def)
  then have "valid_routing_evidence (state_evidence s)" using none by (simp add: valid_routing_evidence_def)
  with v none certified show "routable env s" by (simp add: routable_def)
  show "ready env PREPARE_REPOSITORY s"
    using v none certified by (simp add: ready_def executed_before_def node_names_def)
  show "dt_instant (os_started_at s) = dt_instant started_at" by (rule t)
qed

lemma invoke_start:
  assumes "new_orchestration_state (gd_digest env) run_id c workspaces started_at configuration = Inr s"
  shows "invoke_repair_graph env s =
    andthen (run_from env PREPARE_REPOSITORY s) (\<lambda>r. lift_result (strict_state (gd_digest env) r))"
  using ready_valid [OF new_state_ready(1) [OF assms]]
  by (simp add: invoke_repair_graph_def strict_state_def andthen_def lift_result_def)

lemma invoke_returns:
  assumes "new_orchestration_state (gd_digest env) run_id c workspaces started_at configuration = Inr s"
  shows "returns (invoke_repair_graph env s) (finished env)"
  unfolding invoke_start [OF assms]
  by (rule returns_with [OF run_returns]) (use new_state_ready(1) [OF assms] in
    \<open>auto simp: at_node_def strict_Inr intro!: returns_end\<close>)

lemma invoke_settles:
  assumes "new_orchestration_state (gd_digest env) run_id c workspaces started_at configuration = Inr s"
    "complete_usage env" "configured env" "reliable_clock env (dt_instant started_at)"
  shows "settles (invoke_repair_graph env s) (finished env)"
  unfolding invoke_start [OF assms(1)]
proof (rule settles_then [OF run_settles [OF assms(2-4)]])
  show "at_node env PREPARE_REPOSITORY s" "dt_instant (os_started_at s) = dt_instant started_at"
    using new_state_ready [OF assms(1)] by (simp_all add: at_node_def)
  show "settles (lift_result (strict_state (gd_digest env) t)) (finished env)" if "finished env t" for t
    using that by (auto simp: finished_def strict_state_def intro: settles_lift)
qed

section \<open>What a success stands for\<close>

text \<open>The evidence of a success, with where it came from\<close>

definition earned :: "'w graph_env \<Rightarrow> orchestration_state \<Rightarrow> bool" where
  "earned env t \<longleftrightarrow> os_failure_override t = None \<and>
     (\<exists>prep b c p parsed a st v e w1 w1' w2 w2'.
        os_preparation t = Some prep \<and> os_baseline t = Some b \<and> br_outcome b = REPRODUCED_FAILURE \<and>
        os_proposal t = Some p \<and> os_context t = Some c \<and>
        approvable (gd_front_end env) p (run_policy t c) parsed \<and> os_policy_result t = Some a \<and> pr_approved a \<and>
        os_static_result t = Some st \<and> st_outcome st = STATIC_PASSED \<and>
        gd_static env \<lparr>sq_preparation = prep, sq_proposal = p, sq_policy_result = a,
          sq_candidate_workspace_root = rw_candidate (os_workspaces t)\<rparr> w1 = (Inr st, w1') \<and>
        os_verification_result t = Some v \<and> vr_outcome v = VERIFICATION_PASSED \<and>
        gd_verification env \<lparr>vq_case_id = os_case_id t, vq_static_result = st,
          vq_workspace_root = rw_verification (os_workspaces t)\<rparr> w2 = (Inr v, w2') \<and>
        os_evaluation_result t = Some e \<and> ce_functional_status e = FS_PASSED \<and>
        evaluate_candidate \<lparr>eq_case_id = os_case_id t, eq_proposal = p, eq_verification = v,
          eq_model_usage = os_model_usage t\<rparr> = Inr e)"

lemma finished_route:
  assumes "finished env t"
  obtains r where "os_terminal_route t = Some r" "valid_routing_evidence (state_evidence t)"
    "te_outcome r = route_outcome (state_evidence t)" "te_exit_code r = exit_code_of (te_outcome r)"
proof -
  obtain r where r: "os_terminal_route t = Some r" using assms by (auto simp: finished_def)
  with assms have "route_state t = Some r" by (simp add: finished_def valid_orchestration_state_def terminal_ok_def)
  with r that route_for_outcome_Some [of "route_outcome (state_evidence t)"] show ?thesis
    by (auto simp: route_state_def route_terminal_def split: if_splits)
qed

lemma finished_success:
  assumes f: "finished env t" and v: "valid_routing_evidence (state_evidence t)"
  shows "route_outcome (state_evidence t) = SUCCESS \<longleftrightarrow> earned env t"
proof
  assume "earned env t"
  then show "route_outcome (state_evidence t) = SUCCESS"
    unfolding route_success route_static_success earned_def state_evidence_simps using v by blast
next
  assume "route_outcome (state_evidence t) = SUCCESS"
  then obtain b a st v e where o: "os_failure_override t = None" and
    e: "os_baseline t = Some b" "br_outcome b = REPRODUCED_FAILURE" "os_policy_result t = Some a" "pr_approved a"
      "os_static_result t = Some st" "st_outcome st = STATIC_PASSED" "os_verification_result t = Some v"
      "vr_outcome v = VERIFICATION_PASSED" "os_evaluation_result t = Some e" "ce_functional_status e = FS_PASSED"
    unfolding route_success route_static_success state_evidence_simps by blast
  have c: "certified_policy env t" "certified_static env t" "certified_verification env t" "certified_evaluation t"
    using f by (simp_all add: finished_def certified_def)
  obtain p c' where p: "os_proposal t = Some p" "os_context t = Some c'"
    "validate_patch_policy (gd_front_end env) p (run_policy t c') = Inr a"
    using c(1) e(3) unfolding certified_policy_def by blast
  then obtain parsed where "approvable (gd_front_end env) p (run_policy t c') parsed"
    using approved_iff e(4) by blast
  moreover obtain prep w1 w1' where "os_preparation t = Some prep" "gd_static env \<lparr>sq_preparation = prep,
      sq_proposal = p, sq_policy_result = a, sq_candidate_workspace_root = rw_candidate (os_workspaces t)\<rparr> w1 = (Inr st, w1')"
    using c(2) e(3,5) p(1) unfolding certified_static_def by force
  moreover obtain w2 w2' where "gd_verification env \<lparr>vq_case_id = os_case_id t, vq_static_result = st,
      vq_workspace_root = rw_verification (os_workspaces t)\<rparr> w2 = (Inr v, w2')"
    using c(3) e(5,7) unfolding certified_verification_def by force
  moreover have "evaluate_candidate \<lparr>eq_case_id = os_case_id t, eq_proposal = p, eq_verification = v,
      eq_model_usage = os_model_usage t\<rparr> = Inr e"
    using c(4) e(7,9) p(1) unfolding certified_evaluation_def by force
  ultimately show "earned env t" unfolding earned_def using o e p(1,2) by blast
qed


section \<open>The states a run passes through\<close>

inductive run_reaches :: "'w graph_env \<Rightarrow> node_name \<Rightarrow> orchestration_state \<Rightarrow> bool" for env where
  reaches_start: "new_orchestration_state (gd_digest env) run_id c workspaces started_at configuration = Inr s \<Longrightarrow>
    run_reaches env PREPARE_REPOSITORY s"
| reaches_node: "run_reaches env n s \<Longrightarrow> run_node env n s w = (Inr t, w') \<Longrightarrow>
    next_node env n t = Inr (Some m) \<Longrightarrow> run_reaches env m t"

lemma returns_cases: "returns m Q \<Longrightarrow> m w = (Inr x, w') \<Longrightarrow> Q x"
  unfolding returns_def by (auto dest: triple_useR)

lemma reaches_at_node: "run_reaches env n s \<Longrightarrow> at_node env n s \<and> routable env s"
proof (induction rule: run_reaches.induct)
  case (reaches_start run_id c workspaces started_at configuration s)
  then show ?case using new_state_ready by (fastforce simp: at_node_def)
next
  case (reaches_node n s w t w' m)
  have n: "n \<noteq> ROUTE_RESULT" using reaches_node.hyps(3) by (auto simp: next_node_def)
  have r: "ready env n s" by (rule at_node_ready [OF _ n]) (use reaches_node.IH in blast)
  have t: "ran env n s t" by (rule returns_cases [OF node_returns [OF r n] reaches_node.hyps(2)])
  obtain m' where "next_node env n t = Inr (Some m')" "at_node env m' t" using ran_next [OF r n t] .
  with reaches_node.hyps(3) ran_routable [OF r n t] show ?case by simp
qed

text \<open>An infrastructure failure is consistent with any evidence.\<close>

lemma infrastructure_override:
  assumes "valid_routing_evidence (state_evidence s)"
  shows "route_state (s\<lparr>os_failure_override := Some INFRASTRUCTURE_FAILURE\<rparr>) = route_for_outcome INFRASTRUCTURE_FAILURE"
proof -
  have "valid_routing_evidence ((state_evidence s)\<lparr>rv_failure_override := Some INFRASTRUCTURE_FAILURE\<rparr>)"
    using assms by (simp add: valid_routing_evidence_def override_ok_def later_evidence_def candidate_evidence_def
        verification_evidence_def cong: option.case_cong)
  moreover have e: "state_evidence (s\<lparr>os_failure_override := Some INFRASTRUCTURE_FAILURE\<rparr>) =
      (state_evidence s)\<lparr>rv_failure_override := Some INFRASTRUCTURE_FAILURE\<rparr>"
    by (simp add: state_evidence_def)
  ultimately show ?thesis unfolding route_state_def e
    by (simp add: route_terminal_def route_outcome_def strict_evidence_def)
qed

lemma infrastructure_routable:
  assumes "routable env s"
  shows "routable env (s\<lparr>os_failure_override := Some INFRASTRUCTURE_FAILURE\<rparr>)" (is "routable env ?s")
proof -
  have v: "valid_orchestration_state (gd_digest env) s" and e: "valid_routing_evidence (state_evidence s)"
    and n: "os_terminal_route s = None" using assms by (simp_all add: routable_def)
  note p = v [unfolded valid_orchestration_state_def]
  have fields: "state_fields_ok ?s" using p by (simp add: state_fields_ok_def)
  have ev: "evidence_fields_ok ?s" using p by (simp add: evidence_fields_ok_def)
  have times: "state_times_ok ?s" using p by (simp add: state_times_ok_def)
  have ident: "state_identity_ok ?s" using p by (simp add: state_identity_ok_def)
  have usage: "usage_ok ?s" using p by (simp add: usage_ok_def)
  have "evidence_nodes ?s = evidence_nodes s" by (simp add: evidence_nodes_def)
  then have node_ev: "node_evidence_ok ?s" using p by (auto simp: node_evidence_ok_iff)
  have links: "evidence_links_ok ?s" using p by (simp add: evidence_links_ok_def)
  have proposal: "proposal_links_ok (gd_digest env) ?s"
    using p by (simp add: proposal_links_ok_def cong: option.case_cong)
  have eval: "evaluation_links_ok ?s" using p by (simp add: evaluation_links_ok_def)
  have over: "override_links_ok ?s" by (simp add: override_links_ok_def)
  have route: "terminal_ok ?s" using p n by (simp add: terminal_ok_def)
  have valid: "valid_orchestration_state (gd_digest env) ?s" unfolding valid_orchestration_state_def
    using p fields ev times ident usage node_ev links proposal eval over route by simp
  obtain r where "route_for_outcome INFRASTRUCTURE_FAILURE = Some r" using route_for_outcome_Some by blast
  then have "route_state ?s = Some r" using infrastructure_override [OF e] by simp
  then have "valid_routing_evidence (state_evidence ?s)" by (simp add: route_state_def split: if_splits)
  moreover have "certified env ?s" using assms by (simp add: routable_def certified_defs run_policy_def)
  ultimately show ?thesis using valid assms by (simp add: routable_def)
qed

lemma terminalized:
  assumes r: "routable env s" and z: "dt_offset at' \<noteq> None" and later: "dt_instant (os_started_at s) \<le> dt_instant at'"
  obtains t where "terminalize_infrastructure_failure (gd_digest env) s at' = Inr t" "finished env t"
    "os_failure_override t = Some INFRASTRUCTURE_FAILURE"
    "os_terminal_route t = route_for_outcome INFRASTRUCTURE_FAILURE"
proof -
  let ?s = "s\<lparr>os_failure_override := Some INFRASTRUCTURE_FAILURE\<rparr>" and ?u = "utc_now (dt_instant at')"
  obtain route where route: "route_for_outcome INFRASTRUCTURE_FAILURE = Some route" "valid_terminal_route route"
    using route_for_outcome_Some by blast
  have "route_state ?s = Some route" using infrastructure_override r route(1) by (simp add: routable_def)
  then have f: "finished env (routed_state ?s route ?u)"
    by (rule routed_state_finished [OF infrastructure_routable [OF r] _ route(2)]) (use later in \<open>simp_all add: utc_now_def\<close>)
  have "to_utc at' = Inr ?u" using z by (auto simp: to_utc_def)
  moreover have "(with_infrastructure_failure ?u route s)\<lparr>os_completed_nodes := os_completed_nodes s @ [ROUTE_RESULT]\<rparr> =
      routed_state ?s route ?u" by (simp add: with_infrastructure_failure_def routed_state_def)
  ultimately have "terminalize_infrastructure_failure (gd_digest env) s at' = Inr (routed_state ?s route ?u)"
    using r f by (simp add: terminalize_infrastructure_failure_def routable_def strict_state_def bindE_def
        infrastructure_route_def route(1) finished_def)
  with f that route(1) show ?thesis by (simp add: routed_state_def)
qed

section \<open>Properties\<close>

text \<open>C1: A run that returns has a route, and its exit code is 0 exactly for the runs that earned it: the
  baseline failure was reproduced, the patch policy allows this proposal in this context, the static
  service passed this proposal with this approval, the verification service passed that very static
  result, and the evaluation of both passed.  This holds whatever the dependencies answer or raise.\<close>

theorem success_is_earned:
  assumes "new_orchestration_state (gd_digest env) run_id c workspaces started_at configuration = Inr s"
    "invoke_repair_graph env s w = (Inr t, w')"
  shows "\<exists>r. os_terminal_route t = Some r \<and> (te_exit_code r = 0 \<longleftrightarrow> earned env t)"
proof -
  have f: "finished env t" by (rule returns_cases [OF invoke_returns [OF assms(1)] assms(2)])
  obtain r where r: "os_terminal_route t = Some r" "valid_routing_evidence (state_evidence t)"
    "te_outcome r = route_outcome (state_evidence t)" "te_exit_code r = exit_code_of (te_outcome r)"
    using finished_route [OF f] .
  have "te_exit_code r = 0 \<longleftrightarrow> te_outcome r = SUCCESS"
    using exit_code_inj [of "te_outcome r" SUCCESS] r(4) by simp
  with r finished_success [OF f r(2)] show ?thesis by simp
qed

text \<open>C2: A run ends: with a usage reader whose answers are complete, a valid model configuration and a
  clock that does not go back before the start, every run is interrupted or returns a valid state, at
  its route, after a prefix of the nodes in their order, whatever the dependencies raise.\<close>

theorem every_run_ends:
  assumes "new_orchestration_state (gd_digest env) run_id c workspaces started_at configuration = Inr s"
    "complete_usage env" "configured env" "reliable_clock env (dt_instant started_at)"
  shows "\<exists>w'. invoke_repair_graph env s w = (Inl Interrupted, w') \<or>
    (\<exists>t k. invoke_repair_graph env s w = (Inr t, w') \<and> valid_orchestration_state (gd_digest env) t \<and>
       os_terminal_route t = route_state t \<and> os_terminal_route t \<noteq> None \<and>
       os_completed_nodes t = take k node_names @ [ROUTE_RESULT])"
proof -
  obtain r w' where i: "invoke_repair_graph env s w = (r, w')" by fastforce
  from settles_cases [OF invoke_settles [OF assms] i] show ?thesis
  proof
    assume "\<exists>x. r = Inr x \<and> finished env x"
    then obtain t where t: "r = Inr t" "finished env t" by blast
    then have v: "valid_orchestration_state (gd_digest env) t" and "os_terminal_route t \<noteq> None"
      by (simp_all add: finished_def)
    then have route: "os_terminal_route t = route_state t" "os_completed_nodes t \<noteq> []"
        "last (os_completed_nodes t) = ROUTE_RESULT"
      by (auto simp: valid_orchestration_state_def terminal_ok_def)
    have b: "before_route (os_completed_nodes t) = butlast (os_completed_nodes t)"
      using route by (simp add: before_route_def)
    have "completed_nodes_ok (os_completed_nodes t)" using v by (simp add: valid_orchestration_state_def)
    then have "butlast (os_completed_nodes t) = take (length (butlast (os_completed_nodes t))) node_names"
      unfolding completed_nodes_ok_def b by blast
    then have "os_completed_nodes t = take (length (butlast (os_completed_nodes t))) node_names @ [ROUTE_RESULT]"
      using route(2,3) append_butlast_last_id by metis
    with i t v route(1) \<open>os_terminal_route t \<noteq> None\<close> show ?thesis by blast
  qed (use i in blast)
qed

text \<open>C30: Wherever a run stands between two nodes, \<open>terminalize_infrastructure_failure\<close> with a zoned
  instant not before the start records the failure: it returns a valid terminal state with exit
  code 6.\<close>

theorem interrupted_run_is_recorded:
  assumes "run_reaches env n s" "dt_offset stopped \<noteq> None" "dt_instant (os_started_at s) \<le> dt_instant stopped"
  shows "\<exists>t r. terminalize_infrastructure_failure (gd_digest env) s stopped = Inr t \<and>
    valid_orchestration_state (gd_digest env) t \<and> os_terminal_route t = Some r \<and> te_exit_code r = 6"
proof -
  have "routable env s" using reaches_at_node [OF assms(1)] by blast
  then obtain t where t: "terminalize_infrastructure_failure (gd_digest env) s stopped = Inr t" "finished env t"
    "os_terminal_route t = route_for_outcome INFRASTRUCTURE_FAILURE"
    using terminalized [OF _ assms(2,3)] by metis
  then show ?thesis using route_for_outcome_Some [of INFRASTRUCTURE_FAILURE] by (auto simp: finished_def)
qed


section \<open>A run whose preparation fails\<close>

definition run_token :: string where
  "run_token = replicate 32 (CHR ''a'')"

definition run_case :: trusted_case where
  "run_case = \<lparr>tc_manifest = sample_manifest, tc_case_path = ''/cases/case-1'',
     tc_repository_path = ''/cases/case-1/repository'',
     tc_visible_tests = [''/cases/case-1/repository/tests/test_app.py''],
     tc_hidden_tests = [''/cases/case-1/evaluator/hidden_tests/test_app.py''],
     tc_reference_patch = ''/cases/case-1/evaluator/reference.patch''\<rparr>"

definition run_spaces :: run_workspaces where
  "run_spaces = \<lparr>rw_root = ''/w'', rw_preparation = ''/w/p'', rw_candidate = ''/w/c'', rw_verification = ''/w/v'',
     rw_ownership_token = run_token\<rparr>"

definition run_digest :: digest_functions where
  "run_digest = \<lparr>dg_sha256 = (\<lambda>_. sample_digest), dg_float_repr = (\<lambda>_. ''1.0'')\<rparr>"

definition run_env :: "nat graph_env" where
  "run_env = \<lparr>
     gd_prepare = (\<lambda>_ _ _ _. raise Ordinary), gd_validate_preparation = (\<lambda>_ _ _. ret ()),
     gd_validate_candidate = (\<lambda>_ _. ret ()), gd_baseline = (\<lambda>_. raise Ordinary),
     gd_classifier = (\<lambda>_. raise Ordinary), gd_context = (\<lambda>_ _. raise Ordinary),
     gd_planner = (\<lambda>_ _ _. raise Ordinary), gd_patch_generator = (\<lambda>_ _ _ _. raise Ordinary),
     gd_policy_validator = (\<lambda>_ _. raise Ordinary), gd_static = (\<lambda>_. raise Ordinary),
     gd_verification = (\<lambda>_. raise Ordinary), gd_evaluator = (\<lambda>_. raise Ordinary),
     gd_clock = ret (utc_now 5), gd_now = ret 5, gd_model_configuration = None,
     gd_model_provider = None, gd_usage_reader = None, gd_set_order = id,
     gd_front_end = \<lparr>fe_tokens = (\<lambda>_. ([], TokensDone)), fe_parse = (\<lambda>_. ParseRejected)\<rparr>, gd_digest = run_digest\<rparr>"

lemma run_env_digest [simp]: "gd_digest run_env = run_digest"
  by (simp add: run_env_def)

lemma run_env_good: "complete_usage run_env" "configured run_env" "reliable_clock run_env 0"
  by (simp_all add: run_env_def complete_usage_def configured_def reliable_clock_def ret_def utc_now_def)

abbreviation run_start :: "model_raise + orchestration_state" where
  "run_start \<equiv> new_orchestration_state run_digest run_token run_case run_spaces (utc_now 0) None"

lemma run_start_valid: "\<not> Option.is_none (case run_start of Inl _ \<Rightarrow> None | Inr s \<Rightarrow> Some s)"
  by code_simp

lemma run_started:
  obtains s where "run_start = Inr s" "dt_instant (os_started_at s) = 0"
  using run_start_valid new_state_ready(3) [where env = run_env]
  by (cases run_start) (fastforce simp: utc_now_def)+

theorem every_run_ends_witness:
  "\<exists>s t. run_start = Inr s \<and> fst (invoke_repair_graph run_env s 0) = Inr t \<and> os_terminal_route t \<noteq> None"
proof -
  obtain s where s: "run_start = Inr s" "dt_instant (os_started_at s) = 0" using run_started .
  have "\<exists>w'. invoke_repair_graph run_env s 0 = (Inl Interrupted, w') \<or>
    (\<exists>t k. invoke_repair_graph run_env s 0 = (Inr t, w') \<and> valid_orchestration_state (gd_digest run_env) t \<and>
       os_terminal_route t = route_state t \<and> os_terminal_route t \<noteq> None \<and>
       os_completed_nodes t = take k node_names @ [ROUTE_RESULT])"
    by (rule every_run_ends [where started_at = "utc_now 0"])
       (use s run_env_good in \<open>simp_all add: utc_now_def\<close>)
  moreover have "case run_start of Inl _ \<Rightarrow> False | Inr s \<Rightarrow> case fst (invoke_repair_graph run_env s 0) of
      Inl _ \<Rightarrow> False | Inr _ \<Rightarrow> True" by code_simp
  ultimately show ?thesis using s by fastforce
qed

theorem success_is_earned_witness:
  "\<exists>s t. run_start = Inr s \<and> fst (invoke_repair_graph run_env s 0) = Inr t \<and> \<not> earned run_env t"
proof -
  obtain s where s: "run_start = Inr s" using run_started .
  have "case run_start of Inl _ \<Rightarrow> False | Inr s \<Rightarrow> case fst (invoke_repair_graph run_env s 0) of
      Inl _ \<Rightarrow> False | Inr t \<Rightarrow> map_option te_exit_code (os_terminal_route t) = Some 6" by code_simp
  then obtain t w' where t: "invoke_repair_graph run_env s 0 = (Inr t, w')"
    "map_option te_exit_code (os_terminal_route t) = Some 6"
    using s by (cases "invoke_repair_graph run_env s 0") (auto split: sum.splits)
  from success_is_earned [of run_env, OF _ t(1)] s t(2) have "\<not> earned run_env t" by fastforce
  with s t(1) show ?thesis by fastforce
qed

theorem interrupted_run_is_recorded_witness:
  "\<exists>s t. run_start = Inr s \<and> terminalize_infrastructure_failure run_digest s (utc_now 3) = Inr t \<and>
     os_terminal_route t \<noteq> None"
proof -
  obtain s where s: "run_start = Inr s" "dt_instant (os_started_at s) = 0" using run_started .
  then have "run_reaches run_env PREPARE_REPOSITORY s" by (intro reaches_start) simp
  from interrupted_run_is_recorded [OF this, of "utc_now 3"] s show ?thesis by (auto simp: utc_now_def)
qed

end
