(* ===== verification/File_Stat.thy ===== *)
theory File_Stat
  imports Main
begin

text \<open>The metadata that \<open>lstat\<close> returns, as far as the sources read it.\<close>

record file_stat =
  fs_mode :: nat
  fs_dev :: nat
  fs_ino :: nat
  fs_size :: nat
  fs_mtime_ns :: int
  fs_nlink :: nat
  fs_reparse_tag :: nat
  fs_attributes :: nat

text \<open>\<open>stat.S_ISDIR\<close>, \<open>S_ISREG\<close>, \<open>S_ISLNK\<close> of the mode; the reparse attribute is the bit \<open>0x400\<close>.\<close>

definition file_type :: "file_stat \<Rightarrow> nat" where
  "file_type s = fs_mode s div 4096 mod 16"

definition stat_is_dir :: "file_stat \<Rightarrow> bool" where "stat_is_dir s \<longleftrightarrow> file_type s = 4"
definition stat_is_regular :: "file_stat \<Rightarrow> bool" where "stat_is_regular s \<longleftrightarrow> file_type s = 8"
definition stat_is_link :: "file_stat \<Rightarrow> bool" where "stat_is_link s \<longleftrightarrow> file_type s = 10"
definition stat_is_reparse :: "file_stat \<Rightarrow> bool" where "stat_is_reparse s \<longleftrightarrow> odd (fs_attributes s div 1024)"

text \<open>\<open>stat.S_IMODE\<close>\<close>

definition permission_bits :: "file_stat \<Rightarrow> nat" where
  "permission_bits s = fs_mode s mod 4096"

end
