(* ===== verification/Context_Read.thy ===== *)
theory Context_Read
  imports Patches Classification Bytes Effects Case_Loader File_Stat
begin

text \<open>
  \<open>app/agent/context.py\<close>, first part: which paths and which contents may enter a context, and the
  guarded reading of one repository file.  The file system is the parameter \<open>context_env\<close>, functions on
  a world \<open>'w\<close> that may raise.  The label of untrusted instructions is a field of it, because the
  dash in its text is beyond the characters of the model.
\<close>

section \<open>Errors\<close>

datatype context_code =
    INVALID_LIMIT | CTX_BASELINE_NOT_REPRODUCED | CTX_MALFORMED_BASELINE | ANALYSIS_MISMATCH | CASE_LOAD_FAILED
  | PREPARATION_MISMATCH | UNSAFE_REPOSITORY | FINGERPRINT_MISMATCH | VISIBLE_TEST_AMBIGUOUS
  | UNSAFE_EVIDENCE | MANDATORY_CONTEXT_OVERFLOW | STATE_TRANSITION_INVALID

text \<open>\<open>ContextSelectionError\<close>, the exception classes that the handlers name, and the others\<close>

datatype context_raise =
    Selection context_code "string option"
  | CtxOsError | CtxRuntimeError | CtxValueError | CtxPreparationError | CtxLoadError | CtxKeyError
  | CtxTypeError | CtxAttributeError | CtxOtherRaise

abbreviation selection :: "context_code \<Rightarrow> context_raise" where
  "selection c \<equiv> Selection c None"

section \<open>Metadata\<close>

definition same_file_identity :: "file_stat \<Rightarrow> file_stat \<Rightarrow> bool" where
  "same_file_identity l r \<longleftrightarrow>
     fs_mode l = fs_mode r \<and> fs_dev l = fs_dev r \<and> fs_ino l = fs_ino r \<and> fs_size l = fs_size r \<and>
     fs_mtime_ns l = fs_mtime_ns r \<and> fs_nlink l = fs_nlink r \<and> fs_reparse_tag l = fs_reparse_tag r"

record 'w context_env =
  ce_lstat :: "string \<Rightarrow> ('w, context_raise, file_stat) act"
  ce_read_bytes :: "string \<Rightarrow> string \<Rightarrow> file_stat \<Rightarrow> file_stat list \<Rightarrow> file_stat \<Rightarrow> ('w, context_raise, bytes) act"
  ce_iter_files :: "string \<Rightarrow> ('w, context_raise, string list) act"
  ce_resolve :: "string \<Rightarrow> ('w, context_raise, string) act"
  ce_loader :: "string \<Rightarrow> ('w, context_raise, trusted_case) act"
  ce_fingerprint :: "string \<Rightarrow> ('w, context_raise, repository_fingerprint) act"
  ce_instruction_label :: string
  ce_set_order :: "string list \<Rightarrow> string list"

section \<open>Paths\<close>

definition safe_relative :: "string \<Rightarrow> string option" where
  "safe_relative value =
     (let normalized = map (\<lambda>c. if c = backslash then slash else c) value in
      if value = [] \<or> nul \<in> set value \<or> windows_drive_or_root value \<or> is_absolute normalized \<or>
         list_ex (\<lambda>part. part \<in> {[], ''.'', ''..''}) (split_on slash normalized)
      then None else Some (as_posix normalized))"

definition generated_parts :: "string set" where
  "generated_parts = {''.git'', ''.pytest_cache'', ''.mypy_cache'', ''.ruff_cache'', ''__pycache__'', ''build'',
     ''dist'', ''.tox'', ''.venv'', ''venv''}"

definition denied_parts :: "string set" where
  "denied_parts = {''evaluator'', ''hidden_tests''}"

definition secret_names :: "string set" where
  "secret_names = {''.env'', ''.netrc'', ''id_rsa'', ''id_ed25519'', ''credentials'', ''secrets''}"

definition is_evaluator_path :: "string \<Rightarrow> bool" where
  "is_evaluator_path path \<longleftrightarrow>
     list_ex (\<lambda>part. part \<in> denied_parts) (folded_parts path) \<or> casefold (path_name path) = ''reference.patch''"

definition is_protected_path :: "string \<Rightarrow> bool" where
  "is_protected_path path \<longleftrightarrow>
     list_ex (\<lambda>protected. has_parts_prefix (folded_parts path) (folded_parts protected)) default_protected_paths"

definition denied_reason :: "string \<Rightarrow> omission_reason option" where
  "denied_reason path =
     (if is_evaluator_path path then Some UNSAFE_PATH
      else if list_ex (\<lambda>part. part \<in> generated_parts) (folded_parts path) then Some GENERATED
      else if list_ex (\<lambda>part. part \<in> secret_names) (folded_parts path) then Some SECRET
      else if is_protected_path path then Some UNSAFE_PATH
      else None)"

text \<open>Every prefix of the path, from the anchor\<close>

fun alias_on_way :: "'w context_env \<Rightarrow> string \<Rightarrow> string list \<Rightarrow> ('w, context_raise, bool) act" where
  "alias_on_way env current [] = ret False"
| "alias_on_way env current (part # parts) =
     (let next = join_path current [part] in
      andthen (ce_lstat env next) (\<lambda>m.
      if stat_is_link m \<or> stat_is_reparse m then ret True else alias_on_way env next parts))"

definition path_contains_alias :: "'w context_env \<Rightarrow> string \<Rightarrow> ('w, context_raise, bool) act" where
  "path_contains_alias env path = alias_on_way env (posix_root path) (posix_parts path)"

section \<open>Contents\<close>

definition private_key_header :: regex where
  "private_key_header = seqs [lit ''-----BEGIN '',
     optional (Seq (one_or_more is_upper_or_blank) (lit '' '')), lit ''PRIVATE KEY-----'']"

definition secret_line_pattern :: regex where
  "secret_line_pattern = seqs [LineStart, any_number is_space,
     alts [seqs [lit_ci ''api'', optional (one_of ''_-''), lit_ci ''key''],
           seqs [lit_ci ''access'', optional (one_of ''_-''), lit_ci ''token''],
           seqs [lit_ci ''client'', optional (one_of ''_-''), lit_ci ''secret''],
           lit_ci ''password''],
     any_number is_space, lit ''='', any_number is_space,
     one_or_more (\<lambda>c. \<not> is_space c \<and> c \<noteq> CHR ''#'')]"

definition secret_content :: "string \<Rightarrow> bool" where
  "secret_content value \<longleftrightarrow>
     list_ex (\<lambda>pattern. re_search pattern value) [private_key_header, secret_line_pattern, access_key_pattern]"

definition decode_safe :: "bytes \<Rightarrow> string option" where
  "decode_safe data =
     (if 0 \<in> set data then None
      else (case utf8_decode data of
              None \<Rightarrow> None
            | Some s \<Rightarrow> if secret_content s then None else Some (normalize_newlines s)))"

text \<open>\<open>data.decode("utf-8", errors="ignore")\<close>: undecodable bytes are skipped.\<close>

fun decode_ignoring :: "bytes \<Rightarrow> string" where
  "decode_ignoring [] = []"
| "decode_ignoring (b # bs) =
     (if unat b < 128 then char_of (unat b) # decode_ignoring bs
      else if unat b = 194 \<or> unat b = 195 then
        (case bs of
           [] \<Rightarrow> []
         | c # cs \<Rightarrow>
             if 128 \<le> unat c \<and> unat c < 192
             then char_of ((unat b - 192) * 64 + (unat c - 128)) # decode_ignoring cs
             else decode_ignoring bs)
      else decode_ignoring bs)"

definition numbered_line :: "string list \<Rightarrow> nat \<Rightarrow> string" where
  "numbered_line ls number = decimal (number + 1) @ '': '' @ ls ! number"

definition excerpt :: "string \<Rightarrow> nat \<Rightarrow> string" where
  "excerpt value line =
     (let ls = split_lines [] value in
      if ls = [] then []
      else (let index = min (line - 1) (length ls - 1) in
            join_with newline (map (numbered_line ls) [index - 20 ..< min (length ls) (index + 21)])))"

definition truncation_note :: string where
  "truncation_note = newline # ''<truncated>''"

definition bounded_utf8 :: "string \<Rightarrow> nat \<Rightarrow> string \<times> bool" where
  "bounded_utf8 value limit =
     (if utf8_len value \<le> limit then (value, False)
      else (utf8_prefix (limit - utf8_len truncation_note) value @ truncation_note, True))"

section \<open>Reading a file\<close>

definition ordinary_directory :: "file_stat \<Rightarrow> bool" where
  "ordinary_directory s \<longleftrightarrow> stat_is_dir s \<and> \<not> stat_is_link s \<and> \<not> stat_is_reparse s"

text \<open>The directories between the root and the file, with their metadata\<close>

fun inspect_components ::
  "'w context_env \<Rightarrow> string \<Rightarrow> string list \<Rightarrow>
     ('w, context_raise, omission_reason + (string \<times> file_stat) list) act" where
  "inspect_components env component [] = ret (Inr [])"
| "inspect_components env component (part # parts) =
     (let next = join_path component [part] in
      andthen (ce_lstat env next) (\<lambda>m.
      if \<not> ordinary_directory m then ret (Inl UNSAFE_PATH)
      else phase (inspect_components env next parts) (\<lambda>rest. ret (Inr ((next, m) # rest)))))"

fun components_changed :: "'w context_env \<Rightarrow> (string \<times> file_stat) list \<Rightarrow> ('w, context_raise, bool) act" where
  "components_changed env [] = ret False"
| "components_changed env ((item, expected) # rest) =
     andthen (ce_lstat env item) (\<lambda>m.
     if \<not> same_file_identity m expected then ret True else components_changed env rest)"

definition unchanged_read ::
  "'w context_env \<Rightarrow> string \<Rightarrow> string \<Rightarrow> file_stat \<Rightarrow> (string \<times> file_stat) list \<Rightarrow> file_stat \<Rightarrow> bytes \<Rightarrow>
     ('w, context_raise, bool) act" where
  "unchanged_read env root' target root_before components before' data =
     andthen (ce_lstat env target) (\<lambda>after'.
     if \<not> same_file_identity before' after' \<or> length data \<noteq> fs_size before' then ret False
     else andthen (ce_lstat env root') (\<lambda>r.
     if \<not> same_file_identity r root_before then ret False
     else andthen (components_changed env components) (\<lambda>changed. ret (\<not> changed))))"

definition inspected_bytes ::
  "'w context_env \<Rightarrow> string \<Rightarrow> string \<Rightarrow> ('w, context_raise, omission_reason + bytes) act" where
  "inspected_bytes env root' path =
     (let target = join_path root' (posix_parts path) in
      andthen (ce_lstat env root') (\<lambda>root_before.
      if \<not> ordinary_directory root_before then ret (Inl UNSAFE_PATH)
      else phase (inspect_components env root' (butlast (posix_parts path))) (\<lambda>components.
      andthen (ce_lstat env target) (\<lambda>before'.
      if \<not> stat_is_regular before' \<or> stat_is_reparse before' then ret (Inl UNSAFE_PATH)
      else andthen (ce_read_bytes env root' path root_before (map snd components) before') (\<lambda>data.
      andthen (unchanged_read env root' target root_before components before' data) (\<lambda>unchanged.
      ret (if unchanged then Inr data else Inl UNSAFE_PATH)))))))"

definition text_of_bytes :: "bytes \<Rightarrow> omission_reason + string" where
  "text_of_bytes data =
     (case decode_safe data of
        None \<Rightarrow> Inl (if secret_content (decode_ignoring data) then SECRET else UNREADABLE)
      | Some s \<Rightarrow> if redact_host_paths id s [] \<noteq> s then Inl UNSAFE_PATH else Inr s)"

text \<open>\<open>_read\<close>: the text, or the reason of its omission\<close>

definition read_file ::
  "'w context_env \<Rightarrow> string \<Rightarrow> string \<Rightarrow> ('w, context_raise, omission_reason + string) act" where
  "read_file env root' path =
     (if safe_relative path \<noteq> Some path then ret (Inl UNSAFE_PATH)
      else (case denied_reason path of
          Some reason \<Rightarrow> ret (Inl reason)
        | None \<Rightarrow>
            phase (catch (inspected_bytes env root' path)
                (\<lambda>e. if e \<in> {CtxOsError, CtxRuntimeError, CtxValueError} then ret (Inl UNREADABLE) else raise e))
              (\<lambda>data. ret (text_of_bytes data))))"

end
