(* ===== verification/Context_Evidence.thy ===== *)
theory Context_Evidence
  imports Context_Read
begin

text \<open>
  \<open>app/agent/context.py\<close>, second part: what is read off the captured test output, namely the frames of
  the traceback and the visible test that failed.
\<close>

section \<open>Frames\<close>

definition colon_frame_pattern :: regex where
  "colon_frame_pattern = seqs
     [Group 1 (seqs [optional (Seq (Class is_ascii_letter) (lit '':'')),
        Lazy (none_of [newline, carriage_return, CHR ''\"'', CHR ''<'', CHR ''>'', CHR ''|'']), lit ''.py'']),
      lit '':'', Group 2 (one_or_more is_digit), Alt (lit '':'') (Class is_space)]"

definition file_frame_pattern :: regex where
  "file_frame_pattern = seqs
     [LineStart, any_number is_space, lit ''File'', one_or_more is_space, Class is_evidence_quote,
      Group 1 (Seq (one_or_more (\<lambda>c. \<not> is_evidence_quote c \<and> c \<noteq> carriage_return \<and> c \<noteq> newline)) (lit ''.py'')),
      Class is_evidence_quote, lit '','', one_or_more is_space, lit ''line'', one_or_more is_space,
      Group 2 (one_or_more is_digit)]"

text \<open>\<open>finditer\<close> with \<open>match.start()\<close>; \<open>skip\<close> as in \<open>find_from\<close>\<close>

fun matches_from :: "regex \<Rightarrow> nat \<Rightarrow> nat \<Rightarrow> char option \<Rightarrow> string \<Rightarrow> (nat \<times> position) list" where
  "matches_from r start skip c [] = []"
| "matches_from r start (Suc skip) c (x # xs) = matches_from r (Suc start) skip (Some x) xs"
| "matches_from r start 0 c (x # xs) =
     (case matches r (start_at c (x # xs)) of
        [] \<Rightarrow> matches_from r (Suc start) 0 (Some x) xs
      | p # _ \<Rightarrow> (start, p) # matches_from r (Suc start) (length xs - length (px_rest p)) (Some x) xs)"

definition forward_slashes :: "string \<Rightarrow> string" where
  "forward_slashes s = map (\<lambda>c. if c = backslash then slash else c) s"

text \<open>The frames in the order in which they start: path and line\<close>

definition raw_frames :: "string \<Rightarrow> (string \<times> nat) list" where
  "raw_frames evidence =
     (let normalized = forward_slashes evidence in
      map (\<lambda>(_, p). (strip (group_of 1 p), int_of_digits (group_of 2 p)))
        (sort_key fst (matches_from colon_frame_pattern 0 0 None normalized @
                       matches_from file_frame_pattern 0 0 None normalized)))"

definition usable_frame :: "string \<Rightarrow> string option" where
  "usable_frame raw = (case safe_relative raw of
     None \<Rightarrow> None
   | Some relative \<Rightarrow> if is_evaluator_path relative then None else Some relative)"

text \<open>\<open>spellings.setdefault(key, value)\<close>: the first spelling of a path\<close>

definition set_default :: "string \<Rightarrow> string \<Rightarrow> (string \<times> string) list \<Rightarrow> string \<times> (string \<times> string) list" where
  "set_default key value spellings =
     (case map_of spellings key of None \<Rightarrow> (value, (key, value) # spellings) | Some prior \<Rightarrow> (prior, spellings))"

fun unsafe_frames :: "(string \<times> string) list \<Rightarrow> (string \<times> nat) list \<Rightarrow> bool" where
  "unsafe_frames spellings [] = False"
| "unsafe_frames spellings ((raw, line) # rest) =
     (case usable_frame raw of
        None \<Rightarrow> True
      | Some relative \<Rightarrow>
          (let (prior, spellings') = set_default (casefold relative) relative spellings in
           if prior \<noteq> relative then True else unsafe_frames spellings' rest))"

definition evidence_has_unsafe_path :: "string \<Rightarrow> bool" where
  "evidence_has_unsafe_path evidence \<longleftrightarrow>
     contains_denied_evidence_path evidence \<or> unsafe_frames [] (raw_frames evidence)"

text \<open>The entries of \<open>found\<close> in the order of insertion, and the aliases\<close>

fun collect_frames ::
  "(string \<times> string) list \<Rightarrow> string list \<Rightarrow> (string \<times> nat) list \<Rightarrow> (string \<times> nat) list \<Rightarrow>
     (string \<times> nat) list \<times> string list" where
  "collect_frames spellings aliases found [] = (found, aliases)"
| "collect_frames spellings aliases found ((raw, line) # rest) =
     (case usable_frame raw of
        None \<Rightarrow> collect_frames spellings aliases found rest
      | Some relative \<Rightarrow>
          (let (prior, spellings') = set_default (casefold relative) relative spellings in
           if prior \<noteq> relative then collect_frames spellings' (casefold relative # aliases) found rest
           else collect_frames spellings' aliases
                  (if (relative, line) \<in> set found then found else found @ [(relative, line)]) rest))"

definition frame_order :: "string \<times> nat \<Rightarrow> string \<times> nat" where
  "frame_order f = (casefold (fst f), snd f)"

definition traceback_frames :: "string \<Rightarrow> (string \<times> nat) list" where
  "traceback_frames evidence =
     (let (found, aliases) = collect_frames [] [] [] (raw_frames evidence) in
      sort_key frame_order (filter (\<lambda>f. casefold (fst f) \<notin> set aliases) found))"

section \<open>The failing visible test\<close>

definition node_pattern :: "string \<Rightarrow> regex" where
  "node_pattern variant = seqs
     [Alt LineStart (Class (\<lambda>c. is_space c \<or> is_evidence_quote c)), lit variant, lit ''::'',
      Group 1 (one_or_more (\<lambda>c. \<not> is_space c))]"

text \<open>\<open>s.split("::")\<close>, and its inverse\<close>

function split_nodes :: "string \<Rightarrow> string \<Rightarrow> string list" where
  "split_nodes current [] = [rev current]"
| "split_nodes current (c # cs) =
     (if startswith (c # cs) ''::'' then rev current # split_nodes [] (drop 1 cs)
      else split_nodes (c # current) cs)"
  by pat_completeness auto
termination by (relation "measure (\<lambda>(current, s). length s)") auto

fun join_nodes :: "string list \<Rightarrow> string" where
  "join_nodes [] = []"
| "join_nodes [p] = p"
| "join_nodes (p # ps) = p @ ''::'' @ join_nodes ps"

text \<open>The parameters of a test are cut off its last part.\<close>

definition node_name_of :: "string \<Rightarrow> string" where
  "node_name_of node =
     (let parts = split_nodes [] node in
      join_nodes (butlast parts @ [takeWhile (\<lambda>c. c \<noteq> CHR ''['') (last parts)]))"

fun first_node :: "string \<Rightarrow> string list \<Rightarrow> string option" where
  "first_node evidence [] = None"
| "first_node evidence (variant # variants) =
     (case matches_from (node_pattern variant) 0 0 None evidence of
        [] \<Rightarrow> first_node evidence variants
      | (_, p) # _ \<Rightarrow> Some (node_name_of (group_of 1 p)))"

definition path_variants :: "string \<Rightarrow> string list" where
  "path_variants path = [path, map (\<lambda>c. if c = slash then backslash else c) path]"

definition node_matches :: "string \<Rightarrow> string list \<Rightarrow> (string \<times> string) list" where
  "node_matches evidence declared =
     concat (map (\<lambda>path. case first_node evidence (path_variants path) of None \<Rightarrow> [] | Some n \<Rightarrow> [(path, n)])
       (remdups declared))"

definition framed_tests :: "string list \<Rightarrow> (string \<times> nat) list \<Rightarrow> string list" where
  "framed_tests declared frames = filter (\<lambda>path. list_ex (\<lambda>f. fst f = path) frames) declared"

definition visible_test ::
  "string list \<Rightarrow> string \<Rightarrow> (string \<times> nat) list \<Rightarrow> context_raise + (string \<times> string option)" where
  "visible_test visible_tests evidence frames =
     (let declared = map as_posix visible_tests in
      case node_matches evidence declared of
        [(path, node)] \<Rightarrow> Inr (path, Some node)
      | _ # _ # _ \<Rightarrow> Inl (selection VISIBLE_TEST_AMBIGUOUS)
      | [] \<Rightarrow>
          (case framed_tests declared frames of
             [path] \<Rightarrow> Inr (path, None)
           | framed \<Rightarrow>
               (case (framed, declared) of
                  ([], [path]) \<Rightarrow> Inr (path, None)
                | _ \<Rightarrow> Inl (selection VISIBLE_TEST_AMBIGUOUS))))"

end
