(* ===== verification/Context_Collect.thy ===== *)
theory Context_Collect
  imports Context_Evidence
begin

text \<open>
  \<open>app/agent/context.py\<close>, third part: the definitions, imports and local modules that a source frame
  pulls into the context.  The Python parser is a parameter; of its trees the model keeps what the
  collection looks at.
\<close>

section \<open>Trees\<close>

datatype name_context = LoadName | StoreName | DelName

datatype definition_kind = FunctionKind | ClassKind | AliasKind

text \<open>
  A definition has its name (a type alias may have none), the names of its parameters, the child nodes,
  and its first and last line.  An import has its aliases; \<open>from\<close> has the module and the level.
\<close>

datatype ast =
    AstDefinition definition_kind "string option" "string list" "ast list" nat "nat option"
  | AstImport "(string \<times> string option) list" nat "nat option"
  | AstImportFrom "string option" "(string \<times> string option) list" nat nat "nat option"
  | AstName string name_context
  | AstAttribute ast string
  | AstOther "ast list"

text \<open>\<open>ast.parse\<close>: the body of the module, a \<open>SyntaxError\<close> or \<open>ValueError\<close>, or another exception\<close>

datatype ast_parse = AstParsed "ast list" | AstRejected | AstRaised context_raise

fun ast_children :: "ast \<Rightarrow> ast list" where
  "ast_children (AstDefinition k n ps cs a b) = cs"
| "ast_children (AstImport as a b) = []"
| "ast_children (AstImportFrom m as l a b) = []"
| "ast_children (AstName n c) = []"
| "ast_children (AstAttribute v n) = [v]"
| "ast_children (AstOther cs) = cs"

lemma size_ast_children: "size_list size (ast_children t) \<le> size t"
  by (cases t) simp_all

text \<open>\<open>ast.walk\<close> is breadth first.\<close>

function ast_walk :: "ast list \<Rightarrow> ast list" where
  "ast_walk [] = []"
| "ast_walk (t # queue) = t # ast_walk (queue @ ast_children t)"
  by pat_completeness auto
termination
proof (relation "measure (size_list size)")
  fix t :: ast and queue
  have "size_list size (queue @ cs) = size_list size queue + size_list size cs" for cs :: "ast list"
    by (induction queue) simp_all
  then show "(queue @ ast_children t, t # queue) \<in> measure (size_list size)"
    using size_ast_children [of t] by simp
qed simp

fun is_definition :: "ast \<Rightarrow> bool" where
  "is_definition (AstDefinition k n ps cs a b) = True"
| "is_definition _ = False"

fun is_import :: "ast \<Rightarrow> bool" where
  "is_import (AstImport as a b) = True"
| "is_import (AstImportFrom m as l a b) = True"
| "is_import _ = False"

fun definition_name :: "ast \<Rightarrow> string option" where
  "definition_name (AstDefinition k n ps cs a b) = n"
| "definition_name _ = None"

fun ast_line :: "ast \<Rightarrow> nat" where
  "ast_line (AstDefinition k n ps cs a b) = a"
| "ast_line (AstImport as a b) = a"
| "ast_line (AstImportFrom m as l a b) = a"
| "ast_line _ = 0"

fun ast_end_line :: "ast \<Rightarrow> nat option" where
  "ast_end_line (AstDefinition k n ps cs a b) = b"
| "ast_end_line (AstImport as a b) = b"
| "ast_end_line (AstImportFrom m as l a b) = b"
| "ast_end_line _ = None"

text \<open>\<open>node.end_lineno or default\<close>\<close>

definition end_line_or :: "nat \<Rightarrow> ast \<Rightarrow> nat" where
  "end_line_or d t = (case ast_end_line t of None \<Rightarrow> d | Some n \<Rightarrow> if n = 0 then d else n)"

definition last_line :: "ast \<Rightarrow> nat" where
  "last_line t = end_line_or (ast_line t) t"

section \<open>Names\<close>

fun names_in :: "name_context \<Rightarrow> ast list \<Rightarrow> string list" where
  "names_in c [] = []"
| "names_in c (AstName n c' # ts) = (if c' = c then n # names_in c ts else names_in c ts)"
| "names_in c (_ # ts) = names_in c ts"

fun parameter_names :: "ast \<Rightarrow> string list" where
  "parameter_names (AstDefinition FunctionKind n ps cs a b) = ps"
| "parameter_names _ = []"

definition loaded_unbound_names :: "ast \<Rightarrow> string list" where
  "loaded_unbound_names node =
     (let nodes = ast_walk [node]; bound = names_in StoreName nodes @ parameter_names node in
      remdups (filter (\<lambda>n. n \<notin> set bound) (names_in LoadName nodes)))"

section \<open>Items and omissions\<close>

text \<open>The constructors validate; a \<open>ValidationError\<close> is a \<open>ValueError\<close>.\<close>

definition make_item ::
  "string \<Rightarrow> context_item_kind \<Rightarrow> string \<Rightarrow> nat \<Rightarrow> nat \<Rightarrow> bool \<Rightarrow> nat option \<Rightarrow> context_raise + context_item" where
  "make_item path kind content priority line truncated original =
     (let i = \<lparr>ci_path = path, ci_kind = kind, ci_content = content, ci_priority = priority,
        ci_source_line = line, ci_truncated = truncated,
        ci_original_utf8_bytes = (case original of None \<Rightarrow> utf8_len content | Some n \<Rightarrow> n)\<rparr> in
      if valid_context_item i then Inr i else Inl CtxValueError)"

definition plain_item ::
  "string \<Rightarrow> context_item_kind \<Rightarrow> string \<Rightarrow> nat \<Rightarrow> nat \<Rightarrow> context_raise + context_item" where
  "plain_item path kind content priority line = make_item path kind content priority line False None"

definition make_omission :: "string \<Rightarrow> context_item_kind \<Rightarrow> omission_reason \<Rightarrow> context_raise + context_omission" where
  "make_omission path kind reason =
     (let x = \<lparr>co_path = path, co_kind = kind, co_reason = reason\<rparr> in
      if valid_context_omission x then Inr x else Inl CtxValueError)"

record collection =
  cl_items :: "context_item list"
  cl_omissions :: "context_omission list"
  cl_visited :: "(string \<times> string) list"

definition append_item :: "context_item \<Rightarrow> collection \<Rightarrow> collection" where
  "append_item i c =
     (if item_key i \<in> set (map item_key (cl_items c)) then c else c\<lparr>cl_items := cl_items c @ [i]\<rparr>)"

definition append_omission :: "context_omission \<Rightarrow> collection \<Rightarrow> collection" where
  "append_omission x c =
     (if omission_key x \<in> set (map omission_key (cl_omissions c)) then c
      else c\<lparr>cl_omissions := cl_omissions c @ [x]\<rparr>)"

definition liftE :: "'e + 'a \<Rightarrow> ('w, 'e, 'a) act" where
  "liftE r = (case r of Inl e \<Rightarrow> raise e | Inr x \<Rightarrow> ret x)"

section \<open>Choosing definitions\<close>

definition top_level_definitions :: "ast list \<Rightarrow> (string \<times> ast) list" where
  "top_level_definitions body =
     rev (concat (map (\<lambda>t. if is_definition t
       then (case definition_name t of None \<Rightarrow> [] | Some n \<Rightarrow> [(n, t)]) else []) body))"

definition visit_key :: "string \<Rightarrow> ast \<Rightarrow> string \<times> string" where
  "visit_key path node = (casefold path,
     (case definition_name node of
        None \<Rightarrow> ''@'' @ decimal (ast_line node)
      | Some n \<Rightarrow> if n = [] then ''@'' @ decimal (ast_line node) else n))"

text \<open>The definitions that contain the line, without those that contain a later one of them\<close>

definition innermost_definitions :: "ast list \<Rightarrow> nat \<Rightarrow> ast list" where
  "innermost_definitions body line =
     (let containing = filter (\<lambda>t. is_definition t \<and> ast_line t \<le> line \<and> line \<le> last_line t) (ast_walk body) in
      filter (\<lambda>candidate. \<not> list_ex (\<lambda>other. ast_line other > ast_line candidate \<and>
        last_line other \<le> last_line candidate) containing) containing)"

definition requested_definitions :: "ast list \<Rightarrow> string list \<Rightarrow> ast list" where
  "requested_definitions body names =
     concat (map (\<lambda>n. case map_of (top_level_definitions body) n of None \<Rightarrow> [] | Some t \<Rightarrow> [t])
       (sort (remdups names)))"

fun select_unvisited :: "string \<Rightarrow> (string \<times> string) list \<Rightarrow> ast list \<Rightarrow> ast list \<times> (string \<times> string) list" where
  "select_unvisited path visited [] = ([], visited)"
| "select_unvisited path visited (node # nodes) =
     (if visit_key path node \<in> set visited then select_unvisited path visited nodes
      else (let (selected, visited') = select_unvisited path (visit_key path node # visited) nodes in
            (node # selected, visited')))"

text \<open>
  The loop over the pending names.  A definition that is already selected has been visited, so its
  identity needs no test.  It ends because every selection visits a key of a top-level definition, and
  every other round removes a pending name.
\<close>

definition unvisited_count :: "string \<Rightarrow> (string \<times> ast) list \<Rightarrow> (string \<times> string) list \<Rightarrow> nat" where
  "unvisited_count path definitions visited =
     card (visit_key path ` snd ` set definitions - set visited)"

function select_related ::
  "string \<Rightarrow> (string \<times> ast) list \<Rightarrow> string list \<Rightarrow> ast list \<Rightarrow> (string \<times> string) list \<Rightarrow>
     ast list \<times> (string \<times> string) list" where
  "select_related path definitions pending selected visited =
     (if pending = [] then (selected, visited)
      else (let name = Min (set pending); rest = filter (\<lambda>n. n \<noteq> name) pending in
        (case map_of definitions name of
           None \<Rightarrow> select_related path definitions rest selected visited
         | Some related \<Rightarrow>
             if visit_key path related \<in> set visited then select_related path definitions rest selected visited
             else select_related path definitions (rest @ loaded_unbound_names related)
                    (selected @ [related]) (visit_key path related # visited))))"
  by pat_completeness auto
termination
proof (relation "measures [\<lambda>(path, definitions, pending, selected, visited). unvisited_count path definitions visited,
    \<lambda>(path, definitions, pending, selected, visited). length pending]", goal_cases)
  case 1
  show ?case by simp
next
  case (2 path definitions pending selected visited name rest)
  have "name \<in> set pending" using 2(1,2) by (simp add: Min_in)
  then have "length rest < length pending"
    unfolding 2(3) by (simp add: length_filter_less)
  then show ?case by simp
next
  case (3 path definitions pending selected visited name rest related)
  have "name \<in> set pending" using 3(1,2) by (simp add: Min_in)
  then have "length rest < length pending"
    unfolding 3(3) by (simp add: length_filter_less)
  then show ?case by simp
next
  case (4 path definitions pending selected visited name rest related)
  have "related \<in> snd ` set definitions" using map_of_SomeD [OF 4(4)] by force
  then have "visit_key path ` snd ` set definitions - set (visit_key path related # visited)
      \<subset> visit_key path ` snd ` set definitions - set visited" using 4(5) by auto
  then have "unvisited_count path definitions (visit_key path related # visited) <
      unvisited_count path definitions visited"
    unfolding unvisited_count_def by (intro psubset_card_mono) auto
  then show ?case by simp
qed

declare select_related.simps [simp del]


section \<open>Local modules\<close>

definition with_py_suffix :: "string \<Rightarrow> context_raise + string" where
  "with_py_suffix path =
     (if path_name path = [] then Inl CtxValueError
      else Inr (join_path (join_with slash (butlast (posix_parts path))) [path_stem path @ ''.py'']))"

text \<open>\<open>_module_path\<close>, on the text of a relative path; the empty path is \<open>PurePosixPath()\<close>.\<close>

definition module_base :: "string \<Rightarrow> nat \<Rightarrow> string list option" where
  "module_base current level =
     (let parent_parts = butlast (posix_parts current) in
      if level = 0 then Some []
      else if level - 1 > length parent_parts then None
      else Some (take (length parent_parts - (level - 1)) parent_parts))"

definition module_path ::
  "string \<Rightarrow> string option \<Rightarrow> nat \<Rightarrow> string list \<Rightarrow> context_raise + string option" where
  "module_path current modname level files =
     (case module_base current level of
        None \<Rightarrow> Inr None
      | Some base \<Rightarrow>
          (let module_parts = filter (\<lambda>p. p \<noteq> []) (split_on (CHR ''.'') (case modname of None \<Rightarrow> [] | Some m \<Rightarrow> m));
               stem = join_with slash (base @ module_parts) in
           bindE (with_py_suffix stem) (\<lambda>plain.
           (case filter (\<lambda>c. c \<in> set files) [plain, join_path stem [''__init__.py'']] of
              [matched] \<Rightarrow> Inr (Some matched)
            | _ \<Rightarrow> Inr None))))"

text \<open>\<open>name.split(".", maxsplit=1)[0]\<close>, and the name an alias binds\<close>

definition first_component :: "string \<Rightarrow> string" where
  "first_component name = takeWhile (\<lambda>c. c \<noteq> CHR ''.'') name"

text \<open>\<open>alias.asname or default\<close>\<close>

definition asname_or :: "string option \<Rightarrow> string \<Rightarrow> string" where
  "asname_or asname d = (case asname of None \<Rightarrow> d | Some n \<Rightarrow> if n = [] then d else n)"

fun import_aliases :: "ast \<Rightarrow> (string \<times> string option) list" where
  "import_aliases (AstImport as a b) = as"
| "import_aliases (AstImportFrom m as l a b) = as"
| "import_aliases _ = []"

definition bound_names :: "ast \<Rightarrow> string list" where
  "bound_names node =
     map (\<lambda>(name, asname). asname_or asname (first_component name))
       (filter (\<lambda>(name, _). name \<noteq> ''*'') (import_aliases node))"

text \<open>\<open>targets.setdefault(path, set()).update(names)\<close>\<close>

fun add_target :: "string \<Rightarrow> string list \<Rightarrow> (string \<times> string list) list \<Rightarrow> (string \<times> string list) list" where
  "add_target path names [] = [(path, names)]"
| "add_target path names ((p, ns) # rest) =
     (if p = path then (p, ns @ names) # rest else (p, ns) # add_target path names rest)"

fun attributes_of :: "string \<Rightarrow> ast list \<Rightarrow> string list" where
  "attributes_of bound [] = []"
| "attributes_of bound (AstAttribute (AstName n c) attr # ts) =
     (if n = bound then attr # attributes_of bound ts else attributes_of bound ts)"
| "attributes_of bound (_ # ts) = attributes_of bound ts"

fun from_targets ::
  "string \<Rightarrow> string list \<Rightarrow> (string \<times> string option) list \<Rightarrow> (string \<times> string list) list \<Rightarrow> (string \<times> string list) list" where
  "from_targets path referenced [] targets = targets"
| "from_targets path referenced ((name, asname) # rest) targets =
     from_targets path referenced rest
       (if name \<noteq> ''*'' \<and> asname_or asname name \<in> set referenced then add_target path [name] targets else targets)"

fun plain_targets ::
  "string \<Rightarrow> string list \<Rightarrow> string list \<Rightarrow> ast list \<Rightarrow> (string \<times> string option) list \<Rightarrow>
     (string \<times> string list) list \<Rightarrow> context_raise + (string \<times> string list) list" where
  "plain_targets current files referenced nodes [] targets = Inr targets"
| "plain_targets current files referenced nodes ((name, asname) # rest) targets =
     (let bound = asname_or asname (first_component name) in
      if bound \<notin> set referenced then plain_targets current files referenced nodes rest targets
      else bindE (module_path current (Some name) 0 files) (\<lambda>found.
        (case found of
           None \<Rightarrow> plain_targets current files referenced nodes rest targets
         | Some path \<Rightarrow>
             (let attributes = attributes_of bound (ast_walk nodes) in
              plain_targets current files referenced nodes rest
                (if attributes = [] then targets else add_target path attributes targets)))))"

fun import_targets ::
  "string \<Rightarrow> string list \<Rightarrow> string list \<Rightarrow> ast list \<Rightarrow> ast \<Rightarrow> context_raise + (string \<times> string list) list" where
  "import_targets current files referenced nodes (AstImportFrom modname as level a b) =
     bindE (module_path current modname level files) (\<lambda>found.
       Inr (case found of None \<Rightarrow> [] | Some path \<Rightarrow> from_targets path referenced as []))"
| "import_targets current files referenced nodes node =
     plain_targets current files referenced nodes (import_aliases node) []"

section \<open>Collecting\<close>

definition definition_item :: "string \<Rightarrow> string list \<Rightarrow> ast \<Rightarrow> context_raise + context_item" where
  "definition_item path ls node =
     plain_item path
       (case node of AstDefinition FunctionKind _ _ _ _ _ \<Rightarrow> DEFINITION | _ \<Rightarrow> TYPE_DEFINITION)
       (join_with newline (map (\<lambda>number. numbered_line ls (number - 1))
          [ast_line node ..< Suc (min (last_line node) (length ls))]))
       4 (ast_line node)"

fun append_definitions ::
  "string \<Rightarrow> string list \<Rightarrow> ast list \<Rightarrow> collection \<Rightarrow> context_raise + collection" where
  "append_definitions path ls [] c = Inr c"
| "append_definitions path ls (node # nodes) c =
     bindE (definition_item path ls node) (\<lambda>i. append_definitions path ls nodes (append_item i c))"

definition import_item :: "string \<Rightarrow> string list \<Rightarrow> ast \<Rightarrow> context_raise + context_item" where
  "import_item path ls node =
     plain_item path IMPORT
       (join_with newline (drop (ast_line node - 1) (take (last_line node) ls))) 4 (ast_line node)"

text \<open>The selected definitions of one module, and what has been visited then\<close>

definition selected_definitions ::
  "string \<Rightarrow> ast list \<Rightarrow> nat + string list \<Rightarrow> (string \<times> string) list \<Rightarrow> ast list \<times> (string \<times> string) list" where
  "selected_definitions path body wanted visited =
     (let (chosen, visited1) = select_unvisited path visited
            (case wanted of Inl line \<Rightarrow> innermost_definitions body line | Inr names \<Rightarrow> requested_definitions body names);
          (nodes, visited2) = select_related path (top_level_definitions body)
            (concat (map loaded_unbound_names chosen)) chosen visited1
      in (sort_key (\<lambda>t. (ast_line t, end_line_or 0 t)) nodes, visited2))"

text \<open>\<open>self._read(root, path)\<close>\<close>

type_synonym 'w file_reader = "string \<Rightarrow> ('w, context_raise, omission_reason + string) act"

text \<open>
  \<open>_collect_static_items\<close> and \<open>_follow_local_import\<close>; what is wanted is the line of a frame or a set of
  names.  The number is the depth to which the interpreter can still recurse; at zero it raises
  \<open>RecursionError\<close>.  \<open>again\<close> is the recursive call.
\<close>

definition unparsed_module :: "string \<Rightarrow> collection \<Rightarrow> ('w, context_raise, collection) act" where
  "unparsed_module path c =
     andthen (liftE (make_omission path DEFINITION AST_PARSE_FAILED)) (\<lambda>x. ret (append_omission x c))"

fun follow_targets ::
  "'w file_reader \<Rightarrow>
     (string \<Rightarrow> string \<Rightarrow> string list \<Rightarrow> collection \<Rightarrow> ('w, context_raise, collection) act) \<Rightarrow>
     (string \<times> string list) list \<Rightarrow> collection \<Rightarrow> ('w, context_raise, collection) act" where
  "follow_targets read again [] c = ret c"
| "follow_targets read again ((path, names) # targets) c =
     andthen (read path) (\<lambda>r.
     andthen (case r of
         Inl reason \<Rightarrow> andthen (liftE (make_omission path DEFINITION reason)) (\<lambda>x. ret (append_omission x c))
       | Inr imported \<Rightarrow> again path imported names c) (\<lambda>c'.
     follow_targets read again targets c'))"

fun collect_imports ::
  "'w file_reader \<Rightarrow> string list \<Rightarrow> string \<Rightarrow> string list \<Rightarrow>
     (string \<Rightarrow> string \<Rightarrow> string list \<Rightarrow> collection \<Rightarrow> ('w, context_raise, collection) act) \<Rightarrow>
     ast list \<Rightarrow> ast list \<Rightarrow> collection \<Rightarrow> ('w, context_raise, collection) act" where
  "collect_imports read files path ls again nodes [] c = ret c"
| "collect_imports read files path ls again nodes (node # imports) c =
     (let referenced = concat (map loaded_unbound_names nodes) in
      if set (bound_names node) \<inter> set referenced = {}
      then collect_imports read files path ls again nodes imports c
      else andthen (liftE (import_item path ls node)) (\<lambda>i.
        andthen (liftE (import_targets path files referenced nodes node)) (\<lambda>targets.
        andthen (follow_targets read again (sort_key (\<lambda>t. casefold (fst t)) targets) (append_item i c)) (\<lambda>c'.
        collect_imports read files path ls again nodes imports c'))))"

fun collect_static_items ::
  "'w file_reader \<Rightarrow> (string \<Rightarrow> ast_parse) \<Rightarrow> string list \<Rightarrow> nat \<Rightarrow> string \<Rightarrow> string \<Rightarrow>
     nat + string list \<Rightarrow> collection \<Rightarrow> ('w, context_raise, collection) act" where
  "collect_static_items read parse files 0 path source wanted c = raise CtxRuntimeError"
| "collect_static_items read parse files (Suc depth) path source wanted c =
     (case parse source of
        AstRaised e \<Rightarrow> raise e
      | AstRejected \<Rightarrow> unparsed_module path c
      | AstParsed body \<Rightarrow>
          (let ls = split_lines [] source;
               (nodes, visited) = selected_definitions path body wanted (cl_visited c) in
           andthen (liftE (append_definitions path ls nodes (c\<lparr>cl_visited := visited\<rparr>))) (\<lambda>c1.
           collect_imports read files path ls
             (\<lambda>p t names. collect_static_items read parse files depth p t (Inr names))
             nodes (sort_key ast_line (filter is_import body)) c1)))"

end
