(* ===== verification/Context_Select.thy ===== *)
theory Context_Select
  imports Context_Collect
begin

text \<open>
  \<open>app/agent/context.py\<close>, last part: the candidate items, the packing into the byte budget, and
  \<open>ContextSelector.select\<close>.
\<close>

section \<open>The line of the failing test\<close>

text \<open>The functions of a module, with the names of the classes around them\<close>

fun test_definitions :: "string list \<Rightarrow> ast list \<Rightarrow> (string list \<times> nat) list" where
  "test_definitions prefix [] = []"
| "test_definitions prefix (AstDefinition ClassKind n ps cs a b # ts) =
     test_definitions (prefix @ [case n of None \<Rightarrow> [] | Some m \<Rightarrow> m]) cs @ test_definitions prefix ts"
| "test_definitions prefix (AstDefinition FunctionKind n ps cs a b # ts) =
     (prefix @ [case n of None \<Rightarrow> [] | Some m \<Rightarrow> m], a) # test_definitions prefix ts"
| "test_definitions prefix (_ # ts) = test_definitions prefix ts"

definition node_line :: "(string list \<times> nat) list \<Rightarrow> string \<Rightarrow> context_raise + nat" where
  "node_line definitions node_name =
     (case filter (\<lambda>d. join_nodes (fst d) = node_name) definitions of
        [d] \<Rightarrow> Inr (snd d)
      | _ # _ # _ \<Rightarrow> Inl (selection VISIBLE_TEST_AMBIGUOUS)
      | [] \<Rightarrow>
          (let leaf = last (split_nodes [] node_name) in
           case filter (\<lambda>d. last (split_nodes [] (join_nodes (fst d))) = leaf) definitions of
             [] \<Rightarrow> Inr 1
           | [d] \<Rightarrow> Inr (snd d)
           | _ \<Rightarrow> Inl (selection VISIBLE_TEST_AMBIGUOUS)))"

definition test_line :: "(string \<Rightarrow> ast_parse) \<Rightarrow> string \<Rightarrow> string option \<Rightarrow> context_raise + nat" where
  "test_line parse source node_name =
     (case node_name of
        None \<Rightarrow> Inr 1
      | Some name \<Rightarrow>
          (case parse source of
             AstRaised e \<Rightarrow> Inl e
           | AstRejected \<Rightarrow> Inr 1
           | AstParsed body \<Rightarrow> node_line (test_definitions [] body) name))"

section \<open>Candidates\<close>

definition default_policy :: protected_path_policy where
  "default_policy = \<lparr>pp_protected_paths = default_protected_paths, pp_exceptions = []\<rparr>"

text \<open>The items that no budget removes: issue, classification and policy\<close>

definition mandatory_items ::
  "(string list \<Rightarrow> string list) \<Rightarrow> string \<Rightarrow> failure_analysis \<Rightarrow> context_raise + context_item list" where
  "mandatory_items set_order issue analysis =
     bindE (plain_item ''metadata/issue.txt'' ISSUE (redact_untrusted_evidence set_order issue []) 0 0) (\<lambda>a.
     bindE (plain_item ''metadata/classification.txt'' CLASSIFICATION (classification_content analysis) 0 0) (\<lambda>b.
     bindE (plain_item ''metadata/protected-path-policy.txt'' PROTECTED_PATH_POLICY
        (policy_content default_policy) 0 0) (\<lambda>c. Inr [a, b, c])))"

definition trace_item :: "string \<Rightarrow> context_raise + context_item" where
  "trace_item evidence =
     (let (trace, truncated) = bounded_utf8 evidence 2048 in
      make_item ''evidence/pytest-trace.txt'' FAILURE_TRACE trace 1 0 truncated (Some (utf8_len evidence)))"

definition frame_line :: "(string \<times> nat) list \<Rightarrow> string \<Rightarrow> nat \<Rightarrow> nat" where
  "frame_line frames visible default_line =
     (case filter (\<lambda>f. fst f = visible) frames of [] \<Rightarrow> default_line | f # _ \<Rightarrow> snd f)"

definition plainly_append :: "context_omission \<Rightarrow> collection \<Rightarrow> collection" where
  "plainly_append x c = c\<lparr>cl_omissions := cl_omissions c @ [x]\<rparr>"

definition push_item :: "context_item \<Rightarrow> collection \<Rightarrow> collection" where
  "push_item i c = c\<lparr>cl_items := cl_items c @ [i]\<rparr>"

text \<open>One frame: its excerpt, and what its definitions pull in; every frame starts with nothing visited.\<close>

definition frame_items ::
  "'w file_reader \<Rightarrow> (string \<Rightarrow> ast_parse) \<Rightarrow> string list \<Rightarrow> nat \<Rightarrow> string \<times> nat \<Rightarrow> collection \<Rightarrow>
     ('w, context_raise, collection) act" where
  "frame_items read parse files depth frame c =
     (let (path, line) = frame in
      if path \<notin> set files
      then andthen (liftE (make_omission path SOURCE UNSAFE_PATH)) (\<lambda>x. ret (plainly_append x c))
      else andthen (read path) (\<lambda>r.
        (case r of
           Inl reason \<Rightarrow> andthen (liftE (make_omission path SOURCE reason)) (\<lambda>x. ret (plainly_append x c))
         | Inr source \<Rightarrow>
             andthen (liftE (plain_item path SOURCE (excerpt source line) 3 line)) (\<lambda>i.
             collect_static_items read parse files depth path source (Inl line)
               ((push_item i c)\<lparr>cl_visited := []\<rparr>)))))"

fun all_frame_items ::
  "'w file_reader \<Rightarrow> (string \<Rightarrow> ast_parse) \<Rightarrow> string list \<Rightarrow> nat \<Rightarrow> (string \<times> nat) list \<Rightarrow> collection \<Rightarrow>
     ('w, context_raise, collection) act" where
  "all_frame_items read parse files depth [] c = ret c"
| "all_frame_items read parse files depth (frame # frames) c =
     andthen (frame_items read parse files depth frame c) (\<lambda>c'.
     all_frame_items read parse files depth frames c')"

text \<open>\<open>AGENTS.md\<close> of every directory above a path, below the root\<close>

definition instructions_above :: "string \<Rightarrow> string list" where
  "instructions_above path =
     (let parts = butlast (posix_parts path) in
      map (\<lambda>n. join_with slash (take n parts @ [''AGENTS.md''])) (rev [1 ..< Suc (length parts)]))"

definition instruction_paths :: "string list \<Rightarrow> string \<Rightarrow> context_item list \<Rightarrow> string list" where
  "instruction_paths files visible items =
     (let applicable = visible # map ci_path (filter (\<lambda>i. ci_path i \<in> set files \<and>
            ci_kind i \<in> {SOURCE, DEFINITION, TYPE_DEFINITION, IMPORT}) items) in
      remdups ([''AGENTS.md'', ''README.md''] @ concat (map instructions_above applicable)))"

definition instruction_item :: "string \<Rightarrow> string \<Rightarrow> string \<Rightarrow> context_raise + context_item" where
  "instruction_item label path source =
     (let labeled = label @ source; (bounded, truncated) = bounded_utf8 labeled 4096 in
      make_item path REPOSITORY_INSTRUCTION bounded 6 0 truncated (Some (utf8_len labeled)))"

fun instruction_items ::
  "'w file_reader \<Rightarrow> string \<Rightarrow> string list \<Rightarrow> string list \<Rightarrow> string list \<Rightarrow> collection \<Rightarrow>
     ('w, context_raise, collection) act" where
  "instruction_items read label files selected [] c = ret c"
| "instruction_items read label files selected (path # paths) c =
     (if path \<notin> set files \<or> casefold path \<in> set selected
      then instruction_items read label files selected paths c
      else andthen (read path) (\<lambda>r.
        andthen (case r of
            Inl reason \<Rightarrow> andthen (liftE (make_omission path REPOSITORY_INSTRUCTION reason)) (\<lambda>x. ret (plainly_append x c))
          | Inr source \<Rightarrow> andthen (liftE (instruction_item label path source)) (\<lambda>i. ret (push_item i c)))
        (\<lambda>c'. instruction_items read label files selected paths c')))"

definition visible_item :: "string \<Rightarrow> string \<Rightarrow> nat \<Rightarrow> context_raise + context_item" where
  "visible_item visible source line = plain_item visible VISIBLE_TEST (excerpt source line) 2 line"

definition context_candidates ::
  "'w file_reader \<Rightarrow> (string list \<Rightarrow> string list) \<Rightarrow> string \<Rightarrow> (string \<Rightarrow> ast_parse) \<Rightarrow> nat \<Rightarrow> string \<Rightarrow> string list \<Rightarrow> string \<Rightarrow> string option \<Rightarrow>
     (string \<times> nat) list \<Rightarrow> string \<Rightarrow> failure_analysis \<Rightarrow> ('w, context_raise, collection) act" where
  "context_candidates read set_order label parse depth issue files visible visible_node frames evidence analysis =
     andthen (liftE (mandatory_items set_order issue analysis)) (\<lambda>mandatory.
     andthen (liftE (trace_item evidence)) (\<lambda>trace.
     andthen (read visible) (\<lambda>r.
     (case r of
        Inl reason \<Rightarrow> raise (Selection UNSAFE_REPOSITORY (Some visible))
      | Inr source \<Rightarrow>
          andthen (liftE (test_line parse source visible_node)) (\<lambda>default_line.
          andthen (liftE (visible_item visible source (frame_line frames visible default_line))) (\<lambda>v.
          andthen (all_frame_items read parse files depth
              (filter (\<lambda>f. fst f \<noteq> visible \<and> path_suffix (fst f) = ''.py'') frames)
              \<lparr>cl_items = mandatory @ [trace, v], cl_omissions = [], cl_visited = []\<rparr>) (\<lambda>c.
          instruction_items read label files (map (casefold \<circ> ci_path) (cl_items c))
            (sort_key casefold (set_order (instruction_paths files visible (cl_items c)))) c)))))))"

section \<open>Packing\<close>

definition budget_omission :: "context_item \<Rightarrow> context_omission" where
  "budget_omission i = \<lparr>co_path = ci_path i, co_kind = ci_kind i, co_reason = BUDGET\<rparr>"

definition material_omitted :: "context_item list \<Rightarrow> context_omission list \<Rightarrow> bool" where
  "material_omitted included omissions \<longleftrightarrow>
     list_ex ci_truncated included \<or> list_ex (\<lambda>x. co_reason x = BUDGET) omissions"

definition used_bytes :: "string \<Rightarrow> nat \<Rightarrow> context_item list \<Rightarrow> context_omission list \<Rightarrow> nat" where
  "used_bytes case_id limit included omissions =
     downstream_utf8_size case_id included omissions limit (material_omitted included omissions)"

text \<open>The last item that may be removed; \<open>included.remove\<close> removes the first one equal to it.\<close>

definition removable_item :: "context_item list \<Rightarrow> context_item option" where
  "removable_item included = find (\<lambda>i. ci_priority i \<noteq> 0) (rev included)"

lemma removable_item_in: "removable_item included = Some i \<Longrightarrow> i \<in> set included \<and> ci_priority i \<noteq> 0"
  unfolding removable_item_def find_Some_iff by (metis length_rev nth_mem set_rev)

function pack_loop ::
  "string \<Rightarrow> nat \<Rightarrow> context_item list \<Rightarrow> context_omission list \<Rightarrow>
     context_raise + context_item list \<times> context_omission list" where
  "pack_loop case_id limit included omissions =
     (let sorted_omissions = sort_key omission_key omissions in
      if used_bytes case_id limit included sorted_omissions \<le> limit then Inr (included, sorted_omissions)
      else (case removable_item included of
          None \<Rightarrow> Inl (selection MANDATORY_CONTEXT_OVERFLOW)
        | Some i \<Rightarrow> pack_loop case_id limit (remove1 i included) (sorted_omissions @ [budget_omission i])))"
  by pat_completeness auto
termination
  by (relation "measure (\<lambda>(case_id, limit, included, omissions). length included)")
     (auto dest!: removable_item_in dest: length_pos_if_in_set simp: length_remove1)

declare pack_loop.simps [simp del]

text \<open>\<open>_package\<close>; the constructor of the package validates.\<close>

definition context_package_of ::
  "string \<Rightarrow> failure_analysis \<Rightarrow> context_item list \<Rightarrow> context_omission list \<Rightarrow> nat \<Rightarrow> context_raise + context_package" where
  "context_package_of case_id analysis candidates initial_omissions limit =
     bindE (pack_loop case_id limit (sort_key item_order candidates) initial_omissions) (\<lambda>(included, omissions).
     (let p = \<lparr>cp_case_id = case_id, cp_failure_analysis = analysis, cp_protected_path_policy = default_policy,
        cp_items = included, cp_omissions = sort_key omission_key omissions, cp_limit_utf8_bytes = limit,
        cp_actual_utf8_bytes = used_bytes case_id limit included omissions,
        cp_safe_material_omitted = material_omitted included omissions\<rparr> in
      if valid_context_package p then Inr p else Inl CtxValueError))"

section \<open>Selecting\<close>

fun declared_tests :: "string list \<Rightarrow> string list \<Rightarrow> context_raise + string list" where
  "declared_tests keys [] = Inr []"
| "declared_tests keys (value # rest) =
     (case safe_relative value of
        None \<Rightarrow> Inl (selection CASE_LOAD_FAILED)
      | Some path \<Rightarrow>
          if take 1 (posix_parts path) \<noteq> [''tests''] \<or> \<not> startswith (path_name path) ''test_'' \<or>
             path_suffix path \<noteq> ''.py'' \<or> denied_reason path \<noteq> None \<or> casefold path \<in> set keys
          then Inl (selection CASE_LOAD_FAILED)
          else bindE (declared_tests (casefold path # keys) rest) (\<lambda>paths. Inr (path # paths)))"

definition trusted_tests :: "trusted_case \<Rightarrow> context_raise + string list" where
  "trusted_tests c =
     (if \<not> valid_trusted_case c \<or> mf_visible_tests (tc_manifest c) = [] then Inl (selection CASE_LOAD_FAILED)
      else declared_tests [] (mf_visible_tests (tc_manifest c)))"

text \<open>Exceptions that a handler names become the error of selection \<open>c\<close>; selection errors pass.\<close>

definition selecting ::
  "context_code \<Rightarrow> context_raise set \<Rightarrow> ('w, context_raise, 'a) act \<Rightarrow> ('w, context_raise, 'a) act" where
  "selecting c caught m = catch m (\<lambda>e. if e \<in> caught then raise (selection c) else raise e)"

definition load_failures :: "context_raise set" where
  "load_failures = {CtxLoadError, CtxOsError, CtxRuntimeError, CtxValueError, CtxKeyError, CtxTypeError}"

definition repository_failures :: "context_raise set" where
  "repository_failures = {CtxOsError, CtxRuntimeError, CtxValueError, CtxPreparationError}"

definition confirmed_analysis ::
  "(string list \<Rightarrow> string list) \<Rightarrow> baseline_result \<Rightarrow> failure_analysis \<Rightarrow> context_raise + baseline_evidence" where
  "confirmed_analysis set_order baseline analysis =
     (case classify_failure set_order baseline of
        Inl BASELINE_NOT_REPRODUCED \<Rightarrow> Inl (selection CTX_BASELINE_NOT_REPRODUCED)
      | Inl MALFORMED_BASELINE \<Rightarrow> Inl (selection CTX_MALFORMED_BASELINE)
      | Inr expected \<Rightarrow>
          if expected \<noteq> analysis then Inl (selection ANALYSIS_MISMATCH)
          else (case br_evidence baseline of
              None \<Rightarrow> Inl (selection CTX_MALFORMED_BASELINE)
            | Some e \<Rightarrow> Inr e))"

text \<open>The root, resolved, with the files in it and its fingerprint\<close>

definition inspect_repository ::
  "'w context_env \<Rightarrow> string \<Rightarrow> string list \<Rightarrow>
     ('w, context_raise, string \<times> string list \<times> repository_fingerprint) act" where
  "inspect_repository env supplied visible =
     andthen (ensure (selection UNSAFE_REPOSITORY) (is_absolute supplied)) (\<lambda>_.
     andthen (path_contains_alias env supplied) (\<lambda>alias.
     andthen (ensure (selection UNSAFE_REPOSITORY) (\<not> alias)) (\<lambda>_.
     andthen (ce_lstat env supplied) (\<lambda>s.
     andthen (ensure (selection UNSAFE_REPOSITORY) (\<not> (stat_is_link s \<or> stat_is_reparse s))) (\<lambda>_.
     andthen (ce_resolve env supplied) (\<lambda>root'.
     andthen (ce_lstat env root') (\<lambda>m.
     andthen (ensure (selection UNSAFE_REPOSITORY) (stat_is_dir m)) (\<lambda>_.
     andthen (ce_iter_files env root') (\<lambda>files.
     andthen (case find is_evaluator_path files of
         None \<Rightarrow> ret () | Some p \<Rightarrow> raise (Selection UNSAFE_REPOSITORY (Some p))) (\<lambda>_.
     andthen (ensure (selection PREPARATION_MISMATCH) (list_all (\<lambda>p. p \<in> set files) visible)) (\<lambda>_.
     andthen (ce_fingerprint env root') (\<lambda>f. ret (root', files, f)))))))))))))"

definition raw_evidence :: "baseline_evidence \<Rightarrow> string" where
  "raw_evidence e = strip (combined_evidence e)"

definition select_context ::
  "'w context_env \<Rightarrow> (string \<Rightarrow> ast_parse) \<Rightarrow> nat \<Rightarrow> int \<Rightarrow> baseline_result \<Rightarrow> failure_analysis \<Rightarrow>
     ('w, context_raise, context_package) act" where
  "select_context env parse depth limit baseline analysis =
     andthen (ensure (selection INVALID_LIMIT) (0 < limit)) (\<lambda>_.
     andthen (liftE (confirmed_analysis (ce_set_order env) baseline analysis)) (\<lambda>e.
     andthen (selecting CASE_LOAD_FAILED load_failures
        (ce_loader env (rp_case_id (br_preparation baseline)))) (\<lambda>c.
     andthen (liftE (trusted_tests c)) (\<lambda>visible_paths.
     andthen (ensure (selection PREPARATION_MISMATCH)
        (mf_case_id (tc_manifest c) = rp_case_id (br_preparation baseline) \<and>
         mf_failing_revision (tc_manifest c) = rp_requested_revision (br_preparation baseline))) (\<lambda>_.
     andthen (selecting UNSAFE_REPOSITORY repository_failures
        (inspect_repository env (rp_prepared_repository (br_preparation baseline)) visible_paths)) (\<lambda>(root', files, fingerprint).
     andthen (ensure (selection FINGERPRINT_MISMATCH) (fingerprint = rp_fingerprint (br_preparation baseline))) (\<lambda>_.
     andthen (ensure (selection UNSAFE_EVIDENCE) (\<not> evidence_has_unsafe_path (raw_evidence e))) (\<lambda>_.
     (let frames = traceback_frames (raw_evidence e) in
      andthen (liftE (visible_test (mf_visible_tests (tc_manifest c)) (raw_evidence e) frames)) (\<lambda>(visible, node).
      andthen (context_candidates (read_file env root') (ce_set_order env) (ce_instruction_label env) parse depth
         (mf_issue_description (tc_manifest c)) files visible node frames
         (redact_untrusted_evidence (ce_set_order env) (raw_evidence e) root') analysis) (\<lambda>candidates.
      andthen (selecting UNSAFE_REPOSITORY repository_failures (ce_fingerprint env root')) (\<lambda>again.
      andthen (ensure (selection FINGERPRINT_MISMATCH) (again = rp_fingerprint (br_preparation baseline))) (\<lambda>_.
      liftE (context_package_of (mf_case_id (tc_manifest c)) analysis (cl_items candidates)
        (cl_omissions candidates) (nat limit)))))))))))))))"

end
