(* ===== verification/Context_Facts.thy ===== *)
theory Context_Facts
  imports Context_Select Graph_Facts "HOL-Library.Multiset"
begin

text \<open>
  Facts about context selection.  The locale \<open>context_reader\<close> is the interface between reading and
  collecting: whatever a reader promises of the texts it returns holds of every excerpt that is collected
  through it.  It is interpreted on the guarded reading of the sources.
\<close>

section \<open>Results of computations that may raise anything\<close>

definition yields_only :: "('w, 'e, 'a) act \<Rightarrow> ('a \<Rightarrow> bool) \<Rightarrow> bool" where
  "yields_only m Q \<longleftrightarrow> triple (\<lambda>_. True) m (\<lambda>x _. Q x) (\<lambda>_ _. True)"

lemma yields_onlyD: "yields_only m Q \<Longrightarrow> m w = (Inr x, w') \<Longrightarrow> Q x"
  unfolding yields_only_def by (auto dest: triple_useR)

lemma yields_onlyI: "(\<And>w x w'. m w = (Inr x, w') \<Longrightarrow> Q x) \<Longrightarrow> yields_only m Q"
  unfolding yields_only_def by (rule tripleI) (auto split: prod.splits sum.splits)

named_theorems yields_intro \<open>what computations yield, applied backwards\<close>

lemma yields_then [yields_intro]:
  "yields_only m P \<Longrightarrow> (\<And>x. P x \<Longrightarrow> yields_only (f x) Q) \<Longrightarrow> yields_only (andthen m f) Q"
  unfolding yields_only_def by (rule triple_andthen [where R = "\<lambda>x _. P x"]) (auto intro: triple_pure)

lemma yields_liftE: "(\<And>x. r = Inr x \<Longrightarrow> Q x) \<Longrightarrow> yields_only (liftE r) Q"
  by (rule yields_onlyI) (auto simp: liftE_def raise_def ret_def split: sum.splits)

lemma yields_return: "Q x \<Longrightarrow> yields_only (ret x) Q"
  by (rule yields_onlyI) (simp add: ret_def)

lemma yields_raise: "yields_only (raise e) Q"
  by (rule yields_onlyI) (simp add: raise_def)

lemma yields_any: "yields_only m (\<lambda>_. True)"
  by (rule yields_onlyI) simp

section \<open>Excerpts\<close>

text \<open>A text made of lines of a source, some with their number\<close>

definition quotes_line :: "string \<Rightarrow> string \<Rightarrow> bool" where
  "quotes_line source p \<longleftrightarrow> (\<exists>l \<in> set (split_lines [] source). p = l \<or> (\<exists>n. p = decimal n @ '': '' @ l))"

definition excerpt_of :: "string \<Rightarrow> string \<Rightarrow> bool" where
  "excerpt_of source content \<longleftrightarrow> (\<exists>ps. content = join_with newline ps \<and> list_all (quotes_line source) ps)"

lemma numbered_quotes: "n < length (split_lines [] s) \<Longrightarrow> quotes_line s (numbered_line (split_lines [] s) n)"
  unfolding quotes_line_def numbered_line_def by (intro bexI [of _ "split_lines [] s ! n"]) auto

lemma excerpt_is_excerpt: "excerpt_of s (excerpt s line)"
proof (cases "split_lines [] s = []")
  case True
  then show ?thesis unfolding excerpt_of_def by (intro exI [of _ "[]"]) (simp add: excerpt_def)
next
  case False
  then show ?thesis unfolding excerpt_of_def excerpt_def Let_def
    by (auto simp: list_all_iff intro!: exI numbered_quotes)
qed

text \<open>What an item may show of the file at its path\<close>

definition displays :: "string \<Rightarrow> string \<Rightarrow> context_item \<Rightarrow> bool" where
  "displays label source i \<longleftrightarrow>
     (if ci_kind i = REPOSITORY_INSTRUCTION then ci_content i = fst (bounded_utf8 (label @ source) 4096)
      else excerpt_of source (ci_content i))"

lemma plain_item_Inr:
  "plain_item path kind content priority line = Inr i \<Longrightarrow>
     ci_path i = path \<and> ci_kind i = kind \<and> ci_content i = content \<and> ci_priority i = priority"
  by (auto simp: plain_item_def make_item_def Let_def split: if_splits)

lemma definition_lines_quoted:
  "0 < m \<Longrightarrow> excerpt_of source (join_with newline (map (\<lambda>number. numbered_line (split_lines [] source) (number - 1))
     [m ..< Suc (min n (length (split_lines [] source)))]))"
  unfolding excerpt_of_def
  by (rule exI, rule conjI, rule refl) (auto simp: list_all_iff simp del: upt_Suc intro!: numbered_quotes)

lemma definition_item_displays:
  assumes "definition_item path (split_lines [] source) node = Inr i" "0 < ast_line node"
  shows "ci_path i = path \<and> displays label source i"
proof -
  have "ci_path i = path \<and> ci_kind i \<in> {DEFINITION, TYPE_DEFINITION} \<and>
      ci_content i = join_with newline (map (\<lambda>number. numbered_line (split_lines [] source) (number - 1))
        [ast_line node ..< Suc (min (last_line node) (length (split_lines [] source)))])"
    using assms(1) unfolding definition_item_def
    by (auto dest!: plain_item_Inr split: ast.splits definition_kind.splits simp del: upt_Suc)
  then show ?thesis
    using definition_lines_quoted [OF assms(2)] by (auto simp: displays_def simp del: upt_Suc)
qed

lemma import_item_displays:
  "import_item path (split_lines [] source) node = Inr i \<Longrightarrow> ci_path i = path \<and> displays label source i"
  unfolding import_item_def
  by (drule plain_item_Inr)
     (auto simp: displays_def excerpt_of_def list_all_iff quotes_line_def intro!: exI dest!: in_set_dropD in_set_takeD)


section \<open>Selected definitions are nodes of the tree\<close>

text \<open>The parser numbers lines from one.\<close>

definition numbered_from_one :: "ast list \<Rightarrow> bool" where
  "numbered_from_one ts \<longleftrightarrow> list_all (\<lambda>t. is_definition t \<longrightarrow> 0 < ast_line t) ts"

definition well_numbered :: "(string \<Rightarrow> ast_parse) \<Rightarrow> bool" where
  "well_numbered parse \<longleftrightarrow> (\<forall>source body. parse source = AstParsed body \<longrightarrow> numbered_from_one (ast_walk body))"

lemma walk_start: "set ts \<subseteq> set (ast_walk ts)"
  by (induction ts rule: ast_walk.induct) auto

lemma top_level_in_body:
  "(n, t) \<in> set (top_level_definitions body) \<Longrightarrow> t \<in> set body \<and> is_definition t"
  by (auto simp: top_level_definitions_def split: if_splits option.splits)

lemma select_unvisited_subset: "select_unvisited path visited ts = (us, v) \<Longrightarrow> set us \<subseteq> set ts"
  by (induction path visited ts arbitrary: us v rule: select_unvisited.induct)
     (auto split: if_splits prod.splits)

lemma select_related_subset:
  "select_related path ds pending selected visited = (us, v) \<Longrightarrow> set us \<subseteq> set selected \<union> snd ` set ds"
proof (induction path ds pending selected visited arbitrary: us v rule: select_related.induct)
  case (1 path ds pending selected visited)
  show ?case
  proof (cases "pending = []")
    case True
    with 1(4) show ?thesis by (simp add: select_related.simps)
  next
    case False
    let ?name = "Min (set pending)"
    show ?thesis
    proof (cases "map_of ds ?name")
      case None
      with 1(4) False have "select_related path ds (filter (\<lambda>n. n \<noteq> ?name) pending) selected visited = (us, v)"
        by (subst (asm) select_related.simps) (simp add: Let_def)
      from 1(1) [OF False refl refl None this] show ?thesis .
    next
      case (Some related)
      then have r: "related \<in> snd ` set ds" by (force dest: map_of_SomeD)
      show ?thesis
      proof (cases "visit_key path related \<in> set visited")
        case True
        with 1(4) False Some have "select_related path ds (filter (\<lambda>n. n \<noteq> ?name) pending) selected visited = (us, v)"
          by (subst (asm) select_related.simps) (simp add: Let_def)
        from 1(2) [OF False refl refl Some True this] show ?thesis .
      next
        case visited: False
        with 1(4) False Some have "select_related path ds (filter (\<lambda>n. n \<noteq> ?name) pending @ loaded_unbound_names related)
            (selected @ [related]) (visit_key path related # visited) = (us, v)"
          by (subst (asm) select_related.simps) (simp add: Let_def)
        from 1(3) [OF False refl refl Some visited this] r show ?thesis by auto
      qed
    qed
  qed
qed

lemma selected_definitions_nodes:
  assumes "selected_definitions path body wanted visited = (nodes, visited')"
  shows "set nodes \<subseteq> {t \<in> set (ast_walk body). is_definition t}"
proof -
  let ?wanted = "case wanted of Inl line \<Rightarrow> innermost_definitions body line | Inr names \<Rightarrow> requested_definitions body names"
  obtain chosen v1 where c: "select_unvisited path visited ?wanted = (chosen, v1)" by fastforce
  obtain us v2 where u: "select_related path (top_level_definitions body)
      (concat (map loaded_unbound_names chosen)) chosen v1 = (us, v2)" by fastforce
  have top: "snd ` set (top_level_definitions body) \<subseteq> {t \<in> set (ast_walk body). is_definition t}"
    using walk_start [of body] by (auto dest!: top_level_in_body)
  have "set ?wanted \<subseteq> {t \<in> set (ast_walk body). is_definition t}"
  proof (cases wanted)
    case (Inl line)
    then show ?thesis by (auto simp: innermost_definitions_def Let_def)
  next
    case (Inr names)
    have "set (requested_definitions body names) \<subseteq> snd ` set (top_level_definitions body)"
    proof
      fix t
      assume "t \<in> set (requested_definitions body names)"
      then obtain n where "map_of (top_level_definitions body) n = Some t"
        by (auto simp: requested_definitions_def split: option.splits)
      then show "t \<in> snd ` set (top_level_definitions body)" by (force dest: map_of_SomeD)
    qed
    with Inr top show ?thesis by auto
  qed
  with select_unvisited_subset [OF c] select_related_subset [OF u] top
  have "set us \<subseteq> {t \<in> set (ast_walk body). is_definition t}" by blast
  with assms show ?thesis by (auto simp: selected_definitions_def Let_def c u)
qed

section \<open>The interface of a reader\<close>

locale context_reader =
  fixes read :: "'w file_reader" and readable :: "string \<Rightarrow> string \<Rightarrow> bool"
  assumes read_law: "yields_only (read path) (\<lambda>r. case r of Inl _ \<Rightarrow> True | Inr source \<Rightarrow> readable path source)"
begin

text \<open>An item shows a file that the reader returned.\<close>

definition shown :: "string \<Rightarrow> context_item \<Rightarrow> bool" where
  "shown label i \<longleftrightarrow> (\<exists>source. readable (ci_path i) source \<and> displays label source i)"

lemma read_then:
  assumes "\<And>reason. yields_only (f (Inl reason)) Q" "\<And>source. readable path source \<Longrightarrow> yields_only (f (Inr source)) Q"
  shows "yields_only (andthen (read path) f) Q"
  by (rule yields_then [OF read_law [of path]]) (use assms in \<open>auto split: sum.splits\<close>)

definition shown_items :: "string \<Rightarrow> (context_item \<Rightarrow> bool) \<Rightarrow> collection \<Rightarrow> bool" where
  "shown_items label P c \<longleftrightarrow> list_all (\<lambda>i. P i \<or> shown label i) (cl_items c)"

lemma shown_append [simp]:
  "shown_items label P c \<Longrightarrow> P i \<or> shown label i \<Longrightarrow> shown_items label P (append_item i c)"
  "shown_items label P (append_omission x c) = shown_items label P c"
  "shown_items label P (plainly_append x c) = shown_items label P c"
  "shown_items label P (c\<lparr>cl_visited := v\<rparr>) = shown_items label P c"
  "shown_items label P (push_item i c) \<longleftrightarrow> shown_items label P c \<and> (P i \<or> shown label i)"
  by (auto simp: shown_items_def append_item_def append_omission_def plainly_append_def push_item_def)

lemma append_definitions_shown:
  "append_definitions path (split_lines [] source) nodes c = Inr c' \<Longrightarrow> readable path source \<Longrightarrow>
   numbered_from_one nodes \<Longrightarrow> list_all is_definition nodes \<Longrightarrow> shown_items label P c \<Longrightarrow> shown_items label P c'"
proof (induction nodes arbitrary: c)
  case (Cons node nodes)
  from Cons.prems(1) obtain i where i: "definition_item path (split_lines [] source) node = Inr i"
    "append_definitions path (split_lines [] source) nodes (append_item i c) = Inr c'" by (auto simp: bindE_eq_Inr)
  have "0 < ast_line node" using Cons.prems(3,4) by (simp add: numbered_from_one_def)
  from definition_item_displays [OF i(1) this] Cons.prems(2) have "shown label i" by (auto simp: shown_def)
  with Cons.prems i(2) Cons.IH [of "append_item i c"] show ?case by (simp add: numbered_from_one_def)
qed simp

lemma omission_yields:
  assumes "\<And>x. Q (f x)" shows "yields_only (andthen (liftE r) (\<lambda>x. ret (f x))) Q"
  by (rule yields_then [OF yields_any]) (rule yields_return, rule assms)

lemma follow_targets_shown:
  assumes again: "\<And>path source names c. readable path source \<Longrightarrow> shown_items label P c \<Longrightarrow>
      yields_only (again path source names c) (shown_items label P)"
  shows "shown_items label P c \<Longrightarrow> yields_only (follow_targets read again targets c) (shown_items label P)"
proof (induction targets arbitrary: c)
  case Nil
  then show ?case by (simp add: yields_return)
next
  case (Cons t targets)
  obtain path names where t: "t = (path, names)" by fastforce
  show ?case unfolding t follow_targets.simps
    by (rule read_then; rule yields_then [where P = "shown_items label P"])
       (auto intro!: omission_yields again Cons.IH simp: Cons.prems)
qed

lemma collect_imports_shown:
  assumes again: "\<And>path source names c. readable path source \<Longrightarrow> shown_items label P c \<Longrightarrow>
      yields_only (again path source names c) (shown_items label P)"
    and r: "readable path source"
  shows "shown_items label P c \<Longrightarrow>
    yields_only (collect_imports read files path (split_lines [] source) again nodes modules c) (shown_items label P)"
proof (induction modules arbitrary: c)
  case Nil
  then show ?case by (simp add: yields_return)
next
  case (Cons node modules)
  show ?case
  proof (cases "set (bound_names node) \<inter> set (concat (map loaded_unbound_names nodes)) = {}")
    case True
    with Cons show ?thesis by simp
  next
    case False
    have item: "yields_only (liftE (import_item path (split_lines [] source) node)) (shown label)"
      by (rule yields_liftE) (use r import_item_displays in \<open>fastforce simp: shown_def\<close>)
    have "yields_only (andthen (liftE (import_item path (split_lines [] source) node)) (\<lambda>i.
        andthen (liftE (import_targets path files (concat (map loaded_unbound_names nodes)) nodes node)) (\<lambda>targets.
        andthen (follow_targets read again (sort_key (\<lambda>t. casefold (fst t)) targets) (append_item i c)) (\<lambda>c'.
        collect_imports read files path (split_lines [] source) again nodes modules c')))) (shown_items label P)"
      by (rule yields_then [OF item], rule yields_then [OF yields_any],
          rule yields_then [OF follow_targets_shown [OF again]]) (simp_all add: Cons)
    with False show ?thesis by (simp add: Let_def)
  qed
qed

lemma collect_static_items_shown:
  assumes "well_numbered parse"
  shows "readable path source \<Longrightarrow> shown_items label P c \<Longrightarrow>
    yields_only (collect_static_items read parse files depth path source wanted c) (shown_items label P)"
proof (induction depth arbitrary: path source wanted c)
  case 0
  then show ?case by (simp add: yields_raise)
next
  case (Suc depth)
  show ?case
  proof (cases "parse source")
    case (AstParsed body)
    obtain nodes visited where n: "selected_definitions path body wanted (cl_visited c) = (nodes, visited)" by fastforce
    have "numbered_from_one (ast_walk body)" using assms AstParsed by (simp add: well_numbered_def)
    then have d: "numbered_from_one nodes" "list_all is_definition nodes"
      using selected_definitions_nodes [OF n] by (auto simp: numbered_from_one_def list_all_iff)
    have first: "yields_only (liftE (append_definitions path (split_lines [] source) nodes (c\<lparr>cl_visited := visited\<rparr>)))
        (shown_items label P)"
      by (rule yields_liftE) (erule append_definitions_shown, use Suc.prems d in simp_all)
    show ?thesis unfolding collect_static_items.simps AstParsed ast_parse.case Let_def n prod.case
      by (rule yields_then [OF first], rule collect_imports_shown [OF Suc.IH Suc.prems(1)])
  next
    case AstRejected
    then show ?thesis using Suc.prems by (simp add: unparsed_module_def) (rule omission_yields, simp)
  next
    case (AstRaised e)
    then show ?thesis by (simp add: yields_raise)
  qed
qed

lemma frame_items_shown:
  assumes "well_numbered parse" "shown_items label P c"
  shows "yields_only (frame_items read parse files depth frame c) (shown_items label P)"
proof -
  obtain path line where f: "frame = (path, line)" by fastforce
  have item: "yields_only (liftE (plain_item path SOURCE (excerpt source line) 3 line)) (shown label)"
    if "readable path source" for source
    by (rule yields_liftE) (use that excerpt_is_excerpt in \<open>auto dest!: plain_item_Inr simp: shown_def displays_def\<close>)
  have "yields_only (andthen (read path) (\<lambda>r. case r of
      Inl reason \<Rightarrow> andthen (liftE (make_omission path SOURCE reason)) (\<lambda>x. ret (plainly_append x c))
    | Inr source \<Rightarrow> andthen (liftE (plain_item path SOURCE (excerpt source line) 3 line)) (\<lambda>i.
        collect_static_items read parse files depth path source (Inl line) ((push_item i c)\<lparr>cl_visited := []\<rparr>))))
      (shown_items label P)"
    by (rule read_then)
       (auto intro!: omission_yields yields_then [OF item] collect_static_items_shown [OF assms(1)] simp: assms(2))
  then show ?thesis by (auto simp: frame_items_def f intro!: omission_yields simp: assms(2))
qed

lemma all_frame_items_shown:
  assumes "well_numbered parse"
  shows "shown_items label P c \<Longrightarrow> yields_only (all_frame_items read parse files depth frames c) (shown_items label P)"
  by (induction frames arbitrary: c)
     (auto intro!: yields_return yields_then [OF frame_items_shown [OF assms]])

lemma instruction_item_shown:
  "instruction_item label path source = Inr i \<Longrightarrow> readable path source \<Longrightarrow> shown label i"
  by (auto simp: instruction_item_def make_item_def Let_def shown_def displays_def split: if_splits prod.splits)

lemma instruction_items_shown:
  "shown_items label P c \<Longrightarrow> yields_only (instruction_items read label files selected paths c) (shown_items label P)"
proof (induction paths arbitrary: c)
  case Nil
  then show ?case by (simp add: yields_return)
next
  case (Cons path paths)
  have item: "yields_only (liftE (instruction_item label path source)) (shown label)" if "readable path source" for source
    by (rule yields_liftE) (erule instruction_item_shown [OF _ that])
  have "yields_only (andthen (read path) (\<lambda>r. andthen (case r of
        Inl reason \<Rightarrow> andthen (liftE (make_omission path REPOSITORY_INSTRUCTION reason)) (\<lambda>x. ret (plainly_append x c))
      | Inr source \<Rightarrow> andthen (liftE (instruction_item label path source)) (\<lambda>i. ret (push_item i c)))
      (\<lambda>c'. instruction_items read label files selected paths c'))) (shown_items label P)"
  proof (rule read_then; rule yields_then [where P = "shown_items label P"])
    fix source
    assume "readable path source"
    from this have i: "yields_only (liftE (instruction_item label path source)) (shown label)" by (rule item)
    show "yields_only (case Inr source of
        Inl reason \<Rightarrow> andthen (liftE (make_omission path REPOSITORY_INSTRUCTION reason)) (\<lambda>x. ret (plainly_append x c))
      | Inr source \<Rightarrow> andthen (liftE (instruction_item label path source)) (\<lambda>i. ret (push_item i c))) (shown_items label P)"
      unfolding sum.case by (rule yields_then [OF i]) (simp add: yields_return Cons.prems)
  qed (auto intro!: omission_yields Cons.IH simp: Cons.prems)
  then show ?case using Cons by simp
qed

end
section \<open>The guarded reader\<close>

text \<open>The bytes of the file at a path of the repository: read of an ordinary file, as many as its metadata say, and with the
  same metadata afterwards\<close>

definition file_bytes :: "'w context_env \<Rightarrow> string \<Rightarrow> string \<Rightarrow> bytes \<Rightarrow> bool" where
  "file_bytes env root' path data \<longleftrightarrow>
     (\<exists>root_before components before' after' w1 w2 w3 w4.
        ce_lstat env (join_path root' (posix_parts path)) w1 = (Inr before', w2) \<and>
        stat_is_regular before' \<and> \<not> stat_is_reparse before' \<and>
        ce_read_bytes env root' path root_before components before' w2 = (Inr data, w3) \<and>
        ce_lstat env (join_path root' (posix_parts path)) w3 = (Inr after', w4) \<and>
        same_file_identity before' after' \<and> length data = fs_size before')"

text \<open>What a text must be for its file to be readable: of an allowed path, decoded from the bytes of that file, which
  have passed the filter of secrets\<close>

definition readable_source :: "'w context_env \<Rightarrow> string \<Rightarrow> string \<Rightarrow> string \<Rightarrow> bool" where
  "readable_source env root' path source \<longleftrightarrow>
     safe_relative path = Some path \<and> denied_reason path = None \<and>
     (\<exists>data. file_bytes env root' path data \<and> decode_safe data = Some source) \<and> redact_host_paths id source [] = source"

lemma text_of_bytes_Inr:
  "text_of_bytes data = Inr source \<Longrightarrow> decode_safe data = Some source \<and> redact_host_paths id source [] = source"
  by (auto simp: text_of_bytes_def split: option.splits if_splits)

lemma unchanged_read_same:
  assumes "unchanged_read env root' target root_before components before' data w = (Inr True, w')"
  obtains after' w1 where "ce_lstat env target w = (Inr after', w1)" "same_file_identity before' after'"
    "length data = fs_size before'"
  using assms by (auto simp: unchanged_read_def andthen_def ret_def split: prod.splits sum.splits if_splits)

lemma inspected_bytes_of_file:
  "yields_only (inspected_bytes env root' path) (\<lambda>r. case r of Inl _ \<Rightarrow> True | Inr data \<Rightarrow> file_bytes env root' path data)"
proof (rule yields_onlyI)
  fix w r w'
  assume i: "inspected_bytes env root' path w = (Inr r, w')"
  show "case r of Inl _ \<Rightarrow> True | Inr data \<Rightarrow> file_bytes env root' path data"
  proof (cases r)
    case (Inr data)
    let ?target = "join_path root' (posix_parts path)"
    from i Inr obtain root_before components before' w1 w2 w3 w4 where
      l: "ce_lstat env ?target w1 = (Inr before', w2)" "stat_is_regular before'" "\<not> stat_is_reparse before'"
        "ce_read_bytes env root' path root_before (map snd components) before' w2 = (Inr data, w3)"
        "unchanged_read env root' ?target root_before components before' data w3 = (Inr True, w4)"
      by (auto simp: inspected_bytes_def Let_def andthen_def phase_def ret_def split: prod.splits sum.splits if_splits)
    from l(5) obtain after' w5 where "ce_lstat env ?target w3 = (Inr after', w5)" "same_file_identity before' after'"
        "length data = fs_size before'" by (rule unchanged_read_same)
    with l(1-4) have "file_bytes env root' path data" unfolding file_bytes_def by (intro exI conjI)
    with Inr show ?thesis by simp
  qed simp
qed

lemma yields_only_phase:
  fixes m :: "('w, 'e, 'r + 'a) act"
  assumes "yields_only m (\<lambda>r. case r of Inl _ \<Rightarrow> True | Inr y \<Rightarrow> P y)"
    and f: "\<And>x. P x \<Longrightarrow> yields_only (f x) (\<lambda>r. case r of Inl _ \<Rightarrow> True | Inr y \<Rightarrow> Q y)"
  shows "yields_only (phase m f) (\<lambda>r. case r of Inl _ \<Rightarrow> True | Inr y \<Rightarrow> Q y)"
  unfolding phase_def
proof (rule yields_then [OF assms(1)])
  fix r :: "'r + 'a"
  assume "case r of Inl _ \<Rightarrow> True | Inr y \<Rightarrow> P y"
  then show "yields_only (case r of Inl v \<Rightarrow> ret (Inl v) | Inr x \<Rightarrow> f x) (\<lambda>r. case r of Inl _ \<Rightarrow> True | Inr y \<Rightarrow> Q y)"
    by (cases r) (simp_all add: yields_return f)
qed

lemma read_file_readable:
  "yields_only (read_file env root' path) (\<lambda>r. case r of Inl _ \<Rightarrow> True | Inr source \<Rightarrow> readable_source env root' path source)"
proof (cases "safe_relative path = Some path \<and> denied_reason path = None")
  case True
  then have law: "case text_of_bytes data of Inl _ \<Rightarrow> True | Inr source \<Rightarrow> readable_source env root' path source"
    if "file_bytes env root' path data" for data
    using that by (auto dest!: text_of_bytes_Inr simp: readable_source_def split: sum.splits)
  have bytes: "yields_only (catch (inspected_bytes env root' path)
          (\<lambda>e. if e \<in> {CtxOsError, CtxRuntimeError, CtxValueError} then ret (Inl UNREADABLE) else raise e))
      (\<lambda>r. case r of Inl _ \<Rightarrow> True | Inr data \<Rightarrow> file_bytes env root' path data)"
    using inspected_bytes_of_file [of env root' path] unfolding yields_only_def
    by (rule triple_catch) (auto intro: triple_ret triple_raise)
  from True have "read_file env root' path =
      phase (catch (inspected_bytes env root' path)
          (\<lambda>e. if e \<in> {CtxOsError, CtxRuntimeError, CtxValueError} then ret (Inl UNREADABLE) else raise e))
        (\<lambda>data. ret (text_of_bytes data))" by (simp add: read_file_def)
  then show ?thesis by (simp only:) (rule yields_only_phase [OF bytes], rule yields_return, rule law)
next
  case False
  then show ?thesis by (auto simp: read_file_def intro!: yields_return split: option.splits)
qed

interpretation guarded: context_reader "read_file env root'" "readable_source env root'"
  by unfold_locales (rule read_file_readable)

section \<open>Packing\<close>

lemma pack_loop_cases:
  obtains "pack_loop case_id limit included omissions = Inr (included, sort_key omission_key omissions)"
      "used_bytes case_id limit included (sort_key omission_key omissions) \<le> limit"
  | "pack_loop case_id limit included omissions = Inl (selection MANDATORY_CONTEXT_OVERFLOW)"
      "limit < used_bytes case_id limit included (sort_key omission_key omissions)" "removable_item included = None"
  | i where "removable_item included = Some i"
      "pack_loop case_id limit included omissions =
       pack_loop case_id limit (remove1 i included) (sort_key omission_key omissions @ [budget_omission i])"
proof (cases "used_bytes case_id limit included (sort_key omission_key omissions) \<le> limit")
  case True
  then show ?thesis using that(1) pack_loop.simps [of case_id limit included omissions] by (simp add: Let_def)
next
  case False
  then show ?thesis using that(2,3) pack_loop.simps [of case_id limit included omissions]
    by (cases "removable_item included") (simp_all add: Let_def)
qed

lemma removable_item_last:
  "sorted (map item_order included) \<Longrightarrow> removable_item included = Some i \<Longrightarrow>
   list_all (\<lambda>k. ci_priority k \<noteq> 0 \<longrightarrow> item_order k \<le> item_order i) included"
proof (induction included rule: rev_induct)
  case (snoc x xs)
  then show ?case by (auto simp: removable_item_def sorted_append list_all_iff split: if_splits)
qed simp

lemma removable_item_None: "removable_item included = None \<longleftrightarrow> list_all (\<lambda>i. ci_priority i = 0) included"
  by (auto simp: removable_item_def find_None_iff list_all_iff)

lemma sorted_remove1_map: "sorted (map f xs) \<Longrightarrow> sorted (map f (remove1 x xs))"
proof (induction xs)
  case (Cons y xs)
  with set_remove1_subset [of x xs] show ?case by auto
qed simp

text \<open>What a packing keeps, drops and records\<close>

definition packed ::
  "context_item list \<Rightarrow> context_omission list \<Rightarrow> context_item list \<Rightarrow> context_omission list \<Rightarrow>
     context_item list \<Rightarrow> bool" where
  "packed before' omitted kept recorded dropped \<longleftrightarrow>
     mset before' = mset kept + mset dropped \<and>
     mset recorded = mset omitted + mset (map budget_omission dropped) \<and>
     list_all (\<lambda>d. ci_priority d \<noteq> 0 \<and>
       list_all (\<lambda>k. ci_priority k = 0 \<or> item_order k \<le> item_order d) kept) dropped"

lemma packed_refl: "mset omissions' = mset omissions \<Longrightarrow> packed included omissions included omissions' []"
  by (simp add: packed_def)

lemma packed_step:
  assumes "packed (remove1 i included) (sort_key omission_key omissions @ [budget_omission i]) kept recorded dropped"
    and i: "removable_item included = Some i" and "sorted (map item_order included)"
  shows "packed included omissions kept recorded (i # dropped)"
proof -
  note in_included = removable_item_in [OF i]
  have "mset included = mset kept + mset (i # dropped)"
    using assms(1) in_included by (simp add: packed_def) (metis insert_DiffM set_mset_mset)
  moreover have "list_all (\<lambda>k. ci_priority k \<noteq> 0 \<longrightarrow> item_order k \<le> item_order i) included"
    by (rule removable_item_last [OF assms(3) i])
  moreover have "set kept \<subseteq> set included"
    using calculation(1) by (metis set_mset_mset set_mset_union sup_ge1)
  ultimately show ?thesis using assms(1) in_included
    by (auto simp: packed_def list_all_iff)
qed

lemma pack_loop_packed:
  "sorted (map item_order included) \<Longrightarrow> pack_loop case_id limit included omissions = Inr (kept, recorded) \<Longrightarrow>
     used_bytes case_id limit kept recorded \<le> limit \<and> sorted (map omission_key recorded) \<and>
     sorted (map item_order kept) \<and> (\<exists>dropped. packed included omissions kept recorded dropped)"
proof (induction "length included" arbitrary: included omissions rule: less_induct)
  case less
  show ?case
  proof (cases rule: pack_loop_cases [of case_id limit included omissions])
    case 1
    with less.prems show ?thesis by (auto intro!: exI packed_refl)
  next
    case 2
    with less.prems show ?thesis by simp
  next
    case (3 i)
    then have "length (remove1 i included) < length included"
      using removable_item_in [OF 3(1)] by (auto simp: length_remove1 dest: length_pos_if_in_set)
    from less.hyps [OF this sorted_remove1_map [OF less.prems(1)]] 3(2) less.prems(2)
    show ?thesis using packed_step [OF _ 3(1) less.prems(1)] by metis
  qed
qed

lemma pack_loop_overflow:
  "sorted (map item_order included) \<Longrightarrow> pack_loop case_id limit included omissions = Inl e \<Longrightarrow>
     e = selection MANDATORY_CONTEXT_OVERFLOW \<and>
     (\<exists>kept recorded dropped. packed included omissions kept recorded dropped \<and>
        list_all (\<lambda>k. ci_priority k = 0) kept \<and> limit < used_bytes case_id limit kept recorded)"
proof (induction "length included" arbitrary: included omissions rule: less_induct)
  case less
  show ?case
  proof (cases rule: pack_loop_cases [of case_id limit included omissions])
    case 1
    with less.prems show ?thesis by simp
  next
    case 2
    then have "packed included omissions included (sort_key omission_key omissions) []" by (simp add: packed_refl)
    with less.prems 2 show ?thesis by (auto simp: removable_item_None)
  next
    case (3 i)
    then have "length (remove1 i included) < length included"
      using removable_item_in [OF 3(1)] by (auto simp: length_remove1 dest: length_pos_if_in_set)
    from less.hyps [OF this sorted_remove1_map [OF less.prems(1)]] 3(2) less.prems(2)
    show ?thesis using packed_step [OF _ 3(1) less.prems(1)] by metis
  qed
qed

lemma packed_same_items: "mset before' = mset before'' \<Longrightarrow> packed before' omitted = packed before'' omitted"
  by (intro ext) (simp add: packed_def)

lemma context_package_of_Inr:
  "context_package_of case_id analysis candidates omissions limit = Inr p \<Longrightarrow>
     \<exists>recorded. pack_loop case_id limit (sort_key item_order candidates) omissions = Inr (cp_items p, recorded) \<and>
       cp_omissions p = sort_key omission_key recorded \<and> cp_case_id p = case_id \<and> cp_limit_utf8_bytes p = limit \<and>
       cp_failure_analysis p = analysis \<and> cp_protected_path_policy p = default_policy \<and> valid_context_package p"
  by (auto simp: context_package_of_def bindE_eq_Inr Let_def split: if_splits)

end
