(* ===== verification/Context_Run.thy ===== *)
theory Context_Run
  imports Context_Select Baseline_Claims Case_Loader_Claims Classification_Claims
begin

text \<open>
  A selection evaluated to its end: one visible test of one character, a \<open>TabError\<close> in the evidence and
  no traceback frame.  The numbers of the file modes are evaluated by \<open>simp\<close>, the texts by \<open>code_simp\<close>.
\<close>

section \<open>The sample case and its environment\<close>

definition context_case :: trusted_case where
  "context_case = \<lparr>tc_manifest = sample_manifest\<lparr>mf_case_id := rp_case_id sample_preparation, mf_failing_revision := rp_requested_revision sample_preparation,
      mf_visible_tests := [''tests/test_app.py'']\<rparr>,
     tc_case_path = ''/cases/case'', tc_repository_path = ''/cases/case/repository'',
     tc_visible_tests = [''/cases/case/repository/tests/test_app.py''],
     tc_hidden_tests = [''/cases/case/evaluator/hidden_tests/test_app.py''],
     tc_reference_patch = ''/cases/case/evaluator/reference.patch''\<rparr>"

definition sample_dir_stat :: file_stat where "sample_dir_stat = \<lparr>fs_mode = 16384, fs_dev = 1, fs_ino = 1, fs_size = 0, fs_mtime_ns = 0, fs_nlink = 1, fs_reparse_tag = 0, fs_attributes = 0\<rparr>"

definition sample_file_stat :: file_stat where "sample_file_stat = \<lparr>fs_mode = 32768, fs_dev = 1, fs_ino = 2, fs_size = 1, fs_mtime_ns = 0, fs_nlink = 1, fs_reparse_tag = 0, fs_attributes = 0\<rparr>"

definition context_run_env :: "nat context_env" where
  "context_run_env = \<lparr>ce_lstat = (\<lambda>p. ret (if path_suffix p = ''.py'' then sample_file_stat else sample_dir_stat)),
    ce_read_bytes = (\<lambda>_ _ _ _ _. ret [120]), ce_iter_files = (\<lambda>_. ret [''tests/test_app.py'']),
    ce_resolve = ret, ce_loader = (\<lambda>_. ret context_case), ce_fingerprint = (\<lambda>_. ret (rp_fingerprint sample_preparation)),
    ce_instruction_label = ''untrusted'', ce_set_order = id\<rparr>"

definition context_run_analysis :: failure_analysis where
  "context_run_analysis = \<lparr>fa_category = FC_syntax_failure, fa_summary = ''syntax_failure: TabError''\<rparr>"

lemma protected_paths_listed: "default_protected_paths = [''.github/workflows'', ''authentication'', ''authorization'', ''deployment'', ''docker'',
      ''infra'', ''migrations'', ''Pipfile.lock'', ''poetry.lock'', ''secrets'', ''security'', ''terraform'', ''uv.lock'']"
  by code_simp

lemma sample_test_unprotected: "\<not> list_ex (\<lambda>protected. has_parts_prefix (folded_parts ''tests/test_app.py'') (folded_parts protected)) 
   [''.github/workflows'', ''authentication'', ''authorization'', ''deployment'', ''docker'',
      ''infra'', ''migrations'', ''Pipfile.lock'', ''poetry.lock'', ''secrets'', ''security'', ''terraform'', ''uv.lock'']" by code_simp

lemma sample_test_allowed: "denied_reason ''tests/test_app.py'' = None"
proof -
  have "\<not> is_evaluator_path ''tests/test_app.py''" by code_simp
  moreover have "\<not> list_ex (\<lambda>part. part \<in> generated_parts) (folded_parts ''tests/test_app.py'')" by code_simp
  moreover have "\<not> list_ex (\<lambda>part. part \<in> secret_names) (folded_parts ''tests/test_app.py'')" by code_simp
  moreover have "\<not> is_protected_path ''tests/test_app.py''" unfolding is_protected_path_def protected_paths_listed by (rule sample_test_unprotected)
  ultimately show ?thesis by (simp add: denied_reason_def)
qed

lemma sample_test_relative: "safe_relative ''tests/test_app.py'' = Some ''tests/test_app.py''" by code_simp

lemma sample_byte_text: "text_of_bytes [120] = Inr ''x''" by code_simp

lemma sample_test_parts: "posix_parts ''tests/test_app.py'' = [''tests'', ''test_app.py'']" by code_simp

lemma sample_joins: "join_path ''/src'' [''tests'', ''test_app.py''] = ''/src/tests/test_app.py''" "join_path ''/src'' [''tests''] = ''/src/tests''" by code_simp+

lemma sample_suffixes: "path_suffix ''/src/tests/test_app.py'' = ''.py''" "path_suffix ''/src/tests'' = []" "path_suffix ''/src'' = []" by code_simp+

lemma sample_stats: "ordinary_directory sample_dir_stat" "stat_is_regular sample_file_stat" "\<not> stat_is_reparse sample_file_stat" "\<not> stat_is_reparse sample_dir_stat" "\<not> stat_is_link sample_dir_stat" "fs_size sample_file_stat = 1" by (simp_all add: ordinary_directory_def stat_is_dir_def stat_is_regular_def stat_is_link_def stat_is_reparse_def file_type_def sample_dir_stat_def sample_file_stat_def)

lemma same_file_refl: "same_file_identity s s" by (simp add: same_file_identity_def)
lemmas context_runs = andthen_def ret_def phase_def catch_def ensure_def raise_def

lemma sample_env_simps: "ce_lstat context_run_env p = ret (if path_suffix p = ''.py'' then sample_file_stat else sample_dir_stat)"
  "ce_read_bytes context_run_env a b c d e = ret [120]" by (simp_all add: context_run_env_def)

lemma sample_inspected: "inspected_bytes context_run_env ''/src'' ''tests/test_app.py'' 0 = (Inr (Inr [120]), 0)" 
  by (simp add: inspected_bytes_def sample_test_parts sample_joins sample_suffixes sample_stats same_file_refl sample_env_simps context_runs unchanged_read_def)

lemma sample_read: "read_file context_run_env ''/src'' ''tests/test_app.py'' 0 = (Inr (Inr ''x''), 0)" 
  by (simp add: read_file_def sample_test_allowed sample_test_relative catch_def phase_def sample_inspected andthen_def ret_def sample_byte_text)

lemma sample_no_alias: "path_contains_alias context_run_env ''/src'' 0 = (Inr False, 0)"
proof -
  have "posix_root ''/src'' = ''/''" "posix_parts ''/src'' = [''src'']" "join_path ''/'' [''src''] = ''/src''" by code_simp+
  then show ?thesis by (simp add: path_contains_alias_def context_runs sample_env_simps sample_suffixes sample_stats)
qed

lemma sample_inspection: "inspect_repository context_run_env ''/src'' [''tests/test_app.py''] 0 = (Inr (''/src'', [''tests/test_app.py''], rp_fingerprint sample_preparation), 0)" 
proof -
  have "\<not> is_evaluator_path ''tests/test_app.py''" "is_absolute ''/src''" by code_simp+
  then show ?thesis by (simp add: inspect_repository_def context_runs sample_env_simps sample_suffixes sample_stats sample_no_alias)
      (simp add: context_run_env_def context_runs sample_suffixes sample_stats stat_is_dir_def file_type_def sample_dir_stat_def)
qed

definition sample_kept :: "context_item list" where
  "sample_kept = [\<lparr>ci_path = ''metadata/classification.txt'', ci_kind = CLASSIFICATION,
     ci_content = classification_content context_run_analysis, ci_priority = 0, ci_source_line = 0, ci_truncated = False, ci_original_utf8_bytes = 39\<rparr>,
   \<lparr>ci_path = ''metadata/issue.txt'', ci_kind = ISSUE, ci_content = ''issue'', ci_priority = 0, ci_source_line = 0,
     ci_truncated = False, ci_original_utf8_bytes = 5\<rparr>,
   \<lparr>ci_path = ''metadata/protected-path-policy.txt'', ci_kind = PROTECTED_PATH_POLICY, ci_content = policy_content default_policy,
     ci_priority = 0, ci_source_line = 0, ci_truncated = False, ci_original_utf8_bytes = 141\<rparr>,
   \<lparr>ci_path = ''evidence/pytest-trace.txt'', ci_kind = FAILURE_TRACE, ci_content = ''TabError'', ci_priority = 1, ci_source_line = 0,
     ci_truncated = False, ci_original_utf8_bytes = 8\<rparr>,
   \<lparr>ci_path = ''tests/test_app.py'', ci_kind = VISIBLE_TEST, ci_content = ''1: x'', ci_priority = 2, ci_source_line = 1,
     ci_truncated = False, ci_original_utf8_bytes = 4\<rparr>]"

lemma sample_policy_content: "policy_content default_policy = ''.github/workflows'' @ newline # ''authentication'' @ newline # ''authorization'' @ newline # ''deployment'' @ newline # ''docker'' @ newline # 
  ''infra'' @ newline # ''migrations'' @ newline # ''Pipfile.lock'' @ newline # ''poetry.lock'' @ newline # ''secrets'' @ newline # ''security'' @ newline # ''terraform'' @ newline # ''uv.lock''"
  unfolding policy_content_def default_policy_def protected_path_policy.simps protected_paths_listed by code_simp

lemma sample_policy_length: "utf8_len (policy_content default_policy) = 141" unfolding sample_policy_content by code_simp

lemma sample_kept_sorted: "sorted (map item_order sample_kept)" unfolding sample_kept_def by code_simp

lemma utf8_len_at_most: "utf8_len s \<le> 2 * length s"
  by (induction s) (auto simp: utf8_len_def utf8_char_len_def)

definition sample_candidates :: "context_item list" where
  "sample_candidates = [sample_kept ! 1, sample_kept ! 0, sample_kept ! 2, sample_kept ! 3, sample_kept ! 4]"

lemma sample_candidates_sorted: "sort_key item_order sample_candidates = sample_kept"
  unfolding sample_candidates_def sample_kept_def sample_policy_content by code_simp

lemma sample_kept_valid: "list_all valid_context_item sample_kept"
  unfolding sample_kept_def sample_policy_content by code_simp

lemma sample_rendered_length: "length (render_downstream ''case'' sample_kept [] 9999 False) \<le> 1000" 
proof -
  have "decimal 9999 = ''9999''" "decimal 0 = ''0''" "decimal 39 = ''39''" "decimal 5 = ''5''" "decimal 141 = ''141''" "decimal 8 = ''8''"
   "decimal 4 = ''4''" "decimal 1 = ''1''" "decimal 2 = ''2''"
    by (simp add: decimal.simps) code_simp+
  then show ?thesis
  by (simp add: sample_kept_def render_downstream_def item_text_def sample_policy_content classification_content_def context_run_analysis_def bool_digit_def)
qed

lemma sample_fits: "used_bytes ''case'' 9999 sample_kept [] \<le> 9999"
proof -
  have "material_omitted sample_kept [] = False" by (simp add: sample_kept_def material_omitted_def)
  then show ?thesis using sample_rendered_length utf8_len_at_most [of "render_downstream ''case'' sample_kept [] 9999 False"] by (simp add: used_bytes_def downstream_utf8_size_def)
qed

lemma sample_keys_distinct: "distinct (map item_key sample_kept)" unfolding sample_kept_def sample_policy_content by code_simp

lemma default_policy_valid: "valid_protected_path_policy default_policy" unfolding default_policy_def protected_paths_listed by code_simp

lemma sample_summary_trimmed: "trim ''syntax_failure: TabError'' = ''syntax_failure: TabError''" by code_simp

lemma sample_summary: "failure_summary id FC_syntax_failure (''TabError'' @ [newline]) ''/src'' = ''syntax_failure: TabError''"
  by code_simp

lemma sample_classified: "classify_failure id (sample_reproduced ''TabError'') = Inr context_run_analysis" 
  using sample_signals sample_not_denied sample_summary sample_summary_trimmed sample_preparation_valid
  by (simp add: classify_failure_def classifiable_def sample_reproduced_def classify_evidence_def Let_def
      combined_evidence_def make_analysis_def valid_baseline_evidence_def context_run_analysis_def sample_preparation_def)

lemma sample_confirmed: "confirmed_analysis id (sample_reproduced ''TabError'') context_run_analysis = Inr (the (br_evidence (sample_reproduced ''TabError'')))"
  by (simp add: confirmed_analysis_def sample_classified) (simp add: sample_reproduced_def)

lemma sample_raw_evidence: "raw_evidence (the (br_evidence (sample_reproduced ''TabError''))) = ''TabError''"
  unfolding sample_reproduced_def by code_simp

lemma sample_visible_test: "visible_test [''tests/test_app.py''] ''TabError'' [] = Inr (''tests/test_app.py'', None)" by code_simp

lemma sample_safe_evidence: "\<not> evidence_has_unsafe_path ''TabError''" by code_simp

lemma sample_no_frames: "traceback_frames ''TabError'' = []" by code_simp

lemma sample_trusted_tests: "trusted_tests context_case = Inr [''tests/test_app.py'']" by code_simp

lemma sample_evidence_redacted: "redact_untrusted_evidence id ''TabError'' ''/src'' = ''TabError''" by code_simp

lemma sample_issue_redacted: "redact_untrusted_evidence id ''issue'' [] = ''issue''" by code_simp

lemma sample_mandatory: "mandatory_items id ''issue'' context_run_analysis = Inr [sample_kept ! 1, sample_kept ! 0, sample_kept ! 2]"
proof -
  have "utf8_len ''issue'' = 5" "utf8_len (classification_content context_run_analysis) = 39" by code_simp+
  moreover note sample_policy_length sample_kept_valid
  ultimately show ?thesis by (simp add: mandatory_items_def sample_issue_redacted plain_item_def make_item_def sample_kept_def bindE_def)
qed

lemma sample_trace: "trace_item ''TabError'' = Inr (sample_kept ! 3)"
proof -
  have "utf8_len ''TabError'' = 8" by code_simp
  moreover note sample_kept_valid
  ultimately show ?thesis by (simp add: trace_item_def bounded_utf8_def make_item_def sample_kept_def)
qed

lemma sample_visible_item: "visible_item ''tests/test_app.py'' ''x'' (Suc 0) = Inr (sample_kept ! 4)"
proof -
  have "utf8_len ''1: x'' = 4" "excerpt ''x'' (Suc 0) = ''1: x''" by code_simp+
  moreover note sample_kept_valid
  ultimately show ?thesis by (simp add: visible_item_def plain_item_def make_item_def sample_kept_def)
qed

lemma sample_instructions: "instruction_paths [''tests/test_app.py''] ''tests/test_app.py'' sample_candidates = [''AGENTS.md'', ''README.md'', ''tests/AGENTS.md'']"
  unfolding sample_candidates_def sample_kept_def sample_policy_content by code_simp

lemma sample_instructions_sorted: "sort_key casefold [''AGENTS.md'', ''README.md'', ''tests/AGENTS.md''] = [''AGENTS.md'', ''README.md'', ''tests/AGENTS.md'']" by code_simp

lemma sample_candidates_list: "[sample_kept ! Suc 0, sample_kept ! 0, sample_kept ! 2, sample_kept ! 3, sample_kept ! 4] = sample_candidates" by (simp add: sample_candidates_def)

lemma sample_candidates_append: "[sample_kept ! Suc 0, sample_kept ! 0, sample_kept ! 2] @ [sample_kept ! 3, sample_kept ! 4] = sample_candidates" by (simp add: sample_candidates_def)

lemma sample_context_candidates: "context_candidates (read_file context_run_env ''/src'') id label (\<lambda>_. AstRejected) depth ''issue'' [''tests/test_app.py''] ''tests/test_app.py'' None []
  ''TabError'' context_run_analysis 0 = (Inr \<lparr>cl_items = sample_candidates, cl_omissions = [], cl_visited = []\<rparr>, 0)"
  by (simp add: context_candidates_def sample_mandatory sample_trace liftE_def context_runs sample_read test_line_def frame_line_def sample_visible_item sample_candidates_list sample_candidates_append)
   (simp add: sample_instructions sample_instructions_sorted ret_def)

lemma sample_packaged: "context_package_of ''case'' context_run_analysis sample_candidates [] 9999 = Inr
  \<lparr>cp_case_id = ''case'', cp_failure_analysis = context_run_analysis, cp_protected_path_policy = default_policy,
        cp_items = sample_kept, cp_omissions = [], cp_limit_utf8_bytes = 9999,
        cp_actual_utf8_bytes = used_bytes ''case'' 9999 sample_kept [],
        cp_safe_material_omitted = False\<rparr>"
proof -
  have m: "material_omitted sample_kept [] = False" by (simp add: sample_kept_def material_omitted_def)
  have "pack_loop ''case'' 9999 sample_kept [] = Inr (sample_kept, [])"
    using sample_fits pack_loop.simps [of "''case''" 9999 sample_kept "[]"] by simp
  moreover have "list_ex (\<lambda>i. ci_kind i = ISSUE) sample_kept"
    "list_ex (\<lambda>i. ci_kind i = CLASSIFICATION \<and> ci_content i = classification_content context_run_analysis) sample_kept"
    "list_ex (\<lambda>i. ci_kind i = PROTECTED_PATH_POLICY \<and> ci_content i = policy_content default_policy) sample_kept"
    "list_ex ci_truncated sample_kept = False"
    by (simp_all add: sample_kept_def)
  moreover have "valid_failure_analysis context_run_analysis" "non_blank ''case''" by code_simp+
  ultimately show ?thesis using sample_fits sample_kept_sorted sample_kept_valid sample_keys_distinct default_policy_valid
    by (simp add: context_package_of_def sample_candidates_sorted bindE_def Let_def m valid_context_package_def context_accounting_ok_def
      downstream_text_def used_bytes_def downstream_utf8_size_def)
qed

lemma sample_selected: "\<exists>p. select_context context_run_env (\<lambda>_. AstRejected) depth 9999 (sample_reproduced ''TabError'') context_run_analysis 0 = (Inr p, 0) \<and> cp_items p = sample_kept"
proof -
  have e: "ce_set_order context_run_env = id" "ce_loader context_run_env i = ret context_case"
    "ce_fingerprint context_run_env r = ret (rp_fingerprint sample_preparation)" for i r by (simp_all add: context_run_env_def)
  have p: "br_preparation (sample_reproduced ''TabError'') = sample_preparation" "rp_case_id sample_preparation = ''case''"
     "rp_prepared_repository sample_preparation = ''/src''" by (simp_all add: sample_reproduced_def sample_preparation_def)
  have c: "mf_case_id (tc_manifest context_case) = ''case''" "mf_failing_revision (tc_manifest context_case) = rp_requested_revision sample_preparation"
     "mf_visible_tests (tc_manifest context_case) = [''tests/test_app.py'']" "mf_issue_description (tc_manifest context_case) = ''issue''"
    by (simp_all add: context_case_def p sample_manifest_def)
  show ?thesis
    by (simp add: select_context_def e p c sample_confirmed sample_raw_evidence sample_trusted_tests sample_inspection sample_safe_evidence sample_no_frames sample_visible_test sample_evidence_redacted sample_context_candidates sample_packaged liftE_def selecting_def context_runs Let_def)
qed
end
