(* ===== verification/Context_Claims.thy ===== *)
theory Context_Claims
  imports Context_Facts Context_Run
begin

text \<open>
  The properties of context selection: what a package may show, what the packing keeps, and the inputs on
  which the selection fails.  \<open>Context_Run\<close> is the sample run of the witnesses.
\<close>

section \<open>Packing\<close>

text \<open>C10: a packed context package renders within the byte limit; every candidate item is in it or is
  recorded as a budget omission; nothing of priority zero is dropped, and nothing dropped comes before
  an optional item that was kept.\<close>

theorem context_package_fits:
  assumes "context_package_of case_id analysis candidates omissions limit = Inr p"
  shows "utf8_len (downstream_text p) \<le> limit \<and> valid_context_package p \<and> cp_failure_analysis p = analysis \<and>
    (\<exists>dropped. packed candidates omissions (cp_items p) (cp_omissions p) dropped)"
proof -
  from context_package_of_Inr [OF assms] obtain recorded where
    r: "pack_loop case_id limit (sort_key item_order candidates) omissions = Inr (cp_items p, recorded)"
      "cp_omissions p = sort_key omission_key recorded" "cp_limit_utf8_bytes p = limit"
      "cp_failure_analysis p = analysis" "valid_context_package p" by blast
  from pack_loop_packed [OF _ r(1)] obtain dropped where
    "packed (sort_key item_order candidates) omissions (cp_items p) recorded dropped" by auto
  then have "packed candidates omissions (cp_items p) (cp_omissions p) dropped"
    using packed_same_items [of "sort_key item_order candidates" candidates omissions] r(2)
    by (simp add: packed_def)
  moreover have "utf8_len (downstream_text p) \<le> limit"
    using r(3,5) by (simp add: valid_context_package_def context_accounting_ok_def)
  ultimately show ?thesis using r(4,5) by blast
qed

text \<open>The mandatory overflow is raised only when the items of priority zero alone, with every other
  candidate recorded as an omission, exceed the limit.\<close>

theorem context_overflow_is_mandatory:
  assumes "context_package_of case_id analysis candidates omissions limit = Inl (selection MANDATORY_CONTEXT_OVERFLOW)"
  shows "\<exists>kept recorded dropped. packed candidates omissions kept recorded dropped \<and>
    list_all (\<lambda>k. ci_priority k = 0) kept \<and> limit < used_bytes case_id limit kept recorded"
proof -
  from assms have "pack_loop case_id limit (sort_key item_order candidates) omissions =
      Inl (selection MANDATORY_CONTEXT_OVERFLOW)"
    by (auto simp: context_package_of_def bindE_def Let_def split: sum.splits if_splits)
  from pack_loop_overflow [OF _ this] show ?thesis
    using packed_same_items [of "sort_key item_order candidates" candidates omissions] by auto
qed

theorem context_package_fits_witness:
  "\<exists>p. context_package_of ''case'' context_run_analysis sample_candidates [] 9999 = Inr p \<and>
     utf8_len (downstream_text p) \<le> 9999 \<and> valid_context_package p \<and>
     (\<exists>dropped. packed sample_candidates [] (cp_items p) (cp_omissions p) dropped)"
  using context_package_fits [OF sample_packaged] sample_packaged by blast

text \<open>An optional item and a limit of five bytes\<close>

definition sample_optional :: context_item where
  "sample_optional = \<lparr>ci_path = ''a.py'', ci_kind = SOURCE, ci_content = ''x'', ci_priority = 3, ci_source_line = 1,
     ci_truncated = False, ci_original_utf8_bytes = 1\<rparr>"

lemma sample_overflow:
  "context_package_of ''case'' context_run_analysis [sample_optional] [] 5 = Inl (selection MANDATORY_CONTEXT_OVERFLOW)"
proof -
  have r: "removable_item [sample_optional] = Some sample_optional" "removable_item [] = None"
    by (simp_all add: removable_item_def sample_optional_def)
  have "5 < used_bytes ''case'' 5 [sample_optional] []" "5 < used_bytes ''case'' 5 [] [budget_omission sample_optional]"
    by code_simp+
  then have "pack_loop ''case'' 5 [sample_optional] [] = Inl (selection MANDATORY_CONTEXT_OVERFLOW)"
    by (simp add: pack_loop.simps [of _ _ "[sample_optional]"] pack_loop.simps [of _ _ "[]"] r Let_def)
  then show ?thesis by (simp add: context_package_of_def bindE_def)
qed

theorem context_overflow_is_mandatory_witness:
  "\<exists>kept recorded dropped. packed [sample_optional] [] kept recorded dropped \<and>
    list_all (\<lambda>k. ci_priority k = 0) kept \<and> 5 < used_bytes ''case'' 5 kept recorded"
  by (rule context_overflow_is_mandatory [OF sample_overflow])

section \<open>What a package shows\<close>

text \<open>The items that do not come from the repository, with their contents\<close>

definition own_item :: "string \<Rightarrow> failure_analysis \<Rightarrow> string \<Rightarrow> context_item \<Rightarrow> bool" where
  "own_item issue analysis evidence i \<longleftrightarrow>
     (ci_path i, ci_kind i, ci_content i) \<in>
       {(''metadata/issue.txt'', ISSUE, issue),
        (''metadata/classification.txt'', CLASSIFICATION, classification_content analysis),
        (''metadata/protected-path-policy.txt'', PROTECTED_PATH_POLICY, policy_content default_policy),
        (''evidence/pytest-trace.txt'', FAILURE_TRACE, fst (bounded_utf8 evidence 2048))}"

definition shows_only_readable ::
  "'w context_env \<Rightarrow> string \<Rightarrow> string \<Rightarrow> string \<Rightarrow> failure_analysis \<Rightarrow> string \<Rightarrow> context_item list \<Rightarrow> bool" where
  "shows_only_readable env root' label issue analysis evidence items \<longleftrightarrow>
     list_all (\<lambda>i. own_item issue analysis evidence i \<or>
       (\<exists>source. readable_source env root' (ci_path i) source \<and> displays label source i)) items"

lemma mandatory_items_own:
  "mandatory_items set_order issue analysis = Inr items \<Longrightarrow>
     list_all (own_item (redact_untrusted_evidence set_order issue []) analysis evidence) items"
  by (auto simp: mandatory_items_def bindE_eq_Inr own_item_def dest!: plain_item_Inr)

lemma trace_item_own: "trace_item evidence = Inr i \<Longrightarrow> own_item issue analysis evidence i"
  by (auto simp: trace_item_def make_item_def Let_def own_item_def split: prod.splits if_splits)

lemma context_candidates_shown:
  fixes env :: "'w context_env"
  assumes "well_numbered parse"
  shows "yields_only (context_candidates (read_file env root') set_order label parse depth issue files visible node
      frames evidence analysis)
    (\<lambda>c. shows_only_readable env root' label (redact_untrusted_evidence set_order issue []) analysis evidence (cl_items c))"
proof -
  let ?own = "own_item (redact_untrusted_evidence set_order issue []) analysis evidence"
  have e: "(\<lambda>c. shows_only_readable env root' label (redact_untrusted_evidence set_order issue []) analysis evidence (cl_items c)) =
      guarded.shown_items TYPE('w) env root' label ?own"
    by (intro ext) (simp add: shows_only_readable_def guarded.shown_items_def guarded.shown_def)
  have m: "yields_only (liftE (mandatory_items set_order issue analysis)) (list_all ?own)"
    by (rule yields_liftE) (erule mandatory_items_own)
  have t: "yields_only (liftE (trace_item evidence)) ?own"
    by (rule yields_liftE) (erule trace_item_own)
  have v: "yields_only (liftE (visible_item visible source line)) (guarded.shown TYPE('w) env root' label)"
    if "readable_source env root' visible source" for source line
    by (rule yields_liftE) (use that excerpt_is_excerpt in
      \<open>auto dest!: plain_item_Inr simp: visible_item_def guarded.shown_def displays_def\<close>)
  have start: "guarded.shown_items TYPE('w) env root' label ?own \<lparr>cl_items = items @ [trace, i], cl_omissions = [], cl_visited = []\<rparr>"
    if "list_all ?own items" "?own trace" "guarded.shown TYPE('w) env root' label i" for items trace i
    using that by (auto simp: guarded.shown_items_def list_all_iff)
  show ?thesis unfolding e context_candidates_def
  proof (rule yields_then [OF m], rule yields_then [OF t], rule guarded.read_then, goal_cases)
    case (1 items trace reason)
    then show ?case by (simp add: yields_raise)
  next
    case (2 items trace source)
    show ?case unfolding sum.case
      by (rule yields_then [OF yields_any], rule yields_then [OF v [OF 2(3)]],
          rule yields_then [OF guarded.all_frame_items_shown [OF assms start [OF 2(1,2)]]], assumption,
          erule guarded.instruction_items_shown)
  qed
qed

lemma shows_only_readable_subset:
  "shows_only_readable env root' label issue analysis evidence xs \<Longrightarrow> set ys \<subseteq> set xs \<Longrightarrow>
     shows_only_readable env root' label issue analysis evidence ys"
  by (auto simp: shows_only_readable_def list_all_iff)

lemma andthen_Inr: "andthen m f w = (Inr y, w') \<longleftrightarrow> (\<exists>x v. m w = (Inr x, v) \<and> f x v = (Inr y, w'))"
  by (auto simp: andthen_def split: prod.splits sum.splits)

lemma ensure_Inr: "ensure e b w = (Inr y, w') \<longleftrightarrow> b \<and> w' = w"
  by (auto simp: ensure_def ret_def raise_def)

lemma liftE_Inr: "liftE r w = (Inr y, w') \<longleftrightarrow> r = Inr y \<and> w' = w"
  by (auto simp: liftE_def ret_def raise_def split: sum.splits)

lemma selecting_Inr: "selecting c caught m w = (Inr y, w') \<longleftrightarrow> m w = (Inr y, w')"
  by (auto simp: selecting_def catch_def raise_def split: prod.splits sum.splits if_splits)

lemma confirmed_analysis_Inr:
  "confirmed_analysis set_order baseline analysis = Inr e \<Longrightarrow>
     classify_failure set_order baseline = Inr analysis \<and> br_evidence baseline = Some e"
  by (auto simp: confirmed_analysis_def split: sum.splits classification_error.splits if_splits option.splits)

text \<open>C9: with a parser that numbers the lines from 1, when selection returns a package, the analysis is the classification of the baseline, the
  package fits the limit, and every item is metadata, the redacted evidence, or numbered lines (or a
  labelled prefix) of the file at its path in the prepared repository.  That path is neither protected, generated,
  secret by name nor of the evaluator; the text is the decoding of bytes read from that very file, an ordinary one whose
  metadata are the same before and after, and these bytes have passed the filter of secrets (the filter looks at the
  bytes before carriage returns become newlines, so it is no proof that no line of the text is a secret).\<close>

theorem selected_context_is_readable:
  assumes "select_context env parse depth limit baseline analysis w = (Inr p, w')" and "well_numbered parse"
  shows "0 < limit \<and> utf8_len (downstream_text p) \<le> nat limit \<and> valid_context_package p \<and>
    classify_failure (ce_set_order env) baseline = Inr analysis \<and> cp_failure_analysis p = analysis \<and>
    (\<exists>e c v v' u u' root'. br_evidence baseline = Some e \<and> \<not> evidence_has_unsafe_path (raw_evidence e) \<and>
       ce_loader env (rp_case_id (br_preparation baseline)) v = (Inr c, v') \<and>
       ce_resolve env (rp_prepared_repository (br_preparation baseline)) u = (Inr root', u') \<and>
       shows_only_readable env root' (ce_instruction_label env)
         (redact_untrusted_evidence (ce_set_order env) (mf_issue_description (tc_manifest c)) []) analysis
         (redact_untrusted_evidence (ce_set_order env) (raw_evidence e) root') (cp_items p))"
proof -
  from assms(1) obtain e c v1 v2 v3 v4 u u' found visible_paths files visible node candidates where
    l: "0 < limit" and e: "confirmed_analysis (ce_set_order env) baseline analysis = Inr e" and
    c: "ce_loader env (rp_case_id (br_preparation baseline)) v1 = (Inr c, v2)" and
    n: "\<not> evidence_has_unsafe_path (raw_evidence e)" and
    i: "inspect_repository env (rp_prepared_repository (br_preparation baseline)) visible_paths u = (Inr found, u')" and
    k: "context_candidates (read_file env (fst found)) (ce_set_order env) (ce_instruction_label env) parse depth
         (mf_issue_description (tc_manifest c)) files visible node (traceback_frames (raw_evidence e))
         (redact_untrusted_evidence (ce_set_order env) (raw_evidence e) (fst found)) analysis v3 = (Inr candidates, v4)" and
    p: "context_package_of (mf_case_id (tc_manifest c)) analysis (cl_items candidates)
        (cl_omissions candidates) (nat limit) = Inr p"
    unfolding select_context_def andthen_Inr ensure_Inr liftE_Inr selecting_Inr Let_def case_prod_beta
    by (elim exE conjE) (rule that; assumption)
  from yields_onlyD [OF context_candidates_shown [OF assms(2)] k]
  have "shows_only_readable env (fst found) (ce_instruction_label env)
         (redact_untrusted_evidence (ce_set_order env) (mf_issue_description (tc_manifest c)) []) analysis
         (redact_untrusted_evidence (ce_set_order env) (raw_evidence e) (fst found)) (cl_items candidates)" .
  moreover from context_package_of_Inr [OF p] obtain recorded where
    r: "pack_loop (mf_case_id (tc_manifest c)) (nat limit) (sort_key item_order (cl_items candidates))
          (cl_omissions candidates) = Inr (cp_items p, recorded)"
      "cp_limit_utf8_bytes p = nat limit" "cp_failure_analysis p = analysis" "valid_context_package p" by blast
  have "set (cp_items p) \<subseteq> set (cl_items candidates)"
    using pack_loop_packed [OF _ r(1)] by (auto simp: packed_def dest!: arg_cong [where f = set_mset])
  ultimately have "shows_only_readable env (fst found) (ce_instruction_label env)
         (redact_untrusted_evidence (ce_set_order env) (mf_issue_description (tc_manifest c)) []) analysis
         (redact_untrusted_evidence (ce_set_order env) (raw_evidence e) (fst found)) (cp_items p)"
    by (rule shows_only_readable_subset)
  moreover have "utf8_len (downstream_text p) \<le> nat limit"
    using r(2,4) by (simp add: valid_context_package_def context_accounting_ok_def)
  moreover from i obtain x x' where "ce_resolve env (rp_prepared_repository (br_preparation baseline)) x = (Inr (fst found), x')"
    by (auto simp: inspect_repository_def andthen_Inr ensure_Inr ret_def)
  ultimately show ?thesis using l n c r(3,4) confirmed_analysis_Inr [OF e] by blast
qed

theorem selected_context_is_readable_witness:
  "\<exists>p. select_context context_run_env (\<lambda>_. AstRejected) 9 9999 (sample_reproduced ''TabError'') context_run_analysis 0 =
      (Inr p, 0) \<and> utf8_len (downstream_text p) \<le> nat 9999 \<and> length (cp_items p) = 5"
proof -
  obtain p where p: "select_context context_run_env (\<lambda>_. AstRejected) 9 9999 (sample_reproduced ''TabError'')
      context_run_analysis 0 = (Inr p, 0)" "cp_items p = sample_kept" using sample_selected by blast
  have "well_numbered (\<lambda>_. AstRejected)" by (simp add: well_numbered_def)
  from selected_context_is_readable [OF p(1) this] p show ?thesis by (auto simp: sample_kept_def)
qed

section \<open>Inputs on which selection fails\<close>

text \<open>\<open>_decode_safe\<close> looks for secrets before it turns carriage returns into newlines, so a password
  line that starts after a bare carriage return is returned, as a text that the same test rejects.\<close>

theorem carriage_return_hides_a_secret:
  "decode_safe (utf8_encode (''x'' @ [carriage_return] @ ''password=abc'')) = Some (''x'' @ [newline] @ ''password=abc'') \<and>
   secret_content (''x'' @ [newline] @ ''password=abc'')"
  by code_simp

text \<open>Two definitions of one file, each larger than the limit\<close>

definition large_definition :: "nat \<Rightarrow> context_item" where
  "large_definition line = \<lparr>ci_path = ''a.py'', ci_kind = DEFINITION, ci_content = replicate 6000 (CHR ''x''),
     ci_priority = 4, ci_source_line = line, ci_truncated = False, ci_original_utf8_bytes = 6000\<rparr>"

text \<open>A relative import of a sibling in a module at the root of the repository has the empty path as
  its stem, and \<open>with_suffix\<close> raises on it: selection ends with a \<open>ValueError\<close>.\<close>

theorem root_relative_import_raises:
  "import_targets ''a.py'' files referenced nodes (AstImportFrom None aliases 1 first final) = Inl CtxValueError"
proof -
  have "module_base ''a.py'' 1 = Some []" "with_py_suffix [] = Inl CtxValueError"
    "filter (\<lambda>p. p \<noteq> []) (split_on (CHR ''.'') []) = []" by code_simp+
  then show ?thesis by (simp add: module_path_def Let_def bindE_def)
qed

lemma utf8_len_at_least: "length s \<le> utf8_len s"
  by (induction s) (auto simp: utf8_len_def utf8_char_len_def)

lemma large_definition_rendered: "6000 \<le> length (item_text (large_definition n))"
  by (simp add: item_text_def large_definition_def)

lemma render_length:
  "length (render_downstream c items omissions limit b) =
     length ([CHR ''['']) + length (''context|'' @ c @ ''|limit='' @ decimal limit @ ''|omitted='' @ bool_digit b @ '']'' @ [newline]) +
     sum_list (map (length \<circ> item_text) items) + sum_list (map (length \<circ> omission_text) omissions)"
  by (simp add: render_downstream_def length_concat comp_def)

lemma large_definition_overflows:
  "large_definition n \<in> set items \<Longrightarrow> 5000 < used_bytes c 5000 items omissions"
proof -
  assume "large_definition n \<in> set items"
  then have "length (item_text (large_definition n)) \<le> sum_list (map (length \<circ> item_text) items)"
    by (intro member_le_sum_list) auto
  with large_definition_rendered [of n]
  have "6000 \<le> length (render_downstream c items omissions 5000 (material_omitted items omissions))"
    by (simp add: render_length)
  then show ?thesis
    using utf8_len_at_least [of "render_downstream c items omissions 5000 (material_omitted items omissions)"]
    by (simp add: used_bytes_def downstream_utf8_size_def)
qed

lemma large_definitions_omitted:
  "budget_omission (large_definition n) = \<lparr>co_path = ''a.py'', co_kind = DEFINITION, co_reason = BUDGET\<rparr>"
  by (simp add: budget_omission_def large_definition_def)

lemma sample_fits_without_large:
  "used_bytes ''case'' 5000 sample_kept (replicate 2 (budget_omission (large_definition n))) \<le> 5000"
proof -
  let ?o = "\<lparr>co_path = ''a.py'', co_kind = DEFINITION, co_reason = BUDGET\<rparr>"
  have o: "length (omission_text ?o) \<le> 60" by code_simp
  have d: "length (decimal 5000) = 4" "length (decimal 9999) = 4" by (simp_all add: decimal.simps)
  have "length (render_downstream ''case'' sample_kept [?o, ?o] 5000 True) =
      length (render_downstream ''case'' sample_kept [] 9999 False) + 2 * length (omission_text ?o)"
    unfolding render_length by (simp add: d bool_digit_def)
  with o sample_rendered_length
  have "length (render_downstream ''case'' sample_kept (replicate 2 (budget_omission (large_definition n))) 5000 True) \<le> 1200"
    by (simp add: large_definitions_omitted numeral_2_eq_2)
  then show ?thesis
    using utf8_len_at_most [of "render_downstream ''case'' sample_kept (replicate 2 (budget_omission (large_definition n))) 5000 True"]
    by (simp add: used_bytes_def downstream_utf8_size_def material_omitted_def large_definitions_omitted numeral_2_eq_2)
qed

lemma large_after_sample: "sorted (map item_order (sample_kept @ [large_definition 3, large_definition 9]))"
  using sample_kept_sorted
  by (simp add: sorted_append) (auto simp: sample_kept_def item_order_def large_definition_def)

lemma large_definitions_dropped:
  "pack_loop ''case'' 5000 (sample_kept @ [large_definition 3, large_definition 9]) [] =
     Inr (sample_kept, replicate 2 (budget_omission (large_definition 3)))"
proof -
  let ?o = "budget_omission (large_definition 3)"
  have same: "budget_omission (large_definition 9) = ?o" by (simp add: large_definitions_omitted)
  have last: "removable_item (xs @ [large_definition n]) = Some (large_definition n)" for xs n
    by (simp add: removable_item_def large_definition_def)
  have fresh: "large_definition n \<notin> set sample_kept" for n
    by (auto simp: sample_kept_def large_definition_def)
  have differ: "large_definition 3 \<noteq> large_definition 9" by (simp add: large_definition_def)
  have "pack_loop ''case'' 5000 (sample_kept @ [large_definition 3, large_definition 9]) [] =
      pack_loop ''case'' 5000 (sample_kept @ [large_definition 3]) [?o]"
    using last [of "sample_kept @ [large_definition 3]" 9] fresh differ
      large_definition_overflows [of 9 "sample_kept @ [large_definition 3, large_definition 9]" "''case''" "[]"]
    by (simp add: pack_loop.simps [of _ _ "sample_kept @ [large_definition 3, large_definition 9]"] remove1_append same)
  also have "\<dots> = pack_loop ''case'' 5000 sample_kept [?o, ?o]"
    using last [of sample_kept 3] fresh
      large_definition_overflows [of 3 "sample_kept @ [large_definition 3]" "''case''" "[?o]"]
    by (simp add: pack_loop.simps [of _ _ "sample_kept @ [large_definition 3]"] remove1_append)
  also have "\<dots> = Inr (sample_kept, [?o, ?o])"
    using sample_fits_without_large [of 3]
    by (simp add: pack_loop.simps [of _ _ sample_kept] numeral_2_eq_2)
  finally show ?thesis by (simp add: numeral_2_eq_2)
qed

text \<open>When the byte limit drops two definitions of one file, the omission is recorded twice, and the
  package constructor rejects the duplicate: packing raises although the remaining items fit.\<close>

theorem two_dropped_definitions_raise:
  "context_package_of ''case'' context_run_analysis
     (sample_kept @ [large_definition 3, large_definition 9]) [] 5000 = Inl CtxValueError \<and>
   (\<exists>p. context_package_of ''case'' context_run_analysis sample_candidates [] 9999 = Inr p \<and> cp_items p = sample_kept)"
proof -
  let ?o = "budget_omission (large_definition 3)"
  have "sort_key item_order (sample_kept @ [large_definition 3, large_definition 9]) =
      sample_kept @ [large_definition 3, large_definition 9]"
    by (rule sort_key_id_if_sorted [OF large_after_sample])
  moreover have "\<not> distinct (map omission_key [?o, ?o])" by simp
  ultimately show ?thesis
    using large_definitions_dropped sample_packaged
    by (simp add: context_package_of_def [of _ _ "sample_kept @ [large_definition 3, large_definition 9]"] bindE_def
        valid_context_package_def context_accounting_ok_def numeral_2_eq_2 Let_def)
qed

end
