(* ===== verification/Docker.thy ===== *)
theory Docker
  imports Schemas Json Bytes Effects Floats Paths File_Stat
begin

text \<open>
  What the three container runners of \<open>app/sandbox\<close> share: the Docker command adapter and the host as a
  record of functions on a world \<open>'w\<close>, the answers of the daemon, the hardening arguments of a container,
  and the inspection of the mounted tree.  The runners raise their own error codes or let an exception
  of the host through.
\<close>

section \<open>Commands\<close>

record docker_result =
  dr_exit_code :: int
  dr_stdout :: bytes
  dr_stderr :: bytes
  dr_stdout_truncated :: bool
  dr_stderr_truncated :: bool

text \<open>
  The exceptions that the handlers of the runners tell apart: \<open>DockerCommandTimeout\<close> with what was
  captured, another \<open>DockerCommandError\<close>, \<open>OSError\<close>, \<open>RuntimeError\<close>, a \<open>UnicodeError\<close>, \<open>JSONDecodeError\<close>
  or \<open>ValidationError\<close> (all of them are a \<open>ValueError\<close>), another \<open>ValueError\<close>, \<open>TypeError\<close> or
  \<open>AttributeError\<close>, any other \<open>Exception\<close>, and \<open>KeyboardInterrupt\<close> or \<open>SystemExit\<close>.
\<close>

datatype host_raise =
    CommandTimeout docker_result | CommandError | HostOsError | HostRuntimeError | HostMalformed
  | HostValueError | HostTypeError | HostOther | HostInterrupt

datatype 'c runner_raise = Runner 'c | Host host_raise

fun is_command_error :: "host_raise \<Rightarrow> bool" where
  "is_command_error (CommandTimeout r) = True"
| "is_command_error CommandError = True"
| "is_command_error _ = False"

record docker_request =
  dq_arguments :: "string list"
  dq_timeout_seconds :: "pyfloat option"
  dq_stdout_bytes :: int
  dq_stderr_bytes :: int
  dq_check :: bool

text \<open>\<open>docker.run(arguments)\<close> with the default limits\<close>

definition infrastructure_output_limit :: int where
  "infrastructure_output_limit = 65536"

definition plain_request :: "string list \<Rightarrow> docker_request" where
  "plain_request arguments = \<lparr>dq_arguments = arguments, dq_timeout_seconds = None,
     dq_stdout_bytes = infrastructure_output_limit, dq_stderr_bytes = infrastructure_output_limit, dq_check = True\<rparr>"

text \<open>
  The adapter, \<open>json.loads\<close> and the parser behind \<open>model_validate_json\<close>, the clock, the source of identifiers, and the questions about the host.
  \<open>scandir\<close> yields the names with \<open>entry.is_dir()\<close>.
\<close>

record 'w runner_env =
  rn_docker :: "docker_request \<Rightarrow> ('w, host_raise, docker_result) act"
  rn_json :: "bytes \<Rightarrow> host_raise + json"
  rn_model_json :: "bytes \<Rightarrow> host_raise + json"
  rn_clock :: "('w, host_raise, pyfloat) act"
  rn_identifier :: "('w, host_raise, string) act"
  rn_lstat :: "string \<Rightarrow> ('w, host_raise, file_stat) act"
  rn_is_symlink :: "string \<Rightarrow> ('w, host_raise, bool) act"
  rn_is_dir :: "string \<Rightarrow> ('w, host_raise, bool) act"
  rn_resolve :: "string \<Rightarrow> ('w, host_raise, string) act"
  rn_resolve_lenient :: "string \<Rightarrow> ('w, host_raise, string) act"
  rn_scandir :: "string \<Rightarrow> ('w, host_raise, (string \<times> bool) list) act"
  rn_listdir :: "string \<Rightarrow> ('w, host_raise, string list) act"
  rn_home :: "('w, host_raise, string) act"
  rn_project :: string

definition map_raise :: "('e \<Rightarrow> 'f) \<Rightarrow> ('w, 'e, 'a) act \<Rightarrow> ('w, 'f, 'a) act" where
  "map_raise f m = (\<lambda>w. case m w of (Inl e, w') \<Rightarrow> (Inl (f e), w') | (Inr x, w') \<Rightarrow> (Inr x, w'))"

abbreviation host :: "('w, host_raise, 'a) act \<Rightarrow> ('w, 'c runner_raise, 'a) act" where
  "host \<equiv> map_raise Host"

definition host_value :: "host_raise + 'a \<Rightarrow> ('w, 'c runner_raise, 'a) act" where
  "host_value r = (case r of Inl e \<Rightarrow> raise (Host e) | Inr x \<Rightarrow> ret x)"

text \<open>\<open>try: m finally: f\<close>, where \<open>f\<close> knows the exception in flight; what \<open>f\<close> raises replaces it.\<close>

definition always_then :: "('w, 'e, 'a) act \<Rightarrow> ('e option \<Rightarrow> ('w, 'e, unit) act) \<Rightarrow> ('w, 'e, 'a) act" where
  "always_then m f = (\<lambda>w. case m w of
      (Inl e, w1) \<Rightarrow> (case f (Some e) w1 of (Inl e', w2) \<Rightarrow> (Inl e', w2) | (Inr _, w2) \<Rightarrow> (Inl e, w2))
    | (Inr x, w1) \<Rightarrow> (case f None w1 of (Inl e', w2) \<Rightarrow> (Inl e', w2) | (Inr _, w2) \<Rightarrow> (Inr x, w2)))"

section \<open>Answers of the daemon\<close>

text \<open>Constructing a validated instance\<close>

definition valid_or_none :: "('a \<Rightarrow> bool) \<Rightarrow> 'a \<Rightarrow> 'a option" where
  "valid_or_none v x = (if v x then Some x else None)"

record docker_state =
  ds_oom_killed :: bool
  ds_running :: bool

text \<open>Other keys are ignored; a repeated key keeps its last value.\<close>

fun docker_state_of :: "json \<Rightarrow> docker_state option" where
  "docker_state_of (JObject kvs) =
     (let fs = map_of (rev kvs) in
      field fs ''OOMKilled'' json_bool (\<lambda>oom.
      field fs ''Running'' json_bool (\<lambda>running.
      Some \<lparr>ds_oom_killed = oom, ds_running = running\<rparr>)))"
| "docker_state_of _ = None"

record docker_info =
  di_os_type :: string
  di_security_options :: "string list"

fun docker_info_of :: "json \<Rightarrow> docker_info option" where
  "docker_info_of (JObject kvs) =
     (let fs = map_of (rev kvs) in
      field fs ''OSType'' json_text (\<lambda>os.
      field fs ''SecurityOptions'' (json_list json_text) (\<lambda>options.
      Some \<lparr>di_os_type = os, di_security_options = options\<rparr>)))"
| "docker_info_of _ = None"

definition has_seccomp :: "string list \<Rightarrow> bool" where
  "has_seccomp normalized \<longleftrightarrow>
     list_ex (\<lambda>option. option = ''name=seccomp'' \<or> startswith option ''name=seccomp,'') normalized"

definition unconfined :: "string list \<Rightarrow> bool" where
  "unconfined normalized \<longleftrightarrow> list_ex (\<lambda>option. contains option ''seccomp=unconfined'') normalized"

definition secure_daemon :: "docker_info \<Rightarrow> bool" where
  "secure_daemon i \<longleftrightarrow>
     di_os_type i = ''linux'' \<and> has_seccomp (map casefold (di_security_options i)) \<and>
     \<not> unconfined (map casefold (di_security_options i))"

definition info_arguments :: "string list" where
  "info_arguments = [''info'', ''--format'', ''{{json .}}'']"

definition inspect_arguments :: "string \<Rightarrow> string list" where
  "inspect_arguments name = [''inspect'', ''--format'', ''{{json .State}}'', name]"

definition start_arguments :: "string \<Rightarrow> string list" where
  "start_arguments name = [''start'', ''--attach'', name]"

definition wait_arguments :: "string \<Rightarrow> string list" where
  "wait_arguments name = [''wait'', name]"

definition kill_arguments :: "string \<Rightarrow> string list" where
  "kill_arguments name = [''kill'', ''--signal'', ''KILL'', name]"

definition remove_arguments :: "string \<Rightarrow> string list" where
  "remove_arguments name = [''rm'', ''--force'', name]"

text \<open>\<open>payload.decode("ascii").strip()\<close>, and \<open>int(text)\<close> of a non-empty run of digits, which refuses more
  than 4300 of them\<close>

definition ascii_text :: "bytes \<Rightarrow> string option" where
  "ascii_text payload =
     (if list_all (\<lambda>b. unat b < 128) payload then Some (map (\<lambda>b. char_of (unat b)) payload) else None)"

definition exit_code_text :: "bytes \<Rightarrow> nat option" where
  "exit_code_text payload =
     Option.bind (ascii_text payload) (\<lambda>s.
       let digits = strip s in
       if digits = [] \<or> \<not> list_all is_digit digits \<or> 4300 < length digits then None
       else Some (int_of_digits digits))"

section \<open>Arguments of a container\<close>

definition container_user :: string where "container_user = ''10001:10001''"
definition container_input :: string where "container_input = ''/tracefix/input''"
definition container_workspace :: string where "container_workspace = ''/tracefix/workspace''"
definition container_temp :: string where "container_temp = ''/tmp''"

text \<open>\<open>format(limits.cpu_count, ".15g")\<close>; validated limits are positive and finite.\<close>

definition cpu_argument :: "sandbox_limits \<Rightarrow> string" where
  "cpu_argument l = format_general15 (float_value (sl_cpu_count l))"

definition log_size :: "sandbox_limits \<Rightarrow> nat" where
  "log_size l = nat (sl_stdout_bytes l + sl_stderr_bytes l)"

definition hardening_arguments :: "string \<Rightarrow> sandbox_limits \<Rightarrow> string list" where
  "hardening_arguments name l =
     [''create'', ''--name'', name, ''--network'', ''none'', ''--read-only'', ''--cap-drop'', ''ALL'',
      ''--security-opt'', ''no-new-privileges=true'', ''--user'', container_user,
      ''--cpus'', cpu_argument l, ''--memory'', decimal (nat (sl_memory_bytes l)),
      ''--pids-limit'', decimal (nat (sl_pids_limit l)), ''--log-driver'', ''local'',
      ''--log-opt'', ''max-size='' @ decimal (log_size l) @ ''b'', ''--log-opt'', ''max-file=1'',
      ''--log-opt'', ''compress=false'']"

definition bind_mount :: "string \<Rightarrow> string \<Rightarrow> string" where
  "bind_mount source target = ''type=bind,source='' @ source @ '',target='' @ target @ '',readonly''"

definition tmpfs_mount :: "string \<Rightarrow> string" where
  "tmpfs_mount destination = ''type=tmpfs,destination='' @ destination @ '',tmpfs-mode=1777''"

definition mount_arguments :: "string \<Rightarrow> string list" where
  "mount_arguments repository =
     [''--mount'', bind_mount repository container_input, ''--mount'', tmpfs_mount container_workspace,
      ''--mount'', tmpfs_mount container_temp]"

definition environment_arguments :: "string list \<Rightarrow> string list" where
  "environment_arguments values = concat (map (\<lambda>v. [''--env'', v]) values)"

section \<open>The mounted tree\<close>

text \<open>
  \<open>os.walk\<close> without \<open>onerror\<close>: a directory that cannot be listed is skipped.  \<open>depth\<close> is the number of
  levels that the longest path of the system leaves; below it the listing fails, and is skipped too.
\<close>

definition listing :: "'w runner_env \<Rightarrow> string \<Rightarrow> ('w, 'c runner_raise, (string \<times> bool) list option) act" where
  "listing env directory =
     catch (andthen (host (rn_scandir env directory)) (\<lambda>es. ret (Some es)))
       (\<lambda>e. if e = Host HostOsError then ret None else raise e)"

definition unsafe_entry :: "file_stat \<Rightarrow> bool \<Rightarrow> bool" where
  "unsafe_entry m link \<longleftrightarrow>
     link \<or> stat_is_reparse m \<or> \<not> (stat_is_dir m \<or> stat_is_regular m) \<or> (stat_is_regular m \<and> fs_nlink m \<noteq> 1)"

fun check_entries ::
  "'w runner_env \<Rightarrow> 'c \<Rightarrow> string \<Rightarrow> string list \<Rightarrow> string list \<Rightarrow> string list \<Rightarrow>
     ('w, 'c runner_raise, string list) act" where
  "check_entries env invalid base parts [] seen = ret seen"
| "check_entries env invalid base parts (name # names) seen =
     (let identity = casefold (join_with slash (parts @ [name])); path = join_path base (parts @ [name]) in
      andthen (ensure (Runner invalid) (identity \<notin> set seen)) (\<lambda>_.
      andthen (host (rn_lstat env path)) (\<lambda>m.
      andthen (host (rn_is_symlink env path)) (\<lambda>link.
      andthen (ensure (Runner invalid) (\<not> unsafe_entry m link)) (\<lambda>_.
      check_entries env invalid base parts names (identity # seen))))))"

fun real_directories ::
  "'w runner_env \<Rightarrow> string \<Rightarrow> string list \<Rightarrow> string list \<Rightarrow> ('w, 'c runner_raise, string list) act" where
  "real_directories env base parts [] = ret []"
| "real_directories env base parts (name # names) =
     andthen (host (rn_is_symlink env (join_path base (parts @ [name])))) (\<lambda>link.
     andthen (real_directories env base parts names) (\<lambda>rest. ret (if link then rest else name # rest)))"

fun each_then :: "('x \<Rightarrow> 's \<Rightarrow> ('w, 'e, 's) act) \<Rightarrow> 'x list \<Rightarrow> 's \<Rightarrow> ('w, 'e, 's) act" where
  "each_then f [] s = ret s"
| "each_then f (x # xs) s = andthen (f x s) (each_then f xs)"

text \<open>\<open>order\<close> is what the caller does with the names of one directory before it goes on.\<close>

fun walk_tree ::
  "'w runner_env \<Rightarrow> 'c \<Rightarrow> (string list \<Rightarrow> string list) \<Rightarrow> string \<Rightarrow> nat \<Rightarrow> string list \<Rightarrow> string list \<Rightarrow>
     ('w, 'c runner_raise, string list) act" where
  "walk_tree env invalid order base 0 parts seen = ret seen"
| "walk_tree env invalid order base (Suc depth) parts seen =
     andthen (listing env (join_path base parts)) (\<lambda>found.
     (case found of
        None \<Rightarrow> ret seen
      | Some entries \<Rightarrow>
          (let directories = order (map fst (filter snd entries));
               files = order (map fst (filter (\<lambda>e. \<not> snd e) entries)) in
           andthen (check_entries env invalid base parts (directories @ files) seen) (\<lambda>seen'.
           andthen (real_directories env base parts (rev directories)) (\<lambda>plain.
           each_then (\<lambda>name. walk_tree env invalid order base depth (parts @ [name])) (rev plain) seen')))))"

definition inspect_tree ::
  "'w runner_env \<Rightarrow> 'c \<Rightarrow> (string list \<Rightarrow> string list) \<Rightarrow> nat \<Rightarrow> string \<Rightarrow> ('w, 'c runner_raise, unit) act" where
  "inspect_tree env invalid order depth base =
     catch (andthen (walk_tree env invalid order base depth [] []) (\<lambda>_. ret ()))
       (\<lambda>e. if e = Host HostOsError then raise (Runner invalid) else raise e)"

section \<open>Protected locations\<close>

definition protected_locations :: "'w runner_env \<Rightarrow> string list \<Rightarrow> ('w, 'c runner_raise, string list) act" where
  "protected_locations env extra =
     andthen (host (rn_home env)) (\<lambda>h.
     andthen (host (rn_resolve_lenient env h)) (\<lambda>home.
     ret ([rn_project env, home] @
       map (\<lambda>parts. join_path home parts)
         ([[''.ssh''], [''.docker''], [''.aws''], [''.config'', ''gcloud''], [''.azure''], [''.netrc''], [''_netrc'']] @
          map (\<lambda>e. [e]) extra) @
       [''/var/run/docker.sock'', ''/run/docker.sock''])))"

fun any_protected :: "'w runner_env \<Rightarrow> string \<Rightarrow> string list \<Rightarrow> ('w, 'c runner_raise, bool) act" where
  "any_protected env resolved [] = ret False"
| "any_protected env resolved (location # locations) =
     andthen (host (rn_resolve_lenient env location)) (\<lambda>l.
     if same_or_ancestor resolved l then ret True else any_protected env resolved locations)"

section \<open>Reading an answer\<close>

text \<open>\<open>model_validate(json.loads(payload))\<close>\<close>

definition parsed_answer :: "(bytes \<Rightarrow> host_raise + json) \<Rightarrow> (json \<Rightarrow> 'a option) \<Rightarrow> bytes \<Rightarrow> ('w, 'c runner_raise, 'a) act" where
  "parsed_answer parser read payload =
     andthen (host_value (parser payload)) (\<lambda>j.
     case read j of None \<Rightarrow> raise (Host HostMalformed) | Some x \<Rightarrow> ret x)"

end
