(* ===== verification/Static_Runner.thy ===== *)
theory Static_Runner
  imports Docker Static_Model
begin

text \<open>
  \<open>DockerStaticRunner\<close> of \<open>app/sandbox/static_runner.py\<close>: the checks of the repository and the paths, the
  reading of the container's answer, and \<open>execute\<close>.
\<close>

section \<open>Input\<close>

datatype static_runner_code =
    SR_INVALID_INPUT | SR_DAEMON_SECURITY | SR_DOCKER_FAILED | SR_TIMED_OUT | SR_MEMORY_LIMIT
  | SR_UNEXPECTED_EXIT | SR_MALFORMED_RESULT | SR_CLEANUP_FAILED

type_synonym ('w, 'a) static_run = "('w, static_runner_code runner_raise, 'a) act"

abbreviation static_error :: "static_runner_code \<Rightarrow> ('w, 'a) static_run" where
  "static_error c \<equiv> raise (Runner c)"

definition static_repository :: "'w runner_env \<Rightarrow> nat \<Rightarrow> string \<Rightarrow> ('w, string) static_run" where
  "static_repository env depth repository =
     andthen (ensure (Runner SR_INVALID_INPUT) (is_absolute repository)) (\<lambda>_.
     andthen (catch
         (andthen (host (rn_lstat env repository)) (\<lambda>m.
          andthen (host (rn_resolve env repository)) (\<lambda>r. ret (m, r))))
         (\<lambda>e. if e \<in> {Host HostOsError, Host HostRuntimeError} then static_error SR_INVALID_INPUT else raise e))
       (\<lambda>(m, resolved).
     andthen (ensure (Runner SR_INVALID_INPUT) (repository = resolved \<and> stat_is_dir m)) (\<lambda>_.
     andthen (host (rn_is_symlink env repository)) (\<lambda>link.
     andthen (ensure (Runner SR_INVALID_INPUT) (\<not> (link \<or> stat_is_reparse m))) (\<lambda>_.
     andthen (protected_locations env []) (\<lambda>locations.
     andthen (any_protected env resolved locations) (\<lambda>protected.
     andthen (ensure (Runner SR_INVALID_INPUT) (\<not> protected)) (\<lambda>_.
     andthen (inspect_tree env SR_INVALID_INPUT id depth resolved) (\<lambda>_.
     ret resolved)))))))))"

definition changed_paths_ok :: "string list \<Rightarrow> bool" where
  "changed_paths_ok paths \<longleftrightarrow>
     length paths \<le> 3 \<and> list_all (tool_path_ok True) paths \<and> distinct (map casefold paths) \<and>
     paths = sort_key (\<lambda>p. (casefold p, p)) paths"

section \<open>The answer of the container\<close>

fun tool_check_of :: "string \<Rightarrow> tool_check option" where
  "tool_check_of s =
     (if s = ''python_compile'' then Some TOOL_PYTHON_COMPILE else if s = ''ast_parse'' then Some TOOL_AST_PARSE
      else if s = ''ruff'' then Some TOOL_RUFF else if s = ''mypy'' then Some TOOL_MYPY
      else if s = ''bandit'' then Some TOOL_BANDIT else None)"

fun tool_status_of :: "string \<Rightarrow> tool_status option" where
  "tool_status_of s =
     (if s = ''passed'' then Some TOOL_PASSED else if s = ''failed'' then Some TOOL_FAILED
      else if s = ''not_applicable'' then Some TOOL_NOT_APPLICABLE
      else if s = ''infrastructure_error'' then Some TOOL_INFRASTRUCTURE_ERROR else None)"

fun tool_error_of :: "string \<Rightarrow> tool_error_code option" where
  "tool_error_of s =
     (if s = ''executable_missing'' then Some EXECUTABLE_MISSING
      else if s = ''version_mismatch'' then Some VERSION_MISMATCH
      else if s = ''invocation_failed'' then Some INVOCATION_FAILED
      else if s = ''output_invalid'' then Some OUTPUT_INVALID else if s = ''output_limit'' then Some OUTPUT_LIMIT
      else if s = ''source_read_failed'' then Some SOURCE_READ_FAILED else None)"

text \<open>An optional field: absent or \<open>null\<close> is the default.\<close>

definition optional_field :: "(string \<Rightarrow> json option) \<Rightarrow> string \<Rightarrow> (json \<Rightarrow> 'a option) \<Rightarrow> 'a option option" where
  "optional_field fs name read =
     (case fs name of None \<Rightarrow> Some None | Some JNull \<Rightarrow> Some None | Some j \<Rightarrow> map_option Some (read j))"

fun json_position :: "json \<Rightarrow> nat option" where
  "json_position (JInteger n) = (if 1 \<le> n \<and> n \<le> 10000000 then Some (nat n) else None)"
| "json_position _ = None"

definition tool_finding_of :: "json \<Rightarrow> tool_finding option" where
  "tool_finding_of j =
     Option.bind (object_fields [''path'', ''line'', ''column'', ''rule_code''] j) (\<lambda>fs.
     field fs ''path'' json_text (\<lambda>path.
     Option.bind (optional_field fs ''line'' json_position) (\<lambda>line.
     Option.bind (optional_field fs ''column'' json_position) (\<lambda>column.
     field fs ''rule_code'' json_text (\<lambda>rule.
     valid_or_none valid_tool_finding
       \<lparr>tf_path = path, tf_line = line, tf_column = column, tf_rule_code = rule\<rparr>)))))"

definition json_enum :: "(string \<Rightarrow> 'a option) \<Rightarrow> json \<Rightarrow> 'a option" where
  "json_enum f j = Option.bind (json_text j) f"

text \<open>\<open>findings\<close> has an empty default.\<close>

definition findings_of :: "(string \<Rightarrow> json option) \<Rightarrow> tool_finding list option" where
  "findings_of fs = (case fs ''findings'' of None \<Rightarrow> Some [] | Some j \<Rightarrow> json_list tool_finding_of j)"

definition tool_result_of :: "json \<Rightarrow> tool_result option" where
  "tool_result_of j =
     Option.bind (object_fields [''check'', ''status'', ''findings'', ''error_code''] j) (\<lambda>fs.
     field fs ''check'' (json_enum tool_check_of) (\<lambda>c.
     field fs ''status'' (json_enum tool_status_of) (\<lambda>s.
     Option.bind (findings_of fs) (\<lambda>findings.
     Option.bind (optional_field fs ''error_code'' (json_enum tool_error_of)) (\<lambda>e.
     valid_or_none valid_tool_result
       \<lparr>to_check = c, to_status = s, to_findings = findings, to_error_code = e\<rparr>)))))"

definition version_ok :: "(string \<Rightarrow> json option) \<Rightarrow> bool" where
  "version_ok fs = (case fs ''version'' of None \<Rightarrow> True | Some j \<Rightarrow> j = JInteger 1)"

definition container_result_of :: "json \<Rightarrow> container_result option" where
  "container_result_of j =
     Option.bind (object_fields [''version'', ''results''] j) (\<lambda>fs.
     if \<not> version_ok fs then None
     else field fs ''results'' (json_list tool_result_of) (valid_or_none valid_container_result))"

section \<open>The lifecycle of a container\<close>

definition remaining_seconds :: "'w runner_env \<Rightarrow> sandbox_limits \<Rightarrow> pyfloat \<Rightarrow> ('w, pyfloat) static_run" where
  "remaining_seconds env l started =
     andthen (host (rn_clock env)) (\<lambda>now.
     (let elapsed = float_sub now started; remaining = float_sub (sl_timeout_seconds l) elapsed in
      if float_negative elapsed then static_error SR_DOCKER_FAILED
      else if float_non_positive remaining then static_error SR_TIMED_OUT
      else ret remaining))"

definition static_request :: "sandbox_limits \<Rightarrow> string list \<Rightarrow> pyfloat \<Rightarrow> bool \<Rightarrow> docker_request" where
  "static_request l arguments timeout check =
     \<lparr>dq_arguments = arguments, dq_timeout_seconds = Some timeout, dq_stdout_bytes = sl_stdout_bytes l,
      dq_stderr_bytes = sl_stderr_bytes l, dq_check = check\<rparr>"

definition run_lifecycle ::
  "'w runner_env \<Rightarrow> sandbox_limits \<Rightarrow> string list \<Rightarrow> pyfloat option \<Rightarrow> ('w, docker_result) static_run" where
  "run_lifecycle env l arguments started =
     andthen (case started of None \<Rightarrow> ret (sl_timeout_seconds l) | Some s \<Rightarrow> remaining_seconds env l s) (\<lambda>timeout.
     andthen (host (rn_docker env (static_request l arguments timeout True))) (\<lambda>r.
     andthen (ensure (Runner SR_DOCKER_FAILED)
         (\<not> (dr_stdout_truncated r \<or> dr_stderr_truncated r \<or> dr_stderr r \<noteq> [] \<or> dr_exit_code r \<noteq> 0))) (\<lambda>_.
     ret r)))"

definition static_daemon_handler :: "static_runner_code runner_raise \<Rightarrow> ('w, 'a) static_run" where
  "static_daemon_handler e =
     (case e of
        Host (CommandTimeout r) \<Rightarrow> static_error SR_TIMED_OUT
      | Runner c \<Rightarrow> if c = SR_TIMED_OUT then raise e else static_error SR_DAEMON_SECURITY
      | Host h \<Rightarrow> if h \<in> {CommandError, HostMalformed} then static_error SR_DAEMON_SECURITY else raise e)"

definition static_daemon_security :: "'w runner_env \<Rightarrow> sandbox_limits \<Rightarrow> pyfloat \<Rightarrow> ('w, unit) static_run" where
  "static_daemon_security env l started =
     andthen (catch
         (andthen (run_lifecycle env l info_arguments (Some started)) (\<lambda>r.
          parsed_answer (rn_json env) docker_info_of (dr_stdout r)))
         static_daemon_handler) (\<lambda>i.
     ensure (Runner SR_DAEMON_SECURITY) (secure_daemon i))"

definition static_inspect_handler :: "static_runner_code runner_raise \<Rightarrow> ('w, 'a) static_run" where
  "static_inspect_handler e =
     (case e of
        Host (CommandTimeout r) \<Rightarrow> raise e
      | Runner c \<Rightarrow> static_error SR_DOCKER_FAILED
      | Host h \<Rightarrow> if h \<in> {CommandError, HostMalformed} then static_error SR_DOCKER_FAILED else raise e)"

definition static_inspect :: "'w runner_env \<Rightarrow> sandbox_limits \<Rightarrow> string \<Rightarrow> pyfloat \<Rightarrow> ('w, docker_state) static_run" where
  "static_inspect env l name started =
     catch (andthen (run_lifecycle env l (inspect_arguments name) (Some started)) (\<lambda>r.
            parsed_answer (rn_json env) docker_state_of (dr_stdout r)))
       static_inspect_handler"

definition static_environment :: "string list" where
  "static_environment = [''HOME=/nonexistent'', ''LANG=C.UTF-8'', ''LC_ALL=C.UTF-8'', ''PYTHONDONTWRITEBYTECODE=1'',
     ''PYTHONHASHSEED=0'', ''PYTHONNOUSERSITE=1'', ''PYTHONUNBUFFERED=1'']"

definition static_check_image :: string where
  "static_check_image = ''tracefix-static-checks:0.1.8''"

definition static_create_arguments :: "string \<Rightarrow> string \<Rightarrow> string list \<Rightarrow> sandbox_limits \<Rightarrow> string list" where
  "static_create_arguments name repository paths l =
     hardening_arguments name l @ mount_arguments repository @ environment_arguments static_environment @
     [static_check_image] @ paths"

definition static_exit_code :: "bytes \<Rightarrow> ('w, nat) static_run" where
  "static_exit_code payload =
     (case exit_code_text payload of None \<Rightarrow> static_error SR_DOCKER_FAILED | Some n \<Rightarrow> ret n)"

text \<open>The attached run; a timeout of it is answered by an inspection and a kill.\<close>

definition static_attach :: "'w runner_env \<Rightarrow> sandbox_limits \<Rightarrow> string \<Rightarrow> pyfloat \<Rightarrow> ('w, docker_result) static_run" where
  "static_attach env l name started =
     catch (andthen (remaining_seconds env l started) (\<lambda>timeout.
            host (rn_docker env (static_request l (start_arguments name) timeout False))))
       (\<lambda>e. case e of
          Host (CommandTimeout r) \<Rightarrow>
            andthen (static_inspect env l name started) (\<lambda>s.
            andthen (if ds_running s
               then andthen (run_lifecycle env l (kill_arguments name) (Some started)) (\<lambda>_. ret ()) else ret ()) (\<lambda>_.
            static_error SR_TIMED_OUT))
        | _ \<Rightarrow> raise e)"

definition max_protocol_bytes :: nat where "max_protocol_bytes = 65536"

definition static_answer :: "'w runner_env \<Rightarrow> docker_result \<Rightarrow> ('w, container_result) static_run" where
  "static_answer env attached =
     andthen (ensure (Runner SR_MALFORMED_RESULT)
        (\<not> (dr_stdout_truncated attached \<or> dr_stderr_truncated attached \<or> dr_stderr attached \<noteq> [] \<or>
           max_protocol_bytes < length (dr_stdout attached)))) (\<lambda>_.
     catch (parsed_answer (rn_model_json env) container_result_of (dr_stdout attached))
       (\<lambda>e. if e \<in> {Host HostMalformed, Host HostValueError} then static_error SR_MALFORMED_RESULT else raise e))"

definition static_lifecycle ::
  "'w runner_env \<Rightarrow> sandbox_limits \<Rightarrow> string \<Rightarrow> string list \<Rightarrow> pyfloat \<Rightarrow> ('w, container_result) static_run" where
  "static_lifecycle env l name arguments started =
     andthen (run_lifecycle env l arguments (Some started)) (\<lambda>_.
     andthen (static_attach env l name started) (\<lambda>attached.
     andthen (run_lifecycle env l (wait_arguments name) (Some started)) (\<lambda>waited.
     andthen (static_exit_code (dr_stdout waited)) (\<lambda>exit_code.
     andthen (static_inspect env l name started) (\<lambda>s.
     andthen (ensure (Runner SR_MEMORY_LIMIT) (\<not> ds_oom_killed s)) (\<lambda>_.
     andthen (ensure (Runner SR_UNEXPECTED_EXIT) (dr_exit_code attached = 0 \<and> exit_code = 0)) (\<lambda>_.
     andthen (static_answer env attached) (\<lambda>result.
     andthen (remaining_seconds env l started) (\<lambda>_.
     ret result)))))))))"

text \<open>The \<open>except\<close> clauses that keep the primary error for the end\<close>

definition static_primary :: "static_runner_code runner_raise \<Rightarrow> static_runner_code option" where
  "static_primary e =
     (case e of
        Runner c \<Rightarrow> Some c
      | Host (CommandTimeout r) \<Rightarrow> Some SR_TIMED_OUT
      | Host h \<Rightarrow> if h \<in> {CommandError, HostOsError, HostMalformed, HostValueError} then Some SR_DOCKER_FAILED else None)"

definition static_cleanup ::
  "'w runner_env \<Rightarrow> sandbox_limits \<Rightarrow> string \<Rightarrow> static_runner_code runner_raise option \<Rightarrow> ('w, unit) static_run" where
  "static_cleanup env l name in_flight =
     catch (andthen (run_lifecycle env l (remove_arguments name) None) (\<lambda>_. ret ()))
       (\<lambda>e. if e = Host HostInterrupt then raise e
            else if in_flight = Some (Host HostInterrupt) then ret ()
            else static_error SR_CLEANUP_FAILED)"

definition static_execute ::
  "'w runner_env \<Rightarrow> sandbox_limits \<Rightarrow> nat \<Rightarrow> string \<Rightarrow> string list \<Rightarrow> ('w, container_result) static_run" where
  "static_execute env l depth repository paths =
     andthen (static_repository env depth repository) (\<lambda>prepared.
     andthen (ensure (Runner SR_INVALID_INPUT) (changed_paths_ok paths)) (\<lambda>_.
     andthen (host (rn_clock env)) (\<lambda>started.
     andthen (static_daemon_security env l started) (\<lambda>_.
     andthen (catch (host (rn_identifier env))
        (\<lambda>e. if e = Host HostInterrupt then raise e else static_error SR_INVALID_INPUT)) (\<lambda>identifier.
     andthen (ensure (Runner SR_INVALID_INPUT) (hex_string 32 identifier)) (\<lambda>_.
     (let name = ''tracefix-static-checks-'' @ identifier in
      andthen (always_then
         (catch (andthen (static_lifecycle env l name (static_create_arguments name prepared paths l) started)
                   (\<lambda>r. ret (Inr r)))
            (\<lambda>e. case static_primary e of None \<Rightarrow> raise e | Some c \<Rightarrow> ret (Inl c)))
         (static_cleanup env l name)) (\<lambda>outcome.
      (case outcome of Inl c \<Rightarrow> static_error c | Inr r \<Rightarrow> ret r)))))))))"

end
