(* ===== verification/Code_Points.thy ===== *)
theory Code_Points
  imports Bytes
begin

text \<open>
  UTF-8 over all of Unicode, with the errors of Python's decoder: a text is the list of its code points,
  and a byte that cannot be decoded is reported with the bytes it spoils.
\<close>

section \<open>Decoding one character\<close>

datatype utf8_step = Point nat bytes | Unfinished | Spoiled nat

definition continuation :: "8 word \<Rightarrow> bool" where
  "continuation b \<longleftrightarrow> 128 \<le> unat b \<and> unat b < 192"

text \<open>The second byte of a longer sequence: no overlong form, no surrogate, nothing above \<open>0x10FFFF\<close>\<close>

definition second_byte_ok :: "nat \<Rightarrow> 8 word \<Rightarrow> bool" where
  "second_byte_ok first b \<longleftrightarrow> continuation b \<and>
     (first = 224 \<longrightarrow> 160 \<le> unat b) \<and> (first = 237 \<longrightarrow> unat b < 160) \<and>
     (first = 240 \<longrightarrow> 144 \<le> unat b) \<and> (first = 244 \<longrightarrow> unat b < 144)"

definition payload_bits :: "8 word \<Rightarrow> nat" where
  "payload_bits b = unat b - 128"

fun three_bytes :: "nat \<Rightarrow> bytes \<Rightarrow> utf8_step" where
  "three_bytes n [] = Unfinished"
| "three_bytes n (c # cs) =
     (if \<not> second_byte_ok n c then Spoiled 1
      else (case cs of
          [] \<Rightarrow> Unfinished
        | d # ds \<Rightarrow>
            if \<not> continuation d then Spoiled 2
            else Point ((n - 224) * 4096 + payload_bits c * 64 + payload_bits d) ds))"

fun four_bytes :: "nat \<Rightarrow> bytes \<Rightarrow> utf8_step" where
  "four_bytes n [] = Unfinished"
| "four_bytes n (c # cs) =
     (if \<not> second_byte_ok n c then Spoiled 1
      else (case cs of
          [] \<Rightarrow> Unfinished
        | d # ds \<Rightarrow>
            if \<not> continuation d then Spoiled 2
            else (case ds of
                [] \<Rightarrow> Unfinished
              | e # es \<Rightarrow>
                  if \<not> continuation e then Spoiled 3
                  else Point ((n - 240) * 262144 + payload_bits c * 4096 + payload_bits d * 64 + payload_bits e) es)))"

definition utf8_step :: "8 word \<Rightarrow> bytes \<Rightarrow> utf8_step" where
  "utf8_step b bs =
     (let n = unat b in
      if n < 128 then Point n bs
      else if n < 194 then Spoiled 1
      else if n < 224 then
        (case bs of
           [] \<Rightarrow> Unfinished
         | c # cs \<Rightarrow> if \<not> continuation c then Spoiled 1 else Point ((n - 192) * 64 + payload_bits c) cs)
      else if n < 240 then three_bytes n bs
      else if n < 245 then four_bytes n bs
      else Spoiled 1)"

lemma three_bytes_shorter: "three_bytes n bs = Point p rest \<Longrightarrow> length rest < length bs"
  by (cases "(n, bs)" rule: three_bytes.cases) (auto split: if_splits list.splits)

lemma four_bytes_shorter: "four_bytes n bs = Point p rest \<Longrightarrow> length rest < length bs"
  by (cases "(n, bs)" rule: four_bytes.cases) (auto split: if_splits list.splits)

lemma utf8_step_shorter: "utf8_step b bs = Point p rest \<Longrightarrow> length rest \<le> length bs"
  by (auto simp: utf8_step_def Let_def split: if_splits list.splits
      dest: three_bytes_shorter four_bytes_shorter)

lemma three_bytes_spoils: "three_bytes n bs = Spoiled k \<Longrightarrow> 0 < k"
  by (cases "(n, bs)" rule: three_bytes.cases) (auto split: if_splits list.splits)

lemma four_bytes_spoils: "four_bytes n bs = Spoiled k \<Longrightarrow> 0 < k"
  by (cases "(n, bs)" rule: four_bytes.cases) (auto split: if_splits list.splits)

lemma utf8_step_spoils: "utf8_step b bs = Spoiled k \<Longrightarrow> 0 < k"
  by (auto simp: utf8_step_def Let_def split: if_splits list.splits
      dest: three_bytes_spoils four_bytes_spoils)

section \<open>Decoding a text\<close>

text \<open>\<open>payload.decode("utf-8")\<close>: the text, or the first error, with the start of an unfinished character\<close>

datatype decoded = DecodedText "nat list" | UnfinishedAt nat | Undecodable

function decode_strict :: "nat \<Rightarrow> bytes \<Rightarrow> decoded" where
  "decode_strict position [] = DecodedText []"
| "decode_strict position (b # bs) =
     (case utf8_step b bs of
        Unfinished \<Rightarrow> UnfinishedAt position
      | Spoiled k \<Rightarrow> Undecodable
      | Point p rest \<Rightarrow>
          (case decode_strict (position + (Suc (length bs) - length rest)) rest of
             DecodedText ps \<Rightarrow> DecodedText (p # ps)
           | e \<Rightarrow> e))"
  by pat_completeness auto
termination
  by (relation "measure (\<lambda>(position, bs). length bs)") (auto dest!: utf8_step_shorter simp: less_Suc_eq_le)

definition replacement_point :: nat where
  "replacement_point = 65533"

text \<open>\<open>payload.decode("utf-8", errors="replace")\<close>\<close>

function decode_replacing :: "bytes \<Rightarrow> nat list" where
  "decode_replacing [] = []"
| "decode_replacing (b # bs) =
     (case utf8_step b bs of
        Unfinished \<Rightarrow> [replacement_point]
      | Spoiled k \<Rightarrow> replacement_point # decode_replacing (drop (k - 1) bs)
      | Point p rest \<Rightarrow> p # decode_replacing rest)"
  by pat_completeness auto
termination
  by (relation "measure length") (auto dest!: utf8_step_shorter simp: less_Suc_eq_le)

section \<open>Sizes\<close>

definition point_size :: "nat \<Rightarrow> nat" where
  "point_size p = (if p < 128 then 1 else if p < 2048 then 2 else if p < 65536 then 3 else 4)"

definition text_size :: "nat list \<Rightarrow> nat" where
  "text_size ps = sum_list (map point_size ps)"

lemma text_size_simps [simp]:
  "text_size [] = 0" "text_size (p # ps) = point_size p + text_size ps" "text_size (ps @ qs) = text_size ps + text_size qs"
  by (simp_all add: text_size_def)

lemma payload_bits_bound: "continuation b \<Longrightarrow> payload_bits b < 64"
  unfolding continuation_def payload_bits_def by linarith

lemma three_bytes_size:
  assumes "three_bytes n bs = Point p rest" "224 \<le> n" "n < 240"
  shows "point_size p = 3 \<and> length bs = 2 + length rest"
proof -
  obtain c d where b: "bs = c # d # rest" and c: "second_byte_ok n c" "continuation d"
    and p: "p = (n - 224) * 4096 + payload_bits c * 64 + payload_bits d"
    using assms(1) by (cases "(n, bs)" rule: three_bytes.cases) (auto split: if_splits list.splits)
  have l: "payload_bits c < 64" "payload_bits d < 64"
    using c payload_bits_bound by (auto simp: second_byte_ok_def)
  have "32 \<le> payload_bits c" if "n = 224"
    using c(1) that unfolding second_byte_ok_def payload_bits_def by linarith
  then have "2048 \<le> p" unfolding p using assms(2) by (cases "n = 224") auto
  moreover have "(n - 224) * 4096 \<le> 15 * 4096" using assms(3) by (intro mult_right_mono) auto
  then have "p < 65536" using l unfolding p by linarith
  ultimately show ?thesis using b by (simp add: point_size_def)
qed

lemma four_bytes_size:
  assumes "four_bytes n bs = Point p rest" "240 \<le> n"
  shows "point_size p = 4 \<and> length bs = 3 + length rest"
proof -
  obtain c d e where b: "bs = c # d # e # rest" and c: "second_byte_ok n c" "continuation d" "continuation e"
    and p: "p = (n - 240) * 262144 + payload_bits c * 4096 + payload_bits d * 64 + payload_bits e"
    using assms(1) by (cases "(n, bs)" rule: four_bytes.cases) (auto split: if_splits list.splits)
  have "16 \<le> payload_bits c" if "n = 240"
    using c(1) that unfolding second_byte_ok_def payload_bits_def by linarith
  then have "65536 \<le> p" unfolding p using assms(2) by (cases "n = 240") auto
  then show ?thesis using b by (simp add: point_size_def)
qed

text \<open>A decoded character takes as many bytes as its encoding.\<close>

lemma two_bytes_size:
  assumes "194 \<le> n" "n < 224" "continuation c"
  shows "point_size ((n - 192) * 64 + payload_bits c) = 2"
proof -
  have "2 * 64 \<le> (n - 192) * 64" "(n - 192) * 64 \<le> 31 * 64" using assms by (intro mult_right_mono; simp)+
  then have "128 \<le> (n - 192) * 64 + payload_bits c" "(n - 192) * 64 + payload_bits c < 2048"
    using payload_bits_bound [OF assms(3)] by linarith+
  then show ?thesis by (simp add: point_size_def)
qed

lemma utf8_step_size:
  assumes "utf8_step b bs = Point p rest"
  shows "Suc (length bs) = point_size p + length rest"
proof -
  consider "unat b < 128" | "194 \<le> unat b" "unat b < 224" | "224 \<le> unat b" "unat b < 240" | "240 \<le> unat b" "unat b < 245"
    using assms by (force simp: utf8_step_def Let_def split: if_splits)
  then show ?thesis
  proof cases
    case 1
    with assms show ?thesis by (auto simp: utf8_step_def Let_def point_size_def)
  next
    case 2
    with assms show ?thesis
      by (auto simp: utf8_step_def Let_def two_bytes_size split: if_splits list.splits)
  next
    case 3
    with assms have "three_bytes (unat b) bs = Point p rest" by (simp add: utf8_step_def Let_def)
    from three_bytes_size [OF this 3] show ?thesis by simp
  next
    case 4
    with assms have "four_bytes (unat b) bs = Point p rest" by (simp add: utf8_step_def Let_def)
    from four_bytes_size [OF this 4(1)] show ?thesis by simp
  qed
qed

lemma decode_strict_size: "decode_strict k bs = DecodedText ps \<Longrightarrow> text_size ps = length bs"
proof (induction k bs arbitrary: ps rule: decode_strict.induct)
  case (2 k b bs)
  then show ?case
    by (auto dest: utf8_step_size split: utf8_step.splits decoded.splits)
qed simp

lemma decode_strict_position:
  "decode_strict k bs = UnfinishedAt n \<Longrightarrow> k \<le> n \<and> n < k + length bs"
proof (induction k bs arbitrary: n rule: decode_strict.induct)
  case (2 k b bs)
  show ?case
  proof (cases "utf8_step b bs")
    case (Point p rest)
    with 2(2) have "decode_strict (k + (Suc (length bs) - length rest)) rest = UnfinishedAt n"
      by (auto split: decoded.splits)
    with 2(1) [OF Point] utf8_step_shorter [OF Point] show ?thesis by fastforce
  qed (use 2(2) in auto)
qed simp

lemma decode_replacing_size: "text_size (decode_replacing bs) \<le> 3 * length bs"
proof (induction bs rule: decode_replacing.induct)
  case (2 b bs)
  have r: "point_size replacement_point = 3" by (simp add: point_size_def replacement_point_def)
  show ?case
  proof (cases "utf8_step b bs")
    case (Point p rest)
    with "2.IH"(1) [OF Point] utf8_step_size [OF Point] show ?thesis by simp
  next
    case (Spoiled k)
    with "2.IH"(2) [OF Spoiled] have "text_size (decode_replacing (drop (k - 1) bs)) \<le> 3 * length bs" by simp
    with Spoiled show ?thesis by (simp add: r)
  qed (simp add: r)
qed simp

end
