(* ===== verification/Sandbox_Runner.thy ===== *)
theory Sandbox_Runner
  imports Docker Code_Points Context_Evidence
begin

text \<open>
  \<open>app/sandbox/runner.py\<close>: the subprocess adapter with its bounded pipes, the accepted pytest commands,
  the double inspection of the repository, the truncation of captured output, and
  \<open>SandboxRunner.execute\<close>.
\<close>

section \<open>The subprocess adapter\<close>

text \<open>One round of \<open>drain\<close>; the limit of a runner is positive.\<close>

fun drain :: "nat \<Rightarrow> bytes \<Rightarrow> bool \<Rightarrow> bytes list \<Rightarrow> bytes \<times> bool" where
  "drain limit retained truncated [] = (retained, truncated)"
| "drain limit retained truncated (chunk # chunks) =
     (let remaining = int limit - int (length retained);
          retained' = (if 0 < remaining then retained @ take (nat remaining) chunk else retained);
          truncated' = (remaining < int (length chunk) \<or> truncated) in
      drain limit retained' truncated' chunks)"

definition bounded_pipe :: "nat \<Rightarrow> bytes list \<Rightarrow> bytes \<times> bool" where
  "bounded_pipe limit chunks = drain limit [] False chunks"

text \<open>How \<open>process.wait\<close> ends: with the exit code, with \<open>TimeoutExpired\<close>, or with an \<open>OSError\<close> or
  \<open>SubprocessError\<close>\<close>

datatype wait_outcome = Exited int | WaitExpired | WaitFailed

text \<open>
  \<open>Popen\<close> (whether it has pipes), \<open>wait\<close>, \<open>kill\<close>, and what the pipes have delivered when their threads
  are joined.
\<close>

record 'w process_env =
  pe_spawn :: "string list \<Rightarrow> ('w, host_raise, bool) act"
  pe_wait :: "pyfloat option \<Rightarrow> ('w, host_raise, wait_outcome) act"
  pe_reap :: "('w, host_raise, int) act"
  pe_kill :: "('w, host_raise, unit) act"
  pe_chunks :: "('w, host_raise, bytes list \<times> bytes list) act"

definition captured_output :: "'w process_env \<Rightarrow> docker_request \<Rightarrow> int \<Rightarrow> ('w, host_raise, docker_result) act" where
  "captured_output p q exit_code =
     andthen (pe_chunks p) (\<lambda>(out, err).
     (let (stdout, stdout_cut) = bounded_pipe (nat (dq_stdout_bytes q)) out;
          (stderr, stderr_cut) = bounded_pipe (nat (dq_stderr_bytes q)) err in
      ret \<lparr>dr_exit_code = exit_code, dr_stdout = stdout, dr_stderr = stderr,
        dr_stdout_truncated = stdout_cut, dr_stderr_truncated = stderr_cut\<rparr>))"

definition killed_output :: "'w process_env \<Rightarrow> docker_request \<Rightarrow> ('w, host_raise, docker_result) act" where
  "killed_output p q =
     andthen (pe_kill p) (\<lambda>_. andthen (pe_reap p) (\<lambda>exit_code. captured_output p q exit_code))"

definition subprocess_run :: "'w process_env \<Rightarrow> docker_request \<Rightarrow> ('w, host_raise, docker_result) act" where
  "subprocess_run p q =
     andthen (catch (pe_spawn p (''docker'' # dq_arguments q))
        (\<lambda>e. if e = HostOsError then raise CommandError else raise e)) (\<lambda>pipes.
     if \<not> pipes then andthen (pe_kill p) (\<lambda>_. raise CommandError)
     else andthen (pe_wait p (dq_timeout_seconds q)) (\<lambda>outcome.
       (case outcome of
          WaitExpired \<Rightarrow> andthen (killed_output p q) (\<lambda>r. raise (CommandTimeout r))
        | WaitFailed \<Rightarrow> andthen (killed_output p q) (\<lambda>_. raise CommandError)
        | Exited exit_code \<Rightarrow>
            andthen (captured_output p q exit_code) (\<lambda>r.
            if dq_check q \<and> dr_exit_code r \<noteq> 0 then raise CommandError else ret r))))"

section \<open>Commands\<close>

datatype sandbox_code = SANDBOX_VALIDATION | SANDBOX_EXECUTION | SANDBOX_CLEANUP

type_synonym ('w, 'a) sandbox_run = "('w, sandbox_code runner_raise, 'a) act"

abbreviation sandbox_error :: "sandbox_code \<Rightarrow> ('w, 'a) sandbox_run" where
  "sandbox_error c \<equiv> raise (Runner c)"

definition forbidden_path_characters :: string where
  "forbidden_path_characters = ''*?[]{};&|<>`$!()'' @ [CHR ''\"'', CHR 0x27]"

definition control_character :: "char \<Rightarrow> bool" where
  "control_character c \<longleftrightarrow> code c < 32 \<or> code c = 127"

text \<open>\<open>str.isidentifier\<close> on the characters below 256\<close>

definition identifier_start :: "char \<Rightarrow> bool" where
  "identifier_start c \<longleftrightarrow> (let n = code c in
     (65 \<le> n \<and> n \<le> 90) \<or> n = 95 \<or> (97 \<le> n \<and> n \<le> 122) \<or> n = 170 \<or> n = 181 \<or> n = 186 \<or>
     (192 \<le> n \<and> n \<noteq> 215 \<and> n \<noteq> 247))"

definition identifier_part :: "char \<Rightarrow> bool" where
  "identifier_part c \<longleftrightarrow> identifier_start c \<or> is_digit c \<or> code c = 183"

definition is_identifier :: "string \<Rightarrow> bool" where
  "is_identifier s \<longleftrightarrow> (case s of [] \<Rightarrow> False | c # cs \<Rightarrow> identifier_start c \<and> list_all identifier_part cs)"

definition test_path_ok :: "string \<Rightarrow> bool" where
  "test_path_ok value =
     (\<not> (value = [] \<or> startswith value ''-'' \<or> startswith value ''@'' \<or> backslash \<in> set value \<or>
         list_ex is_space value \<or> list_ex control_character value \<or>
         list_ex (\<lambda>c. c \<in> set forbidden_path_characters) value \<or> contains value ''://'') \<and>
      (let selections = split_nodes [] value; file_part = hd selections; node_parts = tl selections in
       \<not> (windows_drive_or_root file_part \<or> startswith file_part [slash] \<or>
          take 1 (posix_parts file_part) \<noteq> [''tests''] \<or>
          list_ex (\<lambda>part. part \<in> {[], ''.'', ''..''}) (split_on slash file_part) \<or>
          path_suffix file_part \<noteq> ''.py'' \<or>
          list_ex (\<lambda>part. \<not> is_identifier part) node_parts)))"

text \<open>\<open>PytestCommand\<close>, which is its tokens\<close>

definition pytest_command_ok :: "string list \<Rightarrow> bool" where
  "pytest_command_ok tokens \<longleftrightarrow>
     take 3 tokens = [''python'', ''-m'', ''pytest''] \<and> list_all test_path_ok (drop 3 tokens)"

definition test_paths :: "string list \<Rightarrow> string list" where
  "test_paths tokens = drop 3 tokens"

section \<open>The repository\<close>

record filesystem_identity =
  fi_relative :: "string list"
  fi_device :: nat
  fi_inode :: nat
  fi_mode :: nat
  fi_reparse_tag :: nat

definition entry_identity ::
  "'w runner_env \<Rightarrow> string \<Rightarrow> string list \<Rightarrow> ('w, filesystem_identity) sandbox_run" where
  "entry_identity env path relative =
     andthen (catch (host (rn_lstat env path))
        (\<lambda>e. if e = Host HostOsError then sandbox_error SANDBOX_VALIDATION else raise e)) (\<lambda>m.
     andthen (host (rn_is_symlink env path)) (\<lambda>link.
     andthen (ensure (Runner SANDBOX_VALIDATION)
        (\<not> (link \<or> stat_is_reparse m) \<and> (stat_is_dir m \<or> stat_is_regular m))) (\<lambda>_.
     ret \<lparr>fi_relative = relative, fi_device = fs_dev m, fi_inode = fs_ino m, fi_mode = fs_mode m,
       fi_reparse_tag = fs_reparse_tag m\<rparr>)))"

definition directory_mode :: "nat \<Rightarrow> bool" where
  "directory_mode mode \<longleftrightarrow> mode div 4096 mod 16 = 4"

text \<open>One directory after the other; the number is the depth to which the interpreter can still recurse.\<close>

fun snapshot_entries ::
  "'w runner_env \<Rightarrow> string \<Rightarrow> (string list \<Rightarrow> ('w, filesystem_identity list) sandbox_run) \<Rightarrow> string list \<Rightarrow> string list \<Rightarrow>
     ('w, filesystem_identity list) sandbox_run" where
  "snapshot_entries env base inside parts [] = ret []"
| "snapshot_entries env base inside parts (name # names) =
     andthen (entry_identity env (join_path base (parts @ [name])) (parts @ [name])) (\<lambda>i.
     andthen (if directory_mode (fi_mode i) then inside (parts @ [name]) else ret []) (\<lambda>below.
     andthen (snapshot_entries env base inside parts names) (\<lambda>rest. ret (i # below @ rest))))"

fun tree_identities :: "'w runner_env \<Rightarrow> nat \<Rightarrow> string \<Rightarrow> string list \<Rightarrow> ('w, filesystem_identity list) sandbox_run" where
  "tree_identities env 0 base parts = raise (Host HostRuntimeError)"
| "tree_identities env (Suc depth) base parts =
     andthen (catch (host (rn_scandir env (join_path base parts)))
        (\<lambda>e. if e = Host HostOsError then sandbox_error SANDBOX_VALIDATION else raise e)) (\<lambda>entries.
     snapshot_entries env base (tree_identities env depth base) parts (sort (map fst entries)))"

definition windows_docker_pipe :: "string \<Rightarrow> bool" where
  "windows_docker_pipe path \<longleftrightarrow>
     map (\<lambda>c. if c = slash then backslash else c) path =
       [backslash, backslash, CHR ''.'', backslash] @ ''pipe'' @ [backslash] @ ''docker_engine''"

definition sandbox_repository :: "'w runner_env \<Rightarrow> nat \<Rightarrow> string \<Rightarrow> ('w, string) sandbox_run" where
  "sandbox_repository env depth repository =
     andthen (ensure (Runner SANDBOX_VALIDATION) (is_absolute repository \<and> \<not> windows_docker_pipe repository)) (\<lambda>_.
     andthen (catch
         (andthen (entry_identity env repository []) (\<lambda>i.
          andthen (host (rn_resolve env repository)) (\<lambda>r. ret (i, r))))
         (\<lambda>e. if e \<in> {Host HostOsError, Host HostRuntimeError} then sandbox_error SANDBOX_VALIDATION else raise e))
       (\<lambda>(before', resolved).
     andthen (host (rn_is_dir env resolved)) (\<lambda>directory.
     andthen (ensure (Runner SANDBOX_VALIDATION) directory) (\<lambda>_.
     andthen (protected_locations env [''.npmrc'', ''.pypirc'']) (\<lambda>locations.
     andthen (any_protected env resolved locations) (\<lambda>protected.
     andthen (ensure (Runner SANDBOX_VALIDATION) (\<not> protected)) (\<lambda>_.
     andthen (tree_identities env depth resolved []) (\<lambda>first_snapshot.
     andthen (tree_identities env depth resolved []) (\<lambda>second_snapshot.
     andthen (catch (host (rn_lstat env repository))
        (\<lambda>e. if e = Host HostOsError then sandbox_error SANDBOX_VALIDATION else raise e)) (\<lambda>after'.
     andthen (host (rn_resolve_lenient env repository)) (\<lambda>again.
     andthen (ensure (Runner SANDBOX_VALIDATION)
        (resolved = again \<and>
         (fi_device before', fi_inode before', fi_mode before') = (fs_dev after', fs_ino after', fs_mode after') \<and>
         first_snapshot = second_snapshot)) (\<lambda>_.
     ret resolved))))))))))))"

section \<open>Captured output\<close>

text \<open>\<open>while len(text.encode()) > budget: text = text[:-1]\<close>\<close>

function shrink :: "nat \<Rightarrow> nat list \<Rightarrow> nat list" where
  "shrink budget ps = (if text_size ps \<le> budget then ps else shrink budget (butlast ps))"
  by pat_completeness auto
termination
  by (relation "measure (\<lambda>(budget, ps). length ps)") (auto simp: text_size_def intro: diff_Suc_less)

declare shrink.simps [simp del]

function bounded_prefix :: "nat \<Rightarrow> bytes \<Rightarrow> nat list" where
  "bounded_prefix budget prefix =
     (if prefix = [] then []
      else (case decode_strict 0 prefix of
          DecodedText ps \<Rightarrow> ps
        | UnfinishedAt n \<Rightarrow> bounded_prefix budget (take n prefix)
        | Undecodable \<Rightarrow> shrink budget (decode_replacing prefix)))"
  by pat_completeness auto
termination
  by (relation "measure (\<lambda>(budget, prefix). length prefix)") (auto dest: decode_strict_position)

declare bounded_prefix.simps [simp del]

definition marker_points :: "nat list" where
  "marker_points = map code truncation_marker"

text \<open>Validated limits hold the marker, so the budget is not negative.\<close>

definition bounded_text :: "bytes \<Rightarrow> nat \<Rightarrow> bool \<Rightarrow> nat list \<times> bool" where
  "bounded_text payload limit already_truncated =
     (if \<not> (already_truncated \<or> limit < length payload) then (decode_replacing payload, False)
      else (let budget = limit - length marker_points in
            (bounded_prefix budget (take budget payload) @ marker_points, True)))"

text \<open>As a string; a character above 255, which no marker contains, stands as a question mark.\<close>

definition text_of_points :: "nat list \<Rightarrow> string" where
  "text_of_points ps = map (\<lambda>p. if p < 256 then char_of p else CHR ''?'') ps"

section \<open>Executing\<close>

definition sandbox_daemon_security :: "'w runner_env \<Rightarrow> ('w, unit) sandbox_run" where
  "sandbox_daemon_security env =
     andthen (catch
         (andthen (host (rn_docker env (plain_request info_arguments))) (\<lambda>r.
          parsed_answer (rn_json env) docker_info_of (dr_stdout r)))
         (\<lambda>e. case e of
            Host h \<Rightarrow> if is_command_error h \<or> h = HostMalformed then sandbox_error SANDBOX_VALIDATION else raise e
          | _ \<Rightarrow> raise e)) (\<lambda>i.
     ensure (Runner SANDBOX_VALIDATION) (secure_daemon i))"

definition sandbox_inspect :: "'w runner_env \<Rightarrow> string \<Rightarrow> ('w, docker_state) sandbox_run" where
  "sandbox_inspect env name =
     andthen (host (rn_docker env (plain_request (inspect_arguments name)))) (\<lambda>r.
     catch (parsed_answer (rn_json env) docker_state_of (dr_stdout r))
       (\<lambda>e. if e = Host HostMalformed then sandbox_error SANDBOX_EXECUTION else raise e))"

definition sandbox_exit_code :: "bytes \<Rightarrow> ('w, nat) sandbox_run" where
  "sandbox_exit_code payload =
     (case exit_code_text payload of None \<Rightarrow> sandbox_error SANDBOX_EXECUTION | Some n \<Rightarrow> ret n)"

definition sandbox_environment :: "string list" where
  "sandbox_environment = [''PYTHONDONTWRITEBYTECODE=1'', ''PYTHONUNBUFFERED=1'',
     ''PYTHONPATH=/tracefix/workspace/repository/src'']"

definition sandbox_image :: string where
  "sandbox_image = ''tracefix-sandbox:0.1.3a''"

definition sandbox_create_arguments :: "string \<Rightarrow> string \<Rightarrow> string list \<Rightarrow> sandbox_limits \<Rightarrow> string list" where
  "sandbox_create_arguments name repository tokens l =
     hardening_arguments name l @ mount_arguments repository @ environment_arguments sandbox_environment @
     [sandbox_image] @ test_paths tokens"

definition sandbox_wait :: "'w runner_env \<Rightarrow> string \<Rightarrow> ('w, nat) sandbox_run" where
  "sandbox_wait env name =
     andthen (host (rn_docker env (plain_request (wait_arguments name)))) (\<lambda>r. sandbox_exit_code (dr_stdout r))"

definition attach_request :: "sandbox_limits \<Rightarrow> string \<Rightarrow> docker_request" where
  "attach_request l name = \<lparr>dq_arguments = start_arguments name, dq_timeout_seconds = Some (sl_timeout_seconds l),
     dq_stdout_bytes = sl_stdout_bytes l, dq_stderr_bytes = sl_stderr_bytes l, dq_check = False\<rparr>"

text \<open>What was captured, and the exit code, \<open>None\<close> when the run was killed\<close>

definition sandbox_attach ::
  "'w runner_env \<Rightarrow> sandbox_limits \<Rightarrow> string \<Rightarrow> ('w, docker_result \<times> nat option) sandbox_run" where
  "sandbox_attach env l name =
     catch (andthen (host (rn_docker env (attach_request l name))) (\<lambda>attached.
            andthen (sandbox_wait env name) (\<lambda>exit_code. ret (attached, Some exit_code))))
       (\<lambda>e. case e of
          Host (CommandTimeout captured) \<Rightarrow>
            andthen (sandbox_inspect env name) (\<lambda>raced.
            if ds_running raced
            then andthen (host (rn_docker env (plain_request (kill_arguments name)))) (\<lambda>_. ret (captured, None))
            else andthen (sandbox_wait env name) (\<lambda>exit_code. ret (captured, Some exit_code)))
        | _ \<Rightarrow> raise e)"

definition completion_of :: "nat option \<Rightarrow> docker_state \<Rightarrow> sandbox_completion" where
  "completion_of exit_code s =
     (if exit_code = None then TIMED_OUT else if ds_oom_killed s then MEMORY_LIMIT else NORMAL)"

definition captured_result ::
  "sandbox_limits \<Rightarrow> docker_result \<Rightarrow> nat option \<Rightarrow> docker_state \<Rightarrow> pyfloat \<Rightarrow> sandbox_result option" where
  "captured_result l captured exit_code s duration =
     (let (out, out_cut) = bounded_text (dr_stdout captured) (nat (sl_stdout_bytes l)) (dr_stdout_truncated captured);
          (err, err_cut) = bounded_text (dr_stderr captured) (nat (sl_stderr_bytes l)) (dr_stderr_truncated captured) in
      valid_or_none valid_sandbox_result
        \<lparr>sr_exit_code = map_option int exit_code, sr_completion = completion_of exit_code s,
         sr_stdout = text_of_points out, sr_stderr = text_of_points err,
         sr_stdout_truncated = out_cut, sr_stderr_truncated = err_cut, sr_duration_seconds = duration\<rparr>)"

definition sandbox_lifecycle ::
  "'w runner_env \<Rightarrow> sandbox_limits \<Rightarrow> string \<Rightarrow> string list \<Rightarrow> pyfloat \<Rightarrow> ('w, sandbox_result) sandbox_run" where
  "sandbox_lifecycle env l name arguments started =
     andthen (host (rn_docker env (plain_request arguments))) (\<lambda>_.
     andthen (sandbox_attach env l name) (\<lambda>(captured, exit_code).
     andthen (sandbox_inspect env name) (\<lambda>s.
     andthen (host (rn_clock env)) (\<lambda>now.
     (let duration = float_sub now started in
      andthen (ensure (Runner SANDBOX_EXECUTION) (\<not> float_negative duration)) (\<lambda>_.
      case captured_result l captured exit_code s duration of
        None \<Rightarrow> raise (Host HostMalformed)
      | Some r \<Rightarrow> ret r))))))"

text \<open>The exceptions that become the execution error\<close>

fun sandbox_recorded :: "sandbox_code runner_raise \<Rightarrow> bool" where
  "sandbox_recorded (Runner c) = (c = SANDBOX_EXECUTION)"
| "sandbox_recorded (Host h) = (is_command_error h \<or> h \<in> {HostMalformed, HostValueError, HostOsError})"

definition sandbox_cleanup ::
  "'w runner_env \<Rightarrow> string \<Rightarrow> sandbox_code runner_raise option \<Rightarrow> ('w, unit) sandbox_run" where
  "sandbox_cleanup env name in_flight =
     catch (andthen (host (rn_docker env (plain_request (remove_arguments name)))) (\<lambda>_. ret ()))
       (\<lambda>e. if e = Host HostInterrupt then raise e else sandbox_error SANDBOX_CLEANUP)"

definition sandbox_execute ::
  "'w runner_env \<Rightarrow> sandbox_limits \<Rightarrow> nat \<Rightarrow> string \<Rightarrow> string list \<Rightarrow> ('w, sandbox_result) sandbox_run" where
  "sandbox_execute env l depth repository tokens =
     andthen (ensure (Runner SANDBOX_VALIDATION) (pytest_command_ok tokens)) (\<lambda>_.
     andthen (sandbox_repository env depth repository) (\<lambda>prepared.
     andthen (sandbox_daemon_security env) (\<lambda>_.
     andthen (host (rn_identifier env)) (\<lambda>identifier.
     (let name = ''tracefix-sandbox-'' @ identifier in
      andthen (host (rn_clock env)) (\<lambda>started.
      andthen (always_then
         (catch (andthen (sandbox_lifecycle env l name (sandbox_create_arguments name prepared tokens l) started)
                   (\<lambda>r. ret (Some r)))
            (\<lambda>e. if sandbox_recorded e then ret None else raise e))
         (sandbox_cleanup env name)) (\<lambda>outcome.
      (case outcome of None \<Rightarrow> sandbox_error SANDBOX_EXECUTION | Some r \<Rightarrow> ret r))))))))"

end
