(* ===== verification/Verification_Runner.thy ===== *)
theory Verification_Runner
  imports Docker Verification
begin

text \<open>
  \<open>app/sandbox/verification_runner.py\<close>: the checks of repository, targeted paths and hidden bundle, and
  \<open>VerificationSandboxRunner\<close>.  \<open>InvalidInput\<close> is \<open>VerificationRunnerValidationError\<close>, the subclass with
  its own constructor.
\<close>

section \<open>Errors\<close>

datatype verification_fault = Fault runner_code | InvalidInput

type_synonym ('w, 'a) verification_run = "('w, verification_fault runner_raise, 'a) act"

abbreviation verification_error :: "runner_code \<Rightarrow> ('w, 'a) verification_run" where
  "verification_error c \<equiv> raise (Runner (Fault c))"

abbreviation invalid_input :: "('w, 'a) verification_run" where
  "invalid_input \<equiv> raise (Runner InvalidInput)"

section \<open>Mounts\<close>

text \<open>All locations are resolved first.\<close>

fun resolved_locations :: "'w runner_env \<Rightarrow> string list \<Rightarrow> ('w, string list) verification_run" where
  "resolved_locations env [] = ret []"
| "resolved_locations env (l # ls) =
     andthen (host (rn_resolve_lenient env l)) (\<lambda>r.
     andthen (resolved_locations env ls) (\<lambda>rs. ret (r # rs)))"

definition protected_mount :: "'w runner_env \<Rightarrow> string \<Rightarrow> ('w, bool) verification_run" where
  "protected_mount env path =
     andthen (protected_locations env [''.npmrc'', ''.pypirc'']) (\<lambda>locations.
     andthen (resolved_locations env locations) (\<lambda>resolved.
     ret (overlaps path (hd resolved) \<or> same_or_ancestor path (hd (tl resolved)) \<or>
          list_ex (overlaps path) (drop 2 resolved))))"

definition plain_directory :: "'w runner_env \<Rightarrow> string \<Rightarrow> ('w, string) verification_run" where
  "plain_directory env path =
     andthen (ensure (Runner InvalidInput) (is_absolute path)) (\<lambda>_.
     andthen (catch
         (andthen (host (rn_lstat env path)) (\<lambda>m.
          andthen (host (rn_resolve env path)) (\<lambda>r. ret (m, r))))
         (\<lambda>e. if e \<in> {Host HostOsError, Host HostRuntimeError} then invalid_input else raise e))
       (\<lambda>(m, resolved).
     andthen (ensure (Runner InvalidInput) (path = resolved)) (\<lambda>_.
     andthen (host (rn_is_symlink env path)) (\<lambda>link.
     andthen (ensure (Runner InvalidInput) (\<not> (link \<or> \<not> stat_is_dir m \<or> stat_is_reparse m))) (\<lambda>_.
     ret resolved)))))"

text \<open>The names of a directory are sorted before they are looked at.\<close>

definition name_order :: "string list \<Rightarrow> string list" where
  "name_order names = sort_key (\<lambda>n. (casefold n, n)) names"

definition verification_repository :: "'w runner_env \<Rightarrow> nat \<Rightarrow> string \<Rightarrow> ('w, string) verification_run" where
  "verification_repository env depth repository =
     andthen (plain_directory env repository) (\<lambda>resolved.
     andthen (protected_mount env resolved) (\<lambda>protected.
     andthen (ensure (Runner InvalidInput) (\<not> protected)) (\<lambda>_.
     andthen (inspect_tree env InvalidInput name_order depth resolved) (\<lambda>_.
     ret resolved))))"

section \<open>Tests\<close>

definition max_test_files :: nat where "max_test_files = 1000"

definition targeted_path_ok :: "string \<Rightarrow> bool" where
  "targeted_path_ok value = (\<not>
     (value = [] \<or> utf8_len value > 1024 \<or> backslash \<in> set value \<or> windows_drive_or_root value \<or>
      is_absolute value \<or> take 1 (posix_parts value) \<noteq> [''tests''] \<or> \<not> startswith (path_name value) ''test_'' \<or>
      path_suffix value \<noteq> ''.py'' \<or> list_ex (\<lambda>part. part \<in> {[], ''.'', ''..''}) (split_on slash value) \<or>
      list_ex is_control value \<or> startswith value ''-'' \<or> startswith value ''@''))"

definition targeted_paths_ok :: "string list \<Rightarrow> bool" where
  "targeted_paths_ok paths \<longleftrightarrow>
     paths \<noteq> [] \<and> length paths \<le> max_test_files \<and> list_all targeted_path_ok paths \<and> distinct (map casefold paths)"

text \<open>\<open>f"test_{index:04d}.py"\<close>\<close>

definition generated_test_name :: "nat \<Rightarrow> string" where
  "generated_test_name index =
     (let digits = decimal index in ''test_'' @ replicate (4 - length digits) (CHR ''0'') @ digits @ ''.py'')"

definition generated_test :: "string \<Rightarrow> bool" where
  "generated_test name \<longleftrightarrow>
     length name = 12 \<and> startswith name ''test_'' \<and> list_all is_digit (take 4 (drop 5 name)) \<and> drop 9 name = ''.py''"

definition bundle_prefix :: string where
  "bundle_prefix = ''.tracefix-verification-''"

definition bundle_name_ok :: "string \<Rightarrow> bool" where
  "bundle_name_ok name \<longleftrightarrow> startswith name bundle_prefix \<and> hex_string 32 (drop (length bundle_prefix) name)"

definition parent_path :: "string \<Rightarrow> string" where
  "parent_path path = as_posix (posix_root path @ join_with slash (butlast (posix_parts path)))"

fun bundle_entries_ok :: "'w runner_env \<Rightarrow> string \<Rightarrow> string list \<Rightarrow> ('w, unit) verification_run" where
  "bundle_entries_ok env base [] = ret ()"
| "bundle_entries_ok env base (name # names) =
     (let path = join_path base [name] in
      andthen (host (rn_lstat env path)) (\<lambda>m.
      andthen (ensure (Runner InvalidInput) (generated_test name)) (\<lambda>_.
      andthen (host (rn_is_symlink env path)) (\<lambda>link.
      andthen (ensure (Runner InvalidInput)
         (\<not> (link \<or> stat_is_reparse m \<or> \<not> stat_is_regular m \<or> fs_nlink m \<noteq> 1))) (\<lambda>_.
      bundle_entries_ok env base names)))))"

definition os_error_is_invalid :: "('w, 'a) verification_run \<Rightarrow> ('w, 'a) verification_run" where
  "os_error_is_invalid m = catch m (\<lambda>e. if e = Host HostOsError then invalid_input else raise e)"

definition bundle_contents_ok :: "'w runner_env \<Rightarrow> hidden_bundle \<Rightarrow> string \<Rightarrow> ('w, unit) verification_run" where
  "bundle_contents_ok env b base =
     os_error_is_invalid
       (andthen (host (rn_listdir env base)) (\<lambda>names.
        andthen (ensure (Runner InvalidInput) (name_order names = hb_test_files b)) (\<lambda>_.
        bundle_entries_ok env base (name_order names))))"

definition validated_bundle :: "'w runner_env \<Rightarrow> hidden_bundle \<Rightarrow> string \<Rightarrow> ('w, hidden_bundle) verification_run" where
  "validated_bundle env b repository =
     andthen (ensure (Runner InvalidInput) (valid_bundle b)) (\<lambda>_.
     andthen (plain_directory env (hb_workspace_root b)) (\<lambda>workspace.
     andthen (plain_directory env (hb_root b)) (\<lambda>base.
     andthen (os_error_is_invalid (host (rn_lstat env workspace))) (\<lambda>m.
     andthen (ensure (Runner InvalidInput)
        (parent_path base = workspace \<and> permission_bits m mod 64 = 0 \<and> bundle_name_ok (path_name base) \<and>
         \<not> overlaps base repository \<and>
         hb_test_files b = map generated_test_name [0 ..< length (hb_test_files b)])) (\<lambda>_.
     andthen (protected_mount env base) (\<lambda>protected.
     andthen (ensure (Runner InvalidInput) (\<not> protected)) (\<lambda>_.
     andthen (bundle_contents_ok env b base) (\<lambda>_.
     ret b))))))))"

section \<open>Arguments\<close>

definition hidden_entrypoint :: string where
  "hidden_entrypoint =
     ''import os,shutil,sys;'' @
     ''shutil.copytree('' @ [CHR 0x27] @ ''/tracefix/input'' @ [CHR 0x27] @ '','' @ [CHR 0x27] @
       ''/tracefix/workspace/repository'' @ [CHR 0x27] @ '');'' @
     ''os.chdir('' @ [CHR 0x27] @ ''/tracefix/workspace/repository'' @ [CHR 0x27] @ '');'' @
     ''os.execv(sys.executable,(sys.executable,'' @ [CHR 0x27] @ ''-m'' @ [CHR 0x27] @ '','' @ [CHR 0x27] @ ''pytest'' @
       [CHR 0x27] @ '',*sys.argv[1:]))''"

definition container_hidden :: string where "container_hidden = ''/tracefix/hidden''"

definition verification_environment :: "string list" where
  "verification_environment = [''PYTHONDONTWRITEBYTECODE=1'', ''PYTHONUNBUFFERED=1'',
     ''PYTHONPATH=/tracefix/workspace/repository/src'']"

definition verification_image :: string where
  "verification_image = ''tracefix-sandbox:0.1.3a''"

definition hidden_mount :: "hidden_bundle option \<Rightarrow> string list" where
  "hidden_mount bundle' =
     (case bundle' of
        None \<Rightarrow> []
      | Some b \<Rightarrow> [''--mount'', bind_mount (hb_root b) container_hidden, ''--entrypoint'', ''python''])"

definition hidden_command :: "hidden_bundle option \<Rightarrow> string list" where
  "hidden_command bundle' = (case bundle' of None \<Rightarrow> [] | Some b \<Rightarrow> [''-c'', hidden_entrypoint])"

definition verification_create_arguments ::
  "string \<Rightarrow> string \<Rightarrow> string list \<Rightarrow> hidden_bundle option \<Rightarrow> sandbox_limits \<Rightarrow> string list" where
  "verification_create_arguments name repository paths bundle' l =
     hardening_arguments name l @ mount_arguments repository @ hidden_mount bundle' @
     environment_arguments verification_environment @ [verification_image] @ hidden_command bundle' @ paths"

section \<open>Executing\<close>

definition verification_daemon_security :: "'w runner_env \<Rightarrow> ('w, unit) verification_run" where
  "verification_daemon_security env =
     andthen (catch
         (andthen (host (rn_docker env (plain_request info_arguments))) (\<lambda>r.
          parsed_answer (rn_json env) docker_info_of (dr_stdout r)))
         (\<lambda>e. if e = Host HostInterrupt then raise e else verification_error RC_DAEMON_SECURITY)) (\<lambda>i.
     ensure (Runner (Fault RC_DAEMON_SECURITY)) (secure_daemon i))"

definition verification_inspect :: "'w runner_env \<Rightarrow> string \<Rightarrow> ('w, docker_state) verification_run" where
  "verification_inspect env name =
     catch (andthen (host (rn_docker env (plain_request (inspect_arguments name)))) (\<lambda>r.
            parsed_answer (rn_json env) docker_state_of (dr_stdout r)))
       (\<lambda>e. case e of
          Host h \<Rightarrow>
            if is_command_error h \<or> h = HostOsError then verification_error RC_DOCKER_FAILED
            else if h \<in> {HostTypeError, HostMalformed} then verification_error RC_MALFORMED_RESULT
            else raise e
        | _ \<Rightarrow> raise e)"

definition verification_exit_code :: "bytes \<Rightarrow> ('w, nat) verification_run" where
  "verification_exit_code payload =
     (case exit_code_text payload of
        None \<Rightarrow> verification_error RC_MALFORMED_RESULT
      | Some n \<Rightarrow> if 2 ^ 31 - 1 < n then verification_error RC_MALFORMED_RESULT else ret n)"

definition verification_wait :: "'w runner_env \<Rightarrow> string \<Rightarrow> ('w, nat) verification_run" where
  "verification_wait env name =
     andthen (host (rn_docker env (plain_request (wait_arguments name)))) (\<lambda>r. verification_exit_code (dr_stdout r))"

definition verification_attach_request :: "sandbox_limits \<Rightarrow> string \<Rightarrow> docker_request" where
  "verification_attach_request l name = \<lparr>dq_arguments = start_arguments name,
     dq_timeout_seconds = Some (sl_timeout_seconds l), dq_stdout_bytes = sl_stdout_bytes l,
     dq_stderr_bytes = sl_stderr_bytes l, dq_check = False\<rparr>"

definition verification_attach ::
  "'w runner_env \<Rightarrow> sandbox_limits \<Rightarrow> string \<Rightarrow> ('w, docker_result \<times> nat option) verification_run" where
  "verification_attach env l name =
     catch (andthen (host (rn_docker env (verification_attach_request l name))) (\<lambda>attached.
            andthen (verification_wait env name) (\<lambda>exit_code. ret (attached, Some exit_code))))
       (\<lambda>e. case e of
          Host (CommandTimeout captured) \<Rightarrow>
            andthen (verification_inspect env name) (\<lambda>s.
            if ds_running s
            then andthen (host (rn_docker env (plain_request (kill_arguments name)))) (\<lambda>_. ret (captured, None))
            else andthen (verification_wait env name) (\<lambda>exit_code. ret (captured, Some exit_code)))
        | _ \<Rightarrow> raise e)"

definition evidence_completion :: "nat option \<Rightarrow> docker_state \<Rightarrow> sandbox_completion" where
  "evidence_completion exit_code s =
     (if exit_code = None then TIMED_OUT else if ds_oom_killed s then MEMORY_LIMIT else NORMAL)"

definition container_evidence ::
  "docker_result \<Rightarrow> nat option \<Rightarrow> docker_state \<Rightarrow> pyfloat \<Rightarrow> sandbox_evidence option" where
  "container_evidence attached exit_code s duration =
     valid_or_none valid_evidence
       \<lparr>ve_completion = evidence_completion exit_code s, ve_exit_code = map_option int exit_code,
        ve_stdout_truncated = dr_stdout_truncated attached, ve_stderr_truncated = dr_stderr_truncated attached,
        ve_duration_seconds = duration\<rparr>"

text \<open>What follows the creation\<close>

definition verification_lifecycle ::
  "'w runner_env \<Rightarrow> sandbox_limits \<Rightarrow> string \<Rightarrow> pyfloat \<Rightarrow> ('w, sandbox_evidence) verification_run" where
  "verification_lifecycle env l name started =
     andthen (verification_attach env l name) (\<lambda>(attached, exit_code).
     andthen (verification_inspect env name) (\<lambda>s.
     andthen (host (rn_clock env)) (\<lambda>now.
     (let duration = float_sub now started in
      andthen (ensure (Runner (Fault RC_MALFORMED_RESULT)) (finite_at_least 0 duration)) (\<lambda>_.
      case container_evidence attached exit_code s duration of
        None \<Rightarrow> raise (Host HostMalformed)
      | Some e \<Rightarrow> ret e)))))"

definition verification_primary :: "verification_fault runner_raise \<Rightarrow> verification_fault option" where
  "verification_primary e =
     (case e of
        Runner c \<Rightarrow> Some c
      | Host h \<Rightarrow>
          if h = HostInterrupt then None
          else if h \<in> {HostTypeError, HostMalformed, HostValueError} then Some (Fault RC_MALFORMED_RESULT)
          else Some (Fault RC_DOCKER_FAILED))"

definition keep_primary :: "('w, 'a) verification_run \<Rightarrow> ('w, verification_fault + 'a) verification_run" where
  "keep_primary m =
     catch (andthen m (\<lambda>r. ret (Inr r)))
       (\<lambda>e. case verification_primary e of None \<Rightarrow> raise e | Some c \<Rightarrow> ret (Inl c))"

definition verification_cleanup ::
  "'w runner_env \<Rightarrow> string \<Rightarrow> verification_fault runner_raise option \<Rightarrow> ('w, unit) verification_run" where
  "verification_cleanup env name in_flight =
     catch (andthen (host (rn_docker env (plain_request (remove_arguments name)))) (\<lambda>_. ret ()))
       (\<lambda>e. if e = Host HostInterrupt then raise e
            else if in_flight = Some (Host HostInterrupt) then ret ()
            else verification_error RC_CLEANUP_FAILED)"

definition raise_primary :: "verification_fault + 'a \<Rightarrow> ('w, 'a) verification_run" where
  "raise_primary outcome = (case outcome of Inl c \<Rightarrow> raise (Runner c) | Inr r \<Rightarrow> ret r)"

text \<open>The container is removed only when its creation returned.\<close>

definition execute_prevalidated ::
  "'w runner_env \<Rightarrow> sandbox_limits \<Rightarrow> string \<Rightarrow> string list \<Rightarrow> hidden_bundle option \<Rightarrow>
     ('w, sandbox_evidence) verification_run" where
  "execute_prevalidated env l repository paths bundle' =
     andthen (host (rn_clock env)) (\<lambda>started.
     andthen (verification_daemon_security env) (\<lambda>_.
     andthen (catch (host (rn_identifier env))
        (\<lambda>e. if e = Host HostInterrupt then raise e else invalid_input)) (\<lambda>identifier.
     andthen (ensure (Runner InvalidInput) (hex_string 32 identifier)) (\<lambda>_.
     (let name = ''tracefix-verification-'' @ identifier in
      andthen (keep_primary (host (rn_docker env
         (plain_request (verification_create_arguments name repository paths bundle' l))))) (\<lambda>created.
      case created of
        Inl c \<Rightarrow> raise (Runner c)
      | Inr _ \<Rightarrow>
          andthen (always_then (keep_primary (verification_lifecycle env l name started))
             (verification_cleanup env name)) raise_primary))))))"

definition execute_targeted ::
  "'w runner_env \<Rightarrow> sandbox_limits \<Rightarrow> nat \<Rightarrow> string \<Rightarrow> string list \<Rightarrow> ('w, sandbox_evidence) verification_run" where
  "execute_targeted env l depth repository paths =
     andthen (ensure (Runner InvalidInput) (targeted_paths_ok paths)) (\<lambda>_.
     andthen (verification_repository env depth repository) (\<lambda>prepared.
     execute_prevalidated env l prepared paths None))"

definition execute_visible_suite ::
  "'w runner_env \<Rightarrow> sandbox_limits \<Rightarrow> nat \<Rightarrow> string \<Rightarrow> ('w, sandbox_evidence) verification_run" where
  "execute_visible_suite env l depth repository =
     andthen (verification_repository env depth repository) (\<lambda>prepared.
     execute_prevalidated env l prepared [] None)"

definition execute_hidden ::
  "'w runner_env \<Rightarrow> sandbox_limits \<Rightarrow> nat \<Rightarrow> string \<Rightarrow> hidden_bundle \<Rightarrow> ('w, sandbox_evidence) verification_run" where
  "execute_hidden env l depth repository b =
     andthen (verification_repository env depth repository) (\<lambda>prepared.
     andthen (validated_bundle env b prepared) (\<lambda>checked'.
     execute_prevalidated env l prepared
       (map (\<lambda>name. container_hidden @ [slash] @ name) (hb_test_files checked')) (Some checked')))"

end
