(* ===== verification/Runner_Facts.thy ===== *)
theory Runner_Facts
  imports Static_Runner Sandbox_Runner Verification_Runner
begin

text \<open>
  The commands that a runner gives to Docker, with their success, as steps of a container's life.  The
  locale \<open>docker_log\<close> is the interface of an adapter whose commands are recorded; it is interpreted on
  the adapter of the code, \<open>SubprocessDockerCommandAdapter\<close>, with the world extended by a log.
\<close>

section \<open>The life of a container\<close>

text \<open>A command, and whether the client ended with exit code 0\<close>

type_synonym docker_call = "string list \<times> bool"

definition succeeded :: "host_raise + docker_result \<Rightarrow> bool" where
  "succeeded r = (case r of Inl _ \<Rightarrow> False | Inr x \<Rightarrow> dr_exit_code x = 0)"

text \<open>A creation or a start that fails may have had its effect; only a removal that succeeds counts.\<close>

datatype container_phase =
    Idle | Secured | CreationFailed string | Created string | Started string | Removed string | Unremoved string

inductive container_step ::
  "(string \<Rightarrow> string list \<Rightarrow> bool) \<Rightarrow> container_phase \<Rightarrow> docker_call \<Rightarrow> container_phase \<Rightarrow> bool"
  for created where
  secure: "container_step created Idle (info_arguments, True) Secured"
| refuse: "container_step created Idle (info_arguments, False) Idle"
| create: "created name arguments \<Longrightarrow> container_step created Secured (arguments, True) (Created name)"
| create_failed: "created name arguments \<Longrightarrow> container_step created Secured (arguments, False) (CreationFailed name)"
| start: "container_step created (Created name) (start_arguments name, ok) (Started name)"
| look: "c \<in> {wait_arguments name, inspect_arguments name, kill_arguments name} \<Longrightarrow>
    p \<in> {Created name, Started name} \<Longrightarrow> container_step created p (c, ok) p"
| remove: "p \<in> {Secured, CreationFailed name, Created name, Started name} \<Longrightarrow>
    container_step created p (remove_arguments name, True) (Removed name)"
| remain: "p \<in> {Secured, CreationFailed name, Created name, Started name} \<Longrightarrow>
    container_step created p (remove_arguments name, False) (Unremoved name)"

inductive container_run ::
  "(string \<Rightarrow> string list \<Rightarrow> bool) \<Rightarrow> docker_call list \<Rightarrow> container_phase \<Rightarrow> bool"
  for created where
  none: "container_run created [] Idle"
| more: "container_run created cs p \<Longrightarrow> container_step created p c q \<Longrightarrow> container_run created (cs @ [c]) q"

inductive_cases removed_stepE: "container_step created (Removed name) c q"

lemma removed_is_final: "\<not> container_step created (Removed name) c q"
  by (auto elim: removed_stepE)

section \<open>Rules for exceptions of the host and for cleaning up\<close>

lemma triple_map_raise [triple_intro]:
  "triple P m Q (\<lambda>e. E (f e)) \<Longrightarrow> triple P (map_raise f m) Q E"
  by (fastforce simp: triple_def map_raise_def split: prod.splits sum.splits)

lemma triple_host_value [triple_intro]:
  "(\<And>x s. P s \<Longrightarrow> Q x s) \<Longrightarrow> (\<And>e s. P s \<Longrightarrow> E (Host e) s) \<Longrightarrow> triple P (host_value r) Q E"
  by (auto simp: host_value_def intro: triple_ret triple_raise split: sum.splits)

lemma triple_always_then:
  assumes "triple P m Q R" "\<And>x. triple (Q x) (f None) (\<lambda>_. S x) E" "\<And>e. triple (R e) (f (Some e)) (\<lambda>_. E e) E"
  shows "triple P (always_then m f) S E"
proof (rule tripleI)
  fix w
  assume "P w"
  show "case always_then m f w of (Inl e, w') \<Rightarrow> E e w' | (Inr x, w') \<Rightarrow> S x w'"
  proof (cases "m w")
    case (Pair r w1)
    show ?thesis
    proof (cases r)
      case (Inl e)
      with Pair \<open>P w\<close> assms(1) have "R e w1" by (auto simp: triple_def split: prod.splits sum.splits)
      with assms(3) [of e] Inl Pair show ?thesis
        by (fastforce simp: triple_def always_then_def split: prod.splits sum.splits)
    next
      case (Inr x)
      with Pair \<open>P w\<close> assms(1) have "Q x w1" by (auto simp: triple_def split: prod.splits sum.splits)
      with assms(2) [of x] Inr Pair show ?thesis
        by (fastforce simp: triple_def always_then_def split: prod.splits sum.splits)
    qed
  qed
qed

section \<open>Recorded adapters\<close>

text \<open>A question to the host leaves an observation of the world as it is.\<close>

definition leaves :: "('w \<Rightarrow> 'o) \<Rightarrow> ('w, 'e, 'a) act \<Rightarrow> bool" where
  "leaves observe m \<longleftrightarrow> (\<forall>w. observe (snd (m w)) = observe w)"

lemma leaves_triple: "leaves observe m \<Longrightarrow> triple (\<lambda>w. P (observe w)) m (\<lambda>_ w. P (observe w)) (\<lambda>_ w. P (observe w))"
  unfolding leaves_def by (rule tripleI) (auto split: prod.splits sum.splits; metis snd_conv)

locale docker_log =
  fixes env :: "'w runner_env" and log :: "'w \<Rightarrow> docker_call list"
  assumes recorded: "log (snd (rn_docker env q w)) = log w @ [(dq_arguments q, succeeded (fst (rn_docker env q w)))]"
    and checked: "dq_check q \<Longrightarrow> rn_docker env q w = (Inr r, w') \<Longrightarrow> dr_exit_code r = 0"
    and silent: "leaves log (rn_clock env)" "leaves log (rn_identifier env)" "leaves log (rn_lstat env p)"
      "leaves log (rn_is_symlink env p)" "leaves log (rn_is_dir env p)" "leaves log (rn_resolve env p)"
      "leaves log (rn_resolve_lenient env p)" "leaves log (rn_scandir env p)" "leaves log (rn_listdir env p)"
      "leaves log (rn_home env)"
begin

definition at_phase :: "(string \<Rightarrow> string list \<Rightarrow> bool) \<Rightarrow> container_phase set \<Rightarrow> 'w \<Rightarrow> bool" where
  "at_phase created ps w \<longleftrightarrow> (\<exists>p \<in> ps. container_run created (log w) p)"

lemma at_phase_mono: "at_phase created ps w \<Longrightarrow> ps \<subseteq> qs \<Longrightarrow> at_phase created qs w"
  by (auto simp: at_phase_def)

text \<open>\<open>stays created ps m\<close>: the computation gives no command.\<close>

definition stays :: "(string \<Rightarrow> string list \<Rightarrow> bool) \<Rightarrow> container_phase set \<Rightarrow> ('w, 'e, 'a) act \<Rightarrow> bool" where
  "stays created ps m \<longleftrightarrow> triple (at_phase created ps) m (\<lambda>_. at_phase created ps) (\<lambda>_. at_phase created ps)"

lemma stays_leaves: "leaves log m \<Longrightarrow> stays created ps m"
  unfolding stays_def at_phase_def by (rule leaves_triple)

lemma stays_simple [intro, simp]:
  "stays created ps (ret x)" "stays created ps (raise e)" "stays created ps (ensure e b)"
  by (auto simp: stays_def intro: triple_intro)

lemma stays_andthen: "stays created ps m \<Longrightarrow> (\<And>x. stays created ps (f x)) \<Longrightarrow> stays created ps (andthen m f)"
  unfolding stays_def by (rule triple_andthen)

lemma stays_catch: "stays created ps m \<Longrightarrow> (\<And>e. stays created ps (h e)) \<Longrightarrow> stays created ps (catch m h)"
  unfolding stays_def by (rule triple_catch)

lemma stays_map_raise: "stays created ps m \<Longrightarrow> stays created ps (map_raise f m)"
  unfolding stays_def by (rule triple_map_raise)

lemma stays_host_value [intro, simp]: "stays created ps (host_value r)"
  by (auto simp: stays_def intro: triple_intro)

lemma stays_asks [intro, simp]:
  "stays created ps (rn_clock env)" "stays created ps (rn_identifier env)" "stays created ps (rn_lstat env p)"
  "stays created ps (rn_is_symlink env p)" "stays created ps (rn_is_dir env p)" "stays created ps (rn_resolve env p)"
  "stays created ps (rn_resolve_lenient env p)" "stays created ps (rn_scandir env p)"
  "stays created ps (rn_listdir env p)" "stays created ps (rn_home env)"
  using silent by (auto intro: stays_leaves)

lemmas stays_rules = stays_andthen stays_catch stays_map_raise

text \<open>One command moves along every step that it allows: it raises only with a failure, and returns only with a
  success when its exit code is checked.\<close>

lemma command_moves:
  assumes "\<And>p ok. p \<in> ps \<Longrightarrow> dq_check q \<longrightarrow> ok \<Longrightarrow> \<exists>p' \<in> qs. container_step created p (dq_arguments q, ok) p'"
    "\<And>p. p \<in> ps \<Longrightarrow> \<exists>p' \<in> es. container_step created p (dq_arguments q, False) p'"
  shows "triple (at_phase created ps) (rn_docker env q) (\<lambda>_. at_phase created qs) (\<lambda>_. at_phase created es)"
proof (rule tripleI)
  fix w
  assume "at_phase created ps w"
  then obtain p where p: "p \<in> ps" "container_run created (log w) p" by (auto simp: at_phase_def)
  obtain r w' where d: "rn_docker env q w = (r, w')" by (rule that, rule surjective_pairing)
  then have l: "log w' = log w @ [(dq_arguments q, succeeded r)]" using recorded [of q w] by simp
  have "at_phase created (case r of Inl _ \<Rightarrow> es | Inr _ \<Rightarrow> qs) w'"
  proof (cases r)
    case (Inl e)
    then show ?thesis using assms(2) [OF p(1)] container_run.more [OF p(2)] l by (auto simp: at_phase_def succeeded_def)
  next
    case (Inr x)
    then have "dq_check q \<longrightarrow> succeeded r" using checked d by (simp add: succeeded_def)
    from assms(1) [OF p(1) this] container_run.more [OF p(2)] l Inr show ?thesis by (auto simp: at_phase_def)
  qed
  with d show "case rn_docker env q w of (Inl e, w') \<Rightarrow> at_phase created es w' | (Inr x, w') \<Rightarrow> at_phase created qs w'"
    by (cases r) auto
qed

section \<open>Inspecting the tree gives no command\<close>

lemma stays_check_entries: "stays created ps (check_entries env invalid base parts names seen)"
  by (induction names arbitrary: seen) (auto simp: Let_def intro!: stays_rules)

lemma stays_real_directories: "stays created ps (real_directories env base parts names)"
  by (induction names) (auto intro!: stays_rules)

lemma stays_each_then: "(\<And>x s. stays created ps (f x s)) \<Longrightarrow> stays created ps (each_then f xs s)"
  by (induction xs arbitrary: s) (auto intro!: stays_rules)

lemma stays_walk_tree: "stays created ps (walk_tree env invalid order base depth parts seen)"
proof (induction depth arbitrary: parts seen)
  case (Suc depth)
  then show ?case
    by (auto simp: Let_def listing_def intro!: stays_rules stays_check_entries stays_real_directories stays_each_then
        split: option.splits)
qed simp

lemma stays_inspect_tree: "stays created ps (inspect_tree env invalid order depth base)"
  by (auto simp: inspect_tree_def intro!: stays_rules stays_walk_tree)

lemma stays_protected_locations: "stays created ps (protected_locations env extra)"
  by (auto simp: protected_locations_def intro!: stays_rules)

lemma stays_any_protected: "stays created ps (any_protected env resolved locations)"
  by (induction locations) (auto intro!: stays_rules)

lemma stays_parsed_answer: "stays created ps (parsed_answer parser read payload)"
  by (auto simp: parsed_answer_def intro!: stays_rules split: option.splits)

lemmas stays_shared = stays_inspect_tree stays_protected_locations stays_any_protected stays_parsed_answer

end

section \<open>The recording environment\<close>

definition beside_log :: "('w, 'e, 'a) act \<Rightarrow> ('w \<times> 'l, 'e, 'a) act" where
  "beside_log m = (\<lambda>(w, l). case m w of (r, w') \<Rightarrow> (r, (w', l)))"

definition recording :: "'w process_env \<Rightarrow> 'w runner_env \<Rightarrow> ('w \<times> docker_call list) runner_env" where
  "recording p env = \<lparr>
     rn_docker = (\<lambda>q (w, l). case subprocess_run p q w of (r, w') \<Rightarrow> (r, (w', l @ [(dq_arguments q, succeeded r)]))),
     rn_json = rn_json env, rn_model_json = rn_model_json env, rn_clock = beside_log (rn_clock env),
     rn_identifier = beside_log (rn_identifier env), rn_lstat = (\<lambda>p. beside_log (rn_lstat env p)),
     rn_is_symlink = (\<lambda>p. beside_log (rn_is_symlink env p)), rn_is_dir = (\<lambda>p. beside_log (rn_is_dir env p)),
     rn_resolve = (\<lambda>p. beside_log (rn_resolve env p)),
     rn_resolve_lenient = (\<lambda>p. beside_log (rn_resolve_lenient env p)),
     rn_scandir = (\<lambda>p. beside_log (rn_scandir env p)), rn_listdir = (\<lambda>p. beside_log (rn_listdir env p)),
     rn_home = beside_log (rn_home env), rn_project = rn_project env\<rparr>"

lemma beside_log_leaves: "leaves snd (beside_log m)"
  by (auto simp: leaves_def beside_log_def split: prod.splits)

text \<open>The adapter raises when a checked command ends with another exit code than 0.\<close>

lemma subprocess_run_checked: "dq_check q \<Longrightarrow> subprocess_run p q w = (Inr r, w') \<Longrightarrow> dr_exit_code r = 0"
  by (auto simp: subprocess_run_def andthen_def ret_def raise_def split: prod.splits sum.splits if_splits wait_outcome.splits)

interpretation recording: docker_log "recording p env" snd
  by unfold_locales (auto simp: recording_def beside_log_leaves dest: subprocess_run_checked split: prod.splits)

end
