(* ===== verification/Runner_Lives.thy ===== *)
theory Runner_Lives
  imports Runner_Facts
begin

text \<open>
  Every computation of the three runners as a piece of a container's life: from which phases it starts,
  and in which it leaves the container when it returns and when it raises.
\<close>

section \<open>The static runner\<close>

definition static_created :: "sandbox_limits \<Rightarrow> string \<Rightarrow> string list \<Rightarrow> bool" where
  "static_created l name arguments \<longleftrightarrow>
     (\<exists>repository paths. arguments = static_create_arguments name repository paths l)"

definition sandbox_created :: "sandbox_limits \<Rightarrow> string \<Rightarrow> string list \<Rightarrow> bool" where
  "sandbox_created l name arguments \<longleftrightarrow>
     (\<exists>repository tokens. arguments = sandbox_create_arguments name repository tokens l)"

definition verification_created :: "sandbox_limits \<Rightarrow> string \<Rightarrow> string list \<Rightarrow> bool" where
  "verification_created l name arguments \<longleftrightarrow>
     (\<exists>repository paths b. arguments = verification_create_arguments name repository paths b l)"

text \<open>The phases after a raise: a container may be left only by a removal that failed, and then the run raises
  one of \<open>failures\<close>.\<close>

definition or_unremoved :: "container_phase set \<Rightarrow> 'e set \<Rightarrow> 'e \<Rightarrow> container_phase set" where
  "or_unremoved ps failures e = (if e \<in> failures then ps \<union> range Unremoved else ps)"

text \<open>A container that was created may be looked at.\<close>

lemma live_look:
  "p = Created name \<or> p = Started name \<Longrightarrow> c \<in> {wait_arguments name, inspect_arguments name, kill_arguments name} \<Longrightarrow>
     \<exists>p' \<in> {Created name, Started name}. container_step created p (c, ok) p'"
  by (intro bexI [of _ p] container_step.look) auto

context docker_log
begin

definition reaches ::
  "(string \<Rightarrow> string list \<Rightarrow> bool) \<Rightarrow> container_phase set \<Rightarrow> ('w, 'e, 'a) act \<Rightarrow> container_phase set \<Rightarrow>
     container_phase set \<Rightarrow> bool" where
  "reaches created ps m qs es \<longleftrightarrow>
     triple (at_phase created ps) m (\<lambda>_. at_phase created qs) (\<lambda>_. at_phase created es)"

lemma reaches_stays: "stays created ps m \<Longrightarrow> ps \<subseteq> qs \<Longrightarrow> ps \<subseteq> es \<Longrightarrow> reaches created ps m qs es"
  unfolding reaches_def stays_def
  by (erule triple_weaken) (auto simp: at_phase_def)

lemma reaches_andthen:
  "reaches created ps m rs es \<Longrightarrow> (\<And>x. reaches created rs (f x) qs es) \<Longrightarrow> reaches created ps (andthen m f) qs es"
  unfolding reaches_def by (rule triple_andthen)

lemma reaches_catch:
  "reaches created ps m qs rs \<Longrightarrow> (\<And>e. reaches created rs (h e) qs es) \<Longrightarrow> reaches created ps (catch m h) qs es"
  unfolding reaches_def by (rule triple_catch)

text \<open>A command with the same phases on a return and on a raise, and the general one\<close>

lemma reaches_checked:
  assumes "\<And>p ok. p \<in> ps \<Longrightarrow> dq_check q \<longrightarrow> ok \<Longrightarrow> \<exists>p' \<in> qs. container_step created p (dq_arguments q, ok) p'"
    "\<And>p. p \<in> ps \<Longrightarrow> \<exists>p' \<in> es. container_step created p (dq_arguments q, False) p'"
  shows "reaches created ps (host (rn_docker env q)) qs es"
  unfolding reaches_def by (rule triple_map_raise, rule command_moves [OF assms])

lemma reaches_command:
  assumes "\<And>p ok. p \<in> ps \<Longrightarrow> \<exists>p' \<in> qs. container_step created p (dq_arguments q, ok) p'"
  shows "reaches created ps (host (rn_docker env q)) qs qs"
  by (rule reaches_checked) (rule assms, assumption)+

lemma reaches_mono:
  "reaches created ps m qs es \<Longrightarrow> qs \<subseteq> qs' \<Longrightarrow> es \<subseteq> es' \<Longrightarrow> reaches created ps m qs' es'"
  unfolding reaches_def by (erule triple_weaken) (auto simp: at_phase_def)

lemma stays_remaining_seconds: "stays created ps (remaining_seconds env l started)"
  by (auto simp: remaining_seconds_def Let_def intro!: stays_rules)

text \<open>A command of the static runner may not be given, because the deadline has passed.\<close>

lemma reaches_lifecycle_checked:
  assumes "\<And>p. p \<in> ps \<Longrightarrow> \<exists>p' \<in> qs. container_step created p (arguments, True) p'"
    "\<And>p. p \<in> ps \<Longrightarrow> \<exists>p' \<in> es. container_step created p (arguments, False) p'"
    "started \<noteq> None \<Longrightarrow> ps \<subseteq> es" "qs \<subseteq> es"
  shows "reaches created ps (run_lifecycle env l arguments started) qs es"
proof -
  have deadline: "reaches created ps (case started of None \<Rightarrow> ret (sl_timeout_seconds l) | Some s \<Rightarrow> remaining_seconds env l s) ps es"
    using assms(3) stays_remaining_seconds
    by (cases started) (auto simp: reaches_def intro!: reaches_stays [unfolded reaches_def] triple_ret)
  have command: "reaches created ps (host (rn_docker env (static_request l arguments timeout True))) qs es" for timeout
    by (rule reaches_checked) (use assms in \<open>auto simp: static_request_def\<close>)
  have rest: "reaches created qs (andthen (ensure e b) (\<lambda>_. ret r)) qs es" for e b and r :: docker_result
    using assms(4) by (intro reaches_stays stays_rules) auto
  show ?thesis unfolding run_lifecycle_def
    by (rule reaches_andthen [OF deadline], rule reaches_andthen [OF command], rule rest)
qed

lemma reaches_lifecycle_command:
  assumes "\<And>p ok. p \<in> ps \<Longrightarrow> \<exists>p' \<in> qs. container_step created p (arguments, ok) p'" "ps \<union> qs \<subseteq> es"
  shows "reaches created ps (run_lifecycle env l arguments started) qs es"
  by (rule reaches_lifecycle_checked) (use assms in blast)+

lemma reaches_raise: "ps \<subseteq> es \<Longrightarrow> reaches created ps (raise e) qs es"
  unfolding reaches_def by (rule triple_raise) (erule at_phase_mono)

lemma reaches_ret: "ps \<subseteq> qs \<Longrightarrow> reaches created ps (ret x) qs es"
  unfolding reaches_def by (rule triple_ret) (erule at_phase_mono)

lemma reaches_ensure: "ps \<subseteq> qs \<Longrightarrow> ps \<subseteq> es \<Longrightarrow> reaches created ps (ensure e b) qs es"
  by (rule reaches_stays) auto

lemma reaches_from: "reaches created ps m qs es \<Longrightarrow> ps' \<subseteq> ps \<Longrightarrow> reaches created ps' m qs es"
  unfolding reaches_def by (rule tripleI) (drule (1) at_phase_mono, simp add: triple_def)

text \<open>\<open>reaches_or created ps m qs E\<close>: the phases after a raise depend on the exception.\<close>

definition reaches_or ::
  "(string \<Rightarrow> string list \<Rightarrow> bool) \<Rightarrow> container_phase set \<Rightarrow> ('w, 'e, 'a) act \<Rightarrow> container_phase set \<Rightarrow>
     ('e \<Rightarrow> container_phase set) \<Rightarrow> bool" where
  "reaches_or created ps m qs E \<longleftrightarrow>
     triple (at_phase created ps) m (\<lambda>_. at_phase created qs) (\<lambda>e. at_phase created (E e))"

lemma reaches_or_const: "reaches created ps m qs es \<Longrightarrow> (\<And>e. es \<subseteq> E e) \<Longrightarrow> reaches_or created ps m qs E"
  unfolding reaches_def reaches_or_def by (erule triple_weaken) (auto simp: at_phase_def)

lemma reaches_or_andthen:
  "reaches_or created ps m rs E \<Longrightarrow> (\<And>x. reaches_or created rs (f x) qs E) \<Longrightarrow> reaches_or created ps (andthen m f) qs E"
  unfolding reaches_or_def by (rule triple_andthen)

lemma reaches_or_raise: "ps \<subseteq> E e \<Longrightarrow> reaches_or created ps (raise e) qs E"
  unfolding reaches_or_def by (rule triple_raise) (erule at_phase_mono)

lemma reaches_or_ret: "ps \<subseteq> qs \<Longrightarrow> reaches_or created ps (ret x) qs E"
  unfolding reaches_or_def by (rule triple_ret) (erule at_phase_mono)

lemma reaches_or_if:
  "reaches_or created ps m qs E \<Longrightarrow> reaches_or created ps n qs E \<Longrightarrow> reaches_or created ps (if b then m else n) qs E"
  by simp

lemma reaches_or_from: "reaches_or created ps m qs E \<Longrightarrow> ps' \<subseteq> ps \<Longrightarrow> reaches_or created ps' m qs E"
  unfolding reaches_or_def by (rule tripleI) (drule (1) at_phase_mono, simp add: triple_def)

lemma reaches_or_catch:
  "reaches created ps m qs rs \<Longrightarrow> (\<And>e. reaches_or created rs (h e) qs E) \<Longrightarrow> reaches_or created ps (catch m h) qs E"
  unfolding reaches_def reaches_or_def by (rule triple_catch)

lemma reaches_or_always_then:
  assumes "reaches created ps m qs rs" "reaches_or created qs (f None) ends E"
    "\<And>e. reaches_or created rs (f (Some e)) (E e) E"
  shows "reaches_or created ps (always_then m f) ends E"
  using assms unfolding reaches_def reaches_or_def by (rule triple_always_then)

text \<open>The computations that give no command, as a rule of their own\<close>

lemma reaches_shared:
  "ps \<subseteq> qs \<Longrightarrow> ps \<subseteq> es \<Longrightarrow> reaches created ps (parsed_answer parser read payload) qs es"
  "ps \<subseteq> qs \<Longrightarrow> ps \<subseteq> es \<Longrightarrow> reaches created ps (host (rn_clock env)) qs es"
  "ps \<subseteq> qs \<Longrightarrow> ps \<subseteq> es \<Longrightarrow> reaches created ps (host (rn_identifier env)) qs es"
  "ps \<subseteq> qs \<Longrightarrow> ps \<subseteq> es \<Longrightarrow> reaches created ps (remaining_seconds env l started) qs es"
  by (auto intro!: reaches_stays stays_parsed_answer stays_remaining_seconds stays_map_raise)

subsection \<open>The static runner\<close>

lemma reaches_static_daemon: "reaches created {Idle} (static_daemon_security env l started) {Secured} {Idle, Secured}"
  unfolding static_daemon_security_def
proof (rule reaches_andthen)
  show "reaches created {Idle} (catch (andthen (run_lifecycle env l info_arguments (Some started)) (\<lambda>r.
      parsed_answer (rn_json env) docker_info_of (dr_stdout r))) static_daemon_handler) {Secured} {Idle, Secured}"
    by (rule reaches_catch [where rs = "{Idle, Secured}"], rule reaches_andthen [where rs = "{Secured}"])
       (auto intro!: reaches_lifecycle_checked reaches_shared reaches_raise intro: container_step.secure container_step.refuse
          simp: static_daemon_handler_def split: runner_raise.split host_raise.split)
qed (auto intro!: reaches_ensure)

lemma reaches_static_inspect:
  "reaches created {Created name, Started name} (static_inspect env l name started) {Created name, Started name}
     {Created name, Started name}"
  unfolding static_inspect_def
  by (rule reaches_catch [where rs = "{Created name, Started name}"],
      rule reaches_andthen [where rs = "{Created name, Started name}"])
     (auto intro!: reaches_lifecycle_command reaches_shared reaches_raise
        intro!: live_look simp: static_inspect_handler_def split: runner_raise.split host_raise.split)

lemma reaches_static_attach:
  "reaches created {Created name} (static_attach env l name started) {Created name, Started name} {Created name, Started name}"
proof -
  let ?live = "{Created name, Started name}"
  have kill: "reaches created ?live (if b then andthen (run_lifecycle env l (kill_arguments name) (Some started)) (\<lambda>_. ret ())
      else ret ()) ?live ?live" for b
    by (auto intro!: reaches_andthen [OF reaches_lifecycle_command] reaches_ret live_look)
  have handler: "reaches created ?live (andthen (static_inspect env l name started) (\<lambda>s.
      andthen (if ds_running s then andthen (run_lifecycle env l (kill_arguments name) (Some started)) (\<lambda>_. ret ())
         else ret ()) (\<lambda>_. static_error SR_TIMED_OUT))) ?live ?live"
    by (rule reaches_andthen [OF reaches_static_inspect], rule reaches_andthen [OF kill], rule reaches_raise) simp
  have start: "reaches created {Created name} (host (rn_docker env (static_request l (start_arguments name) timeout False)))
      ?live ?live" for timeout
    by (rule reaches_command) (auto simp: static_request_def intro: container_step.start)
  show ?thesis unfolding static_attach_def
    by (rule reaches_catch [where rs = ?live],
        rule reaches_andthen [where rs = "{Created name}"], rule reaches_shared, simp, simp, rule start)
       (auto intro!: handler reaches_raise split: runner_raise.split host_raise.split)
qed

lemma reaches_static_lifecycle:
  assumes "created name arguments"
  shows "reaches created {Secured} (static_lifecycle env l name arguments started) {Created name, Started name}
    {Secured, CreationFailed name, Created name, Started name}"
proof -
  let ?live = "{Created name, Started name}" and ?any = "{Secured, CreationFailed name, Created name, Started name}"
  have create: "reaches created {Secured} (run_lifecycle env l arguments (Some started)) {Created name} ?any"
    by (rule reaches_lifecycle_checked) (auto intro: container_step.create container_step.create_failed assms)
  have attach: "reaches created {Created name} (static_attach env l name started) ?live ?any"
    by (rule reaches_mono [OF reaches_static_attach]) auto
  have wait: "reaches created ?live (run_lifecycle env l (wait_arguments name) (Some started)) ?live ?any"
    by (rule reaches_lifecycle_command, rule live_look) auto
  have inspect: "reaches created ?live (static_inspect env l name started) ?live ?any"
    by (rule reaches_mono [OF reaches_static_inspect]) auto
  have answer: "reaches created ?live (static_answer env attached) ?live ?any" for attached
    unfolding static_answer_def
    by (rule reaches_andthen [where rs = ?live], rule reaches_ensure, simp, simp,
        rule reaches_catch [where rs = ?live], rule reaches_shared) (auto intro!: reaches_raise)
  have exit_code: "reaches created ?live (static_exit_code payload) ?live ?any" for payload
    by (auto simp: static_exit_code_def intro!: reaches_raise reaches_ret split: option.split)
  show ?thesis unfolding static_lifecycle_def
    by (rule reaches_andthen [OF create], rule reaches_andthen [OF attach], rule reaches_andthen [OF wait],
        rule reaches_andthen [OF exit_code], rule reaches_andthen [OF inspect],
        rule reaches_andthen [OF reaches_ensure [where qs = ?live]], simp, simp,
        rule reaches_andthen [OF reaches_ensure [where qs = ?live]], simp, simp,
        rule reaches_andthen [OF answer], rule reaches_andthen [OF reaches_shared(4) [where qs = ?live]])
       (auto intro!: reaches_ret)
qed

text \<open>A failed removal raises the failure of the clean-up, unless an interrupt is in flight.\<close>

definition kept_on :: "string \<Rightarrow> 'e set \<Rightarrow> 'e \<Rightarrow> container_phase set" where
  "kept_on name failures e = (if e \<in> failures then {Removed name, Unremoved name} else {Removed name})"

abbreviation static_cleanup_failures :: "static_runner_code runner_raise set" where
  "static_cleanup_failures \<equiv> {Runner SR_CLEANUP_FAILED, Host HostInterrupt}"

lemma reaches_static_cleanup:
  "reaches_or created {Secured, CreationFailed name, Created name, Started name} (static_cleanup env l name in_flight)
     (case in_flight of None \<Rightarrow> {Removed name} | Some e \<Rightarrow> kept_on name static_cleanup_failures e)
     (kept_on name static_cleanup_failures)"
proof -
  have remove: "reaches created {Secured, CreationFailed name, Created name, Started name} (run_lifecycle env l (remove_arguments name) None)
      {Removed name} {Removed name, Unremoved name}"
    by (rule reaches_lifecycle_checked) (auto intro: container_step.remove container_step.remain)
  show ?thesis unfolding static_cleanup_def
    by (rule reaches_or_catch [where rs = "{Removed name, Unremoved name}"], rule reaches_andthen [OF remove])
       (auto simp: kept_on_def intro!: reaches_ret reaches_or_ret reaches_or_raise split: option.split)
qed

definition no_container :: "container_phase set" where
  "no_container = {Idle, Secured} \<union> range Removed"

lemma stays_static_repository: "stays created ps (static_repository env depth repository)"
  unfolding static_repository_def
  by (auto intro!: stays_rules stays_shared split: prod.split)

lemma or_unremoved_or: "ps \<subseteq> or_unremoved ps failures e" "qs \<subseteq> ps \<Longrightarrow> qs \<subseteq> or_unremoved ps failures e"
  by (auto simp: or_unremoved_def)

lemma kept_on_or_unremoved:
  "reaches_or created ps m {Removed name} (kept_on name failures) \<Longrightarrow> range Removed \<subseteq> qs \<Longrightarrow>
   reaches_or created ps m (range Removed) (or_unremoved qs failures)"
  unfolding reaches_or_def
  by (erule triple_weaken, assumption, erule at_phase_mono, blast, erule at_phase_mono)
     (auto simp: kept_on_def or_unremoved_def)

text \<open>A guarded run: whatever the run does with its container, the clean-up follows.\<close>

lemma reaches_guarded:
  assumes "reaches created ps m live live" "range Removed \<subseteq> qs"
    "\<And>k. reaches_or created live (f k) (case k of None \<Rightarrow> {Removed name} | Some e \<Rightarrow> kept_on name failures e) (kept_on name failures)"
  shows "reaches_or created ps (always_then m f) (range Removed) (or_unremoved qs failures)"
  by (rule kept_on_or_unremoved [OF reaches_or_always_then [OF assms(1)] assms(2)])
     (use assms(3) [of None] assms(3) [of "Some e" for e] in simp_all)

lemma reaches_static_execute:
  "reaches_or (static_created l) {Idle} (static_execute env l depth repository paths) (range Removed)
     (or_unremoved no_container static_cleanup_failures)"
proof -
  let ?created = "static_created l" and ?E = "or_unremoved no_container static_cleanup_failures"
  have E: "ps \<subseteq> no_container \<Longrightarrow> ps \<subseteq> ?E e" for ps e by (rule or_unremoved_or)
  have idle: "{Idle} \<subseteq> no_container" "{Secured} \<subseteq> no_container" "{Idle, Secured} \<subseteq> no_container" "range Removed \<subseteq> no_container"
    by (auto simp: no_container_def)
  have repository: "reaches_or ?created {Idle} (static_repository env depth repository) {Idle} ?E"
    by (rule reaches_or_const [OF reaches_stays [OF stays_static_repository] E]) (auto simp: no_container_def)
  have daemon: "reaches_or ?created {Idle} (static_daemon_security env l started) {Secured} ?E" for started
    by (rule reaches_or_const [OF reaches_static_daemon E [OF idle(3)]])
  have fresh: "reaches_or ?created {Secured} (catch (host (rn_identifier env))
      (\<lambda>e. if e = Host HostInterrupt then raise e else static_error SR_INVALID_INPUT)) {Secured} ?E"
    by (rule reaches_or_catch [where rs = "{Secured}"], rule reaches_shared, simp, simp, rule reaches_or_if)
       (rule reaches_or_raise, rule E [OF idle(2)])+
  have run: "reaches_or ?created {Secured} (always_then
         (catch (andthen (static_lifecycle env l name (static_create_arguments name prepared paths l) started)
                   (\<lambda>r. ret (Inr r)))
            (\<lambda>e. case static_primary e of None \<Rightarrow> raise e | Some c \<Rightarrow> ret (Inl c)))
         (static_cleanup env l name)) (range Removed) ?E" for name prepared started
  proof (rule reaches_guarded [OF _ idle(4) reaches_static_cleanup])
    let ?any = "{Secured, CreationFailed name, Created name, Started name}"
    have "?created name (static_create_arguments name prepared paths l)" by (auto simp: static_created_def)
    from reaches_static_lifecycle [where created = ?created, OF this]
    show "reaches ?created {Secured} (catch (andthen (static_lifecycle env l name
          (static_create_arguments name prepared paths l) started) (\<lambda>r. ret (Inr r)))
        (\<lambda>e. case static_primary e of None \<Rightarrow> raise e | Some c \<Rightarrow> ret (Inl c))) ?any ?any"
      by (intro reaches_catch [where rs = ?any] reaches_andthen [where rs = "{Created name, Started name}"])
         (auto intro!: reaches_ret reaches_raise split: option.split)
  qed
  have ensured: "reaches_or ?created ps (ensure e b) ps ?E" if "ps \<subseteq> no_container" for ps e b
    by (rule reaches_or_const [OF reaches_ensure [OF order_refl order_refl] E [OF that]])
  have clock: "reaches_or ?created {Idle} (host (rn_clock env)) {Idle} ?E"
    by (rule reaches_or_const [OF reaches_shared(2) [OF order_refl order_refl] E [OF idle(1)]])
  have answer: "reaches_or ?created (range Removed) (case outcome of Inl c \<Rightarrow> static_error c | Inr r \<Rightarrow> ret r) (range Removed) ?E"
    for outcome :: "static_runner_code + container_result"
    by (cases outcome) (auto intro!: reaches_or_ret reaches_or_raise E [OF idle(4), THEN subsetD])
  show ?thesis unfolding static_execute_def Let_def
    by (rule reaches_or_andthen [OF repository], rule reaches_or_andthen [OF ensured [OF idle(1)]],
        rule reaches_or_andthen [OF clock], rule reaches_or_andthen [OF daemon], rule reaches_or_andthen [OF fresh],
        rule reaches_or_andthen [OF ensured [OF idle(2)]], rule reaches_or_andthen [OF run], rule answer)
qed

subsection \<open>The sandbox runner\<close>

lemma stays_tree_identities: "stays created ps (tree_identities env depth base parts)"
proof (induction depth arbitrary: parts)
  case (Suc depth)
  have "stays created ps (snapshot_entries env base (tree_identities env depth base) parts names)" for names
    by (induction names) (auto simp: entry_identity_def intro!: stays_rules Suc)
  then show ?case by (auto intro!: stays_rules)
qed simp

lemma stays_sandbox_repository: "stays created ps (sandbox_repository env depth repository)"
  unfolding sandbox_repository_def
  by (auto simp: entry_identity_def intro!: stays_rules stays_shared stays_tree_identities split: prod.split)

lemma reaches_sandbox_daemon: "reaches created {Idle} (sandbox_daemon_security env) {Secured} {Idle, Secured}"
  unfolding sandbox_daemon_security_def
proof (rule reaches_andthen)
  have "reaches created {Idle} (host (rn_docker env (plain_request info_arguments))) {Secured} {Idle, Secured}"
    by (rule reaches_checked) (auto simp: plain_request_def intro: container_step.secure container_step.refuse)
  then show "reaches created {Idle} (catch (andthen (host (rn_docker env (plain_request info_arguments))) (\<lambda>r.
      parsed_answer (rn_json env) docker_info_of (dr_stdout r)))
      (\<lambda>e. case e of
            Host h \<Rightarrow> if is_command_error h \<or> h = HostMalformed then sandbox_error SANDBOX_VALIDATION else raise e
          | _ \<Rightarrow> raise e)) {Secured} {Idle, Secured}"
    by (intro reaches_catch [where rs = "{Idle, Secured}"] reaches_andthen [where rs = "{Secured}"])
       (auto intro!: reaches_shared reaches_raise split: runner_raise.split)
qed (auto intro!: reaches_ensure)

lemma reaches_look:
  "c \<in> {wait_arguments name, inspect_arguments name, kill_arguments name} \<Longrightarrow>
   reaches created {Created name, Started name} (host (rn_docker env (plain_request c))) {Created name, Started name}
     {Created name, Started name}"
  by (rule reaches_command, rule live_look [THEN bexE]) (auto simp: plain_request_def)

lemma reaches_sandbox_looks:
  "reaches created {Created name, Started name} (sandbox_inspect env name) {Created name, Started name} {Created name, Started name}"
  "reaches created {Created name, Started name} (sandbox_wait env name) {Created name, Started name} {Created name, Started name}"
  unfolding sandbox_inspect_def sandbox_wait_def sandbox_exit_code_def
  by (rule reaches_andthen [OF reaches_look],
      auto intro!: reaches_catch [where rs = "{Created name, Started name}"] reaches_shared reaches_raise reaches_ret
        split: option.split)+

lemma reaches_sandbox_attach:
  "reaches created {Created name} (sandbox_attach env l name) {Created name, Started name} {Created name, Started name}"
proof -
  let ?live = "{Created name, Started name}"
  have start: "reaches created {Created name} (host (rn_docker env (attach_request l name))) ?live ?live"
    by (rule reaches_command) (auto simp: attach_request_def intro: container_step.start)
  have kill: "reaches created ?live (host (rn_docker env (plain_request (kill_arguments name)))) ?live ?live"
    by (rule reaches_look) simp
  have handler: "reaches created ?live (andthen (sandbox_inspect env name) (\<lambda>raced.
            if ds_running raced
            then andthen (host (rn_docker env (plain_request (kill_arguments name)))) (\<lambda>_. ret (captured, None))
            else andthen (sandbox_wait env name) (\<lambda>exit_code. ret (captured, Some exit_code)))) ?live ?live" for captured :: docker_result
    by (rule reaches_andthen [OF reaches_sandbox_looks(1)])
       (auto intro!: reaches_andthen [OF kill] reaches_andthen [OF reaches_sandbox_looks(2)] reaches_ret)
  show ?thesis unfolding sandbox_attach_def
    by (rule reaches_catch [where rs = ?live], rule reaches_andthen [OF start],
        rule reaches_andthen [OF reaches_sandbox_looks(2)])
       (auto intro!: handler reaches_raise reaches_ret split: runner_raise.split host_raise.split)
qed

lemma reaches_created:
  assumes "created name arguments"
  shows "reaches created {Secured} (host (rn_docker env (plain_request arguments))) {Created name} {CreationFailed name}"
  by (rule reaches_checked) (auto simp: plain_request_def intro: container_step.create container_step.create_failed assms)

lemma reaches_sandbox_lifecycle:
  assumes "created name arguments"
  shows "reaches created {Secured} (sandbox_lifecycle env l name arguments started) {Created name, Started name}
    {CreationFailed name, Created name, Started name}"
proof -
  let ?live = "{Created name, Started name}" and ?any = "{CreationFailed name, Created name, Started name}"
  have attach: "reaches created {Created name} (sandbox_attach env l name) ?live ?any"
    by (rule reaches_mono [OF reaches_sandbox_attach]) auto
  have inspect: "reaches created ?live (sandbox_inspect env name) ?live ?any"
    by (rule reaches_mono [OF reaches_sandbox_looks(1)]) auto
  show ?thesis unfolding sandbox_lifecycle_def Let_def
    by (rule reaches_andthen [OF reaches_mono [OF reaches_created [where created = created, OF assms]]], blast, blast,
        rule reaches_andthen [OF attach], split prod.split, intro allI impI, rule reaches_andthen [OF inspect],
        rule reaches_andthen [OF reaches_shared(2) [where qs = ?live]], simp, simp,
        rule reaches_andthen [OF reaches_ensure [where qs = ?live]], simp, simp)
       (auto intro!: reaches_ret reaches_raise split: option.split)
qed

lemma reaches_removed:
  "ps \<subseteq> {Secured, CreationFailed name, Created name, Started name} \<Longrightarrow>
   reaches created ps (host (rn_docker env (plain_request (remove_arguments name)))) {Removed name} {Removed name, Unremoved name}"
  by (rule reaches_checked) (auto simp: plain_request_def intro: container_step.remove container_step.remain)

abbreviation sandbox_cleanup_failures :: "sandbox_code runner_raise set" where
  "sandbox_cleanup_failures \<equiv> {Runner SANDBOX_CLEANUP, Host HostInterrupt}"

lemma reaches_sandbox_cleanup:
  "reaches_or created {CreationFailed name, Created name, Started name} (sandbox_cleanup env name in_flight)
     (case in_flight of None \<Rightarrow> {Removed name} | Some e \<Rightarrow> kept_on name sandbox_cleanup_failures e)
     (kept_on name sandbox_cleanup_failures)"
  unfolding sandbox_cleanup_def
  by (rule reaches_or_catch [where rs = "{Removed name, Unremoved name}"], rule reaches_andthen [OF reaches_removed])
     (auto simp: kept_on_def intro!: reaches_ret reaches_or_raise split: option.split)

lemma reaches_sandbox_execute:
  "reaches_or (sandbox_created l) {Idle} (sandbox_execute env l depth repository tokens) (range Removed)
     (or_unremoved no_container sandbox_cleanup_failures)"
proof -
  let ?created = "sandbox_created l" and ?E = "or_unremoved no_container sandbox_cleanup_failures"
  have E: "ps \<subseteq> no_container \<Longrightarrow> ps \<subseteq> ?E e" for ps e by (rule or_unremoved_or)
  have idle: "{Idle} \<subseteq> no_container" "{Secured} \<subseteq> no_container" "{Idle, Secured} \<subseteq> no_container" "range Removed \<subseteq> no_container"
    by (auto simp: no_container_def)
  have repository: "reaches_or ?created {Idle} (sandbox_repository env depth repository) {Idle} ?E"
    by (rule reaches_or_const [OF reaches_stays [OF stays_sandbox_repository] E]) (auto simp: no_container_def)
  have daemon: "reaches_or ?created {Idle} (sandbox_daemon_security env) {Secured} ?E"
    by (rule reaches_or_const [OF reaches_sandbox_daemon E [OF idle(3)]])
  have run: "reaches_or ?created {Secured} (always_then
         (catch (andthen (sandbox_lifecycle env l name (sandbox_create_arguments name prepared tokens l) started)
                   (\<lambda>r. ret (Some r)))
            (\<lambda>e. if sandbox_recorded e then ret None else raise e))
         (sandbox_cleanup env name)) (range Removed) ?E" for name prepared started
  proof (rule reaches_guarded [OF _ idle(4) reaches_sandbox_cleanup])
    let ?live = "{Created name, Started name}" and ?any = "{CreationFailed name, Created name, Started name}"
    have "?created name (sandbox_create_arguments name prepared tokens l)" by (auto simp: sandbox_created_def)
    from reaches_sandbox_lifecycle [where created = ?created, OF this]
    show "reaches ?created {Secured} (catch (andthen (sandbox_lifecycle env l name
          (sandbox_create_arguments name prepared tokens l) started) (\<lambda>r. ret (Some r)))
        (\<lambda>e. if sandbox_recorded e then ret None else raise e)) ?any ?any"
      by (intro reaches_catch [where rs = ?any] reaches_andthen [where rs = ?live])
         (auto intro!: reaches_ret reaches_raise)
  qed
  have command: "reaches_or ?created {Idle} (ensure e b) {Idle} ?E" for e b
    by (rule reaches_or_const [OF reaches_ensure [OF order_refl order_refl] E [OF idle(1)]])
  have asked: "reaches_or ?created {Secured} (host (rn_identifier env)) {Secured} ?E"
    "reaches_or ?created {Secured} (host (rn_clock env)) {Secured} ?E"
    by (rule reaches_or_const [OF reaches_shared(3) [OF order_refl order_refl] E [OF idle(2)]],
        rule reaches_or_const [OF reaches_shared(2) [OF order_refl order_refl] E [OF idle(2)]])
  have answer: "reaches_or ?created (range Removed) (case outcome of None \<Rightarrow> sandbox_error SANDBOX_EXECUTION | Some r \<Rightarrow> ret r)
      (range Removed) ?E" for outcome :: "sandbox_result option"
    by (cases outcome) (auto intro!: reaches_or_ret reaches_or_raise E [OF idle(4), THEN subsetD])
  show ?thesis unfolding sandbox_execute_def Let_def
    by (rule reaches_or_andthen [OF command], rule reaches_or_andthen [OF repository], rule reaches_or_andthen [OF daemon],
        rule reaches_or_andthen [OF asked(1)], rule reaches_or_andthen [OF asked(2)], rule reaches_or_andthen [OF run], rule answer)
qed

subsection \<open>The verification runner\<close>

text \<open>A creation that fails is the one way to end with a container.\<close>

definition maybe_created :: "container_phase set" where
  "maybe_created = no_container \<union> range CreationFailed"

lemma reaches_verification_daemon:
  "reaches created {Idle} (verification_daemon_security env) {Secured} {Idle, Secured}"
  unfolding verification_daemon_security_def
proof (rule reaches_andthen)
  have "reaches created {Idle} (host (rn_docker env (plain_request info_arguments))) {Secured} {Idle, Secured}"
    by (rule reaches_checked) (auto simp: plain_request_def intro: container_step.secure container_step.refuse)
  then show "reaches created {Idle} (catch (andthen (host (rn_docker env (plain_request info_arguments))) (\<lambda>r.
      parsed_answer (rn_json env) docker_info_of (dr_stdout r)))
      (\<lambda>e. if e = Host HostInterrupt then raise e else verification_error RC_DAEMON_SECURITY)) {Secured} {Idle, Secured}"
    by (intro reaches_catch [where rs = "{Idle, Secured}"] reaches_andthen [where rs = "{Secured}"])
       (auto intro!: reaches_shared reaches_raise)
qed (auto intro!: reaches_ensure)

lemma reaches_verification_looks:
  "reaches created {Created name, Started name} (verification_inspect env name) {Created name, Started name}
     {Created name, Started name}"
  "reaches created {Created name, Started name} (verification_wait env name) {Created name, Started name}
     {Created name, Started name}"
proof -
  let ?live = "{Created name, Started name}"
  show "reaches created ?live (verification_inspect env name) ?live ?live"
    unfolding verification_inspect_def
    by (rule reaches_catch [where rs = ?live], rule reaches_andthen [OF reaches_look])
       (auto intro!: reaches_shared reaches_raise split: runner_raise.split)
  show "reaches created ?live (verification_wait env name) ?live ?live"
    unfolding verification_wait_def verification_exit_code_def
    by (rule reaches_andthen [OF reaches_look]) (auto intro!: reaches_raise reaches_ret split: option.split)
qed

lemma reaches_verification_attach:
  "reaches created {Created name} (verification_attach env l name) {Created name, Started name} {Created name, Started name}"
proof -
  let ?live = "{Created name, Started name}"
  have start: "reaches created {Created name} (host (rn_docker env (verification_attach_request l name))) ?live ?live"
    by (rule reaches_command) (auto simp: verification_attach_request_def intro: container_step.start)
  have kill: "reaches created ?live (host (rn_docker env (plain_request (kill_arguments name)))) ?live ?live"
    by (rule reaches_look) simp
  have handler: "reaches created ?live (andthen (verification_inspect env name) (\<lambda>s.
            if ds_running s
            then andthen (host (rn_docker env (plain_request (kill_arguments name)))) (\<lambda>_. ret (captured, None))
            else andthen (verification_wait env name) (\<lambda>exit_code. ret (captured, Some exit_code)))) ?live ?live" for captured :: docker_result
    by (rule reaches_andthen [OF reaches_verification_looks(1)])
       (auto intro!: reaches_andthen [OF kill] reaches_andthen [OF reaches_verification_looks(2)] reaches_ret)
  show ?thesis unfolding verification_attach_def
    by (rule reaches_catch [where rs = ?live], rule reaches_andthen [OF start],
        rule reaches_andthen [OF reaches_verification_looks(2)])
       (auto intro!: handler reaches_raise reaches_ret split: runner_raise.split host_raise.split)
qed

lemma reaches_verification_lifecycle:
  "reaches created {Created name} (verification_lifecycle env l name started) {Created name, Started name}
    {Created name, Started name}"
  unfolding verification_lifecycle_def Let_def
  by (rule reaches_andthen [OF reaches_verification_attach], split prod.split, intro allI impI,
      rule reaches_andthen [OF reaches_verification_looks(1)],
      rule reaches_andthen [OF reaches_shared(2) [OF order_refl order_refl]],
      rule reaches_andthen [OF reaches_ensure [OF order_refl order_refl]])
     (auto intro!: reaches_ret reaches_raise split: option.split)

abbreviation verification_cleanup_failures :: "verification_fault runner_raise set" where
  "verification_cleanup_failures \<equiv> {Runner (Fault RC_CLEANUP_FAILED), Host HostInterrupt}"

lemma reaches_verification_cleanup:
  "reaches_or created {Created name, Started name} (verification_cleanup env name in_flight)
     (case in_flight of None \<Rightarrow> {Removed name} | Some e \<Rightarrow> kept_on name verification_cleanup_failures e)
     (kept_on name verification_cleanup_failures)"
  unfolding verification_cleanup_def
  by (rule reaches_or_catch [where rs = "{Removed name, Unremoved name}"], rule reaches_andthen [OF reaches_removed])
     (auto simp: kept_on_def intro!: reaches_ret reaches_or_ret reaches_or_raise split: option.split)

lemma reaches_keep_primary:
  "reaches created ps m qs qs \<Longrightarrow> reaches created ps (keep_primary m) qs qs"
  unfolding keep_primary_def
  by (rule reaches_catch, erule reaches_andthen) (auto intro!: reaches_ret reaches_raise split: option.split)

abbreviation verification_ends :: "verification_fault runner_raise \<Rightarrow> container_phase set" where
  "verification_ends \<equiv> or_unremoved maybe_created verification_cleanup_failures"

lemma verification_ends_or: "ps \<subseteq> maybe_created \<Longrightarrow> ps \<subseteq> verification_ends e"
  by (rule or_unremoved_or)

lemma maybe_created_phases:
  "{Idle} \<subseteq> maybe_created" "{Secured} \<subseteq> maybe_created" "{Idle, Secured} \<subseteq> maybe_created" "{CreationFailed name} \<subseteq> maybe_created"
  "range Removed \<subseteq> maybe_created"
  by (auto simp: maybe_created_def no_container_def)

lemmas verification_may_end = maybe_created_phases [THEN verification_ends_or]

lemma reaches_execute_prevalidated:
  "reaches_or (verification_created l) {Idle} (execute_prevalidated env l repository paths b) (range Removed) verification_ends"
proof -
  let ?created = "verification_created l" and ?E = verification_ends
  have clock: "reaches_or ?created {Idle} (host (rn_clock env)) {Idle} ?E"
    by (rule reaches_or_const [OF reaches_shared(2) [OF order_refl order_refl] verification_may_end(1)])
  have daemon: "reaches_or ?created {Idle} (verification_daemon_security env) {Secured} ?E"
    by (rule reaches_or_const [OF reaches_verification_daemon verification_may_end(3)])
  have fresh: "reaches_or ?created {Secured} (catch (host (rn_identifier env))
      (\<lambda>e. if e = Host HostInterrupt then raise e else invalid_input)) {Secured} ?E"
    by (rule reaches_or_catch [where rs = "{Secured}"], rule reaches_shared, simp, simp, rule reaches_or_if)
       (rule reaches_or_raise, rule verification_may_end(2))+
  have ensured: "reaches_or ?created {Secured} (ensure e ok) {Secured} ?E" for e ok
    by (rule reaches_or_const [OF reaches_ensure [OF order_refl order_refl] verification_may_end(2)])
  have create: "triple (at_phase ?created {Secured}) (keep_primary (host (rn_docker env
      (plain_request (verification_create_arguments name repository paths b l)))))
      (\<lambda>made. at_phase ?created (case made of Inl c \<Rightarrow> {CreationFailed name} | Inr r \<Rightarrow> {Created name}))
      (\<lambda>e. at_phase ?created (?E e))" for name
  proof -
    have "reaches ?created {Secured} (host (rn_docker env (plain_request (verification_create_arguments name repository paths b l))))
        {Created name} {CreationFailed name}" by (rule reaches_created) (auto simp: verification_created_def)
    then show ?thesis unfolding keep_primary_def reaches_def
      by (intro triple_catch [where R = "\<lambda>_. at_phase ?created {CreationFailed name}"] triple_andthen)
         (auto intro!: triple_ret triple_raise elim: at_phase_mono [OF _ verification_may_end(4)] split: option.split)
  qed
  have guarded: "reaches_or ?created {Created name} (always_then (keep_primary (verification_lifecycle env l name started))
      (verification_cleanup env name)) (range Removed) ?E" for name started
    by (rule reaches_guarded [OF _ maybe_created_phases(5) reaches_verification_cleanup],
        rule reaches_keep_primary [OF reaches_verification_lifecycle])
  have primary: "reaches_or ?created (range Removed) (raise_primary outcome) (range Removed) ?E"
    for outcome :: "verification_fault + sandbox_evidence"
    by (cases outcome, simp_all only: raise_primary_def sum.case)
       (rule reaches_or_raise, rule verification_may_end(5), rule reaches_or_ret, rule order_refl)
  have run: "reaches_or ?created (case made of Inl c \<Rightarrow> {CreationFailed name} | Inr r \<Rightarrow> {Created name})
      (case made of Inl c \<Rightarrow> raise (Runner c) | Inr r \<Rightarrow>
      andthen (always_then (keep_primary (verification_lifecycle env l name started)) (verification_cleanup env name)) raise_primary)
      (range Removed) ?E" for made :: "verification_fault + docker_result" and name started
    by (cases made, simp_all only: sum.case)
       (rule reaches_or_raise, rule verification_may_end(4), rule reaches_or_andthen [OF guarded primary])
  have created_run: "reaches_or ?created {Secured} (andthen (keep_primary (host (rn_docker env
      (plain_request (verification_create_arguments name repository paths b l))))) (\<lambda>made.
      case made of Inl c \<Rightarrow> raise (Runner c) | Inr r \<Rightarrow>
      andthen (always_then (keep_primary (verification_lifecycle env l name started)) (verification_cleanup env name)) raise_primary))
      (range Removed) ?E" for name started
    unfolding reaches_or_def by (rule triple_andthen [OF create]) (rule run [unfolded reaches_or_def])
  show ?thesis unfolding execute_prevalidated_def Let_def
    by (rule reaches_or_andthen [OF clock], rule reaches_or_andthen [OF daemon], rule reaches_or_andthen [OF fresh],
        rule reaches_or_andthen [OF ensured], rule created_run)
qed

lemma stays_plain_directory: "stays created ps (plain_directory env path)"
  by (auto simp: plain_directory_def intro!: stays_rules split: prod.split)

lemma stays_protected_mount: "stays created ps (protected_mount env path)"
proof -
  have "stays created ps (resolved_locations env ls)" for ls
    by (induction ls) (auto intro!: stays_rules)
  then show ?thesis by (auto simp: protected_mount_def intro!: stays_rules stays_shared)
qed

lemma stays_verification_repository: "stays created ps (verification_repository env depth repository)"
  by (auto simp: verification_repository_def intro!: stays_rules stays_shared stays_plain_directory stays_protected_mount)

lemma stays_validated_bundle: "stays created ps (validated_bundle env b repository)"
proof -
  have "stays created ps (bundle_entries_ok env base names)" for base names
    by (induction names) (auto simp: Let_def intro!: stays_rules)
  then show ?thesis
    by (auto simp: validated_bundle_def bundle_contents_ok_def os_error_is_invalid_def
        intro!: stays_rules stays_plain_directory stays_protected_mount)
qed

lemma reaches_verification:
  "reaches_or (verification_created l) {Idle} (execute_targeted env l depth repository paths) (range Removed) verification_ends"
  "reaches_or (verification_created l) {Idle} (execute_visible_suite env l depth repository) (range Removed) verification_ends"
  "reaches_or (verification_created l) {Idle} (execute_hidden env l depth repository b) (range Removed) verification_ends"
proof -
  note idle = reaches_or_const [OF reaches_stays verification_may_end(1), OF _ order_refl order_refl]
  have repository: "reaches_or (verification_created l) {Idle} (verification_repository env depth repository) {Idle} verification_ends"
    by (rule idle [OF stays_verification_repository])
  have bundle': "reaches_or (verification_created l) {Idle} (validated_bundle env b prepared) {Idle} verification_ends" for prepared
    by (rule idle [OF stays_validated_bundle])
  have paths: "reaches_or (verification_created l) {Idle} (ensure e ok) {Idle} verification_ends" for e ok
    by (rule idle [OF stays_simple(3)])
  show "reaches_or (verification_created l) {Idle} (execute_targeted env l depth repository paths) (range Removed) verification_ends"
    unfolding execute_targeted_def
    by (rule reaches_or_andthen [OF paths], rule reaches_or_andthen [OF repository], rule reaches_execute_prevalidated)
  show "reaches_or (verification_created l) {Idle} (execute_visible_suite env l depth repository) (range Removed) verification_ends"
    unfolding execute_visible_suite_def
    by (rule reaches_or_andthen [OF repository], rule reaches_execute_prevalidated)
  show "reaches_or (verification_created l) {Idle} (execute_hidden env l depth repository b) (range Removed) verification_ends"
    unfolding execute_hidden_def
    by (rule reaches_or_andthen [OF repository], rule reaches_or_andthen [OF bundle'], rule reaches_execute_prevalidated)
qed

lemma reaches_run:
  assumes "reaches_or created {Idle} m qs E" "log w = []" "m w = (r, w')"
  obtains p where "container_run created (log w') p" "p \<in> (case r of Inl e \<Rightarrow> E e | Inr _ \<Rightarrow> qs)"
proof -
  have "at_phase created {Idle} w" using assms(2) container_run.none by (simp add: at_phase_def)
  with assms(1,3) have "case r of Inl e \<Rightarrow> at_phase created (E e) w' | Inr x \<Rightarrow> at_phase created qs w'"
    by (auto simp: reaches_or_def triple_def split: prod.splits)
  with that show ?thesis by (cases r) (auto simp: at_phase_def)
qed

end

end
