(* ===== verification/Runner_Claims.thy ===== *)
theory Runner_Claims
  imports Runner_Lives
begin

text \<open>
  The properties of the three container runners: which commands they give in which order, how a container
  is confined, what the truncation of output guarantees, and inputs on which the behaviour is not the
  intended one.
\<close>

section \<open>Containers are removed\<close>

text \<open>How a run of the recording environment ends, in a phase that its commands lead to\<close>

definition ends_in ::
  "(string \<Rightarrow> string list \<Rightarrow> bool) \<Rightarrow> ('e + 'a) \<times> 'w \<times> docker_call list \<Rightarrow> container_phase set \<Rightarrow>
     ('e \<Rightarrow> container_phase set) \<Rightarrow> bool" where
  "ends_in created outcome returned raised \<longleftrightarrow>
     (case outcome of (r, (w, calls)) \<Rightarrow>
        \<exists>p. container_run created calls p \<and> p \<in> (case r of Inl e \<Rightarrow> raised e | Inr _ \<Rightarrow> returned))"

lemma reaches_ends_in:
  "recording.reaches_or created {Idle} m qs E \<Longrightarrow> ends_in created (m (w, [])) qs E"
  unfolding ends_in_def
  by (split prod.split, intro allI impI, split prod.split, intro allI impI,
      erule recording.reaches_run [where w = "(w, [])"]) auto

text \<open>C6: with the Docker client run as a subprocess, the commands of the static and the sandbox runner are a life of
  one container: security check, creation with the runner's arguments, start, then only waiting, inspection and kill,
  and one \<open>rm --force\<close>.  When a run returns, that removal has ended with exit code 0; when it raises, for whatever
  reason, no container was created or its removal has ended with exit code 0, and only a run that raises the failure
  of the clean-up, or an interrupt, may have a removal that failed.\<close>

theorem containers_are_removed:
  "ends_in (static_created l) (static_execute (recording p env) l depth repository paths (w, [])) (range Removed)
     (or_unremoved ({Idle, Secured} \<union> range Removed) {Runner SR_CLEANUP_FAILED, Host HostInterrupt}) \<and>
   ends_in (sandbox_created l) (sandbox_execute (recording p env) l depth repository tokens (w, [])) (range Removed)
     (or_unremoved ({Idle, Secured} \<union> range Removed) {Runner SANDBOX_CLEANUP, Host HostInterrupt})"
  using reaches_ends_in [OF recording.reaches_static_execute [of l p env depth repository paths], of w]
    reaches_ends_in [OF recording.reaches_sandbox_execute [of l p env depth repository tokens], of w]
  unfolding recording.no_container_def by (rule conjI)

text \<open>C7: the three runs of the verification runner give the same orderly life of commands, and return only when the removal
  has ended with exit code 0.  A run that raises may leave a container in two ways: its creation failed, as the last command,
  because the removal is arranged only after the creation has returned; or the removal failed, and the run raises the
  failure of the clean-up or an interrupt.\<close>

theorem verification_containers_are_removed:
  "list_all (\<lambda>outcome. ends_in (verification_created l) outcome (range Removed)
       (or_unremoved ({Idle, Secured} \<union> range Removed \<union> range CreationFailed) {Runner (Fault RC_CLEANUP_FAILED), Host HostInterrupt}))
     [execute_targeted (recording p env) l depth repository paths (w, []),
      execute_visible_suite (recording p env) l depth repository (w, []),
      execute_hidden (recording p env) l depth repository b (w, [])]"
  using reaches_ends_in [OF recording.reaches_verification(1) [of l p env depth repository paths], of w]
    reaches_ends_in [OF recording.reaches_verification(2) [of l p env depth repository], of w]
    reaches_ends_in [OF recording.reaches_verification(3) [of l p env depth repository b], of w]
  unfolding recording.maybe_created_def recording.no_container_def by simp

section \<open>Containers are confined\<close>

text \<open>How the Docker client reads the arguments of \<open>create\<close>: options with their values up to the image\<close>

fun create_reading :: "string list \<Rightarrow> (string \<times> string) list \<times> string list" where
  "create_reading [] = ([], [])"
| "create_reading (option # rest) =
     (if option = ''--read-only'' then (case create_reading rest of (os, command) \<Rightarrow> ((option, []) # os, command))
      else if startswith option ''--'' then
        (case rest of
           [] \<Rightarrow> ([(option, [])], [])
         | value # rest' \<Rightarrow> (case create_reading rest' of (os, command) \<Rightarrow> ((option, value) # os, command)))
      else ([], option # rest))"





lemma option_reading:
  "create_reading (''--read-only'' # rest) = (case create_reading rest of (os, command) \<Rightarrow> ((''--read-only'', []) # os, command))"
  "startswith option ''--'' \<Longrightarrow> option \<noteq> ''--read-only'' \<Longrightarrow>
     create_reading (option # value # rest) = (case create_reading rest of (os, command) \<Rightarrow> ((option, value) # os, command))"
  by simp_all












definition sample_limits :: sandbox_limits where
  "sample_limits = \<lparr>sl_cpu_count = Finite 1, sl_memory_bytes = 1000, sl_pids_limit = 10, sl_timeout_seconds = Finite 1,
     sl_stdout_bytes = 29, sl_stderr_bytes = 29\<rparr>"


section \<open>Output\<close>

text \<open>Draining a pipe chunk by chunk retains the first \<open>limit\<close> bytes of what it delivers and reports a
  truncation exactly when it delivers more.\<close>

theorem bounded_pipe_keeps_a_prefix:
  "bounded_pipe limit chunks = (take limit (concat chunks), limit < length (concat chunks))"
proof -
  have "drain limit (take limit r) (limit < length r) chunks =
      (take limit (r @ concat chunks), limit < length (r @ concat chunks))" for r
  proof (induction chunks arbitrary: r)
    case (Cons chunk chunks)
    have "take limit r @ take (limit - length (take limit r)) chunk = take limit (r @ chunk)" by (simp add: min_def)
    moreover have "(int limit - int (length (take limit r)) < int (length chunk) \<or> limit < length r) =
        (limit < length (r @ chunk))" by (auto simp: min_def)
    moreover have "nat (int limit - int (length (take limit r))) = limit - length (take limit r)" by simp
    moreover have "0 < int limit - int (length (take limit r)) \<or> take limit r = take limit (r @ chunk)" by (auto simp: min_def)
    ultimately have "drain limit (take limit r) (limit < length r) (chunk # chunks) =
        drain limit (take limit (r @ chunk)) (limit < length (r @ chunk)) chunks"
      by (auto simp: Let_def simp del: length_take take_append)
    with Cons [of "r @ chunk"] show ?case by simp
  qed simp
  from this [of "[]"] show ?thesis by (simp add: bounded_pipe_def)
qed

lemma shrink_size: "text_size (shrink budget ps) \<le> budget"
  by (induction budget ps rule: shrink.induct) (subst shrink.simps, simp)

lemma bounded_prefix_size: "length prefix \<le> budget \<Longrightarrow> text_size (bounded_prefix budget prefix) \<le> budget"
proof (induction budget prefix rule: bounded_prefix.induct)
  case (1 budget prefix)
  show ?case
  proof (cases "prefix = []")
    case False
    with 1 show ?thesis
      by (subst bounded_prefix.simps) (auto simp: decode_strict_size shrink_size split: decoded.split)
  qed (simp add: bounded_prefix.simps)
qed

lemma marker_size: "text_size marker_points = length truncation_marker" "length marker_points = length truncation_marker"
  by code_simp+

text \<open>C35: the bounded text of an output is marked as truncated exactly when the output was cut or is longer than
  the limit; then it ends with the marker and takes at most the limit in UTF-8, and otherwise it is the
  whole decoded output, which may take up to three times the limit.\<close>

theorem bounded_text_fits:
  assumes "length truncation_marker \<le> limit"
  shows "case bounded_text payload limit was_cut of (shown, truncated) \<Rightarrow>
    truncated = (was_cut \<or> limit < length payload) \<and>
    (if truncated then text_size shown \<le> limit \<and> drop (length shown - length marker_points) shown = marker_points
     else shown = decode_replacing payload \<and> text_size shown \<le> 3 * limit)"
proof -
  have "text_size (bounded_prefix (limit - length marker_points) (take (limit - length marker_points) payload))
      \<le> limit - length marker_points"
    by (rule bounded_prefix_size) simp
  with assms decode_replacing_size [of payload] show ?thesis
    by (auto simp: bounded_text_def Let_def marker_size)
qed

text \<open>Bytes that cannot be decoded take three bytes each.\<close>

lemma undecodable_bytes: "decode_replacing (replicate n 255) = replicate n replacement_point"
  by (induction n) (simp_all add: utf8_step_def)

lemma undecodable_size: "text_size (decode_replacing (replicate 40 255)) = 120"
  by (simp add: undecodable_bytes text_size_def point_size_def replacement_point_def sum_list_replicate)

theorem bounded_text_fits_witness:
  "case bounded_text (replicate 40 255) 40 False of (shown, truncated) \<Rightarrow> \<not> truncated \<and> text_size shown = 120"
  using bounded_text_fits [where limit = 40 and payload = "replicate 40 255" and was_cut = False] undecodable_size
  by (auto simp: truncation_marker_def split: prod.splits)

text \<open>An output within the limit whose text ends with the truncation marker has no result: the marker contradicts
  the flag, the result is refused, and the lifecycle raises what \<open>execute\<close> reports as a failed execution.\<close>

theorem forged_marker_fails_the_execution:
  assumes "\<not> dr_stdout_truncated captured" "int (length (dr_stdout captured)) \<le> sl_stdout_bytes l"
    and "endswith (text_of_points (decode_replacing (dr_stdout captured))) truncation_marker"
  shows "captured_result l captured exit_code s duration = None"
  using assms
  by (auto simp: captured_result_def bounded_text_def valid_or_none_def valid_sandbox_result_def not_less
      split: prod.splits)

definition marker_output :: docker_result where
  "marker_output = \<lparr>dr_exit_code = 0, dr_stdout = map (\<lambda>c. word_of_nat (code c)) truncation_marker, dr_stderr = [],
     dr_stdout_truncated = False, dr_stderr_truncated = False\<rparr>"

lemma marker_output_ends: "endswith (text_of_points (decode_replacing (dr_stdout marker_output))) truncation_marker"
  by code_simp

theorem forged_marker_fails_the_execution_witness:
  "captured_result sample_limits marker_output (Some 0) \<lparr>ds_oom_killed = False, ds_running = False\<rparr> (Finite 0) = None"
  by (rule forged_marker_fails_the_execution [OF _ _ marker_output_ends])
     (simp_all add: marker_output_def sample_limits_def truncation_marker_def)

section \<open>A timeout of the static checks\<close>

text \<open>C34: when the static checks outlive their time limit, the failure is reported as a Docker failure and not as a
  timeout: the inspection that follows the timeout finds the deadline passed and turns that error into its
  own, and the container is neither inspected nor killed.\<close>

theorem timeout_is_reported_as_docker_failure:
  assumes "remaining_seconds env l started w = (Inr timeout, w1)"
    and "rn_docker env (static_request l (start_arguments name) timeout False) w1 = (Inl (CommandTimeout r), w2)"
    and "rn_clock env w2 = (Inr now, w3)"
    and "float_non_positive (float_sub (sl_timeout_seconds l) (float_sub now started))"
  shows "static_attach env l name started w = (Inl (Runner SR_DOCKER_FAILED), w3)"
  using assms
  by (simp add: static_attach_def catch_def andthen_def map_raise_def static_inspect_def run_lifecycle_def
      remaining_seconds_def [of env l started] raise_def static_inspect_handler_def Let_def)

text \<open>A clock that reads 0 once and then 1, and containers that never finish\<close>

definition slow_host :: "nat runner_env" where
  "slow_host = \<lparr>rn_docker = (\<lambda>q. raise (CommandTimeout marker_output)), rn_json = (\<lambda>payload. Inl HostMalformed),
     rn_model_json = (\<lambda>payload. Inl HostMalformed), rn_clock = (\<lambda>n. (Inr (Finite (if n = 0 then 0 else 1)), Suc n)),
     rn_identifier = ret [], rn_lstat = (\<lambda>p. raise HostOsError), rn_is_symlink = (\<lambda>p. ret False),
     rn_is_dir = (\<lambda>p. ret False), rn_resolve = ret, rn_resolve_lenient = ret, rn_scandir = (\<lambda>p. ret []),
     rn_listdir = (\<lambda>p. ret []), rn_home = ret [], rn_project = []\<rparr>"

lemma whole_seconds: "round_double 0 = Some 0" "round_double 1 = Some 1"
  by code_simp+

theorem timeout_is_reported_as_docker_failure_witness:
  "static_attach slow_host sample_limits ''checks'' (Finite 0) 0 = (Inl (Runner SR_DOCKER_FAILED), 2)"
  by (rule timeout_is_reported_as_docker_failure [where timeout = "Finite 1" and ?w1.0 = 1 and ?w2.0 = 1 and now = "Finite 1"
        and r = marker_output])
     (simp_all add: remaining_seconds_def slow_host_def sample_limits_def andthen_def map_raise_def ret_def raise_def
        whole_seconds Let_def)

end
