(* ===== verification/Container_Checks.thy ===== *)
theory Container_Checks
  imports Static_Runner Sandbox_Runner Classification
begin

text \<open>
  \<open>docker/static-checks/runner.py\<close>, the program inside the container of the static checks: the checks
  of its arguments, the findings of the two syntax checks and of ruff, mypy and bandit, and the answer
  that it writes.  The file system, the processes, the compiler, the tokenizer and \<open>json.loads\<close> are the
  record \<open>check_env\<close>.
\<close>

section \<open>Environment\<close>

text \<open>
  The exceptions that the handlers tell apart: \<open>OSError\<close>, \<open>ValueError\<close> (also \<open>UnicodeError\<close> and
  \<open>JSONDecodeError\<close>), \<open>RuntimeError\<close>, \<open>OverflowError\<close>, \<open>PackageNotFoundError\<close>, and any other.
\<close>

datatype check_raise = CheckOs | CheckValue | CheckRuntime | CheckOverflow | CheckPackage | CheckOther

type_synonym ('w, 'a) check = "('w, check_raise, 'a) act"

record source_token =
  tn_is_comment :: bool
  tn_string :: string
  tn_line :: nat
  tn_column :: nat

text \<open>
  How the tokens of a source end: at its end, with \<open>IndentationError\<close> or \<open>TokenError\<close>, or with another
  exception.  \<open>ck_syntax\<close> compiles or, with \<open>True\<close>, parses: \<open>Some (lineno, offset)\<close> is a \<open>SyntaxError\<close> or
  \<open>ValueError\<close> with these attributes.  \<open>ck_tool\<close> runs a process: its exit code, and the chunks of its output and error
  stream.
\<close>

datatype tokens_end = AllTokens | TokensBroken | TokensRaise check_raise

record 'w check_env =
  ck_resolve :: "string \<Rightarrow> ('w, string) check"
  ck_read :: "string \<Rightarrow> ('w, bytes) check"
  ck_syntax :: "bool \<Rightarrow> string \<Rightarrow> string \<Rightarrow> ('w, (int option \<times> int option) option) check"
  ck_tokens :: "string \<Rightarrow> source_token list \<times> tokens_end"
  ck_version :: "string \<Rightarrow> ('w, string) check"
  ck_tool :: "string list \<Rightarrow> ('w, int \<times> bytes list \<times> bytes list) check"
  ck_json :: "bytes \<Rightarrow> check_raise + json"
  ck_exists :: "string \<Rightarrow> ('w, bool) check"
  ck_write_text :: "string \<Rightarrow> string \<Rightarrow> ('w, unit) check"
  ck_copy_tree :: "string \<Rightarrow> string \<Rightarrow> ('w, unit) check"
  ck_chdir :: "string \<Rightarrow> ('w, unit) check"
  ck_float_repr :: "pyfloat \<Rightarrow> string"

definition lift_check :: "check_raise + 'a \<Rightarrow> ('w, 'a) check" where
  "lift_check r = (case r of Inl e \<Rightarrow> raise e | Inr x \<Rightarrow> ret x)"

definition value_or_raise :: "'a option \<Rightarrow> ('w, 'a) check" where
  "value_or_raise x = (case x of None \<Rightarrow> raise CheckValue | Some y \<Rightarrow> ret y)"

section \<open>Arguments\<close>

definition argument_path_ok :: "string \<Rightarrow> bool" where
  "argument_path_ok value = (\<not>
     (value = [] \<or> utf8_len value > 1024 \<or> value \<noteq> strip value \<or> backslash \<in> set value
      \<or> windows_drive_or_root value \<or> is_absolute value \<or> as_posix value \<noteq> value
      \<or> startswith value ''-'' \<or> startswith value ''@''
      \<or> list_ex (\<lambda>part. part \<in> {[], ''.'', ''..''}) (split_on slash value)
      \<or> list_ex is_control value
      \<or> casefold (path_suffix value) \<notin> {''.py'', ''.pyi''}))"

definition validated_arguments :: "string list \<Rightarrow> string list option" where
  "validated_arguments values =
     (if length values \<le> 3 \<and> list_all argument_path_ok values \<and>
         values = sort_key (\<lambda>v. (casefold v, v)) values \<and> distinct (map casefold values)
      then Some values else None)"

section \<open>Findings\<close>

definition check_result_of :: "tool_check \<Rightarrow> tool_status \<Rightarrow> tool_finding list \<Rightarrow> tool_error_code option \<Rightarrow> tool_result" where
  "check_result_of c s fs e = \<lparr>to_check = c, to_status = s, to_findings = fs, to_error_code = e\<rparr>"

definition check_error :: "tool_check \<Rightarrow> tool_error_code \<Rightarrow> tool_result" where
  "check_error c e = check_result_of c TOOL_INFRASTRUCTURE_ERROR [] (Some e)"

definition container_repository :: string where
  "container_repository = ''/tracefix/workspace/repository''"

definition remove_prefix :: "string \<Rightarrow> string \<Rightarrow> string" where
  "remove_prefix prefix s = (if startswith s prefix then drop (length prefix) s else s)"

text \<open>\<open>safe_path\<close> and \<open>safe_location\<close> on the values of a JSON document; \<open>None\<close> is the \<open>ValueError\<close>.\<close>

fun safe_path :: "json \<Rightarrow> string option" where
  "safe_path (JString value) =
     (let path = remove_prefix ''./'' (remove_prefix (container_repository @ [slash]) value) in
      if argument_path_ok path then Some path else None)"
| "safe_path _ = None"

fun safe_location :: "json \<Rightarrow> nat option option" where
  "safe_location JNull = Some None"
| "safe_location (JInteger n) = (if n < 1 \<or> 10000000 < n then None else Some (Some (nat n)))"
| "safe_location _ = None"

definition finding_of :: "json \<Rightarrow> json \<Rightarrow> json \<Rightarrow> json \<Rightarrow> tool_finding option" where
  "finding_of path line column rule =
     Option.bind (safe_path path) (\<lambda>p.
     Option.bind (safe_location line) (\<lambda>l.
     Option.bind (safe_location column) (\<lambda>c.
     if c \<noteq> None \<and> l = None then None
     else Option.bind (json_text rule) (\<lambda>r.
       if rule_code_ok r then Some \<lparr>tf_path = p, tf_line = l, tf_column = c, tf_rule_code = r\<rparr> else None))))"

definition ordered_findings :: "tool_finding list \<Rightarrow> check_raise + tool_finding list" where
  "ordered_findings fs =
     (let sorted_findings = sort_key tool_finding_key fs in
      if 1000 < length sorted_findings then Inl CheckOverflow
      else if \<not> distinct (map tool_finding_key sorted_findings) then Inl CheckValue
      else Inr sorted_findings)"

section \<open>Syntax\<close>

definition read_source :: "'w check_env \<Rightarrow> string \<Rightarrow> ('w, string) check" where
  "read_source env relative =
     andthen (ck_resolve env (join_path container_repository (posix_parts relative))) (\<lambda>resolved.
     andthen (ck_resolve env container_repository) (\<lambda>base.
     andthen (ensure CheckValue (is_relative_to resolved base)) (\<lambda>_.
     andthen (ck_read env resolved) (\<lambda>data.
     andthen (ensure CheckOs (length data \<le> 67108864)) (\<lambda>_.
     value_or_raise (utf8_decode data))))))"

definition optional_number :: "int option \<Rightarrow> json" where
  "optional_number n = (case n of None \<Rightarrow> JNull | Some i \<Rightarrow> JInteger i)"

text \<open>\<open>getattr(error, "lineno", None) or 1\<close>\<close>

definition line_or_one :: "int option \<Rightarrow> json" where
  "line_or_one n = (case n of None \<Rightarrow> JInteger 1 | Some i \<Rightarrow> JInteger (if i = 0 then 1 else i))"

fun syntax_findings :: "'w check_env \<Rightarrow> bool \<Rightarrow> string list \<Rightarrow> ('w, tool_finding list) check" where
  "syntax_findings env parse [] = ret []"
| "syntax_findings env parse (relative # paths) =
     andthen (read_source env relative) (\<lambda>source.
     andthen (ck_syntax env parse source relative) (\<lambda>problem.
     andthen (case problem of
          None \<Rightarrow> ret []
        | Some (line, offset) \<Rightarrow>
            andthen (value_or_raise (finding_of (JString relative) (line_or_one line) (optional_number offset)
               (JString (if parse then ''AST_PARSE'' else ''PY_COMPILE'')))) (\<lambda>f. ret [f])) (\<lambda>here.
     andthen (syntax_findings env parse paths) (\<lambda>rest. ret (here @ rest)))))"

definition failed_or_passed :: "tool_check \<Rightarrow> tool_finding list \<Rightarrow> tool_result" where
  "failed_or_passed c fs =
     (if fs \<noteq> [] then check_result_of c TOOL_FAILED fs None else check_result_of c TOOL_PASSED [] None)"

definition syntax_result :: "'w check_env \<Rightarrow> tool_check \<Rightarrow> string list \<Rightarrow> bool \<Rightarrow> ('w, tool_result) check" where
  "syntax_result env c paths parse =
     andthen (catch (andthen (syntax_findings env parse paths) (\<lambda>fs. ret (Some fs)))
        (\<lambda>e. if e \<in> {CheckOs, CheckValue} then ret None else raise e)) (\<lambda>found.
     (case found of
        None \<Rightarrow> ret (check_error c SOURCE_READ_FAILED)
      | Some fs \<Rightarrow>
          if fs \<noteq> [] then andthen (lift_check (ordered_findings fs)) (\<lambda>sorted_findings.
            ret (check_result_of c TOOL_FAILED sorted_findings None))
          else ret (check_result_of c TOOL_PASSED [] None)))"

section \<open>Tools\<close>

definition max_tool_output :: nat where "max_tool_output = 262144"

record tool_output =
  tu_code :: int
  tu_stdout :: bytes
  tu_stderr :: bytes
  tu_truncated :: bool

definition run_tool :: "'w check_env \<Rightarrow> string list \<Rightarrow> ('w, tool_output) check" where
  "run_tool env arguments =
     andthen (ck_tool env arguments) (\<lambda>(exit_code, out, err).
     (let (stdout, stdout_cut) = bounded_pipe max_tool_output out;
          (stderr, stderr_cut) = bounded_pipe max_tool_output err in
      ret \<lparr>tu_code = exit_code, tu_stdout = stdout, tu_stderr = stderr, tu_truncated = stdout_cut \<or> stderr_cut\<rparr>))"

text \<open>\<open>^(\d+(?:\.\d+)+)\<close>, and the numbers between the dots\<close>

definition version_pattern :: regex where
  "version_pattern = Group 1 (Seq (one_or_more is_digit)
     (Seq (Seq (lit ''.'') (one_or_more is_digit)) (Star (Seq (lit ''.'') (one_or_more is_digit)))))"

text \<open>\<open>int\<close> refuses more than 4300 digits.\<close>

definition version_tuple :: "'w check_env \<Rightarrow> string \<Rightarrow> ('w, nat list) check" where
  "version_tuple env distribution =
     andthen (ck_version env distribution) (\<lambda>version.
     (case re_match version_pattern version of
        None \<Rightarrow> raise CheckValue
      | Some p \<Rightarrow>
          (let parts = split_on (CHR ''.'') (group_of 1 p) in
           andthen (ensure CheckValue (list_all (\<lambda>part. length part \<le> 4300) parts)) (\<lambda>_.
           ret (map int_of_digits parts)))))"

fun tuple_less :: "nat list \<Rightarrow> nat list \<Rightarrow> bool" where
  "tuple_less _ [] = False"
| "tuple_less [] (y # ys) = True"
| "tuple_less (x # xs) (y # ys) = (x < y \<or> x = y \<and> tuple_less xs ys)"

definition version_between :: "nat list \<Rightarrow> nat list \<Rightarrow> nat list \<Rightarrow> bool" where
  "version_between lower version upper \<longleftrightarrow> \<not> tuple_less version lower \<and> tuple_less version upper"

definition versions_valid :: "'w check_env \<Rightarrow> ('w, bool) check" where
  "versions_valid env =
     andthen (version_tuple env ''ruff'') (\<lambda>ruff.
     andthen (version_tuple env ''mypy'') (\<lambda>mypy.
     andthen (version_tuple env ''bandit'') (\<lambda>bandit.
     ret (version_between [0, 12] ruff [0, 13] \<and> version_between [1, 17] mypy [2] \<and>
          version_between [1, 9] bandit [2]))))"

text \<open>The part of the three tools that does not depend on the format of their output: \<open>read\<close> yields the
  findings, and how many of them the tool itself has reported.\<close>

definition tool_answer ::
  "'w check_env \<Rightarrow> tool_check \<Rightarrow> string list \<Rightarrow> (bytes \<Rightarrow> bool) \<Rightarrow> check_raise set \<Rightarrow>
     (bytes \<Rightarrow> ('w, tool_finding list \<times> tool_finding list) check) \<Rightarrow> ('w, tool_result) check" where
  "tool_answer env c arguments stderr_ok caught read =
     andthen (catch (andthen (run_tool env arguments) (\<lambda>u. ret (Some u)))
        (\<lambda>e. if e = CheckOs then ret None else raise e)) (\<lambda>outcome.
     (case outcome of
        None \<Rightarrow> ret (check_error c EXECUTABLE_MISSING)
      | Some u \<Rightarrow>
          if tu_truncated u then ret (check_error c OUTPUT_LIMIT)
          else if \<not> stderr_ok (tu_stderr u) \<or> tu_code u \<notin> {0, 1} then ret (check_error c INVOCATION_FAILED)
          else andthen (catch (andthen (read (tu_stdout u)) (\<lambda>fs. ret (Some fs)))
             (\<lambda>e. if e \<in> caught then ret None else raise e)) (\<lambda>found.
          (case found of
             None \<Rightarrow> ret (check_error c OUTPUT_INVALID)
           | Some (reported, findings) \<Rightarrow>
               if (reported \<noteq> []) \<noteq> (tu_code u = 1) then ret (check_error c OUTPUT_INVALID)
               else ret (failed_or_passed c findings)))))"

text \<open>\<open>item.get(name)\<close>\<close>

definition json_get :: "(string \<times> json) list \<Rightarrow> string \<Rightarrow> json" where
  "json_get kvs name = (case map_of (rev kvs) name of None \<Rightarrow> JNull | Some j \<Rightarrow> j)"

fun ruff_finding :: "json \<Rightarrow> tool_finding option" where
  "ruff_finding (JObject kvs) =
     (case json_get kvs ''location'' of
        JObject location \<Rightarrow>
          finding_of (json_get kvs ''filename'') (json_get location ''row'') (json_get location ''column'')
            (json_get kvs ''code'')
      | _ \<Rightarrow> None)"
| "ruff_finding _ = None"

definition twice :: "tool_finding list \<Rightarrow> ('w, tool_finding list \<times> tool_finding list) check" where
  "twice fs = ret (fs, fs)"

definition ruff_findings :: "'w check_env \<Rightarrow> bytes \<Rightarrow> ('w, tool_finding list \<times> tool_finding list) check" where
  "ruff_findings env stdout =
     andthen (lift_check (ck_json env stdout)) (\<lambda>document.
     andthen (value_or_raise (json_list ruff_finding document)) (\<lambda>fs.
     andthen (lift_check (ordered_findings fs)) twice))"

definition ruff_arguments :: "string list \<Rightarrow> string list" where
  "ruff_arguments paths = [''/usr/local/bin/ruff'', ''check'', ''--isolated'', ''--no-cache'', ''--target-version'',
     ''py314'', ''--select'', ''E4,E7,E9,F,I,UP,B,SIM'', ''--ignore-noqa'', ''--output-format'', ''json'', ''--''] @ paths"

definition ruff_preview_warning :: bytes where
  "ruff_preview_warning = utf8_encode
     (''warning: Support for Python 3.14 is in preview and may undergo breaking changes. '' @
      ''Enable `preview` to remove this warning.'' @ [newline])"

definition ruff_result :: "'w check_env \<Rightarrow> string list \<Rightarrow> ('w, tool_result) check" where
  "ruff_result env paths =
     tool_answer env TOOL_RUFF (ruff_arguments paths) (\<lambda>stderr. stderr \<in> {[], ruff_preview_warning})
       {CheckValue, CheckOverflow} (ruff_findings env)"

text \<open>\<open>MYPY_ERROR\<close>, matched against a whole line; its groups are 1 to 4.\<close>

definition mypy_number :: regex where
  "mypy_number = Seq (Class (\<lambda>c. is_digit c \<and> c \<noteq> CHR ''0'')) (any_number is_digit)"

definition mypy_error_pattern :: regex where
  "mypy_error_pattern = seqs
     [Group 1 (one_or_more (none_of [CHR '':'', newline])), lit '':'', Group 2 mypy_number, lit '':'', Group 3 mypy_number,
      lit '': error: '', one_or_more (\<lambda>c. c \<noteq> newline), lit '' ['',
      Group 4 (one_or_more (\<lambda>c. is_ascii_alnum c \<or> is_package_separator c)), lit '']'']"

definition whole_match :: "regex \<Rightarrow> string \<Rightarrow> position option" where
  "whole_match r s = find (\<lambda>p. px_rest p = []) (matches r (start_at None s))"

definition digits_value :: "string \<Rightarrow> json option" where
  "digits_value s = (if 4300 < length s then None else Some (JInteger (int (int_of_digits s))))"

definition mypy_line :: "string \<Rightarrow> tool_finding option" where
  "mypy_line line =
     Option.bind (whole_match mypy_error_pattern line) (\<lambda>p.
     Option.bind (digits_value (group_of 2 p)) (\<lambda>row.
     Option.bind (digits_value (group_of 3 p)) (\<lambda>column.
     finding_of (JString (group_of 1 p)) row column (JString (group_of 4 p)))))"

definition mypy_lines :: "string \<Rightarrow> tool_finding list option" where
  "mypy_lines output =
     map_option_list mypy_line (filter (\<lambda>line. \<not> contains line '': note:'') (split_lines [] output))"

text \<open>\<open>^#\s*type\s*:\s*ignore(?:\s|\[|$)\<close> and \<open>^#\s*mypy\s*:\<close>\<close>

definition type_ignore_pattern :: regex where
  "type_ignore_pattern = seqs [lit ''#'', any_number is_space, lit ''type'', any_number is_space, lit '':'',
     any_number is_space, lit ''ignore'', alts [Class is_space, lit ''['', TextEnd]]"

definition mypy_option_pattern :: regex where
  "mypy_option_pattern = seqs [lit ''#'', any_number is_space, lit ''mypy'', any_number is_space, lit '':'']"

definition is_directive :: "source_token \<Rightarrow> bool" where
  "is_directive t \<longleftrightarrow> tn_is_comment t \<and>
     (re_match type_ignore_pattern (casefold (tn_string t)) \<noteq> None \<or>
      re_match mypy_option_pattern (casefold (tn_string t)) \<noteq> None)"

definition directive_finding :: "string \<Rightarrow> source_token \<Rightarrow> tool_finding option" where
  "directive_finding relative t =
     finding_of (JString relative) (JInteger (int (tn_line t))) (JInteger (int (tn_column t) + 1)) (JString ''MYPY_DIRECTIVE'')"

fun directive_findings :: "'w check_env \<Rightarrow> string list \<Rightarrow> ('w, tool_finding list) check" where
  "directive_findings env [] = ret []"
| "directive_findings env (relative # paths) =
     andthen (read_source env relative) (\<lambda>source.
     (case ck_tokens env source of (tokens, finish) \<Rightarrow>
       andthen (value_or_raise (map_option_list (directive_finding relative) (filter is_directive tokens))) (\<lambda>here.
       andthen (case finish of TokensRaise e \<Rightarrow> raise e | _ \<Rightarrow> ret ()) (\<lambda>_.
       andthen (directive_findings env paths) (\<lambda>rest. ret (here @ rest))))))"

definition mypy_findings ::
  "'w check_env \<Rightarrow> string list \<Rightarrow> bytes \<Rightarrow> ('w, tool_finding list \<times> tool_finding list) check" where
  "mypy_findings env paths stdout =
     andthen (value_or_raise (utf8_decode stdout)) (\<lambda>output.
     andthen (value_or_raise (mypy_lines output)) (\<lambda>found.
     andthen (lift_check (ordered_findings found)) (\<lambda>reported.
     andthen (directive_findings env paths) (\<lambda>unsorted.
     andthen (lift_check (ordered_findings unsorted)) (\<lambda>directives.
     andthen (lift_check (ordered_findings (reported @ directives))) (\<lambda>findings.
     ret (reported, findings)))))))"

definition mypy_arguments :: "string list \<Rightarrow> string list" where
  "mypy_arguments paths = [''/usr/local/bin/mypy'', ''--config-file'', ''/tracefix/workspace/tracefix-mypy.ini'',
     ''--strict'', ''--no-incremental'', ''--cache-dir'', ''/dev/null'', ''--no-site-packages'', ''--show-error-codes'',
     ''--show-column-numbers'', ''--no-error-summary'', ''--hide-error-context'', ''--no-pretty'', ''--no-color-output'',
     ''--''] @ paths"

definition mypy_result :: "'w check_env \<Rightarrow> string list \<Rightarrow> ('w, tool_result) check" where
  "mypy_result env paths =
     tool_answer env TOOL_MYPY (mypy_arguments paths) (\<lambda>stderr. stderr = []) {CheckOs, CheckValue, CheckOverflow}
       (mypy_findings env paths)"

fun bandit_finding :: "json \<Rightarrow> tool_finding option" where
  "bandit_finding (JObject kvs) =
     finding_of (json_get kvs ''filename'') (json_get kvs ''line_number'') JNull (json_get kvs ''test_id'')"
| "bandit_finding _ = None"

text \<open>The list under \<open>results\<close>, when \<open>errors\<close> is the empty list\<close>

fun bandit_document :: "json \<Rightarrow> tool_finding list option" where
  "bandit_document (JObject kvs) =
     (if json_get kvs ''errors'' = JArray [] then json_list bandit_finding (json_get kvs ''results'') else None)"
| "bandit_document _ = None"

definition bandit_findings :: "'w check_env \<Rightarrow> bytes \<Rightarrow> ('w, tool_finding list \<times> tool_finding list) check" where
  "bandit_findings env stdout =
     andthen (lift_check (ck_json env stdout)) (\<lambda>document.
     andthen (value_or_raise (bandit_document document)) (\<lambda>fs.
     andthen (lift_check (ordered_findings fs)) twice))"

definition bandit_arguments :: "string list \<Rightarrow> string list" where
  "bandit_arguments paths =
     [''/usr/local/bin/bandit'', ''--format'', ''json'', ''--quiet'', ''--ignore-nosec'', ''--''] @ paths"

definition bandit_result :: "'w check_env \<Rightarrow> string list \<Rightarrow> ('w, tool_result) check" where
  "bandit_result env paths =
     tool_answer env TOOL_BANDIT (bandit_arguments paths) (\<lambda>stderr. stderr = []) {CheckValue, CheckOverflow}
       (bandit_findings env)"

section \<open>The answer\<close>

definition container_execute :: "'w check_env \<Rightarrow> string list \<Rightarrow> ('w, tool_result list) check" where
  "container_execute env paths =
     (if paths = [] then ret (map (\<lambda>c. check_result_of c TOOL_NOT_APPLICABLE [] None) all_tools)
      else andthen (syntax_result env TOOL_PYTHON_COMPILE paths False) (\<lambda>compiled.
        andthen (syntax_result env TOOL_AST_PARSE paths True) (\<lambda>parsed.
        andthen (catch (versions_valid env)
           (\<lambda>e. if e \<in> {CheckPackage, CheckValue} then ret False else raise e)) (\<lambda>compatible.
        if \<not> compatible then
          ret (compiled # parsed # map (\<lambda>c. check_error c VERSION_MISMATCH) (drop 2 all_tools))
        else andthen (ruff_result env paths) (\<lambda>ruff.
          andthen (mypy_result env paths) (\<lambda>mypy.
          andthen (bandit_result env paths) (\<lambda>bandit.
          ret [compiled, parsed, ruff, mypy, bandit])))))))"

text \<open>\<open>json.dumps(value, separators=(",", ":"), sort_keys=True)\<close>; the keys of the objects below are sorted.\<close>

definition double_quote :: char where "double_quote = CHR ''\"''"

definition hex_digit :: "nat \<Rightarrow> char" where
  "hex_digit n = (if n < 10 then char_of (48 + n) else char_of (87 + n))"

definition json_char :: "char \<Rightarrow> string" where
  "json_char c = (let n = code c in
     if c = double_quote \<or> c = backslash then [backslash, c]
     else if n = 10 then [backslash, CHR ''n''] else if n = 13 then [backslash, CHR ''r'']
     else if n = 9 then [backslash, CHR ''t''] else if n = 8 then [backslash, CHR ''b'']
     else if n = 12 then [backslash, CHR ''f'']
     else if 32 \<le> n \<and> n \<le> 126 then [c]
     else [backslash, CHR ''u'', CHR ''0'', CHR ''0'', hex_digit (n div 16), hex_digit (n mod 16)])"

definition json_quoted :: "string \<Rightarrow> string" where
  "json_quoted s = double_quote # concat (map json_char s) @ [double_quote]"

fun separated :: "string list \<Rightarrow> string" where
  "separated [] = []"
| "separated [s] = s"
| "separated (s # ss) = s @ '','' @ separated ss"

definition signed_decimal :: "int \<Rightarrow> string" where
  "signed_decimal i = (if i < 0 then CHR ''-'' # decimal (nat (- i)) else decimal (nat i))"

fun dump_json :: "(pyfloat \<Rightarrow> string) \<Rightarrow> json \<Rightarrow> string" where
  "dump_json repr JNull = ''null''"
| "dump_json repr (JBool b) = (if b then ''true'' else ''false'')"
| "dump_json repr (JInteger i) = signed_decimal i"
| "dump_json repr (JFloat x) = repr x"
| "dump_json repr (JString s) = json_quoted s"
| "dump_json repr (JArray js) = ''['' @ separated (map (dump_json repr) js) @ '']''"
| "dump_json repr (JObject kvs) =
     ''{'' @ separated (map (\<lambda>(k, j). json_quoted k @ '':'' @ dump_json repr j) kvs) @ ''}''"

fun tool_check_value :: "tool_check \<Rightarrow> string" where
  "tool_check_value TOOL_PYTHON_COMPILE = ''python_compile''"
| "tool_check_value TOOL_AST_PARSE = ''ast_parse''"
| "tool_check_value TOOL_RUFF = ''ruff''"
| "tool_check_value TOOL_MYPY = ''mypy''"
| "tool_check_value TOOL_BANDIT = ''bandit''"

fun tool_status_value :: "tool_status \<Rightarrow> string" where
  "tool_status_value TOOL_PASSED = ''passed''"
| "tool_status_value TOOL_FAILED = ''failed''"
| "tool_status_value TOOL_NOT_APPLICABLE = ''not_applicable''"
| "tool_status_value TOOL_INFRASTRUCTURE_ERROR = ''infrastructure_error''"

fun tool_error_value :: "tool_error_code \<Rightarrow> string" where
  "tool_error_value EXECUTABLE_MISSING = ''executable_missing''"
| "tool_error_value VERSION_MISMATCH = ''version_mismatch''"
| "tool_error_value INVOCATION_FAILED = ''invocation_failed''"
| "tool_error_value OUTPUT_INVALID = ''output_invalid''"
| "tool_error_value OUTPUT_LIMIT = ''output_limit''"
| "tool_error_value SOURCE_READ_FAILED = ''source_read_failed''"

definition location_json :: "nat option \<Rightarrow> json" where
  "location_json n = (case n of None \<Rightarrow> JNull | Some k \<Rightarrow> JInteger (int k))"

definition finding_json :: "tool_finding \<Rightarrow> json" where
  "finding_json f = JObject
     [(''column'', location_json (tf_column f)), (''line'', location_json (tf_line f)), (''path'', JString (tf_path f)),
      (''rule_code'', JString (tf_rule_code f))]"

definition result_json :: "tool_result \<Rightarrow> json" where
  "result_json r = JObject
     [(''check'', JString (tool_check_value (to_check r))),
      (''error_code'', case to_error_code r of None \<Rightarrow> JNull | Some e \<Rightarrow> JString (tool_error_value e)),
      (''findings'', JArray (map finding_json (to_findings r))),
      (''status'', JString (tool_status_value (to_status r)))]"

definition answer_json :: "tool_result list \<Rightarrow> json" where
  "answer_json rs = JObject [(''results'', JArray (map result_json rs)), (''version'', JInteger 1)]"

definition all_failed :: "tool_error_code \<Rightarrow> tool_result list" where
  "all_failed e = map (\<lambda>c. check_error c e) all_tools"

text \<open>\<open>emit\<close>: the results that are written\<close>

definition emitted :: "(pyfloat \<Rightarrow> string) \<Rightarrow> tool_result list \<Rightarrow> tool_result list" where
  "emitted repr rs = (if 65536 < utf8_len (dump_json repr (answer_json rs)) then all_failed OUTPUT_LIMIT else rs)"

definition emit :: "'w check_env \<Rightarrow> tool_result list \<Rightarrow> ('w, string) check" where
  "emit env rs = ret (dump_json (ck_float_repr env) (answer_json (emitted (ck_float_repr env) rs)))"

text \<open>\<open>main\<close> yields what it writes to the standard output.\<close>

definition container_main :: "'w check_env \<Rightarrow> string list \<Rightarrow> ('w, string) check" where
  "container_main env arguments =
     catch (andthen (value_or_raise (validated_arguments arguments)) (\<lambda>paths.
            andthen (ck_exists env container_repository) (\<lambda>there.
            andthen (ensure CheckOs (\<not> there)) (\<lambda>_.
            andthen (ck_write_text env ''/tracefix/workspace/tracefix-mypy.ini''
               (''[mypy]'' @ [newline] @ ''plugins ='' @ [newline])) (\<lambda>_.
            andthen (ck_copy_tree env container_input container_repository) (\<lambda>_.
            andthen (ck_chdir env container_repository) (\<lambda>_.
            andthen (container_execute env paths) (emit env))))))))
       (\<lambda>e. if e \<in> {CheckOs, CheckRuntime, CheckValue} then emit env (all_failed INVOCATION_FAILED) else raise e)"

end
