(* ===== verification/Container_Claims.thy ===== *)
theory Container_Claims
  imports Container_Checks Static_Service
begin

text \<open>
  Properties of the program inside the container: whatever its tools do, the host accepts what it
  writes, and it writes unless an exception outside its handlers escapes; and a tool that gives up on a file hides the syntax error that made it give up.
\<close>

section \<open>Findings and results are valid\<close>

lemma argument_path_is_tool_path: "argument_path_ok p = tool_path_ok True p"
  by (simp add: argument_path_ok_def tool_path_ok_def)

lemma safe_path_ok: "safe_path j = Some p \<Longrightarrow> tool_path_ok True p"
  by (cases j) (auto simp: argument_path_is_tool_path Let_def split: if_splits)

lemma safe_location_ok: "safe_location j = Some n \<Longrightarrow> position_ok n"
  by (cases j) (auto simp: position_ok_def opt_valid_def nat_le_iff le_nat_iff split: if_splits)

lemma finding_of_valid:
  assumes "finding_of path line column rule = Some f"
  shows "valid_tool_finding f"
proof -
  from assms obtain p l c r where parts: "safe_path path = Some p" "safe_location line = Some l"
      "safe_location column = Some c" "\<not> (c \<noteq> None \<and> l = None)" "rule_code_ok r"
    and f: "f = \<lparr>tf_path = p, tf_line = l, tf_column = c, tf_rule_code = r\<rparr>"
    by (auto simp: finding_of_def bind_eq_Some_conv split: if_splits)
  have "p \<noteq> [] \<and> length p \<le> 1024"
    using safe_path_ok [OF parts(1)] length_le_utf8_len [of p] by (auto simp: tool_path_ok_def)
  with parts f show ?thesis
    by (simp add: valid_tool_finding_def safe_path_ok safe_location_ok)
qed

lemma map_option_list_valid:
  assumes "map_option_list f xs = Some ys" "\<And>x y. f x = Some y \<Longrightarrow> P y"
  shows "list_all P ys"
proof -
  from assms(1) have "list_all2 (\<lambda>x y. f x = Some y) xs ys" by (simp add: map_option_list_Some)
  then show ?thesis by (induction rule: list_all2_induct) (auto intro: assms(2))
qed

lemma ordered_findings_valid:
  assumes "ordered_findings fs = Inr gs" "list_all valid_tool_finding fs"
  shows "list_all valid_tool_finding gs \<and> keyed_list tool_finding_key gs \<and> length gs = length fs"
  using assms
  by (auto simp: ordered_findings_def Let_def keyed_list_def list_all_iff distinct_map sort_key_id_if_sorted split: if_splits)

text \<open>What a check gives: a valid result of that check, and never \<open>not_applicable\<close>.\<close>

definition proper_result :: "tool_check \<Rightarrow> tool_result \<Rightarrow> bool" where
  "proper_result c r \<longleftrightarrow> valid_tool_result r \<and> to_check r = c \<and> to_status r \<noteq> TOOL_NOT_APPLICABLE"

definition proper_findings :: "tool_finding list \<Rightarrow> bool" where
  "proper_findings fs \<longleftrightarrow> list_all valid_tool_finding fs \<and> keyed_list tool_finding_key fs"

abbreviation gives :: "('w, 'a) check \<Rightarrow> ('a \<Rightarrow> bool) \<Rightarrow> bool" where
  "gives m P \<equiv> triple (\<lambda>_. True) m (\<lambda>x _. P x) (\<lambda>_ _. True)"

lemma proper_error [simp]: "proper_result c (check_error c e)"
  by (simp add: proper_result_def check_error_def check_result_of_def valid_tool_result_def keyed_list_def)

lemma proper_passed [simp]: "proper_result c (check_result_of c TOOL_PASSED [] None)"
  by (simp add: proper_result_def check_result_of_def valid_tool_result_def keyed_list_def)

lemma proper_failed: "proper_findings fs \<Longrightarrow> fs \<noteq> [] \<Longrightarrow> proper_result c (check_result_of c TOOL_FAILED fs None)"
  by (simp add: proper_result_def proper_findings_def check_result_of_def valid_tool_result_def)

lemma proper_failed_or_passed: "proper_findings fs \<Longrightarrow> proper_result c (failed_or_passed c fs)"
  by (simp add: failed_or_passed_def proper_failed)

lemma gives_True [simp]: "gives m (\<lambda>_. True)"
  by (auto simp: triple_def split: prod.split sum.split)

lemma gives_andthen: "gives m P \<Longrightarrow> (\<And>x. P x \<Longrightarrow> gives (f x) Q) \<Longrightarrow> gives (andthen m f) Q"
  by (fastforce simp: triple_def andthen_def split: sum.splits prod.splits)

lemma gives_any: "(\<And>x. gives (f x) Q) \<Longrightarrow> gives (andthen m f) Q"
  by (rule gives_andthen [OF gives_True]) auto

lemma gives_catch: "gives m P \<Longrightarrow> (\<And>e. gives (h e) P) \<Longrightarrow> gives (catch m h) P"
  by (rule triple_catch)

lemma gives_ret: "P x \<Longrightarrow> gives (ret x) P" by (rule triple_ret)

lemma gives_raise [simp]: "gives (raise e) P" by (rule triple_raise) simp

lemma gives_lift: "(\<And>x. r = Inr x \<Longrightarrow> P x) \<Longrightarrow> gives (lift_check r) P"
  by (cases r) (auto simp: lift_check_def intro: gives_ret)

lemma gives_value: "(\<And>x. r = Some x \<Longrightarrow> P x) \<Longrightarrow> gives (value_or_raise r) P"
  by (cases r) (auto simp: value_or_raise_def intro: gives_ret)

lemmas gives_rules = gives_catch gives_ret gives_lift gives_value

lemma syntax_findings_valid: "gives (syntax_findings env parse paths) (list_all valid_tool_finding)"
proof (induction paths)
  case (Cons relative paths)
  have one: "gives (case problem of
          None \<Rightarrow> ret []
        | Some (line, offset) \<Rightarrow>
            andthen (value_or_raise (finding_of (JString relative) (line_or_one line) (optional_number offset)
               (JString (if parse then ''AST_PARSE'' else ''PY_COMPILE'')))) (\<lambda>f. ret [f])) (list_all valid_tool_finding)" for problem
    by (auto intro!: gives_ret gives_andthen [OF gives_value [where P = valid_tool_finding]] dest: finding_of_valid
        split: option.split)
  show ?case unfolding syntax_findings.simps
    by (rule gives_any, rule gives_any, rule gives_andthen [OF one], rule gives_andthen [OF Cons])
       (auto intro!: gives_ret)
qed (auto intro: gives_ret)

lemma syntax_result_proper: "gives (syntax_result env c paths parse) (proper_result c)"
  unfolding syntax_result_def
proof (rule gives_andthen)
  show "gives (catch (andthen (syntax_findings env parse paths) (\<lambda>fs. ret (Some fs)))
        (\<lambda>e. if e \<in> {CheckOs, CheckValue} then ret None else raise e)) (\<lambda>found. list_all valid_tool_finding (case found of None \<Rightarrow> [] | Some fs \<Rightarrow> fs))"
    by (auto intro!: gives_catch gives_andthen [OF syntax_findings_valid] gives_ret)
next
  fix found :: "tool_finding list option"
  assume "list_all valid_tool_finding (case found of None \<Rightarrow> [] | Some fs \<Rightarrow> fs)"
  then show "gives (case found of None \<Rightarrow> ret (check_error c SOURCE_READ_FAILED)
      | Some fs \<Rightarrow> if fs \<noteq> [] then andthen (lift_check (ordered_findings fs)) (\<lambda>sorted_findings.
            ret (check_result_of c TOOL_FAILED sorted_findings None))
          else ret (check_result_of c TOOL_PASSED [] None)) (proper_result c)"
    by (cases found)
       (auto intro!: gives_ret proper_failed
          gives_andthen [OF gives_lift [where P = "\<lambda>gs. proper_findings gs \<and> gs \<noteq> []"]]
          simp: proper_findings_def dest: ordered_findings_valid)
qed

lemma tool_answer_proper:
  assumes "\<And>stdout. gives (read stdout) (\<lambda>fs. proper_findings (snd fs))"
  shows "gives (tool_answer env c arguments stderr_ok caught read) (proper_result c)"
proof -
  have found: "gives (catch (andthen (read stdout) (\<lambda>fs. ret (Some fs))) (\<lambda>e. if e \<in> caught then ret None else raise e))
      (\<lambda>found. case found of None \<Rightarrow> True | Some fs \<Rightarrow> proper_findings (snd fs))" for stdout
    by (auto intro!: gives_catch gives_andthen [OF assms] gives_ret)
  have answer: "case found of None \<Rightarrow> True | Some fs \<Rightarrow> proper_findings (snd fs) \<Longrightarrow>
      gives (case found of None \<Rightarrow> ret (check_error c OUTPUT_INVALID)
        | Some (reported, findings) \<Rightarrow> if (reported \<noteq> []) \<noteq> (n = 1) then ret (check_error c OUTPUT_INVALID)
             else ret (failed_or_passed c findings)) (proper_result c)" for found :: "(tool_finding list \<times> tool_finding list) option" and n :: int
    by (auto intro!: gives_ret proper_failed_or_passed split: option.splits)
  have code_check: "gives (andthen (catch (andthen (read stdout) (\<lambda>fs. ret (Some fs))) (\<lambda>e. if e \<in> caught then ret None else raise e))
      (\<lambda>found. case found of None \<Rightarrow> ret (check_error c OUTPUT_INVALID)
        | Some (reported, findings) \<Rightarrow> if (reported \<noteq> []) \<noteq> (n = 1) then ret (check_error c OUTPUT_INVALID)
             else ret (failed_or_passed c findings))) (proper_result c)" for stdout and n :: int
    by (rule gives_andthen [OF found answer])
  show ?thesis unfolding tool_answer_def
    by (rule gives_any, split option.split, intro conjI allI impI triple_if code_check)
       (auto intro!: gives_ret)
qed

lemma ordered_twice:
  "list_all valid_tool_finding fs \<Longrightarrow> gives (andthen (lift_check (ordered_findings fs)) twice) (\<lambda>gs. proper_findings (snd gs))"
  unfolding twice_def
  by (rule gives_andthen [OF gives_lift [where P = proper_findings]])
     (auto simp: proper_findings_def dest: ordered_findings_valid intro: gives_ret)

lemma ruff_finding_valid: "ruff_finding j = Some f \<Longrightarrow> valid_tool_finding f"
  by (cases j) (auto dest: finding_of_valid split: json.splits)

lemma bandit_finding_valid: "bandit_finding j = Some f \<Longrightarrow> valid_tool_finding f"
  by (cases j) (auto dest: finding_of_valid)

lemma ruff_proper: "gives (ruff_result env paths) (proper_result TOOL_RUFF)"
  unfolding ruff_result_def ruff_findings_def
  by (rule tool_answer_proper, rule gives_any,
      rule gives_andthen [OF gives_value [where P = "list_all valid_tool_finding"]])
     (auto elim: json_list_Some ruff_finding_valid intro: ordered_twice)

lemma bandit_document_valid: "bandit_document j = Some fs \<Longrightarrow> list_all valid_tool_finding fs"
  by (cases j) (auto elim: json_list_Some bandit_finding_valid split: if_splits)

lemma bandit_proper: "gives (bandit_result env paths) (proper_result TOOL_BANDIT)"
  unfolding bandit_result_def bandit_findings_def
  by (rule tool_answer_proper, rule gives_any,
      rule gives_andthen [OF gives_value [where P = "list_all valid_tool_finding"]])
     (auto intro: bandit_document_valid ordered_twice)

lemma directive_findings_valid: "gives (directive_findings env paths) (list_all valid_tool_finding)"
proof (induction paths)
  case (Cons relative paths)
  have here: "gives (value_or_raise (map_option_list (directive_finding relative) tokens)) (list_all valid_tool_finding)" for tokens
    by (rule gives_value, erule map_option_list_valid) (auto simp: directive_finding_def dest: finding_of_valid)
  show ?case
    by (simp, rule gives_any, split prod.split, intro allI impI,
        rule gives_andthen [OF here], rule gives_any, rule gives_andthen [OF Cons])
       (auto intro!: gives_ret)
qed (auto intro: gives_ret)

lemma mypy_lines_valid: "mypy_lines output = Some fs \<Longrightarrow> list_all valid_tool_finding fs"
  unfolding mypy_lines_def
  by (erule map_option_list_valid) (auto simp: mypy_line_def bind_eq_Some_conv dest: finding_of_valid)

lemma mypy_proper: "gives (mypy_result env paths) (proper_result TOOL_MYPY)"
  unfolding mypy_result_def
proof (rule tool_answer_proper)
  fix stdout
  have lift: "list_all valid_tool_finding fs \<Longrightarrow> gives (lift_check (ordered_findings fs)) proper_findings" for fs
    by (rule gives_lift) (auto simp: proper_findings_def dest: ordered_findings_valid)
  show "gives (mypy_findings env paths stdout) (\<lambda>fs. proper_findings (snd fs))"
    unfolding mypy_findings_def
    by (rule gives_any, rule gives_andthen [OF gives_value [where P = "list_all valid_tool_finding"]],
        rule mypy_lines_valid, assumption, rule gives_andthen [OF lift], assumption,
        rule gives_andthen [OF directive_findings_valid], rule gives_andthen [OF lift], assumption,
        rule gives_andthen [OF lift])
       (auto simp: proper_findings_def intro: gives_ret)
qed

section \<open>The whole answer\<close>

lemma proper_list:
  "list_all2 proper_result all_tools rs \<Longrightarrow> valid_container_result rs"
  by (auto simp: valid_container_result_def all_tools_def list_all2_Cons1 proper_result_def)

lemma failed_proper: "list_all2 proper_result cs (map (\<lambda>c. check_error c e) cs)"
  by (induction cs) auto

lemma container_execute_valid: "gives (container_execute env paths) valid_container_result"
proof -
  have none: "valid_container_result (map (\<lambda>c. check_result_of c TOOL_NOT_APPLICABLE [] None) all_tools)"
    by (simp add: valid_container_result_def all_tools_def check_result_of_def valid_tool_result_def keyed_list_def)
  have mismatch: "proper_result TOOL_PYTHON_COMPILE compiled \<Longrightarrow> proper_result TOOL_AST_PARSE parsed \<Longrightarrow>
      valid_container_result (compiled # parsed # map (\<lambda>c. check_error c VERSION_MISMATCH) (drop 2 all_tools))" for compiled parsed
    by (rule proper_list) (simp add: all_tools_def)
  have tools: "proper_result TOOL_PYTHON_COMPILE compiled \<Longrightarrow> proper_result TOOL_AST_PARSE parsed \<Longrightarrow>
      gives (andthen (ruff_result env paths) (\<lambda>ruff. andthen (mypy_result env paths) (\<lambda>mypy.
        andthen (bandit_result env paths) (\<lambda>bandit. ret [compiled, parsed, ruff, mypy, bandit])))) valid_container_result" for compiled parsed
    by (rule gives_andthen [OF ruff_proper], rule gives_andthen [OF mypy_proper], rule gives_andthen [OF bandit_proper],
        rule gives_ret, rule proper_list) (simp add: all_tools_def)
  show ?thesis
    unfolding container_execute_def
    by (rule triple_if, rule gives_ret, rule none, rule gives_andthen [OF syntax_result_proper],
        rule gives_andthen [OF syntax_result_proper], rule gives_any, rule triple_if)
       (auto intro: gives_ret mismatch tools)
qed

section \<open>The host reads the answer\<close>

lemma tool_check_values: "tool_check_of (tool_check_value c) = Some c" by (cases c) simp_all
lemma tool_status_values: "tool_status_of (tool_status_value s) = Some s" by (cases s) simp_all
lemma tool_error_values: "tool_error_of (tool_error_value e) = Some e" by (cases e) simp_all

lemmas tool_values = tool_check_values tool_status_values tool_error_values

lemma read_location: "position_ok n \<Longrightarrow> optional_field (map_of [(k, location_json n)]) k json_position = Some n"
  by (cases n) (auto simp: optional_field_def location_json_def position_ok_def opt_valid_def)

lemma finding_read: "valid_tool_finding f \<Longrightarrow> tool_finding_of (finding_json f) = Some f"
  using read_location [of "tf_line f" "''line''"] read_location [of "tf_column f" "''column''"]
  by (cases f)
     (simp add: tool_finding_of_def finding_json_def field_def optional_field_def valid_or_none_def valid_tool_finding_def)

lemma findings_read:
  "list_all valid_tool_finding fs \<Longrightarrow> map_option_list tool_finding_of (map finding_json fs) = Some fs"
  by (induction fs) (simp_all add: finding_read)

lemma read_error: "optional_field (map_of [(k, case e of None \<Rightarrow> JNull | Some x \<Rightarrow> JString (tool_error_value x))]) k
    (json_enum tool_error_of) = Some e"
  by (cases e) (simp_all add: optional_field_def json_enum_def tool_values del: tool_error_of.simps)

lemma result_read:
  assumes "valid_tool_result r"
  shows "tool_result_of (result_json r) = Some r"
proof -
  obtain c s fs e where r: "r = \<lparr>to_check = c, to_status = s, to_findings = fs, to_error_code = e\<rparr>" by (cases r)
  have fs: "map_option_list tool_finding_of (map finding_json fs) = Some fs"
    using assms by (simp add: r valid_tool_result_def findings_read)
  have v: "valid_or_none valid_tool_result r = Some r" using assms by (simp add: valid_or_none_def)
  show ?thesis
    using fs v read_error [of "''error_code''" e]
    by (simp add: r tool_result_of_def result_json_def field_def findings_of_def optional_field_def json_enum_def tool_values
        del: tool_check_of.simps tool_status_of.simps tool_error_of.simps map_option_list.simps)
qed

lemma results_read: "list_all valid_tool_result rs \<Longrightarrow> map_option_list tool_result_of (map result_json rs) = Some rs"
  by (induction rs) (simp_all add: result_read)

lemma answer_read: "valid_container_result rs \<Longrightarrow> container_result_of (answer_json rs) = Some rs"
  by (auto simp: container_result_of_def answer_json_def field_def version_ok_def results_read valid_or_none_def
      valid_container_result_def)

section \<open>The size of the answer\<close>

lemma fallback_fits: "utf8_len (dump_json repr (answer_json (all_failed OUTPUT_LIMIT))) \<le> 65536"
  by (simp add: answer_json_def all_failed_def all_tools_def result_json_def check_error_def check_result_of_def
      json_quoted_def json_char_def signed_decimal_def decimal.simps utf8_char_len_def code_def double_quote_def
      backslash_def Let_def)

lemma emitted_fits: "utf8_len (dump_json repr (answer_json (emitted repr rs))) \<le> 65536"
  by (simp add: emitted_def fallback_fits)

lemma failed_valid: "valid_container_result (all_failed e)"
  unfolding all_failed_def by (rule proper_list) (rule failed_proper)

lemma emitted_valid: "valid_container_result rs \<Longrightarrow> valid_container_result (emitted repr rs)"
  by (simp add: emitted_def failed_valid)

definition accepted_answer :: "(pyfloat \<Rightarrow> string) \<Rightarrow> string \<Rightarrow> bool" where
  "accepted_answer repr payload \<longleftrightarrow>
     (\<exists>rs. payload = dump_json repr (answer_json rs) \<and> utf8_len payload \<le> 65536 \<and>
           container_result_of (answer_json rs) = Some rs)"

lemma emit_accepted: "valid_container_result rs \<Longrightarrow> gives (emit env rs) (accepted_answer (ck_float_repr env))"
  unfolding emit_def accepted_answer_def
  by (rule gives_ret) (blast intro: emitted_fits emitted_valid answer_read)

section \<open>What escapes\<close>

text \<open>The exceptions that \<open>main\<close> turns into an answer, and an environment whose calls raise no others; of
  \<open>importlib.metadata\<close> also \<open>PackageNotFoundError\<close>, of \<open>json.loads\<close> also \<open>OverflowError\<close>.\<close>

definition handled :: "check_raise set" where
  "handled = {CheckOs, CheckRuntime, CheckValue}"

definition raises_in :: "check_raise set \<Rightarrow> ('w, 'a) check \<Rightarrow> bool" where
  "raises_in es m \<longleftrightarrow> triple (\<lambda>_. True) m (\<lambda>_ _. True) (\<lambda>e _. e \<in> es)"

definition ordinary_calls :: "'w check_env \<Rightarrow> bool" where
  "ordinary_calls env \<longleftrightarrow>
     (\<forall>p. raises_in handled (ck_resolve env p)) \<and> (\<forall>p. raises_in handled (ck_read env p)) \<and>
     (\<forall>parse source p. raises_in handled (ck_syntax env parse source p)) \<and>
     (\<forall>source e. snd (ck_tokens env source) = TokensRaise e \<longrightarrow> e \<in> handled) \<and>
     (\<forall>d. raises_in (insert CheckPackage handled) (ck_version env d)) \<and> (\<forall>arguments. raises_in handled (ck_tool env arguments)) \<and>
     (\<forall>payload e. ck_json env payload = Inl e \<longrightarrow> e \<in> insert CheckOverflow handled) \<and>
     (\<forall>p. raises_in handled (ck_exists env p)) \<and> (\<forall>p contents. raises_in handled (ck_write_text env p contents)) \<and>
     (\<forall>p q. raises_in handled (ck_copy_tree env p q)) \<and> (\<forall>p. raises_in handled (ck_chdir env p))"

lemma raises_andthen: "raises_in es m \<Longrightarrow> (\<And>x. raises_in es (f x)) \<Longrightarrow> raises_in es (andthen m f)"
  unfolding raises_in_def by (rule triple_andthen [where R = "\<lambda>_ _. True"])

text \<open>With what the first computation gives\<close>

lemma raises_given: "gives m P \<Longrightarrow> raises_in es m \<Longrightarrow> (\<And>x. P x \<Longrightarrow> raises_in es (f x)) \<Longrightarrow> raises_in es (andthen m f)"
  by (fastforce simp: raises_in_def triple_def andthen_def split: sum.splits prod.splits)

lemma raises_catch: "raises_in fs m \<Longrightarrow> (\<And>e. e \<in> fs \<Longrightarrow> raises_in es (h e)) \<Longrightarrow> raises_in es (catch m h)"
  by (fastforce simp: raises_in_def triple_def catch_def split: sum.splits prod.splits)

lemma raises_ret [simp]: "raises_in es (ret x)" by (simp add: raises_in_def triple_def ret_def)

lemma raises_if: "raises_in es m \<Longrightarrow> raises_in es n \<Longrightarrow> raises_in es (if b then m else n)" by simp

lemma raises_raise: "e \<in> es \<Longrightarrow> raises_in es (raise e)" by (simp add: raises_in_def triple_def raise_def)

lemma raises_ensure: "e \<in> es \<Longrightarrow> raises_in es (ensure e b)" by (simp add: ensure_def raises_raise)

lemma raises_value: "CheckValue \<in> es \<Longrightarrow> raises_in es (value_or_raise x)"
  by (cases x) (simp_all add: value_or_raise_def raises_raise)

lemma raises_lift: "(\<And>e. r = Inl e \<Longrightarrow> e \<in> es) \<Longrightarrow> raises_in es (lift_check r)"
  by (cases r) (simp_all add: lift_check_def raises_raise)

lemma raises_mono: "raises_in es m \<Longrightarrow> es \<subseteq> es' \<Longrightarrow> raises_in es' m"
  unfolding raises_in_def by (erule triple_weaken) auto

lemma handled_errors: "CheckOs \<in> handled" "CheckRuntime \<in> handled" "CheckValue \<in> handled"
  by (simp_all add: handled_def)

text \<open>Inside a tool, the two exceptions of \<open>ordered\<close> are caught.\<close>

abbreviation in_tool :: "check_raise set" where "in_tool \<equiv> insert CheckOverflow handled"

lemma ordered_raises: "ordered_findings fs = Inl e \<Longrightarrow> e \<in> in_tool"
  by (auto simp: ordered_findings_def Let_def handled_def split: if_splits)

lemma few_ordered: "length fs \<le> 3 \<Longrightarrow> ordered_findings fs = Inl e \<Longrightarrow> e \<in> handled"
  by (auto simp: ordered_findings_def Let_def handled_def split: if_splits)

lemmas raises_rules = raises_andthen raises_ensure raises_value raises_lift handled_errors

lemma source_raises: "ordinary_calls env \<Longrightarrow> raises_in handled (read_source env p)"
  unfolding read_source_def by (intro raises_rules) (simp_all add: ordinary_calls_def)

lemma syntax_findings_raises: "ordinary_calls env \<Longrightarrow> raises_in handled (syntax_findings env parse paths)"
proof (induction paths)
  case (Cons p paths)
  have here: "raises_in handled (case problem of None \<Rightarrow> ret [] | Some (line, offset) \<Rightarrow>
      andthen (value_or_raise (finding_of (JString p) (line_or_one line) (optional_number offset)
         (JString (if parse then ''AST_PARSE'' else ''PY_COMPILE'')))) (\<lambda>f. ret [f]))" for problem
    by (auto intro!: raises_rules split: option.split)
  have call: "raises_in handled (ck_syntax env parse source p)" for source
    using Cons.prems by (simp add: ordinary_calls_def)
  show ?case unfolding syntax_findings.simps
    by (rule raises_andthen [OF source_raises [OF Cons.prems]], rule raises_andthen [OF call],
        rule raises_andthen [OF here], rule raises_andthen [OF Cons.IH [OF Cons.prems]], rule raises_ret)
qed simp

lemma syntax_findings_few: "gives (syntax_findings env parse paths) (\<lambda>fs. length fs \<le> length paths)"
proof (induction paths)
  case (Cons p paths)
  have here: "gives (case problem of None \<Rightarrow> ret [] | Some (line, offset) \<Rightarrow>
      andthen (value_or_raise (finding_of (JString p) (line_or_one line) (optional_number offset)
         (JString (if parse then ''AST_PARSE'' else ''PY_COMPILE'')))) (\<lambda>f. ret [f])) (\<lambda>fs. length fs \<le> 1)" for problem
    by (auto intro!: gives_ret gives_any split: option.split)
  show ?case unfolding syntax_findings.simps
    by (rule gives_any, rule gives_any, rule gives_andthen [OF here], rule gives_andthen [OF Cons.IH], rule gives_ret) simp
qed (simp add: gives_ret)

lemma syntax_result_raises:
  assumes "ordinary_calls env" "length paths \<le> 3"
  shows "raises_in handled (syntax_result env c paths parse)"
proof -
  let ?found = "catch (andthen (syntax_findings env parse paths) (\<lambda>fs. ret (Some fs)))
      (\<lambda>e. if e \<in> {CheckOs, CheckValue} then ret None else raise e)"
  have few: "gives ?found (\<lambda>found. case found of None \<Rightarrow> True | Some fs \<Rightarrow> length fs \<le> 3)"
    using assms(2) by (auto intro!: gives_catch gives_andthen [OF syntax_findings_few] gives_ret)
  have found: "raises_in handled ?found"
    by (rule raises_catch [OF raises_andthen [OF syntax_findings_raises [OF assms(1)]]]) (auto intro: raises_raise)
  have rest: "raises_in handled (case found of None \<Rightarrow> ret (check_error c SOURCE_READ_FAILED)
      | Some fs \<Rightarrow> if fs \<noteq> [] then andthen (lift_check (ordered_findings fs)) (\<lambda>sorted_findings.
            ret (check_result_of c TOOL_FAILED sorted_findings None))
          else ret (check_result_of c TOOL_PASSED [] None))"
    if "case found of None \<Rightarrow> True | Some fs \<Rightarrow> length fs \<le> 3" for found
    using that few_ordered by (auto intro!: raises_andthen raises_lift split: option.splits)
  show ?thesis unfolding syntax_result_def by (rule raises_given [OF few found rest])
qed

lemma tool_answer_raises:
  assumes "ordinary_calls env" "{CheckValue, CheckOverflow} \<subseteq> caught" "\<And>stdout. raises_in in_tool (read stdout)"
  shows "raises_in handled (tool_answer env c arguments stderr_ok caught read)"
proof -
  have call: "raises_in handled (ck_tool env arguments)" using assms(1) by (simp add: ordinary_calls_def)
  have run: "raises_in handled (run_tool env arguments)"
    unfolding run_tool_def by (rule raises_andthen [OF call]) (simp split: prod.split)
  have ran: "raises_in handled (catch (andthen (run_tool env arguments) (\<lambda>u. ret (Some u)))
      (\<lambda>e. if e = CheckOs then ret None else raise e))"
    by (rule raises_catch [OF raises_andthen [OF run]]) (auto intro: raises_raise)
  have found: "raises_in handled (catch (andthen (read stdout) (\<lambda>fs. ret (Some fs)))
      (\<lambda>e. if e \<in> caught then ret None else raise e))" for stdout
    by (rule raises_catch [OF raises_andthen [OF assms(3)]]) (use assms(2) in \<open>auto intro: raises_raise\<close>)
  show ?thesis unfolding tool_answer_def
    by (rule raises_andthen [OF ran]) (auto intro!: raises_andthen [OF found] split: option.split)
qed

lemma json_raises: "ordinary_calls env \<Longrightarrow> raises_in in_tool (lift_check (ck_json env payload))"
  by (rule raises_lift) (simp add: ordinary_calls_def)

lemma twice_raises: "raises_in in_tool (andthen (lift_check (ordered_findings fs)) twice)"
  by (rule raises_andthen, rule raises_lift, rule ordered_raises) (simp_all add: twice_def)

lemma ruff_raises: "ordinary_calls env \<Longrightarrow> raises_in handled (ruff_result env paths)"
  unfolding ruff_result_def ruff_findings_def
  by (rule tool_answer_raises) (auto intro!: raises_andthen json_raises raises_value twice_raises handled_errors)

lemma bandit_raises: "ordinary_calls env \<Longrightarrow> raises_in handled (bandit_result env paths)"
  unfolding bandit_result_def bandit_findings_def
  by (rule tool_answer_raises) (auto intro!: raises_andthen json_raises raises_value twice_raises handled_errors)

lemma directive_raises: "ordinary_calls env \<Longrightarrow> raises_in handled (directive_findings env paths)"
proof (induction paths)
  case (Cons p paths)
  have ended: "raises_in handled (case finish of TokensRaise e \<Rightarrow> raise e | _ \<Rightarrow> ret ())"
    if "ck_tokens env source = (tokens, finish)" for source tokens finish
  proof -
    have "finish = TokensRaise e \<Longrightarrow> e \<in> handled" for e
      using Cons.prems that unfolding ordinary_calls_def by (metis snd_conv)
    then show ?thesis by (cases finish) (simp_all add: raises_raise)
  qed
  show ?case unfolding directive_findings.simps
    by (rule raises_andthen [OF source_raises [OF Cons.prems]], split prod.split, intro allI impI,
        rule raises_andthen [OF raises_value [OF handled_errors(3)]], rule raises_andthen [OF ended], assumption,
        rule raises_andthen [OF Cons.IH [OF Cons.prems]], rule raises_ret)
qed simp

lemma mypy_raises:
  assumes "ordinary_calls env"
  shows "raises_in handled (mypy_result env paths)"
proof -
  have directives: "raises_in in_tool (directive_findings env paths)"
    by (rule raises_mono [OF directive_raises [OF assms]]) auto
  have lift: "raises_in in_tool (lift_check (ordered_findings fs))" for fs by (rule raises_lift) (rule ordered_raises)
  have checked: "raises_in in_tool (value_or_raise x)" for x by (rule raises_value) (simp add: handled_errors)
  show ?thesis unfolding mypy_result_def
  proof (rule tool_answer_raises [OF assms])
    show "raises_in in_tool (mypy_findings env paths stdout)" for stdout
      unfolding mypy_findings_def by (intro raises_andthen directives lift checked raises_ret)
  qed simp
qed

lemma versions_raises: "ordinary_calls env \<Longrightarrow> raises_in (insert CheckPackage handled) (versions_valid env)"
  unfolding versions_valid_def version_tuple_def Let_def
  by (intro raises_andthen raises_ret) (auto simp: ordinary_calls_def intro!: raises_andthen raises_ensure raises_raise handled_errors
      split: option.split)

lemma execute_raises:
  assumes "ordinary_calls env" "length paths \<le> 3"
  shows "raises_in handled (container_execute env paths)"
proof -
  have compatible: "raises_in handled (catch (versions_valid env) (\<lambda>e. if e \<in> {CheckPackage, CheckValue} then ret False else raise e))"
    by (rule raises_catch [OF versions_raises [OF assms(1)]]) (auto intro: raises_raise)
  show ?thesis unfolding container_execute_def
    by (intro raises_if raises_andthen raises_ret syntax_result_raises assms compatible ruff_raises mypy_raises bandit_raises)
qed

lemma main_raises: "raises_in (if ordinary_calls env then {} else - handled) (container_main env arguments)"
proof -
  let ?body = "andthen (value_or_raise (validated_arguments arguments)) (\<lambda>paths.
            andthen (ck_exists env container_repository) (\<lambda>there.
            andthen (ensure CheckOs (\<not> there)) (\<lambda>_.
            andthen (ck_write_text env ''/tracefix/workspace/tracefix-mypy.ini''
               (''[mypy]'' @ [newline] @ ''plugins ='' @ [newline])) (\<lambda>_.
            andthen (ck_copy_tree env container_input container_repository) (\<lambda>_.
            andthen (ck_chdir env container_repository) (\<lambda>_.
            andthen (container_execute env paths) (emit env)))))))"
  have arguments: "gives (value_or_raise (validated_arguments arguments)) (\<lambda>paths. length paths \<le> 3)"
    by (rule gives_value) (auto simp: validated_arguments_def split: if_splits)
  have "raises_in handled ?body" if "ordinary_calls env"
    by (rule raises_given [OF arguments raises_value [OF handled_errors(3)]], intro raises_andthen raises_ensure handled_errors execute_raises that)
       (use that in \<open>simp_all add: ordinary_calls_def emit_def Let_def\<close>)
  moreover have "raises_in UNIV ?body" by (simp add: raises_in_def)
  ultimately have body: "raises_in (if ordinary_calls env then handled else UNIV) ?body" by simp
  show ?thesis unfolding container_main_def
    by (rule raises_catch [OF body]) (auto simp: handled_def emit_def Let_def intro: raises_raise split: if_splits)
qed

text \<open>C19: when the program of the container writes, it writes the serialisation of at most 65536 bytes of an answer
  that the reader of the host accepts unchanged: five results in the fixed order, each valid.  It writes unless an
  exception other than an \<open>OSError\<close>, \<open>RuntimeError\<close> or \<open>ValueError\<close> escapes, and one escapes only when a call that the
  program makes (the compiler, the tokenizer, a tool, the file system, \<open>json.loads\<close>, the versions) has raised such an
  exception, as \<open>compile\<close> does with \<open>MemoryError\<close> on deeply nested source.  Standard output takes what is written.\<close>

theorem container_answer_is_accepted:
  "triple (\<lambda>_. True) (container_main env arguments) (\<lambda>payload _. accepted_answer (ck_float_repr env) payload)
     (\<lambda>e _. e \<notin> handled \<and> \<not> ordinary_calls env)"
proof -
  have execute: "gives (andthen (container_execute env paths) (emit env)) (accepted_answer (ck_float_repr env))" for paths
    by (rule gives_andthen [OF container_execute_valid emit_accepted])
  have "gives (container_main env arguments) (accepted_answer (ck_float_repr env))" unfolding container_main_def
    by (rule gives_catch, rule gives_any, rule gives_any, rule gives_any, rule gives_any, rule gives_any,
        rule gives_any, rule execute)
       (auto intro: emit_accepted failed_valid)
  with main_raises [of env arguments] show ?thesis
    by (fastforce simp: raises_in_def triple_def split: prod.splits sum.splits if_splits)
qed

section \<open>A syntax error becomes an infrastructure failure\<close>

lemma tool_rejection:
  assumes "\<And>v. \<exists>out err v'. ck_tool env arguments v = (Inr (2, out, err), v')"
  shows "gives (tool_answer env c arguments stderr_ok caught read) (\<lambda>r. to_status r = TOOL_INFRASTRUCTURE_ERROR)"
proof -
  have run: "gives (run_tool env arguments) (\<lambda>u. tu_code u = 2)"
  proof (rule tripleI)
    fix v
    obtain out err v' where "ck_tool env arguments v = (Inr (2, out, err), v')" using assms by blast
    then show "case run_tool env arguments v of (Inl e, s') \<Rightarrow> True | (Inr x, s') \<Rightarrow> tu_code x = 2"
      by (auto simp: run_tool_def andthen_def ret_def split: prod.split)
  qed
  show ?thesis unfolding tool_answer_def
    by (rule gives_andthen [where P = "\<lambda>u. case u of None \<Rightarrow> True | Some x \<Rightarrow> tu_code x = 2"])
       (auto intro!: gives_catch gives_andthen [OF run] gives_ret simp: check_error_def check_result_of_def
          split: option.splits)
qed

lemma infrastructure_decision:
  assumes "c \<in> set (sv_checks s)" "cr_status c = INFRASTRUCTURE_ERROR"
  shows "decide_phase senv s = return_infrastructure senv STATIC_RUNNER_FAILED s"
  using assms by (auto simp: decide_phase_def andthen_def gets_def list_ex_iff)

text \<open>C38: mypy ends with exit code 2 when a file cannot be parsed; then the static checks of a patch with a syntax error
  are decided as an infrastructure failure, although \<open>python_compile\<close> and \<open>ast_parse\<close> have reported it.\<close>

theorem syntax_error_becomes_infrastructure_failure:
  assumes "paths \<noteq> []" "container_execute env paths w = (Inr rs, w')"
    and "\<And>v. \<exists>out err v'. ck_tool env (mypy_arguments paths) v = (Inr (2, out, err), v')"
  shows "decide_phase senv (s\<lparr>sv_checks := before @ map map_tool_result rs\<rparr>) =
    return_infrastructure senv STATIC_RUNNER_FAILED (s\<lparr>sv_checks := before @ map map_tool_result rs\<rparr>)"
proof -
  let ?bad = "\<lambda>r. to_status r = TOOL_INFRASTRUCTURE_ERROR"
  have mypy: "gives (mypy_result env paths) ?bad"
    unfolding mypy_result_def by (rule tool_rejection [OF assms(3)])
  have "gives (container_execute env paths) (\<lambda>rs. \<exists>r \<in> set rs. ?bad r)"
    unfolding container_execute_def if_not_P [OF assms(1)]
    by ((rule gives_any)+, rule triple_if)
       (auto intro!: gives_ret gives_any gives_andthen [OF mypy] simp: all_tools_def check_error_def check_result_of_def)
  with assms(2) obtain r where "r \<in> set rs" "?bad r" by (fastforce simp: triple_def split: prod.splits)
  moreover from \<open>?bad r\<close> have "cr_status (map_tool_result r) = INFRASTRUCTURE_ERROR"
    by (simp add: map_tool_result_def check_infrastructure_def Let_def)
  ultimately show ?thesis by (intro infrastructure_decision [where c = "map_tool_result r"]) auto
qed

text \<open>A container with one file, which does not parse\<close>

definition broken_source_env :: "unit check_env" where
  "broken_source_env = \<lparr>ck_resolve = ret, ck_read = (\<lambda>p. ret []), ck_syntax = (\<lambda>parse source p. ret (Some (Some 1, Some 1))),
     ck_tokens = (\<lambda>source. ([], AllTokens)),
     ck_version = (\<lambda>d. ret (if d = ''ruff'' then ''0.12.1'' else if d = ''mypy'' then ''1.17'' else ''1.9'')),
     ck_tool = (\<lambda>arguments. ret (2, [], [])), ck_json = (\<lambda>payload. Inl CheckValue), ck_exists = (\<lambda>p. ret False),
     ck_write_text = (\<lambda>p t. ret ()), ck_copy_tree = (\<lambda>p q. ret ()), ck_chdir = (\<lambda>p. ret ()), ck_float_repr = (\<lambda>x. [])\<rparr>"

definition broken_answer :: "tool_result list" where
  "broken_answer =
     [check_result_of TOOL_PYTHON_COMPILE TOOL_FAILED [\<lparr>tf_path = ''a.py'', tf_line = Some 1, tf_column = Some 1, tf_rule_code = ''PY_COMPILE''\<rparr>] None,
      check_result_of TOOL_AST_PARSE TOOL_FAILED [\<lparr>tf_path = ''a.py'', tf_line = Some 1, tf_column = Some 1, tf_rule_code = ''AST_PARSE''\<rparr>] None,
      check_error TOOL_RUFF INVOCATION_FAILED, check_error TOOL_MYPY INVOCATION_FAILED, check_error TOOL_BANDIT INVOCATION_FAILED]"

lemma broken_path: "argument_path_ok ''a.py''" "is_relative_to (join_path container_repository (posix_parts ''a.py'')) container_repository"
  "rule_code_ok ''PY_COMPILE''" "rule_code_ok ''AST_PARSE''"
  "remove_prefix ''./'' (remove_prefix (container_repository @ [slash]) ''a.py'') = ''a.py''"
  by code_simp+

lemma broken_versions: "versions_valid broken_source_env () = (Inr True, ())"
  by code_simp

lemma broken_finding:
  "rule_code_ok rule \<Longrightarrow> finding_of (JString ''a.py'') (line_or_one (Some 1)) (optional_number (Some 1)) (JString rule) =
     Some \<lparr>tf_path = ''a.py'', tf_line = Some 1, tf_column = Some 1, tf_rule_code = rule\<rparr>"
  by (simp add: finding_of_def line_or_one_def optional_number_def broken_path)

lemma broken_syntax:
  "syntax_result broken_source_env c [''a.py''] parse () =
     (Inr (check_result_of c TOOL_FAILED [\<lparr>tf_path = ''a.py'', tf_line = Some 1, tf_column = Some 1,
        tf_rule_code = (if parse then ''AST_PARSE'' else ''PY_COMPILE'')\<rparr>] None), ())"
  by (simp add: syntax_result_def read_source_def broken_source_env_def andthen_def catch_def ret_def ensure_def
      value_or_raise_def lift_check_def ordered_findings_def broken_path broken_finding)

lemma broken_tool:
  "tool_answer broken_source_env c arguments stderr_ok caught read () = (Inr (check_error c INVOCATION_FAILED), ())"
  by (simp add: tool_answer_def run_tool_def broken_source_env_def andthen_def catch_def ret_def bounded_pipe_def)

lemma broken_execute: "container_execute broken_source_env [''a.py''] () = (Inr broken_answer, ())"
  by (simp add: container_execute_def andthen_def catch_def ret_def broken_syntax broken_versions ruff_result_def
      mypy_result_def bandit_result_def broken_tool broken_answer_def)

theorem syntax_error_becomes_infrastructure_failure_witness:
  "\<forall>senv s. decide_phase senv (s\<lparr>sv_checks := map map_tool_result broken_answer\<rparr>) =
    return_infrastructure senv STATIC_RUNNER_FAILED (s\<lparr>sv_checks := map map_tool_result broken_answer\<rparr>)"
proof (intro allI)
  fix senv :: "'a static_env" and s
  show "decide_phase senv (s\<lparr>sv_checks := map map_tool_result broken_answer\<rparr>) =
      return_infrastructure senv STATIC_RUNNER_FAILED (s\<lparr>sv_checks := map map_tool_result broken_answer\<rparr>)"
    using syntax_error_becomes_infrastructure_failure [OF _ broken_execute, where before = "[]" and s = s and senv = senv]
    by (simp add: broken_source_env_def ret_def)
qed

end
