(* ===== verification/Artifacts.thy ===== *)
theory Artifacts
  imports Graph_State
begin

text \<open>
  \<open>app/artifacts.py\<close>, the data: the artifact of a run with its validators, the projection of a finished
  state to its artifact, publications and the summary of a run.
\<close>

section \<open>The parts of an artifact\<close>

record baseline_artifact =
  ba_outcome :: baseline_outcome
  ba_diagnostic_code :: "baseline_diagnostic_code option"
  ba_completion :: "sandbox_completion option"
  ba_exit_code :: "int option"
  ba_stdout_truncated :: "bool option"
  ba_stderr_truncated :: "bool option"
  ba_duration_seconds :: "pyfloat option"

definition measured_output :: "baseline_artifact \<Rightarrow> bool" where
  "measured_output a \<longleftrightarrow>
     ba_stdout_truncated a \<noteq> None \<and> ba_stderr_truncated a \<noteq> None \<and> ba_duration_seconds a \<noteq> None"

definition no_execution :: "baseline_artifact \<Rightarrow> bool" where
  "no_execution a \<longleftrightarrow> ba_completion a = None \<and> ba_exit_code a = None \<and> ba_stdout_truncated a = None \<and>
     ba_stderr_truncated a = None \<and> ba_duration_seconds a = None"

definition valid_baseline_artifact :: "baseline_artifact \<Rightarrow> bool" where
  [valid_defs]: "valid_baseline_artifact a \<longleftrightarrow>
     opt_valid (finite_at_least 0) (ba_duration_seconds a) \<and>
     (let dc = ba_diagnostic_code a in
      case ba_outcome a of
        REPRODUCED_FAILURE \<Rightarrow>
          dc = None \<and> ba_completion a = Some NORMAL \<and> ba_exit_code a \<notin> {None, Some 0} \<and> measured_output a
      | NOT_REPRODUCIBLE \<Rightarrow>
          dc = Some BASELINE_NOT_REPRODUCIBLE \<and> ba_completion a = Some NORMAL \<and> ba_exit_code a = Some 0 \<and>
          measured_output a
      | BASELINE_INFRASTRUCTURE \<Rightarrow>
          if dc \<in> {None, Some BASELINE_NOT_REPRODUCIBLE} then False
          else if dc = Some SANDBOX_TIMED_OUT then ba_completion a = Some TIMED_OUT \<and> ba_exit_code a = None
          else if dc = Some SANDBOX_MEMORY_LIMIT then ba_completion a = Some MEMORY_LIMIT
          else no_execution a)"

record policy_artifact =
  pa_approved :: bool
  pa_violations :: "policy_violation list"

definition valid_policy_artifact :: "policy_artifact \<Rightarrow> bool" where
  [valid_defs]: "valid_policy_artifact a \<longleftrightarrow>
     valid_policy_result \<lparr>pr_approved = pa_approved a, pr_violations = pa_violations a\<rparr>"

record static_artifact =
  sa_outcome :: static_outcome
  sa_checks :: "check_result list"
  sa_diagnostic :: "static_diagnostic option"

definition valid_static_artifact :: "static_artifact \<Rightarrow> bool" where
  [valid_defs]: "valid_static_artifact a \<longleftrightarrow>
     list_all valid_check_result (sa_checks a) \<and> opt_valid valid_static_diagnostic (sa_diagnostic a) \<and>
     map cr_check (sa_checks a) = all_checks \<and>
     (let statuses = map cr_status (sa_checks a); language = set (drop 2 statuses) in
      NOT_APPLICABLE \<notin> set (take 2 statuses) \<and>
      \<not> (NOT_APPLICABLE \<in> language \<and> language \<noteq> {NOT_APPLICABLE}) \<and>
      (case sa_outcome a of
         STATIC_PASSED \<Rightarrow>
           sa_diagnostic a = None \<and> set statuses \<subseteq> {PASSED, NOT_APPLICABLE} \<and>
           (language = {PASSED} \<or> language = {NOT_APPLICABLE})
       | STATIC_CANDIDATE_FAILED \<Rightarrow>
           sa_diagnostic a = None \<and> FAILED \<in> set statuses \<and> INFRASTRUCTURE_ERROR \<notin> set statuses
       | STATIC_INFRASTRUCTURE \<Rightarrow> sa_diagnostic a \<noteq> None \<and> INFRASTRUCTURE_ERROR \<in> set statuses))"

section \<open>The artifact of a run\<close>

record run_artifact =
  ra_run_id :: string
  ra_case_id :: string
  ra_outcome :: terminal_outcome
  ra_exit_code :: int
  ra_started_at :: datetime
  ra_completed_at :: datetime
  ra_attempt_number :: int
  ra_provider_name :: "string option"
  ra_model_name :: "string option"
  ra_prompt_version :: "string option"
  ra_baseline :: "baseline_artifact option"
  ra_failure_category :: "failure_category option"
  ra_policy :: "policy_artifact option"
  ra_static :: "static_artifact option"
  ra_verification :: "verification_result option"
  ra_candidate_evaluation :: "candidate_evaluation option"
  ra_terminal_diagnostic :: "terminal_diagnostic option"

definition artifact_fields_ok :: "run_artifact \<Rightarrow> bool" where
  "artifact_fields_ok a \<longleftrightarrow>
     hex_string 32 (ra_run_id a) \<and> provider_case_id (ra_case_id a) \<and>
     dt_offset (ra_started_at a) \<noteq> None \<and> dt_offset (ra_completed_at a) \<noteq> None \<and>
     0 \<le> ra_attempt_number a \<and> ra_attempt_number a \<le> 1 \<and>
     opt_valid valid_baseline_artifact (ra_baseline a) \<and> opt_valid valid_policy_artifact (ra_policy a) \<and>
     opt_valid valid_static_artifact (ra_static a) \<and> opt_valid valid_verification_result (ra_verification a) \<and>
     opt_valid valid_candidate_evaluation (ra_candidate_evaluation a) \<and>
     opt_valid valid_terminal_diagnostic (ra_terminal_diagnostic a)"

definition artifact_header_ok :: "run_artifact \<Rightarrow> bool" where
  "artifact_header_ok a \<longleftrightarrow>
     ra_exit_code a = exit_code_of (ra_outcome a) \<and>
     dt_offset (ra_started_at a) = Some 0 \<and> dt_offset (ra_completed_at a) = Some 0 \<and>
     dt_instant (ra_started_at a) \<le> dt_instant (ra_completed_at a) \<and>
     (let configuration = [ra_provider_name a, ra_model_name a, ra_prompt_version a] in
      \<not> (list_ex (\<lambda>v. v = None) configuration \<and> list_ex (\<lambda>v. v \<noteq> None) configuration)) \<and>
     ra_terminal_diagnostic a = (if ra_outcome a = SUCCESS then None else diagnostic_for_outcome (ra_outcome a))"

definition candidate_parts :: "run_artifact \<Rightarrow> bool" where
  "candidate_parts a \<longleftrightarrow> ra_static a \<noteq> None \<or> ra_verification a \<noteq> None \<or> ra_candidate_evaluation a \<noteq> None"

definition later_parts :: "run_artifact \<Rightarrow> bool" where
  "later_parts a \<longleftrightarrow> ra_failure_category a \<noteq> None \<or> ra_policy a \<noteq> None \<or> candidate_parts a"

definition artifact_links_ok :: "run_artifact \<Rightarrow> bool" where
  "artifact_links_ok a \<longleftrightarrow>
     \<not> (ra_verification a = None \<and> ra_candidate_evaluation a \<noteq> None) \<and>
     \<not> (ra_policy a = None \<and> ra_static a \<noteq> None) \<and>
     \<not> (ra_baseline a = None \<and> later_parts a) \<and>
     opt_valid (\<lambda>b. \<not> (ba_outcome b \<noteq> REPRODUCED_FAILURE \<and> later_parts a)) (ra_baseline a) \<and>
     opt_valid (\<lambda>p. \<not> (\<not> pa_approved p \<and> candidate_parts a)) (ra_policy a) \<and>
     opt_valid (\<lambda>s. \<not> (sa_outcome s \<noteq> STATIC_PASSED \<and>
        (ra_verification a \<noteq> None \<or> ra_candidate_evaluation a \<noteq> None))) (ra_static a) \<and>
     (case (ra_verification a, ra_candidate_evaluation a) of
        (Some v, Some e) \<Rightarrow>
          ce_case_id e = ra_case_id a \<and> ce_functional_status e = functional_status_of (vr_outcome v)
      | _ \<Rightarrow> True)"

text \<open>\<open>RunArtifact._validate_terminal_shape\<close>\<close>

definition repaired_shape :: "run_artifact \<Rightarrow> bool" where
  "repaired_shape a \<longleftrightarrow>
     ra_attempt_number a = 1 \<and>
     (case ra_baseline a of None \<Rightarrow> False | Some b \<Rightarrow> ba_outcome b = REPRODUCED_FAILURE) \<and>
     ra_failure_category a \<noteq> None \<and> ra_provider_name a \<noteq> None"

definition policy_approved :: "run_artifact \<Rightarrow> bool" where
  "policy_approved a \<longleftrightarrow> (case ra_policy a of None \<Rightarrow> False | Some p \<Rightarrow> pa_approved p)"

definition static_with :: "static_outcome \<Rightarrow> run_artifact \<Rightarrow> bool" where
  "static_with out a \<longleftrightarrow> (case ra_static a of None \<Rightarrow> False | Some s \<Rightarrow> sa_outcome s = out)"

definition judged :: "verification_outcome \<Rightarrow> functional_status \<Rightarrow> run_artifact \<Rightarrow> bool" where
  "judged out status a \<longleftrightarrow> policy_approved a \<and> static_with STATIC_PASSED a \<and>
     map_option vr_outcome (ra_verification a) = Some out \<and>
     map_option ce_functional_status (ra_candidate_evaluation a) = Some status"

fun terminal_shape_ok :: "terminal_outcome \<Rightarrow> run_artifact \<Rightarrow> bool" where
  "terminal_shape_ok SUCCESS a = (repaired_shape a \<and> judged VERIFICATION_PASSED FS_PASSED a)"
| "terminal_shape_ok CANDIDATE_FAILURE a =
     (repaired_shape a \<and>
      ((ra_policy a = None \<and> ra_static a = None \<and> ra_verification a = None) \<or>
       judged VERIFICATION_CANDIDATE_FAILED FS_FAILED a))"
| "terminal_shape_ok POLICY_VIOLATION a =
     (repaired_shape a \<and> ra_policy a \<noteq> None \<and> \<not> policy_approved a \<and> \<not> candidate_parts a)"
| "terminal_shape_ok STATIC_CHECK_FAILURE a =
     (repaired_shape a \<and> policy_approved a \<and> static_with STATIC_CANDIDATE_FAILED a \<and>
      ra_verification a = None \<and> ra_candidate_evaluation a = None)"
| "terminal_shape_ok RUN_NOT_REPRODUCIBLE a =
     (ra_attempt_number a = 0 \<and>
      (case ra_baseline a of None \<Rightarrow> False | Some b \<Rightarrow> ba_outcome b = NOT_REPRODUCIBLE))"
| "terminal_shape_ok MALFORMED_MODEL_OUTPUT a = (repaired_shape a \<and> ra_policy a = None \<and> \<not> candidate_parts a)"
| "terminal_shape_ok INFRASTRUCTURE_FAILURE a = True"

definition valid_run_artifact :: "run_artifact \<Rightarrow> bool" where
  "valid_run_artifact a \<longleftrightarrow>
     artifact_fields_ok a \<and> artifact_header_ok a \<and> artifact_links_ok a \<and> terminal_shape_ok (ra_outcome a) a"

text \<open>\<open>artifact_bytes\<close>; \<open>dump\<close> is the JSON of the model library, as bytes.\<close>

definition artifact_bytes :: "(run_artifact \<Rightarrow> bytes) \<Rightarrow> run_artifact \<Rightarrow> model_raise + bytes" where
  "artifact_bytes dump a = (if valid_run_artifact a then Inr (dump a) else Inl Ordinary)"

section \<open>Projection\<close>

definition made :: "('a \<Rightarrow> bool) \<Rightarrow> 'a \<Rightarrow> model_raise + 'a" where
  "made valid x = (if valid x then Inr x else Inl Ordinary)"

definition made_optional :: "('b \<Rightarrow> bool) \<Rightarrow> ('a \<Rightarrow> 'b) \<Rightarrow> 'a option \<Rightarrow> model_raise + 'b option" where
  "made_optional valid f x = (case x of None \<Rightarrow> Inr None | Some y \<Rightarrow> bindE (made valid (f y)) (\<lambda>z. Inr (Some z)))"

definition baseline_projection :: "baseline_result \<Rightarrow> baseline_artifact" where
  "baseline_projection b = (let ev = br_evidence b in
     \<lparr>ba_outcome = br_outcome b, ba_diagnostic_code = br_diagnostic_code b,
      ba_completion = map_option be_completion ev, ba_exit_code = Option.bind ev be_exit_code,
      ba_stdout_truncated = map_option be_stdout_truncated ev, ba_stderr_truncated = map_option be_stderr_truncated ev,
      ba_duration_seconds = map_option be_duration_seconds ev\<rparr>)"

definition policy_projection :: "policy_result \<Rightarrow> policy_artifact" where
  "policy_projection p = \<lparr>pa_approved = pr_approved p, pa_violations = pr_violations p\<rparr>"

definition static_projection :: "static_result \<Rightarrow> static_artifact" where
  "static_projection s = \<lparr>sa_outcome = st_outcome s, sa_checks = st_checks s, sa_diagnostic = st_diagnostic s\<rparr>"

definition artifact_of ::
  "orchestration_state \<Rightarrow> terminal_route \<Rightarrow> datetime \<Rightarrow> baseline_artifact option \<Rightarrow> policy_artifact option \<Rightarrow>
     static_artifact option \<Rightarrow> run_artifact" where
  "artifact_of s route completed baseline policy static = (let cfg = os_model_configuration s in
     \<lparr>ra_run_id = os_run_id s, ra_case_id = os_case_id s, ra_outcome = te_outcome route,
      ra_exit_code = te_exit_code route, ra_started_at = os_started_at s, ra_completed_at = completed,
      ra_attempt_number = os_attempt_number s, ra_provider_name = map_option mc_provider cfg,
      ra_model_name = map_option mc_model_name cfg, ra_prompt_version = map_option mc_prompt_version cfg,
      ra_baseline = baseline, ra_failure_category = map_option fa_category (os_failure_analysis s),
      ra_policy = policy, ra_static = static, ra_verification = os_verification_result s,
      ra_candidate_evaluation = os_evaluation_result s, ra_terminal_diagnostic = te_diagnostic route\<rparr>)"

definition project_artifact :: "digest_functions \<Rightarrow> orchestration_state \<Rightarrow> model_raise + run_artifact" where
  "project_artifact dg s0 =
     bindE (strict_state dg s0) (\<lambda>s.
     case (os_terminal_route s, os_completed_at s) of
       (Some route, Some completed) \<Rightarrow>
         bindE (made_optional valid_policy_artifact policy_projection (os_policy_result s)) (\<lambda>policy.
         bindE (made_optional valid_static_artifact static_projection (os_static_result s)) (\<lambda>static.
         bindE (made_optional valid_baseline_artifact baseline_projection (os_baseline s)) (\<lambda>baseline.
         made valid_run_artifact (artifact_of s route completed baseline policy static))))
     | _ \<Rightarrow> Inl Ordinary)"

section \<open>Publications and summaries\<close>

text \<open>A \<open>PurePosixPath\<close> is its text.\<close>

definition relative_artifact_path :: "string \<Rightarrow> bool" where
  "relative_artifact_path p \<longleftrightarrow>
     (let rendered = as_posix p; parts = posix_parts p in
      \<not> (is_absolute p \<or> windows_drive_or_root rendered \<or> take 2 parts \<noteq> [''.tracefix'', ''artifacts''] \<or>
         length parts \<noteq> 3 \<or> list_ex (\<lambda>part. part \<in> {[], ''.'', ''..''}) parts \<or> backslash \<in> set rendered))"

record artifact_summary =
  au_case_id :: string
  au_outcome :: terminal_outcome
  au_summary :: string
  au_exit_code :: int
  au_artifact_path :: string

definition valid_artifact_summary :: "artifact_summary \<Rightarrow> bool" where
  "valid_artifact_summary s \<longleftrightarrow>
     provider_case_id (au_case_id s) \<and> au_summary s = terminal_summary (au_outcome s) \<and>
     au_exit_code s = exit_code_of (au_outcome s) \<and> relative_artifact_path (au_artifact_path s)"

fun outcome_value :: "terminal_outcome \<Rightarrow> string" where
  "outcome_value SUCCESS = ''success''"
| "outcome_value CANDIDATE_FAILURE = ''candidate_failure''"
| "outcome_value POLICY_VIOLATION = ''policy_violation''"
| "outcome_value STATIC_CHECK_FAILURE = ''static_check_failure''"
| "outcome_value RUN_NOT_REPRODUCIBLE = ''baseline_not_reproducible''"
| "outcome_value INFRASTRUCTURE_FAILURE = ''infrastructure_failure''"
| "outcome_value MALFORMED_MODEL_OUTPUT = ''malformed_model_output''"

text \<open>The exit codes are not negative.\<close>

definition render_summary :: "artifact_summary \<Rightarrow> string" where
  "render_summary s = ''case_id='' @ au_case_id s @ '' outcome='' @ outcome_value (au_outcome s) @ '' summary='' @
     au_summary s @ '' exit_code='' @ decimal (nat (au_exit_code s)) @ '' artifact='' @ as_posix (au_artifact_path s)"

end
