(* ===== verification/Application.thy ===== *)
theory Application
  imports Artifacts Graph
begin

text \<open>
  \<open>RepairApplication\<close> and \<open>main\<close> of \<open>app/cli.py\<close>: a run from the loaded case to the published artifact
  and the line on the console.  The dependencies are functions on a world \<open>'w\<close>; the workspace
  manager has a state \<open>'m\<close> of its own.
\<close>

section \<open>Dependencies\<close>

text \<open>The exceptions of the module, those of the loader, any other, and the interrupts.\<close>

datatype app_raise = CliInput | LoadFailed | RunInitialization | RepairExecution | ArtifactPublication
  | OtherException | Stopped

type_synonym ('w, 'a) app = "('w, app_raise, 'a) act"

record ('m, 'w) app_env =
  ap_case_loader :: "string \<Rightarrow> ('w, app_raise, trusted_case) act"
  ap_configuration_loader :: "('w, app_raise, model_configuration) act"
  ap_provider_factory :: "string \<Rightarrow> (model_configuration \<Rightarrow> ('w, app_raise, 'w provider) act) option"
  ap_create :: "string \<Rightarrow> ('m \<times> 'w, app_raise, run_workspaces) act"
  ap_cleanup :: "run_workspaces \<Rightarrow> ('m \<times> 'w, app_raise, unit) act"
  ap_write :: "run_artifact \<Rightarrow> string \<Rightarrow> ('w, app_raise, string) act"
  ap_graph_dependencies :: "model_configuration option \<Rightarrow> 'w provider option \<Rightarrow> ('w, app_raise, 'w graph_env) act"
  ap_clock :: "('w, app_raise, datetime) act"
  ap_run_id :: "('w, app_raise, string) act"
  ap_invocation_directory :: "('w, app_raise, string) act"
  ap_stdout :: "string \<Rightarrow> ('w, app_raise, unit) act"
  ap_stderr :: "string \<Rightarrow> ('w, app_raise, unit) act"
  ap_digest :: digest_functions

fun as_app_raise :: "model_raise \<Rightarrow> app_raise" where
  "as_app_raise Interrupted = Stopped"
| "as_app_raise _ = OtherException"

definition as_app :: "('w, model_raise, 'a) act \<Rightarrow> ('w, app_raise, 'a) act" where
  "as_app m = (\<lambda>w. case m w of (Inl e, w') \<Rightarrow> (Inl (as_app_raise e), w') | (Inr x, w') \<Rightarrow> (Inr x, w'))"

definition pure_app :: "model_raise + 'a \<Rightarrow> ('w, app_raise, 'a) act" where
  "pure_app r = (case r of Inl e \<Rightarrow> raise (as_app_raise e) | Inr x \<Rightarrow> ret x)"

text \<open>\<open>except (KeyboardInterrupt, SystemExit): raise\<close>, then \<open>except Exception\<close>\<close>

definition excepting :: "('s, app_raise, 'a) act \<Rightarrow> (app_raise \<Rightarrow> ('s, app_raise, 'a) act) \<Rightarrow> ('s, app_raise, 'a) act" where
  "excepting m handler = catch m (\<lambda>e. if e = Stopped then raise Stopped else handler e)"

text \<open>\<open>try: m finally: f\<close>\<close>

definition finally_do :: "('s, 'e, 'a) act \<Rightarrow> ('s, 'e, unit) act \<Rightarrow> ('s, 'e, 'a) act" where
  "finally_do m f = (\<lambda>s. case m s of (r, s') \<Rightarrow>
     (case f s' of (Inl e, s'') \<Rightarrow> (Inl e, s'') | (Inr _, s'') \<Rightarrow> (r, s'')))"

section \<open>The trusted case\<close>

definition trusted_case_for :: "('m, 'w) app_env \<Rightarrow> string \<Rightarrow> ('w, trusted_case) app" where
  "trusted_case_for env case_id =
     andthen (ensure CliInput (provider_case_id case_id)) (\<lambda>_.
     andthen (excepting (ap_case_loader env case_id)
        (\<lambda>e. raise (if e = LoadFailed then CliInput else RunInitialization))) (\<lambda>c.
     andthen (ensure RunInitialization (valid_trusted_case c \<and> mf_case_id (tc_manifest c) = case_id)) (\<lambda>_. ret c)))"

text \<open>\<open>ProviderRegistry.resolve\<close>; every exception of the factory is no provider\<close>

definition resolve_provider :: "('m, 'w) app_env \<Rightarrow> model_configuration \<Rightarrow> ('w, 'w provider option) app" where
  "resolve_provider env cfg =
     (case ap_provider_factory env (mc_provider cfg) of
        None \<Rightarrow> ret None
      | Some factory \<Rightarrow> excepting (andthen (factory cfg) (\<lambda>p. ret (Some p))) (\<lambda>_. ret None))"

section \<open>A run\<close>

text \<open>The variables of \<open>execute_trusted_case\<close>, with the world and the manager\<close>

record ('m, 'w) frame =
  fr_manager :: 'm
  fr_world :: 'w
  fr_workspaces :: "run_workspaces option"
  fr_state :: "orchestration_state option"
  fr_projected :: "run_artifact option"

definition in_world :: "('w, 'a) app \<Rightarrow> (('m, 'w) frame, 'a) app" where
  "in_world m = (\<lambda>f. case m (fr_world f) of (r, w') \<Rightarrow> (r, f\<lparr>fr_world := w'\<rparr>))"

definition in_manager :: "('m \<times> 'w, 'a) app \<Rightarrow> (('m, 'w) frame, 'a) app" where
  "in_manager m = (\<lambda>f. case m (fr_manager f, fr_world f) of (r, (m', w')) \<Rightarrow>
     (r, f\<lparr>fr_manager := m', fr_world := w'\<rparr>))"

definition set_state :: "orchestration_state \<Rightarrow> (('m, 'w) frame, unit) app" where
  "set_state s = modify (fr_state_update (\<lambda>_. Some s))"

definition set_projected :: "run_artifact option \<Rightarrow> (('m, 'w) frame, unit) app" where
  "set_projected a = modify (fr_projected_update (\<lambda>_. a))"

text \<open>\<open>invoke_repair_graph(build_repair_graph(...), initial)\<close>, or the recorded infrastructure failure\<close>

definition graph_phase ::
  "('m, 'w) app_env \<Rightarrow> model_configuration option \<Rightarrow> 'w provider option \<Rightarrow> orchestration_state \<Rightarrow> (('m, 'w) frame, unit) app" where
  "graph_phase env cfg provider initial =
     excepting
       (andthen (in_world (ap_graph_dependencies env cfg provider)) (\<lambda>deps.
        andthen (in_world (as_app (invoke_repair_graph (deps\<lparr>gd_digest := ap_digest env\<rparr>) initial))) set_state))
       (\<lambda>_. andthen (in_world (ap_clock env)) (\<lambda>t.
        andthen (pure_app (terminalize_infrastructure_failure (ap_digest env) initial t)) set_state))"

definition run_phase ::
  "('m, 'w) app_env \<Rightarrow> trusted_case \<Rightarrow> string \<Rightarrow> datetime \<Rightarrow> model_configuration option \<Rightarrow> 'w provider option \<Rightarrow>
     (('m, 'w) frame, unit) app" where
  "run_phase env c run_id started cfg provider =
     andthen (in_manager (ap_create env run_id)) (\<lambda>ws.
     andthen (modify (fr_workspaces_update (\<lambda>_. Some ws))) (\<lambda>_.
     andthen (pure_app (new_orchestration_state (ap_digest env) run_id c ws started cfg)) (\<lambda>initial.
     andthen (set_state initial) (\<lambda>_.
     andthen (graph_phase env cfg provider initial) (\<lambda>_.
     andthen (gets fr_state) (\<lambda>s.
     andthen (pure_app (case s of None \<Rightarrow> Inl Ordinary | Some t \<Rightarrow> project_artifact (ap_digest env) t)) (\<lambda>a.
     set_projected (Some a))))))))"

definition has_route :: "orchestration_state option \<Rightarrow> bool" where
  "has_route s \<longleftrightarrow> (case s of None \<Rightarrow> False | Some t \<Rightarrow> os_terminal_route t \<noteq> None)"

text \<open>A finished run whose workspaces could not be removed becomes an infrastructure failure.\<close>

definition cleanup_failed :: "('m, 'w) app_env \<Rightarrow> (('m, 'w) frame, unit) app" where
  "cleanup_failed env =
     andthen (gets fr_state) (\<lambda>s0.
     case s0 of
       None \<Rightarrow> ret ()
     | Some s \<Rightarrow>
         if os_terminal_route s = None then ret ()
         else excepting
           (andthen (in_world (ap_clock env)) (\<lambda>t.
            andthen (pure_app (replace_with_infrastructure_failure (ap_digest env) s t)) (\<lambda>s'.
            andthen (set_state s') (\<lambda>_.
            andthen (pure_app (project_artifact (ap_digest env) s')) (\<lambda>a. set_projected (Some a))))))
           (\<lambda>_. set_projected None))"

definition cleanup_phase :: "('m, 'w) app_env \<Rightarrow> (('m, 'w) frame, unit) app" where
  "cleanup_phase env =
     andthen (gets fr_workspaces) (\<lambda>ws0.
     case ws0 of
       None \<Rightarrow> ret ()
     | Some ws \<Rightarrow> excepting (in_manager (ap_cleanup env ws)) (\<lambda>_. cleanup_failed env))"

definition publish_phase :: "('m, 'w) app_env \<Rightarrow> (('m, 'w) frame, orchestration_state \<times> string) app" where
  "publish_phase env =
     andthen (gets (\<lambda>f. (fr_state f, fr_projected f))) (\<lambda>r.
     case r of
       (Some s, Some a) \<Rightarrow>
         if os_terminal_route s = None then raise RepairExecution
         else excepting
           (andthen (in_world (ap_invocation_directory env)) (\<lambda>d.
            andthen (in_world (ap_write env a d)) (\<lambda>path.
            andthen (ensure OtherException (relative_artifact_path path)) (\<lambda>_. ret (s, path)))))
           (\<lambda>_. raise ArtifactPublication)
     | _ \<Rightarrow> raise RepairExecution)"

definition initialize_run :: "('m, 'w) app_env \<Rightarrow> trusted_case \<Rightarrow> (('m, 'w) frame, string \<times> datetime) app" where
  "initialize_run env c =
     excepting
       (andthen (ensure OtherException (valid_trusted_case c)) (\<lambda>_.
        andthen (in_world (ap_run_id env)) (\<lambda>run_id.
        andthen (in_world (ap_clock env)) (\<lambda>started.
        andthen (ensure OtherException (hex_string 32 run_id)) (\<lambda>_. ret (run_id, started))))))
       (\<lambda>_. raise RunInitialization)"

definition new_frame :: "'m \<times> 'w \<Rightarrow> ('m, 'w) frame" where
  "new_frame mw = \<lparr>fr_manager = fst mw, fr_world = snd mw, fr_workspaces = None, fr_state = None, fr_projected = None\<rparr>"

definition framed :: "(('m, 'w) frame, 'a) app \<Rightarrow> ('m \<times> 'w, 'a) app" where
  "framed m = (\<lambda>mw. case m (new_frame mw) of (r, f) \<Rightarrow> (r, (fr_manager f, fr_world f)))"

definition execute_run ::
  "('m, 'w) app_env \<Rightarrow> trusted_case \<Rightarrow> model_configuration option \<Rightarrow> 'w provider option \<Rightarrow>
     (('m, 'w) frame, orchestration_state \<times> string) app" where
  "execute_run env c cfg provider =
     andthen (initialize_run env c) (\<lambda>(run_id, started).
     andthen (finally_do
        (excepting (run_phase env c run_id started cfg provider) (\<lambda>_. set_projected None))
        (cleanup_phase env)) (\<lambda>_.
     publish_phase env))"

definition execute_trusted_case ::
  "('m, 'w) app_env \<Rightarrow> trusted_case \<Rightarrow> model_configuration option \<Rightarrow> 'w provider option \<Rightarrow>
     ('m \<times> 'w, orchestration_state \<times> string) app" where
  "execute_trusted_case env c cfg provider = framed (execute_run env c cfg provider)"

section \<open>The command\<close>

definition outside :: "('w, 'a) app \<Rightarrow> ('m \<times> 'w, 'a) app" where
  "outside m = (\<lambda>(s, w). case m w of (r, w') \<Rightarrow> (r, (s, w')))"

text \<open>\<open>_safe_error\<close>: \<open>suppress(Exception)\<close> around the output\<close>

definition safe_error :: "('m, 'w) app_env \<Rightarrow> string \<Rightarrow> ('m \<times> 'w, unit) app" where
  "safe_error env message = excepting (outside (ap_stderr env message)) (\<lambda>_. ret ())"

definition fails_with :: "('m, 'w) app_env \<Rightarrow> string \<Rightarrow> ('m \<times> 'w, int) app" where
  "fails_with env message = andthen (safe_error env (message @ [newline])) (\<lambda>_. ret 6)"

definition configured_provider :: "('m, 'w) app_env \<Rightarrow> ('w, model_configuration option \<times> 'w provider option) app" where
  "configured_provider env =
     excepting
       (andthen (ap_configuration_loader env) (\<lambda>cfg.
        andthen (ensure OtherException (valid_model_configuration cfg)) (\<lambda>_.
        andthen (resolve_provider env cfg) (\<lambda>p. ret (Some cfg, p)))))
       (\<lambda>_. ret (None, None))"

definition summary_of :: "orchestration_state \<Rightarrow> terminal_route \<Rightarrow> string \<Rightarrow> artifact_summary" where
  "summary_of s route path =
     \<lparr>au_case_id = os_case_id s, au_outcome = te_outcome route,
      au_summary = (case te_diagnostic route of Some d \<Rightarrow> td_message d
        | None \<Rightarrow> ''repair candidate passed all required checks''),
      au_exit_code = te_exit_code route, au_artifact_path = path\<rparr>"

definition report_run :: "('m, 'w) app_env \<Rightarrow> orchestration_state \<Rightarrow> string \<Rightarrow> ('m \<times> 'w, int) app" where
  "report_run env s path =
     (case os_terminal_route s of
        None \<Rightarrow> fails_with env ''tracefix: artifact publication failed''
      | Some route \<Rightarrow>
          (let summary = summary_of s route path in
           if \<not> valid_artifact_summary summary then fails_with env ''tracefix: artifact publication failed''
           else excepting (andthen (outside (ap_stdout env (render_summary summary @ [newline]))) (\<lambda>_. ret (te_exit_code route)))
             (\<lambda>_. fails_with env ''tracefix: console output failed'')))"

definition repair :: "('m, 'w) app_env \<Rightarrow> string \<Rightarrow> ('m \<times> 'w, int) app" where
  "repair env case_id =
     andthen (catch (andthen (outside (trusted_case_for env case_id)) (\<lambda>c. ret (Some c)))
        (\<lambda>e. if e = RunInitialization then ret None else raise e)) (\<lambda>loaded.
     case loaded of
       None \<Rightarrow> fails_with env ''tracefix: run initialization failed''
     | Some c \<Rightarrow>
         andthen (outside (configured_provider env)) (\<lambda>(cfg, provider).
         andthen (catch (andthen (execute_trusted_case env c cfg provider) (\<lambda>x. ret (Inr x)))
            (\<lambda>e. if e = RunInitialization then ret (Inl ''tracefix: run initialization failed'')
                 else if e = ArtifactPublication then ret (Inl ''tracefix: artifact publication failed'')
                 else if e = RepairExecution then ret (Inl ''tracefix: repair run failed safely'')
                 else raise e)) (\<lambda>outcome.
         case outcome of
           Inl message \<Rightarrow> fails_with env message
         | Inr (s, path) \<Rightarrow> report_run env s path)))"

text \<open>\<open>main\<close> after the arguments are parsed; the raised interrupts are the \<open>KeyboardInterrupt\<close> that becomes 130, and
  \<open>SystemExit\<close>.\<close>

definition main_command :: "('m \<times> 'w, int) app \<Rightarrow> (string \<Rightarrow> ('m \<times> 'w, unit) app) \<Rightarrow> ('m \<times> 'w, int) app" where
  "main_command command stderr_write =
     excepting command (\<lambda>e.
       if e = CliInput
       then andthen (excepting (stderr_write (''tracefix: error: invalid or unknown case_id'' @ [newline])) (\<lambda>_. ret ())) (\<lambda>_. ret 2)
       else andthen (excepting (stderr_write (''tracefix: repair run failed safely'' @ [newline])) (\<lambda>_. ret ())) (\<lambda>_. ret 6))"

end
