(* ===== verification/Artifact_Claims.thy ===== *)
theory Artifact_Claims
  imports Artifacts Graph_Claims
begin

text \<open>
  The artifact of a run: every run that returns has one that its validators accept, with the exit code
  of the route.  The invariant behind it relates the attempt, the configuration and the analysis of the run.
\<close>

section \<open>The invariant\<close>

definition attempted :: "orchestration_state \<Rightarrow> bool" where
  "attempted s \<longleftrightarrow> os_attempt_number s = 1 \<and> os_model_configuration s \<noteq> None"

definition model_outcomes :: "terminal_outcome option set" where
  "model_outcomes = {Some CANDIDATE_FAILURE, Some MALFORMED_MODEL_OUTPUT}"

definition accounted :: "orchestration_state \<Rightarrow> bool" where
  "accounted s \<longleftrightarrow>
     (os_failure_analysis s \<noteq> None \<longrightarrow> reproduced s) \<and>
     (os_attempt_number s \<noteq> 0 \<longrightarrow> os_failure_analysis s \<noteq> None) \<and>
     (os_repair_plan s \<noteq> None \<longrightarrow> attempted s) \<and>
     (os_failure_override s \<in> model_outcomes \<longrightarrow> attempted s)"

lemmas accounted_defs = accounted_def attempted_def model_outcomes_def reproduced_def

lemma accounted_usage [simp]: "accounted (set_usage u s) = accounted s"
  by (cases u) (simp_all add: set_usage_def accounted_defs)

lemma returns_finish:
  assumes "accounted (upd s)"
  shows "returns (lift_result (finish dg s n upd)) accounted"
  by (rule returns_end) (use assms in \<open>auto dest!: finish_Inr simp: accounted_defs\<close>)

lemma infrastructure_accounted:
  assumes "accounted s" shows "returns (infrastructure env s n e) accounted"
  unfolding infrastructure_def failure_def
  by (rule returns_finish) (use assms in \<open>simp add: accounted_defs\<close>)

lemma node_accounted:
  assumes "accounted s" "returns body accounted"
  shows "returns (on_exception body (infrastructure env s n)) accounted"
  by (rule returns_exception [OF assms(2) infrastructure_accounted [OF assms(1)]])

lemmas accounted_rules = returns_need returns_ensure returns_lift returns_finish returns_then

lemma prepare_accounted: "accounted s \<Longrightarrow> returns (prepare_node env s) accounted"
  unfolding prepare_node_def done_node_def
  by (rule returns_on_state, rule node_accounted, assumption, (rule accounted_rules)+) (simp add: accounted_defs)

lemma baseline_accounted:
  assumes "accounted s" "os_failure_analysis s = None" shows "returns (baseline_node env s) accounted"
  unfolding baseline_node_def done_node_def
  by (rule returns_on_state, rule node_accounted [OF assms(1)], (rule accounted_rules)+)
     (use assms in \<open>auto simp: accounted_defs\<close>)

lemma classify_accounted:
  assumes "accounted s" "reproduced s" shows "returns (classify_node env s) accounted"
  unfolding classify_node_def done_node_def
  by (rule returns_on_state, rule node_accounted [OF assms(1)], (rule accounted_rules)+)
     (use assms in \<open>simp add: accounted_defs\<close>)

lemma context_accounted: "accounted s \<Longrightarrow> returns (context_node env s) accounted"
  unfolding context_node_def done_node_def
  by (rule returns_on_state, rule node_accounted, assumption, (rule accounted_rules)+) (simp add: accounted_defs)

lemma policy_accounted: "accounted s \<Longrightarrow> returns (policy_node env s) accounted"
  unfolding policy_node_def done_node_def
  by (rule returns_on_state, rule node_accounted, assumption, (rule accounted_rules)+) (simp add: accounted_defs)

lemma static_accounted: "accounted s \<Longrightarrow> returns (static_node env s) accounted"
  unfolding static_node_def done_node_def Let_def
  by (rule returns_on_state, rule node_accounted, assumption, (rule accounted_rules)+) (simp add: accounted_defs)

lemma verify_accounted: "accounted s \<Longrightarrow> returns (verify_node env s) accounted"
  unfolding verify_node_def done_node_def Let_def
  by (rule returns_on_state, rule node_accounted, assumption, (rule accounted_rules)+) (simp add: accounted_defs)

lemma evaluate_accounted: "accounted s \<Longrightarrow> returns (evaluate_node env s) accounted"
  unfolding evaluate_node_def done_node_def Let_def
  by (rule returns_on_state, rule node_accounted, assumption, (rule accounted_rules)+) (simp add: accounted_defs)

lemma route_accounted: "accounted s \<Longrightarrow> returns (route_node env s) accounted"
  unfolding route_node_def done_node_def
  by (rule returns_on_state, (rule accounted_rules)+) (simp add: accounted_defs)

section \<open>The two nodes that ask the model\<close>

lemma usage_outcomes:
  "returns (usage_or_outcome env out) (\<lambda>(usage, out'). out' = out \<or> out' = INFRASTRUCTURE_FAILURE)"
  unfolding usage_or_outcome_def
  by (rule returns_exception) (auto intro!: returns_then returns_ret)

lemma failure_with_usage_accounted:
  assumes "accounted s" "attempted s"
  shows "returns (failure_with_usage env s n out) accounted"
  unfolding failure_with_usage_def case_prod_unfold
  by (rule returns_then, rule returns_finish, unfold accounted_usage) (use assms in \<open>simp add: accounted_defs\<close>)

lemma attempt_failure_accounted:
  assumes a: "accounted s" "os_failure_analysis s \<noteq> None"
    and out: "Some out \<in> model_outcomes \<Longrightarrow> os_model_configuration s \<noteq> None"
    and plan: "os_repair_plan s = None"
  shows "returns (attempt_failure env s out) accounted"
proof -
  have acc: "accounted (s\<lparr>os_attempt_number := 1, os_legacy_state := l, os_failure_override := Some out'\<rparr>)"
    if "out' = out \<or> out' = INFRASTRUCTURE_FAILURE" for l out'
    using that a out plan by (auto simp: accounted_defs)
  have last: "returns (lift_result (finish (gd_digest env) s PLAN_REPAIR (\<lambda>x. set_usage u
      (x\<lparr>os_attempt_number := 1, os_legacy_state := l, os_failure_override := Some out'\<rparr>)))) accounted"
    if "out' = out \<or> out' = INFRASTRUCTURE_FAILURE" for u l out'
    by (rule returns_finish) (use acc [OF that] in simp)
  show ?thesis unfolding attempt_failure_def Let_def
  proof (rule returns_with [where P = "\<lambda>(l, out1). out1 = out \<or> out1 = INFRASTRUCTURE_FAILURE"])
    show "returns (on_exception (andthen (utc_clock env) (\<lambda>t. ret
         ((record_failed_attempt (gd_model_configuration env) (os_legacy_state s))\<lparr>cs_updated_at := t\<rparr>, out)))
       (\<lambda>_. ret (record_failed_attempt (gd_model_configuration env) (os_legacy_state s), INFRASTRUCTURE_FAILURE)))
       (\<lambda>(l, out1). out1 = out \<or> out1 = INFRASTRUCTURE_FAILURE)"
      by (rule returns_exception) (auto intro!: returns_then returns_ret)
  next
    fix x :: "repair_case_state \<times> terminal_outcome"
    assume "case x of (l, out1) \<Rightarrow> out1 = out \<or> out1 = INFRASTRUCTURE_FAILURE"
    then show "returns (case x of (legacy, out1) \<Rightarrow> andthen (usage_or_outcome env out1) (\<lambda>(usage, out).
        lift_result (finish (gd_digest env) s PLAN_REPAIR (\<lambda>x. set_usage usage (x\<lparr>os_attempt_number := 1,
          os_legacy_state := legacy, os_failure_override := Some out\<rparr>))))) accounted"
      by (cases x) (auto intro!: returns_with [OF usage_outcomes] last)
  qed
qed

lemma plan_unconfigured:
  assumes "os_model_configuration s = None"
  shows "returns (plan_node env s) Q \<longleftrightarrow>
    returns (on_state env (\<lambda>s. attempt_failure env s INFRASTRUCTURE_FAILURE) s) Q"
proof -
  have "plan_node env s = on_state env (\<lambda>s. attempt_failure env s INFRASTRUCTURE_FAILURE) s"
    using assms by (auto simp: plan_node_def on_state_def strict_state_def lift_result_def andthen_def need_def on_exception_def
        catch_def ensure_def raise_def fun_eq_iff split: option.splits prod.splits sum.splits)
  then show ?thesis by simp
qed

lemma plan_accounted:
  assumes "accounted s" "os_failure_analysis s \<noteq> None" "os_repair_plan s = None"
  shows "returns (plan_node env s) accounted"
proof (cases "os_model_configuration s = None")
  case True
  show ?thesis unfolding plan_unconfigured [OF True]
    by (rule returns_on_state, rule attempt_failure_accounted) (use assms in \<open>simp_all add: model_outcomes_def\<close>)
next
  case False
  show ?thesis unfolding plan_node_def done_node_def
    by (rule returns_on_state, rule returns_exception [OF _ attempt_failure_accounted], (rule accounted_rules)+,
        unfold accounted_usage) (use assms False in \<open>simp_all add: accounted_defs\<close>)
qed

lemma generate_accounted:
  assumes "accounted s" "os_repair_plan s \<noteq> None"
  shows "returns (generate_node env s) accounted"
proof -
  have a: "attempted s" using assms by (simp add: accounted_def)
  show ?thesis unfolding generate_node_def done_node_def
    by (rule returns_on_state, rule returns_exception [OF _ failure_with_usage_accounted [OF assms(1) a]],
        (rule accounted_rules)+, unfold accounted_usage) (use assms in \<open>simp_all add: accounted_defs\<close>)
qed

section \<open>A run\<close>

lemma node_keeps_accounted:
  assumes "ready env n s" "n \<noteq> ROUTE_RESULT" "accounted s"
  shows "returns (run_node env n s) accounted"
proof -
  have v: "node_evidence_ok s" "before_route (os_completed_nodes s) = executed_before n"
    and o: "os_failure_override s = None"
    using assms(1) by (simp_all add: ready_def valid_orchestration_state_def)
  have present: "(p, x) \<in> set (evidence_nodes s) \<Longrightarrow> node_rank n < node_rank x \<Longrightarrow> p" for p x
    using v o by (auto simp: node_evidence_ok_iff executed_before_iff)
  have "node_rank n \<le> 8 \<Longrightarrow> reproduced s" using assms(1) by (simp add: ready_def)
  moreover have "node_rank n < 8 \<Longrightarrow> os_failure_analysis s \<noteq> None"
    by (rule present [of _ CLASSIFY_FAILURE]) (simp_all add: evidence_nodes_def)
  moreover have "node_rank n < 6 \<Longrightarrow> os_repair_plan s \<noteq> None"
    by (rule present [of _ PLAN_REPAIR]) (simp_all add: evidence_nodes_def)
  ultimately show ?thesis
    using assms(2,3) ready_absent(3,5) [OF assms(1)]
    by (cases n) (simp_all add: prepare_accounted baseline_accounted classify_accounted context_accounted plan_accounted
        generate_accounted policy_accounted static_accounted verify_accounted evaluate_accounted)
qed

lemma returns_both: "returns m P \<Longrightarrow> returns m Q \<Longrightarrow> returns m (\<lambda>x. P x \<and> Q x)"
  by (fastforce simp: returns_def triple_def split: sum.splits prod.splits)

lemma run_accounted: "at_node env n s \<Longrightarrow> accounted s \<Longrightarrow> returns (run_from env n s) accounted"
proof (induction "node_rank n" arbitrary: n s rule: less_induct)
  case less
  show ?case
  proof (cases "n = ROUTE_RESULT")
    case True
    show ?thesis unfolding True run_from_route
      by (rule returns_with [OF route_accounted [OF less(3)]]) (rule returns_ret)
  next
    case False
    have r: "ready env n s" by (rule at_node_ready [OF less(2) False])
    show ?thesis unfolding run_from_eq [of env n s]
    proof (rule returns_with [OF returns_both [OF node_returns [OF r False] node_keeps_accounted [OF r False less(3)]]],
        rule returns_lift)
      fix t m assume t: "ran env n s t \<and> accounted t" "next_node env n t = Inr m"
      then obtain m' where m: "m = Some m'" "next_node env n t = Inr (Some m')" "at_node env m' t"
        using ran_next [OF r False] by (metis sum.inject(2))
      have "returns (run_from env m' t) accounted"
        by (rule less(1) [OF next_node_descends [OF m(2)] m(3)]) (use t in simp)
      then show "returns (case m of None \<Rightarrow> ret t | Some m' \<Rightarrow> run_from env m' t) accounted" by (simp add: m(1))
    qed
  qed
qed

lemma new_state_accounted:
  assumes "new_orchestration_state dg run_id c workspaces started_at configuration = Inr s"
  shows "accounted s"
  using assms by (auto simp: new_orchestration_state_def bindE_eq_Inr strict_Inr accounted_defs split: if_splits)

lemma invoke_accounted:
  assumes "new_orchestration_state (gd_digest env) run_id c workspaces started_at configuration = Inr s"
  shows "returns (invoke_repair_graph env s) (\<lambda>t. finished env t \<and> accounted t)"
proof (rule returns_both [OF invoke_returns [OF assms]])
  show "returns (invoke_repair_graph env s) accounted" unfolding invoke_start [OF assms]
    by (rule returns_with [OF run_accounted])
       (use new_state_ready(1) [OF assms] new_state_accounted [OF assms] in
         \<open>auto simp: at_node_def strict_Inr intro!: returns_end\<close>)
qed

section \<open>The artifact of a finished state\<close>

lemma baseline_projection_valid: "valid_baseline_result b \<Longrightarrow> valid_baseline_artifact (baseline_projection b)"
  by (auto simp: valid_baseline_result_def baseline_outcome_ok_def valid_baseline_artifact_def baseline_projection_def
      valid_baseline_evidence_def measured_output_def no_execution_def Let_def split: option.splits baseline_outcome.splits if_splits)

lemma policy_projection_valid: "valid_policy_result p \<Longrightarrow> valid_policy_artifact (policy_projection p)"
  by (cases p) (simp add: valid_policy_artifact_def policy_projection_def valid_policy_result_def)

lemma static_projection_valid: "valid_static_result r \<Longrightarrow> valid_static_artifact (static_projection r)"
  by (auto simp: valid_static_result_def static_outcome_ok_def valid_static_artifact_def static_projection_def Let_def
      split: static_outcome.splits)

lemma made_optional_valid:
  "opt_valid P x \<Longrightarrow> (\<And>y. P y \<Longrightarrow> valid (f y)) \<Longrightarrow> made_optional valid f x = Inr (map_option f x)"
  by (cases x) (simp_all add: made_optional_def made_def bindE_def)

lemma made_policy: "opt_valid valid_policy_result x \<Longrightarrow>
    made_optional valid_policy_artifact policy_projection x = Inr (map_option policy_projection x)"
  by (erule made_optional_valid) (rule policy_projection_valid)

lemma made_static: "opt_valid valid_static_result x \<Longrightarrow>
    made_optional valid_static_artifact static_projection x = Inr (map_option static_projection x)"
  by (erule made_optional_valid) (rule static_projection_valid)

lemma made_baseline: "opt_valid valid_baseline_result x \<Longrightarrow>
    made_optional valid_baseline_artifact baseline_projection x = Inr (map_option baseline_projection x)"
  by (erule made_optional_valid) (rule baseline_projection_valid)

abbreviation final_artifact :: "orchestration_state \<Rightarrow> terminal_route \<Rightarrow> datetime \<Rightarrow> run_artifact" where
  "final_artifact s route completed \<equiv> artifact_of s route completed (map_option baseline_projection (os_baseline s))
     (map_option policy_projection (os_policy_result s)) (map_option static_projection (os_static_result s))"

lemma project_valid:
  assumes "valid_orchestration_state dg s" "os_terminal_route s = Some route" "os_completed_at s = Some completed"
  shows "project_artifact dg s = made valid_run_artifact (final_artifact s route completed)"
proof -
  have "opt_valid valid_policy_result (os_policy_result s)" "opt_valid valid_static_result (os_static_result s)"
    "opt_valid valid_baseline_result (os_baseline s)"
    using assms(1) by (simp_all add: valid_orchestration_state_def evidence_fields_ok_def)
  note made = made_policy [OF this(1)] made_static [OF this(2)] made_baseline [OF this(3)]
  show ?thesis using assms by (simp add: project_artifact_def strict_state_def bindE_def made)
qed

lemma evaluation_status: "evaluate_candidate q = Inr e \<Longrightarrow>
    ce_case_id e = eq_case_id q \<and> ce_functional_status e = functional_status_of (vr_outcome (eq_verification q))"
  by (auto simp: evaluate_candidate_def strict_evaluation_request_def bindE_def Let_def
      split: if_splits sum.splits option.splits prod.splits)

lemma final_fields:
  assumes "valid_orchestration_state dg s" "os_terminal_route s = Some route" "os_completed_at s = Some completed"
  shows "artifact_fields_ok (final_artifact s route completed)" "artifact_header_ok (final_artifact s route completed)"
proof -
  have f: "state_fields_ok s" "evidence_fields_ok s" "state_times_ok s"
    using assms(1) by (simp_all add: valid_orchestration_state_def)
  have "opt_valid valid_policy_artifact (map_option policy_projection (os_policy_result s))"
    "opt_valid valid_static_artifact (map_option static_projection (os_static_result s))"
    "opt_valid valid_baseline_artifact (map_option baseline_projection (os_baseline s))"
    using f(2) by (auto simp: evidence_fields_ok_def opt_valid_def policy_projection_valid static_projection_valid
        baseline_projection_valid split: option.splits)
  moreover have "valid_terminal_route route" using f(2) assms(2) by (simp add: evidence_fields_ok_def)
  ultimately show "artifact_fields_ok (final_artifact s route completed)"
    using f assms by (simp add: artifact_fields_ok_def artifact_of_def Let_def state_fields_ok_def evidence_fields_ok_def
        valid_terminal_route_def)
  show "artifact_header_ok (final_artifact s route completed)"
    using f assms(3) \<open>valid_terminal_route route\<close>
    by (cases "os_model_configuration s")
       (auto simp: artifact_header_ok_def artifact_of_def Let_def state_times_ok_def valid_terminal_route_def)
qed

lemma final_links:
  assumes "finished env s" "accounted s" "valid_routing_evidence (state_evidence s)"
  shows "artifact_links_ok (final_artifact s route completed)"
proof -
  have c: "certified_evaluation s" using assms(1) by (simp add: finished_def certified_def)
  have o: "override_ok (state_evidence s)" using assms(3) by (simp add: valid_routing_evidence_def)
  have a: "os_failure_analysis s \<noteq> None \<longrightarrow> reproduced s" using assms(2) by (simp add: accounted_def)
  have e: "ce_case_id e = os_case_id s \<and> ce_functional_status e = functional_status_of (vr_outcome v)"
    if "os_evaluation_result s = Some e" "os_verification_result s = Some v" for e v
    using c that evaluation_status by (fastforce simp: certified_evaluation_def)
  show ?thesis
    using o a e
    by (auto simp: artifact_links_ok_def artifact_of_def Let_def override_ok_def later_parts_def candidate_parts_def
        later_evidence_def candidate_evidence_def verification_evidence_def reproduced_def policy_projection_def
        static_projection_def baseline_projection_def opt_valid_def split: option.splits)
qed

lemma judged_planned:
  assumes "valid_orchestration_state dg s" "os_failure_override s = None" "os_policy_result s \<noteq> None"
  shows "os_repair_plan s \<noteq> None"
proof -
  let ?done = "before_route (os_completed_nodes s)"
  have v: "node_evidence_ok s" "?done = take (length ?done) node_names"
    using assms(1) by (simp_all add: valid_orchestration_state_def completed_nodes_ok_def)
  have "VALIDATE_POLICY \<in> set ?done" using absent_evidence(7) [OF v(1)] assms(3) by blast
  moreover have "VALIDATE_POLICY \<in> set (take k node_names) \<Longrightarrow> PLAN_REPAIR \<in> set (take k node_names)" for k
    by (auto simp: node_names_def take_Cons' split: if_splits)
  ultimately have "PLAN_REPAIR \<in> set ?done" using v(2) by metis
  then show ?thesis using v(1) assms(2) by (auto simp: node_evidence_ok_iff evidence_nodes_def)
qed

lemma attempted_shape:
  assumes "accounted s" "attempted s"
  shows "repaired_shape (final_artifact s route completed)"
  using assms by (auto simp: accounted_defs repaired_shape_def artifact_of_def Let_def baseline_projection_def)

lemma final_shape:
  assumes f: "finished env s" and a: "accounted s" and v: "valid_routing_evidence (state_evidence s)"
    and out: "te_outcome route = route_outcome (state_evidence s)"
  shows "terminal_shape_ok (te_outcome route) (final_artifact s route completed)"
proof (cases "os_failure_override s")
  case (Some o')
  have v': "valid_orchestration_state (gd_digest env) s" using f by (simp add: finished_def)
  have o: "o' \<in> {CANDIDATE_FAILURE, MALFORMED_MODEL_OUTPUT, INFRASTRUCTURE_FAILURE}"
    using v' Some by (cases o') (simp_all add: valid_orchestration_state_def override_links_ok_def)
  have r: "te_outcome route = o'" using out v Some by (simp add: route_outcome_def strict_evidence_def)
  show ?thesis
  proof (cases "o' = INFRASTRUCTURE_FAILURE")
    case False
    then have m: "Some o' \<in> model_outcomes" using o by (auto simp: model_outcomes_def)
    then have "attempted s" using a Some by (simp add: accounted_def)
    note shape = attempted_shape [OF a this, of route completed]
    have "override_ok (state_evidence s)" using v by (simp add: valid_routing_evidence_def)
    then have "\<not> later_evidence (state_evidence s)" using m Some by (auto simp: override_ok_def model_outcomes_def)
    then show ?thesis using shape o False r
      by (auto simp: later_evidence_def candidate_parts_def artifact_of_def Let_def)
  qed (simp add: r)
next
  case None
  have v': "valid_orchestration_state (gd_digest env) s" using f by (simp add: finished_def)
  have plan: "os_policy_result s \<noteq> None \<Longrightarrow> repaired_shape (final_artifact s route completed)"
    using judged_planned [OF v' None] a attempted_shape [OF a] by (simp add: accounted_def)
  have zero: "br_outcome b = NOT_REPRODUCIBLE \<Longrightarrow> os_baseline s = Some b \<Longrightarrow> os_attempt_number s = 0" for b
    using a by (auto simp: accounted_def reproduced_def)
  have "override_ok (state_evidence s)" using v by (simp add: valid_routing_evidence_def)
  then show ?thesis
    unfolding out using None v plan zero
    by (auto simp: route_outcome_def strict_evidence_def route_static_def route_candidate_def override_ok_def
        later_evidence_def candidate_evidence_def verification_evidence_def judged_def policy_approved_def static_with_def
        candidate_parts_def artifact_of_def Let_def policy_projection_def static_projection_def baseline_projection_def
        split: option.splits baseline_outcome.splits static_outcome.splits verification_outcome.splits if_splits)
qed

lemma finished_artifact:
  assumes "finished env s" "accounted s"
  obtains route completed where "os_terminal_route s = Some route" "os_completed_at s = Some completed"
    "project_artifact (gd_digest env) s = Inr (final_artifact s route completed)"
    "valid_run_artifact (final_artifact s route completed)"
proof -
  have v: "valid_orchestration_state (gd_digest env) s" using assms(1) by (simp add: finished_def)
  obtain route where r: "os_terminal_route s = Some route" "valid_routing_evidence (state_evidence s)"
    "te_outcome route = route_outcome (state_evidence s)" using finished_route [OF assms(1)] .
  obtain completed where c: "os_completed_at s = Some completed"
    using v r(1) by (auto simp: valid_orchestration_state_def terminal_ok_def)
  have "valid_run_artifact (final_artifact s route completed)"
    unfolding valid_run_artifact_def
    using final_fields [OF v r(1) c] final_links [OF assms r(2)] final_shape [OF assms r(2,3)]
    by (simp add: artifact_of_def Let_def)
  with that r c show ?thesis by (simp add: project_valid [OF v r(1) c] made_def)
qed

end
