(* ===== verification/Application_Claims.thy ===== *)
theory Application_Claims
  imports Application Artifact_Claims
begin

text \<open>
  The properties of the repair command: its exit code is that of the artifact it has published, zero
  stands for an earned success, and a run that returns always has an artifact.
\<close>

section \<open>The states of a run\<close>

text \<open>A terminal state of a run of this command: the recorded infrastructure failure, or what the graph returned\<close>

definition run_result :: "('m, 'w) app_env \<Rightarrow> orchestration_state \<Rightarrow> bool" where
  "run_result env t \<longleftrightarrow>
     (\<exists>cfg provider deps w1 w2 run_id c ws started initial w3 w4.
        ap_graph_dependencies env cfg provider w1 = (Inr deps, w2) \<and>
        new_orchestration_state (ap_digest env) run_id c ws started cfg = Inr initial \<and>
        invoke_repair_graph (deps\<lparr>gd_digest := ap_digest env\<rparr>) initial w3 = (Inr t, w4))"

definition told :: "('m, 'w) app_env \<Rightarrow> orchestration_state \<Rightarrow> bool" where
  "told env t \<longleftrightarrow> (\<exists>r. os_terminal_route t = Some r \<and> (te_exit_code r = 6 \<or> run_result env t))"

definition state_told :: "('m, 'w) app_env \<Rightarrow> ('m, 'w) frame \<Rightarrow> bool" where
  "state_told env f \<longleftrightarrow> (\<forall>t. fr_state f = Some t \<longrightarrow> os_terminal_route t = None \<or> told env t)"

definition honest :: "('m, 'w) app_env \<Rightarrow> ('m, 'w) frame \<Rightarrow> bool" where
  "honest env f \<longleftrightarrow> state_told env f \<and>
     (\<forall>a. fr_projected f = Some a \<longrightarrow> (\<exists>t. fr_state f = Some t \<and> project_artifact (ap_digest env) t = Inr a))"

lemma infrastructure_route_code: "infrastructure_route = Inr r \<Longrightarrow> te_exit_code r = 6"
  using route_for_outcome_Some [of INFRASTRUCTURE_FAILURE] by (auto simp: infrastructure_route_def)

lemma terminalized_told: "terminalize_infrastructure_failure dg s t = Inr s' \<Longrightarrow> told env s'"
  by (auto simp: terminalize_infrastructure_failure_def bindE_eq_Inr strict_Inr with_infrastructure_failure_def told_def
      dest: infrastructure_route_code split: if_splits)

lemma replaced_told: "replace_with_infrastructure_failure dg s t = Inr s' \<Longrightarrow> told env s'"
  by (auto simp: replace_with_infrastructure_failure_def bindE_eq_Inr strict_Inr with_infrastructure_failure_def told_def
      dest: infrastructure_route_code split: if_splits)

section \<open>Rules\<close>

lemma triple_in_world: "(\<And>f w. P f \<Longrightarrow> P (f\<lparr>fr_world := w\<rparr>)) \<Longrightarrow> triple P (in_world m) (\<lambda>_. P) (\<lambda>_. P)"
  by (auto simp: triple_def in_world_def split: prod.splits sum.splits)

lemma triple_in_world_value:
  assumes "\<And>f w. P f \<Longrightarrow> P (f\<lparr>fr_world := w\<rparr>)"
  shows "triple P (in_world m) (\<lambda>x f. P f \<and> (\<exists>w w'. m w = (Inr x, w'))) (\<lambda>_. P)"
  using assms by (fastforce simp: triple_def in_world_def split: prod.splits sum.splits)

lemma triple_in_manager: "(\<And>f m w. P f \<Longrightarrow> P (f\<lparr>fr_manager := m, fr_world := w\<rparr>)) \<Longrightarrow>
    triple P (in_manager a) (\<lambda>_. P) (\<lambda>_. P)"
  by (auto simp: triple_def in_manager_def split: prod.splits sum.splits)

lemma triple_pure_app: "triple P (pure_app r) (\<lambda>x f. P f \<and> r = Inr x) (\<lambda>_. P)"
  by (auto simp: triple_def pure_app_def raise_def ret_def split: sum.splits)

lemma triple_excepting:
  assumes "triple P m Q (\<lambda>e f. if e = Stopped then E Stopped f else R f)" "\<And>e. triple R (h e) Q E"
  shows "triple P (excepting m h) Q E"
  unfolding excepting_def
proof (rule triple_catch [OF assms(1)])
  show "triple (\<lambda>f. if e = Stopped then E Stopped f else R f) (if e = Stopped then raise Stopped else h e) Q E" for e
    using assms(2) [of e] by (cases "e = Stopped") (auto simp: triple_def raise_def)
qed

lemma triple_strengthen: "triple P m Q E \<Longrightarrow> (\<And>s. P' s \<Longrightarrow> P s) \<Longrightarrow> triple P' m Q E"
  by (erule triple_weaken)

lemma frame_updates [simp]:
  "honest env (f\<lparr>fr_world := w\<rparr>) = honest env f" "honest env (f\<lparr>fr_manager := m\<rparr>) = honest env f"
  "honest env (f\<lparr>fr_workspaces := x\<rparr>) = honest env f"
  "state_told env (f\<lparr>fr_world := w\<rparr>) = state_told env f" "state_told env (f\<lparr>fr_manager := m\<rparr>) = state_told env f"
  by (simp_all add: honest_def state_told_def)

lemma honest_unprojected: "state_told env f \<Longrightarrow> honest env (f\<lparr>fr_projected := None\<rparr>)"
  by (simp add: honest_def state_told_def)

lemma set_none: "triple (state_told env) (set_projected None) (\<lambda>_. honest env) E"
  by (simp add: set_projected_def triple_def modify_def honest_unprojected)

section \<open>The phases\<close>

lemma graph_phase_told:
  assumes "new_orchestration_state (ap_digest env) run_id c ws started cfg = Inr initial"
  shows "triple (state_told env) (graph_phase env cfg provider initial) (\<lambda>_. state_told env) (\<lambda>_. state_told env)"
  unfolding graph_phase_def
proof (rule triple_excepting [where R = "state_told env"])
  let ?E = "\<lambda>e f. if e = Stopped then state_told env f else state_told env f"
  have E: "?E = (\<lambda>_. state_told env)" by (auto simp: fun_eq_iff)
  let ?deps = "\<lambda>deps. \<exists>w w'. ap_graph_dependencies env cfg provider w = (Inr deps, w')"
  show "triple (state_told env)
     (andthen (in_world (ap_graph_dependencies env cfg provider)) (\<lambda>deps.
        andthen (in_world (as_app (invoke_repair_graph (deps\<lparr>gd_digest := ap_digest env\<rparr>) initial))) set_state))
     (\<lambda>_. state_told env) ?E"
    unfolding E
  proof (rule triple_andthen [OF triple_in_world_value], simp)
    fix deps
    show "triple (\<lambda>f. state_told env f \<and> ?deps deps)
        (andthen (in_world (as_app (invoke_repair_graph (deps\<lparr>gd_digest := ap_digest env\<rparr>) initial))) set_state)
        (\<lambda>_. state_told env) (\<lambda>_. state_told env)"
    proof (rule triple_strengthen [where P = "\<lambda>f. ?deps deps \<and> state_told env f"], rule triple_assume,
        rule triple_andthen [OF triple_in_world_value], simp)
      fix t assume "?deps deps"
      moreover have "run_result env t" if "?deps deps" "as_app (invoke_repair_graph (deps\<lparr>gd_digest := ap_digest env\<rparr>) initial) w =
          (Inr t, w')" for w w'
        using that assms unfolding run_result_def as_app_def by (fastforce split: prod.splits sum.splits)
      ultimately show "triple (\<lambda>f. state_told env f \<and> (\<exists>w w'. as_app (invoke_repair_graph
          (deps\<lparr>gd_digest := ap_digest env\<rparr>) initial) w = (Inr t, w'))) (set_state t)
          (\<lambda>_. state_told env) (\<lambda>_. state_told env)"
        by (fastforce simp: set_state_def triple_def modify_def state_told_def told_def)
    qed simp
  qed
next
  fix e
  show "triple (state_told env) (andthen (in_world (ap_clock env)) (\<lambda>t.
        andthen (pure_app (terminalize_infrastructure_failure (ap_digest env) initial t)) set_state))
      (\<lambda>_. state_told env) (\<lambda>_. state_told env)"
  proof (rule triple_andthen [OF triple_in_world], simp, rule triple_andthen [OF triple_pure_app])
    show "triple (\<lambda>f. state_told env f \<and> terminalize_infrastructure_failure (ap_digest env) initial t = Inr s)
        (set_state s) (\<lambda>_. state_told env) (\<lambda>_. state_told env)" for t s
      by (auto simp: set_state_def triple_def modify_def state_told_def dest: terminalized_told)
  qed
qed

definition fresh :: "('m, 'w) frame \<Rightarrow> bool" where
  "fresh f \<longleftrightarrow> fr_state f = None \<and> fr_projected f = None"

lemma fresh_told: "fresh f \<Longrightarrow> state_told env f" "fresh f \<Longrightarrow> honest env f"
  by (simp_all add: fresh_def state_told_def honest_def)

lemma project_phase:
  "triple (state_told env) (andthen (gets fr_state) (\<lambda>s.
     andthen (pure_app (case s of None \<Rightarrow> Inl Ordinary | Some t \<Rightarrow> project_artifact (ap_digest env) t)) (\<lambda>a.
     set_projected (Some a)))) (\<lambda>_. honest env) (\<lambda>_. state_told env)"
  by (auto simp: triple_def andthen_def gets_def pure_app_def set_projected_def modify_def ret_def raise_def honest_def
      state_told_def split: sum.splits option.splits)

lemma run_phase_told:
  "triple fresh (run_phase env c run_id started cfg provider) (\<lambda>_. honest env) (\<lambda>_. state_told env)"
  unfolding run_phase_def
proof (rule triple_andthen [where R = "\<lambda>_. fresh"])
  show "triple fresh (in_manager (ap_create env run_id)) (\<lambda>_. fresh) (\<lambda>_. state_told env)"
    by (rule triple_weaken [OF triple_in_manager [where P = fresh]]) (simp_all add: fresh_def state_told_def)
next
  fix ws
  have new: "triple fresh (pure_app r) (\<lambda>x f. r = Inr x \<and> fresh f) (\<lambda>_. state_told env)" for r :: "model_raise + orchestration_state"
    by (rule triple_weaken [OF triple_pure_app [where P = fresh]]) (auto simp: fresh_told)
  show "triple fresh (andthen (modify (fr_workspaces_update (\<lambda>_. Some ws))) (\<lambda>_.
     andthen (pure_app (new_orchestration_state (ap_digest env) run_id c ws started cfg)) (\<lambda>initial.
     andthen (set_state initial) (\<lambda>_. andthen (graph_phase env cfg provider initial) (\<lambda>_.
     andthen (gets fr_state) (\<lambda>s.
     andthen (pure_app (case s of None \<Rightarrow> Inl Ordinary | Some t \<Rightarrow> project_artifact (ap_digest env) t)) (\<lambda>a.
     set_projected (Some a)))))))) (\<lambda>_. honest env) (\<lambda>_. state_told env)"
  proof (rule triple_andthen [where R = "\<lambda>_. fresh"], simp add: triple_def modify_def fresh_def,
      rule triple_andthen [OF new])
    fix initial
    let ?new = "new_orchestration_state (ap_digest env) run_id c ws started cfg = Inr initial"
    show "triple (\<lambda>f. ?new \<and> fresh f) (andthen (set_state initial) (\<lambda>_.
        andthen (graph_phase env cfg provider initial) (\<lambda>_. andthen (gets fr_state) (\<lambda>s.
        andthen (pure_app (case s of None \<Rightarrow> Inl Ordinary | Some t \<Rightarrow> project_artifact (ap_digest env) t)) (\<lambda>a.
        set_projected (Some a)))))) (\<lambda>_. honest env) (\<lambda>_. state_told env)"
    proof (rule triple_assume, rule triple_andthen [where R = "\<lambda>_. state_told env"])
      assume new: ?new
      then have "os_terminal_route initial = None"
        by (auto simp: new_orchestration_state_def bindE_eq_Inr strict_Inr split: if_splits)
      then show "triple fresh (set_state initial) (\<lambda>_. state_told env) (\<lambda>_. state_told env)"
        by (simp add: set_state_def triple_def modify_def state_told_def)
      show "triple (state_told env) (andthen (graph_phase env cfg provider initial) (\<lambda>_. andthen (gets fr_state) (\<lambda>s.
        andthen (pure_app (case s of None \<Rightarrow> Inl Ordinary | Some t \<Rightarrow> project_artifact (ap_digest env) t)) (\<lambda>a.
        set_projected (Some a))))) (\<lambda>_. honest env) (\<lambda>_. state_told env)"
        by (rule triple_andthen [OF graph_phase_told [OF new]]) (rule project_phase)
    qed
  qed
qed

lemma triple_set_projected:
  "triple (\<lambda>f. state_told env f \<and> project_artifact (ap_digest env) t = Inr a \<and> fr_state f = Some t)
     (set_projected (Some a)) (\<lambda>_. honest env) E"
  by (auto simp: set_projected_def triple_def modify_def honest_def state_told_def)

lemma cleanup_failed_honest: "triple (honest env) (cleanup_failed env) (\<lambda>_. honest env) (\<lambda>_ _. True)"
  unfolding cleanup_failed_def
proof (rule triple_andthen [where R = "\<lambda>_. honest env"], simp add: triple_def gets_def, rule triple_option,
    simp add: triple_ret, rule triple_if, simp add: triple_ret)
  fix s0 and s :: orchestration_state
  have "triple (honest env) (andthen (in_world (ap_clock env)) (\<lambda>t.
        andthen (pure_app (replace_with_infrastructure_failure (ap_digest env) s t)) (\<lambda>s'.
        andthen (set_state s') (\<lambda>_.
        andthen (pure_app (project_artifact (ap_digest env) s')) (\<lambda>a. set_projected (Some a))))))
      (\<lambda>_. honest env) (\<lambda>_. state_told env)"
  proof (rule triple_andthen [where R = "\<lambda>_. state_told env"])
    show "triple (honest env) (in_world (ap_clock env)) (\<lambda>_. state_told env) (\<lambda>_. state_told env)"
      by (rule triple_weaken [OF triple_in_world [where P = "honest env"]]) (simp_all add: honest_def)
    show "triple (state_told env) (andthen (pure_app (replace_with_infrastructure_failure (ap_digest env) s t)) (\<lambda>s'.
        andthen (set_state s') (\<lambda>_. andthen (pure_app (project_artifact (ap_digest env) s')) (\<lambda>a. set_projected (Some a)))))
        (\<lambda>_. honest env) (\<lambda>_. state_told env)" for t
      by (auto simp: triple_def andthen_def pure_app_def set_state_def set_projected_def modify_def ret_def raise_def
          honest_def state_told_def dest: replaced_told split: sum.splits)
  qed
  then show "triple (honest env) (excepting (andthen (in_world (ap_clock env)) (\<lambda>t.
        andthen (pure_app (replace_with_infrastructure_failure (ap_digest env) s t)) (\<lambda>s'.
        andthen (set_state s') (\<lambda>_.
        andthen (pure_app (project_artifact (ap_digest env) s')) (\<lambda>a. set_projected (Some a))))))
      (\<lambda>_. set_projected None)) (\<lambda>_. honest env) (\<lambda>_ _. True)"
    by (intro triple_excepting [where R = "state_told env"] set_none) (erule triple_weaken, auto)
qed

lemma cleanup_phase_honest: "triple (honest env) (cleanup_phase env) (\<lambda>_. honest env) (\<lambda>_ _. True)"
  unfolding cleanup_phase_def
proof (rule triple_andthen [where R = "\<lambda>_. honest env"], simp add: triple_def gets_def, rule triple_option,
    simp add: triple_ret)
  fix x ws
  show "triple (honest env) (excepting (in_manager (ap_cleanup env ws)) (\<lambda>_. cleanup_failed env))
      (\<lambda>_. honest env) (\<lambda>_ _. True)"
    by (intro triple_excepting [where R = "honest env"] cleanup_failed_honest)
       (rule triple_weaken [OF triple_in_manager [where P = "honest env"]], auto)
qed

lemma triple_finally:
  "triple P m (\<lambda>_. Q) (\<lambda>_ _. True) \<Longrightarrow> triple Q f (\<lambda>_. Q) (\<lambda>_ _. True) \<Longrightarrow> triple P (finally_do m f) (\<lambda>_. Q) (\<lambda>_ _. True)"
  by (fastforce simp: triple_def finally_do_def split: prod.splits sum.splits)

lemma fresh_world: "triple fresh (in_world m) (\<lambda>_. fresh) (\<lambda>_. fresh)"
  by (rule triple_in_world) (simp add: fresh_def)

lemma fresh_ensure: "triple fresh (ensure e b) (\<lambda>_. fresh) (\<lambda>_. fresh)"
  by (rule triple_ensure)

lemma initialize_fresh: "triple fresh (initialize_run env c) (\<lambda>_. fresh) (\<lambda>_ _. True)"
proof -
  have "triple fresh (andthen (ensure OtherException (valid_trusted_case c)) (\<lambda>_.
        andthen (in_world (ap_run_id env)) (\<lambda>run_id.
        andthen (in_world (ap_clock env)) (\<lambda>started.
        andthen (ensure OtherException (hex_string 32 run_id)) (\<lambda>_. ret (run_id, started)))))) (\<lambda>_. fresh) (\<lambda>_. fresh)"
    by (rule triple_andthen [OF fresh_ensure], rule triple_andthen [OF fresh_world], rule triple_andthen [OF fresh_world],
        rule triple_andthen [OF fresh_ensure], rule triple_ret)
  then show ?thesis unfolding initialize_run_def
    by (intro triple_excepting [where R = fresh] triple_raise) (erule triple_weaken, auto)
qed

lemma publish_phase_Inr:
  assumes "publish_phase env f = (Inr (s, path), f')"
  obtains a d w w' where "fr_state f = Some s" "fr_projected f = Some a" "os_terminal_route s \<noteq> None"
    "ap_write env a d w = (Inr path, w')" "relative_artifact_path path"
  using assms
  by (auto simp: publish_phase_def andthen_def gets_def excepting_def catch_def in_world_def ensure_def ret_def raise_def
      split: option.splits prod.splits sum.splits if_splits)

definition published :: "('m, 'w) app_env \<Rightarrow> orchestration_state \<Rightarrow> run_artifact \<Rightarrow> string \<Rightarrow> bool" where
  "published env t a path \<longleftrightarrow>
     project_artifact (ap_digest env) t = Inr a \<and> (\<exists>d w w'. ap_write env a d w = (Inr path, w'))"

lemma execute_told:
  assumes "execute_trusted_case env c cfg provider mw = (Inr (t, path), mw')"
  shows "told env t \<and> (\<exists>a. published env t a path)"
proof -
  obtain f' where x: "execute_run env c cfg provider (new_frame mw) = (Inr (t, path), f')"
    using assms by (auto simp: execute_trusted_case_def framed_def split: prod.splits)
  let ?run = "\<lambda>run_id started. finally_do (excepting (run_phase env c run_id started cfg provider)
     (\<lambda>_. set_projected None)) (cleanup_phase env)"
  have run: "triple fresh (?run run_id started) (\<lambda>_. honest env) (\<lambda>_ _. True)" for run_id started
    by (intro triple_finally cleanup_phase_honest triple_excepting [where R = "state_told env"] set_none)
       (rule triple_weaken [OF run_phase_told], auto)
  have "triple fresh (execute_run env c cfg provider)
     (\<lambda>(t, path) _. \<exists>f f'. honest env f \<and> publish_phase env f = (Inr (t, path), f')) (\<lambda>_ _. True)"
    unfolding execute_run_def
    by (rule triple_andthen [OF initialize_fresh], rule triple_prod, rule triple_andthen [OF run])
       (auto simp: triple_def split: prod.splits sum.splits)
  then have "\<exists>f f'. honest env f \<and> publish_phase env f = (Inr (t, path), f')"
    using x by (auto dest!: triple_useR [where s = "new_frame mw"] simp: fresh_def new_frame_def)
  then obtain f f' where f: "honest env f" "publish_phase env f = (Inr (t, path), f')" by blast
  obtain a d w w' where p: "fr_state f = Some t" "fr_projected f = Some a" "os_terminal_route t \<noteq> None"
    "ap_write env a d w = (Inr path, w')" using publish_phase_Inr [OF f(2)] .
  then have "told env t" "project_artifact (ap_digest env) t = Inr a" using f(1) by (auto simp: honest_def state_told_def)
  with p(4) show ?thesis unfolding published_def by blast
qed

lemma result_earned:
  assumes "run_result env t" "os_terminal_route t = Some r" "te_exit_code r = 0"
  shows "\<exists>cfg provider deps w w'. ap_graph_dependencies env cfg provider w = (Inr deps, w') \<and>
    earned (deps\<lparr>gd_digest := ap_digest env\<rparr>) t"
proof -
  obtain cfg provider deps w1 w2 run_id c ws started initial w3 w4 where
    deps: "ap_graph_dependencies env cfg provider w1 = (Inr deps, w2)" and
    new: "new_orchestration_state (gd_digest (deps\<lparr>gd_digest := ap_digest env\<rparr>)) run_id c ws started cfg = Inr initial" and
    run: "invoke_repair_graph (deps\<lparr>gd_digest := ap_digest env\<rparr>) initial w3 = (Inr t, w4)"
    using assms(1) unfolding run_result_def by auto
  have f: "finished (deps\<lparr>gd_digest := ap_digest env\<rparr>) t" by (rule returns_cases [OF invoke_returns [OF new] run])
  obtain r' where r': "os_terminal_route t = Some r'" "valid_routing_evidence (state_evidence t)"
    "te_outcome r' = route_outcome (state_evidence t)" "te_exit_code r' = exit_code_of (te_outcome r')"
    using finished_route [OF f] .
  have "te_outcome r' = SUCCESS" using exit_code_inj [of "te_outcome r'" SUCCESS] r'(1,4) assms(2,3) by simp
  then have "earned (deps\<lparr>gd_digest := ap_digest env\<rparr>) t" using finished_success [OF f r'(2)] r'(3) by simp
  with deps show ?thesis by blast
qed

lemma projected_artifact:
  assumes "project_artifact dg t = Inr a" "os_terminal_route t = Some r"
  shows "valid_run_artifact a" "ra_exit_code a = te_exit_code r"
  using assms by (auto simp: project_artifact_def bindE_eq_Inr strict_Inr made_def artifact_of_def Let_def
      split: option.splits if_splits)

definition printed :: "('m, 'w) app_env \<Rightarrow> orchestration_state \<Rightarrow> string \<Rightarrow> bool" where
  "printed env t path \<longleftrightarrow> (\<exists>r w w'. os_terminal_route t = Some r \<and>
     ap_stdout env (render_summary (summary_of t r path) @ [newline]) w = (Inr (), w'))"

lemma fails_with_Inr: "fails_with env message mw = (Inr n, mw') \<Longrightarrow> n = 6"
  by (auto simp: fails_with_def andthen_def ret_def split: prod.splits sum.splits)

lemma report_run_Inr:
  assumes "report_run env t path mw = (Inr n, mw')"
  shows "n = 6 \<or> (\<exists>r. os_terminal_route t = Some r \<and> te_exit_code r = n \<and> printed env t path)"
  using assms
  by (auto simp: report_run_def excepting_def catch_def andthen_def outside_def ret_def raise_def Let_def printed_def
      dest: fails_with_Inr split: option.splits prod.splits sum.splits if_splits)

section \<open>Properties\<close>

text \<open>C4: Every state that a run of the graph returns, whatever its dependencies answer or raise, has an artifact that
  all its validators accept, with the exit code of its route.\<close>

theorem every_run_has_an_artifact:
  assumes "new_orchestration_state (gd_digest env) run_id c workspaces started_at configuration = Inr s"
    "invoke_repair_graph env s w = (Inr t, w')"
  shows "\<exists>a r. project_artifact (gd_digest env) t = Inr a \<and> valid_run_artifact a \<and>
    os_terminal_route t = Some r \<and> ra_exit_code a = te_exit_code r"
proof -
  have "finished env t \<and> accounted t" by (rule returns_cases [OF invoke_accounted [OF assms(1)] assms(2)])
  then obtain route completed where "os_terminal_route t = Some route"
    "project_artifact (gd_digest env) t = Inr (final_artifact t route completed)"
    using finished_artifact by blast
  with projected_artifact show ?thesis by blast
qed

text \<open>C3: When the command \<open>repair\<close> exits with a code other than 6, a valid artifact with that exit code has been
  written and its summary printed; with code 0 the run of the artifact has earned its success.\<close>

theorem repair_tells_the_truth:
  assumes "repair env case_id mw = (Inr n, mw')" "n \<noteq> 6"
  shows "\<exists>t a path. published env t a path \<and> valid_run_artifact a \<and> ra_exit_code a = n \<and> printed env t path \<and>
    (n = 0 \<longrightarrow> (\<exists>cfg provider deps w w'. ap_graph_dependencies env cfg provider w = (Inr deps, w') \<and>
       earned (deps\<lparr>gd_digest := ap_digest env\<rparr>) t))"
proof -
  obtain c cfg provider t path mw1 mw2 where
    e: "execute_trusted_case env c cfg provider mw1 = (Inr (t, path), mw2)" and
    r: "report_run env t path mw2 = (Inr n, mw')"
    using assms
    by (auto simp: repair_def andthen_def catch_def ret_def raise_def dest: fails_with_Inr
        split: prod.splits sum.splits option.splits if_splits)
  obtain a where a: "told env t" "published env t a path" using execute_told [OF e] by blast
  obtain route where route: "os_terminal_route t = Some route" "te_exit_code route = n" "printed env t path"
    using report_run_Inr [OF r] assms(2) by blast
  have "n = 0 \<longrightarrow> run_result env t" using a(1) route(1,2) by (auto simp: told_def)
  then have "n = 0 \<longrightarrow> (\<exists>cfg provider deps w w'. ap_graph_dependencies env cfg provider w = (Inr deps, w') \<and>
      earned (deps\<lparr>gd_digest := ap_digest env\<rparr>) t)"
    using result_earned [OF _ route(1)] route(2) by blast
  moreover have "valid_run_artifact a" "ra_exit_code a = n"
    using a(2) projected_artifact [OF _ route(1)] route(2) by (auto simp: published_def)
  ultimately show ?thesis using a(2) route(3) by blast
qed

section \<open>A run whose baseline passes\<close>

definition passing_preparation :: repository_preparation where
  "passing_preparation = \<lparr>rp_case_id = ''case-1'', rp_requested_revision = mf_failing_revision sample_manifest,
     rp_revision_kind = SNAPSHOT, rp_prepared_repository = ''/w/p/repository'',
     rp_fingerprint = \<lparr>rf_algorithm = ''sha256'', rf_version = 1, rf_digest = sample_digest\<rparr>\<rparr>"

definition passing_baseline :: baseline_result where
  "passing_baseline = \<lparr>br_preparation = passing_preparation, br_outcome = NOT_REPRODUCIBLE,
     br_evidence = Some \<lparr>be_completion = NORMAL, be_exit_code = Some 0, be_stdout = [], be_stderr = [],
       be_stdout_truncated = False, be_stderr_truncated = False, be_duration_seconds = Finite 1\<rparr>,
     br_diagnostic_code = Some BASELINE_NOT_REPRODUCIBLE, br_message = Some ''passed''\<rparr>"

definition passing_env :: "nat graph_env" where
  "passing_env = run_env\<lparr>gd_prepare := (\<lambda>_ _ _ _. ret passing_preparation), gd_baseline := (\<lambda>_. ret passing_baseline)\<rparr>"

definition passing_app :: "(unit, nat) app_env" where
  "passing_app = \<lparr>ap_case_loader = (\<lambda>_. ret run_case), ap_configuration_loader = raise OtherException,
     ap_provider_factory = (\<lambda>_. None), ap_create = (\<lambda>_. ret run_spaces), ap_cleanup = (\<lambda>_. ret ()),
     ap_write = (\<lambda>_ _. ret ''.tracefix/artifacts/case-1.json''), ap_graph_dependencies = (\<lambda>_ _. ret passing_env),
     ap_clock = ret (utc_now 5), ap_run_id = ret run_token, ap_invocation_directory = ret ''/'',
     ap_stdout = (\<lambda>_. ret ()), ap_stderr = (\<lambda>_. ret ()), ap_digest = run_digest\<rparr>"

lemma passing_digest: "gd_digest passing_env = run_digest" "passing_env\<lparr>gd_digest := run_digest\<rparr> = passing_env"
  by (simp_all add: passing_env_def run_env_def)

definition passing_start :: orchestration_state where
  "passing_start =
     \<lparr>os_run_id = run_token, os_case_id = ''case-1'', os_started_at = utc_now 5, os_completed_at = None,
      os_attempt_number = 0, os_max_attempts = 1, os_requested_revision = mf_failing_revision sample_manifest,
      os_trusted_case = run_case, os_legacy_state = new_case_state ''case-1'' (utc_now 5), os_workspaces = run_spaces,
      os_model_configuration = None, os_model_usage = None, os_preparation = None, os_baseline = None,
      os_failure_analysis = None, os_context = None, os_repair_plan = None, os_proposal = None, os_proposal_digest = None,
      os_policy_result = None, os_static_result = None, os_verification_result = None, os_evaluation_result = None,
      os_failure_override = None, os_terminal_route = None, os_completed_nodes = []\<rparr>"

definition passing_prepared :: orchestration_state where
  "passing_prepared = passing_start\<lparr>os_preparation := Some passing_preparation, os_completed_nodes := [PREPARE_REPOSITORY]\<rparr>"

definition passing_measured :: orchestration_state where
  "passing_measured = passing_prepared\<lparr>os_baseline := Some passing_baseline,
     os_legacy_state := (record_baseline passing_baseline (os_legacy_state passing_start))\<lparr>cs_updated_at := utc_now 5\<rparr>,
     os_completed_nodes := [PREPARE_REPOSITORY, RUN_BASELINE]\<rparr>"

definition passing_route :: terminal_route where
  "passing_route = \<lparr>te_outcome = RUN_NOT_REPRODUCIBLE, te_exit_code = 5,
     te_diagnostic = Some \<lparr>td_code = TC_NOT_REPRODUCIBLE, td_message = terminal_summary RUN_NOT_REPRODUCIBLE\<rparr>\<rparr>"

definition passing_end :: orchestration_state where
  "passing_end = routed_state passing_measured passing_route (utc_now 5)"

lemma passing_case: "valid_trusted_case run_case"
  by code_simp

lemma passing_fields:
  "mf_case_id sample_manifest = ''case-1''" "tc_manifest run_case = sample_manifest" "provider_case_id ''case-1''" "hex_string 32 run_token"
  "relative_artifact_path ''.tracefix/artifacts/case-1.json''"
  by code_simp+

lemma passing_start_valid: "valid_orchestration_state run_digest passing_start"
  by code_simp

lemma passing_prepared_valid: "valid_orchestration_state run_digest passing_prepared"
  by code_simp

lemma passing_measured_valid: "valid_orchestration_state run_digest passing_measured"
  by code_simp

lemma passing_end_valid: "valid_orchestration_state run_digest passing_end"
  by code_simp

lemma passing_route_state: "route_state passing_measured = Some passing_route"
  by code_simp

lemma passing_new:
  "new_orchestration_state run_digest run_token run_case run_spaces (utc_now 5) None = Inr passing_start"
proof -
  have "to_utc (utc_now 5) = Inr (utc_now 5)" by (simp add: to_utc_def utc_now_def)
  then show ?thesis using passing_start_valid
    by (simp add: new_orchestration_state_def passing_case passing_fields bindE_def strict_state_def passing_start_def)
qed

lemmas passing_steps = andthen_def catch_def ensure_def ret_def raise_def gets_def modify_def lift_result_def need_def on_exception_def

lemmas passing_valid = passing_start_valid passing_prepared_valid passing_measured_valid passing_end_valid

lemma passing_parts:
  "valid_preparation passing_preparation" "valid_baseline_result passing_baseline" "rp_case_id passing_preparation = ''case-1''"
  "br_outcome passing_baseline = NOT_REPRODUCIBLE"
  by code_simp+

lemma passing_prepare: "prepare_node passing_env passing_start w = (Inr passing_prepared, w)"
  using passing_valid passing_parts
  by (simp add: prepare_node_def on_state_def strict_state_def passing_steps done_node_def finish_def passing_env_def
      run_env_def passing_prepared_def passing_start_def)

lemma passing_baseline: "baseline_node passing_env passing_prepared w = (Inr passing_measured, w)"
  using passing_valid passing_parts
  by (simp add: baseline_node_def on_state_def strict_state_def passing_steps done_node_def finish_def passing_env_def
      run_env_def passing_prepared_def passing_start_def passing_measured_def utc_clock_def to_utc_def utc_now_def)

lemma passing_routed: "route_node passing_env passing_measured w = (Inr passing_end, w)"
  using passing_valid passing_route_state
  by (simp add: route_node_def on_state_def strict_state_def passing_steps done_node_def finish_def passing_env_def
      run_env_def passing_prepared_def passing_start_def passing_measured_def utc_clock_def to_utc_def utc_now_def
      passing_end_def routed_state_def)

lemma passing_invoked: "invoke_repair_graph passing_env passing_start w = (Inr passing_end, w)"
proof -
  have "next_node passing_env PREPARE_REPOSITORY passing_prepared = Inr (Some RUN_BASELINE)"
    "next_node passing_env RUN_BASELINE passing_measured = Inr (Some ROUTE_RESULT)"
    "next_node passing_env ROUTE_RESULT passing_end = Inr None"
    using passing_valid passing_parts(4)
    by (simp_all add: next_node_def bindE_def strict_state_def passing_digest unless_failed_def after_baseline_def
        passing_prepared_def passing_measured_def passing_start_def)
  note steps = this
  have "run_from passing_env ROUTE_RESULT passing_measured w = (Inr passing_end, w)"
    by (subst run_from.simps) (simp add: passing_routed steps)
  then have "run_from passing_env RUN_BASELINE passing_prepared w = (Inr passing_end, w)"
    by (subst run_from.simps) (simp add: passing_baseline steps)
  then have "run_from passing_env PREPARE_REPOSITORY passing_start w = (Inr passing_end, w)"
    by (subst run_from.simps) (simp add: passing_prepare steps)
  then show ?thesis using passing_valid
    by (simp add: invoke_repair_graph_def andthen_def lift_result_def strict_state_def passing_digest)
qed

lemma passing_projected:
  obtains a where "project_artifact run_digest passing_end = Inr a"
proof -
  have "new_orchestration_state (gd_digest passing_env) run_token run_case run_spaces (utc_now 5) None = Inr passing_start"
    by (simp add: passing_digest passing_new)
  from returns_cases [OF invoke_accounted [OF this] passing_invoked]
  have "finished passing_env passing_end" "accounted passing_end" by blast+
  from finished_artifact [OF this] show ?thesis using that unfolding passing_digest(1) by blast
qed

lemma passing_summary:
  "os_terminal_route passing_end = Some passing_route" "te_exit_code passing_route = 5"
  "valid_artifact_summary (summary_of passing_end passing_route ''.tracefix/artifacts/case-1.json'')"
  by (simp add: passing_end_def routed_state_def, simp add: passing_route_def, code_simp)

lemma passing_repair: "\<exists>mw. repair passing_app ''case-1'' ((), 0) = (Inr 5, mw)"
proof -
  obtain a where "project_artifact run_digest passing_end = Inr a" using passing_projected .
  then have "execute_trusted_case passing_app run_case None None ((), 0) =
      (Inr (passing_end, ''.tracefix/artifacts/case-1.json''), ((), 0))"
    using passing_case passing_fields passing_new passing_invoked passing_summary
    by (simp add: execute_trusted_case_def framed_def execute_run_def initialize_run_def excepting_def passing_steps
        in_world_def in_manager_def new_frame_def passing_app_def finally_do_def run_phase_def graph_phase_def as_app_def
        passing_digest set_state_def set_projected_def pure_app_def cleanup_phase_def publish_phase_def)
  then show ?thesis
    using passing_case passing_fields passing_summary
    by (simp add: repair_def outside_def trusted_case_for_def excepting_def passing_steps passing_app_def
        configured_provider_def report_run_def Let_def)
qed

theorem repair_tells_the_truth_witness:
  "\<exists>t a path. published passing_app t a path \<and> valid_run_artifact a \<and> ra_exit_code a = 5 \<and> printed passing_app t path"
proof -
  obtain mw where "repair passing_app ''case-1'' ((), 0) = (Inr 5, mw)" using passing_repair by blast
  from repair_tells_the_truth [OF this] show ?thesis by auto
qed

theorem every_run_has_an_artifact_witness:
  "\<exists>a. project_artifact run_digest passing_end = Inr a \<and> valid_run_artifact a \<and> ra_exit_code a = 5"
  using every_run_has_an_artifact [of passing_env, OF _ passing_invoked] passing_new passing_summary
  by (simp add: passing_digest)

end
