(* ===== verification/Os_Files.thy ===== *)
theory Os_Files
  imports Effects File_Stat Paths Bytes
begin

text \<open>
  The file operations of the operating system that the writers, the workspace manager and the preparation
  use: arbitrary functions on a world which return or raise, and the checks the modules share.
\<close>

text \<open>\<open>FileExistsError\<close> and \<open>FileNotFoundError\<close> are subclasses of \<open>OSError\<close>; \<open>Refused\<close> is the exception of
  the module that calls.\<close>

datatype os_raise = OsError | FileExists | FileMissing | OsRuntime | OsValue | Refused | OsOther | OsStopped

type_synonym ('w, 'a) os = "('w, os_raise, 'a) act"

fun is_os_error :: "os_raise \<Rightarrow> bool" where
  "is_os_error OsError = True"
| "is_os_error FileExists = True"
| "is_os_error FileMissing = True"
| "is_os_error _ = False"

record 'w os_env =
  oe_lstat :: "string \<Rightarrow> ('w, file_stat) os"
  oe_resolve :: "string \<Rightarrow> ('w, string) os"
  oe_absolute :: "string \<Rightarrow> ('w, string) os"
  oe_is_symlink :: "string \<Rightarrow> ('w, bool) os"
  oe_exists :: "string \<Rightarrow> ('w, bool) os"
  oe_iterdir :: "string \<Rightarrow> ('w, string list) os"
  oe_mkdir :: "string \<Rightarrow> ('w, unit) os"
  oe_mkdtemp :: "string \<Rightarrow> string option \<Rightarrow> ('w, string) os"
  oe_chmod :: "string \<Rightarrow> ('w, unit) os"
  oe_rmdir :: "string \<Rightarrow> ('w, unit) os"
  oe_rmtree :: "string \<Rightarrow> ('w, unit) os"
  oe_unlink :: "string \<Rightarrow> ('w, unit) os"
  oe_link :: "string \<Rightarrow> string \<Rightarrow> ('w, unit) os"
  oe_rename_no_replace :: "string \<Rightarrow> string \<Rightarrow> ('w, unit) os"
  oe_create :: "string \<Rightarrow> ('w, int) os"
  oe_open_directory :: "string \<Rightarrow> ('w, int) os"
  oe_write :: "int \<Rightarrow> bytes \<Rightarrow> ('w, int) os"
  oe_fsync :: "int \<Rightarrow> ('w, unit) os"
  oe_fstat :: "int \<Rightarrow> ('w, file_stat) os"
  oe_close :: "int \<Rightarrow> ('w, unit) os"
  oe_uuid :: "('w, string) os"

text \<open>\<open>except (\<dots>): h\<close> for the exceptions that \<open>caught\<close> selects\<close>

definition handle :: "('s, os_raise, 'a) act \<Rightarrow> (os_raise \<Rightarrow> bool) \<Rightarrow> (os_raise \<Rightarrow> ('s, os_raise, 'a) act) \<Rightarrow> ('s, os_raise, 'a) act" where
  "handle m caught h = catch m (\<lambda>e. if caught e then h e else raise e)"

text \<open>\<open>with suppress(\<dots>): m\<close>\<close>

definition suppressed :: "('s, os_raise, unit) act \<Rightarrow> (os_raise \<Rightarrow> bool) \<Rightarrow> ('s, os_raise, unit) act" where
  "suppressed m caught = handle m caught (\<lambda>_. ret ())"

text \<open>\<open>try: m finally: f\<close>\<close>

definition always_after :: "('s, 'e, 'a) act \<Rightarrow> ('s, 'e, unit) act \<Rightarrow> ('s, 'e, 'a) act" where
  "always_after m f = (\<lambda>s. case m s of (r, s') \<Rightarrow>
     (case f s' of (Inl e, s'') \<Rightarrow> (Inl e, s'') | (Inr _, s'') \<Rightarrow> (r, s'')))"

definition os_or_runtime :: "os_raise \<Rightarrow> bool" where
  "os_or_runtime e \<longleftrightarrow> is_os_error e \<or> e = OsRuntime"

text \<open>
  The check of a directory that \<open>_workspace_metadata\<close> and the two \<open>_ordinary_directory\<close> share: its metadata, when it
  is a directory and no part of its path is a link.
\<close>

definition plain_directory :: "'w os_env \<Rightarrow> string \<Rightarrow> ('w, file_stat) os" where
  "plain_directory env path =
     andthen (handle
        (andthen (oe_lstat env path) (\<lambda>metadata.
         andthen (oe_resolve env path) (\<lambda>resolved. ret (metadata, resolved))))
        os_or_runtime (\<lambda>_. raise Refused)) (\<lambda>(metadata, resolved).
     if path \<noteq> resolved \<or> \<not> stat_is_dir metadata then raise Refused
     else andthen (oe_is_symlink env path) (\<lambda>link.
     andthen (ensure Refused (\<not> (link \<or> stat_is_reparse metadata))) (\<lambda>_. ret metadata)))"

text \<open>\<open>path / name\<close>\<close>

definition child_of :: "string \<Rightarrow> string \<Rightarrow> string" where
  "child_of path name = join_path path [name]"

text \<open>\<open>_sync_directory\<close>, where directories can be opened\<close>

definition sync_directory :: "'w os_env \<Rightarrow> string \<Rightarrow> ('w, unit) os" where
  "sync_directory env path =
     andthen (oe_open_directory env path) (\<lambda>d. always_after (oe_fsync env d) (oe_close env d))"

text \<open>The loop of \<open>os.write\<close>: a count that is not positive is an \<open>OSError\<close>.  The recursion ends because every
  round writes.\<close>

function write_all :: "'w os_env \<Rightarrow> int \<Rightarrow> bytes \<Rightarrow> ('w, unit) os" where
  "write_all env d payload w =
     (if payload = [] then (Inr (), w)
      else (case oe_write env d payload w of
          (Inl e, w') \<Rightarrow> (Inl e, w')
        | (Inr n, w') \<Rightarrow> if n \<le> 0 then (Inl OsError, w') else write_all env d (drop (nat n) payload) w'))"
  by pat_completeness auto
termination by (relation "measure (\<lambda>(env, d, payload, w). length payload)") auto

declare write_all.simps [simp del]

end
