(* ===== verification/Workspaces.thy ===== *)
theory Workspaces
  imports Os_Files Graph_State
begin

text \<open>
  \<open>LocalWorkspaceManager\<close> of \<open>app/cli.py\<close>: the directories of a run, and the table of those that
  the manager owns.
\<close>

record owned_workspace =
  ow_workspaces :: run_workspaces
  ow_device :: nat
  ow_inode :: nat
  ow_mode :: nat

type_synonym owned_table = "string \<rightharpoonup> owned_workspace"

text \<open>The variables of \<open>create\<close> that its handler reads\<close>

record 'w creation =
  wc_owned :: owned_table
  wc_world :: 'w
  wc_root :: "string option"
  wc_identity :: "(nat \<times> nat \<times> nat) option"

definition outer :: "('w, 'a) os \<Rightarrow> ('w creation, 'a) os" where
  "outer m = (\<lambda>c. case m (wc_world c) of (r, w') \<Rightarrow> (r, c\<lparr>wc_world := w'\<rparr>))"

definition stat_identity :: "file_stat \<Rightarrow> nat \<times> nat \<times> nat" where
  "stat_identity m = (fs_dev m, fs_ino m, fs_mode m)"

definition run_prefix :: "string \<Rightarrow> string" where
  "run_prefix run_id = ''tracefix-run-'' @ run_id @ ''-''"

fun make_children :: "'w os_env \<Rightarrow> string list \<Rightarrow> ('w, unit) os" where
  "make_children env [] = ret ()"
| "make_children env (p # ps) =
     andthen (oe_mkdir env p) (\<lambda>_. andthen (plain_directory env p) (\<lambda>_. make_children env ps))"

definition workspaces_at :: "string \<Rightarrow> string \<Rightarrow> run_workspaces" where
  "workspaces_at base run_id =
     \<lparr>rw_root = base, rw_preparation = child_of base ''preparation'', rw_candidate = child_of base ''candidate'',
      rw_verification = child_of base ''verification'', rw_ownership_token = run_id\<rparr>"

definition note_identity :: "file_stat \<Rightarrow> ('w creation, unit) os" where
  "note_identity m = modify (wc_identity_update (\<lambda>_. Some (stat_identity m)))"

definition create_base :: "'w os_env \<Rightarrow> string option \<Rightarrow> ('w creation, string option) os" where
  "create_base env base_directory =
     (case base_directory of
        None \<Rightarrow> ret None
      | Some d \<Rightarrow> andthen (outer (oe_absolute env d)) (\<lambda>base.
          andthen (outer (plain_directory env base)) (\<lambda>_. ret (Some base))))"

definition create_body :: "'w os_env \<Rightarrow> string option \<Rightarrow> string \<Rightarrow> ('w creation, run_workspaces) os" where
  "create_body env base_directory run_id =
     andthen (create_base env base_directory) (\<lambda>base.
     andthen (outer (oe_mkdtemp env (run_prefix run_id) base)) (\<lambda>root_value.
     andthen (modify (wc_root_update (\<lambda>_. Some root_value))) (\<lambda>_.
     andthen (outer (oe_absolute env root_value)) (\<lambda>directory.
     andthen (outer (plain_directory env directory)) (\<lambda>m1.
     andthen (note_identity m1) (\<lambda>_.
     andthen (suppressed (outer (oe_chmod env directory)) is_os_error) (\<lambda>_.
     andthen (outer (plain_directory env directory)) (\<lambda>m2.
     andthen (note_identity m2) (\<lambda>_.
     (let ws = workspaces_at directory run_id in
     andthen (outer (make_children env [rw_preparation ws, rw_candidate ws, rw_verification ws])) (\<lambda>_.
     andthen (ensure OsValue (valid_run_workspaces ws)) (\<lambda>_.
     andthen (modify (wc_owned_update (\<lambda>t. t(run_id \<mapsto>
       \<lparr>ow_workspaces = ws, ow_device = fs_dev m2, ow_inode = fs_ino m2, ow_mode = fs_mode m2\<rparr>)))) (\<lambda>_.
     ret ws)))))))))))))"

definition remove_created :: "'w os_env \<Rightarrow> string \<Rightarrow> ('w creation, unit) os" where
  "remove_created env run_id =
     andthen (gets (\<lambda>c. (wc_root c, wc_identity c))) (\<lambda>r.
     case r of
       (Some root_value, Some identity) \<Rightarrow>
         andthen (outer (oe_absolute env root_value)) (\<lambda>directory.
         suppressed
           (andthen (outer (plain_directory env directory)) (\<lambda>current.
            if stat_identity current = identity \<and> startswith (path_name directory) (run_prefix run_id)
            then outer (oe_rmtree env directory) else ret ()))
           (\<lambda>e. is_os_error e \<or> e \<in> {OsRuntime, Refused}))
     | _ \<Rightarrow> ret ())"

definition create_workspaces :: "'w os_env \<Rightarrow> string option \<Rightarrow> string \<Rightarrow> (owned_table \<times> 'w, run_workspaces) os" where
  "create_workspaces env base_directory run_id = (\<lambda>(owned, w).
     if \<not> hex_string 32 run_id \<or> owned run_id \<noteq> None then (Inl Refused, (owned, w))
     else (case handle (create_body env base_directory run_id)
              (\<lambda>e. is_os_error e \<or> e \<in> {OsRuntime, OsValue, Refused})
              (\<lambda>_. andthen (remove_created env run_id) (\<lambda>_. raise Refused))
              \<lparr>wc_owned = owned, wc_world = w, wc_root = None, wc_identity = None\<rparr> of
        (r, c) \<Rightarrow> (r, (wc_owned c, wc_world c))))"

section \<open>Cleaning up\<close>

fun check_children :: "'w os_env \<Rightarrow> string \<Rightarrow> nat \<Rightarrow> string list \<Rightarrow> ('w, unit) os" where
  "check_children env base device [] = ret ()"
| "check_children env base device (p # ps) =
     andthen (plain_directory env p) (\<lambda>m.
     andthen (ensure Refused (path_parent p = base \<and> fs_dev m = device)) (\<lambda>_. check_children env base device ps))"

definition same_directory :: "owned_workspace \<Rightarrow> file_stat \<Rightarrow> bool" where
  "same_directory o' m \<longleftrightarrow> fs_dev m = ow_device o' \<and> fs_ino m = ow_inode o' \<and> fs_mode m = ow_mode o'"

definition workspace_children :: "run_workspaces \<Rightarrow> string list" where
  "workspace_children ws = [rw_preparation ws, rw_candidate ws, rw_verification ws]"

definition remove_workspaces :: "'w os_env \<Rightarrow> owned_workspace \<Rightarrow> run_workspaces \<Rightarrow> ('w, unit) os" where
  "remove_workspaces env o' ws =
     andthen (plain_directory env (rw_root ws)) (\<lambda>m.
     andthen (ensure Refused (same_directory o' m \<and>
        startswith (path_name (rw_root ws)) (run_prefix (rw_ownership_token ws)) \<and>
        list_all (\<lambda>p. path_parent p = rw_root ws) (workspace_children ws))) (\<lambda>_.
     handle
       (andthen (check_children env (rw_root ws) (fs_dev m) (workspace_children ws)) (\<lambda>_.
        andthen (plain_directory env (rw_root ws)) (\<lambda>m'.
        andthen (ensure Refused (same_directory o' m')) (\<lambda>_.
        andthen (oe_rmtree env (rw_root ws)) (\<lambda>_.
        andthen (oe_exists env (rw_root ws)) (\<lambda>there.
        if there then raise OsError
        else andthen (oe_is_symlink env (rw_root ws)) (\<lambda>link. ensure OsError (\<not> link))))))))
       (\<lambda>e. is_os_error e \<or> e \<in> {OsRuntime, Refused}) (\<lambda>_. raise Refused)))"

definition cleanup_workspaces :: "'w os_env \<Rightarrow> run_workspaces \<Rightarrow> (owned_table \<times> 'w, unit) os" where
  "cleanup_workspaces env ws = (\<lambda>(owned, w).
     case owned (rw_ownership_token ws) of
       None \<Rightarrow> (Inl Refused, (owned, w))
     | Some o' \<Rightarrow>
         if ow_workspaces o' \<noteq> ws then (Inl Refused, (owned, w))
         else (case remove_workspaces env o' ws w of
             (Inl e, w') \<Rightarrow> (Inl e, (owned, w'))
           | (Inr _, w') \<Rightarrow> (Inr (), (owned(rw_ownership_token ws := None), w'))))"

end
