(* ===== verification/Workspace_Claims.thy ===== *)
theory Workspace_Claims
  imports Workspaces Application_Claims
begin

text \<open>
  The contract between the repair command and its workspace manager, as a locale: what a manager holds is
  given back by its clean-up.  \<open>LocalWorkspaceManager\<close> meets it, with a record of its calls beside its
  table, so a run that was given workspaces has removed their directory, or its own clean-up has raised.
\<close>

section \<open>The contract\<close>

text \<open>\<open>idle\<close>: before the run; \<open>holds ws\<close>: the workspaces are given out; \<open>over\<close>: after the run\<close>

locale workspace_manager =
  fixes create :: "string \<Rightarrow> ('m \<times> 'w, app_raise, run_workspaces) act"
    and cleanup :: "run_workspaces \<Rightarrow> ('m \<times> 'w, app_raise, unit) act"
    and idle :: "'m \<Rightarrow> bool"
    and holds :: "run_workspaces \<Rightarrow> 'm \<Rightarrow> bool"
    and over :: "'m \<Rightarrow> bool"
  assumes created: "idle m \<Longrightarrow> create run_id (m, w) = (Inr ws, (m', w')) \<Longrightarrow> holds ws m'"
    and not_created: "idle m \<Longrightarrow> create run_id (m, w) = (Inl e, (m', w')) \<Longrightarrow> over m'"
    and given_back: "holds ws m \<Longrightarrow> cleanup ws (m, w) = (Inr (), (m', w')) \<Longrightarrow> over m'"
    and kept: "holds ws m \<Longrightarrow> cleanup ws (m, w) = (Inl e, (m', w')) \<Longrightarrow> over m'"
    and untouched: "idle m \<Longrightarrow> over m"
begin

definition settled :: "('m, 'w) frame \<Rightarrow> bool" where
  "settled f \<longleftrightarrow> (case fr_workspaces f of None \<Rightarrow> over (fr_manager f) | Some ws \<Rightarrow> holds ws (fr_manager f))"

lemma settled_updates [simp]:
  "settled (f\<lparr>fr_world := w\<rparr>) = settled f" "settled (f\<lparr>fr_state := s\<rparr>) = settled f"
  "settled (f\<lparr>fr_projected := a\<rparr>) = settled f"
  by (simp_all add: settled_def cong: option.case_cong)

abbreviation keeps_settled :: "(('m, 'w) frame, app_raise, 'a) act \<Rightarrow> bool" where
  "keeps_settled m \<equiv> triple settled m (\<lambda>_. settled) (\<lambda>_. settled)"

lemma keeps_world: "keeps_settled (in_world m)" by (rule triple_in_world) simp

lemma keeps_pure: "keeps_settled (pure_app r)" by (rule triple_weaken [OF triple_pure_app]) auto

lemma keeps_set: "keeps_settled (set_state s)" "keeps_settled (set_projected a)" "keeps_settled (gets g)"
  by (simp_all add: triple_def set_state_def set_projected_def gets_def modify_def)

lemma keeps_then: "keeps_settled m \<Longrightarrow> (\<And>x. keeps_settled (f x)) \<Longrightarrow> keeps_settled (andthen m f)"
  by (rule triple_andthen)

lemma keeps_excepting: "keeps_settled m \<Longrightarrow> (\<And>e. keeps_settled (h e)) \<Longrightarrow> keeps_settled (excepting m h)"
  by (rule triple_excepting [where R = settled]) (auto elim: triple_weaken)

lemmas keeps_rules = keeps_world keeps_pure keeps_set

lemma graph_phase_settled: "keeps_settled (graph_phase env cfg provider initial)"
  unfolding graph_phase_def by (intro keeps_excepting keeps_then keeps_rules)

lemma run_phase_settled:
  assumes "ap_create env = create"
  shows "triple (\<lambda>f. idle (fr_manager f) \<and> fr_workspaces f = None)
     (run_phase env c run_id started cfg provider) (\<lambda>_. settled) (\<lambda>_. settled)"
  unfolding run_phase_def
proof (rule triple_andthen)
  show "triple (\<lambda>f. idle (fr_manager f) \<and> fr_workspaces f = None) (in_manager (ap_create env run_id))
      (\<lambda>ws f. holds ws (fr_manager f)) (\<lambda>_. settled)"
    using created not_created by (fastforce simp: triple_def in_manager_def assms settled_def split: prod.splits sum.splits)
next
  fix ws
  have "triple (\<lambda>f. holds ws (fr_manager f)) (modify (fr_workspaces_update (\<lambda>_. Some ws))) (\<lambda>_. settled) (\<lambda>_. settled)"
    by (simp add: triple_def modify_def settled_def)
  then show "triple (\<lambda>f. holds ws (fr_manager f)) (andthen (modify (fr_workspaces_update (\<lambda>_. Some ws))) (\<lambda>_.
     andthen (pure_app (new_orchestration_state (ap_digest env) run_id c ws started cfg)) (\<lambda>initial.
     andthen (set_state initial) (\<lambda>_. andthen (graph_phase env cfg provider initial) (\<lambda>_.
     andthen (gets fr_state) (\<lambda>s.
     andthen (pure_app (case s of None \<Rightarrow> Inl Ordinary | Some t \<Rightarrow> project_artifact (ap_digest env) t)) (\<lambda>a.
     set_projected (Some a)))))))) (\<lambda>_. settled) (\<lambda>_. settled)"
    by (rule triple_andthen) (intro keeps_then keeps_rules graph_phase_settled)
qed

lemma cleanup_failed_kept:
  fixes env :: "('m, 'w) app_env"
  shows "triple (\<lambda>f. over (fr_manager f)) (cleanup_failed env) (\<lambda>_ f. over (fr_manager f)) (\<lambda>_ f. over (fr_manager f))"
proof -
  let ?K = "\<lambda>f :: ('m, 'w) frame. over (fr_manager f)"
  have w: "triple ?K (in_world m) (\<lambda>_. ?K) (\<lambda>_. ?K)" for m :: "('w, app_raise, datetime) act" by (rule triple_in_world) simp
  have p: "triple ?K (pure_app r) (\<lambda>_. ?K) (\<lambda>_. ?K)" for r :: "model_raise + 'b"
    by (rule triple_weaken [OF triple_pure_app]) auto
  have body: "triple ?K (andthen (in_world (ap_clock env)) (\<lambda>t.
        andthen (pure_app (replace_with_infrastructure_failure (ap_digest env) s t)) (\<lambda>s'.
        andthen (set_state s') (\<lambda>_.
        andthen (pure_app (project_artifact (ap_digest env) s')) (\<lambda>a. set_projected (Some a)))))) (\<lambda>_. ?K) (\<lambda>_. ?K)" for s
    by (rule triple_andthen [OF w])
       (auto simp: triple_def andthen_def pure_app_def set_state_def set_projected_def modify_def ret_def raise_def split: sum.splits)
  show ?thesis unfolding cleanup_failed_def
    by (rule triple_andthen [where R = "\<lambda>_. ?K"], simp add: triple_def gets_def, rule triple_option, simp add: triple_ret,
        rule triple_if, simp add: triple_ret, rule triple_excepting [where R = ?K], rule triple_weaken [OF body])
       (simp_all add: set_projected_def triple_def modify_def)
qed

lemma cleanup_phase_over:
  assumes "ap_cleanup env = cleanup"
  shows "triple settled (cleanup_phase env) (\<lambda>_ f. over (fr_manager f)) (\<lambda>_ f. over (fr_manager f))"
proof -
  have step: "triple (\<lambda>f. holds ws (fr_manager f)) (in_manager (ap_cleanup env ws))
      (\<lambda>_ f. over (fr_manager f)) (\<lambda>_ f. over (fr_manager f))" for ws
  proof (rule tripleI)
    fix f :: "('m, 'w) frame" assume h: "holds ws (fr_manager f)"
    obtain r m' w' where c: "cleanup ws (fr_manager f, fr_world f) = (r, (m', w'))" by (metis surj_pair)
    with given_back [OF h] kept [OF h] have "over m'" by (cases r) auto
    with c show "case in_manager (ap_cleanup env ws) f of (Inl e, f') \<Rightarrow> over (fr_manager f')
        | (Inr x, f') \<Rightarrow> over (fr_manager f')"
      by (cases r) (auto simp: in_manager_def assms)
  qed
  have some: "triple (\<lambda>f. holds ws (fr_manager f)) (excepting (in_manager (ap_cleanup env ws)) (\<lambda>_. cleanup_failed env))
      (\<lambda>_ f. over (fr_manager f)) (\<lambda>_ f. over (fr_manager f))" for ws
  proof (rule triple_excepting [where R = "\<lambda>f. over (fr_manager f)"])
    show "triple (\<lambda>f. holds ws (fr_manager f)) (in_manager (ap_cleanup env ws)) (\<lambda>_ f. over (fr_manager f))
        (\<lambda>e f. if e = Stopped then over (fr_manager f) else over (fr_manager f))"
      by (rule triple_weaken [OF step]) simp_all
  qed (rule cleanup_failed_kept)
  show ?thesis unfolding cleanup_phase_def
  proof (rule triple_andthen [where R = "\<lambda>ws0 f. settled f \<and> fr_workspaces f = ws0"], simp add: triple_def gets_def, rule triple_option)
    show "triple (\<lambda>f. settled f \<and> fr_workspaces f = ws0) (ret ()) (\<lambda>_ f. over (fr_manager f)) (\<lambda>_ f. over (fr_manager f))"
      if "ws0 = None" for ws0 using that by (auto simp: triple_def ret_def settled_def)
    show "triple (\<lambda>f. settled f \<and> fr_workspaces f = ws0) (excepting (in_manager (ap_cleanup env ws)) (\<lambda>_. cleanup_failed env))
        (\<lambda>_ f. over (fr_manager f)) (\<lambda>_ f. over (fr_manager f))" if "ws0 = Some ws" for ws0 ws
      by (rule triple_weaken [OF some [of ws]]) (use that in \<open>auto simp: settled_def\<close>)
  qed
qed

text \<open>What a run leaves behind, however it ends\<close>

lemma run_is_over:
  assumes "ap_create env = create" "ap_cleanup env = cleanup" "idle m"
    "execute_trusted_case env c cfg provider (m, w) = (r, (m', w'))"
  shows "over m'"
proof -
  let ?I = "\<lambda>f :: ('m, 'w) frame. idle (fr_manager f) \<and> fr_workspaces f = None"
    and ?O = "\<lambda>f :: ('m, 'w) frame. over (fr_manager f)"
  have start: "triple ?I (initialize_run env c) (\<lambda>_. ?I) (\<lambda>_. ?O)"
    by (auto simp: untouched triple_def initialize_run_def excepting_def catch_def andthen_def in_world_def ensure_def ret_def raise_def
        split: prod.splits sum.splits)
  have fin: "triple P m (\<lambda>_. settled) (\<lambda>_. settled) \<Longrightarrow> triple settled g (\<lambda>_. ?O) (\<lambda>_. ?O) \<Longrightarrow>
      triple P (finally_do m g) (\<lambda>_. ?O) (\<lambda>_. ?O)" for P and m :: "(('m, 'w) frame, app_raise, unit) act" and g
    by (fastforce simp: triple_def finally_do_def split: prod.splits sum.splits)
  have run: "triple ?I (finally_do (excepting (run_phase env c run_id started cfg provider) (\<lambda>_. set_projected None))
      (cleanup_phase env)) (\<lambda>_. ?O) (\<lambda>_. ?O)" for run_id started
    by (intro fin cleanup_phase_over assms(2) triple_excepting [where R = settled] keeps_set)
       (rule triple_weaken [OF run_phase_settled [OF assms(1)]], auto)
  have publish: "triple ?O (publish_phase env) (\<lambda>_. ?O) (\<lambda>_. ?O)"
    by (auto simp: triple_def publish_phase_def andthen_def gets_def excepting_def catch_def in_world_def ensure_def ret_def raise_def
        split: prod.splits sum.splits option.splits)
  have all: "triple ?I (execute_run env c cfg provider) (\<lambda>_. ?O) (\<lambda>_. ?O)" unfolding execute_run_def
    by (rule triple_andthen [OF start], rule triple_prod, rule triple_andthen [OF run], rule publish)
  have f: "?I (new_frame (m, w))" using assms(3) by (simp add: new_frame_def)
  obtain f' where "execute_run env c cfg provider (new_frame (m, w)) = (r, f')" "m' = fr_manager f'"
    using assms(4) by (auto simp: execute_trusted_case_def framed_def split: prod.splits)
  with all f show ?thesis by (auto simp: triple_def split: sum.splits)
qed

end

section \<open>The local manager\<close>

fun os_as_app :: "os_raise \<Rightarrow> app_raise" where
  "os_as_app OsStopped = Stopped"
| "os_as_app _ = OtherException"

definition from_os :: "('s, 'a) os \<Rightarrow> ('s, app_raise, 'a) act" where
  "from_os m = (\<lambda>s. case m s of (Inl e, s') \<Rightarrow> (Inl (os_as_app e), s') | (Inr x, s') \<Rightarrow> (Inr x, s'))"

definition owns_only :: "run_workspaces \<Rightarrow> owned_table \<Rightarrow> bool" where
  "owns_only ws owned \<longleftrightarrow> (\<exists>o'. owned = [rw_ownership_token ws \<mapsto> o'] \<and> ow_workspaces o' = ws)"

lemma outer_owned: "outer m c = (r, c') \<Longrightarrow> wc_owned c' = wc_owned c"
  by (auto simp: outer_def split: prod.splits)

abbreviation leaves_table :: "owned_table \<Rightarrow> ('w creation, 'a) os \<Rightarrow> bool" where
  "leaves_table t m \<equiv> triple (\<lambda>c. wc_owned c = t) m (\<lambda>_ c. wc_owned c = t) (\<lambda>_ c. wc_owned c = t)"

lemma outer_leaves: "leaves_table t (outer m)"
  by (auto simp: triple_def outer_def split: prod.splits sum.splits)

lemma suppressed_leaves: "leaves_table t m \<Longrightarrow> leaves_table t (suppressed m caught)"
  unfolding suppressed_def handle_def
  by (rule triple_catch) (auto simp: triple_def ret_def raise_def)

lemma base_leaves: "leaves_table t (create_base env base)"
  unfolding create_base_def
  by (rule triple_option, rule triple_ret, assumption, rule triple_andthen [OF outer_leaves],
      rule triple_andthen [OF outer_leaves], rule triple_ret)

lemma remove_leaves: "leaves_table t (remove_created env run_id)"
proof -
  have body: "leaves_table t (andthen (outer (plain_directory env directory)) (\<lambda>current.
            if stat_identity current = identity \<and> startswith (path_name directory) (run_prefix run_id)
            then outer (oe_rmtree env directory) else ret ()))" for directory identity
    by (rule triple_andthen [OF outer_leaves], rule triple_if, rule outer_leaves, rule triple_ret)
  have r: "leaves_table t (case r of (Some root_value, Some identity) \<Rightarrow>
         andthen (outer (oe_absolute env root_value)) (\<lambda>directory. suppressed
           (andthen (outer (plain_directory env directory)) (\<lambda>current.
            if stat_identity current = identity \<and> startswith (path_name directory) (run_prefix run_id)
            then outer (oe_rmtree env directory) else ret ()))
           (\<lambda>e. is_os_error e \<or> e \<in> {OsRuntime, Refused})) | _ \<Rightarrow> ret ())" for r
    by (cases r) (auto intro!: triple_andthen [OF outer_leaves] suppressed_leaves body triple_ret split: option.splits)
  show ?thesis unfolding remove_created_def
    by (rule triple_andthen [where R = "\<lambda>_ c. wc_owned c = t"], simp add: triple_def gets_def, rule r)
qed

lemma modify_leaves: "(\<And>c. wc_owned (f c) = wc_owned c) \<Longrightarrow> leaves_table t (modify f)"
  by (simp add: triple_def modify_def)

lemma create_body_owns:
  "triple (\<lambda>c. wc_owned c = Map.empty) (create_body env base run_id) (\<lambda>ws c. owns_only ws (wc_owned c))
     (\<lambda>_ c. wc_owned c = Map.empty)"
proof -
  note leave = base_leaves outer_leaves suppressed_leaves [OF outer_leaves] modify_leaves
  show ?thesis unfolding create_body_def note_identity_def Let_def
    by (rule triple_andthen [OF base_leaves], rule triple_andthen [OF outer_leaves],
        rule triple_andthen [OF modify_leaves], simp, rule triple_andthen [OF outer_leaves],
        rule triple_andthen [OF outer_leaves], rule triple_andthen [OF modify_leaves], simp,
        rule triple_andthen [OF suppressed_leaves [OF outer_leaves]], rule triple_andthen [OF outer_leaves],
        rule triple_andthen [OF modify_leaves], simp, rule triple_andthen [OF outer_leaves])
       (auto simp: triple_def andthen_def ensure_def ret_def raise_def modify_def owns_only_def workspaces_at_def
          split: if_splits)
qed

lemma create_owns:
  assumes "create_workspaces env base run_id (Map.empty, w) = (r, (m', w'))"
  shows "case r of Inr ws \<Rightarrow> owns_only ws m' | Inl e \<Rightarrow> m' = Map.empty"
proof -
  let ?c = "\<lparr>wc_owned = Map.empty, wc_world = w, wc_root = None, wc_identity = None\<rparr>"
  have "triple (\<lambda>c. wc_owned c = Map.empty) (handle (create_body env base run_id)
      (\<lambda>e. is_os_error e \<or> e \<in> {OsRuntime, OsValue, Refused}) (\<lambda>_. andthen (remove_created env run_id) (\<lambda>_. raise Refused)))
      (\<lambda>ws c. owns_only ws (wc_owned c)) (\<lambda>_ c. wc_owned c = Map.empty)"
    unfolding handle_def
    by (rule triple_catch [OF create_body_owns], rule triple_if, rule triple_andthen [OF remove_leaves])
       (auto intro: triple_raise)
  then have t: "case handle (create_body env base run_id) (\<lambda>e. is_os_error e \<or> e \<in> {OsRuntime, OsValue, Refused})
      (\<lambda>_. andthen (remove_created env run_id) (\<lambda>_. raise Refused)) ?c of
        (Inl e, c) \<Rightarrow> wc_owned c = Map.empty | (Inr ws, c) \<Rightarrow> owns_only ws (wc_owned c)"
    unfolding triple_def by simp
  obtain r0 c where h: "handle (create_body env base run_id) (\<lambda>e. is_os_error e \<or> e \<in> {OsRuntime, OsValue, Refused})
      (\<lambda>_. andthen (remove_created env run_id) (\<lambda>_. raise Refused)) ?c = (r0, c)"
    by (rule that, rule surjective_pairing)
  show ?thesis
  proof (cases "hex_string 32 run_id")
    case True
    then have "create_workspaces env base run_id (Map.empty, w) = (r0, (wc_owned c, wc_world c))"
      unfolding create_workspaces_def prod.case h by simp
    with assms have r: "r = r0" "m' = wc_owned c" by simp_all
    show ?thesis using t unfolding h r prod.case .
  qed (use assms in \<open>auto simp: create_workspaces_def\<close>)
qed

text \<open>The manager with a record of its calls: what it gave out, what it took back and when\<close>

datatype 'w manager_event = GivenOut run_workspaces | NotGivenOut | TakenBack run_workspaces 'w | CleanupRaised run_workspaces

type_synonym 'w recorded_table = "owned_table \<times> 'w manager_event list"

definition recorded_create ::
  "'w os_env \<Rightarrow> string option \<Rightarrow> string \<Rightarrow> ('w recorded_table \<times> 'w, app_raise, run_workspaces) act" where
  "recorded_create os base run_id = (\<lambda>((owned, events), w).
     case from_os (create_workspaces os base run_id) (owned, w) of
       (Inl e, (owned', w')) \<Rightarrow> (Inl e, ((owned', events @ [NotGivenOut]), w'))
     | (Inr ws, (owned', w')) \<Rightarrow> (Inr ws, ((owned', events @ [GivenOut ws]), w')))"

definition recorded_cleanup :: "'w os_env \<Rightarrow> run_workspaces \<Rightarrow> ('w recorded_table \<times> 'w, app_raise, unit) act" where
  "recorded_cleanup os ws = (\<lambda>((owned, events), w).
     case from_os (cleanup_workspaces os ws) (owned, w) of
       (Inl e, (owned', w')) \<Rightarrow> (Inl e, ((owned', events @ [CleanupRaised ws]), w'))
     | (Inr _, (owned', w')) \<Rightarrow> (Inr (), ((owned', events @ [TakenBack ws w']), w')))"

text \<open>In the world \<open>w\<close> the tree has just been removed, and seen to be neither there nor a link.\<close>

definition tree_removed :: "'w os_env \<Rightarrow> string \<Rightarrow> 'w \<Rightarrow> bool" where
  "tree_removed os directory w \<longleftrightarrow>
     (\<exists>w1 w2 w3. oe_rmtree os directory w1 = (Inr (), w2) \<and> oe_exists os directory w2 = (Inr False, w3) \<and>
        oe_is_symlink os directory w3 = (Inr False, w))"

lemma remove_workspaces_removes:
  assumes "remove_workspaces os o' ws w = (Inr (), w')"
  shows "tree_removed os (rw_root ws) w'"
  using assms unfolding remove_workspaces_def tree_removed_def
  by (fastforce simp: andthen_def handle_def catch_def ensure_def ret_def raise_def
        split: prod.splits sum.splits if_splits)

lemma cleanup_workspaces_removes:
  assumes "owns_only ws owned" "cleanup_workspaces os ws (owned, w) = (Inr x, (owned', w'))"
  shows "owned' = Map.empty" "tree_removed os (rw_root ws) w'"
  using assms
  by (auto simp: cleanup_workspaces_def owns_only_def split: prod.splits sum.splits option.splits if_splits
      dest: remove_workspaces_removes)

lemma cleanup_workspaces_keeps:
  assumes "owns_only ws owned" "cleanup_workspaces os ws (owned, w) = (Inl e, (owned', w'))"
  shows "owns_only ws owned'"
  using assms by (auto simp: cleanup_workspaces_def owns_only_def split: prod.splits sum.splits option.splits if_splits)

text \<open>How the calls of a run end\<close>

inductive workspaces_over :: "'w os_env \<Rightarrow> 'w recorded_table \<Rightarrow> bool" for os where
  not_asked: "workspaces_over os (Map.empty, [])"
| not_given: "workspaces_over os (Map.empty, [NotGivenOut])"
| taken_back: "tree_removed os (rw_root ws) w \<Longrightarrow> workspaces_over os (Map.empty, [GivenOut ws, TakenBack ws w])"
| cleanup_raised: "owns_only ws owned \<Longrightarrow> workspaces_over os (owned, [GivenOut ws, CleanupRaised ws])"

definition workspaces_held :: "run_workspaces \<Rightarrow> 'w recorded_table \<Rightarrow> bool" where
  "workspaces_held ws m \<longleftrightarrow> owns_only ws (fst m) \<and> snd m = [GivenOut ws]"

interpretation local: workspace_manager "recorded_create os base" "recorded_cleanup os" "\<lambda>m. m = (Map.empty, [])"
    workspaces_held "workspaces_over os"
    for os :: "'w os_env" and base
proof unfold_locales
  fix m m' :: "'w recorded_table" and run_id ws and w w' :: 'w and e
  show "m = (Map.empty, []) \<Longrightarrow> recorded_create os base run_id (m, w) = (Inr ws, m', w') \<Longrightarrow> workspaces_held ws m'"
    using create_owns [of os base run_id w]
    by (fastforce simp: recorded_create_def from_os_def workspaces_held_def split: prod.splits sum.splits)
  show "m = (Map.empty, []) \<Longrightarrow> recorded_create os base run_id (m, w) = (Inl e, m', w') \<Longrightarrow> workspaces_over os m'"
    using create_owns [of os base run_id w]
    by (fastforce simp: recorded_create_def from_os_def intro: not_given split: prod.splits sum.splits)
  show "workspaces_held ws m \<Longrightarrow> recorded_cleanup os ws (m, w) = (Inr (), m', w') \<Longrightarrow> workspaces_over os m'"
    by (auto simp: recorded_cleanup_def from_os_def workspaces_held_def dest: cleanup_workspaces_removes intro!: taken_back
        split: prod.splits sum.splits)
  show "workspaces_held ws m \<Longrightarrow> recorded_cleanup os ws (m, w) = (Inl e, m', w') \<Longrightarrow> workspaces_over os m'"
    by (auto simp: recorded_cleanup_def from_os_def workspaces_held_def dest: cleanup_workspaces_keeps intro!: cleanup_raised
        split: prod.splits sum.splits)
  show "m = (Map.empty, []) \<Longrightarrow> workspaces_over os m" by (simp add: not_asked)
qed

section \<open>Properties\<close>

definition local_application ::
  "'w os_env \<Rightarrow> string option \<Rightarrow> ('w recorded_table, 'w) app_env \<Rightarrow> ('w recorded_table, 'w) app_env" where
  "local_application os base env = env\<lparr>ap_create := recorded_create os base, ap_cleanup := recorded_cleanup os\<rparr>"

text \<open>C5: With the local workspace manager, a run that was given workspaces gives those very workspaces back, once, however
  it ends: by a return, an exception or an interrupt.  When the clean-up of the manager returns, the tree under their
  root has been removed and seen to be gone, and the manager owns nothing; when it raises, the manager still owns exactly
  these workspaces.  A run that was given none leaves the table empty.\<close>

theorem workspaces_are_given_back:
  "case execute_trusted_case (local_application os base env) c cfg provider ((Map.empty, []), w) of (r, ((owned, events), w')) \<Rightarrow>
     owned = Map.empty \<and> events \<in> {[], [NotGivenOut]} \<or>
     (\<exists>ws w1. owned = Map.empty \<and> events = [GivenOut ws, TakenBack ws w1] \<and> tree_removed os (rw_root ws) w1) \<or>
     (\<exists>ws. owns_only ws owned \<and> events = [GivenOut ws, CleanupRaised ws])"
proof -
  obtain r owned events w' where
    x: "execute_trusted_case (local_application os base env) c cfg provider ((Map.empty, []), w) = (r, ((owned, events), w'))"
    by (metis surj_pair)
  have "workspaces_over os (owned, events)"
    by (rule local.run_is_over [OF _ _ _ x, of os base]) (simp_all add: local_application_def)
  then show ?thesis unfolding x prod.case by (cases rule: workspaces_over.cases) auto
qed

text \<open>C40: When the temporary directory of the system is reached through a link, no workspaces are created, and the directory
  that was made for them is not removed: the handler knows it only by an identity that was not recorded yet.\<close>

theorem linked_temporary_directory_is_left:
  assumes "hex_string 32 run_id" "oe_mkdtemp os (run_prefix run_id) None w = (Inr p, w1)"
    "oe_absolute os p w1 = (Inr p, w2)" "oe_lstat os p w2 = (Inr m, w3)" "oe_resolve os p w3 = (Inr q, w4)" "p \<noteq> q"
  shows "create_workspaces os None run_id (Map.empty, w) = (Inl Refused, (Map.empty, w4))"
  using assms
  by (simp add: create_workspaces_def handle_def catch_def create_body_def create_base_def andthen_def ret_def raise_def outer_def
      modify_def gets_def plain_directory_def remove_created_def)

definition linked_os :: "string list os_env" where
  "linked_os = \<lparr>oe_lstat = (\<lambda>p. ret \<lparr>fs_mode = 16832, fs_dev = 1, fs_ino = 1, fs_size = 0, fs_mtime_ns = 0, fs_nlink = 1,
       fs_reparse_tag = 0, fs_attributes = 0\<rparr>),
     oe_resolve = (\<lambda>p. ret (''/private'' @ p)), oe_absolute = ret, oe_is_symlink = (\<lambda>p. ret False),
     oe_exists = (\<lambda>p made. (Inr (p \<in> set made), made)), oe_iterdir = (\<lambda>p. ret []),
     oe_mkdir = (\<lambda>p made. (Inr (), p # made)), oe_mkdtemp = (\<lambda>prefix d made. (Inr (''/var/'' @ prefix @ ''x''), (''/var/'' @ prefix @ ''x'') # made)),
     oe_chmod = (\<lambda>p. ret ()), oe_rmdir = (\<lambda>p made. (Inr (), removeAll p made)), oe_rmtree = (\<lambda>p made. (Inr (), removeAll p made)),
     oe_unlink = (\<lambda>p made. (Inr (), removeAll p made)), oe_link = (\<lambda>p q. ret ()), oe_rename_no_replace = (\<lambda>p q. ret ()),
     oe_create = (\<lambda>p. ret 3), oe_open_directory = (\<lambda>p. ret 3), oe_write = (\<lambda>d b. ret (int (length b))), oe_fsync = (\<lambda>d. ret ()),
     oe_fstat = (\<lambda>d. raise OsError), oe_close = (\<lambda>d. ret ()), oe_uuid = ret run_token\<rparr>"

theorem linked_temporary_directory_is_left_witness:
  "create_workspaces linked_os None run_token (Map.empty, []) =
     (Inl Refused, (Map.empty, [''/var/'' @ run_prefix run_token @ ''x'']))"
proof (rule linked_temporary_directory_is_left)
  show "hex_string 32 run_token" by code_simp
  show "oe_absolute linked_os (''/var/'' @ run_prefix run_token @ ''x'') w = (Inr (''/var/'' @ run_prefix run_token @ ''x''), w)" for w
    by (simp add: linked_os_def ret_def)
  show "''/var/'' @ run_prefix run_token @ ''x'' \<noteq> ''/private/var/'' @ run_prefix run_token @ ''x''" by code_simp
qed (simp_all add: linked_os_def ret_def)

end
