(* ===== verification/Decimals.thy ===== *)
theory Decimals
  imports Floats
begin

text \<open>
  Decimal arithmetic with a precision, as the \<open>decimal\<close> module rounds it (half to even), and the sums of
  floats: the plain loop and the compensated one of \<open>sum\<close>.
\<close>

section \<open>Powers of ten\<close>

lemma pow10_pos [simp]: "0 < pow10 e"
  by (simp add: pow10_def)

lemma pow10_power_int: "pow10 e = 10 powi e"
  by (simp add: pow10_def power_int_def inverse_eq_divide power_one_over)

lemma pow10_add: "pow10 (a + b) = pow10 a * pow10 b"
  by (simp add: pow10_power_int power_int_add)

lemma pow10_diff: "pow10 (a - b) = pow10 a / pow10 b"
  by (simp add: pow10_power_int power_int_diff)

lemma pow10_mono: "a \<le> b \<Longrightarrow> pow10 a \<le> pow10 b"
  by (simp add: pow10_power_int power_int_increasing)

lemma pow10_less: "pow10 a < pow10 b \<Longrightarrow> a < b"
  using pow10_mono by (meson leD leI)

lemma pow10_nat: "pow10 (int n) = 10 ^ n"
  by (simp add: pow10_def)

lemma pow2_power_int: "pow2 e = 2 powi e"
  by (simp add: pow2_def power_int_def inverse_eq_divide power_one_over)

lemma pow2_mono: "a \<le> b \<Longrightarrow> pow2 a \<le> pow2 b"
  by (simp add: pow2_power_int power_int_increasing)

section \<open>The exponent of a number\<close>

lemma floorlog_power:
  assumes "0 < n" "1 < b" shows "b ^ (floorlog b n - 1) \<le> n" "n < b ^ floorlog b n"
  using floorlog_bounds [of n b] assms by auto

lemma quotient_bounds:
  fixes q :: rat and b :: nat
  assumes "0 < q" "quotient_of q = (n, d)" "1 < b"
  defines "e \<equiv> int (floorlog b (nat n)) - int (floorlog b (nat d))"
  shows "of_nat b powi (e - 1) \<le> q" "q < of_nat b powi (e + 1)"
proof -
  have d: "0 < d" using quotient_of_denom_pos [OF assms(2)] .
  have q: "q = of_int n / of_int d" using quotient_of_div [OF assms(2)] .
  have n: "0 < n" using assms(1) d unfolding q by (simp add: zero_less_divide_iff)
  let ?N = "floorlog b (nat n)" and ?D = "floorlog b (nat d)"
  have N: "0 < ?N" "0 < ?D" using n d assms(3) by (simp_all add: floorlog_def)
  have nb: "b ^ (?N - 1) \<le> nat n" "nat n < b ^ ?N" and db: "b ^ (?D - 1) \<le> nat d" "nat d < b ^ ?D"
    using floorlog_power [of "nat n" b] floorlog_power [of "nat d" b] n d assms(3) by auto
  have r: "of_int n = (of_nat (nat n) :: rat)" "of_int d = (of_nat (nat d) :: rat)" using n d by simp_all
  have nr: "of_nat b ^ (?N - 1) \<le> (of_int n :: rat)" "(of_int n :: rat) < of_nat b ^ ?N"
    using nb unfolding r of_nat_power [symmetric] of_nat_le_iff of_nat_less_iff by blast+
  have dr: "of_nat b ^ (?D - 1) \<le> (of_int d :: rat)" "(of_int d :: rat) < of_nat b ^ ?D"
    using db unfolding r of_nat_power [symmetric] of_nat_le_iff of_nat_less_iff by blast+
  have b0: "(of_nat b :: rat) \<noteq> 0" "0 < (of_nat b :: rat)" using assms(3) by simp_all
  have "of_nat b powi (e - 1) = (of_nat b :: rat) ^ (?N - 1) / of_nat b ^ ?D"
  proof -
    have "e - 1 = int (?N - 1) - int ?D" using N by (simp add: e_def)
    then show ?thesis using b0 by (simp add: power_int_diff)
  qed
  also have "\<dots> \<le> of_int n / of_int d"
    by (rule frac_le) (use nr dr d n b0 in \<open>auto intro: less_imp_le\<close>)
  finally show "of_nat b powi (e - 1) \<le> q" by (simp add: q)
  have "of_int n / of_int d < (of_nat b :: rat) ^ ?N / of_nat b ^ (?D - 1)"
    by (rule frac_less) (use nr dr d n b0 in auto)
  also have "\<dots> = of_nat b powi (e + 1)"
  proof -
    have "e + 1 = int ?N - int (?D - 1)" using N by (simp add: e_def)
    then show ?thesis using b0 by (simp add: power_int_diff)
  qed
  finally show "q < of_nat b powi (e + 1)" by (simp add: q)
qed

lemma ten_exponent_bounds:
  assumes "0 < q" shows "pow10 (ten_exponent q) \<le> q" "q < pow10 (ten_exponent q + 1)"
proof -
  obtain n d where nd: "quotient_of q = (n, d)" by fastforce
  note b = quotient_bounds [OF assms nd, of 10]
  show "pow10 (ten_exponent q) \<le> q" "q < pow10 (ten_exponent q + 1)"
    using b by (auto simp: ten_exponent_def nd Let_def pow10_power_int)
qed

lemma bit_exponent_bounds:
  assumes "0 < q" shows "pow2 (bit_exponent q) \<le> q" "q < pow2 (bit_exponent q + 1)"
proof -
  obtain n d where nd: "quotient_of q = (n, d)" by fastforce
  note b = quotient_bounds [OF assms nd, of 2]
  show "pow2 (bit_exponent q) \<le> q" "q < pow2 (bit_exponent q + 1)"
    using b by (auto simp: bit_exponent_def nd Let_def pow2_power_int)
qed

lemma bit_exponent_unique:
  assumes "pow2 e \<le> q" "q < pow2 (e + 1)" shows "bit_exponent q = e"
proof -
  have "0 < q" using assms(1) pow2_pos [of e] by linarith
  note b = bit_exponent_bounds [OF this]
  have "pow2 (bit_exponent q) < pow2 (e + 1)" "pow2 e < pow2 (bit_exponent q + 1)" using assms b by linarith+
  then have "bit_exponent q < e + 1" "e < bit_exponent q + 1" using pow2_mono by (meson leD leI)+
  then show ?thesis by simp
qed

section \<open>Rounding to a precision\<close>

definition round_digits :: "nat \<Rightarrow> rat \<Rightarrow> rat" where
  "round_digits p q =
     (if q = 0 then 0
      else (let e = ten_exponent \<bar>q\<bar> - int p + 1 in of_int (round_half_even (q / pow10 e)) * pow10 e))"

lemma round_digits_exact:
  assumes "q = of_int k * pow10 m" "\<bar>q\<bar> < pow10 (m + int p)"
  shows "round_digits p q = q"
proof (cases "q = 0")
  case False
  let ?e = "ten_exponent \<bar>q\<bar> - int p + 1"
  have "pow10 (ten_exponent \<bar>q\<bar>) < pow10 (m + int p)"
    using ten_exponent_bounds(1) [of "\<bar>q\<bar>"] assms(2) False by simp
  then have le: "?e \<le> m" using pow10_less by fastforce
  have "q / pow10 ?e = of_int k * pow10 (m - ?e)" by (simp add: assms(1) pow10_diff)
  also have "\<dots> = of_int (k * 10 ^ nat (m - ?e))" using le by (simp add: pow10_def)
  finally have r: "q / pow10 ?e = of_int (k * 10 ^ nat (m - ?e))" .
  then have "round_half_even (q / pow10 ?e) = k * 10 ^ nat (m - ?e)" by (simp only: round_half_even_integer)
  moreover have "q = of_int (k * 10 ^ nat (m - ?e)) * pow10 ?e"
    unfolding r [symmetric] using pow10_pos [of ?e] by (simp del: pow10_pos)
  ultimately show ?thesis using False by (simp add: round_digits_def Let_def)
qed (simp add: round_digits_def)

section \<open>Rounding to binary64, evaluated\<close>

lemma round_double_at:
  assumes "pow2 e \<le> \<bar>q\<bar>" "\<bar>q\<bar> < pow2 (e + 1)" "- 1022 \<le> e" "e \<le> 1022" "round_half_even (q / pow2 (e - 52)) = k"
    and "\<bar>k\<bar> \<le> 2 ^ 53"
  shows "round_double q = Some (of_int k * pow2 (e - 52))"
proof -
  have q: "q \<noteq> 0" using assms(1) by (metis abs_zero leD pow2_pos)
  have b: "bit_exponent \<bar>q\<bar> = e" by (rule bit_exponent_unique [OF assms(1,2)])
  have "(of_int \<bar>k\<bar> :: rat) \<le> of_int (2 ^ 53)" using assms(6) by (simp only: of_int_le_iff)
  then have "\<bar>of_int k * pow2 (e - 52)\<bar> \<le> 2 ^ 53 * pow2 (e - 52)" by (simp add: abs_mult less_imp_le)
  also have "\<dots> = pow2 (e + 1)" by (simp add: pow2_power_int power_int_add power_int_diff)
  also have "\<dots> < pow2 1024" using assms(4) unfolding pow2_power_int by (intro power_int_strict_increasing) simp_all
  finally have "\<not> pow2 1024 \<le> \<bar>of_int k * pow2 (e - 52)\<bar>" by simp
  moreover have "max (bit_exponent \<bar>q\<bar> - 52) (- 1074) = e - 52" using assms(3) by (simp add: b)
  ultimately show ?thesis using q assms(5) by (simp add: round_double_def)
qed

section \<open>Sums of floats\<close>

fun float_add :: "pyfloat \<Rightarrow> pyfloat \<Rightarrow> pyfloat" where
  "float_add (Finite a) (Finite b) =
     (case round_double (a + b) of
        Some v \<Rightarrow> Finite v
      | None \<Rightarrow> if 0 < a + b then PosInfinity else NegInfinity)"
| "float_add PosInfinity y = (if y = NegInfinity \<or> y = NotANumber then NotANumber else PosInfinity)"
| "float_add NegInfinity y = (if y = PosInfinity \<or> y = NotANumber then NotANumber else NegInfinity)"
| "float_add NotANumber y = NotANumber"
| "float_add (Finite a) PosInfinity = PosInfinity"
| "float_add (Finite a) NegInfinity = NegInfinity"
| "float_add (Finite a) NotANumber = NotANumber"

definition plain_sum :: "pyfloat list \<Rightarrow> pyfloat" where
  "plain_sum xs = fold (\<lambda>x total. float_add total x) xs (Finite 0)"

text \<open>\<open>fabs(x) >= fabs(y)\<close>\<close>

fun abs_at_least :: "pyfloat \<Rightarrow> pyfloat \<Rightarrow> bool" where
  "abs_at_least NotANumber _ = False"
| "abs_at_least _ NotANumber = False"
| "abs_at_least (Finite a) (Finite b) = (\<bar>b\<bar> \<le> \<bar>a\<bar>)"
| "abs_at_least (Finite a) _ = False"
| "abs_at_least _ _ = True"

text \<open>\<open>sum\<close> over floats (since Python 3.12): the lost parts are summed apart and added at the end.\<close>

definition compensated_step :: "pyfloat \<Rightarrow> pyfloat \<times> pyfloat \<Rightarrow> pyfloat \<times> pyfloat" where
  "compensated_step x = (\<lambda>(hi, lo). let t = float_add hi x in
     (t, float_add lo (if abs_at_least hi x then float_add (float_sub hi t) x else float_add (float_sub x t) hi)))"

fun compensated_value :: "pyfloat \<times> pyfloat \<Rightarrow> pyfloat" where
  "compensated_value (hi, Finite lo) = (if lo = 0 then hi else float_add hi (Finite lo))"
| "compensated_value (hi, _) = hi"

text \<open>The start is the integer 0, to which the first float is added.\<close>

definition compensated_sum :: "pyfloat list \<Rightarrow> pyfloat" where
  "compensated_sum xs = (case xs of
     [] \<Rightarrow> Finite 0
   | x # rest \<Rightarrow> compensated_value (fold compensated_step rest (float_add (Finite 0) x, Finite 0)))"

end
