(* ===== verification/Live_Model.thy ===== *)
theory Live_Model
  imports Model_Config Evaluation Json Decimals
begin

text \<open>
  \<open>app/evaluation/live_model.py\<close>: the configuration of a live benchmark, the estimated cost, the transport
  over the OpenAI package and the provider with its accounting.
\<close>

section \<open>Configuration\<close>

text \<open>\<open>LiveModelConfigurationError\<close>, \<open>LiveModelProviderError\<close>, any other exception, and the interrupts\<close>

datatype live_raise = ConfigurationError | ProviderError | LiveOther | LiveStopped

text \<open>A price is a finite \<open>Decimal\<close> that is not negative: a coefficient and an exponent.\<close>

record price =
  pc_coefficient :: nat
  pc_exponent :: int

definition price_value :: "price \<Rightarrow> rat" where
  "price_value p = of_nat (pc_coefficient p) * pow10 (pc_exponent p)"

record live_configuration =
  lv_request_timeout_seconds :: int
  lv_input_price :: price
  lv_output_price :: price

definition valid_live_configuration :: "live_configuration \<Rightarrow> bool" where
  "valid_live_configuration c \<longleftrightarrow> 1 \<le> lv_request_timeout_seconds c \<and> lv_request_timeout_seconds c \<le> 300"

definition parse_timeout :: "string \<Rightarrow> int option" where
  "parse_timeout value =
     (if \<not> digits value \<or> 4300 < length value then None
      else if 1 \<le> int_of_digits value \<and> int_of_digits value \<le> 300 then Some (int (int_of_digits value)) else None)"

definition parse_price :: "string \<Rightarrow> price option" where
  "parse_price value =
     (case decimal_parts value of
        None \<Rightarrow> None
      | Some (whole, fraction) \<Rightarrow>
          Some \<lparr>pc_coefficient = int_of_digits (whole @ fraction), pc_exponent = - int (length fraction)\<rparr>)"

definition load_live_benchmark_configuration :: "(string \<rightharpoonup> string) \<Rightarrow> live_raise + live_configuration" where
  "load_live_benchmark_configuration environment =
     (case (Option.bind (environment ''MODEL_REQUEST_TIMEOUT_SECONDS'') parse_timeout,
            Option.bind (environment ''MODEL_INPUT_PRICE_USD_PER_MILLION_TOKENS'') parse_price,
            Option.bind (environment ''MODEL_OUTPUT_PRICE_USD_PER_MILLION_TOKENS'') parse_price) of
        (Some timeout, Some input, Some out) \<Rightarrow>
          (let c = \<lparr>lv_request_timeout_seconds = timeout, lv_input_price = input, lv_output_price = out\<rparr> in
           if valid_live_configuration c then Inr c else Inl ConfigurationError)
      | _ \<Rightarrow> Inl ConfigurationError)"

definition openai_provider_name :: string where
  "openai_provider_name = ''openai''"

definition apply_live_model_configuration :: "model_configuration \<Rightarrow> string \<Rightarrow> live_raise + model_configuration" where
  "apply_live_model_configuration c provider_argument =
     (if \<not> valid_model_configuration c then Inl ConfigurationError
      else if provider_argument \<noteq> openai_provider_name \<or> mc_provider c \<noteq> provider_argument \<or>
        mc_prompt_version c \<noteq> supported_prompt_version then Inl ConfigurationError
      else Inr c)"

section \<open>The estimated cost\<close>

text \<open>\<open>rate.adjusted() + len(str(tokens or 1))\<close>\<close>

definition adjusted_digits :: "price \<Rightarrow> int \<Rightarrow> int" where
  "adjusted_digits p tokens =
     pc_exponent p + int (length (decimal (pc_coefficient p))) - 1 +
     int (length (decimal (nat (if tokens = 0 then 1 else tokens))))"

definition cost_precision :: "price \<Rightarrow> price \<Rightarrow> int \<Rightarrow> int \<Rightarrow> int" where
  "cost_precision input out input_tokens output_tokens =
     max 28 (max (adjusted_digits input input_tokens) (adjusted_digits out output_tokens)
       - min (pc_exponent input - 6) (pc_exponent out - 6) + 3)"

definition token_cost :: "nat \<Rightarrow> price \<Rightarrow> int \<Rightarrow> rat" where
  "token_cost precision p tokens = round_digits precision (round_digits precision (of_int tokens * price_value p) / 1000000)"

text \<open>The exponent range of the context is widened with the precision and is not reached.\<close>

definition calculate_estimated_cost_usd :: "int \<Rightarrow> int \<Rightarrow> live_configuration \<Rightarrow> live_raise + rat" where
  "calculate_estimated_cost_usd input_tokens output_tokens c =
     (if \<not> token_count_ok input_tokens \<or> \<not> token_count_ok output_tokens then Inl ProviderError
      else if \<not> valid_live_configuration c then Inl LiveOther
      else (let precision = nat (cost_precision (lv_input_price c) (lv_output_price c) input_tokens output_tokens) in
        Inr (round_digits precision
          (token_cost precision (lv_input_price c) input_tokens + token_cost precision (lv_output_price c) output_tokens))))"

section \<open>The transport\<close>

datatype completion_status = RESPONSE_COMPLETED | CONTENT_FAILURE

record transport_request =
  tq_operation :: model_operation
  tq_case_id :: string
  tq_model_name :: string
  tq_temperature :: pyfloat
  tq_max_output_tokens :: int
  tq_rendered_prompt :: string
  tq_prompt_version :: string
  tq_attempt_number :: int
  tq_response_schema_json :: string
  tq_request_timeout_seconds :: int

definition valid_transport_request :: "transport_request \<Rightarrow> bool" where
  "valid_transport_request r \<longleftrightarrow>
     provider_case_id (tq_case_id r) \<and> tq_model_name r \<noteq> [] \<and>
     finite_at_least 0 (tq_temperature r) \<and> finite_at_most 2 (tq_temperature r) \<and>
     1 \<le> tq_max_output_tokens r \<and> tq_max_output_tokens r \<le> 32768 \<and> tq_rendered_prompt r \<noteq> [] \<and>
     tq_prompt_version r \<noteq> [] \<and> tq_attempt_number r = 1 \<and> tq_response_schema_json r \<noteq> [] \<and>
     1 \<le> tq_request_timeout_seconds r \<and> tq_request_timeout_seconds r \<le> 300"

record transport_response =
  tp_status :: completion_status
  tp_raw_json :: string
  tp_input_tokens :: int
  tp_output_tokens :: int

definition valid_transport_response :: "transport_response \<Rightarrow> bool" where
  "valid_transport_response r \<longleftrightarrow> token_count_ok (tp_input_tokens r) \<and> token_count_ok (tp_output_tokens r)"

text \<open>The objects of the package are JSON values whose attributes are the fields of an object.\<close>

fun sdk_attribute :: "json \<Rightarrow> string \<Rightarrow> live_raise + json" where
  "sdk_attribute (JObject attributes) name =
     (case map_of attributes name of None \<Rightarrow> Inl ProviderError | Some v \<Rightarrow> Inr v)"
| "sdk_attribute _ name = Inl ProviderError"

definition integer_attribute :: "json \<Rightarrow> string \<Rightarrow> live_raise + int" where
  "integer_attribute value name =
     bindE (sdk_attribute value name) (\<lambda>v. case v of
       JInteger n \<Rightarrow> if token_count_ok n then Inr n else Inl ProviderError
     | _ \<Rightarrow> Inl ProviderError)"

text \<open>\<open>^(?P<major>[0-9]+)(?:\.|$)\<close> with the major version 2\<close>

definition sdk_version_ok :: "string \<Rightarrow> bool" where
  "sdk_version_ok version =
     (let major = takeWhile is_digit version; rest = dropWhile is_digit version in
      digits major \<and> (rest = [] \<or> hd rest = CHR ''.'' \<or> rest = [newline]) \<and> int_of_digits major = 2)"

definition sdk_constructor :: "json \<Rightarrow> live_raise + json" where
  "sdk_constructor package =
     bindE (sdk_attribute package ''__version__'') (\<lambda>v. case v of
       JString version \<Rightarrow> if sdk_version_ok version then sdk_attribute package ''OpenAI'' else Inl ProviderError
     | _ \<Rightarrow> Inl ProviderError)"

definition content_failure :: "live_raise + (completion_status \<times> string)" where
  "content_failure = Inr (CONTENT_FAILURE, ''{}'')"

fun completed_text :: "json \<Rightarrow> live_raise + (completion_status \<times> string)" where
  "completed_text (JString t) = (if t = [] then content_failure else Inr (RESPONSE_COMPLETED, t))"
| "completed_text _ = content_failure"

text \<open>The only element of a list whose \<open>type\<close> is the given one\<close>

definition single_of_type :: "json \<Rightarrow> string \<Rightarrow> live_raise + json option" where
  "single_of_type value kind =
     (case value of
        JArray [item] \<Rightarrow> bindE (sdk_attribute item ''type'') (\<lambda>t. Inr (if t = JString kind then Some item else None))
      | _ \<Rightarrow> Inr None)"

definition completed_output :: "json \<Rightarrow> live_raise + (completion_status \<times> string)" where
  "completed_output response =
     bindE (sdk_attribute response ''status'') (\<lambda>status.
     if status = JString ''incomplete'' then content_failure
     else if status \<noteq> JString ''completed'' then Inl ProviderError
     else bindE (sdk_attribute response ''output'') (\<lambda>out.
       bindE (single_of_type out ''message'') (\<lambda>message.
       case message of
         None \<Rightarrow> content_failure
       | Some m \<Rightarrow> bindE (sdk_attribute m ''content'') (\<lambda>content.
           bindE (single_of_type content ''output_text'') (\<lambda>item.
           case item of
             None \<Rightarrow> content_failure
           | Some i \<Rightarrow> bindE (sdk_attribute i ''text'') completed_text)))))"

record 'w sdk_env =
  sk_import :: "('w, live_raise, json) act"
  sk_construct :: "json \<Rightarrow> string \<Rightarrow> int \<Rightarrow> ('w, live_raise, json) act"
  sk_create :: "json \<Rightarrow> transport_request \<Rightarrow> json \<Rightarrow> ('w, live_raise, json) act"
  sk_json :: "string \<Rightarrow> json option"

definition lift_live :: "live_raise + 'a \<Rightarrow> ('w, live_raise, 'a) act" where
  "lift_live r = (case r of Inl e \<Rightarrow> raise e | Inr x \<Rightarrow> ret x)"

text \<open>The three handlers: interrupts and the module's own error pass, any other exception becomes \<open>e\<close>\<close>

definition sealed :: "live_raise \<Rightarrow> ('s, live_raise, 'a) act \<Rightarrow> ('s, live_raise, 'a) act" where
  "sealed e m = catch m (\<lambda>x. if x = LiveStopped \<or> x = ProviderError then raise x else raise e)"

definition new_sdk_transport :: "'w sdk_env \<Rightarrow> string \<Rightarrow> int \<Rightarrow> ('w, live_raise, json) act" where
  "new_sdk_transport env api_key timeout =
     sealed ProviderError
       (andthen (sk_import env) (\<lambda>package.
        andthen (lift_live (sdk_constructor package)) (\<lambda>constructor. sk_construct env constructor api_key timeout)))"

fun is_json_object :: "json \<Rightarrow> bool" where
  "is_json_object (JObject _) = True"
| "is_json_object _ = False"

definition response_of :: "json \<Rightarrow> live_raise + transport_response" where
  "response_of response =
     bindE (sdk_attribute response ''usage'') (\<lambda>usage.
     bindE (integer_attribute usage ''input_tokens'') (\<lambda>input_tokens.
     bindE (integer_attribute usage ''output_tokens'') (\<lambda>output_tokens.
     bindE (integer_attribute usage ''total_tokens'') (\<lambda>total_tokens.
     if input_tokens + output_tokens \<noteq> total_tokens then Inl ProviderError
     else bindE (completed_output response) (\<lambda>(status, raw_json).
       Inr \<lparr>tp_status = status, tp_raw_json = raw_json, tp_input_tokens = input_tokens, tp_output_tokens = output_tokens\<rparr>)))))"

text \<open>\<open>SdkOpenAITransport.complete\<close>; the request is validated outside the \<open>try\<close>.\<close>

definition sdk_complete :: "'w sdk_env \<Rightarrow> json \<Rightarrow> transport_request \<Rightarrow> ('w, live_raise, transport_response) act" where
  "sdk_complete env client request =
     andthen (ensure LiveOther (valid_transport_request request)) (\<lambda>_.
     sealed ProviderError
       (andthen (lift_live (case sk_json env (tq_response_schema_json request) of
            Some j \<Rightarrow> if is_json_object j then Inr j else Inl LiveOther | None \<Rightarrow> Inl LiveOther)) (\<lambda>schema.
        andthen (lift_live (bindE (sdk_attribute client ''responses'') (\<lambda>r. sdk_attribute r ''create''))) (\<lambda>create.
        andthen (sk_create env create request schema) (\<lambda>response. lift_live (response_of response))))))"

section \<open>The provider\<close>

record accounting =
  av_latency :: pyfloat
  av_input_tokens :: int
  av_output_tokens :: int

definition new_accounting :: accounting where
  "new_accounting = \<lparr>av_latency = Finite 0, av_input_tokens = 0, av_output_tokens = 0\<rparr>"

record 'w live_env =
  lp_transport :: "transport_request \<Rightarrow> ('w, live_raise, transport_response) act"
  lp_clock :: "('w, live_raise, pyfloat) act"
  lp_configuration :: live_configuration
  lp_schema_json :: "model_operation \<Rightarrow> string"

definition snapshot_of :: "live_configuration \<Rightarrow> accounting \<Rightarrow> live_raise + candidate_usage" where
  "snapshot_of c a =
     (case calculate_estimated_cost_usd (av_input_tokens a) (av_output_tokens a) c of
        Inl _ \<Rightarrow> Inl ProviderError
      | Inr cost \<Rightarrow>
          (let usage = \<lparr>cu_model_latency_seconds = Some (av_latency a), cu_input_tokens = Some (av_input_tokens a),
             cu_output_tokens = Some (av_output_tokens a), cu_estimated_cost_usd = Some (Finite cost),
             cu_estimated_cost_currency = ''USD''\<rparr> in
           if valid_candidate_usage usage then Inr usage else Inl ProviderError))"

definition provider_world :: "('w, 'e, 'a) act \<Rightarrow> (accounting \<times> 'w, 'e, 'a) act" where
  "provider_world m = (\<lambda>(a, w). case m w of (r, w') \<Rightarrow> (r, (a, w')))"

definition transport_request_of :: "'w live_env \<Rightarrow> model_provider_request \<Rightarrow> transport_request" where
  "transport_request_of env r =
     \<lparr>tq_operation = mr_operation r, tq_case_id = mr_case_id r, tq_model_name = mr_model_name r,
      tq_temperature = mr_temperature r, tq_max_output_tokens = mr_max_output_tokens r,
      tq_rendered_prompt = mr_rendered_prompt r, tq_prompt_version = mr_prompt_version r,
      tq_attempt_number = mr_attempt_number r, tq_response_schema_json = lp_schema_json env (mr_operation r),
      tq_request_timeout_seconds = lv_request_timeout_seconds (lp_configuration env)\<rparr>"

text \<open>Two readings of the clock: both finite, the second not before the first\<close>

fun ordered_times :: "pyfloat \<Rightarrow> pyfloat \<Rightarrow> bool" where
  "ordered_times (Finite a) (Finite b) = (a \<le> b)"
| "ordered_times _ _ = False"

definition accounted_for :: "accounting \<Rightarrow> model_call_usage \<Rightarrow> accounting" where
  "accounted_for a u = \<lparr>av_latency = float_add (av_latency a) (mu_latency_seconds u),
     av_input_tokens = av_input_tokens a + mu_input_tokens u, av_output_tokens = av_output_tokens a + mu_output_tokens u\<rparr>"

fun finite_float :: "pyfloat \<Rightarrow> bool" where
  "finite_float (Finite _) = True"
| "finite_float _ = False"

text \<open>The accounting is set first, then the snapshot of it is taken for its validation.\<close>

definition account_call :: "'w live_env \<Rightarrow> model_call_usage \<Rightarrow> (accounting \<times> 'w, live_raise, unit) act" where
  "account_call env usage =
     andthen (gets fst) (\<lambda>a.
     andthen (ensure LiveOther (finite_float (av_latency (accounted_for a usage)) \<and>
       av_input_tokens (accounted_for a usage) \<le> 2 ^ 63 - 1 \<and> av_output_tokens (accounted_for a usage) \<le> 2 ^ 63 - 1)) (\<lambda>_.
     andthen (modify (\<lambda>(_, w). (accounted_for a usage, w))) (\<lambda>_.
     andthen (lift_live (snapshot_of (lp_configuration env) (accounted_for a usage))) (\<lambda>_. ret ()))))"

definition live_complete :: "'w live_env \<Rightarrow> model_provider_request \<Rightarrow> (accounting \<times> 'w, live_raise, model_provider_response) act" where
  "live_complete env request = sealed ProviderError
     (andthen (ensure LiveOther (valid_provider_request request)) (\<lambda>_.
      andthen (ensure LiveOther (valid_transport_request (transport_request_of env request))) (\<lambda>_.
      andthen (provider_world (lp_clock env)) (\<lambda>started.
      andthen (provider_world (lp_transport env (transport_request_of env request))) (\<lambda>response.
      andthen (provider_world (lp_clock env)) (\<lambda>completed.
      andthen (ensure LiveOther (ordered_times started completed)) (\<lambda>_.
      andthen (ensure LiveOther (valid_transport_response response)) (\<lambda>_.
      (let usage = \<lparr>mu_latency_seconds = float_sub completed started, mu_input_tokens = tp_input_tokens response,
         mu_output_tokens = tp_output_tokens response\<rparr> in
      andthen (ensure LiveOther (valid_usage usage)) (\<lambda>_.
      andthen (account_call env usage) (\<lambda>_.
      ret \<lparr>mp_raw_json = tp_raw_json response, mp_usage = Some usage\<rparr>)))))))))))"

text \<open>\<open>create_openai_model_provider\<close>; the result is the environment of the provider, whose accounting is new.\<close>

definition create_openai_model_provider ::
  "(string \<Rightarrow> int \<Rightarrow> ('w, live_raise, transport_request \<Rightarrow> ('w, live_raise, transport_response) act) act) \<Rightarrow>
     ('w, live_raise, pyfloat) act \<Rightarrow> (model_operation \<Rightarrow> string) \<Rightarrow> model_configuration \<Rightarrow> live_configuration \<Rightarrow>
     (string \<rightharpoonup> string) \<Rightarrow> ('w, live_raise, 'w live_env \<times> accounting) act" where
  "create_openai_model_provider factory clock schema c live environment = sealed ConfigurationError
     (andthen (ensure LiveOther (valid_model_configuration c \<and> valid_live_configuration live)) (\<lambda>_.
      andthen (lift_live (case environment ''OPENAI_API_KEY'' of None \<Rightarrow> Inl LiveOther | Some k \<Rightarrow> Inr k)) (\<lambda>credential.
      andthen (ensure LiveOther (strip credential \<noteq> [] \<and> mc_provider c = openai_provider_name \<and>
        mc_prompt_version c = supported_prompt_version)) (\<lambda>_.
      andthen (factory credential (lv_request_timeout_seconds live)) (\<lambda>transport.
      ret (\<lparr>lp_transport = transport, lp_clock = clock, lp_configuration = live, lp_schema_json = schema\<rparr>, new_accounting))))))"

end
