(* ===== verification/Live_Claims.thy ===== *)
theory Live_Claims
  imports Live_Model
begin

text \<open>
  The properties of the live provider: the estimated cost is exact in spite of the decimal rounding, and the
  accounting changes exactly with the calls that return.
\<close>

section \<open>The cost is exact\<close>

lemma decimal_bound: "n < 10 ^ length (decimal n)"
proof (induction n rule: decimal.induct)
  case (1 n)
  show ?case
  proof (cases "n < 10")
    case False
    with 1 have "n div 10 < 10 ^ length (decimal (n div 10))" by blast
    then have "n < 10 * 10 ^ length (decimal (n div 10))" by linarith
    with False show ?thesis by (subst decimal.simps) simp
  qed (subst decimal.simps, simp)
qed

lemma decimal_positive: "0 < length (decimal n)"
  by simp

lemma price_bound: "of_nat (pc_coefficient p) < pow10 (int (length (decimal (pc_coefficient p))))"
  unfolding pow10_nat using decimal_bound [of "pc_coefficient p"]
  by (metis of_nat_less_iff of_nat_numeral of_nat_power)

lemma token_bound:
  assumes "0 \<le> n"
  shows "(of_int n :: rat) < pow10 (int (length (decimal (nat (if n = 0 then 1 else n)))))"
proof -
  let ?k = "nat (if n = 0 then 1 else n)"
  have "(of_nat ?k :: rat) < 10 ^ length (decimal ?k)" using decimal_bound [of ?k]
    by (metis of_nat_less_iff of_nat_numeral of_nat_power)
  moreover have "(of_int n :: rat) \<le> of_nat ?k" using assms by simp
  ultimately show ?thesis unfolding pow10_nat by linarith
qed

text \<open>The product of a token count and a price, before the rounding\<close>

lemma product_bound:
  assumes "0 \<le> n"
  shows "\<bar>of_int n * price_value p\<bar> < pow10 (adjusted_digits p n + 1)"
proof -
  let ?a = "int (length (decimal (nat (if n = 0 then 1 else n))))" and ?b = "int (length (decimal (pc_coefficient p)))"
  have "(of_int n :: rat) * of_nat (pc_coefficient p) < pow10 ?a * pow10 ?b"
    by (rule mult_strict_mono) (use token_bound [OF assms] price_bound [of p] in auto)
  then have "of_int n * of_nat (pc_coefficient p) * pow10 (pc_exponent p) < pow10 ?a * pow10 ?b * pow10 (pc_exponent p)"
    by (rule mult_strict_right_mono) simp
  also have "\<dots> = pow10 (adjusted_digits p n + 1)"
    by (simp add: adjusted_digits_def flip: pow10_add) (simp add: algebra_simps)
  finally show ?thesis using assms by (simp add: price_value_def mult.assoc less_imp_le)
qed

lemma pow10_abs [simp]: "\<bar>pow10 e\<bar> = pow10 e"
  by (simp add: less_imp_le)

lemma million: "(1000000 :: rat) = pow10 6"
  by (simp add: pow10_def)

lemma token_cost_exact:
  assumes n: "0 \<le> n" and prec: "adjusted_digits p n - (pc_exponent p - 6) + 3 \<le> int precision"
  shows "token_cost precision p n = of_int n * price_value p / 1000000"
proof -
  let ?q = "of_int n * price_value p" and ?k = "n * int (pc_coefficient p)"
  have q: "?q = of_int ?k * pow10 (pc_exponent p)" by (simp add: price_value_def)
  have "pow10 (adjusted_digits p n + 1) \<le> pow10 (pc_exponent p + int precision)" by (rule pow10_mono) (use prec in linarith)
  then have one: "round_digits precision ?q = ?q"
    using product_bound [OF n, of p] by (intro round_digits_exact [OF q]) linarith
  have d: "?q / 1000000 = of_int ?k * pow10 (pc_exponent p - 6)" by (simp add: q million pow10_diff)
  have "\<bar>?q / 1000000\<bar> = \<bar>?q\<bar> / pow10 6" unfolding abs_divide million by (simp add: pow10_pos [THEN less_imp_le])
  also have "\<dots> < pow10 (adjusted_digits p n + 1) / pow10 6"
    by (rule divide_strict_right_mono [OF product_bound [OF n]]) simp
  also have "\<dots> \<le> pow10 (pc_exponent p - 6 + int precision)"
    unfolding pow10_diff [symmetric] by (rule pow10_mono) (use prec in linarith)
  finally show ?thesis unfolding token_cost_def one by (rule round_digits_exact [OF d])
qed

lemma cost_sum_exact:
  fixes input out :: price
  assumes n: "0 \<le> n" "0 \<le> m" and prec: "cost_precision input out n m \<le> int precision"
  defines "both \<equiv> of_int n * price_value input / 1000000 + of_int m * price_value out / 1000000"
  shows "round_digits precision both = both"
proof (rule round_digits_exact)
  let ?x = "min (pc_exponent input - 6) (pc_exponent out - 6)" and ?A = "max (adjusted_digits input n) (adjusted_digits out m)"
  let ?part = "\<lambda>k p. k * int (pc_coefficient p) * 10 ^ nat (pc_exponent p - 6 - ?x)"
  have part: "of_int k * price_value p / 1000000 = of_int (?part k p) * pow10 ?x" if "?x \<le> pc_exponent p - 6" for k p
  proof -
    let ?d = "pc_exponent p - 6 - ?x"
    have "pow10 (pc_exponent p - 6) = pow10 (?d + ?x)" by simp
    also have "\<dots> = 10 ^ nat ?d * pow10 ?x" using that unfolding pow10_add by (simp add: pow10_def [of ?d])
    finally have "pow10 (pc_exponent p - 6) = 10 ^ nat ?d * pow10 ?x" .
    moreover have "of_int k * price_value p / 1000000 = of_int (k * int (pc_coefficient p)) * pow10 (pc_exponent p - 6)"
      by (simp add: price_value_def million pow10_diff)
    ultimately show ?thesis by simp
  qed
  have p1: "of_int n * price_value input / 1000000 = of_int (?part n input) * pow10 ?x" by (rule part) simp
  have p2: "of_int m * price_value out / 1000000 = of_int (?part m out) * pow10 ?x" by (rule part) simp
  show "both = of_int (?part n input + ?part m out) * pow10 ?x"
    unfolding both_def p1 p2 of_int_add distrib_right by (rule refl)
  have b: "\<bar>of_int k * price_value p / 1000000\<bar> < pow10 (?A - 5)" if "0 \<le> k" "adjusted_digits p k \<le> ?A" for k p
  proof -
    have "\<bar>of_int k * price_value p / 1000000\<bar> < pow10 (adjusted_digits p k + 1) / pow10 6"
      unfolding abs_divide million pow10_abs by (rule divide_strict_right_mono [OF product_bound [OF that(1)]]) simp
    also have "\<dots> \<le> pow10 (?A - 5)" unfolding pow10_diff [symmetric] by (rule pow10_mono) (use that(2) in linarith)
    finally show ?thesis .
  qed
  have "\<bar>both\<bar> < pow10 (?A - 5) + pow10 (?A - 5)"
    unfolding both_def using b [OF n(1)] b [OF n(2)] abs_triangle_ineq [of "of_int n * price_value input / 1000000"]
    by (meson add_strict_mono le_less_trans max.cobounded1 max.cobounded2)
  also have "\<dots> \<le> pow10 (?A - 5 + 1)" unfolding pow10_add by (simp add: pow10_def)
  also have "\<dots> \<le> pow10 (?x + int precision)"
    by (rule pow10_mono) (use prec in \<open>simp add: cost_precision_def\<close>)
  finally show "\<bar>both\<bar> < pow10 (?x + int precision)" .
qed

definition exact_cost :: "live_configuration \<Rightarrow> int \<Rightarrow> int \<Rightarrow> rat" where
  "exact_cost c n m = of_int n * price_value (lv_input_price c) / 1000000 + of_int m * price_value (lv_output_price c) / 1000000"

lemma cost_is_exact:
  assumes "valid_live_configuration c" "token_count_ok n" "token_count_ok m"
  shows "calculate_estimated_cost_usd n m c = Inr (exact_cost c n m)"
proof -
  let ?p = "nat (cost_precision (lv_input_price c) (lv_output_price c) n m)"
  have n: "0 \<le> n" "0 \<le> m" using assms by (simp_all add: token_count_ok_def)
  have p: "cost_precision (lv_input_price c) (lv_output_price c) n m \<le> int ?p" by simp
  then have "adjusted_digits (lv_input_price c) n - (pc_exponent (lv_input_price c) - 6) + 3 \<le> int ?p"
    "adjusted_digits (lv_output_price c) m - (pc_exponent (lv_output_price c) - 6) + 3 \<le> int ?p"
    unfolding cost_precision_def by linarith+
  note costs = token_cost_exact [OF n(1) this(1)] token_cost_exact [OF n(2) this(2)]
  show ?thesis using assms unfolding calculate_estimated_cost_usd_def Let_def costs cost_sum_exact [OF n p] exact_cost_def
    by simp
qed

text \<open>C16: The estimated cost of a call is the exact sum of tokens times price: the precision that is chosen from
  the digits of prices and counts is enough for every product, both quotients and the sum.\<close>

theorem estimated_cost_is_exact:
  assumes "valid_live_configuration c" "token_count_ok n" "token_count_ok m"
  shows "calculate_estimated_cost_usd n m c =
    Inr ((of_int n * price_value (lv_input_price c) + of_int m * price_value (lv_output_price c)) / 1000000)"
  using cost_is_exact [OF assms] by (simp add: exact_cost_def add_divide_distrib)

definition sample_live :: live_configuration where
  "sample_live = \<lparr>lv_request_timeout_seconds = 60, lv_input_price = \<lparr>pc_coefficient = 125, pc_exponent = - 2\<rparr>,
     lv_output_price = \<lparr>pc_coefficient = 10, pc_exponent = 0\<rparr>\<rparr>"

theorem estimated_cost_is_exact_witness:
  "calculate_estimated_cost_usd 1000 3 sample_live = Inr (128 / 100000)"
  by (subst estimated_cost_is_exact)
     (simp_all add: sample_live_def valid_live_configuration_def token_count_ok_def price_value_def pow10_def)

section \<open>The accounting of the provider\<close>

definition accounting_ok :: "accounting \<Rightarrow> bool" where
  "accounting_ok a \<longleftrightarrow> finite_at_least 0 (av_latency a) \<and> token_count_ok (av_input_tokens a) \<and> token_count_ok (av_output_tokens a)"

lemma float_add_nonneg:
  assumes "finite_at_least 0 x" "finite_at_least 0 y" "finite_float (float_add x y)"
  shows "finite_at_least 0 (float_add x y)"
  using assms by (cases x; cases y) (auto dest: round_double_nonneg [rotated] split: option.splits if_splits)

lemma accounted_for_ok:
  assumes "accounting_ok a" "valid_usage u" "finite_float (av_latency (accounted_for a u))"
    "av_input_tokens (accounted_for a u) \<le> 2 ^ 63 - 1" "av_output_tokens (accounted_for a u) \<le> 2 ^ 63 - 1"
  shows "accounting_ok (accounted_for a u)"
  using assms float_add_nonneg
  by (auto simp: accounting_ok_def valid_usage_def accounted_for_def token_count_ok_def)

lemma exact_cost_nonneg: "0 \<le> n \<Longrightarrow> 0 \<le> m \<Longrightarrow> 0 \<le> exact_cost c n m"
  by (simp add: exact_cost_def price_value_def less_imp_le)

lemma snapshot_never_fails:
  assumes "valid_live_configuration c" "accounting_ok a"
  shows "snapshot_of c a = Inr \<lparr>cu_model_latency_seconds = Some (av_latency a), cu_input_tokens = Some (av_input_tokens a),
    cu_output_tokens = Some (av_output_tokens a),
    cu_estimated_cost_usd = Some (Finite (exact_cost c (av_input_tokens a) (av_output_tokens a))),
    cu_estimated_cost_currency = ''USD''\<rparr>"
  using assms cost_is_exact [OF assms(1)] exact_cost_nonneg
  by (simp add: snapshot_of_def accounting_ok_def Let_def valid_candidate_usage_def usd_decimal_ok_def token_count_ok_def)

text \<open>What a call leaves behind: the usage it reports is added, or nothing has changed.\<close>

definition booked :: "accounting \<Rightarrow> model_provider_response \<Rightarrow> accounting \<Rightarrow> bool" where
  "booked a r a' \<longleftrightarrow> accounting_ok a' \<and> (\<exists>u. mp_usage r = Some u \<and> valid_usage u \<and> a' = accounted_for a u)"

lemma triple_provider_world [triple_intro]:
  "(\<And>b w e w'. P (b, w) \<Longrightarrow> m w = (Inl e, w') \<Longrightarrow> E e (b, w')) \<Longrightarrow>
   (\<And>b w x w'. P (b, w) \<Longrightarrow> m w = (Inr x, w') \<Longrightarrow> Q x (b, w')) \<Longrightarrow> triple P (provider_world m) Q E"
  by (auto simp: triple_def provider_world_def split: sum.splits prod.splits)

lemma triple_lift_live [triple_intro]:
  "(\<And>e s. x = Inl e \<Longrightarrow> P s \<Longrightarrow> E e s) \<Longrightarrow> (\<And>y s. x = Inr y \<Longrightarrow> P s \<Longrightarrow> Q y s) \<Longrightarrow> triple P (lift_live x) Q E"
  by (auto simp: lift_live_def triple_def ret_def raise_def split: sum.splits)

lemma triple_sealed:
  assumes "triple P m Q (\<lambda>_ s. I s)"
  shows "triple P (sealed ProviderError m) Q (\<lambda>e s. (e = ProviderError \<or> e = LiveStopped) \<and> I s)"
  unfolding sealed_def
  by (rule triple_catch [OF assms]) (auto intro!: triple_intro)

lemma account_call_triple:
  fixes env :: "'w live_env"
  assumes "valid_live_configuration (lp_configuration env)" "accounting_ok a" "valid_usage u"
  shows "triple (\<lambda>s. fst s = a) (account_call env u)
    (\<lambda>_ s. accounting_ok (fst s) \<and> fst s = accounted_for a u) (\<lambda>_ s. fst s = a)"
proof (rule tripleI)
  fix s :: "accounting \<times> 'w"
  assume s: "fst s = a"
  then obtain w where w: "s = (a, w)" by (cases s) auto
  let ?b = "finite_float (av_latency (accounted_for a u)) \<and>
       av_input_tokens (accounted_for a u) \<le> 2 ^ 63 - 1 \<and> av_output_tokens (accounted_for a u) \<le> 2 ^ 63 - 1"
  show "case account_call env u s of (Inl e, s') \<Rightarrow> fst s' = a
    | (Inr x, s') \<Rightarrow> accounting_ok (fst s') \<and> fst s' = accounted_for a u"
  proof (cases ?b)
    case True
    then have ok: "accounting_ok (accounted_for a u)" using accounted_for_ok [OF assms(2,3)] by blast
    from True show ?thesis using snapshot_never_fails [OF assms(1) ok] ok
      by (simp add: account_call_def w andthen_def gets_def ensure_def ret_def modify_def lift_live_def)
  next
    case False
    then show ?thesis
      by (simp only: account_call_def w andthen_def gets_def ensure_def if_False raise_def prod.case sum.case fst_conv)
  qed
qed

lemma world_step:
  "(\<And>x. triple (\<lambda>s. fst s = a) (f x) Q (\<lambda>_ s. fst s = a)) \<Longrightarrow>
   triple (\<lambda>s. fst s = a) (andthen (provider_world m) f) Q (\<lambda>_ s. fst s = a)"
  by (rule triple_andthen [where R = "\<lambda>_ s. fst s = a"]) (rule triple_provider_world; simp)

lemma ensure_step:
  "(b \<Longrightarrow> triple P (f ()) Q (\<lambda>_ s. P s)) \<Longrightarrow> triple P (andthen (ensure e b) f) Q (\<lambda>_ s. P s)"
  by (auto simp: triple_def andthen_def ensure_def ret_def raise_def split: prod.splits sum.splits)

lemma live_complete_triple:
  assumes "valid_live_configuration (lp_configuration env)" "accounting_ok a"
  shows "triple (\<lambda>s. fst s = a) (live_complete env request)
    (\<lambda>r s. booked a r (fst s)) (\<lambda>e s. (e = ProviderError \<or> e = LiveStopped) \<and> fst s = a)"
  unfolding live_complete_def Let_def
proof (rule triple_sealed, (rule world_step ensure_step)+)
  fix started completed and response :: transport_response
  let ?u = "\<lparr>mu_latency_seconds = float_sub completed started, mu_input_tokens = tp_input_tokens response,
    mu_output_tokens = tp_output_tokens response\<rparr>"
  assume "valid_usage ?u"
  then show "triple (\<lambda>s. fst s = a) (andthen (account_call env ?u)
      (\<lambda>_. ret \<lparr>mp_raw_json = tp_raw_json response, mp_usage = Some ?u\<rparr>)) (\<lambda>r s. booked a r (fst s)) (\<lambda>_ s. fst s = a)"
    by (intro triple_andthen [OF account_call_triple [OF assms]] triple_ret) (auto simp: booked_def)
qed

text \<open>C17: The accounting of the provider moves with the answers: from a consistent accounting a call either returns
  its usage and has added exactly that usage, or raises the provider's error or an interrupt and has added nothing.
  The snapshot that validates the new totals, after they are stored, never fails.\<close>

theorem usage_is_booked_once:
  assumes "valid_live_configuration (lp_configuration env)" "accounting_ok a"
    and "live_complete env request (a, w) = (r, (a', w'))"
  shows "case r of
      Inl e \<Rightarrow> (e = ProviderError \<or> e = LiveStopped) \<and> a' = a
    | Inr answer \<Rightarrow> accounting_ok a' \<and> (\<exists>u. mp_usage answer = Some u \<and> valid_usage u \<and>
        a' = \<lparr>av_latency = float_add (av_latency a) (mu_latency_seconds u),
          av_input_tokens = av_input_tokens a + mu_input_tokens u, av_output_tokens = av_output_tokens a + mu_output_tokens u\<rparr>)"
  using triple_useL [OF live_complete_triple [OF assms(1,2)], of "(a, w)"]
    triple_useR [OF live_complete_triple [OF assms(1,2)], of "(a, w)"] assms(3)
  by (auto simp: booked_def accounted_for_def split: sum.split)

definition quiet_env :: "unit live_env" where
  "quiet_env = \<lparr>lp_transport = (\<lambda>_. ret \<lparr>tp_status = CONTENT_FAILURE, tp_raw_json = ''{}'', tp_input_tokens = 10, tp_output_tokens = 3\<rparr>),
     lp_clock = ret (Finite 0), lp_configuration = sample_live, lp_schema_json = (\<lambda>_. ''{}'')\<rparr>"

definition quiet_request :: model_provider_request where
  "quiet_request = \<lparr>mr_case_id = ''boundary'', mr_operation = REPAIR_PLANNING, mr_model_name = ''m'', mr_temperature = Finite 0,
     mr_max_output_tokens = 16, mr_prompt_version = ''repair-v1.0'', mr_attempt_number = 1, mr_rendered_prompt = ''p''\<rparr>"

abbreviation quiet_usage :: model_call_usage where
  "quiet_usage \<equiv> \<lparr>mu_latency_seconds = Finite 0, mu_input_tokens = 10, mu_output_tokens = 3\<rparr>"

abbreviation quiet_total :: accounting where
  "quiet_total \<equiv> \<lparr>av_latency = Finite 0, av_input_tokens = 10, av_output_tokens = 3\<rparr>"

lemma quiet_env_fields [simp]:
  "lp_transport quiet_env r = ret \<lparr>tp_status = CONTENT_FAILURE, tp_raw_json = ''{}'', tp_input_tokens = 10, tp_output_tokens = 3\<rparr>"
  "lp_clock quiet_env = ret (Finite 0)" "lp_configuration quiet_env = sample_live"
  by (simp_all add: quiet_env_def)

lemma quiet_adds: "accounted_for new_accounting quiet_usage = quiet_total"
  by (simp add: accounted_for_def new_accounting_def round_double_def)

lemma quiet_valid: "valid_live_configuration sample_live" "accounting_ok new_accounting" "accounting_ok quiet_total"
  "valid_usage quiet_usage"
  by (simp_all add: sample_live_def valid_live_configuration_def accounting_ok_def new_accounting_def token_count_ok_def valid_usage_def)

lemma quiet_request_valid: "valid_provider_request quiet_request" "valid_transport_request (transport_request_of quiet_env quiet_request)"
  by code_simp+

lemma quiet_answer: "live_complete quiet_env quiet_request (new_accounting, ()) =
    (Inr \<lparr>mp_raw_json = ''{}'', mp_usage = Some quiet_usage\<rparr>, (quiet_total, ()))"
proof -
  have "account_call quiet_env quiet_usage (new_accounting, ()) = (Inr (), (quiet_total, ()))"
    using snapshot_never_fails [OF quiet_valid(1,3)]
    by (simp add: account_call_def quiet_adds andthen_def gets_def ensure_def ret_def modify_def lift_live_def)
  then show ?thesis
    by (simp add: live_complete_def Let_def sealed_def catch_def andthen_def ensure_def ret_def quiet_request_valid
      provider_world_def round_double_def valid_transport_response_def token_count_ok_def quiet_valid)
qed

theorem usage_is_booked_once_witness: "accounting_ok quiet_total"
  using usage_is_booked_once [OF _ _ quiet_answer] quiet_valid by simp

end
