(* ===== verification/Benchmark.thy ===== *)
theory Benchmark
  imports Application Live_Model
begin

text \<open>
  \<open>app/evaluation/benchmark.py\<close> and \<open>BenchmarkApplication\<close> of \<open>app/cli.py\<close>: the development cases run
  one after the other until one fails to execute, the report with its aggregates, and the command that
  publishes it.
\<close>

section \<open>Results of a case\<close>

datatype benchmark_classification = REPAIR_SUCCEEDED | REPAIR_FAILED | EXECUTION_FAILED | NOT_RUN

datatype benchmark_status = BENCHMARK_COMPLETED | BENCHMARK_FAILED

definition development_case_ids :: "string list" where
  "development_case_ids = [''boundary_condition'', ''exception_handling'', ''fixture_or_mocking'',
     ''incorrect_conditional'', ''incorrect_return_value'']"

definition repair_failures :: "terminal_outcome set" where
  "repair_failures = {CANDIDATE_FAILURE, POLICY_VIOLATION, STATIC_CHECK_FAILURE, MALFORMED_MODEL_OUTPUT}"

text \<open>\<open><case_id>-[0-9a-f]{32}\.json\<close>, matched in full\<close>

definition artifact_file_name :: "string \<Rightarrow> string \<Rightarrow> bool" where
  "artifact_file_name case_id name \<longleftrightarrow>
     (let n = length case_id + 1 in
      take n name = case_id @ ''-'' \<and> hex_string 32 (take 32 (drop n name)) \<and> drop (n + 32) name = ''.json'')"

definition benchmark_artifact_path :: "string \<Rightarrow> string \<Rightarrow> bool" where
  "benchmark_artifact_path path case_id \<longleftrightarrow>
     relative_artifact_path path \<and> CHR 0x00 \<notin> set (as_posix path) \<and> artifact_file_name case_id (path_name path)"

record case_execution =
  bx_case_id :: string
  bx_terminal_outcome :: terminal_outcome
  bx_model_usage :: "candidate_usage option"
  bx_artifact_path :: string

definition valid_case_execution :: "case_execution \<Rightarrow> bool" where
  "valid_case_execution e \<longleftrightarrow>
     provider_case_id (bx_case_id e) \<and> opt_valid valid_candidate_usage (bx_model_usage e) \<and>
     benchmark_artifact_path (bx_artifact_path e) (bx_case_id e)"

record case_result =
  bc_case_id :: string
  bc_classification :: benchmark_classification
  bc_terminal_outcome :: "terminal_outcome option"
  bc_model_latency_seconds :: "pyfloat option"
  bc_input_tokens :: "int option"
  bc_output_tokens :: "int option"
  bc_estimated_cost_usd :: "pydecimal option"
  bc_artifact_path :: "string option"

text \<open>All measurements are there; none is.\<close>

definition all_measurements :: "case_result \<Rightarrow> bool" where
  "all_measurements r \<longleftrightarrow> bc_model_latency_seconds r \<noteq> None \<and> bc_input_tokens r \<noteq> None \<and> bc_output_tokens r \<noteq> None \<and>
     bc_estimated_cost_usd r \<noteq> None"

definition no_measurements :: "case_result \<Rightarrow> bool" where
  "no_measurements r \<longleftrightarrow> bc_model_latency_seconds r = None \<and> bc_input_tokens r = None \<and> bc_output_tokens r = None \<and>
     bc_estimated_cost_usd r = None"

fun classification_ok :: "benchmark_classification \<Rightarrow> case_result \<Rightarrow> bool" where
  "classification_ok NOT_RUN r \<longleftrightarrow> bc_terminal_outcome r = None \<and> no_measurements r \<and> bc_artifact_path r = None"
| "classification_ok REPAIR_SUCCEEDED r \<longleftrightarrow>
     bc_terminal_outcome r = Some SUCCESS \<and> bc_artifact_path r \<noteq> None \<and> all_measurements r"
| "classification_ok REPAIR_FAILED r \<longleftrightarrow>
     (case bc_terminal_outcome r of None \<Rightarrow> False | Some t \<Rightarrow> t \<in> repair_failures) \<and> bc_artifact_path r \<noteq> None \<and> all_measurements r"
| "classification_ok EXECUTION_FAILED r \<longleftrightarrow>
     (case bc_terminal_outcome r of None \<Rightarrow> True | Some t \<Rightarrow> t \<in> {INFRASTRUCTURE_FAILURE, RUN_NOT_REPRODUCIBLE})"

definition valid_case_result :: "case_result \<Rightarrow> bool" where
  "valid_case_result r \<longleftrightarrow>
     provider_case_id (bc_case_id r) \<and> opt_valid (finite_at_least 0) (bc_model_latency_seconds r) \<and>
     opt_valid token_count_ok (bc_input_tokens r) \<and> opt_valid token_count_ok (bc_output_tokens r) \<and>
     opt_valid usd_decimal_ok (bc_estimated_cost_usd r) \<and> (all_measurements r \<or> no_measurements r) \<and>
     opt_valid (\<lambda>p. benchmark_artifact_path p (bc_case_id r)) (bc_artifact_path r) \<and>
     classification_ok (bc_classification r) r"

definition case_result_of :: "case_execution \<Rightarrow> case_result" where
  "case_result_of e =
     (let usage = bx_model_usage e in
      \<lparr>bc_case_id = bx_case_id e,
       bc_classification =
         (if bx_terminal_outcome e = SUCCESS then REPAIR_SUCCEEDED
          else if bx_terminal_outcome e \<in> repair_failures then REPAIR_FAILED else EXECUTION_FAILED),
       bc_terminal_outcome = Some (bx_terminal_outcome e),
       bc_model_latency_seconds = Option.bind usage cu_model_latency_seconds,
       bc_input_tokens = Option.bind usage cu_input_tokens,
       bc_output_tokens = Option.bind usage cu_output_tokens,
       bc_estimated_cost_usd = Option.bind usage cu_estimated_cost_usd,
       bc_artifact_path = Some (bx_artifact_path e)\<rparr>)"

text \<open>A result without evidence: of a case that was not run, or whose execution raised\<close>

definition bare_result :: "string \<Rightarrow> benchmark_classification \<Rightarrow> case_result" where
  "bare_result case_id k =
     \<lparr>bc_case_id = case_id, bc_classification = k, bc_terminal_outcome = None, bc_model_latency_seconds = None,
      bc_input_tokens = None, bc_output_tokens = None, bc_estimated_cost_usd = None, bc_artifact_path = None\<rparr>"

section \<open>The run\<close>

definition built :: "('a \<Rightarrow> bool) \<Rightarrow> 'a \<Rightarrow> ('s, app_raise, 'a) act" where
  "built valid x = andthen (ensure OtherException (valid x)) (\<lambda>_. ret x)"

type_synonym 's case_runner = "trusted_case \<Rightarrow> ('s, app_raise, case_execution) act"

definition case_id_of :: "trusted_case \<Rightarrow> string" where
  "case_id_of c = mf_case_id (tc_manifest c)"

definition run_one_case :: "'s case_runner \<Rightarrow> trusted_case \<Rightarrow> ('s, app_raise, case_result) act" where
  "run_one_case runner c =
     excepting
       (andthen (runner c) (\<lambda>e.
        andthen (ensure OtherException (valid_case_execution e \<and> bx_case_id e = case_id_of c)) (\<lambda>_.
        built valid_case_result (case_result_of e))))
       (\<lambda>_. built valid_case_result (bare_result (case_id_of c) EXECUTION_FAILED))"

fun run_cases :: "'s case_runner \<Rightarrow> bool \<Rightarrow> trusted_case list \<Rightarrow> ('s, app_raise, case_result list) act" where
  "run_cases runner failed [] = ret []"
| "run_cases runner failed (c # cs) =
     andthen (if failed then built valid_case_result (bare_result (case_id_of c) NOT_RUN) else run_one_case runner c) (\<lambda>r.
     andthen (run_cases runner (failed \<or> bc_classification r = EXECUTION_FAILED) cs) (\<lambda>rs. ret (r # rs)))"

definition run_benchmark_cases :: "'s case_runner \<Rightarrow> trusted_case list \<Rightarrow> ('s, app_raise, case_result list) act" where
  "run_benchmark_cases runner cases =
     andthen (ensure OtherException (map case_id_of cases = development_case_ids)) (\<lambda>_. run_cases runner False cases)"

section \<open>The report\<close>

record benchmark_counts =
  bn_attempted :: int
  bn_not_run :: int
  bn_repair_success :: int
  bn_repair_failure :: int
  bn_execution_failure :: int

definition valid_counts :: "benchmark_counts \<Rightarrow> bool" where
  "valid_counts n \<longleftrightarrow> bn_attempted n \<in> {0..5} \<and> bn_not_run n \<in> {0..5} \<and> bn_repair_success n \<in> {0..5} \<and>
     bn_repair_failure n \<in> {0..5} \<and> bn_execution_failure n \<in> {0..1}"

record benchmark_usage =
  bg_model_latency_seconds :: pyfloat
  bg_input_tokens :: int
  bg_output_tokens :: int
  bg_estimated_cost_usd :: pydecimal

definition valid_benchmark_usage :: "benchmark_usage \<Rightarrow> bool" where
  "valid_benchmark_usage u \<longleftrightarrow> finite_at_least 0 (bg_model_latency_seconds u) \<and> token_count_ok (bg_input_tokens u) \<and>
     token_count_ok (bg_output_tokens u) \<and> usd_decimal_ok (bg_estimated_cost_usd u)"

text \<open>The constant fields of the report (\<open>schema_version\<close>, \<open>split\<close>, \<open>provider\<close>, \<open>max_attempts\<close>) are left out.\<close>

record benchmark_report =
  bm_benchmark_run_id :: string
  bm_model :: string
  bm_prompt_version :: string
  bm_started_at :: datetime
  bm_completed_at :: datetime
  bm_execution_status :: benchmark_status
  bm_request_timeout_seconds :: int
  bm_input_price :: price
  bm_output_price :: price
  bm_cases :: "case_result list"
  bm_counts :: benchmark_counts
  bm_success_rate :: "rat option"
  bm_aggregate_usage :: benchmark_usage

definition count_of :: "benchmark_classification \<Rightarrow> case_result list \<Rightarrow> int" where
  "count_of k cases = int (length (filter (\<lambda>r. bc_classification r = k) cases))"

definition counts_of :: "case_result list \<Rightarrow> benchmark_counts" where
  "counts_of cases =
     \<lparr>bn_attempted = int (length cases) - count_of NOT_RUN cases, bn_not_run = count_of NOT_RUN cases,
      bn_repair_success = count_of REPAIR_SUCCEEDED cases, bn_repair_failure = count_of REPAIR_FAILED cases,
      bn_execution_failure = count_of EXECUTION_FAILED cases\<rparr>"

text \<open>Decimals of the default context have 28 digits.\<close>

definition success_rate_of :: "int \<Rightarrow> int \<Rightarrow> rat option" where
  "success_rate_of success completed = (if completed = 0 then None else Some (round_digits 28 (of_int success / of_int completed)))"

definition cost_add :: "rat \<Rightarrow> rat \<Rightarrow> rat" where
  "cost_add a b = round_digits 28 (a + b)"

definition cost_of :: "case_result \<Rightarrow> rat" where
  "cost_of r = (case bc_estimated_cost_usd r of None \<Rightarrow> 0 | Some c \<Rightarrow> float_value c)"

definition tokens_of :: "int option \<Rightarrow> int" where
  "tokens_of t = (case t of None \<Rightarrow> 0 | Some n \<Rightarrow> n)"

definition latency_of :: "case_result \<Rightarrow> pyfloat" where
  "latency_of r = (case bc_model_latency_seconds r of None \<Rightarrow> Finite 0 | Some l \<Rightarrow> l)"

definition with_latency :: "case_result list \<Rightarrow> case_result list" where
  "with_latency cases = filter (\<lambda>r. bc_model_latency_seconds r \<noteq> None) cases"

text \<open>The totals as the validator adds them: in the order of the cases, over the measured ones\<close>

definition validated_usage :: "case_result list \<Rightarrow> benchmark_usage" where
  "validated_usage cases =
     \<lparr>bg_model_latency_seconds = plain_sum (map latency_of (with_latency cases)),
      bg_input_tokens = (\<Sum>r\<leftarrow>with_latency cases. tokens_of (bc_input_tokens r)),
      bg_output_tokens = (\<Sum>r\<leftarrow>with_latency cases. tokens_of (bc_output_tokens r)),
      bg_estimated_cost_usd = Finite (fold (\<lambda>r c. cost_add c (cost_of r)) (with_latency cases) 0)\<rparr>"

text \<open>The totals of \<open>build_benchmark_report\<close>: \<open>sum\<close> over all cases\<close>

definition summed_usage :: "case_result list \<Rightarrow> benchmark_usage" where
  "summed_usage cases =
     \<lparr>bg_model_latency_seconds = compensated_sum (map latency_of cases),
      bg_input_tokens = (\<Sum>r\<leftarrow>cases. tokens_of (bc_input_tokens r)),
      bg_output_tokens = (\<Sum>r\<leftarrow>cases. tokens_of (bc_output_tokens r)),
      bg_estimated_cost_usd = Finite (fold (\<lambda>r c. cost_add c (cost_of r)) cases 0)\<rparr>"

definition utc_datetime :: "datetime \<Rightarrow> bool" where
  "utc_datetime t \<longleftrightarrow> dt_offset t = Some 0"

definition report_configuration :: "benchmark_report \<Rightarrow> live_configuration" where
  "report_configuration r = \<lparr>lv_request_timeout_seconds = bm_request_timeout_seconds r,
     lv_input_price = bm_input_price r, lv_output_price = bm_output_price r\<rparr>"

definition case_cost_ok :: "live_configuration \<Rightarrow> case_result \<Rightarrow> bool" where
  "case_cost_ok c r \<longleftrightarrow>
     (case calculate_estimated_cost_usd (tokens_of (bc_input_tokens r)) (tokens_of (bc_output_tokens r)) c of
        Inl _ \<Rightarrow> False
      | Inr expected \<Rightarrow> bc_estimated_cost_usd r = Some (Finite expected))"

definition status_of :: "int \<Rightarrow> benchmark_status" where
  "status_of failures = (if failures \<noteq> 0 then BENCHMARK_FAILED else BENCHMARK_COMPLETED)"

definition failed_fast :: "case_result list \<Rightarrow> bool" where
  "failed_fast cases \<longleftrightarrow>
     list_all (\<lambda>r. bc_classification r = NOT_RUN) (tl (dropWhile (\<lambda>r. bc_classification r \<noteq> EXECUTION_FAILED) cases))"

definition valid_benchmark_report :: "benchmark_report \<Rightarrow> bool" where
  "valid_benchmark_report r \<longleftrightarrow>
     hex_string 32 (bm_benchmark_run_id r) \<and> bm_model r \<noteq> [] \<and> bm_prompt_version r = supported_prompt_version \<and>
     1 \<le> bm_request_timeout_seconds r \<and> bm_request_timeout_seconds r \<le> 300 \<and>
     list_all valid_case_result (bm_cases r) \<and> valid_counts (bm_counts r) \<and> valid_benchmark_usage (bm_aggregate_usage r) \<and>
     utc_datetime (bm_started_at r) \<and> utc_datetime (bm_completed_at r) \<and>
     dt_instant (bm_started_at r) \<le> dt_instant (bm_completed_at r) \<and>
     map bc_case_id (bm_cases r) = development_case_ids \<and>
     list_all (case_cost_ok (report_configuration r)) (with_latency (bm_cases r)) \<and>
     bm_counts r = counts_of (bm_cases r) \<and>
     bm_success_rate r = success_rate_of (bn_repair_success (bm_counts r))
       (bn_repair_success (bm_counts r) + bn_repair_failure (bm_counts r)) \<and>
     finite_float (bg_model_latency_seconds (validated_usage (bm_cases r))) \<and>
     bm_aggregate_usage r = validated_usage (bm_cases r) \<and>
     bm_execution_status r = status_of (bn_execution_failure (bm_counts r)) \<and>
     failed_fast (bm_cases r)"

definition benchmark_report_of ::
  "string \<Rightarrow> string \<Rightarrow> string \<Rightarrow> datetime \<Rightarrow> datetime \<Rightarrow> live_configuration \<Rightarrow> case_result list \<Rightarrow> benchmark_report" where
  "benchmark_report_of run_id model prompt_version started completed live cases =
     (let n = counts_of cases in
      \<lparr>bm_benchmark_run_id = run_id, bm_model = model, bm_prompt_version = prompt_version, bm_started_at = started,
       bm_completed_at = completed, bm_execution_status = status_of (bn_execution_failure n),
       bm_request_timeout_seconds = lv_request_timeout_seconds live, bm_input_price = lv_input_price live,
       bm_output_price = lv_output_price live, bm_cases = cases, bm_counts = n,
       bm_success_rate = success_rate_of (bn_repair_success n) (bn_repair_success n + bn_repair_failure n),
       bm_aggregate_usage = summed_usage cases\<rparr>)"

definition build_benchmark_report ::
  "string \<Rightarrow> string \<Rightarrow> string \<Rightarrow> datetime \<Rightarrow> datetime \<Rightarrow> live_configuration \<Rightarrow> case_result list \<Rightarrow> app_raise + benchmark_report" where
  "build_benchmark_report run_id model prompt_version started completed live cases =
     (if prompt_version \<noteq> ''repair-v1.0'' then Inl OtherException
      else (let r = benchmark_report_of run_id model prompt_version started completed live cases in
        if valid_counts (bm_counts r) \<and> valid_benchmark_usage (bm_aggregate_usage r) \<and> valid_benchmark_report r
        then Inr r else Inl OtherException))"

section \<open>The command\<close>

record report_publication =
  bp_json_path :: string
  bp_markdown_path :: string

definition report_path_ok :: "string \<Rightarrow> string \<Rightarrow> bool" where
  "report_path_ok path filename \<longleftrightarrow>
     (let parts = (if is_absolute path then [posix_root path] else []) @ posix_parts path in
      take 2 parts = [''.tracefix'', ''benchmarks''] \<and> length parts = 4 \<and> parts ! 3 = filename \<and> hex_string 32 (parts ! 2))"

definition valid_report_publication :: "report_publication \<Rightarrow> bool" where
  "valid_report_publication p \<longleftrightarrow>
     report_path_ok (bp_json_path p) ''report.json'' \<and> report_path_ok (bp_markdown_path p) ''report.md'' \<and>
     butlast (posix_parts (bp_json_path p)) = butlast (posix_parts (bp_markdown_path p))"

fun status_value :: "benchmark_status \<Rightarrow> string" where
  "status_value BENCHMARK_COMPLETED = ''completed''"
| "status_value BENCHMARK_FAILED = ''execution_failure''"

definition valid_benchmark_summary :: "benchmark_report \<Rightarrow> int \<Rightarrow> report_publication \<Rightarrow> bool" where
  "valid_benchmark_summary r exit_code p \<longleftrightarrow>
     exit_code = (if bm_execution_status r = BENCHMARK_COMPLETED then 0 else 6) \<and>
     posix_parts (bp_json_path p) ! 2 = bm_benchmark_run_id r"

text \<open>The counts are not negative.\<close>

definition render_benchmark_summary :: "benchmark_report \<Rightarrow> int \<Rightarrow> report_publication \<Rightarrow> string" where
  "render_benchmark_summary r exit_code p =
     ''split=development provider=openai model='' @ bm_model r @ '' attempted='' @ decimal (nat (bn_attempted (bm_counts r))) @
     '' not_run='' @ decimal (nat (bn_not_run (bm_counts r))) @
     '' repair_success='' @ decimal (nat (bn_repair_success (bm_counts r))) @
     '' repair_failure='' @ decimal (nat (bn_repair_failure (bm_counts r))) @
     '' execution_failure='' @ decimal (nat (bn_execution_failure (bm_counts r))) @
     '' status='' @ status_value (bm_execution_status r) @ '' exit_code='' @ decimal (nat exit_code) @
     '' json='' @ as_posix (bp_json_path p) @ '' markdown='' @ as_posix (bp_markdown_path p)"

record ('m, 'w) benchmark_env =
  bk_application :: "('m, 'w) app_env"
  bk_development_cases :: "('w, app_raise, trusted_case list) act"
  bk_configuration_loader :: "('w, app_raise, model_configuration) act"
  bk_live_configuration_loader :: "('w, app_raise, live_configuration) act"
  bk_live_provider_factory :: "model_configuration \<Rightarrow> live_configuration \<Rightarrow> ('w, app_raise, 'w provider) act"
  bk_write :: "benchmark_report \<Rightarrow> string \<Rightarrow> ('w, app_raise, report_publication) act"
  bk_discard :: "report_publication \<Rightarrow> string \<Rightarrow> ('w, app_raise, unit) act"
  bk_clock :: "('w, app_raise, datetime) act"
  bk_run_id :: "('w, app_raise, string) act"
  bk_invocation_directory :: "('w, app_raise, string) act"
  bk_stdout :: "string \<Rightarrow> ('w, app_raise, unit) act"
  bk_stderr :: "string \<Rightarrow> ('w, app_raise, unit) act"

definition benchmark_fails :: "('m, 'w) benchmark_env \<Rightarrow> string \<Rightarrow> ('w, int) app" where
  "benchmark_fails env message = andthen (excepting (bk_stderr env (message @ [newline])) (\<lambda>_. ret ())) (\<lambda>_. ret 6)"

definition live_settings :: "model_configuration \<Rightarrow> string \<Rightarrow> ('w, model_configuration) app" where
  "live_settings c provider_argument =
     (case apply_live_model_configuration c provider_argument of Inl _ \<Rightarrow> raise OtherException | Inr x \<Rightarrow> ret x)"

definition preflight :: "('m, 'w) benchmark_env \<Rightarrow> string \<Rightarrow>
    ('w, string \<times> datetime \<times> model_configuration \<times> live_configuration \<times> 'w provider \<times> trusted_case list) app" where
  "preflight env provider_argument =
     andthen (bk_run_id env) (\<lambda>run_id.
     andthen (bk_clock env) (\<lambda>started.
     andthen (ensure OtherException (hex_string 32 run_id)) (\<lambda>_.
     andthen (bk_configuration_loader env) (\<lambda>base.
     andthen (ensure OtherException (valid_model_configuration base)) (\<lambda>_.
     andthen (live_settings base provider_argument) (\<lambda>cfg.
     andthen (bk_live_configuration_loader env) (\<lambda>live.
     andthen (bk_live_provider_factory env cfg live) (\<lambda>first.
     andthen (bk_development_cases env) (\<lambda>cases.
     ret (run_id, started, cfg, live, first, cases))))))))))"

text \<open>The provider of the preflight serves the first case; the list \<open>providers\<close> has at most that one.\<close>

definition next_provider ::
  "('m, 'w) benchmark_env \<Rightarrow> model_configuration \<Rightarrow> live_configuration \<Rightarrow> ('w provider option \<times> 'm \<times> 'w, 'w provider) app" where
  "next_provider env cfg live = (\<lambda>(waiting, m, w).
     case waiting of
       Some p \<Rightarrow> (Inr p, (None, m, w))
     | None \<Rightarrow> (case bk_live_provider_factory env cfg live w of (r, w') \<Rightarrow> (r, (None, m, w'))))"

definition beside :: "('s, 'e, 'a) act \<Rightarrow> ('p \<times> 's, 'e, 'a) act" where
  "beside m = (\<lambda>(p, s). case m s of (r, s') \<Rightarrow> (r, (p, s')))"

definition execute_case ::
  "('m, 'w) benchmark_env \<Rightarrow> model_configuration \<Rightarrow> live_configuration \<Rightarrow> ('w provider option \<times> 'm \<times> 'w) case_runner" where
  "execute_case env cfg live c =
     andthen (next_provider env cfg live) (\<lambda>provider.
     andthen (beside (execute_trusted_case (bk_application env) c (Some cfg) (Some provider))) (\<lambda>(s, path).
     case os_terminal_route s of
       None \<Rightarrow> raise RepairExecution
     | Some route \<Rightarrow> built valid_case_execution
         \<lparr>bx_case_id = os_case_id s, bx_terminal_outcome = te_outcome route, bx_model_usage = os_model_usage s,
          bx_artifact_path = path\<rparr>))"

definition run_all ::
  "('m, 'w) benchmark_env \<Rightarrow> model_configuration \<Rightarrow> live_configuration \<Rightarrow> 'w provider \<Rightarrow> trusted_case list \<Rightarrow>
     ('m \<times> 'w, case_result list) app" where
  "run_all env cfg live first cases = (\<lambda>s.
     case run_benchmark_cases (execute_case env cfg live) cases (Some first, s) of (r, (_, s')) \<Rightarrow> (r, s'))"

definition publish_report ::
  "('m, 'w) benchmark_env \<Rightarrow> string \<Rightarrow> datetime \<Rightarrow> model_configuration \<Rightarrow> live_configuration \<Rightarrow> case_result list \<Rightarrow>
     ('w, benchmark_report \<times> int \<times> report_publication \<times> string) app" where
  "publish_report env run_id started cfg live results =
     andthen (bk_clock env) (\<lambda>completed.
     andthen (case build_benchmark_report run_id (mc_model_name cfg) (mc_prompt_version cfg) started completed live results of
         Inl e \<Rightarrow> raise e | Inr r \<Rightarrow> ret r) (\<lambda>report.
     andthen (bk_invocation_directory env) (\<lambda>directory.
     andthen (bk_write env report directory) (\<lambda>publication.
     andthen (ensure OtherException (valid_report_publication publication)) (\<lambda>_.
     let exit_code = (if bm_execution_status report = BENCHMARK_COMPLETED then 0 else 6) in
     andthen (ensure OtherException (valid_benchmark_summary report exit_code publication)) (\<lambda>_.
     ret (report, exit_code, publication, directory)))))))"

text \<open>A report whose summary cannot be printed is withdrawn, before an interrupt goes on as well.\<close>

definition announce :: "('m, 'w) benchmark_env \<Rightarrow> benchmark_report \<times> int \<times> report_publication \<times> string \<Rightarrow> ('w, int) app" where
  "announce env = (\<lambda>(report, exit_code, publication, directory).
     catch (andthen (bk_stdout env (render_benchmark_summary report exit_code publication @ [newline])) (\<lambda>_. ret exit_code))
       (\<lambda>e. andthen (excepting (bk_discard env publication directory) (\<lambda>_. ret ())) (\<lambda>_.
         if e = Stopped then raise Stopped else benchmark_fails env ''tracefix: benchmark console output failed'')))"

definition without_exception :: "('s, 'a) app \<Rightarrow> ('s, 'a option) app" where
  "without_exception m = excepting (andthen m (\<lambda>x. ret (Some x))) (\<lambda>_. ret None)"

definition benchmark :: "('m, 'w) benchmark_env \<Rightarrow> string \<Rightarrow> string \<Rightarrow> ('m \<times> 'w, int) app" where
  "benchmark env split provider_argument =
     andthen (ensure CliInput (split = ''development'' \<and> provider_argument = openai_provider_name)) (\<lambda>_.
     andthen (outside (without_exception (preflight env provider_argument))) (\<lambda>ready.
     case ready of
       None \<Rightarrow> outside (benchmark_fails env ''tracefix: benchmark preflight failed'')
     | Some (run_id, started, cfg, live, first, cases) \<Rightarrow>
         andthen (without_exception (andthen (run_all env cfg live first cases) (\<lambda>results.
            outside (publish_report env run_id started cfg live results)))) (\<lambda>published.
         case published of
           None \<Rightarrow> outside (benchmark_fails env ''tracefix: benchmark execution failed safely'')
         | Some x \<Rightarrow> outside (announce env x))))"

end
