(* ===== verification/Benchmark_Claims.thy ===== *)
theory Benchmark_Claims
  imports Benchmark Live_Claims Application_Claims
begin

text \<open>
  The properties of a benchmark: it stops at the first case that does not execute, its report can be built
  exactly when two ways to add the latencies agree, and exit code 0 stands for a published report without a
  failed execution.
\<close>

section \<open>Rounded sums\<close>

lemma round_digits_zero [simp]: "round_digits p 0 = 0"
  by (simp add: round_digits_def)

lemma round_digits_nonneg: "0 \<le> q \<Longrightarrow> 0 \<le> round_digits p q"
  by (simp add: round_digits_def Let_def round_half_even_nonneg less_imp_le)

lemma round_half_even_abs: "\<bar>of_int (round_half_even q)\<bar> \<le> \<bar>q\<bar> + 1 / 2"
  using round_half_even_error [of q] by linarith

lemma round_digits_idem:
  assumes "0 < p" shows "round_digits p (round_digits p q) = round_digits p q"
proof (cases "q = 0")
  case False
  let ?e = "ten_exponent \<bar>q\<bar> - int p + 1" and ?k = "round_half_even (q / pow10 (ten_exponent \<bar>q\<bar> - int p + 1))"
  have r: "round_digits p q = of_int ?k * pow10 ?e" using False by (simp add: round_digits_def Let_def)
  have "\<bar>q\<bar> < pow10 (ten_exponent \<bar>q\<bar> + 1)" using ten_exponent_bounds(2) [of "\<bar>q\<bar>"] False by simp
  then have "\<bar>q / pow10 ?e\<bar> < pow10 (ten_exponent \<bar>q\<bar> + 1) / pow10 ?e"
    unfolding abs_divide pow10_abs by (rule divide_strict_right_mono) simp
  also have "\<dots> = 10 ^ p" by (simp add: pow10_nat flip: pow10_diff)
  finally have "\<bar>of_int ?k :: rat\<bar> < 10 ^ p + 1" using round_half_even_abs [of "q / pow10 ?e"] by linarith
  then have "(of_int \<bar>?k\<bar> :: rat) < of_int (10 ^ p + 1)" by simp
  then have le: "\<bar>?k\<bar> \<le> 10 ^ p" unfolding of_int_less_iff by simp
  show ?thesis
  proof (cases "\<bar>?k\<bar> = 10 ^ p")
    case False
    with le have "\<bar>?k\<bar> < 10 ^ p" by simp
    then have "(of_int \<bar>?k\<bar> :: rat) < of_int (10 ^ p)" by (simp only: of_int_less_iff)
    then have "\<bar>round_digits p q\<bar> < 10 ^ p * pow10 ?e" unfolding r abs_mult pow10_abs by simp
    then show ?thesis by (intro round_digits_exact [OF r]) (simp only: pow10_add [of ?e "int p"] pow10_nat mult.commute)
  next
    case True
    then have "?k = sgn ?k * 10 ^ p" by (metis mult_sgn_abs)
    then have "(of_int ?k :: rat) = of_int (sgn ?k) * 10 ^ p" by (metis of_int_mult of_int_numeral of_int_power)
    then have s: "round_digits p q = of_int (sgn ?k) * pow10 (?e + int p)"
      unfolding r by (simp only: pow10_add pow10_nat ac_simps)
    have "\<bar>round_digits p q\<bar> \<le> pow10 (?e + int p)" unfolding s abs_mult pow10_abs by (simp add: sgn_if)
    also have "\<dots> < pow10 (?e + int p + int p)"
    proof -
      have "(1 :: rat) < 10 ^ p" using assms by (simp add: one_less_power)
      then show ?thesis unfolding pow10_add [of "?e + int p"] pow10_nat by simp
    qed
    finally show ?thesis by (intro round_digits_exact [OF s]) simp
  qed
qed simp

definition total_cost :: "case_result list \<Rightarrow> rat" where
  "total_cost cases = fold (\<lambda>r c. cost_add c (cost_of r)) cases 0"

lemma cost_add_zero: "round_digits 28 c = c \<Longrightarrow> cost_add c 0 = c"
  by (simp add: cost_add_def)

lemma cost_add_rounded: "round_digits 28 (cost_add c d) = cost_add c d"
  by (simp add: cost_add_def round_digits_idem)

lemma latency_stands_for_all: "valid_case_result r \<Longrightarrow> bc_model_latency_seconds r = None \<Longrightarrow> no_measurements r"
  by (auto simp: valid_case_result_def all_measurements_def)

lemma cost_fold:
  assumes "list_all valid_case_result cases" "round_digits 28 c = c"
  shows "fold (\<lambda>r c. cost_add c (cost_of r)) (with_latency cases) c = fold (\<lambda>r c. cost_add c (cost_of r)) cases c"
  using assms
proof (induction cases arbitrary: c)
  case (Cons r cases)
  show ?case
  proof (cases "bc_model_latency_seconds r = None")
    case True
    with Cons.prems latency_stands_for_all have "cost_of r = 0" by (auto simp: cost_of_def no_measurements_def)
    with Cons True show ?thesis by (simp add: with_latency_def cost_add_zero)
  next
    case False
    with Cons show ?thesis by (simp add: with_latency_def cost_add_rounded)
  qed
qed (simp add: with_latency_def)

lemma cost_fold_nonneg:
  assumes "list_all valid_case_result cases" "0 \<le> c"
  shows "0 \<le> fold (\<lambda>r c. cost_add c (cost_of r)) cases c"
  using assms
proof (induction cases arbitrary: c)
  case (Cons r cases)
  have "0 \<le> cost_of r" using Cons.prems(1)
    by (cases "bc_estimated_cost_usd r"; cases "the (bc_estimated_cost_usd r)")
       (auto simp: cost_of_def valid_case_result_def usd_decimal_ok_def)
  with Cons show ?case by (simp add: cost_add_def round_digits_nonneg)
qed simp

lemma tokens_sum:
  assumes "list_all valid_case_result cases" "f = bc_input_tokens \<or> f = bc_output_tokens"
  shows "(\<Sum>r\<leftarrow>with_latency cases. tokens_of (f r)) = (\<Sum>r\<leftarrow>cases. tokens_of (f r))"
  using assms
proof (induction cases)
  case (Cons r cases)
  then show ?case using latency_stands_for_all [of r]
    by (auto simp: with_latency_def no_measurements_def tokens_of_def)
qed (simp add: with_latency_def)

lemma plain_sum_nonneg:
  assumes "list_all (finite_at_least 0) xs" "finite_at_least 0 s" "finite_float (fold (\<lambda>x total. float_add total x) xs s)"
  shows "finite_at_least 0 (fold (\<lambda>x total. float_add total x) xs s)"
  using assms
proof (induction xs arbitrary: s)
  case (Cons x xs)
  have stuck: "\<not> finite_float (fold (\<lambda>x total. float_add total x) ys t)" if "\<not> finite_float t" for ys t
    using that
  proof (induction ys arbitrary: t)
    case (Cons y ys)
    have "\<not> finite_float (float_add t y)" using Cons.prems by (cases t) auto
    then show ?case using Cons.IH by simp
  qed simp
  have "finite_float (float_add s x)" using Cons.prems(3) stuck by fastforce
  then show ?case using Cons float_add_nonneg [of s x] by simp
qed simp

section \<open>The run\<close>

lemma built_Inr [simp]: "built v x s = (Inr y, s') \<longleftrightarrow> v x \<and> y = x \<and> s' = s"
  by (auto simp: built_def andthen_def ensure_def ret_def raise_def)

lemma built_Inl [simp]: "built v x s = (Inl e, s') \<longleftrightarrow> \<not> v x \<and> e = OtherException \<and> s' = s"
  by (auto simp: built_def andthen_def ensure_def ret_def raise_def)

lemma andthen_returns: "andthen m f s = (Inr y, s') \<longleftrightarrow> (\<exists>x s1. m s = (Inr x, s1) \<and> f x s1 = (Inr y, s'))"
  by (auto simp: andthen_def split: prod.splits sum.splits)

lemma ensure_returns [simp]: "ensure e b s = (Inr y, s') \<longleftrightarrow> b \<and> s' = s"
  by (auto simp: ensure_def ret_def raise_def)

lemma excepting_Inr: "excepting m h s = (Inr y, s') \<longleftrightarrow>
    m s = (Inr y, s') \<or> (\<exists>e s1. m s = (Inl e, s1) \<and> e \<noteq> Stopped \<and> h e s1 = (Inr y, s'))"
  by (auto simp: excepting_def catch_def raise_def split: prod.splits sum.splits if_splits)

lemma development_ids_ok: "list_all provider_case_id development_case_ids"
  by code_simp

lemma bare_result_valid [simp]:
  "valid_case_result (bare_result i k) \<longleftrightarrow> provider_case_id i \<and> (k = NOT_RUN \<or> k = EXECUTION_FAILED)"
  by (cases k) (auto simp: valid_case_result_def bare_result_def no_measurements_def all_measurements_def)

lemma bare_result_fields [simp]: "bc_case_id (bare_result i k) = i" "bc_classification (bare_result i k) = k"
  by (simp_all add: bare_result_def)

lemma case_result_of_fields [simp]:
  "bc_case_id (case_result_of e) = bx_case_id e" "bc_classification (case_result_of e) \<noteq> NOT_RUN"
  by (simp_all add: case_result_of_def Let_def)

lemma run_one_case_result:
  assumes "run_one_case runner c w = (Inr r, w')"
  shows "valid_case_result r \<and> bc_case_id r = case_id_of c \<and> bc_classification r \<noteq> NOT_RUN"
  using assms by (auto simp: run_one_case_def excepting_Inr andthen_returns)

text \<open>The reference: the cases run one after the other, whatever they return\<close>

fun in_turn :: "'s case_runner \<Rightarrow> trusted_case list \<Rightarrow> ('s, app_raise, case_result list) act" where
  "in_turn runner [] = ret []"
| "in_turn runner (c # cs) = andthen (run_one_case runner c) (\<lambda>r. andthen (in_turn runner cs) (\<lambda>rs. ret (r # rs)))"

definition did_run :: "case_result \<Rightarrow> bool" where
  "did_run r \<longleftrightarrow> bc_classification r \<noteq> NOT_RUN"

definition not_failed :: "case_result \<Rightarrow> bool" where
  "not_failed r \<longleftrightarrow> bc_classification r \<noteq> EXECUTION_FAILED"

text \<open>The cases up to the first failure have run, the others have not.\<close>

definition stopped_early :: "'s case_runner \<Rightarrow> trusted_case list \<Rightarrow> 's \<Rightarrow> case_result list \<Rightarrow> 's \<Rightarrow> bool" where
  "stopped_early runner cases w results w' \<longleftrightarrow> (\<exists>ran.
     in_turn runner (take (length ran) cases) w = (Inr ran, w') \<and>
     results = ran @ map (\<lambda>c. bare_result (case_id_of c) NOT_RUN) (drop (length ran) cases) \<and>
     length ran \<le> length cases \<and> list_all not_failed (butlast ran) \<and>
     (length ran < length cases \<longrightarrow> ran \<noteq> [] \<and> bc_classification (last ran) = EXECUTION_FAILED))"

lemma run_cases_failed:
  assumes "run_cases runner True cases w = (Inr results, w')"
  shows "results = map (\<lambda>c. bare_result (case_id_of c) NOT_RUN) cases \<and> w' = w \<and> list_all valid_case_result results"
  using assms by (induction cases arbitrary: results w) (auto simp: andthen_returns ret_def)

lemma run_cases_stopped_early:
  assumes "run_cases runner False cases w = (Inr results, w')"
  shows "stopped_early runner cases w results w' \<and> list_all valid_case_result results \<and>
    map bc_case_id results = map case_id_of cases"
  using assms
proof (induction cases arbitrary: results w)
  case Nil
  then show ?case by (auto simp: stopped_early_def ret_def)
next
  case (Cons c cs)
  then obtain r w1 rs where r: "run_one_case runner c w = (Inr r, w1)" and results: "results = r # rs"
    and rest: "run_cases runner (bc_classification r = EXECUTION_FAILED) cs w1 = (Inr rs, w')"
    by (auto simp: andthen_returns ret_def)
  note ok = run_one_case_result [OF r]
  show ?case
  proof (cases "bc_classification r = EXECUTION_FAILED")
    case True
    with rest have rs: "rs = map (\<lambda>c. bare_result (case_id_of c) NOT_RUN) cs" "w' = w1" "list_all valid_case_result rs"
      using run_cases_failed [of runner cs w1 rs w'] by auto
    have "stopped_early runner (c # cs) w results w'"
      unfolding stopped_early_def by (rule exI [of _ "[r]"]) (use True rs r in \<open>simp add: results andthen_def ret_def\<close>)
    then show ?thesis using rs ok by (simp add: results comp_def)
  next
    case False
    with rest have "run_cases runner False cs w1 = (Inr rs, w')" by simp
    from Cons.IH [OF this] obtain ran where ran: "in_turn runner (take (length ran) cs) w1 = (Inr ran, w')"
      "rs = ran @ map (\<lambda>c. bare_result (case_id_of c) NOT_RUN) (drop (length ran) cs)" "length ran \<le> length cs"
      "list_all not_failed (butlast ran)"
      "length ran < length cs \<longrightarrow> ran \<noteq> [] \<and> bc_classification (last ran) = EXECUTION_FAILED"
      and v: "list_all valid_case_result rs" "map bc_case_id rs = map case_id_of cs"
      unfolding stopped_early_def by blast
    have "stopped_early runner (c # cs) w results w'"
      unfolding stopped_early_def
      by (rule exI [of _ "r # ran"]) (use ran r False in \<open>auto simp: results andthen_def ret_def not_failed_def\<close>)
    then show ?thesis using v ok by (simp add: results)
  qed
qed

lemma benchmark_results:
  assumes "run_benchmark_cases runner cases w = (Inr results, w')"
  shows "stopped_early runner cases w results w' \<and> list_all valid_case_result results \<and>
    map bc_case_id results = development_case_ids"
proof -
  from assms have ids: "map case_id_of cases = development_case_ids" and run: "run_cases runner False cases w = (Inr results, w')"
    by (auto simp: run_benchmark_cases_def andthen_returns)
  show ?thesis using run_cases_stopped_early [OF run] ids by simp
qed

text \<open>C13: A benchmark stops at the first case that does not execute: its results are those of running the cases in
  turn up to and including the first execution failure, with nothing run after it and every later case reported
  as not run.  Every result satisfies its model, and there is one for each case of the development split, in order.\<close>

theorem benchmark_stops_at_the_first_failure:
  assumes "run_benchmark_cases runner cases w = (Inr results, w')"
  shows "(\<exists>ran. in_turn runner (take (length ran) cases) w = (Inr ran, w') \<and>
      results = ran @ map (\<lambda>c. bare_result (case_id_of c) NOT_RUN) (drop (length ran) cases) \<and>
      list_all not_failed (butlast ran) \<and>
      (length ran < length cases \<longrightarrow> ran \<noteq> [] \<and> bc_classification (last ran) = EXECUTION_FAILED)) \<and>
    list_all valid_case_result results \<and> map bc_case_id results = development_case_ids"
  using benchmark_results [OF assms] unfolding stopped_early_def by blast

definition development_cases :: "trusted_case list" where
  "development_cases = map (\<lambda>i. run_case\<lparr>tc_manifest := sample_manifest\<lparr>mf_case_id := i\<rparr>\<rparr>) development_case_ids"

lemma development_cases_ids: "map case_id_of development_cases = development_case_ids"
  by (simp add: development_cases_def comp_def case_id_of_def)

lemma sample_benchmark:
  "run_benchmark_cases (\<lambda>_. raise OtherException) development_cases () =
     (Inr (bare_result ''boundary_condition'' EXECUTION_FAILED #
        map (\<lambda>i. bare_result i NOT_RUN) (tl development_case_ids)), ())"
  using development_ids_ok
  by (simp add: run_benchmark_cases_def development_cases_ids andthen_def ensure_def ret_def)
     (simp add: development_cases_def development_case_ids_def run_one_case_def excepting_def catch_def andthen_def
       raise_def built_def ensure_def ret_def case_id_of_def)

theorem benchmark_stops_at_the_first_failure_witness:
  "list_all valid_case_result (bare_result ''boundary_condition'' EXECUTION_FAILED #
     map (\<lambda>i. bare_result i NOT_RUN) (tl development_case_ids))"
  using benchmark_stops_at_the_first_failure [OF sample_benchmark] by blast

section \<open>The report\<close>

lemma not_run_skipped:
  "dropWhile not_failed (map (\<lambda>c. bare_result (case_id_of c) NOT_RUN) cs) = []"
  "filter (\<lambda>r. \<not> not_failed r) (map (\<lambda>c. bare_result (case_id_of c) NOT_RUN) cs) = []"
  by (auto simp: dropWhile_eq_Nil_conv not_failed_def filter_empty_conv)

lemma stopped_early_shape:
  assumes "stopped_early runner cases w results w'"
  obtains early late where "results = early @ late" "list_all not_failed early"
    "late = [] \<or> (bc_classification (hd late) = EXECUTION_FAILED \<and> list_all (\<lambda>r. bc_classification r = NOT_RUN) (tl late))"
proof -
  from assms obtain ran where ran: "results = ran @ map (\<lambda>c. bare_result (case_id_of c) NOT_RUN) (drop (length ran) cases)"
    "length ran \<le> length cases" "list_all not_failed (butlast ran)"
    "length ran < length cases \<longrightarrow> ran \<noteq> [] \<and> bc_classification (last ran) = EXECUTION_FAILED"
    unfolding stopped_early_def by blast
  let ?skipped = "map (\<lambda>c. bare_result (case_id_of c) NOT_RUN) (drop (length ran) cases)"
  show thesis
  proof (cases "ran \<noteq> [] \<and> bc_classification (last ran) = EXECUTION_FAILED")
    case True
    then have "results = butlast ran @ (last ran # ?skipped)" using ran(1) by simp
    then show thesis using that [of "butlast ran" "last ran # ?skipped"] ran(3) True by (simp add: list_all_iff)
  next
    case False
    then have "results = ran" using ran by auto
    moreover have "list_all not_failed ran" using False ran(3)
      by (cases ran rule: rev_cases) (auto simp: not_failed_def)
    ultimately show thesis using that [of ran "[]"] by simp
  qed
qed

lemma stopped_early_fails_fast:
  assumes "stopped_early runner cases w results w'"
  shows "failed_fast results" "count_of EXECUTION_FAILED results \<le> 1"
proof -
  from assms obtain early late where s: "results = early @ late" "list_all not_failed early"
    "late = [] \<or> (bc_classification (hd late) = EXECUTION_FAILED \<and> list_all (\<lambda>r. bc_classification r = NOT_RUN) (tl late))"
    by (rule stopped_early_shape)
  have d: "dropWhile (\<lambda>r. bc_classification r \<noteq> EXECUTION_FAILED) (early @ late) =
      dropWhile (\<lambda>r. bc_classification r \<noteq> EXECUTION_FAILED) late"
    using s(2) by (intro dropWhile_append2) (simp add: list_all_iff not_failed_def)
  show "failed_fast results" unfolding failed_fast_def s(1) d using s(3) by (cases late) auto
  have e: "filter (\<lambda>r. bc_classification r = EXECUTION_FAILED) early = []"
    using s(2) by (auto simp: filter_empty_conv list_all_iff not_failed_def)
  show "count_of EXECUTION_FAILED results \<le> 1"
    using s(3) by (cases late) (auto simp: count_of_def s(1) e list_all_iff filter_empty_conv)
qed

lemma count_bounds: "0 \<le> count_of k cases" "count_of k cases \<le> int (length cases)"
  by (simp_all add: count_of_def)

lemma float_value_finite: "finite_at_least 0 x \<Longrightarrow> x = Finite (float_value x)"
  by (cases x) auto

lemma latencies_nonneg: "list_all valid_case_result cases \<Longrightarrow> list_all (finite_at_least 0) (map latency_of (with_latency cases))"
  by (auto simp: list_all_iff with_latency_def latency_of_def valid_case_result_def)

lemma tokens_of_nonneg: "opt_valid token_count_ok t \<Longrightarrow> 0 \<le> tokens_of t"
  by (cases t) (simp_all add: tokens_of_def token_count_ok_def)

lemma tokens_nonneg:
  "list_all valid_case_result cases \<Longrightarrow> 0 \<le> (\<Sum>r\<leftarrow>cases. tokens_of (bc_input_tokens r))"
  "list_all valid_case_result cases \<Longrightarrow> 0 \<le> (\<Sum>r\<leftarrow>cases. tokens_of (bc_output_tokens r))"
  by (auto intro!: sum_list_nonneg tokens_of_nonneg simp: list_all_iff valid_case_result_def)

lemma report_built:
  assumes early: "failed_fast results" "count_of EXECUTION_FAILED results \<le> 1"
    and valid: "list_all valid_case_result results" "map bc_case_id results = development_case_ids"
    and costs: "list_all (case_cost_ok live) (with_latency results)"
    and live: "valid_live_configuration live" and id: "hex_string 32 run_id" and model: "model \<noteq> []"
    and times: "utc_datetime started" "utc_datetime completed" "dt_instant started \<le> dt_instant completed"
    and tokens: "(\<Sum>r\<leftarrow>results. tokens_of (bc_input_tokens r)) \<le> 2 ^ 63 - 1" "(\<Sum>r\<leftarrow>results. tokens_of (bc_output_tokens r)) \<le> 2 ^ 63 - 1"
  defines "plain \<equiv> plain_sum (map latency_of (with_latency results))"
  shows "build_benchmark_report run_id model ''repair-v1.0'' started completed live results =
    (if finite_float plain \<and> compensated_sum (map latency_of results) = plain
     then Inr (benchmark_report_of run_id model ''repair-v1.0'' started completed live results) else Inl OtherException)"
proof -
  let ?r = "benchmark_report_of run_id model ''repair-v1.0'' started completed live results"
  have n: "length results = 5" using arg_cong [OF valid(2), of length] by (simp add: development_case_ids_def)
  then have five: "count_of k results \<le> 5" for k using count_bounds(2) [of k results] by simp
  have counts: "valid_counts (counts_of results)"
    using n five count_bounds(1) [of _ results] early(2) by (simp add: valid_counts_def counts_of_def)
  have same: "summed_usage results = validated_usage results \<longleftrightarrow> compensated_sum (map latency_of results) = plain"
    using cost_fold [OF valid(1) round_digits_zero] tokens_sum [OF valid(1)]
    by (simp add: summed_usage_def validated_usage_def plain_def)
  have usage: "valid_benchmark_usage (summed_usage results)"
    if "compensated_sum (map latency_of results) = plain" "finite_float plain"
    using that tokens tokens_nonneg [OF valid(1)] cost_fold_nonneg [OF valid(1), of 0]
      plain_sum_nonneg [OF latencies_nonneg [OF valid(1)], of "Finite 0"]
    by (simp add: valid_benchmark_usage_def summed_usage_def token_count_ok_def usd_decimal_ok_def plain_def plain_sum_def)
  have cfg: "report_configuration ?r = live"
    by (simp add: report_configuration_def benchmark_report_of_def Let_def)
  have fields: "bm_cases ?r = results" "bm_counts ?r = counts_of results" "bm_aggregate_usage ?r = summed_usage results"
    by (simp_all add: benchmark_report_of_def Let_def)
  have report: "valid_benchmark_report ?r \<longleftrightarrow> valid_benchmark_usage (summed_usage results) \<and> finite_float plain \<and>
      summed_usage results = validated_usage results"
    unfolding valid_benchmark_report_def cfg fields
    using early valid costs live id model times counts
    by (auto simp: benchmark_report_of_def Let_def supported_prompt_version_def valid_live_configuration_def
        validated_usage_def plain_def)
  show ?thesis
    unfolding build_benchmark_report_def Let_def fields report same using usage counts by auto
qed

text \<open>C14: The report of a finished benchmark is built exactly when \<open>sum\<close>, which compensates its rounding, and the
  plain additions of the validator give the same latency; every other total of the two agrees.\<close>

theorem report_needs_equal_latency_sums:
  assumes "run_benchmark_cases runner cases w = (Inr results, w')"
    and "list_all (case_cost_ok live) (with_latency results)"
    and "valid_live_configuration live" "hex_string 32 run_id" "model \<noteq> []"
    and "utc_datetime started" "utc_datetime completed" "dt_instant started \<le> dt_instant completed"
    and "(\<Sum>r\<leftarrow>results. tokens_of (bc_input_tokens r)) \<le> 2 ^ 63 - 1"
    and "(\<Sum>r\<leftarrow>results. tokens_of (bc_output_tokens r)) \<le> 2 ^ 63 - 1"
  shows "build_benchmark_report run_id model ''repair-v1.0'' started completed live results =
    (if finite_float (plain_sum (map latency_of (with_latency results))) \<and>
        compensated_sum (map latency_of results) = plain_sum (map latency_of (with_latency results))
     then Inr (benchmark_report_of run_id model ''repair-v1.0'' started completed live results) else Inl OtherException)"
proof -
  note r = benchmark_results [OF assms(1)]
  note early = stopped_early_fails_fast [OF conjunct1 [OF r]]
  show ?thesis using r by (intro report_built [OF early] assms(2-)) simp_all
qed

theorem report_needs_equal_latency_sums_witness:
  "build_benchmark_report run_token ''model'' ''repair-v1.0'' (utc_now 0) (utc_now 1) sample_live
     (bare_result ''boundary_condition'' EXECUTION_FAILED # map (\<lambda>i. bare_result i NOT_RUN) (tl development_case_ids)) =
   Inr (benchmark_report_of run_token ''model'' ''repair-v1.0'' (utc_now 0) (utc_now 1) sample_live
     (bare_result ''boundary_condition'' EXECUTION_FAILED # map (\<lambda>i. bare_result i NOT_RUN) (tl development_case_ids)))"
  by (subst report_needs_equal_latency_sums [OF sample_benchmark])
     (simp_all add: with_latency_def bare_result_def development_case_ids_def quiet_valid passing_fields(4)
       Let_def utc_datetime_def utc_now_def tokens_of_def latency_of_def plain_sum_def compensated_sum_def
       compensated_step_def round_double_def)

section \<open>Latencies that lose the report\<close>

text \<open>A case with a latency and no tokens\<close>

definition timed_case :: "string \<Rightarrow> rat \<Rightarrow> case_result" where
  "timed_case i latency =
     \<lparr>bc_case_id = i, bc_classification = REPAIR_SUCCEEDED, bc_terminal_outcome = Some SUCCESS,
      bc_model_latency_seconds = Some (Finite latency), bc_input_tokens = Some 0, bc_output_tokens = Some 0,
      bc_estimated_cost_usd = Some (Finite 0), bc_artifact_path = Some (''.tracefix/artifacts/'' @ i @ ''-'' @ run_token @ ''.json'')\<rparr>"

text \<open>The floats 0.1, 0.2 and 0.3\<close>

definition tenths :: "rat list" where
  "tenths = [3602879701896397 / 2 ^ 55, 3602879701896397 / 2 ^ 54, 5404319552844595 / 2 ^ 54, 0, 0]"

definition timed_cases :: "case_result list" where
  "timed_cases = map2 timed_case development_case_ids tenths"

lemma halves: "\<lfloor>10808639105689191 / 2 :: rat\<rfloor> = 5404319552844595" "\<lfloor>21617278211378381 / 4 :: rat\<rfloor> = 5404319552844595"
  by (simp_all add: floor_eq_iff)

lemmas rounding = halves pow2_def round_half_even_def Let_def

lemma round_double_zero [simp]: "round_double 0 = Some 0"
  by (simp add: round_double_def)

lemma tenths_round:
  "round_double (3602879701896397 / 2 ^ 55) = Some (3602879701896397 / 2 ^ 55)"
  "round_double (10808639105689191 / 2 ^ 55) = Some (5404319552844596 / 2 ^ 54)"
  "round_double (10808639105689191 / 2 ^ 54) = Some (5404319552844596 / 2 ^ 53)"
  "round_double (5404319552844596 / 2 ^ 53) = Some (5404319552844596 / 2 ^ 53)"
  "round_double (- 1801439850948199 / 2 ^ 54) = Some (- 1801439850948199 / 2 ^ 54)"
  "round_double (- 1 / 2 ^ 55) = Some (- 1 / 2 ^ 55)"
  "round_double (- 5404319552844596 / 2 ^ 54) = Some (- 5404319552844596 / 2 ^ 54)"
  "round_double (- 1 / 2 ^ 54) = Some (- 1 / 2 ^ 54)"
  "round_double (- 3 / 2 ^ 55) = Some (- 3 / 2 ^ 55)"
  "round_double (21617278211378381 / 2 ^ 55) = Some (5404319552844595 / 2 ^ 53)"
  using round_double_at [of "- 4" "3602879701896397 / 2 ^ 55" 7205759403792794]
    round_double_at [of "- 2" "10808639105689191 / 2 ^ 55" 5404319552844596]
    round_double_at [of "- 1" "10808639105689191 / 2 ^ 54" 5404319552844596]
    round_double_at [of "- 1" "5404319552844596 / 2 ^ 53" 5404319552844596]
    round_double_at [of "- 4" "- 1801439850948199 / 2 ^ 54" "- 7205759403792796"]
    round_double_at [of "- 55" "- 1 / 2 ^ 55" "- (2 ^ 52)"]
    round_double_at [of "- 2" "- 5404319552844596 / 2 ^ 54" "- 5404319552844596"]
    round_double_at [of "- 54" "- 1 / 2 ^ 54" "- (2 ^ 52)"]
    round_double_at [of "- 54" "- 3 / 2 ^ 55" "- 6755399441055744"]
    round_double_at [of "- 1" "21617278211378381 / 2 ^ 55" 5404319552844595]
  by (simp_all add: rounding)

lemma tenths_sums:
  "plain_sum (map Finite tenths) = Finite (5404319552844596 / 2 ^ 53)"
  "compensated_sum (map Finite tenths) = Finite (5404319552844595 / 2 ^ 53)"
  using tenths_round by (simp_all add: tenths_def plain_sum_def compensated_sum_def compensated_step_def Let_def)

lemma timed_paths: "list_all (\<lambda>i. benchmark_artifact_path (''.tracefix/artifacts/'' @ i @ ''-'' @ run_token @ ''.json'') i) development_case_ids"
  by code_simp

lemma timed_valid: "provider_case_id i \<Longrightarrow> 0 \<le> l \<Longrightarrow>
    benchmark_artifact_path (''.tracefix/artifacts/'' @ i @ ''-'' @ run_token @ ''.json'') i \<Longrightarrow> valid_case_result (timed_case i l)"
  by (simp add: valid_case_result_def timed_case_def token_count_ok_def usd_decimal_ok_def all_measurements_def)

lemma timed_fields [simp]:
  "bc_case_id (timed_case i l) = i" "bc_classification (timed_case i l) = REPAIR_SUCCEEDED"
  "bc_model_latency_seconds (timed_case i l) = Some (Finite l)" "bc_input_tokens (timed_case i l) = Some 0"
  "bc_output_tokens (timed_case i l) = Some 0" "bc_estimated_cost_usd (timed_case i l) = Some (Finite 0)"
  "latency_of (timed_case i l) = Finite l"
  by (simp_all add: timed_case_def latency_of_def)

lemma timed_cost: "case_cost_ok sample_live (timed_case i l)"
  using cost_is_exact [OF quiet_valid(1), of 0 0]
  by (simp add: case_cost_ok_def tokens_of_def token_count_ok_def exact_cost_def)

lemma timed_list: "timed_cases = [timed_case ''boundary_condition'' (3602879701896397 / 2 ^ 55),
    timed_case ''exception_handling'' (3602879701896397 / 2 ^ 54), timed_case ''fixture_or_mocking'' (5404319552844595 / 2 ^ 54),
    timed_case ''incorrect_conditional'' 0, timed_case ''incorrect_return_value'' 0]"
  by (simp add: timed_cases_def tenths_def development_case_ids_def)

text \<open>C15: A benchmark in which all five repairs succeed, with model latencies of 0.1, 0.2 and 0.3 seconds, has no
  report: \<open>sum\<close> gives 0.6 for them and the validator's additions 0.6000000000000001, so the report is refused.\<close>

theorem ordinary_latencies_lose_the_report:
  "list_all valid_case_result timed_cases \<and> list_all (\<lambda>r. bc_classification r = REPAIR_SUCCEEDED) timed_cases \<and>
   map bc_model_latency_seconds timed_cases =
     [Some (Finite (3602879701896397 / 2 ^ 55)), Some (Finite (3602879701896397 / 2 ^ 54)),
      Some (Finite (5404319552844595 / 2 ^ 54)), Some (Finite 0), Some (Finite 0)] \<and>
   build_benchmark_report run_token ''model'' ''repair-v1.0'' (utc_now 0) (utc_now 1) sample_live timed_cases = Inl OtherException"
proof -
  have v: "list_all valid_case_result timed_cases"
    using timed_paths development_ids_ok unfolding timed_list development_case_ids_def by (simp add: timed_valid)
  have l: "map latency_of timed_cases = map Finite tenths" by (simp add: timed_list tenths_def)
  have w: "with_latency timed_cases = timed_cases" by (simp add: timed_list with_latency_def)
  have "build_benchmark_report run_token ''model'' ''repair-v1.0'' (utc_now 0) (utc_now 1) sample_live timed_cases =
      (if finite_float (plain_sum (map latency_of (with_latency timed_cases))) \<and>
        compensated_sum (map latency_of timed_cases) = plain_sum (map latency_of (with_latency timed_cases))
       then Inr (benchmark_report_of run_token ''model'' ''repair-v1.0'' (utc_now 0) (utc_now 1) sample_live timed_cases)
       else Inl OtherException)"
    by (rule report_built [OF _ _ v])
       (simp_all add: timed_list development_case_ids_def failed_fast_def count_of_def with_latency_def timed_cost quiet_valid
         passing_fields(4) utc_datetime_def utc_now_def tokens_of_def)
  also have "\<dots> = Inl OtherException" unfolding w l tenths_sums by simp
  finally show ?thesis using v by (simp add: timed_list)
qed

section \<open>The command\<close>

lemma outside_Inr: "outside m (s, w) = (Inr y, sw) \<longleftrightarrow> (\<exists>w'. m w = (Inr y, w') \<and> sw = (s, w'))"
  by (auto simp: outside_def split: prod.splits)

lemma ret_Inr [simp]: "ret x s = (Inr y, s') \<longleftrightarrow> y = x \<and> s' = s"
  by (auto simp: ret_def)

lemma without_exception_Inr: "without_exception m s = (Inr (Some x), s') \<longleftrightarrow> m s = (Inr x, s')"
  by (auto simp: without_exception_def excepting_Inr andthen_returns)

lemma benchmark_fails_six: "benchmark_fails env message w = (Inr n, w') \<Longrightarrow> n = 6"
  by (auto simp: benchmark_fails_def andthen_returns)

lemma build_Inr:
  assumes "build_benchmark_report run_id model prompt_version started completed live results = Inr r"
  shows "valid_benchmark_report r \<and> bm_cases r = results"
  using assms by (auto simp: build_benchmark_report_def Let_def benchmark_report_of_def split: if_splits)

lemma case_sum_ret: "(case r of Inl e \<Rightarrow> raise e | Inr x \<Rightarrow> ret x) s = (Inr y, s') \<longleftrightarrow> r = Inr y \<and> s' = s"
  by (cases r) (auto simp: raise_def ret_def)

lemma publish_report_Inr:
  assumes "publish_report env run_id started cfg live results w = (Inr (report, n, p, d), w')"
  shows "valid_benchmark_report report \<and> bm_cases report = results \<and>
    n = (if bm_execution_status report = BENCHMARK_COMPLETED then 0 else 6) \<and> valid_report_publication p \<and>
    (\<exists>w1. bk_write env report d w1 = (Inr p, w'))"
  using assms build_Inr unfolding publish_report_def by (fastforce simp: andthen_returns case_sum_ret Let_def)

lemma announce_Inr:
  assumes "announce env (report, n, p, d) w = (Inr k, w')"
  shows "(k = n \<and> bk_stdout env (render_benchmark_summary report n p @ [newline]) w = (Inr (), w')) \<or> k = 6"
  using assms benchmark_fails_six
  by (fastforce simp: announce_def catch_def andthen_def ret_def raise_def split: prod.splits sum.splits if_splits)

lemma in_turn_did_run: "in_turn runner cs w = (Inr rs, w') \<Longrightarrow> list_all did_run rs"
proof (induction cs arbitrary: rs w)
  case (Cons c cs)
  then obtain r w1 rest where r: "run_one_case runner c w = (Inr r, w1)" "in_turn runner cs w1 = (Inr rest, w')" "rs = r # rest"
    by (auto simp: andthen_returns)
  from Cons.IH [OF r(2)] run_one_case_result [OF r(1)] r(3) show ?case by (simp add: did_run_def)
qed simp

text \<open>The cases of a completed report have all run to the end.\<close>

lemma completed_cases:
  assumes early: "stopped_early runner cases w results w'" and r: "valid_benchmark_report r" "bm_cases r = results"
    "bm_execution_status r = BENCHMARK_COMPLETED"
  shows "list_all (\<lambda>x. bc_classification x = REPAIR_SUCCEEDED \<or> bc_classification x = REPAIR_FAILED) results"
proof -
  from early obtain ran where ran: "in_turn runner (take (length ran) cases) w = (Inr ran, w')"
    "results = ran @ map (\<lambda>c. bare_result (case_id_of c) NOT_RUN) (drop (length ran) cases)"
    "length ran < length cases \<longrightarrow> ran \<noteq> [] \<and> bc_classification (last ran) = EXECUTION_FAILED"
    unfolding stopped_early_def by blast
  have "count_of EXECUTION_FAILED results = 0"
    using r by (auto simp: valid_benchmark_report_def counts_of_def status_of_def split: if_splits)
  then have none: "list_all not_failed results"
    by (auto simp: count_of_def filter_empty_conv list_all_iff not_failed_def)
  have "\<not> length ran < length cases"
  proof
    assume "length ran < length cases"
    with ran(3) have "last ran \<in> set ran" "bc_classification (last ran) = EXECUTION_FAILED" by auto
    with none ran(2) show False by (auto simp: list_all_iff not_failed_def)
  qed
  then have "list_all did_run results" using in_turn_did_run [OF ran(1)] ran(2) by simp
  moreover have "bc_classification x = REPAIR_SUCCEEDED \<or> bc_classification x = REPAIR_FAILED" if "did_run x" "not_failed x" for x
    using that by (cases "bc_classification x") (auto simp: did_run_def not_failed_def)
  ultimately show ?thesis using none by (auto simp: list_all_iff)
qed

lemma run_all_completed:
  assumes "run_all env cfg live first cases s = (Inr results, s')" "valid_benchmark_report r" "bm_cases r = results"
    "bm_execution_status r = BENCHMARK_COMPLETED"
  shows "list_all (\<lambda>x. bc_classification x = REPAIR_SUCCEEDED \<or> bc_classification x = REPAIR_FAILED) results"
proof -
  from assms(1) obtain w1 where "run_benchmark_cases (execute_case env cfg live) cases (Some first, s) = (Inr results, w1)"
    by (auto simp: run_all_def split: prod.splits)
  from benchmark_results [OF this] have "stopped_early (execute_case env cfg live) cases (Some first, s) results w1" by blast
  then show ?thesis by (rule completed_cases [OF _ assms(2-4)])
qed

lemma outside_fails: "outside (benchmark_fails env message) s = (Inr n, s') \<Longrightarrow> n = 6"
  using benchmark_fails_six by (cases s) (fastforce simp: outside_Inr)

lemma benchmark_published:
  assumes "benchmark env split provider (m, w) = (Inr n, (m', w'))" "n \<noteq> 6"
  obtains first cases cfg live results run_id started report k p d s1 m1 w1 w2 where
    "run_all env cfg live first cases s1 = (Inr results, (m1, w1))"
    "publish_report env run_id started cfg live results w1 = (Inr (report, k, p, d), w2)"
    "announce env (report, k, p, d) w2 = (Inr n, w')"
proof -
  from assms(1) obtain ready s1 where
    rest: "(case ready of None \<Rightarrow> outside (benchmark_fails env ''tracefix: benchmark preflight failed'')
      | Some (run_id, started, cfg, live, first, cases) \<Rightarrow>
          andthen (without_exception (andthen (run_all env cfg live first cases) (\<lambda>results.
             outside (publish_report env run_id started cfg live results)))) (\<lambda>published.
          case published of
            None \<Rightarrow> outside (benchmark_fails env ''tracefix: benchmark execution failed safely'')
          | Some x \<Rightarrow> outside (announce env x))) s1 = (Inr n, (m', w'))"
    unfolding benchmark_def andthen_returns by blast
  have "ready \<noteq> None"
  proof
    assume "ready = None"
    with rest have "outside (benchmark_fails env ''tracefix: benchmark preflight failed'') s1 = (Inr n, (m', w'))"
      by (simp only: option.case)
    from outside_fails [OF this] assms(2) show False by simp
  qed
  then obtain run_id started cfg live first cases where ready: "ready = Some (run_id, started, cfg, live, first, cases)"
    by (cases ready) auto
  from rest [unfolded ready option.case prod.case andthen_returns] obtain published s2 where
    run: "without_exception (andthen (run_all env cfg live first cases) (\<lambda>results.
             outside (publish_report env run_id started cfg live results))) s1 = (Inr published, s2)"
    and last: "(case published of
            None \<Rightarrow> outside (benchmark_fails env ''tracefix: benchmark execution failed safely'')
          | Some x \<Rightarrow> outside (announce env x)) s2 = (Inr n, (m', w'))" by blast
  have "published \<noteq> None"
  proof
    assume "published = None"
    with last have "outside (benchmark_fails env ''tracefix: benchmark execution failed safely'') s2 = (Inr n, (m', w'))"
      by (simp only: option.case)
    from outside_fails [OF this] assms(2) show False by simp
  qed
  then obtain report k p d where published: "published = Some (report, k, p, d)"
    by (cases published) auto
  obtain m2 w2 where s2: "s2 = (m2, w2)" by (cases s2)
  from run [unfolded published without_exception_Inr andthen_returns] obtain results s3 where
    r: "run_all env cfg live first cases s1 = (Inr results, s3)"
    "outside (publish_report env run_id started cfg live results) s3 = (Inr (report, k, p, d), s2)" by blast
  obtain m3 w3 where s3: "s3 = (m3, w3)" by (cases s3)
  from r(2) have "publish_report env run_id started cfg live results w3 = (Inr (report, k, p, d), w2)"
    unfolding s2 s3 outside_Inr by blast
  moreover from last have "announce env (report, k, p, d) w2 = (Inr n, w')"
    unfolding published s2 option.case outside_Inr by blast
  ultimately show thesis using that r(1) unfolding s3 by blast
qed

lemma benchmark_zero:
  assumes "benchmark env split provider (m, w) = (Inr n, (m', w'))" "n \<noteq> 6"
  shows "n = 0 \<and> (\<exists>report p d w1 w2. bk_write env report d w1 = (Inr p, w2) \<and>
      bk_stdout env (render_benchmark_summary report 0 p @ [newline]) w2 = (Inr (), w') \<and>
      valid_benchmark_report report \<and> valid_report_publication p \<and>
      list_all (\<lambda>r. bc_classification r = REPAIR_SUCCEEDED \<or> bc_classification r = REPAIR_FAILED) (bm_cases report))"
proof -
  obtain first cases cfg live results run_id started report k p d s1 m1 w1 w2 where
    run: "run_all env cfg live first cases s1 = (Inr results, (m1, w1))"
    and published: "publish_report env run_id started cfg live results w1 = (Inr (report, k, p, d), w2)"
    and said: "announce env (report, k, p, d) w2 = (Inr n, w')"
    by (rule benchmark_published [OF assms])
  from announce_Inr [OF said] assms(2) have stdout: "k = n"
    "bk_stdout env (render_benchmark_summary report n p @ [newline]) w2 = (Inr (), w')" by auto
  with publish_report_Inr [OF published] assms(2) have r: "valid_benchmark_report report" "bm_cases report = results"
    "bm_execution_status report = BENCHMARK_COMPLETED" "valid_report_publication p" "n = 0"
    "\<exists>w1. bk_write env report d w1 = (Inr p, w2)"
    by (auto split: if_splits)
  then show ?thesis using stdout(2) run_all_completed [OF run r(1-3)] by blast
qed

text \<open>What raises nothing but an interrupt\<close>

definition only_stops :: "('s, app_raise, 'a) act \<Rightarrow> bool" where
  "only_stops m \<longleftrightarrow> (\<forall>s e s'. m s = (Inl e, s') \<longrightarrow> e = Stopped)"

named_theorems stops_intro \<open>actions that raise nothing but an interrupt\<close>

lemma only_stops_ret [stops_intro]: "only_stops (ret x)"
  by (simp add: only_stops_def ret_def)

lemma only_stops_andthen [stops_intro]: "only_stops m \<Longrightarrow> (\<And>x. only_stops (f x)) \<Longrightarrow> only_stops (andthen m f)"
  unfolding only_stops_def andthen_def by (fastforce split: prod.splits sum.splits)

lemma only_stops_excepting [stops_intro]: "(\<And>e. only_stops (h e)) \<Longrightarrow> only_stops (excepting m h)"
  unfolding only_stops_def excepting_def catch_def raise_def by (fastforce split: prod.splits sum.splits if_splits)

lemma only_stops_outside [stops_intro]: "only_stops m \<Longrightarrow> only_stops (outside m)"
  unfolding only_stops_def outside_def by (fastforce split: prod.splits)

lemma only_stops_without_exception [stops_intro]: "only_stops (without_exception m)"
  unfolding without_exception_def by (intro stops_intro)

lemma only_stops_fails [stops_intro]: "only_stops (benchmark_fails env message)"
  unfolding benchmark_fails_def by (intro stops_intro)

lemma only_stops_raise [stops_intro]: "only_stops (raise Stopped)"
  by (simp add: only_stops_def raise_def)

lemma only_stops_if [stops_intro]: "(b \<Longrightarrow> only_stops m) \<Longrightarrow> (\<not> b \<Longrightarrow> only_stops n) \<Longrightarrow> only_stops (if b then m else n)"
  by simp

lemma only_stops_catch [stops_intro]: "(\<And>e. only_stops (h e)) \<Longrightarrow> only_stops (catch m h)"
  unfolding only_stops_def catch_def by (fastforce split: prod.splits sum.splits)

lemma only_stops_announce [stops_intro]: "only_stops (announce env x)"
  unfolding announce_def by (cases x) (simp, intro stops_intro)

lemma benchmark_stops:
  assumes "benchmark env split provider s = (Inl e, s')"
  shows "if split = ''development'' \<and> provider = openai_provider_name then e = Stopped else e = CliInput \<and> s' = s"
proof (cases "split = ''development'' \<and> provider = openai_provider_name")
  case True
  have "only_stops (case ready of
       None \<Rightarrow> outside (benchmark_fails env ''tracefix: benchmark preflight failed'')
     | Some (run_id, started, cfg, live, first, cases) \<Rightarrow>
         andthen (without_exception (andthen (run_all env cfg live first cases) (\<lambda>results.
            outside (publish_report env run_id started cfg live results)))) (\<lambda>published.
         case published of
           None \<Rightarrow> outside (benchmark_fails env ''tracefix: benchmark execution failed safely'')
         | Some x \<Rightarrow> outside (announce env x)))" for ready
    by (auto intro!: stops_intro split: option.splits prod.splits)
  then have "only_stops (benchmark env split provider)"
    using True unfolding benchmark_def by (intro only_stops_andthen) (auto intro: stops_intro simp: ensure_def)
  then have "e = Stopped" using assms unfolding only_stops_def by blast
  with True show ?thesis by simp
next
  case False
  with assms have "e = CliInput \<and> s' = s"
    by (simp only: benchmark_def andthen_def ensure_def if_False raise_def prod.case sum.case prod.inject sum.inject)
  with False show ?thesis by simp
qed

text \<open>C18: The benchmark command ends in one of three ways.  It refuses other arguments before anything happens; it is
  interrupted; or it returns 0 or 6, and 0 stands for a published report, announced on the console, in which every
  case was repaired or not and none failed to execute.\<close>

theorem benchmark_tells_the_truth:
  "case benchmark env split provider (m, w) of
     (Inl e, s) \<Rightarrow>
       if split = ''development'' \<and> provider = openai_provider_name then e = Stopped else e = CliInput \<and> s = (m, w)
   | (Inr n, (m', w')) \<Rightarrow>
       if n = 6 then True
       else n = 0 \<and> (\<exists>report p d w1 w2. bk_write env report d w1 = (Inr p, w2) \<and>
         bk_stdout env (render_benchmark_summary report 0 p @ [newline]) w2 = (Inr (), w') \<and>
         valid_benchmark_report report \<and> valid_report_publication p \<and>
         list_all (\<lambda>r. bc_classification r = REPAIR_SUCCEEDED \<or> bc_classification r = REPAIR_FAILED) (bm_cases report))"
proof -
  obtain r m' w' where run: "benchmark env split provider (m, w) = (r, (m', w'))" by (rule prod_cases3)
  show ?thesis
  proof (cases r)
    case (Inl e)
    with run have "benchmark env split provider (m, w) = (Inl e, (m', w'))" by simp
    from benchmark_stops [OF this] show ?thesis unfolding run Inl prod.case sum.case .
  next
    case (Inr n)
    with run have b: "benchmark env split provider (m, w) = (Inr n, (m', w'))" by simp
    show ?thesis using benchmark_zero [OF b] unfolding run Inr prod.case sum.case by (auto split: if_splits)
  qed
qed

end
