(* ===== verification/Static_Cleanup_Claims.thy ===== *)
theory Static_Cleanup_Claims
  imports Static_Service_Facts Runner_Facts
begin

text \<open>
  The life of the tree that \<open>StaticValidationService\<close> makes: the calls that make, move and remove it, with
  their success, as they are seen at the filesystem and not in the variables of the service.  The locale
  \<open>tree_log\<close> is the interface of a filesystem whose calls are recorded; it is interpreted on every environment
  whose world is extended by a record.
\<close>

section \<open>The life of a tree\<close>

text \<open>\<open>RemovalRaised\<close>: the removal was asked for and raised.  A publication that raises leaves the tree where it was, for
  the service: it is the staging tree that the service then removes.\<close>

datatype tree_event =
    TreeMade string dir_identity | TreeMoved string dir_identity string dir_identity
  | TreeRemoved string dir_identity | RemovalRaised string dir_identity

datatype tree_fate = NoTree | There string dir_identity | Gone | Stuck string dir_identity

inductive tree_run :: "tree_event list \<Rightarrow> tree_fate \<Rightarrow> bool" where
  start: "tree_run [] NoTree"
| made: "tree_run es NoTree \<Longrightarrow> tree_run (es @ [TreeMade p i]) (There p i)"
| moved: "tree_run es (There p i) \<Longrightarrow> tree_run (es @ [TreeMoved p i q j]) (There q j)"
| removed: "tree_run es fate \<Longrightarrow> fate \<in> {There p i, Stuck p i} \<Longrightarrow> tree_run (es @ [TreeRemoved p i]) Gone"
| stuck: "tree_run es fate \<Longrightarrow> fate \<in> {There p i, Stuck p i} \<Longrightarrow> tree_run (es @ [RemovalRaised p i]) (Stuck p i)"

text \<open>The tree of a \<open>cleanup_target\<close>, before and after a failed removal\<close>

fun known_tree :: "(string \<times> dir_identity) option \<Rightarrow> tree_fate" where
  "known_tree None = NoTree"
| "known_tree (Some (p, i)) = There p i"

fun stuck_tree :: "(string \<times> dir_identity) option \<Rightarrow> tree_fate" where
  "stuck_tree None = NoTree"
| "stuck_tree (Some (p, i)) = Stuck p i"

section \<open>Recorded filesystems\<close>

locale tree_log =
  fixes env :: "'w static_env" and log :: "'w \<Rightarrow> tree_event list"
  assumes made: "se_make_directory env p w = (r, w') \<Longrightarrow>
      log w' = log w @ (case r of Inl _ \<Rightarrow> [] | Inr i \<Rightarrow> [TreeMade p i])"
    and moved: "se_publish env p q i w = (r, w') \<Longrightarrow>
      log w' = log w @ (case r of Inl _ \<Rightarrow> [] | Inr j \<Rightarrow> [TreeMoved p i q j])"
    and removed: "se_remove_tree env p i w = (done', w') \<Longrightarrow>
      log w' = log w @ [case done' of Inl _ \<Rightarrow> RemovalRaised p i | Inr _ \<Rightarrow> TreeRemoved p i]"
    and silent: "leaves log (se_path_taken env p)" "leaves log (se_snapshot env p k)" "leaves log (se_copy_snapshot env t p i)"
      "leaves log (se_write_file env p i f d c)" "leaves log (se_delete_file env p i f)" "leaves log (se_fingerprint env p)"
      "leaves log (se_runner env p fs)" "leaves log (se_identifier env)"
begin

text \<open>The recorded tree is the one that the service knows.\<close>

definition at_tree :: "(string \<times> dir_identity) option \<Rightarrow> 'w service_state \<Rightarrow> bool" where
  "at_tree t s \<longleftrightarrow> sv_cleanup s = t \<and>
     tree_run (log (sv_world s)) (known_tree t)"

text \<open>What an exception leaves to the handlers: the tree that the service knows, perhaps after a failed removal\<close>

definition pending :: "'w service_state \<Rightarrow> bool" where
  "pending s \<longleftrightarrow>
     tree_run (log (sv_world s)) (known_tree (sv_cleanup s)) \<or> tree_run (log (sv_world s)) (stuck_tree (sv_cleanup s))"

text \<open>How a return leaves the tree\<close>

definition fits :: "static_result \<Rightarrow> tree_fate \<Rightarrow> bool" where
  "fits res fate \<longleftrightarrow>
     (if st_outcome res = STATIC_PASSED then \<exists>c i. st_candidate res = Some c \<and> fate = There (vc_repository c) i
      else fate = NoTree \<or> fate = Gone \<or>
        (\<exists>p i. fate = Stuck p i \<and> st_diagnostic res = Some (diagnostic_of CLEANUP_FAILED)))"

definition settled :: "static_result \<Rightarrow> 'w service_state \<Rightarrow> bool" where
  "settled res s \<longleftrightarrow> (\<exists>fate. tree_run (log (sv_world s)) fate \<and> fits res fate)"

text \<open>How an interrupt leaves the tree: not made, removed, or after a removal that failed\<close>

definition given_up :: "raised \<Rightarrow> 'w service_state \<Rightarrow> bool" where
  "given_up e s \<longleftrightarrow>
     (e = RaisedInterrupt \<longrightarrow> (\<exists>fate. tree_run (log (sv_world s)) fate \<and> fate \<notin> range (case_prod There)))"

lemma at_tree_pending: "at_tree t s \<Longrightarrow> pending s"
  by (auto simp: at_tree_def pending_def split: option.splits)

abbreviation keeps :: "(string \<times> dir_identity) option \<Rightarrow> ('w, 'a) service \<Rightarrow> bool" where
  "keeps t m \<equiv> triple (at_tree t) m (\<lambda>_. at_tree t) (\<lambda>_. at_tree t)"

lemma keeps_world: "leaves log m \<Longrightarrow> keeps t (on_world m)"
proof (rule tripleI)
  fix s :: "'w service_state" assume m: "leaves log m" and s: "at_tree t s"
  obtain r w where r: "m (sv_world s) = (r, w)" by (rule that, rule surjective_pairing)
  with m have "log w = log (sv_world s)" unfolding leaves_def by (metis snd_conv)
  with r s show "case on_world m s of (Inl e, s') \<Rightarrow> at_tree t s' | (Inr x, s') \<Rightarrow> at_tree t s'"
    by (cases r) (simp_all add: on_world_def at_tree_def)
qed

lemma keeps_plain:
  "keeps t (from_world f)" "keeps t (ensure e b)" "keeps t (set_check i c)" "keeps t (ret x)" "keeps t (raise e)"
  "keeps t (map_language_checks g)" "keeps t (store_tool_results rs)" "keeps t (gets h)"
  by (auto simp: triple_def from_world_def ensure_def set_check_def modify_def ret_def raise_def gets_def map_language_checks_def
      store_tool_results_def at_tree_def split: sum.splits)

lemma keeps_seq:
  "keeps t m \<Longrightarrow> (\<And>x. triple (at_tree t) (f x) Q (\<lambda>_. at_tree t)) \<Longrightarrow> triple (at_tree t) (andthen m f) Q (\<lambda>_. at_tree t)"
  by (rule triple_andthen)

lemmas keeps_silent = silent [THEN keeps_world]

lemma keeps_checks:
  "keeps t (same_fingerprint env d v)" "keeps t (same_snapshot env d k snap)" "keeps t (path_free env p)"
  unfolding same_fingerprint_def same_snapshot_def path_free_def by (intro keeps_seq keeps_silent keeps_plain)+

lemmas keeps_rules = keeps_seq keeps_silent keeps_plain keeps_checks

section \<open>Cleaning up\<close>

lemma infrastructure_world:
  "infrastructure k s = (r, s') \<Longrightarrow> sv_world s' = sv_world s \<and> sv_cleanup s' = sv_cleanup s \<and>
     (case r of Inl e \<Rightarrow> e = RaisedOther
      | Inr res \<Rightarrow> st_outcome res = STATIC_INFRASTRUCTURE \<and> st_diagnostic res = Some (diagnostic_of k))"
  by (auto simp: infrastructure_def andthen_def gets_def modify_def construct_def ret_def raise_def
      infrastructure_result_def split: if_split_asm)

lemma infrastructure_keeps:
  "triple pending (infrastructure k) (\<lambda>res s. pending s \<and> st_outcome res \<noteq> STATIC_PASSED) (\<lambda>e s. pending s \<and> e = RaisedOther)"
  by (rule tripleI) (auto simp: pending_def dest!: infrastructure_world split: prod.splits sum.splits)

lemma removal:
  assumes "pending s" "sv_cleanup s = Some (p, i)" "se_remove_tree env p i (sv_world s) = (r, w)"
  shows "tree_run (log w) (case r of Inl _ \<Rightarrow> Stuck p i | Inr _ \<Rightarrow> Gone)"
  using assms removed [OF assms(3)] tree_run.removed [of "log (sv_world s)" _ p i] tree_run.stuck [of "log (sv_world s)" _ p i]
  by (cases r) (auto simp: pending_def)

lemma cleanup_settles:
  assumes "st_outcome res \<noteq> STATIC_PASSED"
  shows "triple pending (cleanup_or_result env res) (\<lambda>r. settled r) (\<lambda>e s. pending s \<and> given_up e s)"
proof (rule tripleI)
  fix s :: "'w service_state" assume s: "pending s"
  show "case cleanup_or_result env res s of (Inl e, s') \<Rightarrow> pending s' \<and> given_up e s' | (Inr r, s') \<Rightarrow> settled r s'"
  proof (cases "sv_cleanup s")
    case None
    with s assms show ?thesis
      by (auto simp: cleanup_or_result_def andthen_def gets_def ret_def settled_def fits_def pending_def)
  next
    case (Some t)
    obtain p i where t: "sv_cleanup s = Some (p, i)" using Some by (cases t) simp
    obtain x w where x: "se_remove_tree env p i (sv_world s) = (x, w)" by (rule that, rule surjective_pairing)
    note fate = removal [OF s t x]
    show ?thesis
    proof (cases x)
      case (Inr u)
      have "settled res (s\<lparr>sv_world := w\<rparr>)" using fate Inr assms by (auto simp: settled_def fits_def)
      with t x Inr show ?thesis
        by (simp add: cleanup_or_result_def andthen_def gets_def ret_def catch_def on_world_def)
    next
      case (Inl e)
      let ?cs = "sv_checks s"
      let ?j = "first_index_or_zero (\<lambda>c. cr_status c \<in> {NOT_RUN, PASSED}) ?cs"
      let ?s = "s\<lparr>sv_world := w, sv_checks := ?cs[?j := check_infrastructure (cr_check (?cs ! ?j)) CLEANUP_FAILED]\<rparr>"
      have st: "tree_run (log w) (Stuck p i)" using fate Inl by simp
      obtain r s' where i: "infrastructure CLEANUP_FAILED ?s = (r, s')" by (rule that, rule surjective_pairing)
      have "case r of Inl e \<Rightarrow> pending s' \<and> given_up e s' | Inr v \<Rightarrow> settled v s'"
        using infrastructure_world [OF i] st t by (cases r) (auto simp: pending_def settled_def fits_def given_up_def)
      moreover have "pending (s\<lparr>sv_world := w\<rparr>) \<and> given_up e' (s\<lparr>sv_world := w\<rparr>)" for e'
        using st t by (auto simp: pending_def given_up_def)
      ultimately show ?thesis
        using t x Inl i
        by (cases r)
           (auto simp: cleanup_or_result_def andthen_def gets_def catch_def on_world_def raise_def Let_def set_check_def
              modify_def split: if_splits)
    qed
  qed
qed

definition ends :: "('a \<Rightarrow> 'w service_state \<Rightarrow> bool) \<Rightarrow> static_result + 'a \<Rightarrow> 'w service_state \<Rightarrow> bool" where
  "ends H r s \<longleftrightarrow> (case r of Inl v \<Rightarrow> settled v s | Inr x \<Rightarrow> H x s)"

lemma returns_settle:
  "triple pending (return_infrastructure env k) (ends H) (\<lambda>_. pending)"
  "triple pending (return_candidate_failed env) (ends H) (\<lambda>_. pending)"
proof -
  have last: "triple (\<lambda>s. pending s \<and> st_outcome res \<noteq> STATIC_PASSED) (andthen (cleanup_or_result env res) (\<lambda>r. ret (Inl r)))
      (ends H) (\<lambda>_. pending)" for res
    by (cases "st_outcome res = STATIC_PASSED", simp add: triple_def,
        rule triple_andthen [where R = settled, OF triple_weaken [OF cleanup_settles]]) (auto simp: ends_def intro!: triple_ret)
  show "triple pending (return_infrastructure env k) (ends H) (\<lambda>_. pending)" unfolding return_infrastructure_def
    by (rule triple_andthen [OF triple_weaken [OF infrastructure_keeps] last]) auto
  have failed: "triple pending candidate_failed (\<lambda>res s. pending s \<and> st_outcome res \<noteq> STATIC_PASSED) (\<lambda>_. pending)"
    by (simp add: triple_def candidate_failed_def andthen_def gets_def construct_def ret_def raise_def candidate_failed_result_def)
  show "triple pending (return_candidate_failed env) (ends H) (\<lambda>_. pending)" unfolding return_candidate_failed_def
    by (rule triple_andthen [OF failed last])
qed

section \<open>The phases\<close>

abbreviation moves :: "(string \<times> dir_identity) option \<Rightarrow> ('w, static_result + 'a) service \<Rightarrow> ('a \<Rightarrow> 'w service_state \<Rightarrow> bool) \<Rightarrow> bool" where
  "moves t m H \<equiv> triple (at_tree t) m (ends H) (\<lambda>_. pending)"

lemma then_moves:
  "keeps t m \<Longrightarrow> (\<And>x. triple (at_tree t) (f x) Q (\<lambda>_. pending)) \<Longrightarrow> triple (at_tree t) (andthen m f) Q (\<lambda>_. pending)"
  by (rule triple_andthen [where R = "\<lambda>_. at_tree t"], erule triple_weaken) (auto intro: at_tree_pending)

lemma go_on: "(\<And>s. at_tree t s \<Longrightarrow> H x s) \<Longrightarrow> triple (at_tree t) (ret (Inr x)) (ends H) E"
  by (rule triple_ret) (simp add: ends_def)

text \<open>The body of a phase and its handlers\<close>

lemma caught:
  "triple (at_tree t) m Q (\<lambda>_. pending) \<Longrightarrow> (\<And>e. triple pending (h e) Q (\<lambda>_. pending)) \<Longrightarrow> triple (at_tree t) (catch m h) Q (\<lambda>_. pending)"
  by (rule triple_catch)

lemma pending_then:
  "triple pending (andthen (set_check i c) f) Q E" if "\<And>x. triple pending (f x) Q E"
  by (rule triple_andthen [where R = "\<lambda>_. pending"], simp add: triple_def set_check_def modify_def pending_def) (rule that)

lemma pending_map:
  "triple pending (andthen (map_language_checks g) f) Q E" if "\<And>x. triple pending (f x) Q E"
  by (rule triple_andthen [where R = "\<lambda>_. pending"], simp add: triple_def map_language_checks_def modify_def pending_def) (rule that)

lemma pending_raise: "triple pending (raise e) Q (\<lambda>_. pending)" by (rule triple_raise)

lemmas handler_rules = triple_if pending_then pending_map pending_raise returns_settle

lemma preparation_moves: "moves None (preparation_phase env v) (\<lambda>x. at_tree None)"
  unfolding preparation_phase_def
proof (rule triple_catch [where R = "\<lambda>_. at_tree None"])
  show "triple (at_tree None) (if e \<in> {RaisedOs, RaisedFilesystem}
      then andthen (infrastructure PREPARATION_INVALID) (\<lambda>res. ret (Inl res)) else raise e)
      (ends (\<lambda>x. at_tree None)) (\<lambda>_. pending)" for e
    by (rule tripleI)
       (auto simp: andthen_def ret_def raise_def ends_def settled_def fits_def at_tree_def pending_def
          dest!: infrastructure_world split: prod.splits sum.splits)
qed (intro keeps_rules go_on)

lemma make_moves:
  assumes "\<And>i. triple (at_tree (Some (p, i))) (g i) Q (\<lambda>_. pending)"
  shows "triple (at_tree None) (andthen (on_world (se_make_directory env p)) (\<lambda>i. andthen (set_cleanup (Some (p, i))) (\<lambda>_. g i)))
    Q (\<lambda>_. pending)"
proof (rule triple_andthen [where R = "\<lambda>i s. tree_run (log (sv_world s)) (There p i)"])
  show "triple (at_tree None) (on_world (se_make_directory env p)) (\<lambda>i s. tree_run (log (sv_world s)) (There p i)) (\<lambda>_. pending)"
    by (rule tripleI) (auto simp: on_world_def at_tree_def pending_def dest!: made intro: tree_run.made split: prod.splits sum.splits)
  show "triple (\<lambda>s. tree_run (log (sv_world s)) (There p i)) (andthen (set_cleanup (Some (p, i))) (\<lambda>_. g i)) Q (\<lambda>_. pending)" for i
    by (rule triple_andthen [where R = "\<lambda>_. at_tree (Some (p, i))"], simp add: triple_def set_cleanup_def modify_def at_tree_def)
       (rule assms)
qed

lemma publish_moves':
  assumes "\<And>j. triple (at_tree (Some (q, j))) (g j) Q (\<lambda>_. pending)"
  shows "triple (at_tree (Some (p, i))) (andthen (on_world (se_publish env p q i)) (\<lambda>j. andthen (set_cleanup (Some (q, j))) (\<lambda>_. g j)))
    Q (\<lambda>_. pending)"
proof (rule triple_andthen [where R = "\<lambda>j s. tree_run (log (sv_world s)) (There q j)"])
  show "triple (at_tree (Some (p, i))) (on_world (se_publish env p q i)) (\<lambda>j s. tree_run (log (sv_world s)) (There q j)) (\<lambda>_. pending)"
    by (rule tripleI) (auto simp: on_world_def at_tree_def pending_def dest!: moved intro: tree_run.moved split: prod.splits sum.splits)
  show "triple (\<lambda>s. tree_run (log (sv_world s)) (There q j)) (andthen (set_cleanup (Some (q, j))) (\<lambda>_. g j)) Q (\<lambda>_. pending)" for j
    by (rule triple_andthen [where R = "\<lambda>_. at_tree (Some (q, j))"], simp add: triple_def set_cleanup_def modify_def at_tree_def)
       (rule assms)
qed

lemma absolute_child: "is_absolute p \<Longrightarrow> is_absolute (child_path p name)"
  by (cases p) (auto simp: is_absolute_def child_path_def as_posix_def posix_root_def Let_def split: if_splits)

lemma validate_root_absolute: "validate_root env p source w = Inr r \<Longrightarrow> is_absolute r"
  by (auto simp: validate_root_def split: if_splits option.splits)

definition staged :: "string \<times> dir_identity \<times> string \<Rightarrow> 'w service_state \<Rightarrow> bool" where
  "staged x s \<longleftrightarrow> (case x of (staging, identity, published) \<Rightarrow> is_absolute published \<and> at_tree (Some (staging, identity)) s)"

lemma workspace_moves: "moves None (workspace_phase env v source pristine) staged"
  unfolding workspace_phase_def
proof (rule caught)
  have root: "triple (at_tree None) (from_world (validate_root env (sq_candidate_workspace_root v) (Some source)))
      (\<lambda>workspace s. is_absolute workspace \<and> at_tree None s) (\<lambda>_. pending)"
    by (rule tripleI) (auto simp: from_world_def dest: validate_root_absolute intro: at_tree_pending split: sum.splits)
  have rest: "triple (at_tree None) (andthen (on_world (se_identifier env)) (\<lambda>identifier.
      andthen (ensure RaisedFilesystem (hex_string 32 identifier)) (\<lambda>_.
      let staging = child_path workspace (''.tracefix-static-'' @ identifier @ ''.staging'');
          published = child_path workspace (''tracefix-candidate-'' @ identifier) in
      andthen (path_free env staging) (\<lambda>_.
      andthen (path_free env published) (\<lambda>_.
      andthen (on_world (se_make_directory env staging)) (\<lambda>identity.
      andthen (set_cleanup (Some (staging, identity))) (\<lambda>_.
      andthen (on_world (se_copy_snapshot env pristine staging identity)) (\<lambda>_.
      andthen (same_snapshot env source None pristine) (\<lambda>_.
      andthen (same_fingerprint env source v) (\<lambda>_.
        ret (Inr (staging, identity, published)))))))))))) (ends staged) (\<lambda>_. pending)"
    if "is_absolute workspace" for workspace
    unfolding Let_def
    by (intro then_moves keeps_silent keeps_plain keeps_checks make_moves go_on)
       (simp add: staged_def absolute_child that)
  show "triple (at_tree None) (andthen (from_world (validate_root env (sq_candidate_workspace_root v) (Some source))) (\<lambda>workspace.
      andthen (on_world (se_identifier env)) (\<lambda>identifier.
      andthen (ensure RaisedFilesystem (hex_string 32 identifier)) (\<lambda>_.
      let staging = child_path workspace (''.tracefix-static-'' @ identifier @ ''.staging'');
          published = child_path workspace (''tracefix-candidate-'' @ identifier) in
      andthen (path_free env staging) (\<lambda>_.
      andthen (path_free env published) (\<lambda>_.
      andthen (on_world (se_make_directory env staging)) (\<lambda>identity.
      andthen (set_cleanup (Some (staging, identity))) (\<lambda>_.
      andthen (on_world (se_copy_snapshot env pristine staging identity)) (\<lambda>_.
      andthen (same_snapshot env source None pristine) (\<lambda>_.
      andthen (same_fingerprint env source v) (\<lambda>_.
        ret (Inr (staging, identity, published))))))))))))) (ends staged) (\<lambda>_. pending)"
    by (rule triple_andthen [OF root], rule triple_assume, erule rest)
qed (intro handler_rules)

lemma apply_patch_keeps: "keeps t (apply_patch env staging identity pristine fs)"
proof (induction fs)
  case (Cons f fs)
  have "keeps t (case r of None \<Rightarrow> on_world (se_delete_file env staging identity (df_path f))
        | Some data \<Rightarrow> on_world (se_write_file env staging identity (df_path f) data b))" for r b
    by (cases r) (simp_all add: keeps_silent)
  with Cons show ?case unfolding apply_patch.simps Let_def by (intro keeps_seq keeps_plain) auto
qed (simp add: keeps_plain)

lemma middle_moves:
  "moves t (apply_phase env staging identity pristine parsed) (\<lambda>x. at_tree t)"
  "moves t (changed_phase env staging identity pristine paths) (\<lambda>x. at_tree t)"
  "moves t (integrity_phase env v source pristine staging identity before) (\<lambda>x. at_tree t)"
  unfolding apply_phase_def changed_phase_def integrity_phase_def
  by (intro caught then_moves apply_patch_keeps keeps_silent keeps_plain keeps_checks go_on handler_rules, assumption)+

lemma runner_moves: "moves t (runner_phase env staging python_paths) (\<lambda>x. at_tree t)"
  unfolding runner_phase_def
  by (intro triple_if [of "python_paths = []"] caught then_moves keeps_silent keeps_plain go_on handler_rules)

lemma decide_moves: "moves t (decide_phase env) (\<lambda>x. at_tree t)"
proof -
  have r: "triple (at_tree t) (return_infrastructure env k) (ends (\<lambda>x. at_tree t)) (\<lambda>_. pending)"
    "triple (at_tree t) (return_candidate_failed env) (ends (\<lambda>x. at_tree t)) (\<lambda>_. pending)" for k
    by (rule triple_weaken [OF returns_settle(1)], auto intro: at_tree_pending,
        rule triple_weaken [OF returns_settle(2)], auto intro: at_tree_pending)
  show ?thesis unfolding decide_phase_def by (intro then_moves keeps_plain triple_if r go_on)
qed

lemma fingerprint_snapshot_valid: "fingerprint_snapshot sha es = Inr f \<Longrightarrow> valid_fingerprint f"
  by (auto simp: fingerprint_snapshot_def Let_def split: option.splits if_splits)

definition published_at :: "string \<Rightarrow> repository_fingerprint \<Rightarrow> 'w service_state \<Rightarrow> bool" where
  "published_at published f s \<longleftrightarrow> valid_fingerprint f \<and> (\<exists>j. at_tree (Some (published, j)) s)"

lemma publish_moves:
  "moves (Some (staging, identity)) (publish_phase env v source pristine staging identity published before) (published_at published)"
  unfolding publish_phase_def
proof (rule caught)
  have f: "triple (at_tree t) (from_world (\<lambda>_. fingerprint_snapshot (se_sha256 env) snap))
      (\<lambda>f s. valid_fingerprint f \<and> at_tree t s) (\<lambda>_. pending)" for t snap
    by (rule tripleI) (auto simp: from_world_def dest: fingerprint_snapshot_valid intro: at_tree_pending split: sum.splits)
  have rest: "triple (at_tree (Some (published, j))) (andthen (same_snapshot env source None pristine) (\<lambda>_.
      andthen (same_fingerprint env source v) (\<lambda>_. ret (Inr f)))) (ends (published_at published)) (\<lambda>_. pending)"
    if "valid_fingerprint f" for j f
    using that by (intro then_moves keeps_checks go_on) (auto simp: published_at_def)
  show "triple (at_tree (Some (staging, identity))) (andthen (on_world (se_publish env staging published identity)) (\<lambda>published_identity.
      andthen (set_cleanup (Some (published, published_identity))) (\<lambda>_.
      andthen (on_world (se_snapshot env published (Some published_identity))) (\<lambda>snap.
      andthen (ensure RaisedFilesystem (snap = before)) (\<lambda>_.
      andthen (from_world (\<lambda>_. fingerprint_snapshot (se_sha256 env) snap)) (\<lambda>f.
      andthen (same_snapshot env source None pristine) (\<lambda>_.
      andthen (same_fingerprint env source v) (\<lambda>_. ret (Inr f))))))))) (ends (published_at published)) (\<lambda>_. pending)"
    by (rule publish_moves', rule then_moves [OF keeps_silent(2)], rule then_moves [OF keeps_plain(2)],
        rule triple_andthen [OF f], rule triple_assume, erule rest)
qed (intro handler_rules)

section \<open>The whole method\<close>

abbreviation finishes :: "('w service_state \<Rightarrow> bool) \<Rightarrow> ('w, static_result + static_result) service \<Rightarrow> bool" where
  "finishes P m \<equiv> triple P m (ends (\<lambda>x s. False)) (\<lambda>_. pending)"

text \<open>The facts about the checks and about the tree, side by side\<close>

lemma phase_both:
  assumes "triple (at_checks X) m (phase_post G) E" "moves t m H"
    "\<And>x Y. G Y \<Longrightarrow> finishes (\<lambda>s. H x s \<and> at_checks Y s) (f x)"
  shows "finishes (\<lambda>s. at_tree t s \<and> at_checks X s) (phase m f)"
proof (rule tripleI)
  fix s :: "'w service_state" assume s: "at_tree t s \<and> at_checks X s"
  obtain r s' where m: "m s = (r, s')" by (rule that, rule surjective_pairing)
  have c: "r = Inr x \<Longrightarrow> phase_post G x s'" "r = Inr x \<Longrightarrow> ends H x s'" "r = Inl e \<Longrightarrow> pending s'" for x e
    using assms(1,2) s m by (auto simp: triple_def split: prod.splits)
  show "case phase m f s of (Inl e, s') \<Rightarrow> pending s' | (Inr x, s') \<Rightarrow> ends (\<lambda>x s. False) x s'"
  proof (cases r)
    case (Inr v)
    show ?thesis
    proof (cases v)
      case (Inr x)
      have "G (sv_checks s')" "H x s'" using c(1,2) [of v] \<open>r = Inr v\<close> Inr by (auto simp: phase_post_def ends_def)
      then have "case f x s' of (Inl e, s') \<Rightarrow> pending s' | (Inr x, s') \<Rightarrow> ends (\<lambda>x s. False) x s'"
        using assms(3) [of "sv_checks s'" x] by (auto simp: triple_def at_checks_def)
      with m \<open>r = Inr v\<close> Inr show ?thesis by (simp add: phase_def andthen_def)
    qed (use m c(2) \<open>r = Inr v\<close> in \<open>auto simp: phase_def andthen_def ret_def ends_def\<close>)
  qed (use m c(3) in \<open>auto simp: phase_def andthen_def\<close>)
qed

lemma passed_finishes:
  assumes "checks_pass Y" "is_absolute published"
  shows "finishes (\<lambda>s. published_at published f s \<and> at_checks Y s) (passed_result published f)"
proof (rule tripleI)
  fix s :: "'w service_state" assume s: "published_at published f s \<and> at_checks Y s"
  let ?c = "\<lparr>vc_repository = published, vc_fingerprint = f\<rparr>"
  let ?r = "\<lparr>st_outcome = STATIC_PASSED, st_checks = Y, st_candidate = Some ?c, st_diagnostic = None\<rparr>"
  from s obtain j where f: "valid_fingerprint f" "tree_run (log (sv_world s)) (There published j)" "sv_checks s = Y"
    by (auto simp: published_at_def at_tree_def at_checks_def)
  have c: "valid_candidate ?c" using f(1) assms(2) by (simp add: valid_candidate_def)
  have "settled ?r (s\<lparr>sv_cleanup := None\<rparr>)" using f(2) by (auto simp: settled_def fits_def)
  with c passed_result_valid [OF assms(1) c] f(3)
  show "case passed_result published f s of (Inl e, s') \<Rightarrow> pending s' | (Inr x, s') \<Rightarrow> ends (\<lambda>x s. False) x s'"
    by (simp add: passed_result_def andthen_def set_cleanup_def modify_def gets_def construct_def ret_def ends_def)
qed

lemma validate_body_finishes:
  "finishes (\<lambda>s. at_tree None s \<and> at_checks blank_checks s) (validate_body env request)"
proof (cases "validate_inputs request")
  case None
  then show ?thesis
    by (simp add: validate_body_def, intro tripleI)
       (auto simp: andthen_def ret_def ends_def settled_def fits_def at_tree_def pending_def
          dest!: infrastructure_world split: prod.splits sum.splits)
next
  case (Some r)
  obtain v paths parsed where r: "r = (v, paths, parsed)" by (cases r)
  have after: "finishes (\<lambda>s. staged (staging, identity, published) s \<and> at_checks Y s)
      (phase (apply_phase env staging identity pristine parsed) (\<lambda>_.
       phase (changed_phase env staging identity pristine paths) (\<lambda>(before, python_paths).
       phase (runner_phase env staging python_paths) (\<lambda>_.
       phase (integrity_phase env v source pristine staging identity before) (\<lambda>_.
       phase (decide_phase env) (\<lambda>_.
       phase (publish_phase env v source pristine staging identity published before) (\<lambda>f. passed_result published f)))))))"
    if "Y = blank_checks" for Y source pristine staging identity published
  proof (cases "is_absolute published")
    case True
    have "finishes (\<lambda>s. at_tree (Some (staging, identity)) s \<and> at_checks blank_checks s)
      (phase (apply_phase env staging identity pristine parsed) (\<lambda>_.
       phase (changed_phase env staging identity pristine paths) (\<lambda>(before, python_paths).
       phase (runner_phase env staging python_paths) (\<lambda>_.
       phase (integrity_phase env v source pristine staging identity before) (\<lambda>_.
       phase (decide_phase env) (\<lambda>_.
       phase (publish_phase env v source pristine staging identity published before) (\<lambda>f. passed_result published f)))))))"
      by (rule phase_both [OF apply_triple middle_moves(1)], hypsubst, rule phase_both [OF changed_triple middle_moves(2)],
          hypsubst, rule triple_prod, rule phase_both [OF runner_triple runner_moves],
          rule phase_both [OF integrity_triple middle_moves(3)], assumption,
          rule phase_both [OF decide_triple decide_moves], assumption,
          rule phase_both [OF publish_triple publish_moves], assumption, rule passed_finishes [OF _ True], assumption)
    then show ?thesis unfolding that by (rule triple_weaken) (auto simp: staged_def)
  qed (simp add: triple_def staged_def)
  show ?thesis unfolding validate_body_def Some r option.case prod.case
    by (rule phase_both [OF preparation_triple preparation_moves], hypsubst, rule triple_prod,
        rule phase_both [OF workspace_triple workspace_moves], rule triple_prod, rule triple_prod, simp only:, rule after) (rule refl)
qed

lemma pending_interrupt:
  "triple pending (andthen (gets sv_cleanup) (\<lambda>target. case target of
                None \<Rightarrow> raise RaisedInterrupt
              | Some (p, i) \<Rightarrow> catch (andthen (on_world (se_remove_tree env p i)) (\<lambda>_. raise RaisedInterrupt))
                  (\<lambda>_. raise RaisedInterrupt))) settled given_up"
proof (rule tripleI)
  fix s :: "'w service_state" assume s: "pending s"
  show "case andthen (gets sv_cleanup) (\<lambda>target. case target of
                None \<Rightarrow> raise RaisedInterrupt
              | Some (p, i) \<Rightarrow> catch (andthen (on_world (se_remove_tree env p i)) (\<lambda>_. raise RaisedInterrupt))
                  (\<lambda>_. raise RaisedInterrupt)) s of (Inl e, s') \<Rightarrow> given_up e s' | (Inr x, s') \<Rightarrow> settled x s'"
  proof (cases "sv_cleanup s")
    case None
    with s show ?thesis by (auto simp: andthen_def gets_def raise_def given_up_def pending_def)
  next
    case (Some t)
    obtain p i where t: "sv_cleanup s = Some (p, i)" using Some by (cases t) simp
    obtain x w where x: "se_remove_tree env p i (sv_world s) = (x, w)" by (rule that, rule surjective_pairing)
    from removal [OF s t x] have "given_up RaisedInterrupt (s\<lparr>sv_world := w\<rparr>)"
      by (cases x) (auto simp: given_up_def)
    with t x show ?thesis by (cases x) (simp_all add: andthen_def gets_def raise_def catch_def on_world_def)
  qed
qed

lemma validate_finishes:
  "triple (\<lambda>s. at_tree None s \<and> at_checks blank_checks s) (validate env request) settled given_up"
  unfolding validate_def
proof (rule triple_catch [where R = "\<lambda>_. pending"])
  show "triple (\<lambda>s. at_tree None s \<and> at_checks blank_checks s) (andthen (validate_body env request)
      (\<lambda>r. case r of Inl res \<Rightarrow> ret res | Inr res \<Rightarrow> ret res)) settled (\<lambda>_. pending)"
    by (rule triple_andthen [OF validate_body_finishes]) (auto simp: ends_def triple_def ret_def split: sum.splits)
  have "triple pending (andthen (infrastructure FILESYSTEM_FAILED) (cleanup_or_result env)) settled given_up"
  proof (rule triple_andthen [where R = "\<lambda>res s. st_outcome res \<noteq> STATIC_PASSED \<and> pending s",
        OF triple_weaken [OF infrastructure_keeps]])
    show "triple (\<lambda>s. st_outcome res \<noteq> STATIC_PASSED \<and> pending s) (cleanup_or_result env res) settled given_up" for res
      by (rule triple_assume) (rule triple_weaken [OF cleanup_settles], auto)
  qed (auto simp: given_up_def)
  then show "triple pending (if e = RaisedInterrupt then
            andthen (gets sv_cleanup) (\<lambda>target. case target of
                None \<Rightarrow> raise RaisedInterrupt
              | Some (p, i) \<Rightarrow> catch (andthen (on_world (se_remove_tree env p i)) (\<lambda>_. raise RaisedInterrupt))
                  (\<lambda>_. raise RaisedInterrupt))
          else andthen (infrastructure FILESYSTEM_FAILED) (cleanup_or_result env)) settled given_up" for e
    by (intro triple_if pending_interrupt)
qed

lemma run_finishes:
  assumes "log w = []" "run_validate env request w = (r, s)"
  obtains fate where "tree_run (log (sv_world s)) fate"
    "case r of Inl _ \<Rightarrow> fate \<notin> range (case_prod There) | Inr res \<Rightarrow> fits res fate"
proof -
  let ?s = "initial_service_state w"
  have "at_tree None ?s" "at_checks blank_checks ?s"
    using assms(1) tree_run.start by (simp_all add: at_tree_def at_checks_def initial_service_state_def)
  with validate_finishes [of request] validate_triple [of env request] assms(2)
  have "case r of Inl e \<Rightarrow> given_up e s \<and> interrupted e s | Inr res \<Rightarrow> settled res s"
    by (cases r) (auto simp: run_validate_def triple_def dest!: spec [of _ ?s])
  with that show ?thesis by (cases r) (auto simp: given_up_def interrupted_def settled_def)
qed

end

section \<open>The recording filesystem\<close>

definition watched :: "'w static_env \<Rightarrow> ('w \<times> tree_event list) static_env" where
  "watched env = \<lparr>
     se_root_facts = (\<lambda>p (w, l). se_root_facts env p w), se_resolve = (\<lambda>p (w, l). se_resolve env p w),
     se_home = se_home env, se_project = se_project env,
     se_path_taken = (\<lambda>p. beside_log (se_path_taken env p)), se_snapshot = (\<lambda>p k. beside_log (se_snapshot env p k)),
     se_make_directory = (\<lambda>p (w, l). case se_make_directory env p w of
         (Inl e, w') \<Rightarrow> (Inl e, (w', l)) | (Inr i, w') \<Rightarrow> (Inr i, (w', l @ [TreeMade p i]))),
     se_copy_snapshot = (\<lambda>t p i. beside_log (se_copy_snapshot env t p i)),
     se_write_file = (\<lambda>p i f d c. beside_log (se_write_file env p i f d c)),
     se_delete_file = (\<lambda>p i f. beside_log (se_delete_file env p i f)),
     se_publish = (\<lambda>p q i (w, l). case se_publish env p q i w of
         (Inl e, w') \<Rightarrow> (Inl e, (w', l)) | (Inr j, w') \<Rightarrow> (Inr j, (w', l @ [TreeMoved p i q j]))),
     se_remove_tree = (\<lambda>p i (w, l). case se_remove_tree env p i w of
         (Inl e, w') \<Rightarrow> (Inl e, (w', l @ [RemovalRaised p i])) | (Inr u, w') \<Rightarrow> (Inr u, (w', l @ [TreeRemoved p i]))),
     se_fingerprint = (\<lambda>p. beside_log (se_fingerprint env p)), se_runner = (\<lambda>p fs. beside_log (se_runner env p fs)),
     se_identifier = beside_log (se_identifier env), se_sha256 = se_sha256 env, se_set_order = se_set_order env\<rparr>"

interpretation watched: tree_log "watched env" snd
  by unfold_locales (auto simp: watched_def beside_log_leaves split: prod.splits sum.splits)

section \<open>The property\<close>

text \<open>C20: The calls of a run that make, move and remove a tree, recorded at the filesystem, are the life of at most one tree:
  made at the staging path, moved at most once, then removed.  After a pass the tree is there, at the path of the
  candidate; after every other return no tree was made, or it was removed where it was, or its removal raised and the
  result carries the cleanup-failed diagnostic; after an interrupt no tree is there whose removal was not asked for.\<close>

theorem static_validation_cleans_up:
  "case run_validate (watched env) request (w, []) of (r, s) \<Rightarrow>
     \<exists>fate. tree_run (snd (sv_world s)) fate \<and>
       (case r of
          Inl _ \<Rightarrow> fate \<notin> range (case_prod There)
        | Inr res \<Rightarrow>
            if st_outcome res = STATIC_PASSED then \<exists>c i. st_candidate res = Some c \<and> fate = There (vc_repository c) i
            else fate = NoTree \<or> fate = Gone \<or>
              (\<exists>p i. fate = Stuck p i \<and> st_diagnostic res = Some (diagnostic_of CLEANUP_FAILED)))"
proof -
  obtain r s where x: "run_validate (watched env) request (w, []) = (r, s)" by (rule that, rule surjective_pairing)
  show ?thesis unfolding x prod.case
    by (rule watched.run_finishes [OF _ x, unfolded watched.fits_def], simp, blast)
qed

end
