(* ===== verification/Spec2Isabelle.thy ===== *)
theory Spec2Isabelle
  imports Patch_Apply_Facts Fingerprint_Facts Static_Service_Facts Verification_Claims Evaluation_Claims
    Routing_Claims Policy_Claims Classification_Claims Case_Loader_Claims Baseline_Claims Model_Config
    Planning_Claims Case_State_Claims Graph_Claims Context_Claims Runner_Claims
    Container_Claims Application_Claims Workspace_Claims Live_Claims Benchmark_Claims
    Static_Cleanup_Claims
begin

text \<open>
  A verification development for tracefix, an agent that repairs one failing Python repository: a
  model proposes a unified diff, and deterministic gates decide whether the diff is a repair.

  \<^bold>\<open>The program.\<close>  The orchestration graph of \<open>app/agent/graph.py\<close> runs one attempt: it prepares a
  copy of a benchmark case (\<open>benchmarks/loader.py\<close>), reproduces the declared failure
  (\<open>baseline.py\<close>), classifies it (\<open>classification.py\<close>), selects context, asks a model for a plan and a
  patch (\<open>model.py\<close>, \<open>planning.py\<close>), and then gates the patch: \<open>patches.py\<close> parses the diff,
  \<open>policy.py\<close> decides which changes are allowed, \<open>static_checks.py\<close> applies the patch to a staging copy
  and runs the static checks, \<open>verification.py\<close> runs the targeted, visible and hidden tests on the
  candidate, \<open>app/evaluation/deterministic/candidate.py\<close> evaluates it and \<open>routing.py\<close> maps the evidence
  to a terminal outcome and a process exit code.  The tests and checks run in Docker containers, which
  the three runners of \<open>app/sandbox\<close> create, attach to and remove; \<open>docker/static-checks/runner.py\<close> is the
  program inside the container of the static checks.  \<open>cli.py\<close> makes the workspaces of a run, runs the
  graph, writes its artifact (\<open>artifacts.py\<close>) and turns the outcome into an exit code; its other command
  runs the development cases with a live model (\<open>live_model.py\<close>) and reports on them (\<open>benchmark.py\<close>).

  \<^bold>\<open>Theories.\<close>

  \<^item> \<open>Prelude\<close>: Python strings (Latin-1), digits, lines, floats, sums of errors, ordering lemmas;
    \<open>Bytes\<close>: byte strings and UTF-8; \<open>Floats\<close>: binary64 rounding and \<open>math.fsum\<close>; \<open>Paths\<close>:
    \<open>PurePosixPath\<close> and the repository-path gate of \<open>patches.py\<close>; \<open>Effects\<close>: state passing with
    raises, and triples over it.
  \<^item> \<open>Patches\<close>: \<open>parse_unified_diff\<close> as the line machine of the source, and
    \<open>parse_binary_diff_paths\<close>.  \<open>Patch_Facts\<close>: the locale \<open>line_machine\<close> states what an invariant of
    the machine has to satisfy; it is interpreted for well-formedness and for cleanness of the lines.
  \<^item> \<open>Patch_Apply\<close>: \<open>_decode_source\<close> and \<open>_apply_file_patch\<close> of \<open>static_checks.py\<close>.
    \<open>Patch_Apply_Facts\<close>: the relation \<open>patched\<close> is the specification of applying hunks; reversal and
    byte round trips follow from it.
  \<^item> \<open>Schemas\<close>: the records of \<open>schemas.py\<close> and \<open>sandbox/results.py\<close>, each with a predicate
    \<open>valid_...\<close> for its validators (collected in \<open>valid_defs\<close>).
  \<^item> \<open>Policy_Model\<close>: violations, policies, the path rules and \<open>_result\<close> of \<open>policy.py\<close>.  \<open>Regex\<close>: the
    part of Python's \<open>re\<close> that the sources use.  \<open>Policy_Content\<close>: the content rules (secrets,
    tests, assertions, subprocesses, dependencies) and \<open>validate_patch_policy\<close>; the Python parser is the
    parameter \<open>python_front_end\<close>.  \<open>Policy_Claims\<close>: approval is exactly the conjunction of the rules.
  \<^item> \<open>Static_Model\<close>, \<open>Static_Service\<close>: the results of the static gate and of its container, the
    snapshot fingerprint and \<open>StaticValidationService.validate\<close>.  The state is the mutable part of the
    method (the list of checks, the tree to clean up) over a world \<open>'w\<close>; the boundaries
    (filesystem, fingerprinter, runner, identifier factory) are the record \<open>static_env\<close> of arbitrary
    functions.  \<open>Static_Service_Facts\<close>: validity of every result.
    \<open>Static_Cleanup_Claims\<close>: the locale \<open>tree_log\<close> is the interface of a filesystem whose calls on trees are
    recorded, interpreted on \<open>watched\<close>, any \<open>static_env\<close> with a record beside its world; the recorded calls
    of a run are the life of one tree, which is published or removed.  \<open>Fingerprint_Facts\<close>: the hashed
    framing is injective.
  \<^item> \<open>Verification\<close>: stage results, the short-circuit topology and \<open>VerificationService.verify\<close> over
    the record \<open>verify_env\<close>.  \<open>Verification_Facts\<close>, \<open>Verification_Claims\<close>: validity of every result,
    which errors escape, isolation of the hidden tests, and the short-circuit specification.
  \<^item> \<open>Evaluation\<close>, \<open>Evaluation_Claims\<close>: \<open>evaluate_candidate\<close>; \<open>Routing\<close>, \<open>Routing_Claims\<close>:
    outcomes, exit codes, consistency of evidence, \<open>route_terminal\<close>.
  \<^item> \<open>Json\<close>: what strict validation accepts of a parsed JSON value.  \<open>Case_Loader\<close>, \<open>Case_Loader_Claims\<close>:
    \<open>loader.py\<close> over the record \<open>case_files\<close> of file-system questions; containment of every loaded path.
  \<^item> \<open>Baseline\<close>, \<open>Baseline_Claims\<close>: \<open>BaselineExecutor.run\<close>; when a failure counts as reproduced.
    \<open>Classification\<close>, \<open>Classification_Claims\<close>: the signals, the redaction and \<open>classify_failure\<close>; \<open>names_withheld\<close> says,
    without regular expressions, which output is not quoted.
  \<^item> \<open>Context_Read\<close>, \<open>Context_Evidence\<close>, \<open>Context_Collect\<close>, \<open>Context_Select\<close>: \<open>context.py\<close> over the
    record \<open>context_env\<close>: the guarded reading of one file, the traceback frames of the evidence, the
    definitions, imports and local modules that a frame pulls in (over syntax trees; the parser is a
    parameter), the packing into the byte budget and \<open>ContextSelector.select\<close>.  \<open>Context_Facts\<close>: the locale
    \<open>context_reader\<close> is the interface between reading and collecting, interpreted on the guarded reader.
    \<open>Context_Run\<close> is a sample selection; \<open>Context_Claims\<close>: what a package may show (\<open>shows_only_readable\<close>
    ties each text to the bytes of the file at its path), what the packing keeps and records, and three inputs on which the selection fails.
  \<^item> \<open>Model_Config\<close>: \<open>load_model_configuration\<close>.  \<open>Planning\<close>, \<open>Planning_Claims\<close>: prompts with their
    delimiters, the provider call, the parsing of plan and patch, and the envelope check.
    \<open>Case_State\<close>, \<open>Case_State_Claims\<close>: the transitions of the case state as a step relation, and the
    evidence each status stands for.
  \<^item> \<open>Graph_State\<close>: \<open>OrchestrationState\<close> with its validator, cut along its checks, and the functions that
    replace a state.  \<open>Graph\<close>: the dependencies (\<open>graph_env\<close>), the eleven nodes with their handlers, the
    edges and the run.  \<open>Graph_Facts\<close>: what holds before each node (\<open>ready\<close>), that every node and every
    handler re-establishes it, and where each result came from (\<open>certified\<close>).  \<open>Graph_Claims\<close>: a run ends,
    exit code 0 is earned, and an interrupted run can be recorded.
  \<^item> \<open>File_Stat\<close>, \<open>Docker\<close>, \<open>Code_Points\<close>: file modes, the commands and answers the runners share, and
    decoding with replacement.  \<open>Static_Runner\<close>, \<open>Sandbox_Runner\<close>, \<open>Verification_Runner\<close>: the three
    runners over the record \<open>runner_env\<close>.  \<open>Runner_Facts\<close>, \<open>Runner_Lives\<close>: the locale \<open>docker_log\<close> is the
    interface of a Docker adapter whose commands are logged with their success, interpreted as \<open>recording\<close> on
    the adapter of the code with a log beside the world; \<open>Runner_Claims\<close>: the commands of a run are the life
    of one container, a run that returns has removed it by a command that succeeded, and what the arguments
    allow the container.
  \<^item> \<open>Container_Checks\<close>, \<open>Container_Claims\<close>: the program in the container over the record \<open>check_env\<close>; the
    host accepts whatever it writes, and it writes unless one of its calls raises outside its handlers.
  \<^item> \<open>Artifacts\<close>, \<open>Artifact_Claims\<close>: the artifact of a run, its validators and its projection from a state.
    \<open>Application\<close>, \<open>Application_Claims\<close>: \<open>RepairApplication\<close> and \<open>main\<close> with every handler, over
    \<open>app_env\<close>; what an exit code stands for.  \<open>Os_Files\<close>: the file operations as a record \<open>os_env\<close>.
    \<open>Workspaces\<close>, \<open>Workspace_Claims\<close>: \<open>LocalWorkspaceManager\<close>; the locale \<open>workspace_manager\<close> states what the
    command needs of a manager; it is interpreted on the local manager with a record of its calls, and
    \<open>workspaces_over\<close> says which records a run may leave.
  \<^item> \<open>Decimals\<close>: decimal rounding to a precision, and plain and compensated sums of floats.  \<open>Live_Model\<close>,
    \<open>Live_Claims\<close>: \<open>live_model.py\<close>; the estimated cost is exact and the accounting moves with the answers.
    \<open>Benchmark\<close>, \<open>Benchmark_Claims\<close>: \<open>benchmark.py\<close> and the benchmark command; the run stops at the first
    execution failure, and when its report can be built.

  \<^bold>\<open>Correspondence.\<close>  A class is a record whose fields carry a prefix of the class; its
  validators are the predicate \<open>valid_...\<close>, so that constructing an instance is a check of the
  predicate.  An enumeration is a datatype.  A raise is the left of a sum (\<open>bindE\<close>) or, in a service,
  the raise of the state-passing functions of \<open>Effects\<close>; \<open>except\<close> is \<open>catch\<close>.  A method with early
  returns is cut into phases which return (\<open>Inl\<close>) or continue (\<open>Inr\<close>).  Type checks on model fields
  are the types of the records.  A \<open>Path\<close> is its text; a float is a rational or one of the three
  special values; a \<open>Decimal\<close> is its value; a set whose iteration order matters takes the order as a
  parameter.

  \<^bold>\<open>Bounds.\<close>  Strings range over the characters of HOL, the code points below 256, on which white
  space, \<open>casefold\<close> (with one exception explained in \<open>Prelude\<close>) and UTF-8 are exact.  The loops of the
  source are structural on their lines, hunks, entries or paths, with exceptions that have a
  termination proof or a sufficient fuel: the delimiter search of the prompts (fewer candidates are
  taken than the content has characters), the run of the graph (the rank of the node descends along
  every edge), the packing (every round drops an item), the selection of related definitions (every round
  visits a definition or drops a pending name), and the star of a regular expression (the fuel is the length of the rest of the text,
  and every repeated group of the source consumes a character).  The recursion of the context collection
  over local modules has the remaining depth of the interpreter's stack as fuel: at zero it raises the
  \<open>RecursionError\<close> of the interpreter, so the fuel is part of the behaviour; the same holds for the recursion
  of \<open>tree_identities\<close>.  The fuel of \<open>walk_tree\<close> is the number of levels that the longest path leaves; a deeper
  listing fails in the operating system and is skipped by \<open>os.walk\<close>.  \<open>write_all\<close> ends because every round
  writes.  In \<open>text_of_points\<close> a code point from 256 on is shown as a question mark.

  \<^bold>\<open>Not modelled.\<close>  The operating system, Docker, the parsers of Python and JSON, the model provider and its
  package are parameters (\<open>case_files\<close>, \<open>baseline_env\<close>, \<open>context_env\<close>, \<open>static_env\<close>, \<open>verify_env\<close>, \<open>graph_env\<close>,
  \<open>runner_env\<close>, \<open>check_env\<close>, \<open>app_env\<close>, \<open>os_env\<close>, \<open>sdk_env\<close>, \<open>live_env\<close>, \<open>benchmark_env\<close>).  Left out are the
  classes behind those interfaces that only call the file system (\<open>LocalStaticFilesystem\<close>,
  \<open>LocalCandidateFilesystem\<close>, \<open>LocalEvaluatorBundleFilesystem\<close>, \<open>LocalContextFilesystem\<close>,
  \<open>LocalWorkspaceIntegrityBoundary\<close>), the writers of artifacts and reports, \<open>preparation.py\<close>, the parsing of
  arguments, the default factories, which only construct, and \<open>fake_model.py\<close>, a test double.
\<close>

end
